(* ===== verification/Prelude.thy ===== *)
theory Prelude
  imports Main
begin

text \<open>
  The vocabulary every component of the clearinghouse model shares.

  \<^item> Names for the program's scalar types. A wei amount is a Python \<open>Decimal\<close> holding a whole
    number (the columns are \<open>NUMERIC(78, 0)\<close>) and is an \<open>int\<close> here; additions and
    subtractions of \<open>Decimal\<close> are exact below \<open>10 ^ 28\<close> wei (ten thousand million ETH), and
    the one place where the 28-digit context can show, the retail price division, keeps its
    rounding (theory \<open>Decimals\<close>). A \<open>uuid.UUID\<close> is its canonical string. An aware
    \<open>datetime\<close> is its instant, in microseconds since the epoch.
  \<^item> The exceptions of the program as the values of \<open>error\<close>.
  \<^item> Operations on a database session: a function from the state to an exception or a value,
    and the new state. As in Python, an exception keeps the changes made before it, until
    somebody rolls the session back.
  \<^item> Tables as lists of rows in insertion order, with lookup and update.
\<close>

section \<open>Scalars and exceptions\<close>

type_synonym wei = int
type_synonym uuid = string
type_synonym timestamp = int

abbreviation seconds :: "int \<Rightarrow> timestamp" where
  "seconds n \<equiv> n * 1000000"

text \<open>Parsed JSON; a number with a fraction or an exponent keeps its text.\<close>

datatype json =
    JNull
  | JBool bool
  | JInt int
  | JFloat string
  | JStr string
  | JArr "json list"
  | JObj "(string \<times> json) list"

datatype error =
    InsufficientCredit wei wei
  | SpendCapExceeded wei wei
  | AccountNotApproved
  | NoRouteAvailable string string
  | NoSettlementDelegation string string
  | DaemonUnavailable string string
  | AuthorizationRefused string
  | WholesaleFundingUnverified string
  | EngagementClosed
  | IdempotencyKeyReuse
  | IdempotencyInProgress
  | IdempotencyOutcomeUnknown
  | ValueError string
  | KeyError string
  | TypeError string
  | OverflowError
  | ZeroDivisionError
  | AssertionError
  | RuntimeError string
  | IntegrityError
  | WholesaleFundingPolicyError string
  | BrokerWholesaleAccountError string
  | BrokerSettlementQueryError string
  | PaymentDaemonError string
  | SpendAuthorizationRefused string
  | SettlementVerificationError string
  | SessionSettlementVerificationFailed string
  | SettlementVerificationFailed string
  | SessionNotFound
  | InvalidSessionState
  | InvalidSessionTransition
  | InvalidSessionRequest string
  | ProtocolNotSupportedForSession string
  | RouteBindingMismatch "(string \<times> string) list"
  | RefillNotSupported
  | SessionNotOpen string
  | SuccessorAuthorizationUnresolved uuid string
  | ProtocolNotSupportedForJob string
  | TransportNotSupportedForJob string "string list"
  | JobNotFound
  | JobAlreadySettled string
  | WorkUnitMismatch string string
  | JobNotResolvable string "string option"
  | EmailAlreadyRegistered
  | InvalidCredentials
  | InvalidToken
  | EmailNotVerified
  | ApiKeyNotFound
  | EmailProviderError string
  | UnverifiedProviderEmail
  | WebhookSignatureError string
  | InvalidTrigger string
  | InvalidChannel string
  | PortalNotificationNotFound
  | UserAlreadyApproved
  | UserNotFound
  | EmailAlreadyVerified
  | InvalidOperatorRole
  | OperatorNotFound
  | OperatorEmailTaken
  | CannotRevokeSelf
  | CannotDemoteLastOwner
  | InvalidSdkApprovalStatus
  | SdkApprovalNotFound
  | SdkApprovalAlreadyExists
  | HTTPException int string
  | OpenClearinghouseError int string string "(string \<times> json) list"

section \<open>Operations: state, exceptions, sequencing\<close>

named_theorems op_simps "evaluation of operations"
named_theorems op_iff "when a composed operation returns, and when it raises"

type_synonym ('s, 'a) op = "'s \<Rightarrow> (error + 'a) \<times> 's"

definition ret :: "'a \<Rightarrow> ('s, 'a) op" where
  "ret x s = (Inr x, s)"

definition raise :: "error \<Rightarrow> ('s, 'a) op" where
  "raise e s = (Inl e, s)"

definition bind_op :: "('s, 'a) op \<Rightarrow> ('a \<Rightarrow> ('s, 'b) op) \<Rightarrow> ('s, 'b) op" where
  "bind_op m f s = (case m s of (Inl e, s') \<Rightarrow> (Inl e, s') | (Inr x, s') \<Rightarrow> f x s')"

definition gets :: "('s \<Rightarrow> 'a) \<Rightarrow> ('s, 'a) op" where
  "gets g s = (Inr (g s), s)"

definition modify :: "('s \<Rightarrow> 's) \<Rightarrow> ('s, unit) op" where
  "modify g s = (Inr (), g s)"

definition require :: "bool \<Rightarrow> error \<Rightarrow> ('s, unit) op" where
  "require c e s = (if c then (Inr (), s) else (Inl e, s))"

definition of_result :: "error + 'a \<Rightarrow> ('s, 'a) op" where
  "of_result r s = (r, s)"

definition catch_op :: "('s, 'a) op \<Rightarrow> (error \<Rightarrow> ('s, 'a) op) \<Rightarrow> ('s, 'a) op" where
  "catch_op m h s = (case m s of (Inl e, s') \<Rightarrow> h e s' | (Inr x, s') \<Rightarrow> (Inr x, s'))"

text \<open>A \<open>for\<close> loop over a list that threads an accumulator.\<close>

fun fold_op :: "('b \<Rightarrow> 'a \<Rightarrow> ('s, 'b) op) \<Rightarrow> 'b \<Rightarrow> 'a list \<Rightarrow> ('s, 'b) op" where
  "fold_op f acc [] = ret acc"
| "fold_op f acc (x # xs) = bind_op (f acc x) (\<lambda>acc'. fold_op f acc' xs)"

lemma bind_ret [simp]: "bind_op (ret x) f = f x"
  by (simp add: fun_eq_iff bind_op_def ret_def)

lemma bind_raise [simp]: "bind_op (raise e) f = raise e"
  by (simp add: fun_eq_iff bind_op_def raise_def)

lemma bind_gets [simp]: "bind_op (gets g) f s = f (g s) s"
  by (simp add: bind_op_def gets_def)

lemma bind_modify [simp]: "bind_op (modify g) f s = f () (g s)"
  by (simp add: bind_op_def modify_def)

lemma bind_require [simp]: "bind_op (require c e) f s = (if c then f () s else (Inl e, s))"
  by (simp add: bind_op_def require_def)

lemma bind_of_result [simp]:
  "bind_op (of_result r) f s = (case r of Inl e \<Rightarrow> (Inl e, s) | Inr x \<Rightarrow> f x s)"
  by (simp add: bind_op_def of_result_def split: sum.splits)

lemma bind_if: "bind_op (if c then m1 else m2) f = (if c then bind_op m1 f else bind_op m2 f)"
  by simp

lemma bind_assoc: "bind_op (bind_op m f) g = bind_op m (\<lambda>x. bind_op (f x) g)"
  by (simp add: fun_eq_iff bind_op_def split: prod.splits sum.splits)

lemma bind_Inr_iff [op_iff]:
  "bind_op m f s = (Inr y, s'') \<longleftrightarrow> (\<exists>x s'. m s = (Inr x, s') \<and> f x s' = (Inr y, s''))"
  by (auto simp: bind_op_def split: prod.splits sum.splits)

lemma bind_Inl_iff [op_iff]:
  "bind_op m f s = (Inl e, s'') \<longleftrightarrow>
     m s = (Inl e, s'') \<or> (\<exists>x s'. m s = (Inr x, s') \<and> f x s' = (Inl e, s''))"
  by (auto simp: bind_op_def split: prod.splits sum.splits)

lemma bind_eq_Inr: "m s = (Inr x, s') \<Longrightarrow> bind_op m f s = f x s'"
  by (simp add: bind_op_def)

lemma bind_eq_Inl: "m s = (Inl e, s') \<Longrightarrow> bind_op m f s = (Inl e, s')"
  by (simp add: bind_op_def)

lemma ret_iff [op_iff]: "ret x s = (r, s') \<longleftrightarrow> r = Inr x \<and> s' = s"
  by (auto simp: ret_def)

lemma raise_iff [op_iff]: "raise e s = (r, s') \<longleftrightarrow> r = Inl e \<and> s' = s"
  by (auto simp: raise_def)

lemma gets_iff [op_iff]: "gets g s = (r, s') \<longleftrightarrow> r = Inr (g s) \<and> s' = s"
  by (auto simp: gets_def)

lemma modify_iff [op_iff]: "modify g s = (r, s') \<longleftrightarrow> r = Inr () \<and> s' = g s"
  by (auto simp: modify_def)

lemma require_iff [op_iff]:
  "require c e s = (r, s') \<longleftrightarrow> s' = s \<and> r = (if c then Inr () else Inl e)"
  by (auto simp: require_def)

lemma of_result_iff [op_iff]: "of_result q s = (r, s') \<longleftrightarrow> r = q \<and> s' = s"
  by (auto simp: of_result_def)

lemmas op_run = ret_def raise_def gets_def modify_def require_def of_result_def

text \<open>Sequencing of pure code that can raise.\<close>

definition bind_r :: "error + 'a \<Rightarrow> ('a \<Rightarrow> error + 'b) \<Rightarrow> error + 'b" where
  "bind_r r f = (case r of Inl e \<Rightarrow> Inl e | Inr x \<Rightarrow> f x)"

lemma bind_r_simps [simp]: "bind_r (Inl e) f = Inl e" "bind_r (Inr x) f = f x"
  by (simp_all add: bind_r_def)

lemma bind_r_Inr_iff: "bind_r r f = Inr y \<longleftrightarrow> (\<exists>x. r = Inr x \<and> f x = Inr y)"
  by (cases r) auto

subsection \<open>What an operation keeps\<close>

text \<open>
  \<open>keeps I m\<close>: whenever \<open>I\<close> holds before \<open>m\<close>, it holds after it, also when \<open>m\<close> raises.
\<close>

definition keeps :: "('s \<Rightarrow> bool) \<Rightarrow> ('s, 'a) op \<Rightarrow> bool" where
  "keeps I m \<longleftrightarrow> (\<forall>s. I s \<longrightarrow> I (snd (m s)))"

lemma keepsI: "(\<And>s r s'. I s \<Longrightarrow> m s = (r, s') \<Longrightarrow> I s') \<Longrightarrow> keeps I m"
  by (simp add: keeps_def) (metis prod.collapse)

lemma keepsD: "keeps I m \<Longrightarrow> I s \<Longrightarrow> m s = (r, s') \<Longrightarrow> I s'"
  by (metis keeps_def snd_conv)

lemma keeps_ret [intro, simp]: "keeps I (ret x)"
  by (simp add: keeps_def ret_def)

lemma keeps_raise [intro, simp]: "keeps I (raise e)"
  by (simp add: keeps_def raise_def)

lemma keeps_gets [intro, simp]: "keeps I (gets g)"
  by (simp add: keeps_def gets_def)

lemma keeps_require [intro, simp]: "keeps I (require c e)"
  by (simp add: keeps_def require_def)

lemma keeps_of_result [intro, simp]: "keeps I (of_result r)"
  by (simp add: keeps_def of_result_def)

lemma keeps_modify: "(\<And>s. I s \<Longrightarrow> I (g s)) \<Longrightarrow> keeps I (modify g)"
  by (simp add: keeps_def modify_def)

lemma keeps_bind [intro]:
  assumes "keeps I m" and "\<And>x. keeps I (f x)"
  shows "keeps I (bind_op m f)"
  using assms by (fastforce simp: keeps_def bind_op_def split: prod.splits sum.splits)

lemma keeps_if [intro]: "(c \<Longrightarrow> keeps I m1) \<Longrightarrow> (\<not> c \<Longrightarrow> keeps I m2) \<Longrightarrow> keeps I (if c then m1 else m2)"
  by simp

lemma keeps_case_option [intro]:
  "keeps I m \<Longrightarrow> (\<And>x. keeps I (f x)) \<Longrightarrow> keeps I (case v of None \<Rightarrow> m | Some x \<Rightarrow> f x)"
  by (cases v) auto

lemma keeps_fold [intro]: "(\<And>acc x. keeps I (f acc x)) \<Longrightarrow> keeps I (fold_op f acc xs)"
  by (induction xs arbitrary: acc) auto

subsection \<open>Reachable states\<close>

text \<open>
  The contract of a component whose public operations are the steps of a transition system:
  an invariant that holds initially and that every step keeps holds in every reachable state.
\<close>

locale transition_system =
  fixes init :: "'s \<Rightarrow> bool"
    and step :: "'s \<Rightarrow> 's \<Rightarrow> bool"
    and inv :: "'s \<Rightarrow> bool"
  assumes inv_init: "init s \<Longrightarrow> inv s"
    and inv_step: "inv s \<Longrightarrow> step s s' \<Longrightarrow> inv s'"
begin

lemma inv_star: "step\<^sup>*\<^sup>* s s' \<Longrightarrow> inv s \<Longrightarrow> inv s'"
  by (induction rule: rtranclp_induct) (auto intro: inv_step)

lemma inv_reachable: "init s \<Longrightarrow> step\<^sup>*\<^sup>* s s' \<Longrightarrow> inv s'"
  using inv_star inv_init by blast

end

text \<open>
  The contract of a table whose rows only move forward: a step never loses a row and moves it along
  an order, so every later state has the row, at or after where it was.
\<close>

locale monotone_rows = transition_system init step inv
  for init :: "'s \<Rightarrow> bool" and step :: "'s \<Rightarrow> 's \<Rightarrow> bool" and inv :: "'s \<Rightarrow> bool" +
  fixes row :: "'s \<Rightarrow> 'k \<Rightarrow> 'r option"
    and le :: "'r \<Rightarrow> 'r \<Rightarrow> bool"
  assumes le_refl: "le r r"
    and le_trans: "le q r \<Longrightarrow> le r t \<Longrightarrow> le q t"
    and row_step: "inv s \<Longrightarrow> step s s' \<Longrightarrow> row s k = Some r \<Longrightarrow> \<exists>r'. row s' k = Some r' \<and> le r r'"
begin

lemma row_star:
  assumes "step\<^sup>*\<^sup>* s s'" and "inv s" and "row s k = Some r"
  shows "\<exists>r'. row s' k = Some r' \<and> le r r'"
  using assms
proof (induction rule: rtranclp_induct)
  case base
  then show ?case using le_refl by blast
next
  case (step y z)
  then obtain r1 where "row y k = Some r1" "le r r1" by blast
  moreover have "inv y" using inv_star step by blast
  ultimately show ?case using row_step step.hyps(2) le_trans by meson
qed

end

section \<open>Transactions\<close>

text \<open>
  A session sees its own uncommitted changes (\<open>working\<close>); the other sessions see what was
  committed (\<open>durable\<close>).
\<close>

record 'd txn =
  working :: 'd
  durable :: 'd

definition commit :: "('d txn, unit) op" where
  "commit = modify (\<lambda>s. s\<lparr>durable := working s\<rparr>)"

definition rollback :: "('d txn, unit) op" where
  "rollback = modify (\<lambda>s. s\<lparr>working := durable s\<rparr>)"

definition on_db :: "('d, 'a) op \<Rightarrow> ('d txn, 'a) op" where
  "on_db m s = (case m (working s) of (r, w) \<Rightarrow> (r, s\<lparr>working := w\<rparr>))"

definition read_db :: "('d \<Rightarrow> 'a) \<Rightarrow> ('d txn, 'a) op" where
  "read_db f = gets (\<lambda>s. f (working s))"

definition write_db :: "('d \<Rightarrow> 'd) \<Rightarrow> ('d txn, unit) op" where
  "write_db g = modify (\<lambda>s. s\<lparr>working := g (working s)\<rparr>)"

lemma bind_read_db [simp]: "bind_op (read_db f) k s = k (f (working s)) s"
  by (simp add: read_db_def)

lemma bind_write_db [simp]: "bind_op (write_db g) k s = k () (s\<lparr>working := g (working s)\<rparr>)"
  by (simp add: write_db_def)

lemma bind_commit [simp]: "bind_op commit k s = k () (s\<lparr>durable := working s\<rparr>)"
  by (simp add: commit_def)

lemma bind_rollback [simp]: "bind_op rollback k s = k () (s\<lparr>working := durable s\<rparr>)"
  by (simp add: rollback_def)

lemma on_db_iff [op_iff]:
  "on_db m s = (r, s') \<longleftrightarrow> (\<exists>w. m (working s) = (r, w) \<and> s' = s\<lparr>working := w\<rparr>)"
  by (auto simp: on_db_def split: prod.splits)

lemma commit_iff [op_iff]: "commit s = (r, s') \<longleftrightarrow> r = Inr () \<and> s' = s\<lparr>durable := working s\<rparr>"
  by (simp add: commit_def op_iff)

lemma rollback_iff [op_iff]: "rollback s = (r, s') \<longleftrightarrow> r = Inr () \<and> s' = s\<lparr>working := durable s\<rparr>"
  by (simp add: rollback_def op_iff)

section \<open>Tables\<close>

definition update_where :: "('r \<Rightarrow> bool) \<Rightarrow> ('r \<Rightarrow> 'r) \<Rightarrow> 'r list \<Rightarrow> 'r list" where
  "update_where p f rows = map (\<lambda>r. if p r then f r else r) rows"

lemma update_where_simps [simp]:
  "update_where p f [] = []"
  "update_where p f (r # rows) = (if p r then f r else r) # update_where p f rows"
  by (simp_all add: update_where_def)

lemma update_where_append [simp]:
  "update_where p f (xs @ ys) = update_where p f xs @ update_where p f ys"
  by (simp add: update_where_def)

lemma length_update_where [simp]: "length (update_where p f rows) = length rows"
  by (simp add: update_where_def)

lemma map_update_where [simp]:
  "(\<And>r. p r \<Longrightarrow> g (f r) = g r) \<Longrightarrow> map g (update_where p f rows) = map g rows"
  by (induction rows) auto

lemma set_update_where: "set (update_where p f rows) = (\<lambda>r. if p r then f r else r) ` set rows"
  by (simp add: update_where_def)

lemma update_where_id: "(\<And>r. r \<in> set rows \<Longrightarrow> \<not> p r) \<Longrightarrow> update_where p f rows = rows"
  by (induction rows) auto

lemma find_append: "find p (xs @ ys) = (case find p xs of None \<Rightarrow> find p ys | Some r \<Rightarrow> Some r)"
  by (induction xs) auto

lemma find_SomeD: "find p rows = Some r \<Longrightarrow> r \<in> set rows \<and> p r"
  by (induction rows) (auto split: if_splits)

lemma find_NoneD: "find p rows = None \<Longrightarrow> r \<in> set rows \<Longrightarrow> \<not> p r"
  by (auto simp: find_None_iff)

lemma find_update_where_same:
  "(\<And>r. p r \<Longrightarrow> p (f r)) \<Longrightarrow> find p (update_where p f rows) = map_option f (find p rows)"
  by (induction rows) auto

lemma find_update_where_other:
  "(\<And>r. p r \<Longrightarrow> q (f r) = q r) \<Longrightarrow> (\<And>r. p r \<Longrightarrow> \<not> q r) \<Longrightarrow> find q (update_where p f rows) = find q rows"
  by (induction rows) auto

lemma find_key_unique:
  "distinct (map key rows) \<Longrightarrow> r \<in> set rows \<Longrightarrow> find (\<lambda>x. key x = key r) rows = Some r"
  by (induction rows) (auto simp: rev_image_eqI)

lemma find_cong_pred: "(\<And>r. r \<in> set rows \<Longrightarrow> p r = q r) \<Longrightarrow> find p rows = find q rows"
  by (induction rows) auto

lemma sum_list_update_where:
  fixes w :: "'r \<Rightarrow> int"
  assumes "distinct (map key rows)" and "find (\<lambda>r. key r = k) rows = Some r0"
  shows "sum_list (map w (update_where (\<lambda>r. key r = k) f rows)) =
         sum_list (map w rows) - w r0 + w (f r0)"
  using assms
proof (induction rows)
  case Nil
  then show ?case by simp
next
  case (Cons r rows)
  show ?case
  proof (cases "key r = k")
    case True
    with Cons.prems have "update_where (\<lambda>r. key r = k) f rows = rows"
      by (intro update_where_id) (force simp: image_iff)
    with True Cons.prems show ?thesis by simp
  next
    case False
    with Cons show ?thesis by simp
  qed
qed

end
