(* ===== verification/Decimals.thy ===== *)
theory Decimals
  imports Prelude
begin

text \<open>
  What the program uses of Python's \<open>decimal\<close> module beyond exact integer arithmetic: the
  default context keeps 28 significant digits and rounds half to even, so a product or a
  quotient of \<open>Decimal\<close>s can be inexact. The retail price policies of
  \<open>domains/billing/service.py\<close> multiply, divide and then round up; \<open>dec_mul\<close> and
  \<open>dec_div_ceiling\<close> are those steps on non-negative whole amounts, and
  \<open>dec_div_ceiling_exact\<close> says below which amount the result is the exact ceiling.
\<close>

section \<open>Significant digits and rounding half to even\<close>

fun ndigits :: "nat \<Rightarrow> nat" where
  "ndigits n = (if n = 0 then 0 else Suc (ndigits (n div 10)))"

declare ndigits.simps [simp del]

definition round_half_even :: "nat \<Rightarrow> nat \<Rightarrow> nat" where
  "round_half_even n d =
     (let q = n div d; r = n mod d
      in if 2 * r < d then q else if d < 2 * r then q + 1 else if even q then q else q + 1)"

definition dec_norm :: "nat \<Rightarrow> nat" where
  "dec_norm n =
     (if ndigits n \<le> 28 then n
      else let k = ndigits n - 28 in round_half_even n (10 ^ k) * 10 ^ k)"

definition dec_mul :: "nat \<Rightarrow> nat \<Rightarrow> nat" where
  "dec_mul a b = dec_norm (a * b)"

text \<open>
  \<open>(n / d).to_integral_value(rounding=ROUND_CEILING)\<close> for a positive \<open>d\<close>: the quotient is
  rounded to 28 significant digits first. A quotient strictly between 0 and 1 keeps a non-zero
  leading digit, so its ceiling is 1.
\<close>

definition dec_div_ceiling :: "nat \<Rightarrow> nat \<Rightarrow> nat" where
  "dec_div_ceiling n d =
     (let q = n div d; len = ndigits q
      in if n = 0 then 0
         else if q = 0 then 1
         else if len \<le> 28
         then let k = 28 - len; c = round_half_even (n * 10 ^ k) d
              in (c + 10 ^ k - 1) div 10 ^ k
         else let k = len - 28 in round_half_even n (d * 10 ^ k) * 10 ^ k)"

definition ceil_div :: "nat \<Rightarrow> nat \<Rightarrow> nat" where
  "ceil_div n d = (n + d - 1) div d"

section \<open>Facts\<close>

lemma ndigits_bounds: "0 < n \<Longrightarrow> 10 ^ (ndigits n - 1) \<le> n \<and> n < 10 ^ ndigits n"
proof (induction n rule: ndigits.induct)
  case (1 n)
  show ?case
  proof (cases "n < 10")
    case True
    with 1(2) show ?thesis by (simp add: ndigits.simps [of n] ndigits.simps [of 0])
  next
    case False
    then have pos: "0 < n div 10" by simp
    with 1(1) False have ih: "10 ^ (ndigits (n div 10) - 1) \<le> n div 10"
      "n div 10 < 10 ^ ndigits (n div 10)" by auto
    have nd: "ndigits n = Suc (ndigits (n div 10))"
      using False by (subst ndigits.simps) simp
    have "ndigits (n div 10) \<noteq> 0"
      using pos by (subst ndigits.simps) simp
    then obtain m where m: "ndigits (n div 10) = Suc m" by (cases "ndigits (n div 10)") auto
    from ih m have "10 ^ m \<le> n div 10" "n div 10 < 10 ^ Suc m" by auto
    then have "10 ^ m * 10 \<le> n" "n < 10 ^ Suc m * 10" by linarith+
    with nd m show ?thesis by (simp add: mult.commute)
  qed
qed

lemma ndigits_le: "n < 10 ^ k \<Longrightarrow> ndigits n \<le> k"
proof (cases "n = 0")
  case True
  then show ?thesis by (simp add: ndigits.simps)
next
  case False
  assume "n < 10 ^ k"
  with False ndigits_bounds [of n] have "(10::nat) ^ (ndigits n - 1) < 10 ^ k" by linarith
  then have "ndigits n - 1 < k" by simp
  with False show ?thesis by simp
qed

lemma dec_norm_exact: "n < 10 ^ 28 \<Longrightarrow> dec_norm n = n"
  using ndigits_le [of n 28] by (simp add: dec_norm_def)

lemma dec_mul_exact: "a * b < 10 ^ 28 \<Longrightarrow> dec_mul a b = a * b"
  by (simp add: dec_mul_def dec_norm_exact)

lemma ceil_div_parts:
  assumes "0 < d"
  shows "ceil_div n d = (if n mod d = 0 then n div d else n div d + 1)"
proof -
  have n: "n = d * (n div d) + n mod d" by simp
  show ?thesis
  proof (cases "n mod d = 0")
    case True
    then have "n + d - 1 = d * (n div d) + (d - 1)" using n assms by linarith
    then have "ceil_div n d = (d * (n div d) + (d - 1)) div d" by (simp add: ceil_div_def)
    also have "\<dots> = n div d" using assms by (subst div_mult_self4) auto
    finally show ?thesis using True by simp
  next
    case False
    then have "0 < n" by (cases n) auto
    with False have "n + d - 1 = d * (n div d + 1) + (n mod d - 1)"
      using n assms unfolding distrib_left by linarith
    then have "ceil_div n d = (d * (n div d + 1) + (n mod d - 1)) div d"
      by (simp only: ceil_div_def)
    also have "\<dots> = n div d + 1" using assms mod_less_divisor [OF assms, of n]
      by (subst div_mult_self4) (auto simp: div_less)
    finally show ?thesis using False by simp
  qed
qed

text \<open>The rounded quotient stays strictly above the floor and at most one below the ceiling.\<close>

lemma round_half_even_range:
  assumes "0 < d" "d < P" "0 < r" "r < d"
  shows "q * P + 1 \<le> round_half_even ((q * d + r) * P) d"
    and "round_half_even ((q * d + r) * P) d \<le> q * P + P"
proof -
  have split: "(q * d + r) * P = r * P + (q * P) * d" by (simp add: algebra_simps)
  have dv: "((q * d + r) * P) div d = q * P + (r * P) div d"
    unfolding split using assms(1) by (subst div_mult_self1) auto
  have "1 * P \<le> r * P" using assms(3) by (intro mult_le_mono) auto
  then have "d \<le> r * P" using assms(2) by linarith
  then have lo: "1 \<le> (r * P) div d" using assms(1) by (simp add: div_greater_zero_iff Suc_leI)
  have "r * P < d * P" using assms by simp
  then have hi: "(r * P) div d < P" using assms(1) by (simp add: less_mult_imp_div_less mult.commute)
  have "((q * d + r) * P) div d \<le> round_half_even ((q * d + r) * P) d"
    and "round_half_even ((q * d + r) * P) d \<le> ((q * d + r) * P) div d + 1"
    by (auto simp: round_half_even_def Let_def)
  with dv lo hi show "q * P + 1 \<le> round_half_even ((q * d + r) * P) d"
    and "round_half_even ((q * d + r) * P) d \<le> q * P + P" by linarith+
qed

lemma dec_div_ceiling_exact:
  assumes "0 < d" "n < 10 ^ 27"
  shows "dec_div_ceiling n d = ceil_div n d"
proof (cases "n div d = 0")
  case True
  then have "n < d" using assms(1) by (simp add: div_eq_0_iff)
  with True show ?thesis
    by (auto simp: dec_div_ceiling_def ceil_div_parts [OF assms(1)])
next
  case False
  let ?q = "n div d" and ?r = "n mod d" and ?len = "ndigits (n div d)"
  have qpos: "0 < ?q" using False by simp
  have "?q \<le> n" by (rule div_le_dividend)
  with assms(2) have "?q < 10 ^ 27" by linarith
  then have len: "?len \<le> 27" by (rule ndigits_le)
  have len1: "1 \<le> ?len" using False by (subst ndigits.simps) simp
  define P :: nat where "P = 10 ^ (28 - ?len)"
  have n: "n = ?q * d + ?r" by simp
  have "d * 10 ^ (?len - 1) \<le> d * ?q"
    using ndigits_bounds [OF qpos] by (intro mult_le_mono) auto
  also have "\<dots> \<le> n" by simp
  also have "\<dots> < 10 ^ (28 - ?len) * 10 ^ (?len - 1)"
    using assms(2) len len1 by (simp flip: power_add)
  finally have dP: "d < P" by (simp add: P_def)
  have unfold: "dec_div_ceiling n d = ceil_div (round_half_even (n * P) d) P"
    using False len by (auto simp: dec_div_ceiling_def Let_def P_def ceil_div_def)
  have P0: "0 < P" using dP by simp
  show ?thesis
  proof (cases "?r = 0")
    case True
    then obtain m where m: "n = d * m" by (metis dvd_def mod_eq_0_iff_dvd)
    then have "n * P = d * (m * P)" and "?q = m" using assms(1) by simp_all
    then have "round_half_even (n * P) d = ?q * P"
      using assms(1) by (simp only: round_half_even_def Let_def) simp
    then show ?thesis using True P0 by (simp add: unfold ceil_div_parts assms(1))
  next
    case False
    let ?c = "round_half_even ((?q * d + ?r) * P) d"
    have "?r < d" using assms(1) by simp
    then have c: "?q * P + 1 \<le> ?c" "?c \<le> ?q * P + P"
      using round_half_even_range [of d P ?r ?q] assms(1) dP False by auto
    have "ceil_div ?c P = ?q + 1"
    proof -
      have "?c + P - 1 = (?q + 1) * P + (?c - (?q * P + 1))" using c P0 by (simp add: algebra_simps)
      moreover have "?c - (?q * P + 1) < P" using c P0 by linarith
      ultimately show ?thesis using P0 by (simp only: ceil_div_def) (subst div_mult_self3, auto)
    qed
    then show ?thesis using n False by (simp add: unfold ceil_div_parts assms(1))
  qed
qed

end
