(* ===== verification/Encoding.thy ===== *)
theory Encoding
  imports Prelude "HOL-Library.Word"
begin

text \<open>
  The textual and binary encodings the clearinghouse reads and writes: decimal strings
  (\<open>providers/wire.py\<close>, the \<open>UInt64Decimal\<close> of \<open>providers/registry_daemon/client.py\<close>),
  hex strings, the daemon's big-endian \<open>BigUInt\<close>, account labels and settlement-domain
  identities (\<open>providers/payment_daemon/client.py\<close>, \<open>domains/wholesale/types.py\<close>) and
  Ethereum addresses. Every encoder comes with its round trip.
\<close>

type_synonym byte = "8 word"
type_synonym bytes = "byte list"

section \<open>Decimal strings\<close>

definition digit_char :: "nat \<Rightarrow> char" where
  "digit_char d = char_of (48 + d)"

fun str_nat :: "nat \<Rightarrow> string" where
  "str_nat n = (if n < 10 then [digit_char n] else str_nat (n div 10) @ [digit_char (n mod 10)])"

declare str_nat.simps [simp del]

text \<open>Python's \<open>str\<close> of an int.\<close>

definition str_int :: "int \<Rightarrow> string" where
  "str_int i = (if i < 0 then CHR ''-'' # str_nat (nat (- i)) else str_nat (nat i))"

definition is_digit :: "char \<Rightarrow> bool" where
  "is_digit c \<longleftrightarrow> 48 \<le> (of_char c :: nat) \<and> (of_char c :: nat) \<le> 57"

definition digit_val :: "char \<Rightarrow> nat" where
  "digit_val c = of_char c - 48"

text \<open>\<open>int(s)\<close> of a string of ASCII digits.\<close>

definition dec_val :: "string \<Rightarrow> nat" where
  "dec_val s = foldl (\<lambda>acc c. acc * 10 + digit_val c) 0 s"

text \<open>The exact integer string of a wei amount on the wire.\<close>

definition wei_to_wire :: "wei \<Rightarrow> string" where
  "wei_to_wire value = str_int value"

datatype pyvalue = PyBool bool | PyInt int | PyStr string | PyOther

definition UINT64_MAX :: int where
  "UINT64_MAX = 2 ^ 64 - 1"

definition parse_uint64_decimal :: "pyvalue \<Rightarrow> error + int" where
  "parse_uint64_decimal v =
     (case v of
        PyBool _ \<Rightarrow> Inl (ValueError ''uint64 decimal must not be boolean'')
      | PyInt i \<Rightarrow> Inr i
      | PyStr s \<Rightarrow>
          (if s \<noteq> [] \<and> list_all is_digit s
           then if s \<noteq> ''0'' \<and> take 1 s = ''0''
                then Inl (ValueError ''uint64 decimal must be canonical'')
                else Inr (int (dec_val s))
           else Inl (ValueError ''uint64 decimal must be an integer or canonical decimal string''))
      | PyOther \<Rightarrow>
          Inl (ValueError ''uint64 decimal must be an integer or canonical decimal string''))"

text \<open>The annotated type: parsed, then \<open>Field(ge=0, le=_UINT64_MAX)\<close>.\<close>

definition UInt64Decimal :: "pyvalue \<Rightarrow> error + int" where
  "UInt64Decimal v =
     (case parse_uint64_decimal v of
        Inl e \<Rightarrow> Inl e
      | Inr i \<Rightarrow> if 0 \<le> i \<and> i \<le> UINT64_MAX then Inr i else Inl (ValueError ''out of range''))"

lemma of_char_digit_char: "d < 10 \<Longrightarrow> (of_char (digit_char d) :: nat) = 48 + d"
  by (simp add: digit_char_def)

lemma digit_char_props [simp]:
  "d < 10 \<Longrightarrow> digit_val (digit_char d) = d"
  "d < 10 \<Longrightarrow> is_digit (digit_char d)"
  by (simp_all add: digit_val_def is_digit_def of_char_digit_char)

lemma dec_val_simps:
  "dec_val [] = 0"
  "dec_val (s @ [c]) = dec_val s * 10 + digit_val c"
  by (simp_all add: dec_val_def)

lemma dec_val_str_nat [simp]: "dec_val (str_nat n) = n"
proof (induction n rule: str_nat.induct)
  case (1 n)
  show ?case
  proof (cases "n < 10")
    case True
    then show ?thesis
      using dec_val_simps(2) [of "[]" "digit_char n"] by (subst str_nat.simps) (simp add: dec_val_simps)
  next
    case False
    with 1 show ?thesis by (subst str_nat.simps) (simp add: dec_val_simps)
  qed
qed

lemma str_nat_digits: "list_all is_digit (str_nat n) \<and> str_nat n \<noteq> []"
proof (induction n rule: str_nat.induct)
  case (1 n)
  then show ?case by (subst (1 2) str_nat.simps) auto
qed

lemma str_nat_canonical: "0 < n \<Longrightarrow> take 1 (str_nat n) \<noteq> ''0''"
proof (induction n rule: str_nat.induct)
  case (1 n)
  show ?case
  proof (cases "n < 10")
    case True
    then have "(of_char (digit_char n) :: nat) \<noteq> of_char (CHR ''0'')"
      using 1(2) by (simp add: of_char_digit_char)
    then have "digit_char n \<noteq> CHR ''0''" by metis
    with True show ?thesis by (subst str_nat.simps) simp
  next
    case False
    with 1(1) have "take 1 (str_nat (n div 10)) \<noteq> ''0''" by simp
    moreover have "str_nat (n div 10) \<noteq> []" using str_nat_digits by blast
    ultimately show ?thesis using False
      by (subst str_nat.simps) (cases "str_nat (n div 10)", auto)
  qed
qed

lemma str_nat_inject [simp]: "str_nat m = str_nat n \<longleftrightarrow> m = n"
  by (metis dec_val_str_nat)

lemma str_nat_not_minus: "take 1 (str_nat n) \<noteq> ''-''"
  using str_nat_digits [of n] by (cases "str_nat n") (auto simp: is_digit_def)

lemma str_nat_no_sign [simp]:
  "CHR ''-'' # s \<noteq> str_nat n"
  "str_nat n \<noteq> CHR ''-'' # s"
  using str_nat_not_minus [of n] by (cases "str_nat n"; auto)+

lemma str_int_inject [simp]: "str_int i = str_int j \<longleftrightarrow> i = j"
  by (auto simp: str_int_def)

section \<open>Hex strings\<close>

definition hex_char :: "nat \<Rightarrow> char" where
  "hex_char d = (if d < 10 then char_of (48 + d) else char_of (87 + d))"

text \<open>The value of one hex digit; both cases are accepted, as \<open>bytes.fromhex\<close> does.\<close>

definition hex_val :: "char \<Rightarrow> nat option" where
  "hex_val c =
     (let n = (of_char c :: nat)
      in if 48 \<le> n \<and> n \<le> 57 then Some (n - 48)
         else if 97 \<le> n \<and> n \<le> 102 then Some (n - 87)
         else if 65 \<le> n \<and> n \<le> 70 then Some (n - 55)
         else None)"

definition is_lower_hex :: "char \<Rightarrow> bool" where
  "is_lower_hex c \<longleftrightarrow> (let n = (of_char c :: nat) in 48 \<le> n \<and> n \<le> 57 \<or> 97 \<le> n \<and> n \<le> 102)"

definition is_space :: "char \<Rightarrow> bool" where
  "is_space c \<longleftrightarrow> (let n = (of_char c :: nat) in n = 32 \<or> 9 \<le> n \<and> n \<le> 13)"

text \<open>\<open>bytes.hex()\<close>.\<close>

definition hex :: "bytes \<Rightarrow> string" where
  "hex bs = concat (map (\<lambda>b. [hex_char (unat b div 16), hex_char (unat b mod 16)]) bs)"

text \<open>\<open>bytes.fromhex\<close>: ASCII white space between bytes is skipped, anything else raises.\<close>

fun fromhex :: "string \<Rightarrow> bytes option" where
  "fromhex [] = Some []"
| "fromhex [c] = (if is_space c then Some [] else None)"
| "fromhex (c # d # cs) =
     (if is_space c then fromhex (d # cs)
      else case (hex_val c, hex_val d) of
             (Some h, Some l) \<Rightarrow> map_option (Cons (word_of_nat (16 * h + l))) (fromhex cs)
           | _ \<Rightarrow> None)"

lemma hex_char_props [simp]:
  assumes "d < 16"
  shows "hex_val (hex_char d) = Some d" "\<not> is_space (hex_char d)" "is_lower_hex (hex_char d)"
  using assms by (auto simp: hex_val_def hex_char_def is_space_def is_lower_hex_def Let_def)

lemma hex_simps [simp]:
  "hex [] = []"
  "hex (b # bs) = hex_char (unat b div 16) # hex_char (unat b mod 16) # hex bs"
  by (simp_all add: hex_def)

lemma length_hex [simp]: "length (hex bs) = 2 * length bs"
  by (induction bs) auto

lemma unat_byte_lt: "unat (b :: byte) < 256"
  using unsigned_less [of b, where 'a = nat] by simp

lemma fromhex_hex: "fromhex (hex bs) = Some bs"
proof (induction bs)
  case Nil
  then show ?case by simp
next
  case (Cons b bs)
  have "unat b div 16 < 16" using unat_byte_lt [of b] by (simp add: less_mult_imp_div_less)
  with Cons show ?case by simp
qed

lemma hex_lower: "list_all is_lower_hex (hex bs)"
proof (induction bs)
  case (Cons b bs)
  have "unat b div 16 < 16" using unat_byte_lt [of b] by (simp add: less_mult_imp_div_less)
  with Cons show ?case by simp
qed simp

section \<open>The daemon's big-endian unsigned integers\<close>

fun bit_length :: "nat \<Rightarrow> nat" where
  "bit_length n = (if n = 0 then 0 else Suc (bit_length (n div 2)))"

declare bit_length.simps [simp del]

text \<open>\<open>n.to_bytes(length, "big")\<close>, for an \<open>n\<close> that fits.\<close>

fun to_bytes_big :: "nat \<Rightarrow> nat \<Rightarrow> bytes" where
  "to_bytes_big 0 n = []"
| "to_bytes_big (Suc l) n = to_bytes_big l (n div 256) @ [word_of_nat (n mod 256)]"

definition from_bytes_big :: "bytes \<Rightarrow> nat" where
  "from_bytes_big bs = foldl (\<lambda>acc b. acc * 256 + unat b) 0 bs"

definition int_to_biguint_bytes :: "int \<Rightarrow> error + bytes" where
  "int_to_biguint_bytes value =
     (if value < 0 then Inl (ValueError ''BigUInt is unsigned'')
      else if value = 0 then Inr []
      else let n = nat value; len = (bit_length n + 7) div 8 in Inr (to_bytes_big len n))"

definition biguint_bytes_to_decimal :: "bytes \<Rightarrow> wei" where
  "biguint_bytes_to_decimal raw = (if raw = [] then 0 else int (from_bytes_big raw))"

lemma bit_length_bound: "n < 2 ^ bit_length n"
proof (induction n rule: bit_length.induct)
  case (1 n)
  show ?case
  proof (cases "n = 0")
    case False
    with 1 have "n div 2 < 2 ^ bit_length (n div 2)" by simp
    with False show ?thesis by (subst bit_length.simps) simp
  qed (simp add: bit_length.simps)
qed

lemma from_bytes_snoc [simp]:
  "from_bytes_big [] = 0"
  "from_bytes_big (bs @ [b]) = from_bytes_big bs * 256 + unat b"
  by (simp_all add: from_bytes_big_def)

lemma from_to_bytes: "n < 256 ^ l \<Longrightarrow> from_bytes_big (to_bytes_big l n) = n"
proof (induction l arbitrary: n)
  case 0
  then show ?case by simp
next
  case (Suc l)
  then have "n div 256 < 256 ^ l" by (simp add: less_mult_imp_div_less mult.commute)
  moreover have "unat (word_of_nat (n mod 256) :: byte) = n mod 256"
    by (simp add: unat_of_nat)
  ultimately show ?case using Suc.IH by simp
qed

lemma length_to_bytes [simp]: "length (to_bytes_big l n) = l"
  by (induction l arbitrary: n) auto

section \<open>Account labels, settlement domains and addresses\<close>

definition is_label_char :: "char \<Rightarrow> bool" where
  "is_label_char c \<longleftrightarrow>
     (let n = (of_char c :: nat)
      in 65 \<le> n \<and> n \<le> 90 \<or> 97 \<le> n \<and> n \<le> 122 \<or> 48 \<le> n \<and> n \<le> 57 \<or> c \<in> set ''._:-'')"

definition validate_wholesale_account_id :: "string \<Rightarrow> error + unit" where
  "validate_wholesale_account_id value =
     (if 1 \<le> length value \<and> length value \<le> 128 \<and> list_all is_label_char value then Inr ()
      else Inl (ValueError ''wholesale_account_id must be 1..128 ASCII account-label characters''))"

text \<open>\<open>re.compile(r"^0x[0-9a-f]{64}$").fullmatch\<close>, then a non-zero value.\<close>

definition domain_pattern :: "string \<Rightarrow> bool" where
  "domain_pattern value \<longleftrightarrow>
     take 2 value = ''0x'' \<and> length value = 66 \<and> list_all is_lower_hex (drop 2 value)"

definition hex_digits_val :: "string \<Rightarrow> nat" where
  "hex_digits_val s = foldl (\<lambda>acc c. acc * 16 + the (hex_val c)) 0 s"

definition settlement_domain_id :: "string \<Rightarrow> error + string" where
  "settlement_domain_id value =
     (if \<not> domain_pattern value \<or> hex_digits_val (drop 2 value) = 0
      then Inl (ValueError ''settlement_domain_id must be a nonzero lowercase 0x-prefixed uint256'')
      else Inr value)"

definition removeprefix_0x :: "string \<Rightarrow> string" where
  "removeprefix_0x s = (if take 2 s = ''0x'' then drop 2 s else s)"

definition eth_address_to_bytes :: "string \<Rightarrow> error + bytes" where
  "eth_address_to_bytes addr =
     (let stripped = removeprefix_0x addr
      in if length stripped \<noteq> 40 then Inl (ValueError ''expected 40-char hex address'')
         else case fromhex stripped of
                None \<Rightarrow> Inl (ValueError ''non-hexadecimal number found in fromhex()'')
              | Some bs \<Rightarrow> Inr bs)"

definition address_of_bytes :: "bytes \<Rightarrow> string" where
  "address_of_bytes bs = ''0x'' @ hex bs"

lemma eth_address_roundtrip:
  "length bs = 20 \<Longrightarrow> eth_address_to_bytes (address_of_bytes bs) = Inr bs"
  by (simp add: eth_address_to_bytes_def address_of_bytes_def removeprefix_0x_def fromhex_hex)

text \<open>Python's \<open>str.lower\<close> on ASCII.\<close>

definition lower_char :: "char \<Rightarrow> char" where
  "lower_char c =
     (let n = (of_char c :: nat) in if 65 \<le> n \<and> n \<le> 90 then char_of (n + 32) else c)"

definition lower :: "string \<Rightarrow> string" where
  "lower s = map lower_char s"

lemma lower_idem [simp]: "lower (lower s) = lower s"
  by (auto simp: lower_def lower_char_def Let_def)

section \<open>Properties\<close>

lemma biguint_decode: "int_to_biguint_bytes v = Inr raw \<Longrightarrow> biguint_bytes_to_decimal raw = v"
proof (cases "v \<le> 0")
  case True
  moreover assume "int_to_biguint_bytes v = Inr raw"
  ultimately show ?thesis
    by (auto simp: int_to_biguint_bytes_def biguint_bytes_to_decimal_def split: if_splits)
next
  case False
  let ?n = "nat v" and ?len = "(bit_length (nat v) + 7) div 8"
  have "?n < 2 ^ bit_length ?n" by (rule bit_length_bound)
  also have "(2::nat) ^ bit_length ?n \<le> 2 ^ (8 * ?len)" by (intro power_increasing) auto
  also have "(2::nat) ^ (8 * ?len) = 256 ^ ?len" by (simp add: power_mult)
  finally have dec: "from_bytes_big (to_bytes_big ?len ?n) = ?n" by (rule from_to_bytes)
  then have "to_bytes_big ?len ?n \<noteq> []" using False by auto
  moreover assume "int_to_biguint_bytes v = Inr raw"
  ultimately show ?thesis using False dec
    by (auto simp: int_to_biguint_bytes_def biguint_bytes_to_decimal_def Let_def)
qed

text \<open>Every unsigned integer the clearinghouse encodes for the payer daemon decodes to
  itself (no overflow, no truncation), and the encoding has the shortest length.\<close>

theorem biguint_roundtrip:
  "0 \<le> v \<Longrightarrow> \<exists>raw. int_to_biguint_bytes v = Inr raw \<and> biguint_bytes_to_decimal raw = v
     \<and> length raw = (bit_length (nat v) + 7) div 8"
  using biguint_decode [of v]
  by (cases "v = 0") (auto simp: int_to_biguint_bytes_def Let_def bit_length.simps [of 0])

theorem biguint_roundtrip_witness:
  "\<exists>raw. int_to_biguint_bytes 300 = Inr raw \<and> biguint_bytes_to_decimal raw = 300
     \<and> length raw = 2"
  using biguint_roundtrip [of 300] by (simp add: bit_length.simps)

text \<open>A uint64 survives the JSON boundary: the decimal string the clearinghouse writes
  parses back to the same number, for every value in range, and leading zeros are refused.\<close>

theorem uint64_decimal_roundtrip:
  assumes "0 \<le> i" and "i \<le> UINT64_MAX"
  shows "UInt64Decimal (PyStr (str_int i)) = Inr i
    \<and> (\<exists>e. UInt64Decimal (PyStr (CHR ''0'' # str_int i)) = Inl e)"
proof -
  have s: "str_int i = str_nat (nat i)" using assms by (simp add: str_int_def)
  have d: "list_all is_digit (str_nat (nat i))" "str_nat (nat i) \<noteq> []"
    using str_nat_digits by auto
  have zero: "str_nat 0 = ''0''"
    by (simp add: str_nat.simps digit_char_def) code_simp
  have "str_nat (nat i) = ''0'' \<or> take 1 (str_nat (nat i)) \<noteq> ''0''"
    using str_nat_canonical [of "nat i"] zero by (cases "nat i = 0") auto
  then show ?thesis
    using assms d by (auto simp: UInt64Decimal_def parse_uint64_decimal_def s is_digit_def)
qed

theorem uint64_decimal_roundtrip_witness:
  "UInt64Decimal (PyStr (str_int 86400)) = Inr 86400"
  using uint64_decimal_roundtrip [of 86400] by (simp add: UINT64_MAX_def)

end
