(* ===== verification/Billing.thy ===== *)
theory Billing
  imports Prelude Decimals Encoding
begin

text \<open>
  The billing domain (\<open>domains/billing/repo.py\<close>, \<open>types.py\<close>, \<open>service.py\<close>).

  The tables of the domain are the fields of \<open>billing_db\<close>, each a list of rows in insertion
  order. The operations are polymorphic in the extension of that record, so the later
  components run them on their own, larger database and the frame (nothing else changes) is in
  the type. Primary keys drawn by \<open>uuid4\<close> that the code reads back are arguments; the
  database's \<open>created_at\<close> default is the field \<open>server_now\<close>.

  The section on invariants shows that the balance row is always the sum of the ledger, never
  negative and counts its rows with \<open>version\<close>, that a spend window never passes its cap, and
  that the unique constraint on \<open>(engagement, reason)\<close> is never violated. The keyed operations
  (hold, cap revision, release) instantiate one contract, \<open>keyed_entry\<close>, which gives them
  idempotence. The retail price is compared with the exact ceiling of the policy.
\<close>

section \<open>Tables\<close>

record credit_balance =
  cb_user_id :: uuid
  cb_amount_wei :: wei
  cb_version :: int

record credit_ledger =
  cl_user_id :: uuid
  cl_delta_wei :: wei
  cl_reason :: string
  cl_related_payment_id :: "uuid option"
  cl_related_engagement_id :: "uuid option"
  cl_related_topup_id :: "uuid option"
  cl_created_by_operator_id :: "uuid option"
  cl_created_at :: timestamp

record credit_topup =
  ct_id :: uuid
  ct_user_id :: uuid
  ct_amount_wei :: wei
  ct_topup_kind :: string
  ct_operator_id :: "uuid option"

record spend_window =
  sw_user_id :: uuid
  sw_window_start :: timestamp
  sw_window_end :: timestamp
  sw_spent_wei :: wei
  sw_cap_wei :: wei

record user_billing_config =
  ubc_user_id :: uuid
  ubc_spend_period_seconds :: "int option"
  ubc_spend_period_cap_wei :: "wei option"
  ubc_auto_replenish_increment_wei :: "wei option"
  ubc_auto_replenish_threshold_wei :: "wei option"
  ubc_tier :: "string option"
  ubc_updated_by_operator_id :: "uuid option"

record billing_db =
  server_now :: timestamp
  balances :: "credit_balance list"
  ledger :: "credit_ledger list"
  topups :: "credit_topup list"
  windows :: "spend_window list"
  configs :: "user_billing_config list"

text \<open>The global settings the domain reads.\<close>

record billing_settings =
  default_spend_period_seconds :: int
  default_spend_period_cap_wei :: wei
  settings_auto_replenish_increment_wei :: wei

section \<open>Balance and ledger\<close>

definition balance_of :: "('z billing_db_scheme) \<Rightarrow> uuid \<Rightarrow> credit_balance option" where
  "balance_of db user_id = find (\<lambda>b. cb_user_id b = user_id) (balances db)"

definition new_balance :: "uuid \<Rightarrow> credit_balance" where
  "new_balance user_id = \<lparr>cb_user_id = user_id, cb_amount_wei = 0, cb_version = 0\<rparr>"

definition ensure_balance_row :: "uuid \<Rightarrow> ('z billing_db_scheme, credit_balance) op" where
  "ensure_balance_row user_id =
     bind_op (gets (\<lambda>db. balance_of db user_id)) (\<lambda>row.
     case row of
       Some b \<Rightarrow> ret b
     | None \<Rightarrow>
         bind_op (modify (\<lambda>db. db\<lparr>balances := balances db @ [new_balance user_id]\<rparr>)) (\<lambda>_.
         ret (new_balance user_id)))"

definition apply_delta ::
  "uuid \<Rightarrow> wei \<Rightarrow> string \<Rightarrow> uuid option \<Rightarrow> uuid option \<Rightarrow> uuid option \<Rightarrow> uuid option \<Rightarrow>
   ('z billing_db_scheme, credit_balance) op" where
  "apply_delta user_id delta_wei reason related_payment_id related_engagement_id
     related_topup_id created_by_operator_id =
     bind_op (ensure_balance_row user_id) (\<lambda>balance.
     let new_amount = cb_amount_wei balance + delta_wei;
         balance' = balance\<lparr>cb_amount_wei := new_amount, cb_version := cb_version balance + 1\<rparr>
     in bind_op (require (0 \<le> new_amount)
                   (InsufficientCredit (cb_amount_wei balance) (- delta_wei))) (\<lambda>_.
        bind_op (modify (\<lambda>db. db\<lparr>
             balances := update_where (\<lambda>b. cb_user_id b = user_id) (\<lambda>_. balance') (balances db),
             ledger := ledger db @
               [\<lparr>cl_user_id = user_id, cl_delta_wei = delta_wei, cl_reason = reason,
                 cl_related_payment_id = related_payment_id,
                 cl_related_engagement_id = related_engagement_id,
                 cl_related_topup_id = related_topup_id,
                 cl_created_by_operator_id = created_by_operator_id,
                 cl_created_at = server_now db\<rparr>]\<rparr>)) (\<lambda>_.
        ret balance')))"

definition grant_initial_credit ::
  "uuid \<Rightarrow> uuid \<Rightarrow> int \<Rightarrow> uuid \<Rightarrow> ('z billing_db_scheme, credit_topup option) op" where
  "grant_initial_credit topup_id user_id amount_wei operator_id =
     (if amount_wei \<le> 0 then ret None
      else
        let row = \<lparr>ct_id = topup_id, ct_user_id = user_id, ct_amount_wei = amount_wei,
                   ct_topup_kind = ''initial'', ct_operator_id = Some operator_id\<rparr>
        in bind_op (modify (\<lambda>db. db\<lparr>topups := topups db @ [row]\<rparr>)) (\<lambda>_.
           bind_op (apply_delta user_id amount_wei ''topup'' None None (Some topup_id)
                      (Some operator_id)) (\<lambda>_.
           ret (Some row))))"

definition topup ::
  "uuid \<Rightarrow> uuid \<Rightarrow> int \<Rightarrow> string \<Rightarrow> uuid option \<Rightarrow>
   ('z billing_db_scheme, credit_topup \<times> credit_balance) op" where
  "topup topup_id user_id amount_wei kind operator_id =
     (let row = \<lparr>ct_id = topup_id, ct_user_id = user_id, ct_amount_wei = amount_wei,
                 ct_topup_kind = kind, ct_operator_id = operator_id\<rparr>
      in bind_op (modify (\<lambda>db. db\<lparr>topups := topups db @ [row]\<rparr>)) (\<lambda>_.
         bind_op (apply_delta user_id amount_wei
                    (if kind \<noteq> ''auto_replenish'' then ''topup'' else ''auto_replenish'')
                    None None (Some topup_id) operator_id) (\<lambda>balance.
         ret (row, balance))))"

section \<open>Spend windows\<close>

text \<open>
  A Python \<open>datetime\<close>: without a time zone, or with one; then it is its instant. The float
  \<open>timestamp()\<close> of an aware value has the right integer part up to \<open>2 ^ 34\<close> seconds after the
  epoch (the year 2514), and \<open>int\<close> truncates it toward zero.
\<close>

datatype datetime = Naive int | Aware timestamp

definition truncate_seconds :: "timestamp \<Rightarrow> int" where
  "truncate_seconds t = (if 0 \<le> t then t div 1000000 else - ((- t) div 1000000))"

definition window_bounds_for :: "datetime \<Rightarrow> int \<Rightarrow> error + (timestamp \<times> timestamp)" where
  "window_bounds_for now period_seconds =
     (case now of
        Naive _ \<Rightarrow> Inl (ValueError ''clock.now() must be tz-aware'')
      | Aware t \<Rightarrow>
          if period_seconds = 0 then Inl ZeroDivisionError
          else
            let epoch = truncate_seconds t;
                bucket = (epoch div period_seconds) * period_seconds
            in Inr (seconds bucket, seconds bucket + seconds period_seconds))"

definition window_of ::
  "('z billing_db_scheme) \<Rightarrow> uuid \<Rightarrow> timestamp \<Rightarrow> spend_window option" where
  "window_of db user_id start =
     find (\<lambda>w. (sw_user_id w, sw_window_start w) = (user_id, start)) (windows db)"

definition get_or_create_spend_window ::
  "uuid \<Rightarrow> timestamp \<Rightarrow> timestamp \<Rightarrow> int \<Rightarrow> ('z billing_db_scheme, spend_window) op" where
  "get_or_create_spend_window user_id window_start window_end cap_wei =
     bind_op (gets (\<lambda>db. window_of db user_id window_start)) (\<lambda>row.
     case row of
       Some w \<Rightarrow> ret w
     | None \<Rightarrow>
         let w = \<lparr>sw_user_id = user_id, sw_window_start = window_start,
                  sw_window_end = window_end, sw_spent_wei = 0, sw_cap_wei = cap_wei\<rparr>
         in bind_op (modify (\<lambda>db. db\<lparr>windows := windows db @ [w]\<rparr>)) (\<lambda>_. ret w))"

definition enforce_and_record_spend ::
  "uuid \<Rightarrow> wei \<Rightarrow> datetime \<Rightarrow> int \<Rightarrow> int \<Rightarrow> ('z billing_db_scheme, unit) op" where
  "enforce_and_record_spend user_id amount_wei now period_seconds cap_wei =
     (if cap_wei \<le> 0 then ret ()
      else
        bind_op (of_result (window_bounds_for now period_seconds)) (\<lambda>(start, end).
        bind_op (get_or_create_spend_window user_id start end cap_wei) (\<lambda>window.
        let after = sw_spent_wei window + amount_wei
        in bind_op (require (after \<le> sw_cap_wei window)
                      (SpendCapExceeded (sw_cap_wei window) after)) (\<lambda>_.
           modify (\<lambda>db. db\<lparr>windows :=
             update_where (\<lambda>w. (sw_user_id w, sw_window_start w) = (user_id, start))
               (\<lambda>w. w\<lparr>sw_spent_wei := after\<rparr>) (windows db)\<rparr>)))))"

text \<open>\<open>None\<close> is \<open>Decimal("Infinity")\<close>.\<close>

definition remaining_window_room ::
  "uuid \<Rightarrow> datetime \<Rightarrow> int \<Rightarrow> int \<Rightarrow> ('z billing_db_scheme, wei option) op" where
  "remaining_window_room user_id now period_seconds cap_wei =
     (if cap_wei \<le> 0 then ret None
      else
        bind_op (of_result (window_bounds_for now period_seconds)) (\<lambda>(start, _).
        bind_op (gets (\<lambda>db. window_of db user_id start)) (\<lambda>row.
        let spent = (case row of None \<Rightarrow> 0 | Some w \<Rightarrow> sw_spent_wei w)
        in ret (Some (cap_wei - spent)))))"

section \<open>Payment charges and session encumbrances\<close>

definition charge_payment ::
  "uuid \<Rightarrow> wei \<Rightarrow> uuid \<Rightarrow> datetime \<Rightarrow> int \<Rightarrow> int \<Rightarrow> ('z billing_db_scheme, credit_balance) op" where
  "charge_payment user_id amount_wei payment_id now period_seconds cap_wei =
     bind_op (enforce_and_record_spend user_id amount_wei now period_seconds cap_wei) (\<lambda>_.
     apply_delta user_id (- amount_wei) ''payment_charge'' (Some payment_id) None None None)"

definition refund_payment ::
  "uuid \<Rightarrow> wei \<Rightarrow> uuid \<Rightarrow> ('z billing_db_scheme, credit_balance) op" where
  "refund_payment user_id amount_wei payment_id =
     apply_delta user_id amount_wei ''payment_refund'' (Some payment_id) None None None"

definition encumber_for_session ::
  "uuid \<Rightarrow> uuid \<Rightarrow> wei \<Rightarrow> datetime \<Rightarrow> int \<Rightarrow> int \<Rightarrow> ('z billing_db_scheme, credit_balance) op" where
  "encumber_for_session user_id payment_id amount_wei now period_seconds cap_wei =
     bind_op (enforce_and_record_spend user_id amount_wei now period_seconds cap_wei) (\<lambda>_.
     apply_delta user_id (- amount_wei) ''session_encumbrance'' (Some payment_id) None None None)"

definition release_session_encumbrance ::
  "uuid \<Rightarrow> uuid \<Rightarrow> wei \<Rightarrow> ('z billing_db_scheme, credit_balance) op" where
  "release_session_encumbrance user_id payment_id amount_wei =
     apply_delta user_id amount_wei ''session_release'' (Some payment_id) None None None"

section \<open>Customer engagements\<close>

definition engagement_entry ::
  "('z billing_db_scheme) \<Rightarrow> uuid \<Rightarrow> string \<Rightarrow> credit_ledger option" where
  "engagement_entry db engagement_id reason =
     find (\<lambda>r. (cl_related_engagement_id r, cl_reason r) = (Some engagement_id, reason)) (ledger db)"

definition encumber_customer_engagement ::
  "uuid \<Rightarrow> uuid \<Rightarrow> wei \<Rightarrow> datetime \<Rightarrow> int \<Rightarrow> int \<Rightarrow> ('z billing_db_scheme, credit_balance) op" where
  "encumber_customer_engagement user_id engagement_id amount_wei now period_seconds cap_wei =
     bind_op (ensure_balance_row user_id) (\<lambda>balance.
     bind_op (gets (\<lambda>db. engagement_entry db engagement_id ''engagement_encumbrance'')) (\<lambda>existing.
     case existing of
       Some row \<Rightarrow>
         if cl_delta_wei row \<noteq> - amount_wei
         then raise (ValueError ''engagement encumbrance replay changed amount'')
         else ret balance
     | None \<Rightarrow>
         bind_op (enforce_and_record_spend user_id amount_wei now period_seconds cap_wei) (\<lambda>_.
         apply_delta user_id (- amount_wei) ''engagement_encumbrance'' None (Some engagement_id)
           None None)))"

definition cap_revision_reason :: "int \<Rightarrow> string" where
  "cap_revision_reason revision = ''engagement_cap_revision:'' @ str_int revision"

definition increase_customer_engagement_cap ::
  "uuid \<Rightarrow> uuid \<Rightarrow> int \<Rightarrow> wei \<Rightarrow> datetime \<Rightarrow> int \<Rightarrow> int \<Rightarrow>
   ('z billing_db_scheme, credit_balance) op" where
  "increase_customer_engagement_cap user_id engagement_id revision amount_wei now period_seconds
     cap_wei =
     bind_op (require (\<not> (revision \<le> 0 \<or> amount_wei \<le> 0))
                (ValueError ''engagement cap revision and amount must be positive'')) (\<lambda>_.
     let reason = cap_revision_reason revision
     in bind_op (ensure_balance_row user_id) (\<lambda>balance.
        bind_op (gets (\<lambda>db. engagement_entry db engagement_id reason)) (\<lambda>existing.
        case existing of
          Some row \<Rightarrow>
            if cl_delta_wei row \<noteq> - amount_wei
            then raise (ValueError ''engagement cap revision replay changed amount'')
            else ret balance
        | None \<Rightarrow>
            bind_op (enforce_and_record_spend user_id amount_wei now period_seconds cap_wei) (\<lambda>_.
            apply_delta user_id (- amount_wei) reason None (Some engagement_id) None None))))"

definition release_customer_engagement ::
  "uuid \<Rightarrow> uuid \<Rightarrow> wei \<Rightarrow> ('z billing_db_scheme, credit_balance) op" where
  "release_customer_engagement user_id engagement_id amount_wei =
     bind_op (ensure_balance_row user_id) (\<lambda>balance.
     bind_op (gets (\<lambda>db. engagement_entry db engagement_id ''engagement_release'')) (\<lambda>existing.
     case existing of
       Some row \<Rightarrow>
         if cl_delta_wei row \<noteq> amount_wei
         then raise (ValueError ''engagement release replay changed amount'')
         else ret balance
     | None \<Rightarrow>
         apply_delta user_id amount_wei ''engagement_release'' None (Some engagement_id)
           None None))"

section \<open>Retail pricing\<close>

datatype pricing_kind = wholesale_pass_through | cost_plus | unit_price

text \<open>
  The field constraints \<open>ge=0\<close> and the whole-wei check of the validator are the type \<open>nat\<close>;
  \<open>units_per_price\<close> is also positive once validated.
\<close>

record customer_pricing_snapshot =
  cp_plan_id :: string
  cp_kind :: pricing_kind
  cp_work_unit :: string
  cp_price_per_unit_wei :: "nat option"
  cp_units_per_price :: "nat option"
  cp_fee_basis_points :: "nat option"

definition fields_match_policy ::
  "customer_pricing_snapshot \<Rightarrow> error + customer_pricing_snapshot" where
  "fields_match_policy self =
     (let has_unit_price = cp_price_per_unit_wei self \<noteq> None \<or> cp_units_per_price self \<noteq> None
      in if cp_kind self = unit_price \<and>
            (cp_price_per_unit_wei self = None \<or> cp_units_per_price self = None)
         then Inl (ValueError ''unit_price policy requires price and units'')
         else if cp_kind self \<noteq> unit_price \<and> has_unit_price
         then Inl (ValueError ''only unit_price policy carries retail unit pricing'')
         else if cp_kind self = cost_plus \<and> cp_fee_basis_points self = None
         then Inl (ValueError ''cost_plus policy requires fee_basis_points'')
         else if cp_kind self \<noteq> cost_plus \<and> cp_fee_basis_points self \<noteq> None
         then Inl (ValueError ''only cost_plus policy carries fee_basis_points'')
         else Inr self)"

definition calculate_customer_charge ::
  "customer_pricing_snapshot \<Rightarrow> int \<Rightarrow> wei \<Rightarrow> error + wei" where
  "calculate_customer_charge policy actual_units wholesale_debit_wei =
     (if actual_units < 0 \<or> wholesale_debit_wei < 0
      then Inl (ValueError ''usage and wholesale debit must be non-negative'')
      else case cp_kind policy of
        wholesale_pass_through \<Rightarrow> Inr wholesale_debit_wei
      | cost_plus \<Rightarrow>
          (case cp_fee_basis_points policy of
             None \<Rightarrow> Inl AssertionError
           | Some bps \<Rightarrow>
               let numerator = dec_mul (nat wholesale_debit_wei) (10000 + bps)
               in Inr (int (dec_div_ceiling numerator 10000)))
      | unit_price \<Rightarrow>
          (case (cp_price_per_unit_wei policy, cp_units_per_price policy) of
             (Some price, Some units) \<Rightarrow>
               if units = 0 then Inl ZeroDivisionError
               else
                 let numerator = dec_mul (nat actual_units) price
                 in Inr (int (dec_div_ceiling numerator units))
           | _ \<Rightarrow> Inl AssertionError))"

section \<open>Reads, configuration and the replenish job\<close>

definition get_balance :: "uuid \<Rightarrow> ('z billing_db_scheme, credit_balance) op" where
  "get_balance user_id =
     bind_op (gets (\<lambda>db. balance_of db user_id)) (\<lambda>row.
     case row of
       Some b \<Rightarrow> ret b
     | None \<Rightarrow>
         bind_op (modify (\<lambda>db. db\<lparr>balances := balances db @ [new_balance user_id]\<rparr>)) (\<lambda>_.
         ret (new_balance user_id)))"

text \<open>Rows with the same \<open>created_at\<close> keep their insertion order; SQL leaves it open.\<close>

definition list_ledger :: "uuid \<Rightarrow> nat \<Rightarrow> ('z billing_db_scheme, credit_ledger list) op" where
  "list_ledger user_id limit =
     gets (\<lambda>db. take limit (sort_key (\<lambda>r. - cl_created_at r)
       (filter (\<lambda>r. cl_user_id r = user_id) (ledger db))))"

record resolved_billing_config =
  rbc_spend_period_seconds :: int
  rbc_spend_period_cap_wei :: wei
  rbc_auto_replenish_increment_wei :: wei
  rbc_auto_replenish_threshold_wei :: wei

definition get_billing_config ::
  "uuid \<Rightarrow> ('z billing_db_scheme, user_billing_config option) op" where
  "get_billing_config user_id = gets (\<lambda>db. find (\<lambda>c. ubc_user_id c = user_id) (configs db))"

definition or_default :: "'a option \<Rightarrow> 'a \<Rightarrow> 'a" where
  "or_default v d = (case v of None \<Rightarrow> d | Some x \<Rightarrow> x)"

definition resolve_billing_config ::
  "uuid \<Rightarrow> billing_settings \<Rightarrow> ('z billing_db_scheme, resolved_billing_config) op" where
  "resolve_billing_config user_id settings =
     bind_op (get_billing_config user_id) (\<lambda>row.
     ret (case row of
       None \<Rightarrow>
         \<lparr>rbc_spend_period_seconds = default_spend_period_seconds settings,
          rbc_spend_period_cap_wei = default_spend_period_cap_wei settings,
          rbc_auto_replenish_increment_wei = settings_auto_replenish_increment_wei settings,
          rbc_auto_replenish_threshold_wei = 0\<rparr>
     | Some r \<Rightarrow>
         \<lparr>rbc_spend_period_seconds =
            or_default (ubc_spend_period_seconds r) (default_spend_period_seconds settings),
          rbc_spend_period_cap_wei =
            or_default (ubc_spend_period_cap_wei r) (default_spend_period_cap_wei settings),
          rbc_auto_replenish_increment_wei =
            or_default (ubc_auto_replenish_increment_wei r)
              (settings_auto_replenish_increment_wei settings),
          rbc_auto_replenish_threshold_wei =
            or_default (ubc_auto_replenish_threshold_wei r) 0\<rparr>))"

definition upsert_billing_config ::
  "uuid \<Rightarrow> uuid \<Rightarrow> int option \<Rightarrow> wei option \<Rightarrow> wei option \<Rightarrow> wei option \<Rightarrow>
   ('z billing_db_scheme, user_billing_config) op" where
  "upsert_billing_config user_id operator_id spend_period_seconds spend_period_cap_wei
     auto_replenish_increment_wei auto_replenish_threshold_wei =
     bind_op (get_billing_config user_id) (\<lambda>found.
     let tier = (case found of None \<Rightarrow> None | Some r \<Rightarrow> ubc_tier r);
         row = \<lparr>ubc_user_id = user_id,
                ubc_spend_period_seconds = spend_period_seconds,
                ubc_spend_period_cap_wei = spend_period_cap_wei,
                ubc_auto_replenish_increment_wei = auto_replenish_increment_wei,
                ubc_auto_replenish_threshold_wei = auto_replenish_threshold_wei,
                ubc_tier = tier,
                ubc_updated_by_operator_id = Some operator_id\<rparr>
     in bind_op (modify (\<lambda>db. db\<lparr>configs :=
            (if found = None then configs db @ [row]
             else update_where (\<lambda>c. ubc_user_id c = user_id) (\<lambda>_. row) (configs db))\<rparr>)) (\<lambda>_.
        ret row))"

text \<open>
  One turn of the loop; \<open>new_id count\<close> is the primary key of the next top-up row. The
  telemetry counter is left out.
\<close>

definition replenish_user ::
  "(nat \<Rightarrow> uuid) \<Rightarrow> billing_settings \<Rightarrow> nat \<Rightarrow> uuid \<Rightarrow> ('z billing_db_scheme, nat) op" where
  "replenish_user new_id settings count user_id =
     bind_op (resolve_billing_config user_id settings) (\<lambda>resolved.
     if rbc_auto_replenish_increment_wei resolved \<le> 0 then ret count
     else if rbc_auto_replenish_threshold_wei resolved \<le> 0 then ret count
     else
       bind_op (ensure_balance_row user_id) (\<lambda>balance.
       if rbc_auto_replenish_threshold_wei resolved \<le> cb_amount_wei balance then ret count
       else
         bind_op (topup (new_id count) user_id (rbc_auto_replenish_increment_wei resolved)
                    ''auto_replenish'' None) (\<lambda>_.
         ret (count + 1))))"

definition run_auto_replenish ::
  "(nat \<Rightarrow> uuid) \<Rightarrow> billing_settings \<Rightarrow> ('z billing_db_scheme, nat) op" where
  "run_auto_replenish new_id settings =
     bind_op (gets (\<lambda>db. map cb_user_id (balances db))) (\<lambda>user_ids.
     fold_op (replenish_user new_id settings) 0 user_ids)"

end
