(* ===== verification/Routes.thy ===== *)
theory Routes
  imports Encoding
begin

text \<open>
  Signed route declarations (\<open>providers/registry_daemon/client.py\<close>): the JSON values they carry,
  the declared protocol axes and their parsers, settlement keys, the caller's compact binding, the
  snapshot stored at issuance, and the choice of the bound route. The registry daemon itself is a
  list of candidate routes, an argument of \<open>select_bound_route\<close>.

  A stored snapshot is the record \<open>route_snapshot\<close>: the JSON column holds its dump. Prices are
  whole wei.
\<close>

section \<open>JSON\<close>

text \<open>\<open>key in obj\<close> and \<open>obj[key]\<close> on a parsed JSON object.\<close>

definition json_get :: "(string \<times> json) list \<Rightarrow> string \<Rightarrow> json option" where
  "json_get flds key = map_of flds key"

section \<open>Protocols and axes\<close>

datatype protocol = PaidJob | PaidSession

definition protocol_value :: "protocol \<Rightarrow> string" where
  "protocol_value p = (case p of PaidJob \<Rightarrow> ''paid-job/v1'' | PaidSession \<Rightarrow> ''paid-session/v1'')"

datatype transport = unary | stream | multipart

definition transport_of :: "json \<Rightarrow> transport option" where
  "transport_of j =
     (case j of
        JStr s \<Rightarrow>
          if s = ''unary'' then Some unary
          else if s = ''stream'' then Some stream
          else if s = ''multipart'' then Some multipart
          else None
      | _ \<Rightarrow> None)"

text \<open>A frozenset of transports is kept in the order \<open>serialize_transports\<close> gives it.\<close>

record job_axes =
  ja_transports :: "transport list"
  ja_extra :: "(string \<times> json) list"

definition sorted_transports :: "transport list \<Rightarrow> transport list" where
  "sorted_transports ts = filter (\<lambda>t. t \<in> set ts) [multipart, stream, unary]"

definition parse_job_axes :: "json \<Rightarrow> error + job_axes" where
  "parse_job_axes j =
     (case j of
        JObj flds \<Rightarrow>
          (case json_get flds ''transports'' of
             Some (JArr items) \<Rightarrow>
               if items = [] \<or> (\<exists>i \<in> set items. transport_of i = None)
               then Inl (ValueError ''invalid transports'')
               else Inr \<lparr>ja_transports = sorted_transports (map (\<lambda>i. the (transport_of i)) items),
                         ja_extra = filter (\<lambda>(k, _). k \<noteq> ''transports'') flds\<rparr>
           | _ \<Rightarrow> Inl (ValueError ''invalid transports''))
      | _ \<Rightarrow> Inl (ValueError ''job axes must be an object''))"

datatype refill = extensible | bounded

record session_axes =
  sa_descriptor_schema :: string
  sa_refill :: refill
  sa_extra :: "(string \<times> json) list"

definition is_lower_alpha :: "char \<Rightarrow> bool" where
  "is_lower_alpha c \<longleftrightarrow> 97 \<le> (of_char c :: nat) \<and> (of_char c :: nat) \<le> 122"

text \<open>The pattern \<open>^[a-z][a-z0-9-]*/v[0-9]+$\<close>.\<close>

definition descriptor_schema_ok :: "string \<Rightarrow> bool" where
  "descriptor_schema_ok s \<longleftrightarrow>
     (let name = (\<lambda>c. is_lower_alpha c \<or> is_digit c \<or> c = CHR ''-'');
          body = takeWhile name s; rest = dropWhile name s
      in s \<noteq> [] \<and> is_lower_alpha (hd s) \<and> body \<noteq> [] \<and> take 2 rest = ''/v'' \<and>
         drop 2 rest \<noteq> [] \<and> list_all is_digit (drop 2 rest))"

definition parse_session_axes :: "json \<Rightarrow> error + session_axes" where
  "parse_session_axes j =
     (case j of
        JObj flds \<Rightarrow>
          (case (json_get flds ''descriptor_schema'', json_get flds ''metering'') of
             (Some (JStr schema), Some (JStr metering)) \<Rightarrow>
               if \<not> descriptor_schema_ok schema \<or> metering \<noteq> ''runner-reported'' \<or>
                  json_get flds ''attachment'' \<notin> {None, Some (JStr ''external'')} \<or>
                  json_get flds ''refill'' \<notin> {None, Some (JStr ''extensible''), Some (JStr ''bounded'')}
               then Inl (ValueError ''invalid session axes'')
               else Inr \<lparr>sa_descriptor_schema = schema,
                         sa_refill = (if json_get flds ''refill'' = Some (JStr ''bounded'') then bounded
                                      else extensible),
                         sa_extra = filter (\<lambda>(k, _). k \<notin> set [''descriptor_schema'', ''attachment'',
                                      ''metering'', ''refill'']) flds\<rparr>
           | _ \<Rightarrow> Inl (ValueError ''invalid session axes''))
      | _ \<Rightarrow> Inl (ValueError ''session axes must be an object''))"

section \<open>Settlement keys and estimators\<close>

record settlement_key =
  sk_public_key :: string
  sk_not_before :: timestamp
  sk_expires_at :: timestamp
  sk_introduced_in_publication_seq :: int

definition validity_window_is_ordered :: "settlement_key \<Rightarrow> error + settlement_key" where
  "validity_window_is_ordered self =
     (if sk_expires_at self \<le> sk_not_before self
      then Inl (ValueError ''settlement key expires_at must be after not_before'')
      else Inr self)"

record work_unit_estimator =
  we_id :: string
  we_rounding :: string
  we_exactness :: string
  we_package :: "string option"
  we_fixtures :: string

section \<open>Routes\<close>

record route_binding =
  rb_quote_id :: string
  rb_quote_version :: int
  rb_constraint_fingerprint :: string
  rb_route_fingerprint :: string
  rb_settlement_domain_id :: string

text \<open>The pattern \<open>^[0-9a-f]{64}$\<close> of the fingerprints.\<close>

definition fingerprint_ok :: "string \<Rightarrow> bool" where
  "fingerprint_ok s \<longleftrightarrow> length s = 64 \<and> list_all is_lower_hex s"

definition uint64_ge1 :: "int \<Rightarrow> bool" where
  "uint64_ge1 i \<longleftrightarrow> 1 \<le> i \<and> i \<le> UINT64_MAX"

definition RouteBinding :: "route_binding \<Rightarrow> error + route_binding" where
  "RouteBinding self =
     (if rb_quote_id self = [] \<or> \<not> uint64_ge1 (rb_quote_version self) \<or>
         \<not> fingerprint_ok (rb_constraint_fingerprint self) \<or>
         \<not> fingerprint_ok (rb_route_fingerprint self) \<or>
         \<not> domain_pattern (rb_settlement_domain_id self)
      then Inl (ValueError ''invalid route binding'')
      else if hex_digits_val (drop 2 (rb_settlement_domain_id self)) = 0
      then Inl (ValueError ''settlement_domain_id must be nonzero'')
      else Inr self)"

record route_snapshot =
  rs_broker_url :: string
  rs_eth_address :: string
  rs_capability :: string
  rs_offering :: string
  rs_protocol :: protocol
  rs_work_unit :: string
  rs_price_per_work_unit_wei :: wei
  rs_units_per_price :: int
  rs_quote_id :: string
  rs_quote_version :: int
  rs_constraint_fingerprint :: string
  rs_route_fingerprint :: string
  rs_settlement_domain_id :: string
  rs_settlement_keys :: "settlement_key list"
  rs_work_unit_estimator :: "work_unit_estimator option"
  rs_job :: "job_axes option"
  rs_session :: "session_axes option"
  rs_extra :: "(string \<times> json) list"

definition RouteSnapshot :: "route_snapshot \<Rightarrow> error + route_snapshot" where
  "RouteSnapshot self =
     (if rs_broker_url self = [] \<or> rs_eth_address self = [] \<or> rs_capability self = [] \<or>
         rs_offering self = [] \<or> rs_work_unit self = [] \<or> rs_quote_id self = [] \<or>
         rs_price_per_work_unit_wei self < 0 \<or> \<not> uint64_ge1 (rs_units_per_price self) \<or>
         \<not> uint64_ge1 (rs_quote_version self) \<or>
         \<not> fingerprint_ok (rs_constraint_fingerprint self) \<or>
         \<not> fingerprint_ok (rs_route_fingerprint self) \<or>
         \<not> domain_pattern (rs_settlement_domain_id self)
      then Inl (ValueError ''invalid route snapshot'')
      else if hex_digits_val (drop 2 (rs_settlement_domain_id self)) = 0
      then Inl (ValueError ''settlement_domain_id must be nonzero'')
      else if rs_protocol self = PaidJob \<and> (rs_job self = None \<or> rs_session self \<noteq> None)
      then Inl (ValueError ''paid-job/v1 snapshot requires job axes only'')
      else if rs_protocol self = PaidSession \<and> (rs_session self = None \<or> rs_job self \<noteq> None)
      then Inl (ValueError ''paid-session/v1 snapshot requires session axes only'')
      else Inr self)"

definition rs_binding :: "route_snapshot \<Rightarrow> error + route_binding" where
  "rs_binding self = RouteBinding
     \<lparr>rb_quote_id = rs_quote_id self, rb_quote_version = rs_quote_version self,
      rb_constraint_fingerprint = rs_constraint_fingerprint self,
      rb_route_fingerprint = rs_route_fingerprint self,
      rb_settlement_domain_id = rs_settlement_domain_id self\<rparr>"

record selected_route =
  sr_worker_url :: string
  sr_eth_address :: string
  sr_capability :: string
  sr_offering :: string
  sr_price_per_work_unit_wei :: wei
  sr_work_unit :: string
  sr_units_per_price :: int
  sr_quote_id :: string
  sr_quote_version :: int
  sr_constraint_fingerprint :: bytes
  sr_route_fingerprint :: bytes
  sr_settlement_domain_id :: string
  sr_protocol :: protocol
  sr_settlement_keys :: "settlement_key list"
  sr_work_unit_estimator :: "work_unit_estimator option"
  sr_extra :: "(string \<times> json) list"

definition axis_name :: "protocol \<Rightarrow> string" where
  "axis_name p = (case p of PaidJob \<Rightarrow> ''job'' | PaidSession \<Rightarrow> ''session'')"

definition other_axis :: "protocol \<Rightarrow> string" where
  "other_axis p = (case p of PaidJob \<Rightarrow> ''session'' | PaidSession \<Rightarrow> ''job'')"

definition SelectedRoute :: "selected_route \<Rightarrow> error + selected_route" where
  "SelectedRoute self =
     (if sr_worker_url self = [] \<or> sr_eth_address self = [] \<or> sr_capability self = [] \<or>
         sr_offering self = [] \<or> sr_work_unit self = [] \<or> sr_price_per_work_unit_wei self < 0 \<or>
         \<not> uint64_ge1 (sr_units_per_price self) \<or> \<not> uint64_ge1 (sr_quote_version self) \<or>
         \<not> domain_pattern (sr_settlement_domain_id self)
      then Inl (ValueError ''invalid selected route'')
      else if hex_digits_val (drop 2 (sr_settlement_domain_id self)) = 0
      then Inl (ValueError ''settlement_domain_id must be nonzero'')
      else case json_get (sr_extra self) (axis_name (sr_protocol self)) of
        None \<Rightarrow> Inl (ValueError ''route is missing its axes'')
      | Some axes \<Rightarrow>
          if json_get (sr_extra self) (other_axis (sr_protocol self)) \<noteq> None
          then Inl (ValueError ''route must not declare the other axes'')
          else case sr_protocol self of
            PaidJob \<Rightarrow> (case parse_job_axes axes of Inl e \<Rightarrow> Inl e | Inr _ \<Rightarrow> Inr self)
          | PaidSession \<Rightarrow> (case parse_session_axes axes of Inl e \<Rightarrow> Inl e | Inr _ \<Rightarrow> Inr self))"

text \<open>The properties \<open>job\<close> and \<open>session\<close>; a route that was constructed has parsed axes.\<close>

definition sr_job :: "selected_route \<Rightarrow> job_axes option" where
  "sr_job self =
     (if sr_protocol self \<noteq> PaidJob then None
      else case json_get (sr_extra self) ''job'' of
        None \<Rightarrow> None
      | Some axes \<Rightarrow> (case parse_job_axes axes of Inl _ \<Rightarrow> None | Inr a \<Rightarrow> Some a))"

definition sr_session :: "selected_route \<Rightarrow> session_axes option" where
  "sr_session self =
     (if sr_protocol self \<noteq> PaidSession then None
      else case json_get (sr_extra self) ''session'' of
        None \<Rightarrow> None
      | Some axes \<Rightarrow> (case parse_session_axes axes of Inl _ \<Rightarrow> None | Inr a \<Rightarrow> Some a))"

definition sr_binding :: "selected_route \<Rightarrow> error + route_binding" where
  "sr_binding self = RouteBinding
     \<lparr>rb_quote_id = sr_quote_id self, rb_quote_version = sr_quote_version self,
      rb_constraint_fingerprint = hex (sr_constraint_fingerprint self),
      rb_route_fingerprint = hex (sr_route_fingerprint self),
      rb_settlement_domain_id = sr_settlement_domain_id self\<rparr>"

definition snapshot_view :: "selected_route \<Rightarrow> error + route_snapshot" where
  "snapshot_view self = RouteSnapshot
     \<lparr>rs_broker_url = sr_worker_url self, rs_eth_address = sr_eth_address self,
      rs_capability = sr_capability self, rs_offering = sr_offering self,
      rs_protocol = sr_protocol self, rs_work_unit = sr_work_unit self,
      rs_price_per_work_unit_wei = sr_price_per_work_unit_wei self,
      rs_units_per_price = sr_units_per_price self, rs_quote_id = sr_quote_id self,
      rs_quote_version = sr_quote_version self,
      rs_constraint_fingerprint = hex (sr_constraint_fingerprint self),
      rs_route_fingerprint = hex (sr_route_fingerprint self),
      rs_settlement_domain_id = sr_settlement_domain_id self,
      rs_settlement_keys = sr_settlement_keys self,
      rs_work_unit_estimator = sr_work_unit_estimator self,
      rs_job = sr_job self, rs_session = sr_session self, rs_extra = sr_extra self\<rparr>"

text \<open>
  Choosing a route: \<open>select\<close> and \<open>select_many\<close> are the registry daemon's answers. Computing the
  binding of a candidate can itself raise.
\<close>

fun find_binding :: "route_binding \<Rightarrow> selected_route list \<Rightarrow> error + selected_route option" where
  "find_binding binding [] = Inr None"
| "find_binding binding (route # routes) =
     (case sr_binding route of
        Inl e \<Rightarrow> Inl e
      | Inr b \<Rightarrow> if b = binding then Inr (Some route) else find_binding binding routes)"

definition select_bound_route ::
  "selected_route option \<Rightarrow> selected_route list \<Rightarrow> route_binding option \<Rightarrow>
   error + selected_route option" where
  "select_bound_route select select_many binding =
     (case binding of
        None \<Rightarrow> Inr select
      | Some b \<Rightarrow> find_binding b select_many)"

text \<open>\<open>model_dump(mode="json")\<close> of a binding, and the exception of a request whose route was not found.\<close>

definition dump_binding :: "route_binding \<Rightarrow> (string \<times> string) list" where
  "dump_binding b =
     [(''quote_id'', rb_quote_id b), (''quote_version'', str_int (rb_quote_version b)),
      (''constraint_fingerprint'', rb_constraint_fingerprint b),
      (''route_fingerprint'', rb_route_fingerprint b),
      (''settlement_domain_id'', rb_settlement_domain_id b)]"

definition no_route :: "route_binding option \<Rightarrow> string \<Rightarrow> string \<Rightarrow> error" where
  "no_route binding capability offering =
     (case binding of
        None \<Rightarrow> NoRouteAvailable capability offering
      | Some b \<Rightarrow> RouteBindingMismatch (dump_binding b))"

section \<open>Properties\<close>

lemma find_binding_Some:
  "find_binding b routes = Inr (Some r) \<Longrightarrow> r \<in> set routes \<and> sr_binding r = Inr b"
  by (induction routes) (auto split: sum.splits if_splits)

lemma RouteBinding_Inr: "RouteBinding b = Inr b' \<Longrightarrow> b' = b"
  by (simp add: RouteBinding_def split: if_splits)

lemma RouteSnapshot_Inr: "RouteSnapshot s = Inr s' \<Longrightarrow> s' = s"
  by (simp add: RouteSnapshot_def split: if_splits)

text \<open>C34. A caller who binds its request to a signed route gets that route or none: the route
  returned carries exactly the caller's quote, version, fingerprints and settlement domain, the
  snapshot stored for it has the same binding, and its axes are those of its protocol alone.\<close>

theorem bound_route_identity:
  assumes "select_bound_route sel routes (Some b) = Inr (Some r)" and "snapshot_view r = Inr snap"
  shows "r \<in> set routes \<and> rs_binding snap = Inr b \<and>
    (rs_protocol snap = PaidJob \<longrightarrow> rs_job snap = sr_job r \<and> rs_job snap \<noteq> None \<and> rs_session snap = None) \<and>
    (rs_protocol snap = PaidSession \<longrightarrow> rs_session snap = sr_session r \<and> rs_session snap \<noteq> None \<and> rs_job snap = None)"
proof -
  from assms(1) have r: "r \<in> set routes" "sr_binding r = Inr b"
    by (auto simp: select_bound_route_def dest: find_binding_Some)
  show ?thesis
    using r assms(2) unfolding snapshot_view_def
    by (auto simp: rs_binding_def sr_binding_def RouteSnapshot_def split: if_splits)
qed

text \<open>A concrete job route, as the development's mock registry offers.\<close>

definition demo_domain :: string where
  "demo_domain = ''0x'' @ replicate 64 (CHR ''1'')"

definition demo_route :: selected_route where
  "demo_route = \<lparr>sr_worker_url = ''https://orch-1.example'', sr_eth_address = ''0x'' @ replicate 40 (CHR ''1''),
     sr_capability = ''openai:chat-completions'', sr_offering = ''gpt-oss-20b'',
     sr_price_per_work_unit_wei = 1000, sr_work_unit = ''token'', sr_units_per_price = 1,
     sr_quote_id = ''q1'', sr_quote_version = 1, sr_constraint_fingerprint = replicate 32 0,
     sr_route_fingerprint = replicate 32 17, sr_settlement_domain_id = demo_domain,
     sr_protocol = PaidJob, sr_settlement_keys = [], sr_work_unit_estimator = None,
     sr_extra = [(''job'', JObj [(''transports'', JArr [JStr ''unary'', JStr ''stream''])])]\<rparr>"

definition demo_binding :: route_binding where
  "demo_binding = \<lparr>rb_quote_id = ''q1'', rb_quote_version = 1,
     rb_constraint_fingerprint = hex (replicate 32 0), rb_route_fingerprint = hex (replicate 32 17),
     rb_settlement_domain_id = demo_domain\<rparr>"

definition demo_snapshot :: route_snapshot where
  "demo_snapshot = projr (snapshot_view demo_route)"

lemma hex_fold_pos: "0 < acc \<Longrightarrow> 0 < foldl (\<lambda>acc c. acc * 16 + the (hex_val c)) acc s"
  by (induction s arbitrary: acc) auto

lemma demo_domain_ok: "domain_pattern demo_domain" "hex_digits_val (drop 2 demo_domain) \<noteq> 0"
proof -
  show "domain_pattern demo_domain"
    by (simp add: domain_pattern_def demo_domain_def list_all_iff is_lower_hex_def)
  have "drop 2 demo_domain = CHR ''1'' # replicate 63 (CHR ''1'')"
    by (simp add: demo_domain_def numeral_eq_Suc)
  moreover have "the (hex_val (CHR ''1'')) = 1" by (simp add: hex_val_def)
  ultimately show "hex_digits_val (drop 2 demo_domain) \<noteq> 0"
    using hex_fold_pos [of 1 "replicate 63 (CHR ''1'')"] by (simp add: hex_digits_val_def)
qed

lemma demo_binding_ok: "RouteBinding demo_binding = Inr demo_binding"
proof -
  have "fingerprint_ok (hex bs)" if "length bs = 32" for bs
    using that hex_lower by (simp add: fingerprint_ok_def)
  then show ?thesis
    using demo_domain_ok by (simp add: RouteBinding_def demo_binding_def uint64_ge1_def UINT64_MAX_def)
qed

lemma demo_route_binding: "sr_binding demo_route = Inr demo_binding"
  using demo_binding_ok by (simp add: sr_binding_def demo_route_def demo_binding_def)

lemma demo_route_axes: "sr_job demo_route = Some \<lparr>ja_transports = [stream, unary], ja_extra = []\<rparr>"
  "sr_session demo_route = None"
  by (simp_all add: sr_job_def sr_session_def demo_route_def parse_job_axes_def json_get_def
      transport_of_def sorted_transports_def)

lemma demo_snapshot_ok: "snapshot_view demo_route = Inr demo_snapshot"
proof -
  have fp: "fingerprint_ok (hex bs)" if "length bs = 32" for bs
    using that hex_lower by (simp add: fingerprint_ok_def)
  obtain snap where "snapshot_view demo_route = Inr snap"
    using demo_domain_ok fp demo_route_axes
    by (simp add: snapshot_view_def RouteSnapshot_def demo_route_def uint64_ge1_def UINT64_MAX_def)
  then show ?thesis by (simp add: demo_snapshot_def)
qed

theorem bound_route_identity_witness:
  "rs_binding demo_snapshot = Inr demo_binding"
proof -
  have "select_bound_route None [demo_route] (Some demo_binding) = Inr (Some demo_route)"
    by (simp add: select_bound_route_def demo_route_binding)
  from bound_route_identity [OF this demo_snapshot_ok] show ?thesis by blast
qed

end
