(* ===== verification/Daemon.thy ===== *)
theory Daemon
  imports Routes Billing
begin

text \<open>
  The boundary with the payer daemon (\<open>providers/payment_daemon/client.py\<close>): its request and
  response types, the checks before a request leaves and the fail-closed checks on what comes back.
  The daemon is a function argument of the operations that call it. Protobuf decoding of the signed
  envelope and \<open>strftime\<close> are arguments too; the payload a signer must echo is the record
  \<open>authorization_payload\<close>.
\<close>

section \<open>Types\<close>

record quote_ref =
  qr_quote_id :: string
  qr_quote_version :: int
  qr_constraint_fingerprint :: bytes
  qr_route_fingerprint :: bytes

record accepted_price =
  ap_capability :: string
  ap_offering :: string
  ap_price_per_unit_wei :: wei
  ap_units_per_price :: int
  ap_work_unit_name :: string
  ap_quote_ref :: quote_ref

record funding_intent =
  fi_funded_value_wei :: wei
  fi_estimated_units :: int
  fi_max_total_units :: int

record account_funding_intent =
  af_target_available_wei :: wei
  af_observed_available_wei :: wei
  af_settlement_domain_id :: string
  af_wholesale_account_id :: string

record create_payment_request =
  pq_mint_request_id :: string
  pq_recipient :: bytes
  pq_ticket_params_base_url :: string
  pq_accepted_price :: accepted_price
  pq_funding :: funding_intent
  pq_account_funding :: account_funding_intent

record create_payment_response =
  pp_payment_bytes :: bytes
  pp_sender :: bytes
  pp_tickets_created :: int
  pp_expected_value :: wei
  pp_funded_value_wei :: wei
  pp_accepted_quote_ref :: quote_ref
  pp_work_id :: string
  pp_predecessor_work_id :: string
  pp_account_shortfall_wei :: "wei option"

record create_spend_authorization_request =
  aq_payee :: bytes
  aq_authorization_id :: string
  aq_request_id :: string
  aq_session_id :: string
  aq_protocol :: string
  aq_accepted_price :: accepted_price
  aq_max_debit_wei :: wei
  aq_max_total_units :: int
  aq_not_before :: datetime
  aq_expires_at :: datetime
  aq_request_digest :: bytes
  aq_caller_public_key :: bytes
  aq_revision :: int
  aq_predecessor_authorization_id :: string
  aq_broker_uri :: string
  aq_chain_id :: int
  aq_settlement_domain_id :: string
  aq_wholesale_account_id :: string
  aq_denomination :: string

record create_spend_authorization_response =
  ar_authorization_bytes :: bytes
  ar_authorization_id :: string
  ar_payer :: bytes

section \<open>Funding\<close>

definition validate_funding_response ::
  "create_payment_request \<Rightarrow> create_payment_response \<Rightarrow> error + create_payment_response" where
  "validate_funding_response request response =
     (let intent = pq_account_funding request;
          requested = max 0 (af_target_available_wei intent - af_observed_available_wei intent)
      in if pp_account_shortfall_wei response \<noteq> Some requested
         then Inl (PaymentDaemonError ''daemon account_shortfall_wei does not match the bounded shortfall'')
         else if pp_expected_value response \<noteq> requested
         then Inl (PaymentDaemonError ''daemon expected_value does not equal the bounded account shortfall'')
         else if pp_funded_value_wei response \<noteq> requested
         then Inl (PaymentDaemonError ''daemon funded_value_wei does not echo the requested funding intent'')
         else if requested = 0
         then if pp_payment_bytes response \<noteq> [] \<or> pp_tickets_created response \<noteq> 0 \<or>
                 pp_expected_value response \<noteq> 0
              then Inl (PaymentDaemonError ''daemon minted a payment for a zero account shortfall'')
              else Inr response
         else if length (pp_sender response) \<noteq> 20
         then Inl (PaymentDaemonError ''daemon payment sender must be exactly 20 bytes'')
         else if pp_predecessor_work_id response \<noteq> [] \<and>
                 pp_predecessor_work_id response = pp_work_id response
         then Inl (PaymentDaemonError ''daemon returned a self-referential predecessor_work_id'')
         else Inr response)"

section \<open>Spend authorizations\<close>

text \<open>
  \<open>int(s, 16)\<close>: white space around it, a sign, an \<open>0x\<close> prefix and single underscores between
  digits are accepted.
\<close>

fun hex_underscored :: "bool \<Rightarrow> string \<Rightarrow> nat \<Rightarrow> nat option" where
  "hex_underscored gap [] acc = (if gap then None else Some acc)"
| "hex_underscored gap (c # cs) acc =
     (if c = CHR ''_'' then (if gap then None else hex_underscored True cs acc)
      else case hex_val c of
        None \<Rightarrow> None
      | Some d \<Rightarrow> hex_underscored False cs (acc * 16 + d))"

definition strip :: "string \<Rightarrow> string" where
  "strip s = rev (dropWhile is_space (rev (dropWhile is_space s)))"

definition int_base16 :: "string \<Rightarrow> int option" where
  "int_base16 s =
     (let t = strip s;
          neg = (take 1 t = ''-'');
          u = (if neg \<or> take 1 t = ''+'' then drop 1 t else t);
          prefixed = (take 2 u = ''0x'' \<or> take 2 u = ''0X'');
          v = (if prefixed then (if take 1 (drop 2 u) = ''_'' then drop 3 u else drop 2 u) else u)
      in if v = [] then None
         else map_option (\<lambda>n. if neg then - int n else int n) (hex_underscored True v 0))"

definition validate_settlement_domain_id :: "string \<Rightarrow> error + unit" where
  "validate_settlement_domain_id value =
     (if length value \<noteq> 66 \<or> take 2 value \<noteq> ''0x'' \<or> drop 2 value \<noteq> lower (drop 2 value)
      then Inl (ValueError ''settlement_domain_id must be a nonzero lowercase 0x-prefixed uint256'')
      else case int_base16 (drop 2 value) of
        None \<Rightarrow> Inl (ValueError ''settlement_domain_id must be a nonzero lowercase 0x-prefixed uint256'')
      | Some parsed \<Rightarrow>
          if parsed = 0
          then Inl (ValueError ''settlement_domain_id must be a nonzero lowercase 0x-prefixed uint256'')
          else Inr ())"

definition rstrip_char :: "char \<Rightarrow> string \<Rightarrow> string" where
  "rstrip_char c s = rev (dropWhile (\<lambda>x. x = c) (rev s))"

text \<open>The six digits \<open>{micro:06d}\<close>.\<close>

definition six_digits :: "nat \<Rightarrow> string" where
  "six_digits n = map (\<lambda>k. digit_char (n div 10 ^ k mod 10)) [5, 4, 3, 2, 1, 0]"

text \<open>\<open>strftime\<close> prints the whole second of a UTC instant.\<close>

definition format_rfc3339 :: "(int \<Rightarrow> string) \<Rightarrow> datetime \<Rightarrow> error + string" where
  "format_rfc3339 strftime value =
     (case value of
        Naive _ \<Rightarrow> Inl (ValueError ''authorization timestamps must include timezone data'')
      | Aware t \<Rightarrow>
          let micro = nat (t mod 1000000)
          in Inr (strftime (t div 1000000) @
               (if micro \<noteq> 0 then CHR ''.'' # rstrip_char (CHR ''0'') (six_digits micro) else []) @ ''Z''))"

text \<open>
  The protobuf messages: the request to the daemon (\<open>CreateSpendAuthorizationRequest\<close>) and the payload a signer must
  echo (\<open>SpendAuthorizationPayload\<close>). A \<open>BigUInt\<close> is its bytes.
\<close>

record price_message =
  xp_price_per_unit_wei :: bytes
  xp_units_per_price :: int
  xp_work_unit_name :: string
  xp_capability :: string
  xp_offering :: string
  xp_quote_ref :: quote_ref

record authorization_message =
  am_payee :: bytes
  am_authorization_id :: string
  am_request_id :: string
  am_session_id :: string
  am_protocol :: string
  am_accepted_price :: price_message
  am_max_debit_wei :: bytes
  am_max_total_units :: int
  am_not_before :: string
  am_expires_at :: string
  am_request_digest :: bytes
  am_caller_public_key :: bytes
  am_revision :: int
  am_predecessor_authorization_id :: string
  am_broker_uri :: string
  am_chain_id :: int
  am_denomination :: string
  am_settlement_domain_id :: string
  am_wholesale_account_id :: string

record authorization_payload =
  ay_domain :: string
  ay_payer :: bytes
  ay_payee :: bytes
  ay_authorization_id :: string
  ay_request_id :: string
  ay_session_id :: string
  ay_protocol :: string
  ay_capability :: string
  ay_offering :: string
  ay_accepted_price :: price_message
  ay_max_debit_wei :: bytes
  ay_max_total_units :: int
  ay_not_before :: string
  ay_expires_at :: string
  ay_request_digest :: bytes
  ay_caller_public_key :: bytes
  ay_revision :: int
  ay_predecessor_authorization_id :: string
  ay_broker_uri :: string
  ay_chain_id :: int
  ay_denomination :: string
  ay_settlement_domain_id :: string
  ay_wholesale_account_id :: string

text \<open>Python compares aware with aware and naive with naive datetimes, and raises on a mix.\<close>

definition datetime_le :: "datetime \<Rightarrow> datetime \<Rightarrow> error + bool" where
  "datetime_le a b =
     (case (a, b) of
        (Naive x, Naive y) \<Rightarrow> Inr (x \<le> y)
      | (Aware x, Aware y) \<Rightarrow> Inr (x \<le> y)
      | _ \<Rightarrow> Inl (TypeError ''cannot compare offset-naive and offset-aware datetimes''))"

definition check :: "bool \<Rightarrow> string \<Rightarrow> error + unit" where
  "check bad msg = (if bad then Inl (ValueError msg) else Inr ())"

fun all_checks :: "(error + unit) list \<Rightarrow> error + unit" where
  "all_checks [] = Inr ()"
| "all_checks (Inl e # cs) = Inl e"
| "all_checks (Inr _ # cs) = all_checks cs"

lemma all_checks_Inr [simp]: "all_checks cs = Inr () \<longleftrightarrow> (\<forall>c \<in> set cs. c = Inr ())"
  by (induction cs rule: all_checks.induct) auto

lemma check_Inr [simp]: "check bad msg = Inr () \<longleftrightarrow> \<not> bad"
  by (simp add: check_def)

definition request_checks :: "create_spend_authorization_request \<Rightarrow> error + unit" where
  "request_checks r = all_checks
     [check (length (aq_payee r) \<noteq> 20) ''authorization payee must be exactly 20 bytes'',
      check (aq_authorization_id r = [] \<or> aq_request_id r = [])
        ''authorization_id and request_id are required'',
      (case datetime_le (aq_expires_at r) (aq_not_before r) of
         Inl e \<Rightarrow> Inl e
       | Inr le \<Rightarrow> check le ''authorization expires_at must be after not_before''),
      check (aq_protocol r \<notin> {''paid-job/v1'', ''paid-session/v1''})
        ''authorization protocol is not supported'',
      check (aq_protocol r = ''paid-job/v1'' \<and> (aq_session_id r \<noteq> [] \<or> aq_revision r \<noteq> 0 \<or>
          aq_predecessor_authorization_id r \<noteq> []))
        ''job authorization cannot carry session revision fields'',
      check (aq_protocol r = ''paid-session/v1'' \<and> aq_session_id r = [])
        ''session authorization requires session_id'',
      check ((aq_revision r \<noteq> 0) \<noteq> (aq_predecessor_authorization_id r \<noteq> []))
        ''authorization revision and predecessor must appear together'',
      check (aq_max_debit_wei r \<le> 0 \<or> aq_max_total_units r \<le> 0)
        ''authorization maximums must be positive'',
      check (length (aq_request_digest r) \<noteq> 32)
        ''authorization request_digest must be exactly 32 bytes'',
      check (aq_caller_public_key r \<noteq> [] \<and> length (aq_caller_public_key r) \<notin> {33, 65})
        ''authorization caller_public_key must be 33 or 65 bytes'',
      check (strip (aq_broker_uri r) = []) ''authorization broker_uri is required'',
      check (aq_chain_id r \<le> 0 \<or> aq_denomination r \<noteq> ''wei'')
        ''authorization requires a positive chain_id and wei denomination'',
      validate_wholesale_account_id (aq_wholesale_account_id r),
      validate_settlement_domain_id (aq_settlement_domain_id r)]"

text \<open>A message with an integer outside of its \<open>uint64\<close> field cannot be built.\<close>

definition uint64_field :: "int \<Rightarrow> error + unit" where
  "uint64_field n = check (n < 0 \<or> UINT64_MAX < n) ''Value out of range''"

definition price_to_proto :: "accepted_price \<Rightarrow> error + price_message" where
  "price_to_proto p =
     bind_r (int_to_biguint_bytes (ap_price_per_unit_wei p)) (\<lambda>price.
     bind_r (uint64_field (qr_quote_version (ap_quote_ref p))) (\<lambda>_.
     bind_r (uint64_field (ap_units_per_price p)) (\<lambda>_.
     Inr \<lparr>xp_price_per_unit_wei = price, xp_units_per_price = ap_units_per_price p,
       xp_work_unit_name = ap_work_unit_name p, xp_capability = ap_capability p, xp_offering = ap_offering p,
       xp_quote_ref = ap_quote_ref p\<rparr>)))"

definition spend_authorization_request_to_proto ::
  "(int \<Rightarrow> string) \<Rightarrow> create_spend_authorization_request \<Rightarrow> error + authorization_message" where
  "spend_authorization_request_to_proto strftime r =
     bind_r (request_checks r) (\<lambda>_.
     bind_r (price_to_proto (aq_accepted_price r)) (\<lambda>price.
     bind_r (int_to_biguint_bytes (aq_max_debit_wei r)) (\<lambda>debit.
     bind_r (format_rfc3339 strftime (aq_not_before r)) (\<lambda>not_before.
     bind_r (format_rfc3339 strftime (aq_expires_at r)) (\<lambda>expires_at.
     bind_r (uint64_field (aq_max_total_units r)) (\<lambda>_.
     bind_r (uint64_field (aq_revision r)) (\<lambda>_.
     bind_r (uint64_field (aq_chain_id r)) (\<lambda>_.
     Inr \<lparr>am_payee = aq_payee r, am_authorization_id = aq_authorization_id r, am_request_id = aq_request_id r,
       am_session_id = aq_session_id r, am_protocol = aq_protocol r, am_accepted_price = price,
       am_max_debit_wei = debit, am_max_total_units = aq_max_total_units r, am_not_before = not_before,
       am_expires_at = expires_at, am_request_digest = aq_request_digest r,
       am_caller_public_key = aq_caller_public_key r, am_revision = aq_revision r,
       am_predecessor_authorization_id = aq_predecessor_authorization_id r,
       am_broker_uri = rstrip_char (CHR ''/'') (strip (aq_broker_uri r)), am_chain_id = aq_chain_id r,
       am_denomination = aq_denomination r, am_settlement_domain_id = aq_settlement_domain_id r,
       am_wholesale_account_id = aq_wholesale_account_id r\<rparr>))))))))"

definition spend_authorization_response_to_dataclass ::
  "create_spend_authorization_response \<Rightarrow> error + create_spend_authorization_response" where
  "spend_authorization_response_to_dataclass response =
     (if ar_authorization_bytes response = []
      then Inl (PaymentDaemonError ''daemon returned an empty spend authorization'')
      else if ar_authorization_id response = []
      then Inl (PaymentDaemonError ''daemon returned an empty authorization_id'')
      else if length (ar_payer response) \<noteq> 20
      then Inl (PaymentDaemonError ''daemon authorization payer must be exactly 20 bytes'')
      else Inr response)"

definition expected_authorization_payload :: "authorization_message \<Rightarrow> bytes \<Rightarrow> authorization_payload" where
  "expected_authorization_payload proto payer =
     \<lparr>ay_domain = ''livepeer-spend-authorization/v3'', ay_payer = payer, ay_payee = am_payee proto,
      ay_authorization_id = am_authorization_id proto, ay_request_id = am_request_id proto,
      ay_session_id = am_session_id proto, ay_protocol = am_protocol proto,
      ay_capability = xp_capability (am_accepted_price proto), ay_offering = xp_offering (am_accepted_price proto),
      ay_accepted_price = am_accepted_price proto, ay_max_debit_wei = am_max_debit_wei proto,
      ay_max_total_units = am_max_total_units proto, ay_not_before = am_not_before proto,
      ay_expires_at = am_expires_at proto, ay_request_digest = am_request_digest proto,
      ay_caller_public_key = am_caller_public_key proto, ay_revision = am_revision proto,
      ay_predecessor_authorization_id = am_predecessor_authorization_id proto, ay_broker_uri = am_broker_uri proto,
      ay_chain_id = am_chain_id proto, ay_denomination = am_denomination proto,
      ay_settlement_domain_id = am_settlement_domain_id proto,
      ay_wholesale_account_id = am_wholesale_account_id proto\<rparr>"

text \<open>\<open>decode\<close> is the protobuf parser of the signed envelope: its payload and signature.\<close>

definition validate_spend_authorization_response ::
  "(int \<Rightarrow> string) \<Rightarrow> (bytes \<Rightarrow> (authorization_payload \<times> bytes) option) \<Rightarrow>
   create_spend_authorization_request \<Rightarrow> create_spend_authorization_response \<Rightarrow>
   error + create_spend_authorization_response" where
  "validate_spend_authorization_response strftime decode request response =
     (case spend_authorization_request_to_proto strftime request of
        Inl e \<Rightarrow> Inl e
      | Inr proto_request \<Rightarrow>
          (case decode (ar_authorization_bytes response) of
             None \<Rightarrow> Inl (PaymentDaemonError ''daemon returned malformed authorization_bytes'')
           | Some (payload, signature) \<Rightarrow>
               if length signature \<noteq> 65
               then Inl (PaymentDaemonError ''daemon returned a malformed authorization signature'')
               else if payload \<noteq> expected_authorization_payload proto_request (ar_payer response)
               then Inl (PaymentDaemonError ''daemon changed the requested authorization scope'')
               else Inr response))"

text \<open>The call over gRPC: what the daemon answers is an error with its status name and details, or a response.\<close>

datatype 'a rpc = RpcError string string | RpcAnswer 'a

definition definitive_authorization_refusals :: "string list" where
  "definitive_authorization_refusals =
     [''FAILED_PRECONDITION'', ''INVALID_ARGUMENT'', ''PERMISSION_DENIED'', ''OUT_OF_RANGE'']"

definition create_spend_authorization ::
  "(int \<Rightarrow> string) \<Rightarrow> (bytes \<Rightarrow> (authorization_payload \<times> bytes) option) \<Rightarrow>
   (authorization_message \<Rightarrow> create_spend_authorization_response rpc) \<Rightarrow> create_spend_authorization_request \<Rightarrow>
   error + create_spend_authorization_response" where
  "create_spend_authorization strftime decode daemon request =
     bind_r (spend_authorization_request_to_proto strftime request) (\<lambda>proto.
     case daemon proto of
       RpcError code details \<Rightarrow>
         let message = ''CreateSpendAuthorization '' @ code @ '': '' @ details
         in if code \<in> set definitive_authorization_refusals then Inl (SpendAuthorizationRefused message)
            else Inl (PaymentDaemonError message)
     | RpcAnswer response \<Rightarrow>
         bind_r (spend_authorization_response_to_dataclass response) (\<lambda>mapped.
         if ar_authorization_id mapped \<noteq> aq_authorization_id request
         then Inl (PaymentDaemonError ''daemon returned a different authorization_id'')
         else validate_spend_authorization_response strftime decode request mapped))"

section \<open>Properties\<close>

text \<open>A minted envelope that passes the check funds exactly the bounded shortfall the caller
  asked for: the declared shortfall, the expected value and the funded value all equal
  \<open>max 0 (target - observed)\<close>, a zero shortfall mints nothing, and a positive one names a 20-byte
  sender.\<close>

theorem funding_response_exact:
  assumes "validate_funding_response q p = Inr p'"
  shows "p' = p \<and>
    (let requested = max 0 (af_target_available_wei (pq_account_funding q) -
                            af_observed_available_wei (pq_account_funding q))
     in pp_account_shortfall_wei p = Some requested \<and> pp_expected_value p = requested \<and>
        pp_funded_value_wei p = requested \<and>
        (requested = 0 \<longrightarrow> pp_payment_bytes p = [] \<and> pp_tickets_created p = 0) \<and>
        (0 < requested \<longrightarrow> length (pp_sender p) = 20))"
  using assms by (auto simp: validate_funding_response_def Let_def split: if_splits)

theorem funding_response_exact_witness:
  "pp_expected_value \<lparr>pp_payment_bytes = [1], pp_sender = replicate 20 170, pp_tickets_created = 1,
     pp_expected_value = 70, pp_funded_value_wei = 70,
     pp_accepted_quote_ref = \<lparr>qr_quote_id = ''q'', qr_quote_version = 1, qr_constraint_fingerprint = [],
       qr_route_fingerprint = []\<rparr>,
     pp_work_id = ''w'', pp_predecessor_work_id = [], pp_account_shortfall_wei = Some 70\<rparr> = 100 - 30"
proof -
  let ?ref = "\<lparr>qr_quote_id = ''q'', qr_quote_version = 1, qr_constraint_fingerprint = [], qr_route_fingerprint = []\<rparr>"
  let ?q = "\<lparr>pq_mint_request_id = ''m'', pq_recipient = [], pq_ticket_params_base_url = [],
     pq_accepted_price = \<lparr>ap_capability = [], ap_offering = [], ap_price_per_unit_wei = 1,
       ap_units_per_price = 1, ap_work_unit_name = [], ap_quote_ref = ?ref\<rparr>,
     pq_funding = \<lparr>fi_funded_value_wei = 100, fi_estimated_units = 0, fi_max_total_units = 0\<rparr>,
     pq_account_funding = \<lparr>af_target_available_wei = 100, af_observed_available_wei = 30,
       af_settlement_domain_id = [], af_wholesale_account_id = []\<rparr>\<rparr>"
  let ?p = "\<lparr>pp_payment_bytes = [1], pp_sender = replicate 20 170, pp_tickets_created = 1,
     pp_expected_value = 70, pp_funded_value_wei = 70, pp_accepted_quote_ref = ?ref,
     pp_work_id = ''w'', pp_predecessor_work_id = [], pp_account_shortfall_wei = Some 70\<rparr>"
  have "validate_funding_response ?q ?p = Inr ?p" by (simp add: validate_funding_response_def)
  from funding_response_exact [OF this] show ?thesis by (simp add: Let_def)
qed

lemma price_to_proto_Inr:
  assumes "price_to_proto p = Inr x"
  shows "biguint_bytes_to_decimal (xp_price_per_unit_wei x) = ap_price_per_unit_wei p"
    "x = \<lparr>xp_price_per_unit_wei = xp_price_per_unit_wei x, xp_units_per_price = ap_units_per_price p,
      xp_work_unit_name = ap_work_unit_name p, xp_capability = ap_capability p, xp_offering = ap_offering p,
      xp_quote_ref = ap_quote_ref p\<rparr>"
  using assms by (auto simp: price_to_proto_def bind_r_Inr_iff dest: biguint_decode)

lemma check_cases: "check bad msg = Inr u \<longleftrightarrow> \<not> bad"
  by (simp add: check_def)

lemma format_Inr: "format_rfc3339 strftime d = Inr x \<Longrightarrow> \<exists>t. d = Aware t"
  by (cases d) (simp_all add: format_rfc3339_def)

lemma request_checks_Inr:
  assumes "request_checks q = Inr u"
  shows "length (aq_payee q) = 20" "aq_authorization_id q \<noteq> []" "aq_request_id q \<noteq> []"
    "datetime_le (aq_expires_at q) (aq_not_before q) = Inr False"
    "aq_protocol q = ''paid-job/v1'' \<and> aq_session_id q = [] \<and> aq_revision q = 0 \<or>
       aq_protocol q = ''paid-session/v1'' \<and> aq_session_id q \<noteq> []"
    "aq_revision q \<noteq> 0 \<longleftrightarrow> aq_predecessor_authorization_id q \<noteq> []"
    "0 < aq_max_debit_wei q" "0 < aq_max_total_units q" "length (aq_request_digest q) = 32"
    "length (aq_caller_public_key q) \<in> {0, 33, 65}" "strip (aq_broker_uri q) \<noteq> []" "0 < aq_chain_id q"
    "aq_denomination q = ''wei''" "validate_wholesale_account_id (aq_wholesale_account_id q) = Inr ()"
    "validate_settlement_domain_id (aq_settlement_domain_id q) = Inr ()"
  using assms by (auto simp: request_checks_def check_cases split: sum.splits)

lemma to_dataclass_Inr:
  "spend_authorization_response_to_dataclass p = Inr m \<longleftrightarrow>
     m = p \<and> ar_authorization_bytes p \<noteq> [] \<and> ar_authorization_id p \<noteq> [] \<and> length (ar_payer p) = 20"
  by (auto simp: spend_authorization_response_to_dataclass_def)

lemma validate_Inr:
  assumes "validate_spend_authorization_response strftime decode q p = Inr a"
    and "spend_authorization_request_to_proto strftime q = Inr proto"
  shows "a = p" "\<exists>signature. length signature = 65 \<and>
    decode (ar_authorization_bytes p) = Some (expected_authorization_payload proto (ar_payer p), signature)"
  using assms by (auto simp: validate_spend_authorization_response_def split: option.splits if_splits)

lemma authorization_run:
  assumes "create_spend_authorization strftime decode daemon q = Inr a"
  obtains proto signature where "spend_authorization_request_to_proto strftime q = Inr proto"
    "daemon proto = RpcAnswer a" "ar_authorization_id a = aq_authorization_id q" "length (ar_payer a) = 20"
    "decode (ar_authorization_bytes a) = Some (expected_authorization_payload proto (ar_payer a), signature)"
    "length signature = 65"
proof -
  from assms obtain proto where proto: "spend_authorization_request_to_proto strftime q = Inr proto"
    by (auto simp: create_spend_authorization_def bind_r_Inr_iff)
  from assms proto obtain p where p: "daemon proto = RpcAnswer p"
    by (cases "daemon proto") (auto simp: create_spend_authorization_def Let_def split: if_splits)
  with assms proto have v: "ar_authorization_id p = aq_authorization_id q" "length (ar_payer p) = 20"
    "validate_spend_authorization_response strftime decode q p = Inr a"
    by (auto simp: create_spend_authorization_def bind_r_Inr_iff to_dataclass_Inr split: if_splits)
  from validate_Inr [OF v(3) proto] that proto p v(1,2) show thesis by blast
qed

text \<open>C35. An authorization the clearinghouse hands out is the one it asked for. The request was within the protocol: a
  20-byte payee, identifiers, a job without or a session with a session id, revision and predecessor together,
  positive maximums, a 32-byte digest, a caller key of 33 or 65 bytes if any, a broker address, a positive
  chain, wei, a valid account and domain, and a validity window of aware instants in order. And the payload that was
  signed is exactly the requested scope, all 23 fields of it: the window in RFC 3339, the broker address without
  white space and trailing slashes, the price and the maximum debit as bytes that decode to the requested amounts.\<close>

theorem signed_scope_is_requested:
  assumes "create_spend_authorization strftime decode daemon q = Inr a"
  shows "(length (aq_payee q) = 20 \<and> aq_authorization_id q \<noteq> [] \<and> aq_request_id q \<noteq> [] \<and>
      (aq_protocol q = ''paid-job/v1'' \<and> aq_session_id q = [] \<and> aq_revision q = 0 \<or>
       aq_protocol q = ''paid-session/v1'' \<and> aq_session_id q \<noteq> []) \<and>
      (aq_revision q \<noteq> 0 \<longleftrightarrow> aq_predecessor_authorization_id q \<noteq> []) \<and>
      0 < aq_max_debit_wei q \<and> 0 < aq_max_total_units q \<and> length (aq_request_digest q) = 32 \<and>
      length (aq_caller_public_key q) \<in> {0, 33, 65} \<and> strip (aq_broker_uri q) \<noteq> [] \<and> 0 < aq_chain_id q \<and>
      aq_denomination q = ''wei'' \<and> validate_wholesale_account_id (aq_wholesale_account_id q) = Inr () \<and>
      validate_settlement_domain_id (aq_settlement_domain_id q) = Inr ()) \<and>
    ar_authorization_id a = aq_authorization_id q \<and> length (ar_payer a) = 20 \<and>
    (\<exists>signature from_at until_at not_before expires_at price debit.
      aq_not_before q = Aware from_at \<and> aq_expires_at q = Aware until_at \<and> from_at < until_at \<and>
      format_rfc3339 strftime (aq_not_before q) = Inr not_before \<and>
      format_rfc3339 strftime (aq_expires_at q) = Inr expires_at \<and>
      biguint_bytes_to_decimal price = ap_price_per_unit_wei (aq_accepted_price q) \<and>
      biguint_bytes_to_decimal debit = aq_max_debit_wei q \<and> length signature = 65 \<and>
      decode (ar_authorization_bytes a) = Some
       (\<lparr>ay_domain = ''livepeer-spend-authorization/v3'', ay_payer = ar_payer a, ay_payee = aq_payee q,
         ay_authorization_id = aq_authorization_id q, ay_request_id = aq_request_id q, ay_session_id = aq_session_id q,
         ay_protocol = aq_protocol q, ay_capability = ap_capability (aq_accepted_price q),
         ay_offering = ap_offering (aq_accepted_price q),
         ay_accepted_price = \<lparr>xp_price_per_unit_wei = price, xp_units_per_price = ap_units_per_price (aq_accepted_price q),
           xp_work_unit_name = ap_work_unit_name (aq_accepted_price q), xp_capability = ap_capability (aq_accepted_price q),
           xp_offering = ap_offering (aq_accepted_price q), xp_quote_ref = ap_quote_ref (aq_accepted_price q)\<rparr>,
         ay_max_debit_wei = debit, ay_max_total_units = aq_max_total_units q, ay_not_before = not_before,
         ay_expires_at = expires_at, ay_request_digest = aq_request_digest q,
         ay_caller_public_key = aq_caller_public_key q, ay_revision = aq_revision q,
         ay_predecessor_authorization_id = aq_predecessor_authorization_id q,
         ay_broker_uri = rstrip_char (CHR ''/'') (strip (aq_broker_uri q)), ay_chain_id = aq_chain_id q,
         ay_denomination = ''wei'', ay_settlement_domain_id = aq_settlement_domain_id q,
         ay_wholesale_account_id = aq_wholesale_account_id q\<rparr>, signature))"
  using assms
proof (cases rule: authorization_run)
  case (1 proto signature)
  from 1(1) obtain price debit nb ex where p: "request_checks q = Inr ()" "price_to_proto (aq_accepted_price q) = Inr price"
    "int_to_biguint_bytes (aq_max_debit_wei q) = Inr debit" "format_rfc3339 strftime (aq_not_before q) = Inr nb"
    "format_rfc3339 strftime (aq_expires_at q) = Inr ex"
    "proto = \<lparr>am_payee = aq_payee q, am_authorization_id = aq_authorization_id q, am_request_id = aq_request_id q,
       am_session_id = aq_session_id q, am_protocol = aq_protocol q, am_accepted_price = price,
       am_max_debit_wei = debit, am_max_total_units = aq_max_total_units q, am_not_before = nb,
       am_expires_at = ex, am_request_digest = aq_request_digest q,
       am_caller_public_key = aq_caller_public_key q, am_revision = aq_revision q,
       am_predecessor_authorization_id = aq_predecessor_authorization_id q,
       am_broker_uri = rstrip_char (CHR ''/'') (strip (aq_broker_uri q)), am_chain_id = aq_chain_id q,
       am_denomination = aq_denomination q, am_settlement_domain_id = aq_settlement_domain_id q,
       am_wholesale_account_id = aq_wholesale_account_id q\<rparr>"
    by (auto simp: spend_authorization_request_to_proto_def bind_r_Inr_iff)
  note checks = request_checks_Inr [OF p(1)]
  obtain t u where window: "aq_not_before q = Aware t" "aq_expires_at q = Aware u"
    using format_Inr [OF p(4)] format_Inr [OF p(5)] by blast
  with checks(4) have "t < u" by (simp add: datetime_le_def)
  have payload: "expected_authorization_payload proto (ar_payer a) =
    \<lparr>ay_domain = ''livepeer-spend-authorization/v3'', ay_payer = ar_payer a, ay_payee = aq_payee q,
         ay_authorization_id = aq_authorization_id q, ay_request_id = aq_request_id q, ay_session_id = aq_session_id q,
         ay_protocol = aq_protocol q, ay_capability = ap_capability (aq_accepted_price q),
         ay_offering = ap_offering (aq_accepted_price q),
         ay_accepted_price = \<lparr>xp_price_per_unit_wei = xp_price_per_unit_wei price, xp_units_per_price = ap_units_per_price (aq_accepted_price q),
           xp_work_unit_name = ap_work_unit_name (aq_accepted_price q), xp_capability = ap_capability (aq_accepted_price q),
           xp_offering = ap_offering (aq_accepted_price q), xp_quote_ref = ap_quote_ref (aq_accepted_price q)\<rparr>,
         ay_max_debit_wei = debit, ay_max_total_units = aq_max_total_units q, ay_not_before = nb,
         ay_expires_at = ex, ay_request_digest = aq_request_digest q,
         ay_caller_public_key = aq_caller_public_key q, ay_revision = aq_revision q,
         ay_predecessor_authorization_id = aq_predecessor_authorization_id q,
         ay_broker_uri = rstrip_char (CHR ''/'') (strip (aq_broker_uri q)), ay_chain_id = aq_chain_id q,
         ay_denomination = ''wei'', ay_settlement_domain_id = aq_settlement_domain_id q,
         ay_wholesale_account_id = aq_wholesale_account_id q\<rparr>"
    using price_to_proto_Inr(2) [OF p(2)] checks(13) by (cases price) (simp add: expected_authorization_payload_def p(6))
  note signed = 1(5) [unfolded payload]
  show ?thesis
    by (intro conjI exI [of _ signature] exI [of _ t] exI [of _ u] exI [of _ nb] exI [of _ ex]
        exI [of _ "xp_price_per_unit_wei price"] exI [of _ debit];
        fact checks 1 window \<open>t < u\<close> p biguint_decode [OF p(3)] price_to_proto_Inr(1) [OF p(2)] signed)
qed

definition demo_price :: accepted_price where
  "demo_price = \<lparr>ap_capability = ''c'', ap_offering = ''o'', ap_price_per_unit_wei = 1000, ap_units_per_price = 1,
     ap_work_unit_name = ''token'', ap_quote_ref = \<lparr>qr_quote_id = ''q1'', qr_quote_version = 1,
       qr_constraint_fingerprint = replicate 32 0, qr_route_fingerprint = replicate 32 17\<rparr>\<rparr>"

definition demo_authorization :: create_spend_authorization_request where
  "demo_authorization = \<lparr>aq_payee = replicate 20 17, aq_authorization_id = ''auth-1'', aq_request_id = ''req-1'',
     aq_session_id = [], aq_protocol = ''paid-job/v1'', aq_accepted_price = demo_price,
     aq_max_debit_wei = 300, aq_max_total_units = 3, aq_not_before = Aware 0, aq_expires_at = Aware 1000000,
     aq_request_digest = replicate 32 1, aq_caller_public_key = [], aq_revision = 0,
     aq_predecessor_authorization_id = [], aq_broker_uri = ''https://orch-1.example/'', aq_chain_id = 42161,
     aq_settlement_domain_id = demo_domain, aq_wholesale_account_id = ''loc'', aq_denomination = ''wei''\<rparr>"

lemma demo_domain_validates: "validate_settlement_domain_id demo_domain = Inr ()"
proof -
  have ones: "hex_underscored False (replicate n (CHR ''1'')) acc \<noteq> None \<and>
      (\<forall>v. hex_underscored False (replicate n (CHR ''1'')) acc = Some v \<longrightarrow> acc \<le> v)" for n acc
    by (induction n arbitrary: acc) (auto simp: hex_val_def, force)
  have "drop 2 demo_domain = CHR ''1'' # replicate 63 (CHR ''1'')"
    by (simp add: demo_domain_def numeral_eq_Suc)
  moreover have "strip (CHR ''1'' # replicate 63 (CHR ''1'')) = CHR ''1'' # replicate 63 (CHR ''1'')"
    by (simp add: strip_def is_space_def numeral_eq_Suc)
  moreover have "lower (CHR ''1'' # replicate 63 (CHR ''1'')) = CHR ''1'' # replicate 63 (CHR ''1'')"
    by (simp add: lower_def lower_char_def)
  ultimately show ?thesis
    using ones [of 63 1]
    by (auto simp: validate_settlement_domain_id_def int_base16_def hex_val_def demo_domain_def
        split: option.splits)
qed

lemma demo_authorization_checks: "request_checks demo_authorization = Inr ()"
  using demo_domain_validates
  by (simp add: request_checks_def demo_authorization_def datetime_le_def strip_def is_space_def
      validate_wholesale_account_id_def is_label_char_def)

theorem signed_scope_is_requested_witness:
  "\<exists>strftime decode daemon a payload signature. create_spend_authorization strftime decode daemon demo_authorization = Inr a \<and>
     decode (ar_authorization_bytes a) = Some (payload, signature) \<and> biguint_bytes_to_decimal (ay_max_debit_wei payload) = 300 \<and>
     ay_broker_uri payload = ''https://orch-1.example'' \<and> ay_request_digest payload = replicate 32 1"
proof -
  let ?strftime = "\<lambda>_. ''2026-01-01T00:00:00''"
  have encodes: "\<exists>raw. int_to_biguint_bytes n = Inr raw" if "0 \<le> n" for n
    using that by (simp add: int_to_biguint_bytes_def Let_def)
  obtain price debit where raw: "int_to_biguint_bytes 1000 = Inr price" "int_to_biguint_bytes 300 = Inr debit"
    using encodes [of 1000] encodes [of 300] by auto
  have fields: "uint64_field 1 = Inr ()" "uint64_field 3 = Inr ()" "uint64_field 0 = Inr ()" "uint64_field 42161 = Inr ()"
    by (simp_all add: uint64_field_def UINT64_MAX_def check_def)
  have "\<exists>proto. spend_authorization_request_to_proto ?strftime demo_authorization = Inr proto"
    using raw fields
    by (simp add: spend_authorization_request_to_proto_def demo_authorization_checks)
       (simp add: price_to_proto_def demo_authorization_def demo_price_def format_rfc3339_def)
  then obtain proto where proto: "spend_authorization_request_to_proto ?strftime demo_authorization = Inr proto" by blast
  let ?a = "\<lparr>ar_authorization_bytes = [1], ar_authorization_id = ''auth-1'', ar_payer = replicate 20 170\<rparr>"
  let ?decode = "\<lambda>_. Some (expected_authorization_payload proto (replicate 20 170), replicate 65 0)"
  have run: "create_spend_authorization ?strftime ?decode (\<lambda>_. RpcAnswer ?a) demo_authorization = Inr ?a"
    by (simp add: create_spend_authorization_def validate_spend_authorization_response_def proto
        spend_authorization_response_to_dataclass_def demo_authorization_def [THEN arg_cong, of aq_authorization_id])
  have uri: "rstrip_char (CHR ''/'') (strip ''https://orch-1.example/'') = ''https://orch-1.example''"
    by code_simp
  from signed_scope_is_requested [OF run] run uri show ?thesis
    by (intro exI [of _ ?strftime] exI [of _ ?decode] exI [of _ "\<lambda>_. RpcAnswer ?a"] exI [of _ ?a])
      (auto simp: demo_authorization_def)
qed

end
