(* ===== verification/Broker.thy ===== *)
theory Broker
  imports Daemon
begin

text \<open>
  The boundary with the brokers (\<open>providers/broker_settlement.py\<close>): the strict response types and
  what the HTTP client accepts. One HTTP exchange is a value: a transport failure, or a status with
  the body when it has the fields of the response model (\<open>None\<close> otherwise); the constraints on
  the fields are the predicates named \<open>_ok\<close>. URL building and the JSON
  and base64 decoders are outside; \<open>sha256_hex\<close> is the digest of a byte string in hex.
\<close>

datatype 'a http = HTTPError | Response int "'a option"

section \<open>Wholesale accounts\<close>

record wholesale_account_observation =
  ob_payer :: string
  ob_payee :: string
  ob_wholesale_account_id :: string
  ob_settlement_domain_id :: string
  ob_chain_id :: int
  ob_denomination :: string
  ob_credited_value_wei :: wei
  ob_reserved_value_wei :: wei
  ob_debited_value_wei :: wei
  ob_available_value_wei :: wei
  ob_version :: int
  ob_observed_at :: timestamp

definition address_ok :: "string \<Rightarrow> bool" where
  "address_ok s \<longleftrightarrow> take 2 s = ''0x'' \<and> length s = 42 \<and> list_all is_lower_hex (drop 2 s)"

definition label_ok :: "string \<Rightarrow> bool" where
  "label_ok s \<longleftrightarrow> 1 \<le> length s \<and> length s \<le> 128 \<and> list_all is_label_char s"

text \<open>The field constraints of the response model.\<close>

definition observation_ok :: "wholesale_account_observation \<Rightarrow> bool" where
  "observation_ok o' \<longleftrightarrow>
     address_ok (ob_payer o') \<and> address_ok (ob_payee o') \<and> label_ok (ob_wholesale_account_id o') \<and>
     domain_pattern (ob_settlement_domain_id o') \<and> 0 < ob_chain_id o' \<and>
     0 \<le> ob_credited_value_wei o' \<and> 0 \<le> ob_reserved_value_wei o' \<and> 0 \<le> ob_debited_value_wei o' \<and>
     0 \<le> ob_available_value_wei o' \<and> 0 \<le> ob_version o'"

record wholesale_funding_result =
  fr_payer :: string
  fr_payee :: string
  fr_wholesale_account_id :: string
  fr_settlement_domain_id :: string
  fr_credited_value_wei :: wei
  fr_available_value_wei :: wei
  fr_account_version :: int
  fr_replayed :: bool
  fr_funding_id :: string

definition funding_result_ok :: "wholesale_funding_result \<Rightarrow> bool" where
  "funding_result_ok r \<longleftrightarrow>
     address_ok (fr_payer r) \<and> address_ok (fr_payee r) \<and> label_ok (fr_wholesale_account_id r) \<and>
     domain_pattern (fr_settlement_domain_id r) \<and> 0 \<le> fr_credited_value_wei r \<and>
     0 \<le> fr_available_value_wei r \<and> 0 \<le> fr_account_version r \<and> fingerprint_ok (fr_funding_id r)"

datatype spend_authorization_state =
    Issued | Admitted | Settled | ExpiredUnused | CanceledUnused | OutcomeUnknown | Superseded

definition state_value :: "spend_authorization_state \<Rightarrow> string" where
  "state_value s =
     (case s of
        Issued \<Rightarrow> ''issued'' | Admitted \<Rightarrow> ''admitted'' | Settled \<Rightarrow> ''settled''
      | ExpiredUnused \<Rightarrow> ''expired_unused'' | CanceledUnused \<Rightarrow> ''canceled_unused''
      | OutcomeUnknown \<Rightarrow> ''outcome_unknown'' | Superseded \<Rightarrow> ''superseded'')"

record spend_authorization_observation =
  so_payee :: string
  so_settlement_domain_id :: string
  so_payer :: string
  so_wholesale_account_id :: string
  so_authorization_id :: string
  so_state :: spend_authorization_state
  so_reserved_value_wei :: wei
  so_billed_value_wei :: wei
  so_released_value_wei :: wei
  so_actual_units :: int
  so_settlement_seq :: int
  so_observed_at :: timestamp

definition authorization_observation_ok :: "spend_authorization_observation \<Rightarrow> bool" where
  "authorization_observation_ok o' \<longleftrightarrow>
     address_ok (so_payer o') \<and> address_ok (so_payee o') \<and> label_ok (so_wholesale_account_id o') \<and>
     domain_pattern (so_settlement_domain_id o') \<and> so_authorization_id o' \<noteq> [] \<and>
     0 \<le> so_reserved_value_wei o' \<and> 0 \<le> so_billed_value_wei o' \<and> 0 \<le> so_released_value_wei o' \<and>
     0 \<le> so_actual_units o' \<and> 0 \<le> so_settlement_seq o'"

definition account_error :: "string \<Rightarrow> error + 'a" where
  "account_error msg = Inl (BrokerWholesaleAccountError msg)"

definition get_wholesale_account ::
  "wholesale_account_observation http \<Rightarrow> string \<Rightarrow> string \<Rightarrow> int \<Rightarrow> string \<Rightarrow> string \<Rightarrow>
   error + wholesale_account_observation" where
  "get_wholesale_account reply payer_eth_address payee_eth_address chain_id settlement_domain_id'
     wholesale_account_id =
     (case reply of
        HTTPError \<Rightarrow> account_error ''broker account query failed''
      | Response status body \<Rightarrow>
          if status \<noteq> 200 then account_error ''broker account query returned HTTP status''
          else case body of
            None \<Rightarrow> account_error ''broker returned a malformed wholesale account''
          | Some account \<Rightarrow>
              if \<not> observation_ok account
              then account_error ''broker returned a malformed wholesale account''
              else if ob_payer account \<noteq> lower payer_eth_address
              then account_error ''broker returned a different payer''
              else if ob_payee account \<noteq> lower payee_eth_address
              then account_error ''broker returned a different payee''
              else if ob_chain_id account \<noteq> chain_id
              then account_error ''broker returned a different chain_id''
              else if ob_denomination account \<noteq> ''wei''
              then account_error ''broker returned a non-wei account''
              else if ob_settlement_domain_id account \<noteq> settlement_domain_id'
              then account_error ''broker returned a different settlement domain''
              else if ob_wholesale_account_id account \<noteq> wholesale_account_id
              then account_error ''broker returned a different wholesale account''
              else Inr account)"

definition get_spend_authorization ::
  "spend_authorization_observation http \<Rightarrow> string \<Rightarrow> string \<Rightarrow> string \<Rightarrow> string \<Rightarrow> string \<Rightarrow>
   error + spend_authorization_observation" where
  "get_spend_authorization reply payer_eth_address authorization_id wholesale_account_id
     payee_eth_address settlement_domain_id' =
     (case reply of
        HTTPError \<Rightarrow> account_error ''broker authorization query failed''
      | Response status body \<Rightarrow>
          if status \<noteq> 200 then account_error ''broker authorization query returned HTTP status''
          else case body of
            None \<Rightarrow> account_error ''broker returned a malformed spend authorization''
          | Some observation \<Rightarrow>
              if \<not> authorization_observation_ok observation
              then account_error ''broker returned a malformed spend authorization''
              else if so_payer observation \<noteq> lower payer_eth_address
              then account_error ''broker returned a different authorization payer''
              else if so_authorization_id observation \<noteq> authorization_id
              then account_error ''broker returned a different authorization''
              else if so_wholesale_account_id observation \<noteq> wholesale_account_id
              then account_error ''broker returned a different wholesale account''
              else if so_payee observation \<noteq> lower payee_eth_address
              then account_error ''broker returned a different authorization payee''
              else if so_settlement_domain_id observation \<noteq> settlement_domain_id'
              then account_error ''broker returned a different authorization domain''
              else Inr observation)"

definition fund_wholesale_account ::
  "(bytes \<Rightarrow> string) \<Rightarrow> wholesale_funding_result http \<Rightarrow> bytes \<Rightarrow> string \<Rightarrow> string \<Rightarrow> string \<Rightarrow> string \<Rightarrow>
   error + wholesale_funding_result" where
  "fund_wholesale_account sha256_hex reply payment_bytes payer_eth_address payee_eth_address
     settlement_domain_id' wholesale_account_id =
     (if payment_bytes = [] then account_error ''cannot fund an account with an empty payment''
      else case reply of
        HTTPError \<Rightarrow> account_error ''broker account funding failed''
      | Response status body \<Rightarrow>
          if status \<noteq> 200 then account_error ''broker account funding returned HTTP status''
          else case body of
            None \<Rightarrow> account_error ''broker returned a malformed account funding acknowledgement''
          | Some result \<Rightarrow>
              if \<not> funding_result_ok result
              then account_error ''broker returned a malformed account funding acknowledgement''
              else if fr_payer result \<noteq> lower payer_eth_address
              then account_error ''broker funded a different payer''
              else if fr_payee result \<noteq> lower payee_eth_address
              then account_error ''broker funded a different payee''
              else if fr_settlement_domain_id result \<noteq> settlement_domain_id'
              then account_error ''broker funded a different settlement domain''
              else if fr_wholesale_account_id result \<noteq> wholesale_account_id
              then account_error ''broker funded a different wholesale account''
              else if fr_funding_id result \<noteq> sha256_hex payment_bytes
              then account_error ''broker returned a different funding receipt''
              else Inr result)"

section \<open>Job exchanges\<close>

datatype broker_exchange_outcome =
    SETTLED | ACCOUNTING_PENDING | IN_FLIGHT | ADMITTED_OUTCOME_UNKNOWN
  | ADMITTED_EVIDENCE_EXPIRED | ADMISSION_REJECTED | NOT_ADMITTED | NO_RECORD

text \<open>A signed envelope: its payload and its signature block.\<close>

record envelope =
  en_payload :: "(string \<times> json) list"
  en_algorithm :: string
  en_canonicalization :: string
  en_signature :: string

text \<open>
  The body of an exchange response. The evidence strings come with their decoding: the base64 JSON
  envelope, or \<open>None\<close> when it does not decode.
\<close>

record exchange_body =
  xb_request_id :: string
  xb_outcome :: broker_exchange_outcome
  xb_job_id :: "string option"
  xb_state :: "string option"
  xb_status :: "int option"
  xb_work_units :: "int option"
  xb_unit :: "string option"
  xb_debit_attempts :: "int option"
  xb_deadline :: "string option"
  xb_ended_at :: "string option"
  xb_detail :: "string option"
  xb_observed_at :: "string option"
  xb_coverage_started_at :: "string option"
  xb_replayed :: "bool option"
  xb_settlement :: "string option"
  xb_non_admission :: "string option"

record exchange_result =
  xr_request_id :: string
  xr_outcome :: broker_exchange_outcome
  xr_job_id :: "string option"
  xr_state :: "string option"
  xr_status :: "int option"
  xr_work_units :: "int option"
  xr_unit :: "string option"
  xr_debit_attempts :: "int option"
  xr_deadline :: "string option"
  xr_ended_at :: "string option"
  xr_detail :: "string option"
  xr_observed_at :: "string option"
  xr_coverage_started_at :: "string option"
  xr_replayed :: "bool option"
  xr_settlement :: "envelope option"
  xr_non_admission :: "envelope option"

definition query_error :: "string \<Rightarrow> error + 'a" where
  "query_error msg = Inl (BrokerSettlementQueryError msg)"

definition validate_exchange_status ::
  "int \<Rightarrow> broker_exchange_outcome \<Rightarrow> bool \<Rightarrow> error + unit" where
  "validate_exchange_status status_code outcome allow_conflict =
     (let expected =
        (case outcome of
           ACCOUNTING_PENDING \<Rightarrow> 202
         | IN_FLIGHT \<Rightarrow> 202
         | NO_RECORD \<Rightarrow> 404
         | ADMITTED_EVIDENCE_EXPIRED \<Rightarrow> (if allow_conflict then 409 else 200)
         | _ \<Rightarrow> 200)
      in if status_code \<noteq> expected then query_error ''outcome is invalid for HTTP status'' else Inr ())"

definition decode_exchange_envelope ::
  "(string \<Rightarrow> envelope option) \<Rightarrow> string option \<Rightarrow> error + envelope option" where
  "decode_exchange_envelope decode encoded =
     (case encoded of
        None \<Rightarrow> Inr None
      | Some text \<Rightarrow>
          (case decode text of
             None \<Rightarrow> query_error ''broker returned malformed evidence''
           | Some e \<Rightarrow> Inr (Some e)))"

text \<open>\<open>settlement_header\<close> and \<open>non_admission_header\<close> are the response headers of those names.\<close>

definition parse_exchange_response ::
  "(string \<Rightarrow> envelope option) \<Rightarrow> int \<Rightarrow> exchange_body option \<Rightarrow> string option \<Rightarrow> string option \<Rightarrow>
   string \<Rightarrow> bool \<Rightarrow> error + exchange_result" where
  "parse_exchange_response decode status_code parsed settlement_header non_admission_header
     request_id allow_no_record =
     (case parsed of
        None \<Rightarrow> query_error ''broker returned a malformed exchange outcome''
      | Some body \<Rightarrow>
          if xb_request_id body \<noteq> request_id then query_error ''broker returned a different request_id''
          else if \<not> allow_no_record \<and> xb_outcome body = NO_RECORD
          then query_error ''non-admission endpoint returned NO_RECORD''
          else case validate_exchange_status status_code (xb_outcome body) (\<not> allow_no_record) of
            Inl e \<Rightarrow> Inl e
          | Inr _ \<Rightarrow>
              if xb_outcome body \<notin> {NOT_ADMITTED, NO_RECORD} \<and>
                 (xb_job_id body = None \<or> xb_job_id body = Some [])
              then query_error ''admitted outcome omitted its broker job_id''
              else case (decode_exchange_envelope decode (xb_settlement body),
                         decode_exchange_envelope decode (xb_non_admission body)) of
                (Inl e, _) \<Rightarrow> Inl e
              | (Inr _, Inl e) \<Rightarrow> Inl e
              | (Inr settlement, Inr non_admission) \<Rightarrow>
                  if xb_outcome body = SETTLED \<and> settlement = None
                  then query_error ''SETTLED omitted its signed settlement''
                  else if xb_outcome body = SETTLED \<and> settlement_header \<noteq> None \<and>
                          settlement_header \<noteq> xb_settlement body
                  then query_error ''settlement header and body disagree''
                  else if xb_outcome body \<noteq> SETTLED \<and> settlement \<noteq> None
                  then query_error ''non-SETTLED outcome carried a settlement''
                  else if xb_outcome body = NOT_ADMITTED \<and> non_admission = None
                  then query_error ''NOT_ADMITTED omitted its signed record''
                  else if xb_outcome body = NOT_ADMITTED \<and> non_admission_header \<noteq> None \<and>
                          non_admission_header \<noteq> xb_non_admission body
                  then query_error ''non-admission header and body disagree''
                  else if xb_outcome body \<noteq> NOT_ADMITTED \<and> non_admission \<noteq> None
                  then query_error ''non-admission evidence has the wrong outcome''
                  else Inr \<lparr>xr_request_id = xb_request_id body, xr_outcome = xb_outcome body,
                            xr_job_id = xb_job_id body, xr_state = xb_state body,
                            xr_status = xb_status body,
                            xr_work_units = xb_work_units body, xr_unit = xb_unit body,
                            xr_debit_attempts = xb_debit_attempts body, xr_deadline = xb_deadline body,
                            xr_ended_at = xb_ended_at body, xr_detail = xb_detail body,
                            xr_observed_at = xb_observed_at body,
                            xr_coverage_started_at = xb_coverage_started_at body,
                            xr_replayed = xb_replayed body, xr_settlement = settlement, xr_non_admission = non_admission\<rparr>)"

definition get_job_exchange ::
  "(string \<Rightarrow> envelope option) \<Rightarrow> exchange_body http \<Rightarrow> string option \<Rightarrow> string option \<Rightarrow> string \<Rightarrow>
   error + exchange_result" where
  "get_job_exchange decode reply settlement_header non_admission_header request_id =
     (case reply of
        HTTPError \<Rightarrow> query_error ''broker exchange query failed''
      | Response status body \<Rightarrow>
          if status \<notin> {200, 202, 404} then query_error ''broker exchange query returned HTTP status''
          else parse_exchange_response decode status body settlement_header non_admission_header
                 request_id True)"

definition request_non_admission ::
  "(string \<Rightarrow> envelope option) \<Rightarrow> exchange_body http \<Rightarrow> string option \<Rightarrow> string option \<Rightarrow> string \<Rightarrow>
   error + exchange_result" where
  "request_non_admission decode reply settlement_header non_admission_header request_id =
     (case reply of
        HTTPError \<Rightarrow> query_error ''broker non-admission query failed''
      | Response status body \<Rightarrow>
          if status \<notin> {200, 202, 409} then query_error ''broker non-admission query returned HTTP status''
          else parse_exchange_response decode status body settlement_header non_admission_header
                 request_id False)"

text \<open>\<open>header\<close> is the \<open>Livepeer-Settlement\<close> response header; the body is not read.\<close>

definition get_settlement ::
  "(string \<Rightarrow> envelope option) \<Rightarrow> unit http \<Rightarrow> string option \<Rightarrow> error + envelope option" where
  "get_settlement decode reply header =
     (case reply of
        HTTPError \<Rightarrow> query_error ''broker settlement query failed''
      | Response status _ \<Rightarrow>
          if status = 404 then Inr None
          else if status \<noteq> 200 then query_error ''broker settlement query returned HTTP status''
          else case header of
            None \<Rightarrow> query_error ''broker response omitted Livepeer-Settlement''
          | Some encoded \<Rightarrow>
              (case decode encoded of
                 None \<Rightarrow> query_error ''broker returned a malformed settlement''
               | Some e \<Rightarrow> Inr (Some e)))"

section \<open>Properties\<close>

lemma account_error_simps [simp]: "account_error m \<noteq> Inr x" "account_error m = Inl e \<longleftrightarrow> e = BrokerWholesaleAccountError m"
  by (auto simp: account_error_def)

lemma query_error_simps [simp]: "query_error m \<noteq> Inr x" "query_error m = Inl e \<longleftrightarrow> e = BrokerSettlementQueryError m"
  by (auto simp: query_error_def)

lemma get_wholesale_account_Inr:
  assumes "get_wholesale_account reply payer payee chain domain acct = Inr ob"
  shows "observation_ok ob \<and> ob_payer ob = lower payer \<and> ob_payee ob = lower payee \<and>
    ob_chain_id ob = chain \<and> ob_denomination ob = ''wei'' \<and> ob_settlement_domain_id ob = domain \<and>
    ob_wholesale_account_id ob = acct"
  using assms by (auto simp: get_wholesale_account_def split: http.splits option.splits if_splits)

text \<open>Settled and non-admission evidence is never confused: when the client returns an exchange
  outcome it is for the caller's request ID, with the HTTP status the outcome prescribes; a signed
  settlement is present exactly for SETTLED and signed absence evidence exactly for NOT_ADMITTED,
  and every admitted outcome names the broker's job.\<close>

theorem exchange_evidence_matches_outcome:
  assumes "parse_exchange_response decode status parsed sh nh request_id allow = Inr r"
  shows "xr_request_id r = request_id \<and> (xr_settlement r \<noteq> None \<longleftrightarrow> xr_outcome r = SETTLED) \<and>
    (xr_non_admission r \<noteq> None \<longleftrightarrow> xr_outcome r = NOT_ADMITTED) \<and>
    (xr_outcome r \<notin> {NOT_ADMITTED, NO_RECORD} \<longrightarrow> (\<exists>j. xr_job_id r = Some j \<and> j \<noteq> [])) \<and>
    (xr_outcome r \<in> {ACCOUNTING_PENDING, IN_FLIGHT} \<longleftrightarrow> status = 202)"
  using assms
  by (auto simp: parse_exchange_response_def validate_exchange_status_def Let_def
      split: option.splits if_splits sum.splits prod.splits broker_exchange_outcome.splits)

theorem exchange_evidence_matches_outcome_witness:
  "\<exists>r. parse_exchange_response (\<lambda>_. None) 404
      (Some \<lparr>xb_request_id = ''r1'', xb_outcome = NO_RECORD, xb_job_id = None, xb_state = None,
        xb_status = None, xb_work_units = None, xb_unit = None, xb_debit_attempts = None, xb_deadline = None,
        xb_ended_at = None, xb_detail = None, xb_observed_at = None, xb_coverage_started_at = None,
        xb_replayed = None, xb_settlement = None, xb_non_admission = None\<rparr>) None None ''r1'' True = Inr r \<and>
    xr_settlement r = None \<and> xr_non_admission r = None"
proof -
  obtain r where r: "parse_exchange_response (\<lambda>_. None) 404
      (Some \<lparr>xb_request_id = ''r1'', xb_outcome = NO_RECORD, xb_job_id = None, xb_state = None,
        xb_status = None, xb_work_units = None, xb_unit = None, xb_debit_attempts = None, xb_deadline = None,
        xb_ended_at = None, xb_detail = None, xb_observed_at = None, xb_coverage_started_at = None,
        xb_replayed = None, xb_settlement = None, xb_non_admission = None\<rparr>) None None ''r1'' True = Inr r"
    "xr_outcome r = NO_RECORD"
    by (simp add: parse_exchange_response_def validate_exchange_status_def decode_exchange_envelope_def)
  with exchange_evidence_matches_outcome [OF r(1)] show ?thesis by auto
qed

end
