(* ===== verification/Wholesale.thy ===== *)
theory Wholesale
  imports Billing Broker
begin

text \<open>
  Aggregate wholesale funding (\<open>domains/wholesale/repo.py\<close>, \<open>types.py\<close>, \<open>service.py\<close>): LOC's view of
  its shared accounts at the payees, one funding attempt per mint request, and the global exposure
  budget. The tables extend the billing database. \<open>claim_account_funding\<close>,
  \<open>record_minted_funding\<close> and \<open>acknowledge_account_funding\<close> commit, so they act on a transaction;
  \<open>session_clean\<close> is what \<open>db.new\<close>, \<open>db.dirty\<close> and \<open>db.deleted\<close> report, fresh primary keys are
  arguments, and the broker and the daemon are the answers they give.
\<close>

section \<open>Tables\<close>

record wholesale_account =
  wa_id :: uuid
  wa_chain_id :: int
  wa_payer_eth_address :: string
  wa_payee_eth_address :: string
  wa_wholesale_account_id :: string
  wa_settlement_domain_id :: string
  wa_denomination :: string
  wa_protocol_version :: string
  wa_broker_url :: string
  wa_credited_value_wei :: wei
  wa_reserved_value_wei :: wei
  wa_debited_value_wei :: wei
  wa_available_value_wei :: wei
  wa_remote_version :: int
  wa_observed_at :: timestamp

record wholesale_exposure_budget =
  eb_scope :: string
  eb_projected_available_wei :: wei

record wholesale_funding =
  wf_account_id :: uuid
  wf_mint_request_id :: string
  wf_correlation_id :: "string option"
  wf_target_available_wei :: wei
  wf_observed_available_wei :: wei
  wf_requested_shortfall_wei :: wei
  wf_route_snapshot :: route_snapshot
  wf_payment_bytes :: "bytes option"
  wf_minted_expected_value_wei :: wei
  wf_credited_value_wei :: "wei option"
  wf_work_id :: "string option"
  wf_account_version :: "int option"
  wf_status :: string
  wf_acknowledged_at :: "timestamp option"

record wholesale_db = billing_db +
  accounts :: "wholesale_account list"
  fundings :: "wholesale_funding list"
  budgets :: "wholesale_exposure_budget list"

section \<open>Policy types\<close>

definition COMPAT_SETTLEMENT_DOMAIN_ID :: string where
  "COMPAT_SETTLEMENT_DOMAIN_ID = ''loc.compat.wholesale-account/1.1.0-draft''"

record wholesale_funding_limits =
  wl_target_available_wei :: wei
  wl_replenish_below_wei :: wei
  wl_max_available_per_payee_wei :: wei
  wl_max_aggregate_available_wei :: wei
  wl_max_single_funding_wei :: wei

definition target_fits_hard_limits ::
  "wholesale_funding_limits \<Rightarrow> error + wholesale_funding_limits" where
  "target_fits_hard_limits self =
     (if wl_target_available_wei self \<le> 0 \<or> wl_replenish_below_wei self \<le> 0 \<or>
         wl_max_available_per_payee_wei self \<le> 0 \<or> wl_max_aggregate_available_wei self \<le> 0 \<or>
         wl_max_single_funding_wei self \<le> 0
      then Inl (ValueError ''funding limits must be positive'')
      else if wl_target_available_wei self < wl_replenish_below_wei self
      then Inl (ValueError ''replenish_below_wei exceeds target_available_wei'')
      else if wl_max_available_per_payee_wei self < wl_target_available_wei self
      then Inl (ValueError ''target_available_wei exceeds the per-payee limit'')
      else if wl_max_aggregate_available_wei self < wl_target_available_wei self
      then Inl (ValueError ''target_available_wei exceeds the aggregate limit'')
      else Inr self)"

record wholesale_funding_plan =
  wp_target_available_wei :: wei
  wp_observed_available_wei :: wei
  wp_shortfall_wei :: wei
  wp_projected_payee_available_wei :: wei
  wp_projected_aggregate_available_wei :: wei

definition policy_error :: "string \<Rightarrow> error" where
  "policy_error msg = WholesaleFundingPolicyError msg"

definition admission_funding_limits ::
  "wholesale_funding_limits \<Rightarrow> wei \<Rightarrow> error + wholesale_funding_limits" where
  "admission_funding_limits limits required_reservation_wei =
     (if required_reservation_wei < 0 then Inl (policy_error ''invalid required reservation'')
      else
        let target = max (wl_target_available_wei limits) required_reservation_wei
        in if wl_max_available_per_payee_wei limits < target
           then Inl (policy_error ''admission reservation exceeds the per-payee funding limit'')
           else if wl_max_aggregate_available_wei limits < target
           then Inl (policy_error ''admission reservation exceeds the aggregate funding limit'')
           else Inr (limits\<lparr>wl_target_available_wei := target,
                  wl_replenish_below_wei := max (wl_replenish_below_wei limits) required_reservation_wei\<rparr>))"

definition verify_admission_funding_readiness ::
  "(error + wholesale_account_observation) \<Rightarrow> selected_route \<Rightarrow> string \<Rightarrow> int \<Rightarrow> string \<Rightarrow> wei \<Rightarrow>
   error + unit" where
  "verify_admission_funding_readiness reply route payer_eth_address chain_id wholesale_account_id
     required_reservation_wei =
     (case reply of
        Inl e \<Rightarrow> Inl e
      | Inr observed \<Rightarrow>
          if ob_wholesale_account_id observed \<noteq> wholesale_account_id \<or>
             ob_payer observed \<noteq> payer_eth_address \<or> ob_payee observed \<noteq> sr_eth_address route \<or>
             ob_chain_id observed \<noteq> chain_id \<or> ob_denomination observed \<noteq> ''wei'' \<or>
             ob_settlement_domain_id observed \<noteq> sr_settlement_domain_id route
          then Inl (policy_error ''admission readiness changed account identity'')
          else if ob_available_value_wei observed < required_reservation_wei
          then Inl (policy_error
             ''receiver available credit is below the admission reservation after funding'')
          else Inr ())"

section \<open>Planning\<close>

definition plan_account_shortfall ::
  "wholesale_account_observation \<Rightarrow> wei \<Rightarrow> wei option \<Rightarrow> wholesale_funding_limits \<Rightarrow>
   error + wholesale_funding_plan" where
  "plan_account_shortfall observation aggregate_available_wei payee_available limits =
     (if aggregate_available_wei < ob_available_value_wei observation
      then Inl (policy_error ''aggregate available value cannot be below the observed account'')
      else
        let payee_available_wei =
              (case payee_available of None \<Rightarrow> ob_available_value_wei observation | Some v \<Rightarrow> v)
        in if payee_available_wei < ob_available_value_wei observation
           then Inl (policy_error ''payee available value cannot be below the observed account'')
           else
             let should_replenish = ob_available_value_wei observation < wl_replenish_below_wei limits;
                 shortfall = (if should_replenish
                   then max 0 (wl_target_available_wei limits - ob_available_value_wei observation)
                   else 0);
                 projected_payee = payee_available_wei + shortfall;
                 projected_aggregate = aggregate_available_wei + shortfall;
                 plan = \<lparr>wp_target_available_wei = wl_target_available_wei limits,
                         wp_observed_available_wei = ob_available_value_wei observation,
                         wp_shortfall_wei = shortfall,
                         wp_projected_payee_available_wei = projected_payee,
                         wp_projected_aggregate_available_wei = projected_aggregate\<rparr>
             in if shortfall = 0 then Inr plan
                else if wl_max_single_funding_wei limits < shortfall
                then Inl (policy_error ''account shortfall exceeds the single-funding limit'')
                else if wl_max_available_per_payee_wei limits < projected_payee
                then Inl (policy_error ''funding would exceed the per-payee limit'')
                else if wl_max_aggregate_available_wei limits < projected_aggregate
                then Inl (policy_error ''funding would exceed the aggregate limit'')
                else Inr plan)"

definition require_settlement_domain_id :: "string \<Rightarrow> error + unit" where
  "require_settlement_domain_id value =
     (if value = [] then Inl (policy_error ''settlement_domain_id is required'') else Inr ())"

definition require_observation_domain ::
  "wholesale_account_observation \<Rightarrow> string \<Rightarrow> error + unit" where
  "require_observation_domain observation value =
     (if ob_settlement_domain_id observation \<noteq> value
      then Inl (policy_error ''broker observation changed settlement domain'') else Inr ())"

definition pending_account_funding ::
  "('z wholesale_db_scheme) \<Rightarrow> wholesale_account list \<Rightarrow> wei" where
  "pending_account_funding db accts =
     sum_list (map wf_requested_shortfall_wei
       (filter (\<lambda>f. wf_account_id f \<in> set (map wa_id accts) \<and> wf_status f \<noteq> ''acknowledged'')
         (fundings db)))"

definition load_active_accounts :: "('z wholesale_db_scheme) \<Rightarrow> wholesale_account list" where
  "load_active_accounts db =
     filter (\<lambda>a. wa_settlement_domain_id a \<noteq> COMPAT_SETTLEMENT_DOMAIN_ID) (accounts db)"

definition matching_payee_accounts ::
  "wholesale_account list \<Rightarrow> wholesale_account_observation \<Rightarrow> wholesale_account list" where
  "matching_payee_accounts accts observation =
     filter (\<lambda>c. wa_chain_id c = ob_chain_id observation \<and>
       wa_payer_eth_address c = ob_payer observation \<and>
       wa_payee_eth_address c = ob_payee observation \<and>
       wa_denomination c = ob_denomination observation) accts"

definition total_available :: "wholesale_account list \<Rightarrow> wei" where
  "total_available accts = sum_list (map wa_available_value_wei accts)"

definition synchronized_exposure ::
  "('z wholesale_db_scheme) \<Rightarrow> wholesale_account list \<Rightarrow> wholesale_account list \<Rightarrow>
   wholesale_account option \<Rightarrow> wholesale_account_observation \<Rightarrow> wei \<times> wei" where
  "synchronized_exposure db active_accounts payee_accounts account observation =
     (let prior_available = (case account of None \<Rightarrow> 0 | Some a \<Rightarrow> wa_available_value_wei a);
          prior_payee = total_available payee_accounts + pending_account_funding db payee_accounts;
          prior_aggregate = total_available active_accounts + pending_account_funding db active_accounts;
          replacement = ob_available_value_wei observation - prior_available
      in (prior_aggregate + replacement, prior_payee + replacement))"

definition account_matches ::
  "wholesale_account \<Rightarrow> wholesale_account_observation \<Rightarrow> string \<Rightarrow> bool" where
  "account_matches account observation domain \<longleftrightarrow>
     wa_chain_id account = ob_chain_id observation \<and>
     wa_payer_eth_address account = ob_payer observation \<and>
     wa_payee_eth_address account = ob_payee observation \<and>
     ob_settlement_domain_id observation = domain \<and>
     wa_settlement_domain_id account = domain \<and>
     wa_wholesale_account_id account = ob_wholesale_account_id observation \<and>
     wa_denomination account = ob_denomination observation"

definition find_account ::
  "wholesale_account list \<Rightarrow> string \<Rightarrow> wholesale_account_observation \<Rightarrow> wholesale_account option" where
  "find_account payee_accounts domain observation =
     find (\<lambda>c. wa_settlement_domain_id c = domain \<and>
       wa_wholesale_account_id c = ob_wholesale_account_id observation) payee_accounts"

definition global_budget :: "('z wholesale_db_scheme) \<Rightarrow> wholesale_exposure_budget option" where
  "global_budget db = find (\<lambda>b. eb_scope b = ''global'') (budgets db)"

definition plan_observed_account_shortfall ::
  "wholesale_account_observation \<Rightarrow> string \<Rightarrow> wholesale_funding_limits \<Rightarrow>
   ('z wholesale_db_scheme, wholesale_funding_plan) op" where
  "plan_observed_account_shortfall observation domain limits =
     bind_op (of_result (require_settlement_domain_id domain)) (\<lambda>_.
     bind_op (of_result (require_observation_domain observation domain)) (\<lambda>_.
     bind_op (gets global_budget) (\<lambda>budget.
     bind_op (require (budget \<noteq> None)
                (policy_error ''wholesale exposure budget is not initialized'')) (\<lambda>_.
     bind_op (gets (\<lambda>db.
       let active_accounts = load_active_accounts db;
           payee_accounts = matching_payee_accounts active_accounts observation;
           account = find_account payee_accounts domain observation;
           prior_available = (case account of None \<Rightarrow> 0 | Some a \<Rightarrow> wa_available_value_wei a);
           prior_payee = total_available payee_accounts + pending_account_funding db payee_accounts;
           prior_aggregate = total_available active_accounts + pending_account_funding db active_accounts
       in (prior_aggregate - prior_available + ob_available_value_wei observation,
           prior_payee - prior_available + ob_available_value_wei observation))) (\<lambda>(aggregate, payee).
     of_result (plan_account_shortfall observation aggregate (Some payee) limits))))))"

section \<open>Claiming\<close>

definition observed_account ::
  "wholesale_account_observation \<Rightarrow> string \<Rightarrow> string \<Rightarrow> wholesale_account \<Rightarrow> wholesale_account" where
  "observed_account observation protocol_version broker_url account =
     account\<lparr>wa_protocol_version := protocol_version, wa_broker_url := broker_url,
       wa_credited_value_wei := ob_credited_value_wei observation,
       wa_reserved_value_wei := ob_reserved_value_wei observation,
       wa_debited_value_wei := ob_debited_value_wei observation,
       wa_available_value_wei := ob_available_value_wei observation,
       wa_remote_version := ob_version observation,
       wa_observed_at := ob_observed_at observation\<rparr>"

definition new_account ::
  "uuid \<Rightarrow> wholesale_account_observation \<Rightarrow> string \<Rightarrow> string \<Rightarrow> string \<Rightarrow> wholesale_account" where
  "new_account account_id observation domain protocol_version broker_url =
     \<lparr>wa_id = account_id, wa_chain_id = ob_chain_id observation,
      wa_payer_eth_address = ob_payer observation, wa_payee_eth_address = ob_payee observation,
      wa_wholesale_account_id = ob_wholesale_account_id observation,
      wa_settlement_domain_id = domain, wa_denomination = ob_denomination observation,
      wa_protocol_version = protocol_version, wa_broker_url = broker_url,
      wa_credited_value_wei = ob_credited_value_wei observation,
      wa_reserved_value_wei = ob_reserved_value_wei observation,
      wa_debited_value_wei = ob_debited_value_wei observation,
      wa_available_value_wei = ob_available_value_wei observation,
      wa_remote_version = ob_version observation, wa_observed_at = ob_observed_at observation\<rparr>"

text \<open>The columns of \<open>uq_wholesale_account_identity\<close>.\<close>

definition account_identity ::
  "wholesale_account \<Rightarrow> int \<times> string \<times> string \<times> string \<times> string \<times> string" where
  "account_identity a = (wa_chain_id a, wa_payer_eth_address a, wa_payee_eth_address a,
     wa_settlement_domain_id a, wa_wholesale_account_id a, wa_denomination a)"

definition find_funding :: "('z wholesale_db_scheme) \<Rightarrow> string \<Rightarrow> wholesale_funding option" where
  "find_funding db mint_request_id = find (\<lambda>f. wf_mint_request_id f = mint_request_id) (fundings db)"

definition get_account :: "('z wholesale_db_scheme) \<Rightarrow> uuid \<Rightarrow> wholesale_account option" where
  "get_account db account_id = find (\<lambda>a. wa_id a = account_id) (accounts db)"

definition replay_claim ::
  "selected_route \<Rightarrow> wholesale_account_observation \<Rightarrow> string \<Rightarrow> wholesale_funding_plan \<Rightarrow>
   string option \<Rightarrow> wholesale_funding \<Rightarrow> (('z wholesale_db_scheme) txn, wholesale_funding option) op" where
  "replay_claim route observation domain plan correlation_id existing =
     bind_op (read_db (\<lambda>db. get_account db (wf_account_id existing))) (\<lambda>account.
     bind_op (require (case account of None \<Rightarrow> False | Some a \<Rightarrow> account_matches a observation domain)
                (policy_error ''mint_request_id replay changed account identity'')) (\<lambda>_.
     bind_op (of_result (snapshot_view route)) (\<lambda>snap.
     bind_op (require ((wf_target_available_wei existing, wf_route_snapshot existing,
                        wf_correlation_id existing) =
                       (wp_target_available_wei plan, snap, correlation_id))
                (policy_error ''mint_request_id replay changed funding scope'')) (\<lambda>_.
     bind_op (require (\<not> (wf_status existing = ''claimed'' \<and>
                 (wf_observed_available_wei existing, wf_requested_shortfall_wei existing) \<noteq>
                 (wp_observed_available_wei plan, wp_shortfall_wei plan)))
                (policy_error ''unminted funding replay changed account state'')) (\<lambda>_.
     bind_op commit (\<lambda>_.
     ret (Some existing)))))))"

definition set_budget :: "wei \<Rightarrow> ('z wholesale_db_scheme) \<Rightarrow> ('z wholesale_db_scheme)" where
  "set_budget v db = db\<lparr>budgets := update_where (\<lambda>b. eb_scope b = ''global'')
     (\<lambda>b. b\<lparr>eb_projected_available_wei := v\<rparr>) (budgets db)\<rparr>"

text \<open>Insert the account, or refresh it from an observation that did not move backwards.\<close>

definition store_observation ::
  "uuid \<Rightarrow> selected_route \<Rightarrow> wholesale_account_observation \<Rightarrow> string \<Rightarrow> string \<Rightarrow>
   wholesale_account option \<Rightarrow> (('z wholesale_db_scheme) txn, uuid) op" where
  "store_observation new_account_id route observation domain protocol_version account =
     (case account of
        None \<Rightarrow>
          let row = new_account new_account_id observation domain protocol_version (sr_worker_url route)
          in bind_op (read_db accounts) (\<lambda>existing.
             bind_op (require (account_identity row \<notin> set (map account_identity existing) \<and>
                               wa_id row \<notin> set (map wa_id existing)) IntegrityError) (\<lambda>_.
             bind_op (write_db (\<lambda>db. db\<lparr>accounts := accounts db @ [row]\<rparr>)) (\<lambda>_.
             ret new_account_id)))
      | Some a \<Rightarrow>
          bind_op (require (wa_remote_version a \<le> ob_version observation)
                     (policy_error ''broker account observation moved backwards'')) (\<lambda>_.
          bind_op (write_db (\<lambda>db. db\<lparr>accounts :=
              update_where (\<lambda>x. wa_id x = wa_id a)
                (observed_account observation protocol_version (sr_worker_url route))
                (accounts db)\<rparr>)) (\<lambda>_.
          ret (wa_id a))))"

definition claimed_funding ::
  "uuid \<Rightarrow> string \<Rightarrow> string option \<Rightarrow> wholesale_funding_plan \<Rightarrow> route_snapshot \<Rightarrow> wholesale_funding" where
  "claimed_funding account_id mint_request_id correlation_id plan snap =
     \<lparr>wf_account_id = account_id, wf_mint_request_id = mint_request_id,
      wf_correlation_id = correlation_id,
      wf_target_available_wei = wp_target_available_wei plan,
      wf_observed_available_wei = wp_observed_available_wei plan,
      wf_requested_shortfall_wei = wp_shortfall_wei plan, wf_route_snapshot = snap,
      wf_payment_bytes = None, wf_minted_expected_value_wei = 0, wf_credited_value_wei = None,
      wf_work_id = None, wf_account_version = None, wf_status = ''claimed'',
      wf_acknowledged_at = None\<rparr>"

definition claim_account_funding ::
  "bool \<Rightarrow> uuid \<Rightarrow> selected_route \<Rightarrow> wholesale_account_observation \<Rightarrow> string \<Rightarrow>
   wholesale_funding_plan \<Rightarrow> wholesale_funding_limits \<Rightarrow> string \<Rightarrow> string option \<Rightarrow> string \<Rightarrow>
   (('z wholesale_db_scheme) txn, wholesale_funding option) op" where
  "claim_account_funding session_clean new_account_id route observation domain plan limits
     mint_request_id correlation_id protocol_version =
     bind_op (of_result (require_settlement_domain_id domain)) (\<lambda>_.
     bind_op (of_result (require_observation_domain observation domain)) (\<lambda>_.
     bind_op (require session_clean
                (policy_error ''funding claim requires a clean database session'')) (\<lambda>_.
     bind_op (read_db (\<lambda>db. find_funding db mint_request_id)) (\<lambda>found.
     case found of
       Some existing \<Rightarrow> replay_claim route observation domain plan correlation_id existing
     | None \<Rightarrow>
         bind_op (read_db global_budget) (\<lambda>budget.
         bind_op (require (budget \<noteq> None)
                    (policy_error ''wholesale exposure budget is not initialized'')) (\<lambda>_.
         bind_op (read_db load_active_accounts) (\<lambda>active_accounts.
         let payee_accounts = matching_payee_accounts active_accounts observation;
             account = find_account payee_accounts domain observation
         in bind_op (read_db (\<lambda>db.
              synchronized_exposure db active_accounts payee_accounts account observation))
              (\<lambda>(synchronized_aggregate, synchronized_payee).
            bind_op (of_result (plan_account_shortfall observation synchronized_aggregate
                       (Some synchronized_payee) limits)) (\<lambda>locked_plan.
            bind_op (require (locked_plan = plan)
                       (policy_error ''funding plan changed while acquiring exposure lock'')) (\<lambda>_.
            bind_op (store_observation new_account_id route observation domain protocol_version
                       account) (\<lambda>account_id.
            bind_op (write_db (set_budget (wp_projected_aggregate_available_wei locked_plan))) (\<lambda>_.
            if wp_shortfall_wei plan = 0 then bind_op commit (\<lambda>_. ret None)
            else
              bind_op (of_result (snapshot_view route)) (\<lambda>snap.
              let funding = claimed_funding account_id mint_request_id correlation_id plan snap
              in bind_op (write_db (\<lambda>db. db\<lparr>fundings := fundings db @ [funding]\<rparr>)) (\<lambda>_.
                 bind_op commit (\<lambda>_.
                 ret (Some funding))))))))))))))))"

section \<open>Minting and acknowledging\<close>

definition record_minted_funding ::
  "string \<Rightarrow> create_payment_response \<Rightarrow> (('z wholesale_db_scheme) txn, wholesale_funding) op" where
  "record_minted_funding mint_request_id response =
     bind_op (read_db (\<lambda>db. find_funding db mint_request_id)) (\<lambda>found.
     case found of
       None \<Rightarrow> raise (policy_error ''mint result does not match its durable claim'')
     | Some funding \<Rightarrow>
         bind_op (require (pp_expected_value response = wf_requested_shortfall_wei funding)
                    (policy_error ''mint result does not match its durable claim'')) (\<lambda>_.
         bind_op (require (\<not> (wf_payment_bytes funding \<noteq> None \<and>
                              wf_payment_bytes funding \<noteq> Some (pp_payment_bytes response)))
                    (policy_error ''mint replay changed payment bytes'')) (\<lambda>_.
         let minted = funding\<lparr>wf_payment_bytes := Some (pp_payment_bytes response),
               wf_minted_expected_value_wei := pp_expected_value response,
               wf_work_id := (if pp_work_id response = [] then None else Some (pp_work_id response)),
               wf_status := (if wf_status funding \<noteq> ''acknowledged'' then ''minted'' else wf_status funding)\<rparr>
         in bind_op (write_db (\<lambda>db. db\<lparr>fundings :=
                update_where (\<lambda>f. wf_mint_request_id f = mint_request_id) (\<lambda>_. minted) (fundings db)\<rparr>)) (\<lambda>_.
            bind_op commit (\<lambda>_.
            ret minted)))))"

definition acknowledged_credit ::
  "(bytes \<Rightarrow> string) \<Rightarrow> wholesale_funding_result \<Rightarrow> wholesale_account_observation \<Rightarrow> wholesale_funding \<Rightarrow>
   error + wei" where
  "acknowledged_credit sha256_hex result observation funding =
     (if (case wf_payment_bytes funding of
            None \<Rightarrow> True
          | Some payment \<Rightarrow> fr_funding_id result \<noteq> sha256_hex payment)
      then Inl (policy_error ''broker funding receipt identifies another payment'')
      else if fr_credited_value_wei result \<noteq> wf_minted_expected_value_wei funding
      then Inl (policy_error ''broker funding credit differs from minted value'')
      else if fr_credited_value_wei result < wf_requested_shortfall_wei funding
      then Inl (policy_error ''broker under-credited account funding'')
      else if ob_credited_value_wei observation < fr_credited_value_wei result
      then Inl (policy_error ''broker funding credit exceeds durable account credit'')
      else if wf_status funding = ''acknowledged'' \<and>
              (wf_credited_value_wei funding \<noteq> Some (fr_credited_value_wei result) \<or>
               wf_account_version funding \<noteq> Some (fr_account_version result))
      then Inl (policy_error ''broker changed an acknowledged funding receipt'')
      else Inr (fr_credited_value_wei result))"

definition acknowledge_account_funding ::
  "(bytes \<Rightarrow> string) \<Rightarrow> string \<Rightarrow> wholesale_funding_result \<Rightarrow> wholesale_account_observation \<Rightarrow> string \<Rightarrow>
   timestamp \<Rightarrow> (('z wholesale_db_scheme) txn, wholesale_funding) op" where
  "acknowledge_account_funding sha256_hex mint_request_id result observation domain acknowledged_at =
     bind_op (read_db (\<lambda>db. find_funding db mint_request_id)) (\<lambda>found.
     case found of
       None \<Rightarrow> raise (policy_error ''broker acknowledgement has no minted funding claim'')
     | Some funding \<Rightarrow>
         bind_op (require (wf_payment_bytes funding \<noteq> None)
                    (policy_error ''broker acknowledgement has no minted funding claim'')) (\<lambda>_.
         bind_op (read_db (\<lambda>db. get_account db (wf_account_id funding))) (\<lambda>account_row.
         case account_row of
           None \<Rightarrow> raise (policy_error ''funding account no longer exists'')
         | Some account \<Rightarrow>
             bind_op (read_db global_budget) (\<lambda>budget_row.
             case budget_row of
               None \<Rightarrow> raise (policy_error ''wholesale exposure budget is not initialized'')
             | Some budget \<Rightarrow>
                 bind_op (of_result (require_settlement_domain_id domain)) (\<lambda>_.
                 bind_op (of_result (require_observation_domain observation domain)) (\<lambda>_.
                 bind_op (require (\<not> (fr_payer result \<noteq> wa_payer_eth_address account \<or>
                            fr_payee result \<noteq> wa_payee_eth_address account \<or>
                            fr_settlement_domain_id result \<noteq> domain \<or>
                            fr_wholesale_account_id result \<noteq> wa_wholesale_account_id account \<or>
                            \<not> account_matches account observation domain))
                            (policy_error ''broker acknowledgement changed account identity'')) (\<lambda>_.
                 bind_op (require (fr_account_version result \<le> ob_version observation)
                            (policy_error ''broker acknowledgement and observation disagree'')) (\<lambda>_.
                 bind_op (require (\<not> (fr_account_version result = ob_version observation \<and>
                            fr_available_value_wei result \<noteq> ob_available_value_wei observation))
                            (policy_error ''broker acknowledgement and observation disagree'')) (\<lambda>_.
                 bind_op (require (wa_remote_version account \<le> ob_version observation)
                            (policy_error ''broker account observation moved backwards'')) (\<lambda>_.
                 bind_op (of_result (acknowledged_credit sha256_hex result observation funding)) (\<lambda>credit.
                 let projected_for_account = wa_available_value_wei account +
                       (if wf_status funding = ''acknowledged'' then 0
                        else wf_requested_shortfall_wei funding);
                     account' = observed_account observation (wa_protocol_version account)
                       (wa_broker_url account) account;
                     funding' = funding\<lparr>wf_credited_value_wei := Some credit,
                       wf_account_version := Some (fr_account_version result),
                       wf_status := ''acknowledged'', wf_acknowledged_at := Some acknowledged_at\<rparr>
                 in bind_op (write_db (set_budget (eb_projected_available_wei budget -
                        projected_for_account + ob_available_value_wei observation))) (\<lambda>_.
                    bind_op (write_db (\<lambda>db. db\<lparr>
                        accounts := update_where (\<lambda>a. wa_id a = wa_id account) (\<lambda>_. account') (accounts db),
                        fundings := update_where (\<lambda>f. wf_mint_request_id f = mint_request_id)
                          (\<lambda>_. funding') (fundings db)\<rparr>)) (\<lambda>_.
                    bind_op commit (\<lambda>_.
                    ret funding'))))))))))))))"

section \<open>The daemon request and the whole exchange\<close>

definition create_account_funding_request ::
  "selected_route \<Rightarrow> wholesale_account_observation \<Rightarrow> wholesale_funding_plan \<Rightarrow> string \<Rightarrow>
   error + create_payment_request" where
  "create_account_funding_request route observation plan mint_request_id =
     (if ob_payee observation \<noteq> lower (sr_eth_address route)
      then Inl (policy_error ''account observation does not match the locked payee'')
      else if ob_settlement_domain_id observation \<noteq> sr_settlement_domain_id route
      then Inl (policy_error ''account observation does not match the locked settlement domain'')
      else if mint_request_id = [] then Inl (policy_error ''mint_request_id is required'')
      else case fromhex (removeprefix_0x (sr_eth_address route)) of
        None \<Rightarrow> Inl (policy_error ''selected payee is not a hex address'')
      | Some recipient \<Rightarrow>
          if length recipient \<noteq> 20 then Inl (policy_error ''selected payee must be a 20-byte address'')
          else Inr
            \<lparr>pq_mint_request_id = mint_request_id, pq_recipient = recipient,
             pq_ticket_params_base_url = sr_worker_url route,
             pq_accepted_price =
               \<lparr>ap_capability = sr_capability route, ap_offering = sr_offering route,
                ap_price_per_unit_wei = sr_price_per_work_unit_wei route,
                ap_units_per_price = sr_units_per_price route,
                ap_work_unit_name = sr_work_unit route,
                ap_quote_ref =
                  \<lparr>qr_quote_id = sr_quote_id route, qr_quote_version = sr_quote_version route,
                   qr_constraint_fingerprint = sr_constraint_fingerprint route,
                   qr_route_fingerprint = sr_route_fingerprint route\<rparr>\<rparr>,
             pq_funding =
               \<lparr>fi_funded_value_wei = wp_target_available_wei plan, fi_estimated_units = 0,
                fi_max_total_units = 0\<rparr>,
             pq_account_funding =
               \<lparr>af_target_available_wei = wp_target_available_wei plan,
                af_observed_available_wei = wp_observed_available_wei plan,
                af_settlement_domain_id = sr_settlement_domain_id route,
                af_wholesale_account_id = ob_wholesale_account_id observation\<rparr>\<rparr>)"

text \<open>
  \<open>create_payment\<close> is the daemon, \<open>fund\<close> the broker's answer to the deposit of given payment bytes
  and \<open>get_after\<close> its account afterwards (both through the client's own checks).
\<close>

definition mint_step ::
  "selected_route \<Rightarrow> wholesale_account_observation \<Rightarrow> wholesale_funding_plan \<Rightarrow> string \<Rightarrow>
   (create_payment_request \<Rightarrow> error + create_payment_response) \<Rightarrow> wholesale_funding \<Rightarrow>
   (('z wholesale_db_scheme) txn, wholesale_funding) op" where
  "mint_step route observation plan payer_eth_address create_payment funding =
     (if wf_status funding = ''claimed'' then
        bind_op (of_result (create_account_funding_request route observation plan
                   (wf_mint_request_id funding))) (\<lambda>mint_request.
        bind_op (of_result (create_payment mint_request)) (\<lambda>raw.
        bind_op (of_result (validate_funding_response mint_request raw)) (\<lambda>mint_response.
        bind_op (require (address_of_bytes (pp_sender mint_response) = payer_eth_address)
                   (policy_error ''funding payer differs from authorization payer'')) (\<lambda>_.
        record_minted_funding (wf_mint_request_id funding) mint_response))))
      else ret funding)"

definition complete_account_funding ::
  "(bytes \<Rightarrow> string) \<Rightarrow> wholesale_funding option \<Rightarrow> selected_route \<Rightarrow> wholesale_account_observation \<Rightarrow>
   string \<Rightarrow> wholesale_funding_plan \<Rightarrow> string \<Rightarrow>
   (create_payment_request \<Rightarrow> error + create_payment_response) \<Rightarrow>
   (bytes \<Rightarrow> error + wholesale_funding_result) \<Rightarrow> (error + wholesale_account_observation) \<Rightarrow> timestamp \<Rightarrow>
   (('z wholesale_db_scheme) txn, unit) op" where
  "complete_account_funding sha256_hex funding_opt route observation domain plan payer_eth_address
     create_payment fund get_after acknowledged_at =
     (case funding_opt of
        None \<Rightarrow> ret ()
      | Some funding \<Rightarrow>
          if wf_status funding = ''acknowledged'' then ret ()
          else
            bind_op (read_db (\<lambda>db. get_account db (wf_account_id funding))) (\<lambda>account.
            bind_op (require (case account of None \<Rightarrow> False | Some a \<Rightarrow> account_matches a observation domain)
                       (policy_error ''funding completion changed account identity'')) (\<lambda>_.
            bind_op (mint_step route observation plan payer_eth_address create_payment funding) (\<lambda>minted.
            case wf_payment_bytes minted of
              None \<Rightarrow> raise (policy_error ''minted funding has no replayable payment bytes'')
            | Some payment_bytes \<Rightarrow>
                bind_op (of_result (fund payment_bytes)) (\<lambda>result.
                bind_op (of_result get_after) (\<lambda>after.
                bind_op (acknowledge_account_funding sha256_hex (wf_mint_request_id minted) result
                           after domain acknowledged_at) (\<lambda>_.
                ret ())))))))"

end
