(* ===== verification/Wholesale_Laws.thy ===== *)
theory Wholesale_Laws
  imports Wholesale
begin

text \<open>
  The exposure of the operator and what the funding operations do to it. \<open>exposure\<close> is the credit at
  every active account plus every shortfall claimed and not yet acknowledged; the global budget row
  must equal it. \<open>claim_cases\<close>, \<open>mint_cases\<close> and \<open>ack_cases\<close> say what each operation makes durable;
  the transition system of the domain runs whole transactions from a clean session.
\<close>

section \<open>Exposure\<close>

definition active :: "wholesale_account \<Rightarrow> bool" where
  "active a \<longleftrightarrow> wa_settlement_domain_id a \<noteq> COMPAT_SETTLEMENT_DOMAIN_ID"

definition pending :: "wholesale_funding \<Rightarrow> bool" where
  "pending f \<longleftrightarrow> wf_status f \<noteq> ''acknowledged''"

definition exposure :: "('z wholesale_db_scheme) \<Rightarrow> wei" where
  "exposure db = total_available (load_active_accounts db) +
     pending_account_funding db (load_active_accounts db)"

text \<open>The part of the exposure at one payee.\<close>

definition payee_exposure :: "wholesale_account_observation \<Rightarrow> ('z wholesale_db_scheme) \<Rightarrow> wei" where
  "payee_exposure observation db =
     (let accts = matching_payee_accounts (load_active_accounts db) observation
      in total_available accts + pending_account_funding db accts)"

text \<open>A funding is claimed, then minted (its replayable payment is stored), then acknowledged.\<close>

definition funding_ok :: "wholesale_funding \<Rightarrow> bool" where
  "funding_ok f \<longleftrightarrow> wf_status f \<in> {''claimed'', ''minted'', ''acknowledged''} \<and>
     (wf_status f = ''claimed'' \<longleftrightarrow> wf_payment_bytes f = None)"

definition wholesale_inv :: "('z wholesale_db_scheme) \<Rightarrow> bool" where
  "wholesale_inv db \<longleftrightarrow>
     distinct (map wa_id (accounts db)) \<and> distinct (map account_identity (accounts db)) \<and>
     distinct (map wf_mint_request_id (fundings db)) \<and> distinct (map eb_scope (budgets db)) \<and>
     (\<forall>f \<in> set (fundings db). wf_account_id f \<in> set (map wa_id (accounts db))) \<and>
     (\<forall>f \<in> set (fundings db). funding_ok f) \<and>
     (\<forall>b. global_budget db = Some b \<longrightarrow> eb_projected_available_wei b = exposure db)"

text \<open>Sums over a selection of the accounts, written as weights.\<close>

definition sel_exposure :: "(wholesale_account \<Rightarrow> bool) \<Rightarrow> ('z wholesale_db_scheme) \<Rightarrow> wei" where
  "sel_exposure p db =
     sum_list (map (\<lambda>a. if p a then wa_available_value_wei a else 0) (accounts db)) +
     sum_list (map (\<lambda>f. if wf_account_id f \<in> set (map wa_id (filter p (accounts db))) \<and> pending f
                        then wf_requested_shortfall_wei f else 0) (fundings db))"

lemma sum_list_filter: "sum_list (map w (filter p xs)) = sum_list (map (\<lambda>x. if p x then w x else (0::int)) xs)"
  by (induction xs) auto

lemma exposure_sel: "total_available (filter p (accounts db)) + pending_account_funding db (filter p (accounts db))
    = sel_exposure p db"
  by (simp add: sel_exposure_def total_available_def pending_account_funding_def sum_list_filter pending_def)

lemma load_active: "load_active_accounts db = filter active (accounts db)"
  unfolding load_active_accounts_def by (rule filter_cong) (simp_all add: active_def)

lemma exposure_alt: "exposure db = sel_exposure active db"
  using exposure_sel [of active db] by (simp add: exposure_def load_active)

definition at_payee :: "wholesale_account_observation \<Rightarrow> wholesale_account \<Rightarrow> bool" where
  "at_payee observation c \<longleftrightarrow> active c \<and> wa_chain_id c = ob_chain_id observation \<and>
     wa_payer_eth_address c = ob_payer observation \<and> wa_payee_eth_address c = ob_payee observation \<and>
     wa_denomination c = ob_denomination observation"

lemma matching_active:
  "matching_payee_accounts (load_active_accounts db) observation = filter (at_payee observation) (accounts db)"
  unfolding matching_payee_accounts_def load_active filter_filter
  by (rule filter_cong) (auto simp: at_payee_def)

lemma payee_exposure_alt: "payee_exposure observation db = sel_exposure (at_payee observation) db"
  using exposure_sel [of "at_payee observation" db] by (simp add: payee_exposure_def matching_active Let_def)

text \<open>Selections that only look at the identity of an account survive a refresh.\<close>

definition on_identity :: "(wholesale_account \<Rightarrow> bool) \<Rightarrow> bool" where
  "on_identity p \<longleftrightarrow> (\<forall>a b. account_identity a = account_identity b \<longrightarrow> p a = p b)"

lemma on_identity_active [simp]: "on_identity active"
  by (simp add: on_identity_def active_def account_identity_def)

lemma on_identity_at_payee [simp]: "on_identity (at_payee observation)"
  by (simp add: on_identity_def at_payee_def active_def account_identity_def)

lemma observed_account_simps [simp]:
  "account_identity (observed_account ob pv url a) = account_identity a"
  "wa_id (observed_account ob pv url a) = wa_id a"
  "wa_available_value_wei (observed_account ob pv url a) = ob_available_value_wei ob"
  "wa_remote_version (observed_account ob pv url a) = ob_version ob"
  by (simp_all add: observed_account_def account_identity_def)

lemma filter_ids_update:
  assumes "on_identity p" and "\<And>a. account_identity (f a) = account_identity a" and "\<And>a. wa_id (f a) = wa_id a"
  shows "map wa_id (filter p (update_where q f rows)) = map wa_id (filter p rows)"
proof -
  have "p (f a) = p a" for a using assms(1,2) by (metis on_identity_def)
  then show ?thesis using assms(3) by (induction rows) simp_all
qed

lemma sel_exposure_refresh:
  assumes p: "on_identity p" and d: "distinct (map wa_id (accounts db))"
    and a: "find (\<lambda>x. wa_id x = wa_id a) (accounts db) = Some a"
    and f: "\<And>a. account_identity (f a) = account_identity a" "\<And>a. wa_id (f a) = wa_id a"
  shows "sel_exposure p (db\<lparr>accounts := update_where (\<lambda>x. wa_id x = wa_id a) f (accounts db)\<rparr>) =
    sel_exposure p db + (if p a then wa_available_value_wei (f a) - wa_available_value_wei a else 0)"
proof -
  have "p (f a) = p a" using p f by (metis on_identity_def)
  then show ?thesis
    using sum_list_update_where [OF d a, of "\<lambda>a. if p a then wa_available_value_wei a else 0" f]
    by (simp add: sel_exposure_def filter_ids_update [OF p f] del: set_map)
qed

lemma sel_exposure_insert:
  assumes "wa_id row \<notin> set (map wa_id (accounts db))"
    and "\<forall>f \<in> set (fundings db). wf_account_id f \<in> set (map wa_id (accounts db))"
  shows "sel_exposure p (db\<lparr>accounts := accounts db @ [row]\<rparr>) =
    sel_exposure p db + (if p row then wa_available_value_wei row else 0)"
proof -
  have "sum_list (map (\<lambda>f. if wf_account_id f \<in> set (map wa_id (filter p (accounts db @ [row]))) \<and> pending f
                        then wf_requested_shortfall_wei f else 0) (fundings db)) =
      sum_list (map (\<lambda>f. if wf_account_id f \<in> set (map wa_id (filter p (accounts db))) \<and> pending f
                        then wf_requested_shortfall_wei f else 0) (fundings db))"
    using assms by (intro arg_cong [where f = sum_list] map_cong) (auto, metis imageE)
  then show ?thesis by (simp add: sel_exposure_def del: filter_append set_map)
qed

lemma sel_exposure_fundings:
  "sel_exposure p (db\<lparr>fundings := fundings db @ [f]\<rparr>) = sel_exposure p db +
     (if wf_account_id f \<in> set (map wa_id (filter p (accounts db))) \<and> pending f
      then wf_requested_shortfall_wei f else 0)"
  by (simp add: sel_exposure_def)

lemma sel_exposure_funding_update:
  assumes "distinct (map wf_mint_request_id (fundings db))"
    and "find (\<lambda>x. wf_mint_request_id x = k) (fundings db) = Some f"
    and "wf_account_id f' = wf_account_id f"
  shows "sel_exposure p (db\<lparr>fundings := update_where (\<lambda>x. wf_mint_request_id x = k) (\<lambda>_. f') (fundings db)\<rparr>) =
    sel_exposure p db + (if wf_account_id f \<in> set (map wa_id (filter p (accounts db)))
      then (if pending f' then wf_requested_shortfall_wei f' else 0)
         - (if pending f then wf_requested_shortfall_wei f else 0) else 0)"
  using sum_list_update_where [OF assms(1,2), of "\<lambda>f. if wf_account_id f \<in> set (map wa_id (filter p (accounts db))) \<and> pending f
                        then wf_requested_shortfall_wei f else 0" "\<lambda>_. f'"] assms(3)
  by (simp add: sel_exposure_def del: set_map)

lemma sel_exposure_cong:
  "accounts db' = accounts db \<Longrightarrow> fundings db' = fundings db \<Longrightarrow> sel_exposure p db' = sel_exposure p db"
  by (simp add: sel_exposure_def)

lemma sel_exposure_budget [simp]: "sel_exposure p (set_budget v db) = sel_exposure p db"
  by (rule sel_exposure_cong) (simp_all add: set_budget_def)

lemma global_budget_set:
  "global_budget (set_budget v db) = map_option (\<lambda>b. b\<lparr>eb_projected_available_wei := v\<rparr>) (global_budget db)"
  unfolding global_budget_def set_budget_def by (simp add: find_update_where_same)

lemma set_budget_simps [simp]:
  "accounts (set_budget v db) = accounts db" "fundings (set_budget v db) = fundings db"
  "map eb_scope (budgets (set_budget v db)) = map eb_scope (budgets db)"
  by (simp_all add: set_budget_def)

lemma domain_pattern_active: "domain_pattern d \<Longrightarrow> d \<noteq> COMPAT_SETTLEMENT_DOMAIN_ID"
  by (auto simp: domain_pattern_def COMPAT_SETTLEMENT_DOMAIN_ID_def)

section \<open>What a claim makes durable\<close>

lemma policy_error_ne [simp]: "policy_error a \<noteq> IntegrityError"
  by (simp add: policy_error_def)

lemma store_observation_durable:
  "store_observation nid route ob dmn pv account s = (r, s') \<Longrightarrow> durable s' = durable s"
  by (auto simp: store_observation_def op_run Let_def read_db_def write_db_def
      split: option.splits if_splits)

definition prior_available :: "wholesale_account option \<Rightarrow> wei" where
  "prior_available account = (case account of None \<Rightarrow> 0 | Some a \<Rightarrow> wa_available_value_wei a)"

definition located :: "wholesale_account_observation \<Rightarrow> string \<Rightarrow> ('z wholesale_db_scheme) \<Rightarrow> wholesale_account option" where
  "located ob dmn db = find_account (filter (at_payee ob) (accounts db)) dmn ob"

lemma synchronized_alt:
  "synchronized_exposure db (load_active_accounts db)
     (matching_payee_accounts (load_active_accounts db) ob) account ob =
   (sel_exposure active db + (ob_available_value_wei ob - prior_available account),
    sel_exposure (at_payee ob) db + (ob_available_value_wei ob - prior_available account))"
  using exposure_sel [of active db] exposure_sel [of "at_payee ob" db]
  by (simp add: synchronized_exposure_def Let_def prior_available_def matching_active)
     (simp add: load_active)

definition new_fundings :: "uuid \<Rightarrow> string \<Rightarrow> string option \<Rightarrow> wholesale_funding_plan \<Rightarrow> route_snapshot \<Rightarrow>
   wholesale_funding list" where
  "new_fundings aid mid cid plan snap =
     (if wp_shortfall_wei plan = 0 then [] else [claimed_funding aid mid cid plan snap])"

lemma claim_cases:
  fixes s s' :: "('z wholesale_db_scheme) txn"
  assumes "claim_account_funding clean nid route ob dmn plan limits mid cid pv s = (r, s')"
  obtains (failed) e where "r = Inl e" "durable s' = durable s"
    | (replayed) f where "find_funding (working s) mid = Some f" "r = Inr (Some f)"
        "s' = s\<lparr>durable := working s\<rparr>"
    | (claimed) budget aid db1 snap where "find_funding (working s) mid = None"
        "ob_settlement_domain_id ob = dmn" "global_budget (working s) = Some budget"
        "plan_account_shortfall ob
           (sel_exposure active (working s) + (ob_available_value_wei ob - prior_available (located ob dmn (working s))))
           (Some (sel_exposure (at_payee ob) (working s) + (ob_available_value_wei ob - prior_available (located ob dmn (working s)))))
           limits = Inr plan"
        "store_observation nid route ob dmn pv (located ob dmn (working s)) s = (Inr aid, s\<lparr>working := db1\<rparr>)"
        "working s' = durable s'"
        "durable s' = (set_budget (wp_projected_aggregate_available_wei plan) db1)
           \<lparr>fundings := fundings db1 @ new_fundings aid mid cid plan snap\<rparr>"
        "r = Inr (case new_fundings aid mid cid plan snap of [] \<Rightarrow> None | f # _ \<Rightarrow> Some f)"
        "wp_shortfall_wei plan \<noteq> 0 \<Longrightarrow> snapshot_view route = Inr snap"
proof -
  let ?db = "working s"
  let ?acc = "located ob dmn ?db"
  let ?agg = "sel_exposure active ?db + (ob_available_value_wei ob - prior_available ?acc)"
  let ?pay = "sel_exposure (at_payee ob) ?db + (ob_available_value_wei ob - prior_available ?acc)"
  have acc: "find_account (matching_payee_accounts (load_active_accounts ?db) ob) dmn ob = ?acc"
    by (simp add: located_def matching_active)
  obtain q s1 where st: "store_observation nid route ob dmn pv ?acc s = (q, s1)" by force
  have s1: "s1 = s\<lparr>working := working s1\<rparr>" using store_observation_durable [OF st] by simp
  note run = assms [unfolded claim_account_funding_def Let_def]
  have "(\<exists>e. r = Inl e) \<and> durable s' = durable s
      \<or> (\<exists>f. find_funding ?db mid = Some f \<and> r = Inr (Some f) \<and> s' = s\<lparr>durable := working s\<rparr>)
      \<or> (\<exists>budget aid snap. find_funding ?db mid = None \<and> ob_settlement_domain_id ob = dmn \<and>
          global_budget ?db = Some budget \<and> plan_account_shortfall ob ?agg (Some ?pay) limits = Inr plan \<and>
          q = Inr aid \<and> working s' = durable s' \<and>
          durable s' = (set_budget (wp_projected_aggregate_available_wei plan) (working s1))
           \<lparr>fundings := fundings (working s1) @ new_fundings aid mid cid plan snap\<rparr> \<and>
          r = Inr (case new_fundings aid mid cid plan snap of [] \<Rightarrow> None | f # _ \<Rightarrow> Some f) \<and>
          (wp_shortfall_wei plan \<noteq> 0 \<longrightarrow> snapshot_view route = Inr snap))"
  proof (cases "find_funding ?db mid")
    case (Some f)
    then show ?thesis
      using run
      by (auto simp: require_settlement_domain_id_def require_observation_domain_def replay_claim_def
          ret_def split: if_splits sum.splits)
  next
    case None
    have upd: "db\<lparr>fundings := fundings db @ []\<rparr> = db" for db :: "'z wholesale_db_scheme" by simp
    show ?thesis
    proof (cases q)
      case (Inl e)
      then show ?thesis
        using run None st store_observation_durable [OF st]
        by (auto simp: require_settlement_domain_id_def require_observation_domain_def acc
            synchronized_alt bind_eq_Inl [of "store_observation _ _ _ _ _ _"]
            split: if_splits sum.splits)
    next
      case (Inr aid)
      then show ?thesis
        using run None st store_observation_durable [OF st]
        by (auto simp: require_settlement_domain_id_def require_observation_domain_def acc
            synchronized_alt bind_eq_Inr [of "store_observation _ _ _ _ _ _"] new_fundings_def ret_def
            split: if_splits sum.splits)
    qed
  qed
  then show thesis
    using failed replayed claimed st s1 by metis
qed

lemma located_SomeD:
  assumes "located ob dmn db = Some a"
  shows "a \<in> set (accounts db)" "at_payee ob a" "active a" "wa_settlement_domain_id a = dmn"
    "wa_wholesale_account_id a = ob_wholesale_account_id ob"
  using assms by (auto simp: located_def find_account_def at_payee_def dest!: find_SomeD)

lemma at_payee_new: "domain_pattern dmn \<Longrightarrow> at_payee ob (new_account nid ob dmn pv url)"
  by (simp add: at_payee_def active_def new_account_def domain_pattern_active)

text \<open>Storing an observation moves every selected exposure by the replacement, and nothing else.\<close>

lemma store_effect:
  fixes s :: "('z wholesale_db_scheme) txn"
  assumes run: "store_observation nid route ob dmn pv (located ob dmn (working s)) s = (Inr aid, s\<lparr>working := db1\<rparr>)"
    and inv: "wholesale_inv (working s)" and dp: "domain_pattern dmn"
  shows "distinct (map wa_id (accounts db1))" "distinct (map account_identity (accounts db1))"
    "fundings db1 = fundings (working s)" "budgets db1 = budgets (working s)"
    "set (map wa_id (accounts (working s))) \<subseteq> set (map wa_id (accounts db1))"
    "\<exists>a \<in> set (accounts db1). wa_id a = aid \<and> at_payee ob a \<and> account_matches a (ob\<lparr>ob_settlement_domain_id := dmn\<rparr>) dmn"
    "p \<in> {active, at_payee ob} \<Longrightarrow> sel_exposure p db1 = sel_exposure p (working s) +
       (ob_available_value_wei ob - prior_available (located ob dmn (working s)))"
    "billing_db.truncate db1 = billing_db.truncate (working s)"
proof -
  let ?db = "working s"
  from inv have d: "distinct (map wa_id (accounts ?db))" "distinct (map account_identity (accounts ?db))"
    and refs: "\<forall>f \<in> set (fundings ?db). wf_account_id f \<in> set (map wa_id (accounts ?db))"
    by (auto simp: wholesale_inv_def)
  have "distinct (map wa_id (accounts db1)) \<and> distinct (map account_identity (accounts db1)) \<and>
    fundings db1 = fundings ?db \<and> budgets db1 = budgets ?db \<and>
    set (map wa_id (accounts ?db)) \<subseteq> set (map wa_id (accounts db1)) \<and>
    (\<exists>a \<in> set (accounts db1). wa_id a = aid \<and> at_payee ob a \<and> account_matches a (ob\<lparr>ob_settlement_domain_id := dmn\<rparr>) dmn) \<and>
    (\<forall>p \<in> {active, at_payee ob}. sel_exposure p db1 = sel_exposure p ?db +
       (ob_available_value_wei ob - prior_available (located ob dmn ?db))) \<and>
    billing_db.truncate db1 = billing_db.truncate ?db"
  proof (cases "located ob dmn ?db")
    case None
    let ?row = "new_account nid ob dmn pv (sr_worker_url route)"
    have db1: "db1 = ?db\<lparr>accounts := accounts ?db @ [?row]\<rparr>" and aid: "aid = nid"
      and fresh: "account_identity ?row \<notin> set (map account_identity (accounts ?db))"
        "wa_id ?row \<notin> set (map wa_id (accounts ?db))"
      using run None
      by (auto simp: store_observation_def Let_def ret_def txn.splits split: if_splits)
         (metis txn.select_convs(1) txn.surjective txn.update_convs(1))
    have pay: "at_payee ob ?row" "active ?row" using at_payee_new [OF dp] by (auto simp: at_payee_def)
    have "wa_available_value_wei ?row = ob_available_value_wei ob" "wa_id ?row = nid"
      by (simp_all add: new_account_def)
    then show ?thesis
      using d fresh pay refs None unfolding db1 aid
      by (auto simp: sel_exposure_insert [OF fresh(2) refs] prior_available_def account_matches_def
          billing_db.truncate_def) (simp_all add: new_account_def)
  next
    case (Some a)
    let ?f = "observed_account ob pv (sr_worker_url route)"
    have db1: "db1 = ?db\<lparr>accounts := update_where (\<lambda>x. wa_id x = wa_id a) ?f (accounts ?db)\<rparr>"
      and aid: "aid = wa_id a"
      using run Some
      by (auto simp: store_observation_def Let_def ret_def split: if_splits)
         (metis txn.select_convs(1) txn.surjective txn.update_convs(1))
    note loc = located_SomeD [OF Some]
    have found: "find (\<lambda>x. wa_id x = wa_id a) (accounts ?db) = Some a"
      using find_key_unique [OF d(1) loc(1)] .
    have ids: "map wa_id (update_where (\<lambda>x. wa_id x = wa_id a) ?f (accounts ?db)) = map wa_id (accounts ?db)"
      "map account_identity (update_where (\<lambda>x. wa_id x = wa_id a) ?f (accounts ?db)) = map account_identity (accounts ?db)"
      by simp_all
    have "?f a \<in> set (update_where (\<lambda>x. wa_id x = wa_id a) ?f (accounts ?db))"
      using loc(1) by (force simp: set_update_where)
    moreover have "at_payee ob (?f a)" "account_matches (?f a) (ob\<lparr>ob_settlement_domain_id := dmn\<rparr>) dmn"
      using loc by (auto simp: at_payee_def active_def account_matches_def observed_account_def)
    ultimately show ?thesis
      using d loc ids unfolding db1 aid
      by (auto simp: sel_exposure_refresh [OF on_identity_active d(1) found]
          sel_exposure_refresh [OF on_identity_at_payee d(1) found] prior_available_def Some
          billing_db.truncate_def simp del: map_update_where) (metis observed_account_simps(2))
  qed
  then show "distinct (map wa_id (accounts db1))" "distinct (map account_identity (accounts db1))"
    "fundings db1 = fundings (working s)" "budgets db1 = budgets (working s)"
    "set (map wa_id (accounts (working s))) \<subseteq> set (map wa_id (accounts db1))"
    "\<exists>a \<in> set (accounts db1). wa_id a = aid \<and> at_payee ob a \<and> account_matches a (ob\<lparr>ob_settlement_domain_id := dmn\<rparr>) dmn"
    "p \<in> {active, at_payee ob} \<Longrightarrow> sel_exposure p db1 = sel_exposure p (working s) +
       (ob_available_value_wei ob - prior_available (located ob dmn (working s)))"
    "billing_db.truncate db1 = billing_db.truncate (working s)"
    by blast+
qed

lemma plan_Inr:
  assumes "plan_account_shortfall ob agg (Some pay) limits = Inr plan"
  shows "wp_projected_aggregate_available_wei plan = agg + wp_shortfall_wei plan"
    "wp_projected_payee_available_wei plan = pay + wp_shortfall_wei plan"
    "wp_observed_available_wei plan = ob_available_value_wei ob"
    "wp_target_available_wei plan = wl_target_available_wei limits"
    "0 \<le> wp_shortfall_wei plan" "ob_available_value_wei ob \<le> pay" "ob_available_value_wei ob \<le> agg"
    "wp_shortfall_wei plan = (if ob_available_value_wei ob < wl_replenish_below_wei limits
       then max 0 (wl_target_available_wei limits - ob_available_value_wei ob) else 0)"
    "wp_shortfall_wei plan \<noteq> 0 \<Longrightarrow> wp_shortfall_wei plan \<le> wl_max_single_funding_wei limits \<and>
       pay + wp_shortfall_wei plan \<le> wl_max_available_per_payee_wei limits \<and>
       agg + wp_shortfall_wei plan \<le> wl_max_aggregate_available_wei limits"
  using assms by (auto simp: plan_account_shortfall_def Let_def max_def split: if_splits)

text \<open>The durable state after a claim: budget, exposure and identities agree.\<close>

lemma claimed_db:
  fixes s :: "('z wholesale_db_scheme) txn"
  assumes st: "store_observation nid route ob dmn pv (located ob dmn (working s)) s = (Inr aid, s\<lparr>working := db1\<rparr>)"
    and inv: "wholesale_inv (working s)" and dp: "domain_pattern dmn"
    and new: "find_funding (working s) mid = None"
    and plan: "plan_account_shortfall ob
           (sel_exposure active (working s) + (ob_available_value_wei ob - prior_available (located ob dmn (working s))))
           (Some (sel_exposure (at_payee ob) (working s) + (ob_available_value_wei ob - prior_available (located ob dmn (working s)))))
           limits = Inr plan"
    and db': "db' = (set_budget (wp_projected_aggregate_available_wei plan) db1)
           \<lparr>fundings := fundings db1 @ new_fundings aid mid cid plan snap\<rparr>"
  shows "wholesale_inv db'" "exposure db' = wp_projected_aggregate_available_wei plan"
    "payee_exposure ob db' = wp_projected_payee_available_wei plan"
    "billing_db.truncate db' = billing_db.truncate (working s)"
proof -
  note eff = store_effect [OF st inv dp]
  note pl = plan_Inr [OF plan]
  from eff(6) obtain a where a: "a \<in> set (accounts db1)" "wa_id a = aid" "at_payee ob a" by blast
  let ?db2 = "set_budget (wp_projected_aggregate_available_wei plan) db1"
  have member: "aid \<in> set (map wa_id (filter p (accounts db1)))" if "p \<in> {active, at_payee ob}" for p
    using a that by (auto simp: at_payee_def)
  have sel: "sel_exposure p db' = sel_exposure p db1 + wp_shortfall_wei plan" if "p \<in> {active, at_payee ob}" for p
  proof (cases "wp_shortfall_wei plan = 0")
    case True
    then show ?thesis by (simp add: db' new_fundings_def) (rule sel_exposure_cong, auto)
  next
    case False
    then show ?thesis
      using member [OF that] sel_exposure_fundings [of p ?db2 "claimed_funding aid mid cid plan snap"]
      by (simp add: db' new_fundings_def claimed_funding_def pending_def)
  qed
  have "sel_exposure active db' = wp_projected_aggregate_available_wei plan"
    "sel_exposure (at_payee ob) db' = wp_projected_payee_available_wei plan"
    using sel eff(7) pl(1,2) by simp_all
  then show expo: "exposure db' = wp_projected_aggregate_available_wei plan"
    "payee_exposure ob db' = wp_projected_payee_available_wei plan"
    by (simp_all add: exposure_alt payee_exposure_alt)
  have "mid \<notin> set (map wf_mint_request_id (fundings (working s)))"
    using new by (auto simp: find_funding_def find_None_iff)
  then have "distinct (map wf_mint_request_id (fundings db'))"
    using inv eff(3) by (auto simp: db' wholesale_inv_def new_fundings_def claimed_funding_def)
  moreover have "\<forall>f \<in> set (fundings db'). wf_account_id f \<in> set (map wa_id (accounts db'))"
    using inv eff(3,5) a by (auto simp: db' wholesale_inv_def new_fundings_def claimed_funding_def)
  moreover have "\<forall>f \<in> set (fundings db'). funding_ok f"
    using inv eff(3) by (auto simp: db' wholesale_inv_def new_fundings_def claimed_funding_def funding_ok_def)
  moreover have "eb_projected_available_wei b = exposure db'" if "global_budget db' = Some b" for b
  proof -
    have "global_budget db' = global_budget ?db2" by (simp add: db' global_budget_def)
    with that expo show ?thesis by (auto simp: global_budget_set)
  qed
  ultimately show "wholesale_inv db'"
    using eff(1,2,4) inv unfolding wholesale_inv_def db' by auto
  show "billing_db.truncate db' = billing_db.truncate (working s)"
    using eff(8) by (simp add: db' billing_db.truncate_def set_budget_def)
qed

lemma claim_keeps_inv:
  assumes "claim_account_funding clean nid route ob dmn plan limits mid cid pv s = (r, s')"
    and "wholesale_inv (working s)" and "wholesale_inv (durable s)" and "observation_ok ob"
  shows "wholesale_inv (durable s')"
  using assms(1)
proof (cases rule: claim_cases)
  case (claimed budget aid db1 snap)
  have "domain_pattern dmn" using claimed(2) assms(4) by (simp add: observation_ok_def)
  from claimed_db(1) [OF claimed(5) assms(2) this claimed(1) claimed(4) claimed(7)] show ?thesis .
qed (use assms in auto)

section \<open>Minting and acknowledging\<close>

lemma find_funding_in: "find_funding db k = Some f \<Longrightarrow> f \<in> set (fundings db) \<and> wf_mint_request_id f = k"
  by (auto simp: find_funding_def dest: find_SomeD)

lemma get_account_in: "get_account db k = Some a \<Longrightarrow> a \<in> set (accounts db) \<and> wa_id a = k"
  by (auto simp: get_account_def dest: find_SomeD)

definition minted_funding :: "create_payment_response \<Rightarrow> wholesale_funding \<Rightarrow> wholesale_funding" where
  "minted_funding response funding = funding\<lparr>wf_payment_bytes := Some (pp_payment_bytes response),
     wf_minted_expected_value_wei := pp_expected_value response,
     wf_work_id := (if pp_work_id response = [] then None else Some (pp_work_id response)),
     wf_status := (if wf_status funding \<noteq> ''acknowledged'' then ''minted'' else wf_status funding)\<rparr>"

definition replace_funding :: "string \<Rightarrow> wholesale_funding \<Rightarrow> ('z wholesale_db_scheme) \<Rightarrow> ('z wholesale_db_scheme)" where
  "replace_funding mid f db =
     db\<lparr>fundings := update_where (\<lambda>x. wf_mint_request_id x = mid) (\<lambda>_. f) (fundings db)\<rparr>"

lemma mint_cases:
  assumes "record_minted_funding mid p s = (r, s')"
  obtains (failed) e where "r = Inl e" "s' = s"
    | (minted) f where "find_funding (working s) mid = Some f"
        "pp_expected_value p = wf_requested_shortfall_wei f"
        "wf_payment_bytes f \<in> {None, Some (pp_payment_bytes p)}"
        "r = Inr (minted_funding p f)" "working s' = replace_funding mid (minted_funding p f) (working s)"
        "durable s' = working s'"
  using assms
  by (auto simp: record_minted_funding_def minted_funding_def replace_funding_def ret_def raise_def Let_def
      split: option.splits if_splits)

lemma replace_funding_find:
  "wf_mint_request_id f = mid \<Longrightarrow> find_funding (replace_funding mid f db) mid = map_option (\<lambda>_. f) (find_funding db mid)"
  by (simp add: find_funding_def replace_funding_def find_update_where_same)

lemma replace_funding_inv:
  assumes inv: "wholesale_inv db" and f: "find_funding db mid = Some f"
    and f': "wf_mint_request_id f' = mid" "wf_account_id f' = wf_account_id f"
    and ok: "funding_ok f'"
    and same: "(if pending f' then wf_requested_shortfall_wei f' else 0) = (if pending f then wf_requested_shortfall_wei f else 0)"
  shows "wholesale_inv (replace_funding mid f' db)"
proof -
  note fin = find_funding_in [OF f]
  have ex: "exposure (replace_funding mid f' db) = exposure db"
    using sel_exposure_funding_update [of db mid f f' active] inv f f'(2) same
    by (simp add: exposure_alt replace_funding_def wholesale_inv_def find_funding_def)
  have "map wf_mint_request_id (fundings (replace_funding mid f' db)) = map wf_mint_request_id (fundings db)"
    using f'(1) by (simp add: replace_funding_def) (subst map_update_where, auto)
  moreover have "\<forall>x \<in> set (fundings (replace_funding mid f' db)). wf_account_id x \<in> set (map wa_id (accounts db))"
    using inv fin f'(2) by (auto simp: replace_funding_def set_update_where wholesale_inv_def split: if_splits)
  moreover have "\<forall>x \<in> set (fundings (replace_funding mid f' db)). funding_ok x"
    using inv ok by (auto simp: replace_funding_def set_update_where wholesale_inv_def split: if_splits)
  moreover have "global_budget (replace_funding mid f' db) = global_budget db"
    "accounts (replace_funding mid f' db) = accounts db" "budgets (replace_funding mid f' db) = budgets db"
    by (simp_all add: replace_funding_def global_budget_def)
  ultimately show ?thesis using inv ex by (simp add: wholesale_inv_def)
qed

lemma mint_keeps_inv:
  assumes "record_minted_funding mid p s = (r, s')" and "wholesale_inv (working s)" and "wholesale_inv (durable s)"
  shows "wholesale_inv (durable s') \<and> wholesale_inv (working s')"
  using assms(1)
proof (cases rule: mint_cases)
  case (minted f)
  have "wholesale_inv (replace_funding mid (minted_funding p f) (working s))"
    using find_funding_in [OF minted(1)] by (intro replace_funding_inv [OF assms(2) minted(1)])
      (auto simp: minted_funding_def pending_def funding_ok_def)
  with minted show ?thesis by simp
qed (use assms in auto)

definition acked_funding :: "wholesale_funding_result \<Rightarrow> timestamp \<Rightarrow> wholesale_funding \<Rightarrow> wholesale_funding" where
  "acked_funding result at funding = funding\<lparr>wf_credited_value_wei := Some (fr_credited_value_wei result),
     wf_account_version := Some (fr_account_version result), wf_status := ''acknowledged'',
     wf_acknowledged_at := Some at\<rparr>"

definition acked_account :: "wholesale_account_observation \<Rightarrow> wholesale_account \<Rightarrow> wholesale_account" where
  "acked_account ob a = observed_account ob (wa_protocol_version a) (wa_broker_url a) a"

definition replace_account :: "wholesale_account \<Rightarrow> wholesale_account \<Rightarrow> ('z wholesale_db_scheme) \<Rightarrow> ('z wholesale_db_scheme)" where
  "replace_account a a' db = db\<lparr>accounts := update_where (\<lambda>x. wa_id x = wa_id a) (\<lambda>_. a') (accounts db)\<rparr>"

lemma acknowledged_credit_Inr:
  assumes "acknowledged_credit sha result ob f = Inr c"
  shows "c = fr_credited_value_wei result"
    "\<exists>payment. wf_payment_bytes f = Some payment \<and> fr_funding_id result = sha payment"
    "fr_credited_value_wei result = wf_minted_expected_value_wei f"
    "wf_requested_shortfall_wei f \<le> fr_credited_value_wei result"
    "fr_credited_value_wei result \<le> ob_credited_value_wei ob"
    "wf_status f = ''acknowledged'' \<longrightarrow> wf_credited_value_wei f = Some (fr_credited_value_wei result) \<and>
       wf_account_version f = Some (fr_account_version result)"
  using assms by (auto simp: acknowledged_credit_def split: option.splits if_splits)

lemma ack_cases:
  assumes "acknowledge_account_funding sha mid result ob dmn at s = (r, s')"
  obtains (failed) e where "r = Inl e" "s' = s"
    | (acked) f a b payment where "find_funding (working s) mid = Some f" "wf_payment_bytes f = Some payment"
        "get_account (working s) (wf_account_id f) = Some a" "global_budget (working s) = Some b"
        "account_matches a ob dmn" "fr_payer result = wa_payer_eth_address a"
        "fr_payee result = wa_payee_eth_address a" "fr_settlement_domain_id result = dmn"
        "fr_wholesale_account_id result = wa_wholesale_account_id a"
        "wa_remote_version a \<le> ob_version ob" "fr_account_version result \<le> ob_version ob"
        "fr_funding_id result = sha payment"
        "fr_credited_value_wei result = wf_minted_expected_value_wei f"
        "wf_requested_shortfall_wei f \<le> fr_credited_value_wei result"
        "fr_credited_value_wei result \<le> ob_credited_value_wei ob"
        "wf_status f = ''acknowledged'' \<Longrightarrow> wf_credited_value_wei f = Some (fr_credited_value_wei result)
           \<and> wf_account_version f = Some (fr_account_version result)"
        "r = Inr (acked_funding result at f)" "durable s' = working s'"
        "working s' = replace_funding mid (acked_funding result at f)
           (replace_account a (acked_account ob a)
             (set_budget (eb_projected_available_wei b - (wa_available_value_wei a +
                (if wf_status f = ''acknowledged'' then 0 else wf_requested_shortfall_wei f))
                + ob_available_value_wei ob) (working s)))"
proof -
  have "(\<exists>e. r = Inl e \<and> s' = s) \<or> (\<exists>f a b payment. find_funding (working s) mid = Some f \<and> wf_payment_bytes f = Some payment \<and>
        get_account (working s) (wf_account_id f) = Some a \<and> global_budget (working s) = Some b \<and>
        account_matches a ob dmn \<and> fr_payer result = wa_payer_eth_address a \<and>
        fr_payee result = wa_payee_eth_address a \<and> fr_settlement_domain_id result = dmn \<and>
        fr_wholesale_account_id result = wa_wholesale_account_id a \<and>
        wa_remote_version a \<le> ob_version ob \<and> fr_account_version result \<le> ob_version ob \<and>
        fr_funding_id result = sha payment \<and>
        fr_credited_value_wei result = wf_minted_expected_value_wei f \<and>
        wf_requested_shortfall_wei f \<le> fr_credited_value_wei result \<and>
        fr_credited_value_wei result \<le> ob_credited_value_wei ob \<and>
        (wf_status f = ''acknowledged'' \<longrightarrow> wf_credited_value_wei f = Some (fr_credited_value_wei result)
           \<and> wf_account_version f = Some (fr_account_version result)) \<and>
        r = Inr (acked_funding result at f) \<and> durable s' = working s' \<and>
        working s' = replace_funding mid (acked_funding result at f)
           (replace_account a (acked_account ob a)
             (set_budget (eb_projected_available_wei b - (wa_available_value_wei a +
                (if wf_status f = ''acknowledged'' then 0 else wf_requested_shortfall_wei f))
                + ob_available_value_wei ob) (working s))))"
    (is "?failed \<or> ?acked")
  proof (cases "\<exists>f a b. find_funding (working s) mid = Some f \<and> wf_payment_bytes f \<noteq> None \<and>
      get_account (working s) (wf_account_id f) = Some a \<and> global_budget (working s) = Some b")
    case False
    then have ?failed using assms
      by (auto simp: acknowledge_account_funding_def raise_def split: option.splits if_splits)
    then show ?thesis ..
  next
    case True
    then obtain f a b where rows: "find_funding (working s) mid = Some f" "wf_payment_bytes f \<noteq> None"
      "get_account (working s) (wf_account_id f) = Some a" "global_budget (working s) = Some b" by blast
    show ?thesis
    proof (cases "acknowledged_credit sha result ob f")
      case (Inl e)
      with rows assms have ?failed
        by (auto simp: acknowledge_account_funding_def require_settlement_domain_id_def
            require_observation_domain_def split: if_splits)
      then show ?thesis ..
    next
      case (Inr c)
      note credit = acknowledged_credit_Inr [OF Inr]
      then obtain payment where pay: "wf_payment_bytes f = Some payment" "fr_funding_id result = sha payment" by blast
      show ?thesis
      proof (cases "r")
        case (Inl e)
        with rows Inr assms have ?failed
          by (simp add: acknowledge_account_funding_def require_settlement_domain_id_def Let_def ret_def
              require_observation_domain_def split: if_splits)
        then show ?thesis ..
      next
        case r: (Inr f')
        have "account_matches a ob dmn \<and> fr_payer result = wa_payer_eth_address a \<and>
          fr_payee result = wa_payee_eth_address a \<and> fr_settlement_domain_id result = dmn \<and>
          fr_wholesale_account_id result = wa_wholesale_account_id a \<and>
          wa_remote_version a \<le> ob_version ob \<and> fr_account_version result \<le> ob_version ob \<and>
          r = Inr (acked_funding result at f) \<and> durable s' = working s' \<and>
          working s' = replace_funding mid (acked_funding result at f)
           (replace_account a (acked_account ob a)
             (set_budget (eb_projected_available_wei b - (wa_available_value_wei a +
                (if wf_status f = ''acknowledged'' then 0 else wf_requested_shortfall_wei f))
                + ob_available_value_wei ob) (working s)))"
          using rows Inr r assms credit(1)
          by (auto simp: acknowledge_account_funding_def require_settlement_domain_id_def Let_def ret_def
              require_observation_domain_def acked_funding_def acked_account_def replace_funding_def
              replace_account_def set_budget_def split: if_splits)
        with rows pay credit show ?thesis by blast
      qed
    qed
  qed
  then show thesis using failed acked by blast
qed

lemma ack_keeps_inv:
  assumes "acknowledge_account_funding sha mid result ob dmn at s = (r, s')"
    and inv: "wholesale_inv (working s)" and "wholesale_inv (durable s)" and ok: "observation_ok ob"
  shows "wholesale_inv (durable s') \<and> wholesale_inv (working s')"
  using assms(1)
proof (cases rule: ack_cases)
  case (acked f a b payment)
  let ?db = "working s"
  note a = get_account_in [OF acked(3)] and f = find_funding_in [OF acked(1)]
  from inv have d: "distinct (map wa_id (accounts ?db))" by (simp add: wholesale_inv_def)
  have found: "find (\<lambda>x. wa_id x = wa_id a) (accounts ?db) = Some a"
    using find_key_unique [OF d] a by blast
  have act: "active a"
    using acked(5) ok domain_pattern_active by (auto simp: active_def account_matches_def observation_ok_def)
  let ?v = "eb_projected_available_wei b - (wa_available_value_wei a +
                (if wf_status f = ''acknowledged'' then 0 else wf_requested_shortfall_wei f))
                + ob_available_value_wei ob"
  let ?db1 = "replace_account a (acked_account ob a) (set_budget ?v ?db)"
  let ?f' = "acked_funding result at f"
  have acc1: "accounts ?db1 = update_where (\<lambda>x. wa_id x = wa_id a) (\<lambda>_. acked_account ob a) (accounts ?db)"
    "fundings ?db1 = fundings ?db" by (simp_all add: replace_account_def)
  have upd: "update_where (\<lambda>x. wa_id x = wa_id a) (\<lambda>_. acked_account ob a) (accounts ?db) =
      update_where (\<lambda>x. wa_id x = wa_id a) (observed_account ob (wa_protocol_version a) (wa_broker_url a)) (accounts ?db)"
  proof -
    have "x = a" if "x \<in> set (accounts ?db)" "wa_id x = wa_id a" for x
      using that a d by (metis distinct_map inj_onD)
    then show ?thesis unfolding update_where_def by (intro map_cong) (auto simp: acked_account_def)
  qed
  have ids: "map wa_id (accounts ?db1) = map wa_id (accounts ?db)"
    "map account_identity (accounts ?db1) = map account_identity (accounts ?db)"
    unfolding acc1 upd by simp_all
  have e1: "sel_exposure active ?db1 = sel_exposure active ?db + ob_available_value_wei ob - wa_available_value_wei a"
  proof -
    have "sel_exposure active ?db1 = sel_exposure active (?db\<lparr>accounts := accounts ?db1\<rparr>)"
      by (rule sel_exposure_cong) (simp_all add: acc1)
    also have "\<dots> = sel_exposure active ?db + (ob_available_value_wei ob - wa_available_value_wei a)"
      unfolding acc1 upd using sel_exposure_refresh [OF on_identity_active d found] act by simp
    finally show ?thesis by simp
  qed
  have mem: "wf_account_id f \<in> set (map wa_id (filter active (accounts ?db1)))"
  proof -
    have "acked_account ob a \<in> set (accounts ?db1)" unfolding acc1 using a by (force simp: set_update_where)
    moreover have "active (acked_account ob a)" using act by (simp add: acked_account_def active_def observed_account_def)
    ultimately show ?thesis using a by (force simp: acked_account_def)
  qed
  have e2: "exposure (working s') = ?v"
  proof -
    have "sel_exposure active (working s') = sel_exposure active ?db1 +
        ((if pending ?f' then wf_requested_shortfall_wei ?f' else 0) - (if pending f then wf_requested_shortfall_wei f else 0))"
      using sel_exposure_funding_update [of ?db1 mid f ?f' active] acked(1) inv mem
      by (simp add: acked(19) replace_funding_def acc1 wholesale_inv_def find_funding_def acked_funding_def)
    then show ?thesis
      using e1 inv acked(4) by (auto simp: exposure_alt pending_def acked_funding_def wholesale_inv_def)
  qed
  have "map wf_mint_request_id (fundings (working s')) = map wf_mint_request_id (fundings ?db)"
    using f by (simp add: acked(19) replace_funding_def acc1) (subst map_update_where, auto simp: acked_funding_def)
  moreover have "\<forall>x \<in> set (fundings (working s')). wf_account_id x \<in> set (map wa_id (accounts (working s')))"
    using inv f ids(1)
    by (auto simp: acked(19) replace_funding_def acc1 set_update_where wholesale_inv_def acked_funding_def
        simp del: set_map split: if_splits)
  moreover have "\<forall>x \<in> set (fundings (working s')). funding_ok x"
    using inv acked(2)
    by (auto simp: acked(19) replace_funding_def acc1 set_update_where wholesale_inv_def acked_funding_def
        funding_ok_def split: if_splits)
  moreover have "global_budget (working s') = Some (b\<lparr>eb_projected_available_wei := ?v\<rparr>)"
    "map eb_scope (budgets (working s')) = map eb_scope (budgets ?db)"
    using acked(4) by (simp_all add: acked(19) replace_funding_def replace_account_def global_budget_def set_budget_def
        find_update_where_same)
  moreover have "accounts (working s') = accounts ?db1" by (simp add: acked(19) replace_funding_def)
  ultimately have "wholesale_inv (working s')"
    using inv ids e2 by (simp add: wholesale_inv_def)
  with acked show ?thesis by simp
qed (use assms in auto)

end
