(* ===== verification/Billing_Laws.thy ===== *)
theory Billing_Laws
  imports Billing
begin

text \<open>
  What the billing operations do, as laws the other components use: each operation's result on
  every branch (\<open>ensure_run\<close>, \<open>apply_delta_run\<close>, \<open>spend_run\<close>), the invariant of the tables, the
  transition system of the domain, and the contract of the keyed ledger entries.
\<close>

section \<open>Results of the primitive operations\<close>

definition balance_row :: "uuid \<Rightarrow> ('z billing_db_scheme) \<Rightarrow> credit_balance" where
  "balance_row u db = (case balance_of db u of None \<Rightarrow> new_balance u | Some b \<Rightarrow> b)"

definition ensured :: "uuid \<Rightarrow> ('z billing_db_scheme) \<Rightarrow> ('z billing_db_scheme)" where
  "ensured u db =
     (if balance_of db u = None then db\<lparr>balances := balances db @ [new_balance u]\<rparr> else db)"

definition bump :: "wei \<Rightarrow> credit_balance \<Rightarrow> credit_balance" where
  "bump d b = b\<lparr>cb_amount_wei := cb_amount_wei b + d, cb_version := cb_version b + 1\<rparr>"

definition entry_of ::
  "uuid \<Rightarrow> wei \<Rightarrow> string \<Rightarrow> uuid option \<Rightarrow> uuid option \<Rightarrow> uuid option \<Rightarrow> uuid option \<Rightarrow> timestamp \<Rightarrow>
   credit_ledger" where
  "entry_of u d reason p e t o' now =
     \<lparr>cl_user_id = u, cl_delta_wei = d, cl_reason = reason, cl_related_payment_id = p,
      cl_related_engagement_id = e, cl_related_topup_id = t, cl_created_by_operator_id = o',
      cl_created_at = now\<rparr>"

lemma entry_of_simps [simp]:
  "cl_user_id (entry_of u d reason p e t o' now) = u"
  "cl_delta_wei (entry_of u d reason p e t o' now) = d"
  "cl_reason (entry_of u d reason p e t o' now) = reason"
  "cl_related_engagement_id (entry_of u d reason p e t o' now) = e"
  "cl_created_at (entry_of u d reason p e t o' now) = now"
  by (simp_all add: entry_of_def)

text \<open>The tables after a ledger row was posted.\<close>

definition posted :: "credit_ledger \<Rightarrow> ('z billing_db_scheme) \<Rightarrow> ('z billing_db_scheme)" where
  "posted r db =
     (let u = cl_user_id r; db1 = ensured u db
      in db1\<lparr>balances := update_where (\<lambda>b. cb_user_id b = u) (\<lambda>_. bump (cl_delta_wei r) (balance_row u db))
               (balances db1),
             ledger := ledger db @ [r]\<rparr>)"

lemma ensured_simps [simp]:
  "ledger (ensured u db) = ledger db" "windows (ensured u db) = windows db"
  "topups (ensured u db) = topups db" "configs (ensured u db) = configs db"
  "server_now (ensured u db) = server_now db"
  "billing_db.more (ensured u db) = billing_db.more db"
  by (simp_all add: ensured_def)

lemma posted_simps [simp]:
  "ledger (posted r db) = ledger db @ [r]" "windows (posted r db) = windows db"
  "topups (posted r db) = topups db" "configs (posted r db) = configs db"
  "server_now (posted r db) = server_now db"
  "billing_db.more (posted r db) = billing_db.more db"
  by (simp_all add: posted_def Let_def)

lemma cb_user_id_balance_row [simp]: "cb_user_id (balance_row u db) = u"
  by (auto simp: balance_row_def balance_of_def new_balance_def dest: find_SomeD split: option.splits)

lemma bump_simps [simp]:
  "cb_user_id (bump d b) = cb_user_id b" "cb_amount_wei (bump d b) = cb_amount_wei b + d"
  "cb_version (bump d b) = cb_version b + 1"
  by (simp_all add: bump_def)

lemma balance_of_ensured:
  "balance_of (ensured u db) v = (if v = u then Some (balance_row u db) else balance_of db v)"
  by (auto simp: ensured_def balance_row_def balance_of_def find_append new_balance_def
      split: option.splits)

lemma balance_row_ensured [simp]: "balance_row v (ensured u db) = balance_row v db"
  by (simp add: balance_row_def balance_of_ensured split: option.splits)

lemma balance_of_posted:
  "balance_of (posted r db) v =
     (if v = cl_user_id r then Some (bump (cl_delta_wei r) (balance_row v db)) else balance_of db v)"
proof -
  let ?u = "cl_user_id r"
  let ?f = "\<lambda>_ :: credit_balance. bump (cl_delta_wei r) (balance_row ?u db)"
  have "find (\<lambda>b. cb_user_id b = v) (update_where (\<lambda>b. cb_user_id b = ?u) ?f (balances (ensured ?u db)))
      = (if v = ?u then map_option ?f (balance_of (ensured ?u db) v) else balance_of (ensured ?u db) v)"
    unfolding balance_of_def
    by (auto intro!: find_update_where_same find_update_where_other)
  moreover have "balance_of (posted r db) v =
      find (\<lambda>b. cb_user_id b = v) (update_where (\<lambda>b. cb_user_id b = ?u) ?f (balances (ensured ?u db)))"
    by (simp add: balance_of_def posted_def Let_def)
  ultimately show ?thesis by (simp add: balance_of_ensured)
qed

lemma balance_row_posted:
  "balance_row v (posted r db) =
     (if v = cl_user_id r then bump (cl_delta_wei r) (balance_row v db) else balance_row v db)"
  by (simp add: balance_row_def [of v "posted r db"] balance_of_posted)
     (simp add: balance_row_def)

lemma ensured_idem [simp]: "ensured u (ensured u db) = ensured u db"
  using balance_of_ensured [of u db u] by (simp add: ensured_def [of u "ensured u db"])

lemma posted_ensured [simp]: "posted r (ensured (cl_user_id r) db) = posted r db"
  by (simp add: posted_def)

lemma ensure_run [op_simps]: "ensure_balance_row u db = (Inr (balance_row u db), ensured u db)"
  by (simp add: ensure_balance_row_def balance_row_def ensured_def op_run split: option.splits)

lemma apply_delta_run [op_simps]:
  "apply_delta u d reason p e t o' db =
     (if 0 \<le> cb_amount_wei (balance_row u db) + d
      then (Inr (bump d (balance_row u db)), posted (entry_of u d reason p e t o' (server_now db)) db)
      else (Inl (InsufficientCredit (cb_amount_wei (balance_row u db)) (- d)), ensured u db))"
  by (simp add: apply_delta_def bind_eq_Inr [OF ensure_run] op_run Let_def)
     (simp add: posted_def entry_of_def bump_def Let_def)

section \<open>Spend windows\<close>

definition window_key :: "spend_window \<Rightarrow> uuid \<times> timestamp" where
  "window_key w = (sw_user_id w, sw_window_start w)"

definition window_row :: "uuid \<Rightarrow> timestamp \<Rightarrow> timestamp \<Rightarrow> wei \<Rightarrow> ('z billing_db_scheme) \<Rightarrow> spend_window" where
  "window_row u start end' cap db =
     (case window_of db u start of
        None \<Rightarrow> \<lparr>sw_user_id = u, sw_window_start = start, sw_window_end = end', sw_spent_wei = 0,
                 sw_cap_wei = cap\<rparr>
      | Some w \<Rightarrow> w)"

definition window_ensured ::
  "uuid \<Rightarrow> timestamp \<Rightarrow> timestamp \<Rightarrow> wei \<Rightarrow> ('z billing_db_scheme) \<Rightarrow> ('z billing_db_scheme)" where
  "window_ensured u start end' cap db =
     (if window_of db u start = None
      then db\<lparr>windows := windows db @ [window_row u start end' cap db]\<rparr> else db)"

definition spent_in ::
  "uuid \<Rightarrow> timestamp \<Rightarrow> wei \<Rightarrow> ('z billing_db_scheme) \<Rightarrow> ('z billing_db_scheme)" where
  "spent_in u start after db =
     db\<lparr>windows := update_where (\<lambda>w. (sw_user_id w, sw_window_start w) = (u, start))
          (\<lambda>w. w\<lparr>sw_spent_wei := after\<rparr>) (windows db)\<rparr>"

lemma window_run [op_simps]:
  "get_or_create_spend_window u start end' cap db =
     (Inr (window_row u start end' cap db), window_ensured u start end' cap db)"
  by (simp add: get_or_create_spend_window_def window_row_def window_ensured_def op_run Let_def
      split: option.splits)

lemma spend_run [op_simps]:
  "enforce_and_record_spend u a now period cap db =
     (if cap \<le> 0 then (Inr (), db)
      else case window_bounds_for now period of
        Inl e \<Rightarrow> (Inl e, db)
      | Inr (start, end') \<Rightarrow>
          let w = window_row u start end' cap db; db1 = window_ensured u start end' cap db
          in if sw_spent_wei w + a \<le> sw_cap_wei w
             then (Inr (), spent_in u start (sw_spent_wei w + a) db1)
             else (Inl (SpendCapExceeded (sw_cap_wei w) (sw_spent_wei w + a)), db1))"
  by (simp add: enforce_and_record_spend_def op_run spent_in_def Let_def bind_eq_Inr [OF window_run]
      split: sum.splits prod.splits)

text \<open>A spend touches nothing but the windows.\<close>

lemma spend_frame:
  assumes "enforce_and_record_spend u a now period cap db = (r, db')"
  shows "ledger db' = ledger db" "balances db' = balances db" "topups db' = topups db"
    "configs db' = configs db" "server_now db' = server_now db"
    "billing_db.more db' = billing_db.more db"
  using assms
  by (auto simp: spend_run window_ensured_def spent_in_def Let_def
      split: if_splits sum.splits prod.splits)

lemma balance_row_cong: "balances db' = balances db \<Longrightarrow> balance_row u db' = balance_row u db"
  by (simp add: balance_row_def balance_of_def)

lemma ensured_cong: "balances db' = balances db \<Longrightarrow> balances (ensured u db') = balances (ensured u db)"
  by (simp add: ensured_def balance_of_def)

section \<open>The invariant of the tables\<close>

definition user_total :: "credit_ledger list \<Rightarrow> uuid \<Rightarrow> wei" where
  "user_total rows u = sum_list (map cl_delta_wei (filter (\<lambda>r. cl_user_id r = u) rows))"

definition user_count :: "credit_ledger list \<Rightarrow> uuid \<Rightarrow> int" where
  "user_count rows u = int (length (filter (\<lambda>r. cl_user_id r = u) rows))"

definition ledger_ok :: "('z billing_db_scheme) \<Rightarrow> bool" where
  "ledger_ok db \<longleftrightarrow> distinct (map cb_user_id (balances db)) \<and>
     (\<forall>u. cb_amount_wei (balance_row u db) = user_total (ledger db) u \<and>
          0 \<le> user_total (ledger db) u \<and>
          cb_version (balance_row u db) = user_count (ledger db) u)"

definition windows_ok :: "('z billing_db_scheme) \<Rightarrow> bool" where
  "windows_ok db \<longleftrightarrow> distinct (map window_key (windows db)) \<and>
     (\<forall>w \<in> set (windows db). sw_spent_wei w \<le> sw_cap_wei w)"

text \<open>The unique constraint \<open>uq_credit_ledger_engagement_reason\<close> (a NULL engagement is no key).\<close>

definition engagement_key :: "credit_ledger \<Rightarrow> uuid option \<times> string" where
  "engagement_key r = (cl_related_engagement_id r, cl_reason r)"

definition keys_ok :: "('z billing_db_scheme) \<Rightarrow> bool" where
  "keys_ok db \<longleftrightarrow>
     distinct (map engagement_key (filter (\<lambda>r. cl_related_engagement_id r \<noteq> None) (ledger db)))"

definition billing_inv :: "('z billing_db_scheme) \<Rightarrow> bool" where
  "billing_inv db \<longleftrightarrow> ledger_ok db \<and> windows_ok db \<and> keys_ok db"

lemma distinct_users_ensured:
  "distinct (map cb_user_id (balances db)) \<Longrightarrow> distinct (map cb_user_id (balances (ensured u db)))"
  by (auto simp: ensured_def balance_of_def new_balance_def find_None_iff)

lemma distinct_users_posted:
  "distinct (map cb_user_id (balances db)) \<Longrightarrow> distinct (map cb_user_id (balances (posted r db)))"
  using distinct_users_ensured [of db "cl_user_id r"]
  by (simp add: posted_def Let_def) (subst map_update_where, auto)

lemma ledger_ok_ensured [simp]: "ledger_ok db \<Longrightarrow> ledger_ok (ensured u db)"
  by (simp add: ledger_ok_def distinct_users_ensured)

lemma ledger_ok_posted:
  "ledger_ok db \<Longrightarrow> 0 \<le> cb_amount_wei (balance_row (cl_user_id r) db) + cl_delta_wei r \<Longrightarrow>
     ledger_ok (posted r db)"
  by (auto simp: ledger_ok_def distinct_users_posted balance_row_posted user_total_def user_count_def)

lemma ledger_ok_cong:
  "ledger db' = ledger db \<Longrightarrow> balances db' = balances db \<Longrightarrow> ledger_ok db' = ledger_ok db"
  using balance_row_cong [of db' db] by (simp add: ledger_ok_def)

lemma keys_ok_cong: "ledger db' = ledger db \<Longrightarrow> keys_ok db' = keys_ok db"
  by (simp add: keys_ok_def)

lemma windows_ok_cong: "windows db' = windows db \<Longrightarrow> windows_ok db' = windows_ok db"
  by (simp add: windows_ok_def)

lemma keys_ok_posted:
  assumes "keys_ok db"
    and "\<And>e. cl_related_engagement_id r = Some e \<Longrightarrow> engagement_entry db e (cl_reason r) = None"
  shows "keys_ok (posted r db)"
proof (cases "cl_related_engagement_id r")
  case None
  with assms(1) show ?thesis by (simp add: keys_ok_def)
next
  case (Some e)
  with assms(2) have "\<And>x. x \<in> set (ledger db) \<Longrightarrow> engagement_key x \<noteq> engagement_key r"
    by (auto simp: engagement_entry_def find_None_iff engagement_key_def)
  then have "engagement_key r \<notin> engagement_key ` set (ledger db)" by (metis imageE)
  with assms(1) Some show ?thesis by (auto simp: keys_ok_def)
qed

lemma window_row_key [simp]: "window_key (window_row u start end' cap db) = (u, start)"
  by (auto simp: window_row_def window_of_def window_key_def dest!: find_SomeD split: option.splits)

lemma windows_ok_ensured:
  assumes "windows_ok db" and "0 \<le> cap"
  shows "windows_ok (window_ensured u start end' cap db)"
proof (cases "window_of db u start")
  case None
  then have "(u, start) \<notin> window_key ` set (windows db)"
    by (auto simp: window_of_def find_None_iff window_key_def)
  with None assms show ?thesis
    by (auto simp: windows_ok_def window_ensured_def) (simp add: window_row_def)
next
  case (Some w)
  with assms show ?thesis by (simp add: window_ensured_def)
qed

lemma window_row_in: "window_row u start end' cap db \<in> set (windows (window_ensured u start end' cap db))"
  by (auto simp: window_ensured_def window_row_def window_of_def dest: find_SomeD split: option.splits)

lemma windows_ok_spent:
  assumes "windows_ok db" and "w \<in> set (windows db)" and "window_key w = (u, start)"
    and "after \<le> sw_cap_wei w"
  shows "windows_ok (spent_in u start after db)"
proof -
  have uniq: "x = w" if "x \<in> set (windows db)" "window_key x = (u, start)" for x
    using assms that by (metis windows_ok_def distinct_map inj_onD)
  have "map window_key (windows (spent_in u start after db)) = map window_key (windows db)"
    by (simp add: spent_in_def window_key_def)
  moreover have "sw_spent_wei x \<le> sw_cap_wei x"
    if x: "x \<in> set (windows (spent_in u start after db))" for x
  proof -
    from x obtain y where y: "y \<in> set (windows db)"
      "x = (if window_key y = (u, start) then y\<lparr>sw_spent_wei := after\<rparr> else y)"
      unfolding spent_in_def window_key_def by (auto simp: set_update_where)
    then show ?thesis
      using uniq [of y] assms(1,4) by (cases "window_key y = (u, start)") (auto simp: windows_ok_def)
  qed
  ultimately show ?thesis using assms(1) by (simp add: windows_ok_def)
qed

lemma billing_inv_ensured: "billing_inv db \<Longrightarrow> billing_inv (ensured u db)"
  by (simp add: billing_inv_def windows_ok_cong [of "ensured u db" db] keys_ok_cong [of "ensured u db" db])

lemma billing_inv_posted:
  assumes "billing_inv db"
    and "0 \<le> cb_amount_wei (balance_row (cl_user_id r) db) + cl_delta_wei r"
    and "\<And>e. cl_related_engagement_id r = Some e \<Longrightarrow> engagement_entry db e (cl_reason r) = None"
  shows "billing_inv (posted r db)"
  using assms keys_ok_posted [of db r]
  by (simp add: billing_inv_def windows_ok_cong [of "posted r db" db] ledger_ok_posted)

lemma keeps_inv_ensure [intro]: "keeps billing_inv (ensure_balance_row u)"
  by (rule keepsI) (auto simp: ensure_run billing_inv_ensured)

lemma keeps_inv_spend [intro]: "keeps billing_inv (enforce_and_record_spend u a now period cap)"
proof (rule keepsI)
  fix db :: "'a billing_db_scheme" and r db'
  assume inv: "billing_inv db" and run: "enforce_and_record_spend u a now period cap db = (r, db')"
  have "windows_ok db'"
    using run inv
    by (auto simp: spend_run Let_def billing_inv_def
        intro!: windows_ok_ensured windows_ok_spent [OF windows_ok_ensured window_row_in window_row_key]
        split: if_splits sum.splits prod.splits)
  with inv spend_frame [OF run] show "billing_inv db'"
    by (simp add: billing_inv_def ledger_ok_cong [of db' db] keys_ok_cong [of db' db])
qed

lemma keeps_inv_apply_delta [intro]: "keeps billing_inv (apply_delta u d reason p None t o')"
  by (rule keepsI)
     (auto simp: apply_delta_run billing_inv_ensured intro!: billing_inv_posted split: if_splits)

section \<open>Keyed ledger entries\<close>

text \<open>
  The contract of an operation that posts at most one ledger entry per key: the first success
  records the amount, a later call with that amount succeeds and changes nothing observable,
  a later call with another amount raises and changes nothing observable. \<open>'x\<close> is what may
  differ between attempts (the clock, the configured cap), \<open>obs\<close> what the rest of the program
  can see.
\<close>

locale keyed_entry =
  fixes run :: "'k \<Rightarrow> 'x \<Rightarrow> wei \<Rightarrow> ('s, 'b) op"
    and entry :: "'k \<Rightarrow> 's \<Rightarrow> wei option"
    and obs :: "'s \<Rightarrow> 'o"
    and valid :: "'k \<Rightarrow> wei \<Rightarrow> bool"
  assumes records: "run k x a s = (Inr y, s') \<Longrightarrow> entry k s' = Some a \<and> valid k a"
    and replays: "entry k s = Some a \<Longrightarrow> valid k a \<Longrightarrow> \<exists>y s'. run k x a s = (Inr y, s') \<and> obs s' = obs s"
    and refuses: "entry k s = Some a \<Longrightarrow> a' \<noteq> a \<Longrightarrow> \<exists>e s'. run k x a' s = (Inl e, s') \<and> obs s' = obs s"
    and entry_obs: "obs s' = obs s \<Longrightarrow> entry k s' = entry k s"
begin

definition attempts :: "'k \<Rightarrow> ('x \<times> wei) list \<Rightarrow> 's \<Rightarrow> 's" where
  "attempts k tries s = foldl (\<lambda>s (x, a). snd (run k x a s)) s tries"

lemma attempt_obs: "entry k s = Some a \<Longrightarrow> valid k a \<Longrightarrow> obs (snd (run k x a' s)) = obs s"
  using replays [of k s a x] refuses [of k s a a' x] by (cases "a' = a") auto

lemma attempts_obs:
  "entry k s = Some a \<Longrightarrow> valid k a \<Longrightarrow> obs (attempts k tries s) = obs s"
proof (induction tries arbitrary: s)
  case Nil
  then show ?case by (simp add: attempts_def)
next
  case (Cons t tries)
  obtain x a' where t: "t = (x, a')" by force
  have "obs (snd (run k x a' s)) = obs s" using attempt_obs Cons.prems by blast
  moreover from this have "entry k (snd (run k x a' s)) = Some a"
    using entry_obs Cons.prems(1) by metis
  ultimately show ?case using Cons t by (simp add: attempts_def)
qed

lemma exactly_once:
  assumes "run k x a s = (Inr y, s')"
  shows "obs (attempts k tries s') = obs s'"
    and "(\<exists>z. fst (run k x' a' (attempts k tries s')) = Inr z) \<longleftrightarrow> a' = a"
proof -
  from records [OF assms] have e: "entry k s' = Some a" and v: "valid k a" by auto
  show same: "obs (attempts k tries s') = obs s'" using attempts_obs [OF e v] .
  then have "entry k (attempts k tries s') = Some a" using entry_obs e by metis
  then show "(\<exists>z. fst (run k x' a' (attempts k tries s')) = Inr z) \<longleftrightarrow> a' = a"
    using replays [of k _ a x'] refuses [of k _ a a' x'] v by (metis fst_conv Inr_not_Inl)
qed

end

text \<open>The shape the three engagement operations share.\<close>

definition keyed_step ::
  "uuid \<Rightarrow> uuid \<Rightarrow> string \<Rightarrow> wei \<Rightarrow> ('z billing_db_scheme, unit) op \<Rightarrow> string \<Rightarrow>
   ('z billing_db_scheme, credit_balance) op" where
  "keyed_step u e reason d spend msg =
     bind_op (ensure_balance_row u) (\<lambda>balance.
     bind_op (gets (\<lambda>db. engagement_entry db e reason)) (\<lambda>existing.
     case existing of
       Some row \<Rightarrow> if cl_delta_wei row \<noteq> d then raise (ValueError msg) else ret balance
     | None \<Rightarrow> bind_op spend (\<lambda>_. apply_delta u d reason None (Some e) None None)))"

definition windows_only :: "('z billing_db_scheme, 'a) op \<Rightarrow> bool" where
  "windows_only m \<longleftrightarrow> (\<forall>db r db'. m db = (r, db') \<longrightarrow> db' = db\<lparr>windows := windows db'\<rparr>)"

lemma windows_only_spend [simp]: "windows_only (enforce_and_record_spend u a now period cap)"
  by (auto simp: windows_only_def spend_run window_ensured_def spent_in_def Let_def
      split: if_splits sum.splits prod.splits)

lemma windows_only_ret [simp]: "windows_only (ret x)"
  by (simp add: windows_only_def ret_def)

lemma encumber_keyed:
  "encumber_customer_engagement u e a now period cap =
     keyed_step u e ''engagement_encumbrance'' (- a) (enforce_and_record_spend u a now period cap)
       ''engagement encumbrance replay changed amount''"
  by (simp add: encumber_customer_engagement_def keyed_step_def)

lemma increase_keyed:
  "increase_customer_engagement_cap u e revision a now period cap =
     bind_op (require (\<not> (revision \<le> 0 \<or> a \<le> 0))
                (ValueError ''engagement cap revision and amount must be positive'')) (\<lambda>_.
     keyed_step u e (cap_revision_reason revision) (- a) (enforce_and_record_spend u a now period cap)
       ''engagement cap revision replay changed amount'')"
  by (simp add: increase_customer_engagement_cap_def keyed_step_def Let_def)

lemma release_keyed:
  "release_customer_engagement u e a =
     keyed_step u e ''engagement_release'' a (ret ()) ''engagement release replay changed amount''"
  by (simp add: release_customer_engagement_def keyed_step_def cong: option.case_cong)

lemma engagement_entry_cong: "ledger db' = ledger db \<Longrightarrow> engagement_entry db' e reason = engagement_entry db e reason"
  by (simp add: engagement_entry_def)

lemma engagement_entry_posted:
  "engagement_entry db e reason = None \<Longrightarrow>
     engagement_entry (posted r db) e reason =
       (if (cl_related_engagement_id r, cl_reason r) = (Some e, reason) then Some r else None)"
  by (simp add: engagement_entry_def find_append)

lemma windows_update_simps [simp]:
  "balance_of (db\<lparr>windows := ws\<rparr>) u = balance_of db u"
  "balance_row u (db\<lparr>windows := ws\<rparr>) = balance_row u db"
  "ensured u (db\<lparr>windows := ws\<rparr>) = (ensured u db)\<lparr>windows := ws\<rparr>"
  "posted r (db\<lparr>windows := ws\<rparr>) = (posted r db)\<lparr>windows := ws\<rparr>"
  "engagement_entry (db\<lparr>windows := ws\<rparr>) e reason = engagement_entry db e reason"
  by (simp_all add: balance_of_def balance_row_def ensured_def posted_def Let_def engagement_entry_def)

text \<open>The ways a keyed step ends.\<close>

lemma keyed_step_cases:
  assumes "keyed_step u e reason d spend msg db = (r, db')" and "windows_only spend"
  obtains (changed) row where "engagement_entry db e reason = Some row" "cl_delta_wei row \<noteq> d"
      "r = Inl (ValueError msg)" "db' = ensured u db"
    | (replay) row where "engagement_entry db e reason = Some row" "cl_delta_wei row = d"
      "r = Inr (balance_row u db)" "db' = ensured u db"
    | (refused) x ws where "engagement_entry db e reason = None" "r = Inl x"
      "spend (ensured u db) = (Inl x, db')" "db' = (ensured u db)\<lparr>windows := ws\<rparr>"
    | (insufficient) ws where "engagement_entry db e reason = None"
      "cb_amount_wei (balance_row u db) + d < 0"
      "r = Inl (InsufficientCredit (cb_amount_wei (balance_row u db)) (- d))"
      "db' = (ensured u db)\<lparr>windows := ws\<rparr>"
    | (first) ws where "engagement_entry db e reason = None"
      "0 \<le> cb_amount_wei (balance_row u db) + d" "r = Inr (bump d (balance_row u db))"
      "db' = (posted (entry_of u d reason None (Some e) None None (server_now db)) db)
               \<lparr>windows := ws\<rparr>"
proof (cases "engagement_entry db e reason")
  case (Some row)
  with assms(1) have run: "(if cl_delta_wei row \<noteq> d then (Inl (ValueError msg), ensured u db)
      else (Inr (balance_row u db), ensured u db)) = (r, db')"
    by (simp add: keyed_step_def bind_eq_Inr [OF ensure_run] ret_def raise_def if_distribR
        engagement_entry_cong [of "ensured u db" db] split: if_splits)
  show ?thesis
    using run by (cases "cl_delta_wei row = d") (auto intro: changed replay Some)
next
  case None
  obtain q db1 where sp: "spend (ensured u db) = (q, db1)" by force
  with assms(2) have db1: "db1 = (ensured u db)\<lparr>windows := windows db1\<rparr>" by (auto simp: windows_only_def)
  have run: "bind_op spend (\<lambda>_. apply_delta u d reason None (Some e) None None) (ensured u db) = (r, db')"
    using assms(1) None
    by (simp add: keyed_step_def bind_eq_Inr [OF ensure_run] engagement_entry_cong [of "ensured u db" db])
  show ?thesis
  proof (cases q)
    case (Inl x)
    with run sp have "r = Inl x" "db' = db1" by (auto simp: bind_eq_Inl [of spend])
    with refused [of x] None sp Inl db1 show ?thesis by blast
  next
    case (Inr y)
    with run sp have "apply_delta u d reason None (Some e) None None ((ensured u db)\<lparr>windows := windows db1\<rparr>) = (r, db')"
      by (subst db1 [symmetric]) (simp add: bind_eq_Inr [of spend])
    then have ad: "(if 0 \<le> cb_amount_wei (balance_row u db) + d
        then (Inr (bump d (balance_row u db)),
          (posted (entry_of u d reason None (Some e) None None (server_now db)) db)\<lparr>windows := windows db1\<rparr>)
        else (Inl (InsufficientCredit (cb_amount_wei (balance_row u db)) (- d)),
          (ensured u db)\<lparr>windows := windows db1\<rparr>)) = (r, db')"
      using posted_ensured [of "entry_of u d reason None (Some e) None None (server_now db)" db]
      by (simp add: apply_delta_run split: if_splits)
    show ?thesis
    proof (cases "0 \<le> cb_amount_wei (balance_row u db) + d")
      case True
      with ad show ?thesis by (auto intro!: first None)
    next
      case False
      with ad show ?thesis by (auto intro!: insufficient None)
    qed
  qed
qed

lemma keeps_inv_keyed [intro]:
  assumes "windows_only spend" and "keeps billing_inv spend"
  shows "keeps billing_inv (keyed_step u e reason d spend msg)"
proof (rule keepsI)
  fix db r db'
  assume inv: "billing_inv db" and run: "keyed_step u e reason d spend msg db = (r, db')"
  from inv have ens: "billing_inv (ensured u db)" by (rule billing_inv_ensured)
  obtain q db1 where sp: "spend (ensured u db) = (q, db1)" by force
  with assms ens have db1: "billing_inv db1" "db1 = (ensured u db)\<lparr>windows := windows db1\<rparr>"
    by (auto simp: windows_only_def dest: keepsD)
  have entry: "engagement_entry (ensured u db) e reason = engagement_entry db e reason"
    "engagement_entry db1 e reason = engagement_entry db e reason"
    using db1(2) by (metis engagement_entry_cong ensured_simps(1) windows_update_simps(5))+
  have "db' \<in> {ensured u db, db1} \<or> (\<exists>b. apply_delta u d reason None (Some e) None None db1 = (b, db'))
      \<and> engagement_entry db e reason = None"
    using run sp entry
    by (cases q) (auto simp: keyed_step_def bind_eq_Inr [OF ensure_run] ret_def raise_def if_distribR
        bind_eq_Inl [of spend] bind_eq_Inr [of spend] split: option.splits if_splits)
  then show "billing_inv db'"
    using ens db1(1) entry(2)
    by (auto simp: apply_delta_run billing_inv_ensured intro!: billing_inv_posted split: if_splits)
qed

text \<open>What the rest of the program can see of the billing tables.\<close>

definition billing_obs ::
  "('z billing_db_scheme) \<Rightarrow>
   credit_ledger list \<times> spend_window list \<times> (uuid \<Rightarrow> credit_balance) \<times> 'z" where
  "billing_obs db = (ledger db, windows db, (\<lambda>u. balance_row u db), billing_db.more db)"

lemma billing_obs_ensured [simp]: "billing_obs (ensured u db) = billing_obs db"
  by (simp add: billing_obs_def)

definition entry_amount :: "string \<Rightarrow> uuid \<Rightarrow> ('z billing_db_scheme) \<Rightarrow> wei option" where
  "entry_amount reason e db = map_option cl_delta_wei (engagement_entry db e reason)"

lemma entry_amount_obs: "billing_obs db' = billing_obs db \<Longrightarrow> entry_amount reason e db' = entry_amount reason e db"
  by (simp add: billing_obs_def entry_amount_def engagement_entry_def)

lemma keyed_step_records:
  assumes "keyed_step u e reason d spend msg db = (Inr b, db')" and "windows_only spend"
  shows "entry_amount reason e db' = Some d"
  using assms
proof (cases rule: keyed_step_cases)
  case (first ws)
  then show ?thesis by (simp add: entry_amount_def engagement_entry_posted)
qed (auto simp: entry_amount_def engagement_entry_cong [of "ensured u db" db])

lemma keyed_step_replays:
  assumes "entry_amount reason e db = Some d" and "windows_only spend"
  shows "\<exists>b db'. keyed_step u e reason d spend msg db = (Inr b, db') \<and> billing_obs db' = billing_obs db"
proof -
  obtain r db' where run: "keyed_step u e reason d spend msg db = (r, db')" by force
  from run assms(2) show ?thesis
    using run assms(1) by (cases rule: keyed_step_cases) (auto simp: entry_amount_def)
qed

lemma keyed_step_refuses:
  assumes "entry_amount reason e db = Some d" and "d' \<noteq> d" and "windows_only spend"
  shows "\<exists>db'. keyed_step u e reason d' spend msg db = (Inl (ValueError msg), db') \<and>
    billing_obs db' = billing_obs db"
proof -
  obtain r db' where run: "keyed_step u e reason d' spend msg db = (r, db')" by force
  from run assms(3) show ?thesis
    using run assms(1,2) by (cases rule: keyed_step_cases) (auto simp: entry_amount_def)
qed

lemma keyed_step_refuses_ex:
  "entry_amount reason e db = Some d \<Longrightarrow> d' \<noteq> d \<Longrightarrow> windows_only spend \<Longrightarrow>
     \<exists>x db'. keyed_step u e reason d' spend msg db = (Inl x, db') \<and> billing_obs db' = billing_obs db"
  using keyed_step_refuses by blast

lemmas keyed_contract = keyed_step_replays keyed_step_refuses_ex

interpretation hold: keyed_entry
  "\<lambda>(u, e) (now, period, cap) a. encumber_customer_engagement u e a now period cap"
  "\<lambda>(u, e) db. map_option uminus (entry_amount ''engagement_encumbrance'' e db)"
  "billing_obs" "\<lambda>_ _. True"
proof (unfold_locales, goal_cases)
  case (4 s' s k)
  then show ?case using entry_amount_obs [OF 4] by (simp split: prod.splits)
qed (auto simp: encumber_keyed intro!: keyed_contract dest!: keyed_step_records split: prod.splits)

interpretation cap_revision: keyed_entry
  "\<lambda>(u, e, revision) (now, period, cap) a. increase_customer_engagement_cap u e revision a now period cap"
  "\<lambda>(u, e, revision) db. map_option uminus (entry_amount (cap_revision_reason revision) e db)"
  "billing_obs" "\<lambda>(u, e, revision) a. 0 < revision \<and> 0 < a"
proof (unfold_locales, goal_cases)
  case (4 s' s k)
  then show ?case using entry_amount_obs [OF 4] by (simp split: prod.splits)
qed (auto simp: increase_keyed intro!: keyed_contract dest!: keyed_step_records
      split: prod.splits if_splits)

interpretation release: keyed_entry
  "\<lambda>(u, e) (_ :: unit) a. release_customer_engagement u e a"
  "\<lambda>(u, e) db. entry_amount ''engagement_release'' e db"
  "billing_obs" "\<lambda>_ _. True"
proof (unfold_locales, goal_cases)
  case (4 s' s k)
  then show ?case using entry_amount_obs [OF 4] by (simp split: prod.splits)
qed (auto simp: release_keyed intro!: keyed_contract dest!: keyed_step_records split: prod.splits)

section \<open>The domain as a transition system\<close>

definition billing_empty :: "('z billing_db_scheme) \<Rightarrow> bool" where
  "billing_empty db \<longleftrightarrow> balances db = [] \<and> ledger db = [] \<and> topups db = [] \<and> windows db = [] \<and>
     configs db = []"

text \<open>
  Every public operation of the domain with any arguments, whether it returns or raises, and the
  passing of time.
\<close>

inductive billing_step :: "('z billing_db_scheme) \<Rightarrow> ('z billing_db_scheme) \<Rightarrow> bool" where
  step_tick: "billing_step db (db\<lparr>server_now := t\<rparr>)"
| step_grant: "grant_initial_credit tid u a op db = (r1, db') \<Longrightarrow> billing_step db db'"
| step_topup: "topup tid u a kind op' db = (r2, db') \<Longrightarrow> billing_step db db'"
| step_charge: "charge_payment u a p now period cap db = (r3, db') \<Longrightarrow> billing_step db db'"
| step_refund: "refund_payment u a p db = (r3, db') \<Longrightarrow> billing_step db db'"
| step_session: "encumber_for_session u p a now period cap db = (r3, db') \<Longrightarrow> billing_step db db'"
| step_session_release: "release_session_encumbrance u p a db = (r3, db') \<Longrightarrow> billing_step db db'"
| step_encumber: "encumber_customer_engagement u e a now period cap db = (r3, db') \<Longrightarrow> billing_step db db'"
| step_increase: "increase_customer_engagement_cap u e revision a now period cap db = (r3, db') \<Longrightarrow>
    billing_step db db'"
| step_release: "release_customer_engagement u e a db = (r3, db') \<Longrightarrow> billing_step db db'"
| step_balance: "get_balance u db = (r3, db') \<Longrightarrow> billing_step db db'"
| step_config: "upsert_billing_config u op ps pc ri rt db = (r4, db') \<Longrightarrow> billing_step db db'"
| step_replenish: "run_auto_replenish new_id settings db = (r5, db') \<Longrightarrow> billing_step db db'"

lemma billing_inv_cong:
  "ledger db' = ledger db \<Longrightarrow> balances db' = balances db \<Longrightarrow> windows db' = windows db \<Longrightarrow>
     billing_inv db' = billing_inv db"
  unfolding billing_inv_def
  using ledger_ok_cong windows_ok_cong keys_ok_cong by blast

lemma keeps_inv_topups [intro]: "keeps billing_inv (modify (\<lambda>db. db\<lparr>topups := topups db @ [row]\<rparr>))"
  by (rule keeps_modify) (simp add: billing_inv_cong [of "_\<lparr>topups := _\<rparr>"])

lemma keeps_inv_grant [intro]: "keeps billing_inv (grant_initial_credit tid u a op)"
  unfolding grant_initial_credit_def Let_def by auto

lemma keeps_inv_topup [intro]: "keeps billing_inv (topup tid u a kind op)"
  unfolding topup_def Let_def by auto

lemma get_balance_ensure: "get_balance = ensure_balance_row"
  by (simp add: fun_eq_iff get_balance_def ensure_balance_row_def)

lemma keeps_inv_replenish_user [intro]: "keeps billing_inv (replenish_user new_id settings n u)"
  unfolding replenish_user_def resolve_billing_config_def get_billing_config_def bind_assoc
  by (auto intro!: keeps_bind keeps_if)

lemma keeps_inv_upsert [intro]: "keeps billing_inv (upsert_billing_config u op ps pc ri rt)"
  unfolding upsert_billing_config_def get_billing_config_def Let_def
  by (intro keeps_bind keeps_gets keeps_ret keeps_modify)
     (simp add: billing_inv_cong [of "_\<lparr>configs := _\<rparr>"])

lemma keeps_inv_encumber [intro]:
  "keeps billing_inv (encumber_customer_engagement u e a now period cap)"
  unfolding encumber_keyed by auto

lemma keeps_inv_increase [intro]:
  "keeps billing_inv (increase_customer_engagement_cap u e revision a now period cap)"
  unfolding increase_keyed by (intro keeps_bind keeps_require keeps_inv_keyed) auto

lemma keeps_inv_release [intro]: "keeps billing_inv (release_customer_engagement u e a)"
  unfolding release_keyed by auto

lemmas keeps_inv_public =
  keeps_inv_encumber keeps_inv_increase keeps_inv_release
  keeps_inv_grant keeps_inv_topup keeps_inv_upsert keeps_inv_ensure keeps_inv_spend keeps_inv_apply_delta

lemma billing_step_inv: "billing_step db db' \<Longrightarrow> billing_inv db \<Longrightarrow> billing_inv db'"
proof (induction rule: billing_step.induct)
  case (step_tick db t)
  then show ?case by (simp add: billing_inv_cong [of "_\<lparr>server_now := _\<rparr>"])
next
  case (step_charge u a p now period cap db r db')
  then show ?case unfolding charge_payment_def by (auto elim!: keepsD [rotated 2])
next
  case (step_session u p a now period cap db r db')
  then show ?case unfolding encumber_for_session_def by (auto elim!: keepsD [rotated 2])
next
  case (step_replenish new_id settings db r db')
  have "keeps billing_inv (run_auto_replenish new_id settings)"
    unfolding run_auto_replenish_def by (intro keeps_bind keeps_gets keeps_fold keeps_inv_replenish_user)
  with step_replenish show ?case by (auto elim!: keepsD)
qed (auto simp: refund_payment_def release_session_encumbrance_def get_balance_ensure elim!: keepsD [rotated 2])

lemma billing_inv_empty: "billing_empty db \<Longrightarrow> billing_inv db"
  by (simp add: billing_empty_def billing_inv_def ledger_ok_def windows_ok_def keys_ok_def
      balance_row_def balance_of_def new_balance_def user_total_def user_count_def)

interpretation billing: transition_system billing_empty billing_step billing_inv
  by unfold_locales (auto intro: billing_inv_empty billing_step_inv)

end
