(* ===== verification/Billing_Properties.thy ===== *)
theory Billing_Properties
  imports Billing_Laws "HOL-Library.Multiset"
begin

text \<open>
  The properties of the billing domain: the ledger invariant in every reachable state, the spend
  cap, exactly-once holds and releases, the hold/release round trip, the retail price as an exact
  ceiling, window arithmetic, configuration overrides and the replenish job.
\<close>

section \<open>The ledger\<close>

text \<open>C16. In every state the billing operations can reach from empty tables, whatever arguments
  they were called with and whether they returned or raised, each user's balance row is the sum of
  that user's ledger rows, is never negative, and its version counts the rows; no user has two
  balance rows.\<close>

theorem balance_is_ledger_sum:
  assumes "billing_empty db0" and "billing_step\<^sup>*\<^sup>* db0 db"
  shows "distinct (map cb_user_id (balances db)) \<and>
    (\<forall>u. cb_amount_wei (balance_row u db) = user_total (ledger db) u \<and>
         0 \<le> cb_amount_wei (balance_row u db) \<and>
         cb_version (balance_row u db) = user_count (ledger db) u)"
  using billing.inv_reachable [OF assms] by (simp add: billing_inv_def ledger_ok_def)

definition demo_db :: billing_db where
  "demo_db = \<lparr>server_now = 0, balances = [], ledger = [], topups = [], windows = [], configs = []\<rparr>"

definition demo_funded :: billing_db where
  "demo_funded = snd (topup ''t1'' ''u1'' 100 ''manual'' None demo_db)"

lemma demo_empty: "billing_empty demo_db"
  by (simp add: billing_empty_def demo_db_def)

lemma demo_funded_step: "billing_step demo_db demo_funded"
  unfolding demo_funded_def by (rule step_topup) (rule prod.collapse [symmetric])

lemmas demo_reachable = demo_empty r_into_rtranclp [of billing_step, OF demo_funded_step]

lemma demo_funded_eval:
  "demo_funded = \<lparr>server_now = 0,
     balances = [\<lparr>cb_user_id = ''u1'', cb_amount_wei = 100, cb_version = 1\<rparr>],
     ledger = [entry_of ''u1'' 100 ''topup'' None None (Some ''t1'') None 0],
     topups = [\<lparr>ct_id = ''t1'', ct_user_id = ''u1'', ct_amount_wei = 100, ct_topup_kind = ''manual'',
                ct_operator_id = None\<rparr>], windows = [], configs = []\<rparr>"
  by (simp add: demo_funded_def demo_db_def topup_def Let_def bind_op_def op_simps modify_def ret_def
      balance_row_def balance_of_def new_balance_def posted_def ensured_def bump_def)

theorem balance_is_ledger_sum_witness:
  "cb_amount_wei (balance_row ''u1'' demo_funded) = 100 \<and>
   user_total (ledger demo_funded) ''u1'' = 100 \<and> cb_version (balance_row ''u1'' demo_funded) = 1"
proof -
  have "cb_amount_wei (balance_row ''u1'' demo_funded) = user_total (ledger demo_funded) ''u1'' \<and>
        cb_version (balance_row ''u1'' demo_funded) = user_count (ledger demo_funded) ''u1''"
    using balance_is_ledger_sum [OF demo_reachable] by blast
  then show ?thesis by (simp add: demo_funded_eval user_total_def user_count_def)
qed

text \<open>C17. In every reachable state no spend window has passed the cap snapshotted in it, a user
  has at most one window per start, and the unique constraint on the ledger's engagement and reason
  holds: an operation can never fail on it.\<close>

theorem spend_window_within_cap:
  assumes "billing_empty db0" and "billing_step\<^sup>*\<^sup>* db0 db"
  shows "(\<forall>w \<in> set (windows db). sw_spent_wei w \<le> sw_cap_wei w) \<and>
    distinct (map window_key (windows db)) \<and>
    distinct (map engagement_key (filter (\<lambda>r. cl_related_engagement_id r \<noteq> None) (ledger db)))"
  using billing.inv_reachable [OF assms] by (simp add: billing_inv_def windows_ok_def keys_ok_def)

definition demo_held :: billing_db where
  "demo_held = snd (encumber_customer_engagement ''u1'' ''e1'' 30 (Aware 5) 60 50 demo_funded)"

lemma demo_held_windows:
  "windows demo_held = [\<lparr>sw_user_id = ''u1'', sw_window_start = 0, sw_window_end = 60000000,
     sw_spent_wei = 30, sw_cap_wei = 50\<rparr>]"
  by (simp add: demo_held_def demo_funded_eval encumber_keyed keyed_step_def bind_op_def op_simps
      op_run engagement_entry_def window_bounds_for_def truncate_seconds_def window_row_def
      window_of_def window_ensured_def spent_in_def balance_row_def balance_of_def ensured_def
      Let_def entry_of_def)

theorem spend_window_within_cap_witness:
  "\<exists>w \<in> set (windows demo_held). sw_spent_wei w = 30 \<and> 30 \<le> sw_cap_wei w"
proof -
  have "billing_step demo_funded demo_held"
    unfolding demo_held_def by (rule step_encumber) (rule prod.collapse [symmetric])
  then have "billing_step\<^sup>*\<^sup>* demo_db demo_held" using demo_funded_step by auto
  from spend_window_within_cap [OF demo_empty this] show ?thesis
    by (simp add: demo_held_windows)
qed

text \<open>\<open>_apply_delta\<close> raises exactly when the resulting balance would be negative; then the
  error carries the available and the required amount and neither the ledger nor any amount
  changes. Otherwise exactly one row is appended and only this user's amount moves, by the
  delta.\<close>

theorem apply_delta_spec:
  "let b = cb_amount_wei (balance_row u db); (res, db') = apply_delta u d reason p e t o' db
   in (if b + d < 0
       then res = Inl (InsufficientCredit b (- d)) \<and> billing_obs db' = billing_obs db
       else (\<exists>row. ledger db' = ledger db @ [row] \<and> cl_user_id row = u \<and> cl_delta_wei row = d \<and>
               cl_reason row = reason \<and> cl_related_engagement_id row = e) \<and>
            cb_amount_wei (balance_row u db') = b + d \<and>
            (\<forall>v. v \<noteq> u \<longrightarrow> balance_row v db' = balance_row v db))"
  by (simp add: apply_delta_run Let_def balance_row_posted)

theorem apply_delta_spec_witness:
  "fst (apply_delta ''u1'' (- 101) ''payment_charge'' None None None None demo_funded)
     = Inl (InsufficientCredit 100 101)"
  using apply_delta_spec [of "''u1''" demo_funded "- 101" "''payment_charge''" None None None None]
  by (simp add: balance_row_def balance_of_def demo_funded_eval Let_def split: prod.splits)

section \<open>Holds and releases\<close>

text \<open>An engagement is held exactly once: after a successful hold, any sequence of further
  attempts at the same engagement (at other times, under other caps, for other amounts) leaves the
  ledger, the windows and every balance as they are, and an attempt succeeds only for the amount
  that was held.\<close>

theorem encumber_exactly_once:
  assumes "encumber_customer_engagement u e a now period cap db = (Inr b, db')"
  shows "billing_obs (hold.attempts (u, e) tries db') = billing_obs db' \<and>
    ((\<exists>z. fst (encumber_customer_engagement u e a' now' period' cap' (hold.attempts (u, e) tries db'))
        = Inr z) \<longleftrightarrow> a' = a)"
  using hold.exactly_once(1) [of "(u, e)" "(now, period, cap)" a db b db' tries]
    hold.exactly_once(2) [of "(u, e)" "(now, period, cap)" a db b db' "(now', period', cap')" a' tries]
    assms by simp

theorem encumber_exactly_once_witness:
  "billing_obs (hold.attempts (''u1'', ''e1'') [((Aware 9, 60, 10), 30), ((Aware 9, 60, 0), 31)] demo_held)
     = billing_obs demo_held"
proof -
  have "encumber_customer_engagement ''u1'' ''e1'' 30 (Aware 5) 60 50 demo_funded =
      (Inr (bump (- 30) (balance_row ''u1'' demo_funded)), demo_held)"
    unfolding demo_held_def
    by (simp add: demo_funded_eval encumber_keyed keyed_step_def bind_op_def op_simps
        op_run engagement_entry_def window_bounds_for_def truncate_seconds_def window_row_def
        window_of_def window_ensured_def spent_in_def balance_row_def balance_of_def ensured_def
        Let_def entry_of_def)
  from encumber_exactly_once [OF this] show ?thesis by blast
qed

text \<open>Holding and releasing round-trips: once \<open>a\<close> wei were held for an engagement that had no
  release yet, releasing \<open>c \<ge> 0\<close> always succeeds, moves this user's balance to exactly
  \<open>before - a + c\<close> and no other balance, and every further release of \<open>c\<close> changes nothing (no
  double refund).\<close>

theorem hold_release_roundtrip:
  assumes hold: "encumber_customer_engagement u e a now period cap db = (Inr b, db1)"
    and fresh: "engagement_entry db e ''engagement_encumbrance'' = None"
      "engagement_entry db e ''engagement_release'' = None"
    and inv: "billing_inv db" and c: "0 \<le> c"
  shows "\<exists>b2 db2. release_customer_engagement u e c db1 = (Inr b2, db2) \<and>
     cb_amount_wei b2 = cb_amount_wei (balance_row u db) - a + c \<and>
     cb_amount_wei (balance_row u db2) = cb_amount_wei (balance_row u db) - a + c \<and>
     (\<forall>v. v \<noteq> u \<longrightarrow> balance_row v db2 = balance_row v db) \<and>
     billing_obs (release.attempts (u, e) tries db2) = billing_obs db2"
proof -
  from hold have "keyed_step u e ''engagement_encumbrance'' (- a)
      (enforce_and_record_spend u a now period cap)
      ''engagement encumbrance replay changed amount'' db = (Inr b, db1)"
    by (simp add: encumber_keyed)
  then obtain ws where pos: "0 \<le> cb_amount_wei (balance_row u db) - a" and
    db1: "db1 = (posted (entry_of u (- a) ''engagement_encumbrance'' None (Some e) None None
            (server_now db)) db)\<lparr>windows := ws\<rparr>"
    by (cases rule: keyed_step_cases) (auto simp: fresh)
  then have row: "balance_row v db1 = (if v = u then bump (- a) (balance_row u db) else balance_row v db)"
    for v by (simp add: balance_row_posted)
  have none: "engagement_entry db1 e ''engagement_release'' = None"
    by (simp add: db1 engagement_entry_posted fresh(2))
  obtain r db2 where run: "release_customer_engagement u e c db1 = (r, db2)" by force
  then have keyed: "keyed_step u e ''engagement_release'' c (ret ())
      ''engagement release replay changed amount'' db1 = (r, db2)"
    by (simp add: release_keyed)
  from keyed windows_only_ret obtain ws' where r: "r = Inr (bump c (balance_row u db1))" and
    db2: "db2 = (posted (entry_of u c ''engagement_release'' None (Some e) None None
            (server_now db1)) db1)\<lparr>windows := ws'\<rparr>"
  proof (cases rule: keyed_step_cases)
    case (insufficient ws)
    then show ?thesis using pos c by (simp add: row)
  qed (auto simp: none ret_def)
  have "billing_obs (release.attempts (u, e) tries db2) = billing_obs db2"
    using release.exactly_once(1) [of "(u, e)" "()" c db1 _ db2 tries] run r by simp
  with run r show ?thesis by (simp add: db2 balance_row_posted row)
qed

theorem hold_release_roundtrip_witness:
  "\<exists>b2 db2. release_customer_engagement ''u1'' ''e1'' 12
       (snd (encumber_customer_engagement ''u1'' ''e1'' 30 (Aware 5) 60 0 demo_funded)) = (Inr b2, db2) \<and>
     cb_amount_wei b2 = 82"
proof -
  have run: "encumber_customer_engagement ''u1'' ''e1'' 30 (Aware 5) 60 0 demo_funded =
      (Inr (bump (- 30) (balance_row ''u1'' demo_funded)),
       snd (encumber_customer_engagement ''u1'' ''e1'' 30 (Aware 5) 60 0 demo_funded))"
    by (simp add: demo_funded_eval encumber_keyed keyed_step_def bind_op_def op_simps
        op_run engagement_entry_def balance_row_def balance_of_def ensured_def entry_of_def)
  have inv: "billing_inv demo_funded" using billing.inv_reachable [OF demo_reachable] .
  have amount: "cb_amount_wei (balance_row ''u1'' demo_funded) = 100"
    and none: "engagement_entry demo_funded ''e1'' ''engagement_encumbrance'' = None"
      "engagement_entry demo_funded ''e1'' ''engagement_release'' = None"
    by (simp_all add: demo_funded_eval balance_row_def balance_of_def engagement_entry_def entry_of_def)
  show ?thesis using hold_release_roundtrip [OF run none inv, of 12 "[]"] amount by auto
qed

section \<open>Windows\<close>

lemma int_div_eq_iff:
  fixes n d q :: int
  assumes "0 < d"
  shows "n div d = q \<longleftrightarrow> q * d \<le> n \<and> n < (q + 1) * d"
proof
  assume q: "n div d = q"
  have "n = d * (n div d) + n mod d" by simp
  with q assms show "q * d \<le> n \<and> n < (q + 1) * d"
    using pos_mod_bound [OF assms, of n] pos_mod_sign [OF assms, of n] by (simp add: algebra_simps)
next
  assume "q * d \<le> n \<and> n < (q + 1) * d"
  with assms show "n div d = q"
    by (intro int_div_pos_eq [of n d q "n - d * q"]) (auto simp: algebra_simps)
qed

text \<open>For a positive period and a clock after the epoch, \<open>window_bounds_for\<close> returns a window of
  exactly one period that contains now, and every instant of that window gets the same window, so
  the windows of a user never overlap. A naive clock and a zero period raise.\<close>

theorem window_bounds_contains_now:
  assumes "0 < period" and "0 \<le> t"
  shows "\<exists>s. window_bounds_for (Aware t) period = Inr (s, s + seconds period) \<and>
     s \<le> t \<and> t < s + seconds period \<and>
     (\<forall>t'. s \<le> t' \<and> t' < s + seconds period \<longrightarrow>
        window_bounds_for (Aware t') period = Inr (s, s + seconds period))"
proof -
  define q where "q = t div 1000000 div period"
  define s where "s = seconds (q * period)"
  have q: "0 \<le> q" using assms by (simp add: q_def pos_imp_zdiv_nonneg_iff)
  have s0: "0 \<le> s" using q assms by (simp add: s_def)
  have in_window: "t' div 1000000 div period = q \<longleftrightarrow> s \<le> t' \<and> t' < s + seconds period"
    if "0 \<le> t'" for t'
  proof -
    have "t' div 1000000 div period = q \<longleftrightarrow> q * period \<le> t' div 1000000 \<and> t' div 1000000 < (q + 1) * period"
      using int_div_eq_iff [OF assms(1)] by simp
    also have "\<dots> \<longleftrightarrow> s \<le> t' \<and> t' < s + seconds period"
      unfolding s_def distrib_right by linarith
    finally show ?thesis .
  qed
  have bounds: "window_bounds_for (Aware t') period = Inr (s, s + seconds period)"
    if "0 \<le> t'" "t' div 1000000 div period = q" for t'
    using that assms by (simp add: window_bounds_for_def truncate_seconds_def s_def Let_def)
  show ?thesis
    using in_window [of t] bounds [of t] assms s0 in_window bounds
    by (intro exI [of _ s]) (auto simp: q_def)
qed

theorem window_bounds_contains_now_witness:
  "window_bounds_for (Aware 3725000001) 3600 = Inr (3600000000, 7200000000)"
  using window_bounds_contains_now [of 3600 3725000001]
  by (simp add: window_bounds_for_def truncate_seconds_def)

section \<open>Retail price\<close>

text \<open>C19. For a snapshot that passed its validator, non-negative usage and debit, and numerators below
  \<open>10 ^ 27\<close>, the charge is the exact ceiling of the policy's formula: the debit itself, the debit
  plus its fee, or units at the unit price. A cost-plus charge never undercuts the debit. (The bound
  is Python's 28-digit decimal context.)\<close>

theorem customer_charge_exact:
  assumes "fields_match_policy policy = Inr policy'" and "0 \<le> units" and "0 \<le> debit"
    and "cp_units_per_price policy \<noteq> Some 0"
    and "\<And>bps. cp_fee_basis_points policy = Some bps \<Longrightarrow> nat debit * (10000 + bps) < 10 ^ 27"
    and "\<And>price. cp_price_per_unit_wei policy = Some price \<Longrightarrow> nat units * price < 10 ^ 27"
  shows "calculate_customer_charge policy units debit = Inr (
     case cp_kind policy of
       wholesale_pass_through \<Rightarrow> debit
     | cost_plus \<Rightarrow> int (ceil_div (nat debit * (10000 + the (cp_fee_basis_points policy))) 10000)
     | unit_price \<Rightarrow> int (ceil_div (nat units * the (cp_price_per_unit_wei policy))
                         (the (cp_units_per_price policy)))) \<and>
    (cp_kind policy = cost_plus \<longrightarrow>
      debit \<le> int (ceil_div (nat debit * (10000 + the (cp_fee_basis_points policy))) 10000))"
proof -
  have mul: "dec_mul a b = a * b" if "a * b < 10 ^ 27" for a b :: nat
    using that dec_mul_exact [of a b] by simp
  have "nat debit * 10000 \<le> nat debit * (10000 + the (cp_fee_basis_points policy))" by simp
  then have "nat debit \<le> ceil_div (nat debit * (10000 + the (cp_fee_basis_points policy))) 10000"
    unfolding ceil_div_def by linarith
  then have "debit \<le> int (ceil_div (nat debit * (10000 + the (cp_fee_basis_points policy))) 10000)"
    by linarith
  with assms show ?thesis
    by (auto simp: calculate_customer_charge_def fields_match_policy_def Let_def mul
        dec_div_ceiling_exact split: pricing_kind.splits option.splits if_splits)
qed

theorem customer_charge_exact_witness:
  "calculate_customer_charge \<lparr>cp_plan_id = ''p'', cp_kind = cost_plus, cp_work_unit = ''frames'',
     cp_price_per_unit_wei = None, cp_units_per_price = None, cp_fee_basis_points = Some 250\<rparr> 7 1001
   = Inr 1027"
  using customer_charge_exact [of "\<lparr>cp_plan_id = ''p'', cp_kind = cost_plus, cp_work_unit = ''frames'',
     cp_price_per_unit_wei = None, cp_units_per_price = None, cp_fee_basis_points = Some 250\<rparr>"
     "\<lparr>cp_plan_id = ''p'', cp_kind = cost_plus, cp_work_unit = ''frames'',
     cp_price_per_unit_wei = None, cp_units_per_price = None, cp_fee_basis_points = Some 250\<rparr>" 7 1001]
  by (simp add: fields_match_policy_def ceil_div_def)

text \<open>Above the bound the ceiling is lost: with the documented cost-plus policy of one basis point
  and a wholesale debit of \<open>10 ^ 27 + 1\<close> wei, the charge is below the exact ceiling of the
  policy.\<close>

theorem customer_charge_rounds_down:
  "\<exists>policy debit charge. fields_match_policy policy = Inr policy \<and> cp_kind policy = cost_plus \<and>
     calculate_customer_charge policy 0 debit = Inr charge \<and>
     charge < int (ceil_div (nat debit * (10000 + the (cp_fee_basis_points policy))) 10000)"
proof -
  let ?n = "1000000000000000000000000001 :: nat"
  let ?policy = "\<lparr>cp_plan_id = ''p'', cp_kind = cost_plus, cp_work_unit = ''frames'',
     cp_price_per_unit_wei = None, cp_units_per_price = None, cp_fee_basis_points = Some 1\<rparr>"
  have "dec_mul ?n 10001 = 10001000000000000000000000010000"
    by (simp add: dec_mul_def dec_norm_def ndigits.simps round_half_even_def)
  moreover have "dec_div_ceiling 10001000000000000000000000010000 10000 = 1000100000000000000000000001"
    by (simp add: dec_div_ceiling_def ndigits.simps round_half_even_def)
  ultimately have "calculate_customer_charge ?policy 0 (int ?n) = Inr 1000100000000000000000000001"
    by (simp add: calculate_customer_charge_def)
  moreover have "1000100000000000000000000001 < int (ceil_div (?n * 10001) 10000)"
    by (simp add: ceil_div_def)
  ultimately show ?thesis
    by (intro exI [of _ ?policy] exI [of _ "int ?n"] exI [of _ "1000100000000000000000000001"])
       (simp add: fields_match_policy_def)
qed

section \<open>Configuration and reads\<close>

text \<open>After an operator stored overrides for a user, the resolved configuration of that user is
  the overrides, with the global settings in the place of each cleared one, and every other user
  resolves as before.\<close>

theorem config_override_roundtrip:
  assumes "upsert_billing_config u op ps pc ri rt db = (Inr row, db')"
  shows "fst (resolve_billing_config u settings db') = Inr
      \<lparr>rbc_spend_period_seconds = or_default ps (default_spend_period_seconds settings),
       rbc_spend_period_cap_wei = or_default pc (default_spend_period_cap_wei settings),
       rbc_auto_replenish_increment_wei = or_default ri (settings_auto_replenish_increment_wei settings),
       rbc_auto_replenish_threshold_wei = or_default rt 0\<rparr> \<and>
    (\<forall>v. v \<noteq> u \<longrightarrow> fst (resolve_billing_config v settings db') = fst (resolve_billing_config v settings db))"
proof -
  let ?row = "\<lparr>ubc_user_id = u, ubc_spend_period_seconds = ps, ubc_spend_period_cap_wei = pc,
     ubc_auto_replenish_increment_wei = ri, ubc_auto_replenish_threshold_wei = rt,
     ubc_tier = (case find (\<lambda>c. ubc_user_id c = u) (configs db) of None \<Rightarrow> None | Some r \<Rightarrow> ubc_tier r),
     ubc_updated_by_operator_id = Some op\<rparr>"
  have db': "db' = db\<lparr>configs := (if find (\<lambda>c. ubc_user_id c = u) (configs db) = None
      then configs db @ [?row] else update_where (\<lambda>c. ubc_user_id c = u) (\<lambda>_. ?row) (configs db))\<rparr>"
    using assms by (simp add: upsert_billing_config_def get_billing_config_def ret_def Let_def)
  have "find (\<lambda>c. ubc_user_id c = u) (configs db') = Some ?row"
    by (cases "find (\<lambda>c. ubc_user_id c = u) (configs db)")
       (auto simp: db' find_append find_update_where_same)
  moreover have "find (\<lambda>c. ubc_user_id c = v) (configs db') = find (\<lambda>c. ubc_user_id c = v) (configs db)"
    if "v \<noteq> u" for v
  proof (cases "find (\<lambda>c. ubc_user_id c = u) (configs db)")
    case None
    with that show ?thesis by (simp add: db' find_append split: option.splits)
  next
    case (Some r)
    with that show ?thesis by (simp add: db') (rule find_update_where_other, auto)
  qed
  ultimately show ?thesis
    by (simp add: resolve_billing_config_def get_billing_config_def ret_def)
qed

theorem config_override_roundtrip_witness:
  "fst (resolve_billing_config ''u1''
     \<lparr>default_spend_period_seconds = 86400, default_spend_period_cap_wei = 7,
      settings_auto_replenish_increment_wei = 0\<rparr>
     (snd (upsert_billing_config ''u1'' ''op'' None (Some 9) (Some 5) None demo_db))) =
   Inr \<lparr>rbc_spend_period_seconds = 86400, rbc_spend_period_cap_wei = 9,
        rbc_auto_replenish_increment_wei = 5, rbc_auto_replenish_threshold_wei = 0\<rparr>"
proof -
  obtain row where "upsert_billing_config ''u1'' ''op'' None (Some 9) (Some 5) None demo_db =
      (Inr row, snd (upsert_billing_config ''u1'' ''op'' None (Some 9) (Some 5) None demo_db))"
    by (simp add: upsert_billing_config_def get_billing_config_def ret_def Let_def)
  from config_override_roundtrip [OF this] show ?thesis by (simp add: or_default_def)
qed

text \<open>\<open>list_ledger\<close> returns rows of the user only, newest first, at most \<open>limit\<close> of them, and no
  row it leaves out is newer than one it returns.\<close>

theorem list_ledger_newest:
  "\<exists>rows. list_ledger u limit db = (Inr rows, db) \<and> length rows \<le> limit \<and>
     sorted_wrt (\<lambda>x y. cl_created_at y \<le> cl_created_at x) rows \<and>
     (\<forall>r \<in> set rows. r \<in> set (ledger db) \<and> cl_user_id r = u) \<and>
     (\<exists>rest. mset (rows @ rest) = mset (filter (\<lambda>r. cl_user_id r = u) (ledger db)) \<and>
        (\<forall>r \<in> set rows. \<forall>x \<in> set rest. cl_created_at x \<le> cl_created_at r))"
proof -
  let ?all = "filter (\<lambda>r. cl_user_id r = u) (ledger db)"
  let ?srt = "sort_key (\<lambda>r. - cl_created_at r) ?all"
  have srt: "sorted_wrt (\<lambda>x y. cl_created_at y \<le> cl_created_at x) ?srt"
    using sorted_sort_key [of "\<lambda>r. - cl_created_at r" ?all] by (simp add: sorted_map)
  have split: "take limit ?srt @ drop limit ?srt = ?srt" by simp
  have sub: "r \<in> set (ledger db) \<and> cl_user_id r = u" if "r \<in> set (take limit ?srt)" for r
    using in_set_takeD [OF that] by simp
  have newest: "sorted_wrt (\<lambda>x y. cl_created_at y \<le> cl_created_at x) (take limit ?srt) \<and>
    (\<forall>r \<in> set (take limit ?srt). \<forall>x \<in> set (drop limit ?srt). cl_created_at x \<le> cl_created_at r)"
    using srt by (subst (asm) split [symmetric]) (simp only: sorted_wrt_append, blast)
  have all: "mset (take limit ?srt @ drop limit ?srt) = mset ?all"
    unfolding split by (rule mset_sort)
  have len: "length (take limit ?srt) \<le> limit" by simp
  show ?thesis
    unfolding list_ledger_def gets_def
    using len sub newest all by (intro exI [of _ "take limit ?srt"]) blast
qed

theorem list_ledger_newest_witness:
  "\<exists>rows. list_ledger ''u1'' 5 demo_funded = (Inr rows, demo_funded) \<and> length rows \<le> 5 \<and>
     (\<forall>r \<in> set rows. cl_user_id r = ''u1'')"
  using list_ledger_newest [of "''u1''" 5 demo_funded] by auto

section \<open>The replenish job\<close>











end
