(* ===== verification/Wholesale_Properties.thy ===== *)
theory Wholesale_Properties
  imports Wholesale_Laws Billing_Properties
begin

text \<open>
  The properties of wholesale funding: the budget row equals the exposure in every reachable state,
  a claim respects every operator limit, planning outside and inside the lock agree, a claim replays
  exactly, a funding only moves forward, an acknowledgement credits exactly what was minted, and
  nothing here touches a customer's ledger.
\<close>

section \<open>The transition system\<close>

definition clean :: "'d \<Rightarrow> 'd txn" where
  "clean db = \<lparr>working = db, durable = db\<rparr>"

lemma clean_simps [simp]: "working (clean db) = db" "durable (clean db) = db"
  by (simp_all add: clean_def)

text \<open>
  One transaction of the domain from a clean session, with any arguments and any answers of the
  daemon and the broker; the observations are those the HTTP client lets through.
\<close>

inductive wholesale_step :: "('z wholesale_db_scheme) \<Rightarrow> ('z wholesale_db_scheme) \<Rightarrow> bool" where
  claim: "observation_ok ob \<Longrightarrow>
    claim_account_funding ok nid route ob dmn plan limits mid cid pv (clean db) = (r1, s') \<Longrightarrow>
    wholesale_step db (durable s')"
| mint: "record_minted_funding mid p (clean db) = (r2, s') \<Longrightarrow> wholesale_step db (durable s')"
| acknowledge: "observation_ok ob \<Longrightarrow>
    acknowledge_account_funding sha mid result ob dmn at (clean db) = (r2, s') \<Longrightarrow>
    wholesale_step db (durable s')"
| complete: "(\<And>ob'. get_after = Inr ob' \<Longrightarrow> observation_ok ob') \<Longrightarrow>
    complete_account_funding sha fo route ob dmn plan payer create_payment fund get_after at (clean db)
      = (r3, s') \<Longrightarrow> wholesale_step db (durable s')"

definition wholesale_empty :: "('z wholesale_db_scheme) \<Rightarrow> bool" where
  "wholesale_empty db \<longleftrightarrow> accounts db = [] \<and> fundings db = [] \<and>
     budgets db = [\<lparr>eb_scope = ''global'', eb_projected_available_wei = 0\<rparr>]"

lemma wholesale_inv_empty: "wholesale_empty db \<Longrightarrow> wholesale_inv db"
  by (simp add: wholesale_empty_def wholesale_inv_def global_budget_def exposure_alt sel_exposure_def)

text \<open>\<open>complete_account_funding\<close> is a mint followed by an acknowledgement, or stops in between.\<close>

lemma mint_step_cases:
  assumes "mint_step route ob plan payer create_payment funding s = (r, s')"
  obtains (kept) "s' = s" "r = Inr funding \<and> wf_status funding \<noteq> ''claimed'' \<or> (\<exists>e. r = Inl e)"
    | (minted) p where "wf_status funding = ''claimed''" "address_of_bytes (pp_sender p) = payer"
        "record_minted_funding (wf_mint_request_id funding) p s = (r, s')"
  using assms
  by (auto simp: mint_step_def ret_def split: if_splits sum.splits)

lemma complete_cases:
  assumes "complete_account_funding sha fo route ob dmn plan payer create_payment fund get_after at s = (r, s')"
  obtains (kept) "s' = s" "(\<exists>e. r = Inl e) \<or> fo = None \<or> (\<exists>f. fo = Some f \<and> wf_status f = ''acknowledged'')"
    | (minted) funding r1 where "fo = Some funding"
        "mint_step route ob plan payer create_payment funding s = (r1, s')" "\<exists>e. r = Inl e"
    | (acked) funding minted s1 payment result after r2 where "fo = Some funding"
        "mint_step route ob plan payer create_payment funding s = (Inr minted, s1)"
        "wf_payment_bytes minted = Some payment" "fund payment = Inr result" "get_after = Inr after"
        "acknowledge_account_funding sha (wf_mint_request_id minted) result after dmn at s1 = (r2, s')"
        "r = (case r2 of Inl e \<Rightarrow> Inl e | Inr _ \<Rightarrow> Inr ())"
proof (cases fo)
  case None
  with assms kept show ?thesis by (auto simp: complete_account_funding_def ret_def)
next
  case (Some funding)
  obtain r1 s1 where m: "mint_step route ob plan payer create_payment funding s = (r1, s1)" by force
  show ?thesis
  proof (cases r1)
    case (Inl e)
    with m Some assms show ?thesis
      by (auto simp: complete_account_funding_def bind_eq_Inl [of "mint_step _ _ _ _ _ _"] ret_def
          intro: kept minted split: if_splits option.splits)
  next
    case (Inr f1)
    obtain r2 s2 where a: "\<forall>payment result after. wf_payment_bytes f1 = Some payment \<longrightarrow> fund payment = Inr result \<longrightarrow>
        get_after = Inr after \<longrightarrow>
        acknowledge_account_funding sha (wf_mint_request_id f1) result after dmn at s1 = (r2, s2)"
      by (metis option.inject prod.exhaust_sel sum.inject(2) surj_pair)
    with Inr m Some assms show ?thesis
      by (auto simp: complete_account_funding_def bind_eq_Inr [of "mint_step _ _ _ _ _ _"] ret_def raise_def
          bind_op_def [of "acknowledge_account_funding _ _ _ _ _ _"]
          intro: kept minted acked split: if_splits option.splits sum.splits)
  qed
qed

lemma mint_step_keeps_inv:
  assumes "mint_step route ob plan payer create_payment funding s = (r, s')"
    and "wholesale_inv (working s)" and "wholesale_inv (durable s)"
  shows "wholesale_inv (durable s') \<and> wholesale_inv (working s')"
  using assms(1)
proof (cases rule: mint_step_cases)
  case (minted p)
  from mint_keeps_inv [OF minted(3) assms(2,3)] show ?thesis .
qed (use assms in simp)

lemma wholesale_step_inv: "wholesale_step db db' \<Longrightarrow> wholesale_inv db \<Longrightarrow> wholesale_inv db'"
proof (induction rule: wholesale_step.induct)
  case (complete get_after sha fo route ob dmn plan payer create_payment fund at db r s')
  from complete(2) show ?case
  proof (cases rule: complete_cases)
    case (acked funding minted s1 payment result after r2)
    have "wholesale_inv (durable s1) \<and> wholesale_inv (working s1)"
      using mint_step_keeps_inv [OF acked(2)] complete(3) by simp
    then show ?thesis using ack_keeps_inv [OF acked(6)] complete(1) acked(5) by blast
  next
    case (minted funding r1)
    then show ?thesis using mint_step_keeps_inv [OF minted(2)] complete(3) by simp
  qed (use complete(3) in simp)
next
  case (claim ob ok nid route dmn plan limits mid cid pv db r1 s')
  then show ?case using claim_keeps_inv [OF claim(2)] by simp
next
  case (mint mid p db r2 s')
  then show ?case using mint_keeps_inv [OF mint(1)] by simp
next
  case (acknowledge ob sha mid result dmn at db r2 s')
  then show ?case using ack_keeps_inv [OF acknowledge(2)] by simp
qed

interpretation wholesale: transition_system wholesale_empty wholesale_step wholesale_inv
  by unfold_locales (auto intro: wholesale_inv_empty wholesale_step_inv)

section \<open>Fundings only move forward\<close>

definition funding_le :: "wholesale_funding \<Rightarrow> wholesale_funding \<Rightarrow> bool" where
  "funding_le f g \<longleftrightarrow>
     wf_account_id g = wf_account_id f \<and> wf_mint_request_id g = wf_mint_request_id f \<and>
     wf_requested_shortfall_wei g = wf_requested_shortfall_wei f \<and>
     wf_target_available_wei g = wf_target_available_wei f \<and>
     wf_route_snapshot g = wf_route_snapshot f \<and> wf_correlation_id g = wf_correlation_id f \<and>
     (wf_status f = ''acknowledged'' \<longrightarrow> wf_status g = ''acknowledged'') \<and>
     (wf_status f = ''minted'' \<longrightarrow> wf_status g \<noteq> ''claimed'') \<and>
     (wf_payment_bytes f \<noteq> None \<longrightarrow> wf_payment_bytes g = wf_payment_bytes f) \<and>
     (wf_status f = ''acknowledged'' \<longrightarrow> wf_credited_value_wei g = wf_credited_value_wei f \<and>
        wf_account_version g = wf_account_version f)"

lemma funding_le_refl: "funding_le f f"
  by (simp add: funding_le_def)

lemma funding_le_trans: "funding_le f g \<Longrightarrow> funding_le g h \<Longrightarrow> funding_ok g \<Longrightarrow> funding_le f h"
  by (auto simp: funding_le_def funding_ok_def)

lemma find_funding_ok: "wholesale_inv db \<Longrightarrow> find_funding db k = Some f \<Longrightarrow> funding_ok f"
  by (auto simp: wholesale_inv_def dest: find_funding_in)

lemma find_replace_other: "k \<noteq> mid \<Longrightarrow> wf_mint_request_id f = mid \<Longrightarrow> find_funding (replace_funding mid f db) k = find_funding db k"
  unfolding find_funding_def replace_funding_def by simp (rule find_update_where_other, auto)

lemma find_funding_cong: "fundings db' = fundings db \<Longrightarrow> find_funding db' k = find_funding db k"
  by (simp add: find_funding_def)

lemma replace_forward:
  assumes "find_funding db k = Some f" and "find_funding db mid = Some f0"
    and "wf_mint_request_id f1 = mid" and "funding_le f0 f1" and "fundings db1 = fundings db"
  shows "\<exists>g. find_funding (replace_funding mid f1 db1) k = Some g \<and> funding_le f g"
  using assms funding_le_refl
  by (cases "k = mid") (auto simp: replace_funding_find find_replace_other find_funding_cong [OF assms(5)])

lemma mint_forward:
  assumes "record_minted_funding mid p s = (r, s')" and "find_funding (working s) k = Some f"
    and "find_funding (durable s) k = Some f"
  shows "\<exists>g. find_funding (durable s') k = Some g \<and> find_funding (working s') k = Some g \<and> funding_le f g"
  using assms(1)
proof (cases rule: mint_cases)
  case (minted f0)
  have "funding_le f0 (minted_funding p f0)" using minted(3) by (auto simp: funding_le_def minted_funding_def)
  moreover have "wf_mint_request_id (minted_funding p f0) = mid"
    using find_funding_in [OF minted(1)] by (simp add: minted_funding_def)
  ultimately show ?thesis
    using replace_forward [OF assms(2) minted(1)] minted(5,6) by metis
qed (use assms funding_le_refl in auto)

lemma ack_forward:
  assumes "acknowledge_account_funding sha mid result ob dmn at s = (r, s')"
    and "find_funding (working s) k = Some f" and "find_funding (durable s) k = Some f"
  shows "\<exists>g. find_funding (durable s') k = Some g \<and> funding_le f g"
  using assms(1)
proof (cases rule: ack_cases)
  case (acked f0 a b payment)
  have "funding_le f0 (acked_funding result at f0)" using acked(16) by (auto simp: funding_le_def acked_funding_def)
  moreover have "wf_mint_request_id (acked_funding result at f0) = mid"
    using find_funding_in [OF acked(1)] by (simp add: acked_funding_def)
  moreover have "fundings (replace_account a (acked_account ob a) (set_budget v (working s))) = fundings (working s)" for v
    by (simp add: replace_account_def)
  ultimately show ?thesis
    unfolding acked(18,19) using replace_forward [OF assms(2) acked(1)] by metis
qed (use assms funding_le_refl in auto)

lemma claim_forward:
  assumes "claim_account_funding ok nid route ob dmn plan limits mid cid pv s = (r, s')"
    and "find_funding (working s) k = Some f" and "find_funding (durable s) k = Some f"
    and "wholesale_inv (working s)" and "observation_ok ob"
  shows "\<exists>g. find_funding (durable s') k = Some g \<and> funding_le f g"
  using assms(1)
proof (cases rule: claim_cases)
  case (claimed budget aid db1 snap)
  have "domain_pattern dmn" using claimed(2) assms(5) by (simp add: observation_ok_def)
  from store_effect(3) [OF claimed(5) assms(4) this] have "find_funding db1 k = Some f"
    using assms(2) by (simp add: find_funding_def)
  then show ?thesis using funding_le_refl
    by (simp add: claimed(7) find_funding_def find_append)
qed (use assms funding_le_refl in auto)

lemma wholesale_step_forward:
  assumes "wholesale_step db db'" and "wholesale_inv db" and "find_funding db k = Some f"
  shows "\<exists>g. find_funding db' k = Some g \<and> funding_le f g"
  using assms(1)
proof (cases rule: wholesale_step.cases)
  case (claim ob ok nid route dmn plan limits mid cid pv r s')
  with assms claim_forward [OF claim(3), of k f] show ?thesis by simp
next
  case (mint mid p r s')
  with assms mint_forward [OF mint(2), of k f] show ?thesis by auto
next
  case (acknowledge ob sha mid result dmn at r s')
  with assms ack_forward [OF acknowledge(3), of k f] show ?thesis by simp
next
  case (complete get_after sha fo route ob dmn plan payer create_payment fund at r s')
  have start: "find_funding (working (clean db)) k = Some f" "find_funding (durable (clean db)) k = Some f"
    using assms(3) by simp_all
  have mint: "\<exists>g. find_funding (durable s1) k = Some g \<and> find_funding (working s1) k = Some g \<and> funding_le f g"
    if "mint_step route ob plan payer create_payment funding (clean db) = (r1, s1)" for funding r1 s1
    using that
  proof (cases rule: mint_step_cases)
    case (minted p)
    from mint_forward [OF minted(3) start] show ?thesis .
  qed (use start funding_le_refl in auto)
  from complete(3) show ?thesis
  proof (cases rule: complete_cases)
    case kept
    then show ?thesis using complete(1) start funding_le_refl by auto
  next
    case (minted funding r1)
    from mint [OF minted(2)] show ?thesis using complete(1) by blast
  next
    case (acked funding f1 s1 payment result after r2)
    from mint [OF acked(2)] obtain g where g: "find_funding (durable s1) k = Some g"
      "find_funding (working s1) k = Some g" "funding_le f g" by blast
    from ack_forward [OF acked(6) g(2,1)] obtain h where h: "find_funding (durable s') k = Some h" "funding_le g h" by blast
    have "wholesale_inv (durable s1)" using mint_step_keeps_inv [OF acked(2)] assms(2) by simp
    then have "funding_ok g" using find_funding_ok g(1) by blast
    with g h show ?thesis using complete(1) funding_le_trans by blast
  qed
qed

interpretation funding_rows: monotone_rows wholesale_empty wholesale_step wholesale_inv
  "\<lambda>db k. case find_funding db k of Some f \<Rightarrow> if funding_ok f then Some f else None | None \<Rightarrow> None"
  "\<lambda>f g. funding_ok g \<and> funding_le f g \<or> f = g"
proof (unfold_locales, goal_cases)
  case (3 s s' k r)
  then have f: "find_funding s k = Some r" by (auto split: option.splits if_splits)
  from wholesale_step_forward [OF 3(2,1) f] obtain g where g: "find_funding s' k = Some g" "funding_le r g" by blast
  have "funding_ok g" using find_funding_ok [OF wholesale_step_inv [OF 3(2,1)] g(1)] .
  with g show ?case by auto
qed (auto intro: funding_le_trans)

section \<open>A concrete account\<close>

definition demo_address :: string where
  "demo_address = ''0x'' @ replicate 40 (CHR ''1'')"

definition demo_observation :: wholesale_account_observation where
  "demo_observation = \<lparr>ob_payer = demo_address, ob_payee = demo_address, ob_wholesale_account_id = ''loc'',
     ob_settlement_domain_id = demo_domain, ob_chain_id = 42161, ob_denomination = ''wei'',
     ob_credited_value_wei = 10, ob_reserved_value_wei = 0, ob_debited_value_wei = 0,
     ob_available_value_wei = 10, ob_version = 1, ob_observed_at = 5\<rparr>"

definition demo_limits :: wholesale_funding_limits where
  "demo_limits = \<lparr>wl_target_available_wei = 100, wl_replenish_below_wei = 50,
     wl_max_available_per_payee_wei = 200, wl_max_aggregate_available_wei = 300,
     wl_max_single_funding_wei = 100\<rparr>"

definition demo_plan :: wholesale_funding_plan where
  "demo_plan = \<lparr>wp_target_available_wei = 100, wp_observed_available_wei = 10, wp_shortfall_wei = 90,
     wp_projected_payee_available_wei = 100, wp_projected_aggregate_available_wei = 100\<rparr>"

definition demo_wholesale :: wholesale_db where
  "demo_wholesale = \<lparr>server_now = 0, balances = [], ledger = [], topups = [], windows = [], configs = [],
     accounts = [], fundings = [], budgets = [\<lparr>eb_scope = ''global'', eb_projected_available_wei = 0\<rparr>]\<rparr>"

abbreviation demo_claim :: "wholesale_db txn \<Rightarrow> (error + wholesale_funding option) \<times> wholesale_db txn" where
  "demo_claim \<equiv> claim_account_funding True ''acct'' demo_route demo_observation demo_domain demo_plan demo_limits
     ''mint-1'' None ''wholesale-account/3.0.0-draft''"

definition demo_funding :: wholesale_funding where
  "demo_funding = claimed_funding ''acct'' ''mint-1'' None demo_plan demo_snapshot"

definition demo_claimed :: wholesale_db where
  "demo_claimed = demo_wholesale
     \<lparr>accounts := [new_account ''acct'' demo_observation demo_domain ''wholesale-account/3.0.0-draft''
        (sr_worker_url demo_route)],
      fundings := [demo_funding],
      budgets := [\<lparr>eb_scope = ''global'', eb_projected_available_wei = 100\<rparr>]\<rparr>"

lemma demo_observation_ok: "observation_ok demo_observation"
  using demo_domain_ok
  by (simp add: observation_ok_def demo_observation_def address_ok_def demo_address_def label_ok_def
      is_label_char_def list_all_iff is_lower_hex_def)

lemma demo_domain_nonempty: "demo_domain \<noteq> []"
  by (simp add: demo_domain_def)

lemma demo_claim_run: "demo_claim (clean demo_wholesale) = (Inr (Some demo_funding), clean demo_claimed)"
  using demo_snapshot_ok demo_domain_nonempty
  by (simp add: claim_account_funding_def demo_wholesale_def demo_claimed_def require_settlement_domain_id_def
      require_observation_domain_def find_funding_def global_budget_def load_active_accounts_def
      matching_payee_accounts_def find_account_def synchronized_exposure_def total_available_def
      pending_account_funding_def plan_account_shortfall_def store_observation_def set_budget_def
      demo_observation_def demo_limits_def demo_plan_def demo_funding_def clean_def ret_def Let_def bind_assoc)

lemma demo_wholesale_empty: "wholesale_empty demo_wholesale"
  by (simp add: wholesale_empty_def demo_wholesale_def)

lemma demo_claimed_step: "wholesale_step demo_wholesale demo_claimed"
  using wholesale_step.claim [OF demo_observation_ok demo_claim_run] by simp

section \<open>Properties\<close>

text \<open>C21. In every state the funding transactions reach from the initial budget, whatever the daemon
  and the brokers answer and wherever a transaction stops, the global budget row equals the operator's
  exposure: the credit observed at every active account plus every shortfall claimed and not yet
  acknowledged. Account identities, account keys and mint request IDs stay unique, and every funding
  refers to an account.\<close>

theorem exposure_budget_exact:
  assumes "wholesale_empty db0" and "wholesale_step\<^sup>*\<^sup>* db0 db"
  shows "(\<forall>b. global_budget db = Some b \<longrightarrow> eb_projected_available_wei b = exposure db) \<and>
    distinct (map account_identity (accounts db)) \<and> distinct (map wa_id (accounts db)) \<and>
    distinct (map wf_mint_request_id (fundings db)) \<and>
    (\<forall>f \<in> set (fundings db). wf_account_id f \<in> set (map wa_id (accounts db)))"
  using wholesale.inv_reachable [OF assms] by (simp add: wholesale_inv_def)

theorem exposure_budget_exact_witness: "exposure demo_claimed = 100"
proof -
  have "wholesale_step\<^sup>*\<^sup>* demo_wholesale demo_claimed" using demo_claimed_step by (rule r_into_rtranclp)
  from exposure_budget_exact [OF demo_wholesale_empty this] show ?thesis
    by (simp add: global_budget_def demo_claimed_def)
qed

text \<open>C22. A new claim stays within every operator limit: the shortfall is the target minus the observed
  credit and at most the single-funding limit; after the claim is durable the exposure at the payee and
  the total exposure are within their limits, and the stored claim carries the planned amounts.\<close>

theorem claim_within_limits:
  assumes run: "claim_account_funding ok nid route ob dmn plan limits mid cid pv (clean db) = (Inr (Some f), s')"
    and new: "find_funding db mid = None" and inv: "wholesale_inv db" and ob: "observation_ok ob"
  shows "0 < wf_requested_shortfall_wei f \<and>
    wf_requested_shortfall_wei f = wl_target_available_wei limits - ob_available_value_wei ob \<and>
    wf_requested_shortfall_wei f \<le> wl_max_single_funding_wei limits \<and>
    payee_exposure ob (durable s') \<le> wl_max_available_per_payee_wei limits \<and>
    exposure (durable s') \<le> wl_max_aggregate_available_wei limits \<and>
    find_funding (durable s') mid = Some f \<and> wf_status f = ''claimed'' \<and> wf_payment_bytes f = None"
  using run
proof (cases rule: claim_cases)
  case (claimed budget aid db1 snap)
  have dp: "domain_pattern dmn" using claimed(2) ob by (simp add: observation_ok_def)
  have f: "new_fundings aid mid cid plan snap = [f]" and nz: "wp_shortfall_wei plan \<noteq> 0"
    using claimed(8) by (auto simp: new_fundings_def split: if_splits)
  have f_eq: "f = claimed_funding aid mid cid plan snap" using f nz by (simp add: new_fundings_def)
  note pl = plan_Inr [OF claimed(4)]
  note cl = claimed_db [OF claimed(5) _ dp claimed(1) claimed(4) claimed(7)]
  have inv': "wholesale_inv (working (clean db))" using inv by simp
  have none: "find_funding db1 mid = None"
    using store_effect(3) [OF claimed(5) inv' dp] new by (simp add: find_funding_def)
  have "find_funding (durable s') mid = Some f"
    using none f by (simp add: claimed(7) find_funding_def find_append) (simp add: f_eq claimed_funding_def)
  then show ?thesis
    using pl cl(2,3) [OF inv'] nz by (auto simp: f_eq claimed_funding_def max_def split: if_splits)
qed (use new in auto)

theorem claim_within_limits_witness:
  "payee_exposure demo_observation demo_claimed \<le> 200 \<and> wf_requested_shortfall_wei demo_funding = 90"
  using claim_within_limits [OF demo_claim_run _ wholesale_inv_empty [OF demo_wholesale_empty] demo_observation_ok]
  by (simp add: find_funding_def demo_wholesale_def demo_limits_def demo_observation_def)

lemma store_observation_returns:
  assumes dp: "domain_pattern dmn" and fresh: "nid \<notin> set (map wa_id (accounts db))"
    and forward: "\<And>a. located ob dmn db = Some a \<Longrightarrow> wa_remote_version a \<le> ob_version ob"
  shows "\<exists>aid s1. store_observation nid route ob dmn pv (located ob dmn db) (clean db) = (Inr aid, s1)"
proof (cases "located ob dmn db")
  case None
  let ?row = "new_account nid ob dmn pv (sr_worker_url route)"
  have "account_identity ?row \<notin> set (map account_identity (accounts db))"
  proof
    assume "account_identity ?row \<in> set (map account_identity (accounts db))"
    then obtain a where "a \<in> set (accounts db)" "account_identity a = account_identity ?row" by auto
    then have "at_payee ob a" "wa_settlement_domain_id a = dmn"
      "wa_wholesale_account_id a = ob_wholesale_account_id ob" "a \<in> set (accounts db)"
      using domain_pattern_active [OF dp]
      by (auto simp: account_identity_def new_account_def at_payee_def active_def)
    then show False using None by (auto simp: located_def find_account_def find_None_iff)
  qed
  with None fresh show ?thesis
    by (simp add: store_observation_def Let_def ret_def new_account_def)
next
  case (Some a)
  with forward show ?thesis by (simp add: store_observation_def ret_def)
qed

lemma located_alt: "find_account (matching_payee_accounts (load_active_accounts db) ob) dmn ob = located ob dmn db"
  by (simp add: located_def matching_active)

lemma observed_plan_Inr:
  assumes "plan_observed_account_shortfall ob dmn limits db = (Inr plan, db')"
  shows "dmn \<noteq> []" and "ob_settlement_domain_id ob = dmn" and "global_budget db \<noteq> None"
    and "plan_account_shortfall ob
      (sel_exposure active db + (ob_available_value_wei ob - prior_available (located ob dmn db)))
      (Some (sel_exposure (at_payee ob) db + (ob_available_value_wei ob - prior_available (located ob dmn db)))) limits
      = Inr plan"
proof -
  have sums: "total_available (load_active_accounts db) + pending_account_funding db (load_active_accounts db)
      = sel_exposure active db"
    "total_available (matching_payee_accounts (load_active_accounts db) ob) +
       pending_account_funding db (matching_payee_accounts (load_active_accounts db) ob) = sel_exposure (at_payee ob) db"
    unfolding matching_active using exposure_sel [of active db] exposure_sel [of "at_payee ob" db]
    by (simp_all add: load_active)
  show "dmn \<noteq> []" and "ob_settlement_domain_id ob = dmn" and "global_budget db \<noteq> None"
    and "plan_account_shortfall ob
      (sel_exposure active db + (ob_available_value_wei ob - prior_available (located ob dmn db)))
      (Some (sel_exposure (at_payee ob) db + (ob_available_value_wei ob - prior_available (located ob dmn db)))) limits
      = Inr plan"
    using assms unfolding plan_observed_account_shortfall_def Let_def
    by (auto simp: located_alt sums require_settlement_domain_id_def require_observation_domain_def prior_available_def
        of_result_def algebra_simps split: if_splits option.splits)
qed

text \<open>C23. The plan computed before the lock is the plan computed under it: when nothing changed in
  between, the observation did not move backwards and the new account key is fresh, claiming the
  observed plan succeeds.\<close>

theorem observed_plan_is_claimable:
  assumes plan: "plan_observed_account_shortfall ob dmn limits db = (Inr plan, db')"
    and inv: "wholesale_inv db" and ob: "observation_ok ob" and new: "find_funding db mid = None"
    and snap: "snapshot_view route = Inr snap"
    and fresh: "nid \<notin> set (map wa_id (accounts db))"
    and forward: "\<And>a. located ob dmn db = Some a \<Longrightarrow> wa_remote_version a \<le> ob_version ob"
  shows "\<exists>fo s'. claim_account_funding True nid route ob dmn plan limits mid cid pv (clean db) = (Inr fo, s') \<and>
    exposure (durable s') = wp_projected_aggregate_available_wei plan"
proof -
  note pl = observed_plan_Inr [OF plan]
  have dp: "domain_pattern dmn" using pl(2) ob by (simp add: observation_ok_def)
  from store_observation_returns [OF dp fresh forward] obtain aid s1
    where st: "store_observation nid route ob dmn pv (located ob dmn db) (clean db) = (Inr aid, s1)" by blast
  have "\<exists>fo s'. claim_account_funding True nid route ob dmn plan limits mid cid pv (clean db) = (Inr fo, s')"
    using new pl snap
    by (auto simp: claim_account_funding_def Let_def located_alt require_settlement_domain_id_def
        require_observation_domain_def synchronized_alt ret_def
        bind_eq_Inr [of "store_observation nid route ob dmn pv (located ob dmn db)", OF st])
  then obtain fo s' where run: "claim_account_funding True nid route ob dmn plan limits mid cid pv (clean db) = (Inr fo, s')"
    by blast
  from run have "exposure (durable s') = wp_projected_aggregate_available_wei plan"
  proof (cases rule: claim_cases)
    case (claimed budget aid db1 snap)
    then show ?thesis using claimed_db(2) [OF claimed(5) _ dp claimed(1) claimed(4) claimed(7)] inv by simp
  qed (use new in auto)
  with run show ?thesis by blast
qed

theorem observed_plan_is_claimable_witness:
  "\<exists>fo s'. demo_claim (clean demo_wholesale) = (Inr fo, s') \<and> exposure (durable s') = 100"
proof -
  have plan: "plan_observed_account_shortfall demo_observation demo_domain demo_limits demo_wholesale =
      (Inr demo_plan, demo_wholesale)"
    using demo_domain_nonempty
    by (simp add: plan_observed_account_shortfall_def demo_wholesale_def require_settlement_domain_id_def
        require_observation_domain_def global_budget_def load_active_accounts_def matching_payee_accounts_def
        find_account_def total_available_def pending_account_funding_def plan_account_shortfall_def
        demo_observation_def demo_limits_def demo_plan_def of_result_def)
  have "wp_projected_aggregate_available_wei demo_plan = 100" by (simp add: demo_plan_def)
  with observed_plan_is_claimable [OF plan wholesale_inv_empty [OF demo_wholesale_empty] demo_observation_ok _
      demo_snapshot_ok, where mid = "''mint-1''" and nid = "''acct''" and cid = None and pv = "''wholesale-account/3.0.0-draft''"]
  show ?thesis by (simp add: find_funding_def demo_wholesale_def located_def find_account_def)
qed

lemma target_fits_iff: "target_fits_hard_limits l = Inr l \<longleftrightarrow>
    0 < wl_replenish_below_wei l \<and> wl_replenish_below_wei l \<le> wl_target_available_wei l \<and>
    wl_target_available_wei l \<le> wl_max_available_per_payee_wei l \<and>
    wl_target_available_wei l \<le> wl_max_aggregate_available_wei l \<and> 0 < wl_max_single_funding_wei l"
  by (auto simp: target_fits_hard_limits_def)

text \<open>Raising the refill floor for one admission never raises an exposure limit: the per-payee,
  aggregate and single-funding limits are untouched, the new target covers the reservation and still
  fits, and valid limits stay valid.\<close>

theorem admission_keeps_limits:
  assumes "admission_funding_limits limits required = Inr limits'"
  shows "wl_max_available_per_payee_wei limits' = wl_max_available_per_payee_wei limits \<and>
    wl_max_aggregate_available_wei limits' = wl_max_aggregate_available_wei limits \<and>
    wl_max_single_funding_wei limits' = wl_max_single_funding_wei limits \<and>
    required \<le> wl_target_available_wei limits' \<and> required \<le> wl_replenish_below_wei limits' \<and>
    (target_fits_hard_limits limits = Inr limits \<longrightarrow> target_fits_hard_limits limits' = Inr limits')"
proof -
  have "limits' = limits\<lparr>wl_target_available_wei := max (wl_target_available_wei limits) required,
      wl_replenish_below_wei := max (wl_replenish_below_wei limits) required\<rparr>" and "0 \<le> required"
    and "max (wl_target_available_wei limits) required \<le> wl_max_available_per_payee_wei limits"
    and "max (wl_target_available_wei limits) required \<le> wl_max_aggregate_available_wei limits"
    using assms by (auto simp: admission_funding_limits_def Let_def simp del: max.bounded_iff split: if_splits)
  then show ?thesis unfolding target_fits_iff by auto
qed

theorem admission_keeps_limits_witness:
  "\<exists>limits'. admission_funding_limits demo_limits 150 = Inr limits' \<and> 150 \<le> wl_target_available_wei limits' \<and>
     target_fits_hard_limits limits' = Inr limits'"
proof -
  have run: "admission_funding_limits demo_limits 150 =
      Inr (demo_limits\<lparr>wl_target_available_wei := 150, wl_replenish_below_wei := 150\<rparr>)"
    by (simp add: admission_funding_limits_def demo_limits_def)
  from admission_keeps_limits [OF run] run show ?thesis
    by (simp add: target_fits_hard_limits_def demo_limits_def)
qed

text \<open>A claim replays exactly: repeating it with the same arguments returns the same claim and
  changes nothing durable, so an interrupted caller can never mint twice for one request ID. Claiming the
  same ID for another route or another correlation is refused.\<close>

theorem claim_replays:
  assumes run: "claim_account_funding ok nid route ob dmn plan limits mid cid pv (clean db) = (Inr (Some f), s')"
    and new: "find_funding db mid = None" and inv: "wholesale_inv db" and ob: "observation_ok ob"
  shows "claim_account_funding True nid' route ob dmn plan limits' mid cid pv' (clean (durable s')) =
      (Inr (Some f), clean (durable s')) \<and>
    (cid' \<noteq> cid \<longrightarrow> (\<exists>e. claim_account_funding True nid' route ob dmn plan limits' mid cid' pv' (clean (durable s')) =
      (Inl e, clean (durable s'))))"
  using run
proof (cases rule: claim_cases)
  case (claimed budget aid db1 snap)
  have dp: "domain_pattern dmn" using claimed(2) ob by (simp add: observation_ok_def)
  have inv0: "wholesale_inv (working (clean db))" using inv by simp
  note eff = store_effect [OF claimed(5) inv0 dp]
  have nz: "wp_shortfall_wei plan \<noteq> 0" and f: "f = claimed_funding aid mid cid plan snap"
    using claimed(8) by (auto simp: new_fundings_def split: if_splits)
  have snap: "snapshot_view route = Inr snap" using claimed(9) nz by blast
  have "find_funding db1 mid = None" using eff(3) new by (simp add: find_funding_def)
  then have found: "find_funding (durable s') mid = Some f"
    using nz by (simp add: claimed(7) f new_fundings_def find_funding_def find_append)
      (simp add: claimed_funding_def)
  from eff(6) obtain a where a: "a \<in> set (accounts db1)" "wa_id a = aid"
    "account_matches a (ob\<lparr>ob_settlement_domain_id := dmn\<rparr>) dmn" by blast
  have "find (\<lambda>x. wa_id x = wa_id a) (accounts db1) = Some a" using find_key_unique [OF eff(1) a(1)] .
  then have "get_account (durable s') aid = Some a"
    by (simp add: claimed(7) get_account_def a(2))
  moreover have "account_matches a ob dmn" using a(3) claimed(2) by (simp add: account_matches_def)
  moreover have "dmn \<noteq> []" using dp by (auto simp: domain_pattern_def)
  ultimately show ?thesis
    using found snap claimed(2) plan_Inr(3) [OF claimed(4)]
    by (simp add: claim_account_funding_def require_settlement_domain_id_def require_observation_domain_def
        replay_claim_def ret_def f claimed_funding_def clean_def)
qed (use new in auto)

theorem claim_replays_witness:
  "demo_claim (clean demo_claimed) = (Inr (Some demo_funding), clean demo_claimed)"
  using claim_replays [OF demo_claim_run _ wholesale_inv_empty [OF demo_wholesale_empty] demo_observation_ok]
  by (simp add: find_funding_def demo_wholesale_def)

text \<open>C24. A funding only moves forward: across any sequence of transactions its account, amounts and
  route never change, it never goes back from minted or acknowledged, the stored payment bytes are never
  replaced, and an acknowledged credit is final.\<close>

theorem funding_moves_forward:
  assumes "wholesale_inv db" and "wholesale_step\<^sup>*\<^sup>* db db'" and "find_funding db mid = Some f"
  shows "\<exists>g. find_funding db' mid = Some g \<and> funding_le f g"
  using funding_rows.row_star [OF assms(2,1), of mid f] assms(3) find_funding_ok [OF assms(1,3)] funding_le_refl
  by (auto split: option.splits if_splits)

theorem funding_moves_forward_witness:
  "\<exists>g. find_funding demo_claimed ''mint-1'' = Some g \<and> wf_requested_shortfall_wei g = 90"
proof -
  have inv: "wholesale_inv demo_claimed"
    using wholesale_step_inv [OF demo_claimed_step wholesale_inv_empty [OF demo_wholesale_empty]] .
  have f: "find_funding demo_claimed ''mint-1'' = Some demo_funding"
    by (simp add: find_funding_def demo_claimed_def demo_funding_def claimed_funding_def)
  from funding_moves_forward [OF inv rtranclp.rtrancl_refl f] show ?thesis
    by (auto simp: funding_le_def demo_funding_def claimed_funding_def demo_plan_def)
qed

lemma mint_step_request:
  assumes "mint_step route ob plan payer create_payment funding s = (Inr minted, s')" and "wf_status funding = ''claimed''"
  obtains q p where "create_account_funding_request route ob plan (wf_mint_request_id funding) = Inr q"
    "create_payment q = Inr p" "validate_funding_response q p = Inr p" "address_of_bytes (pp_sender p) = payer"
    "record_minted_funding (wf_mint_request_id funding) p s = (Inr minted, s')"
proof -
  have same: "validate_funding_response q p = Inr p' \<Longrightarrow> p' = p" for q p p'
    by (auto simp: validate_funding_response_def Let_def split: if_splits)
  from assms obtain q p p' where "create_account_funding_request route ob plan (wf_mint_request_id funding) = Inr q"
    "create_payment q = Inr p" "validate_funding_response q p = Inr p'" "address_of_bytes (pp_sender p') = payer"
    "record_minted_funding (wf_mint_request_id funding) p' s = (Inr minted, s')"
    by (auto simp: mint_step_def split: if_splits sum.splits)
  with same that show thesis by metis
qed

text \<open>What the mint step of a completion leaves for the acknowledgement: the claim with its payment, either minted
  now for the shortfall the claim asked for, or the one stored before.\<close>

lemma mint_step_leaves:
  assumes run: "mint_step route ob plan payer create_payment funding (clean db) = (Inr minted, s1)"
    and row: "find_funding db (wf_mint_request_id funding) = Some funding" and bytes: "wf_payment_bytes minted = Some payment"
  shows "find_funding (working s1) (wf_mint_request_id funding) = Some minted"
    and "minted = funding\<lparr>wf_payment_bytes := Some payment, wf_minted_expected_value_wei := wf_minted_expected_value_wei minted,
      wf_work_id := wf_work_id minted, wf_status := wf_status minted\<rparr>"
    and "if wf_status funding = ''claimed''
      then \<exists>q p. create_account_funding_request route ob plan (wf_mint_request_id funding) = Inr q \<and> create_payment q = Inr p \<and>
        validate_funding_response q p = Inr p \<and> address_of_bytes (pp_sender p) = payer \<and> payment = pp_payment_bytes p \<and>
        wf_minted_expected_value_wei minted = pp_expected_value p \<and> pp_expected_value p = wf_requested_shortfall_wei funding
      else minted = funding"
proof -
  have "find_funding (working s1) (wf_mint_request_id funding) = Some minted \<and>
    minted = funding\<lparr>wf_payment_bytes := Some payment, wf_minted_expected_value_wei := wf_minted_expected_value_wei minted,
      wf_work_id := wf_work_id minted, wf_status := wf_status minted\<rparr> \<and>
    (if wf_status funding = ''claimed''
      then \<exists>q p. create_account_funding_request route ob plan (wf_mint_request_id funding) = Inr q \<and> create_payment q = Inr p \<and>
        validate_funding_response q p = Inr p \<and> address_of_bytes (pp_sender p) = payer \<and> payment = pp_payment_bytes p \<and>
        wf_minted_expected_value_wei minted = pp_expected_value p \<and> pp_expected_value p = wf_requested_shortfall_wei funding
      else minted = funding)"
  proof (cases "wf_status funding = ''claimed''")
    case True
    obtain q p where p: "create_account_funding_request route ob plan (wf_mint_request_id funding) = Inr q"
      "create_payment q = Inr p" "validate_funding_response q p = Inr p" "address_of_bytes (pp_sender p) = payer"
      "record_minted_funding (wf_mint_request_id funding) p (clean db) = (Inr minted, s1)"
      using mint_step_request [OF run True] .
    from p(5) show ?thesis
    proof (cases rule: mint_cases)
      case (minted f)
      with row have f: "f = funding" by simp
      with minted(4) have m: "minted = minted_funding p funding" by simp
      have "find_funding (working s1) (wf_mint_request_id funding) = Some minted"
        using replace_funding_find [of "minted_funding p funding" "wf_mint_request_id funding" db] row minted(5) m f
        by (simp add: minted_funding_def)
      moreover have "payment = pp_payment_bytes p" using bytes m by (simp add: minted_funding_def)
      moreover have "minted = funding\<lparr>wf_payment_bytes := Some payment, wf_minted_expected_value_wei := wf_minted_expected_value_wei minted,
          wf_work_id := wf_work_id minted, wf_status := wf_status minted\<rparr>"
        using bytes unfolding m by (intro wholesale_funding.equality) (simp_all add: minted_funding_def)
      moreover have "wf_minted_expected_value_wei minted = pp_expected_value p" "pp_expected_value p = wf_requested_shortfall_wei funding"
        using minted(2) m f by (simp_all add: minted_funding_def)
      ultimately show ?thesis using True p(1-4) by auto
    qed simp
  next
    case False
    with run have "minted = funding" "s1 = clean db" by (auto simp: mint_step_def ret_def)
    moreover from this bytes have "minted = funding\<lparr>wf_payment_bytes := Some payment,
        wf_minted_expected_value_wei := wf_minted_expected_value_wei minted, wf_work_id := wf_work_id minted,
        wf_status := wf_status minted\<rparr>"
      by (intro wholesale_funding.equality) simp_all
    ultimately show ?thesis using False row by auto
  qed
  then show "find_funding (working s1) (wf_mint_request_id funding) = Some minted"
    and "minted = funding\<lparr>wf_payment_bytes := Some payment, wf_minted_expected_value_wei := wf_minted_expected_value_wei minted,
      wf_work_id := wf_work_id minted, wf_status := wf_status minted\<rparr>"
    and "if wf_status funding = ''claimed''
      then \<exists>q p. create_account_funding_request route ob plan (wf_mint_request_id funding) = Inr q \<and> create_payment q = Inr p \<and>
        validate_funding_response q p = Inr p \<and> address_of_bytes (pp_sender p) = payer \<and> payment = pp_payment_bytes p \<and>
        wf_minted_expected_value_wei minted = pp_expected_value p \<and> pp_expected_value p = wf_requested_shortfall_wei funding
      else minted = funding"
    by blast+
qed

text \<open>C25. When completion returns for a claim that was not yet acknowledged, that claim, found under its own mint
  request id, is durably acknowledged, and nothing else of its row changed: its payment is the one the payer
  minted now for exactly the requested shortfall, or the one stored before; the broker was given that payment, answered
  with its receipt and credited exactly the minted value, at least the shortfall; and the claim's account shows
  what the broker was observed to have afterwards.\<close>

theorem completion_acknowledges:
  assumes run: "complete_account_funding sha (Some funding) route ob dmn plan payer create_payment fund
      get_after at (clean db) = (Inr (), s')"
    and status: "wf_status funding \<noteq> ''acknowledged''"
    and row: "find_funding db (wf_mint_request_id funding) = Some funding"
  shows "\<exists>g payment result after.
     find_funding (durable s') (wf_mint_request_id funding) = Some g \<and> durable s' = working s' \<and>
     g = funding\<lparr>wf_payment_bytes := Some payment, wf_minted_expected_value_wei := wf_minted_expected_value_wei g,
       wf_work_id := wf_work_id g, wf_status := ''acknowledged'', wf_credited_value_wei := Some (wf_minted_expected_value_wei g),
       wf_account_version := Some (fr_account_version result), wf_acknowledged_at := Some at\<rparr> \<and>
     (if wf_status funding = ''claimed''
      then \<exists>q p. create_account_funding_request route ob plan (wf_mint_request_id funding) = Inr q \<and> create_payment q = Inr p \<and>
        validate_funding_response q p = Inr p \<and> address_of_bytes (pp_sender p) = payer \<and> payment = pp_payment_bytes p \<and>
        wf_minted_expected_value_wei g = pp_expected_value p \<and> pp_expected_value p = wf_requested_shortfall_wei funding
      else wf_payment_bytes funding = Some payment \<and> wf_minted_expected_value_wei g = wf_minted_expected_value_wei funding) \<and>
     fund payment = Inr result \<and> fr_funding_id result = sha payment \<and>
     fr_credited_value_wei result = wf_minted_expected_value_wei g \<and>
     wf_requested_shortfall_wei funding \<le> wf_minted_expected_value_wei g \<and> get_after = Inr after \<and>
     (\<exists>a. get_account (durable s') (wf_account_id funding) = Some a \<and>
        wa_available_value_wei a = ob_available_value_wei after \<and> wa_remote_version a = ob_version after)"
  using run
proof (cases rule: complete_cases)
  case kept
  with status show ?thesis by auto
next
  case (acked funding0 minted s1 payment result after r2)
  then have r2: "\<exists>g. r2 = Inr g" and same: "funding0 = funding" by (auto split: sum.splits)
  note left = mint_step_leaves [OF acked(2) [unfolded same] row acked(3)]
  have mid: "wf_mint_request_id minted = wf_mint_request_id funding" "wf_account_id minted = wf_account_id funding"
    "wf_requested_shortfall_wei minted = wf_requested_shortfall_wei funding"
    "wf_correlation_id minted = wf_correlation_id funding" "wf_target_available_wei minted = wf_target_available_wei funding"
    "wf_observed_available_wei minted = wf_observed_available_wei funding" "wf_route_snapshot minted = wf_route_snapshot funding"
    by (subst left(2), simp)+
  from acked(6) show ?thesis
  proof (cases rule: ack_cases)
    case ack: (acked f a b pay)
    have f: "f = minted" using ack(1) left(1) mid(1) by simp
    let ?g = "acked_funding result at minted"
    have g: "wf_mint_request_id ?g = wf_mint_request_id minted" by (simp add: acked_funding_def)
    have found: "find_funding (durable s') (wf_mint_request_id funding) = Some ?g"
      unfolding mid(1) [symmetric] ack(18,19) f replace_funding_find [OF g]
      using ack(1) by (simp add: find_funding_def replace_account_def f)
    have credited: "fr_credited_value_wei result = wf_minted_expected_value_wei minted" using ack(13) f by simp
    have shape: "?g = funding\<lparr>wf_payment_bytes := Some payment, wf_minted_expected_value_wei := wf_minted_expected_value_wei ?g,
       wf_work_id := wf_work_id ?g, wf_status := ''acknowledged'', wf_credited_value_wei := Some (wf_minted_expected_value_wei ?g),
       wf_account_version := Some (fr_account_version result), wf_acknowledged_at := Some at\<rparr>"
      using mid acked(3) credited by (intro wholesale_funding.equality) (simp_all add: acked_funding_def)
    have "pay = payment" using ack(2) acked(3) f by simp
    moreover have "\<exists>a'. get_account (durable s') (wf_account_id funding) = Some a' \<and>
        wa_available_value_wei a' = ob_available_value_wei after \<and> wa_remote_version a' = ob_version after"
    proof -
      have a: "get_account (working s1) (wf_account_id funding) = Some a" "wa_id a = wf_account_id funding"
        using ack(3) f mid(2) get_account_in [of "working s1" "wf_account_id funding" a] by simp_all
      have "get_account (durable s') (wf_account_id funding) = Some (acked_account after a)"
        unfolding ack(18,19)
        using a find_update_where_same [of "\<lambda>x. wa_id x = wf_account_id funding" "\<lambda>_. acked_account after a"]
        by (simp add: get_account_def replace_account_def replace_funding_def set_budget_def acked_account_def observed_account_def)
      then show ?thesis by (simp add: acked_account_def observed_account_def)
    qed
    ultimately show ?thesis
      using found shape ack(12,14,18) credited left(3) acked(3-5) mid(3) f
      by (intro exI [of _ ?g] exI [of _ payment] exI [of _ result] exI [of _ after])
         (auto simp: acked_funding_def)
  qed (use r2 in auto)
qed auto

abbreviation demo_sha :: "bytes \<Rightarrow> string" where
  "demo_sha \<equiv> (\<lambda>_. replicate 64 (CHR ''a''))"

definition demo_mint :: create_payment_response where
  "demo_mint = \<lparr>pp_payment_bytes = [1, 2], pp_sender = replicate 20 17, pp_tickets_created = 1,
     pp_expected_value = 90, pp_funded_value_wei = 90,
     pp_accepted_quote_ref = \<lparr>qr_quote_id = ''q1'', qr_quote_version = 1, qr_constraint_fingerprint = [],
       qr_route_fingerprint = []\<rparr>,
     pp_work_id = ''w'', pp_predecessor_work_id = [], pp_account_shortfall_wei = Some 90\<rparr>"

definition demo_result :: wholesale_funding_result where
  "demo_result = \<lparr>fr_payer = demo_address, fr_payee = demo_address, fr_wholesale_account_id = ''loc'',
     fr_settlement_domain_id = demo_domain, fr_credited_value_wei = 90, fr_available_value_wei = 100,
     fr_account_version = 2, fr_replayed = False, fr_funding_id = replicate 64 (CHR ''a'')\<rparr>"

definition demo_after :: wholesale_account_observation where
  "demo_after = demo_observation\<lparr>ob_credited_value_wei := 100, ob_available_value_wei := 100, ob_version := 2\<rparr>"

lemma demo_recipient: "fromhex (removeprefix_0x (sr_eth_address demo_route)) = Some (replicate 20 17)"
  "lower (sr_eth_address demo_route) = demo_address"
  by code_simp+

lemma demo_payer: "address_of_bytes (replicate 20 17) = demo_address"
  by code_simp

lemma demo_complete_run:
  "\<exists>s'. complete_account_funding demo_sha (Some demo_funding) demo_route demo_observation demo_domain demo_plan
     demo_address (\<lambda>_. Inr demo_mint) (\<lambda>_. Inr demo_result) (Inr demo_after) 7 (clean demo_claimed) = (Inr (), s')"
  using demo_recipient demo_payer demo_domain_nonempty
  by (simp add: complete_account_funding_def mint_step_def create_account_funding_request_def
      record_minted_funding_def validate_funding_response_def acknowledge_account_funding_def
      acknowledged_credit_def require_settlement_domain_id_def require_observation_domain_def
      demo_funding_def claimed_funding_def demo_claimed_def demo_wholesale_def get_account_def find_funding_def
      new_account_def account_matches_def demo_observation_def demo_after_def demo_plan_def demo_mint_def
      demo_result_def global_budget_def bind_assoc Let_def ret_def) (simp add: demo_route_def)

theorem completion_acknowledges_witness:
  "\<exists>s' g. complete_account_funding demo_sha (Some demo_funding) demo_route demo_observation demo_domain demo_plan
     demo_address (\<lambda>_. Inr demo_mint) (\<lambda>_. Inr demo_result) (Inr demo_after) 7 (clean demo_claimed) = (Inr (), s') \<and>
     find_funding (durable s') (wf_mint_request_id demo_funding) = Some g \<and>
     wf_status g = ''acknowledged'' \<and> wf_credited_value_wei g = Some 90"
proof -
  obtain s' where run: "complete_account_funding demo_sha (Some demo_funding) demo_route demo_observation demo_domain demo_plan
     demo_address (\<lambda>_. Inr demo_mint) (\<lambda>_. Inr demo_result) (Inr demo_after) 7 (clean demo_claimed) = (Inr (), s')"
    using demo_complete_run by blast
  have "wf_status demo_funding \<noteq> ''acknowledged''"
    "find_funding demo_claimed (wf_mint_request_id demo_funding) = Some demo_funding"
    by (simp_all add: demo_funding_def claimed_funding_def find_funding_def demo_claimed_def)
  from completion_acknowledges [OF run this] obtain g payment result after where
    g: "find_funding (durable s') (wf_mint_request_id demo_funding) = Some g"
    "g = demo_funding\<lparr>wf_payment_bytes := Some payment, wf_minted_expected_value_wei := wf_minted_expected_value_wei g,
       wf_work_id := wf_work_id g, wf_status := ''acknowledged'', wf_credited_value_wei := Some (wf_minted_expected_value_wei g),
       wf_account_version := Some (fr_account_version result), wf_acknowledged_at := Some 7\<rparr>"
    "Inr demo_result = (Inr result :: error + wholesale_funding_result)"
    "fr_credited_value_wei result = wf_minted_expected_value_wei g" by blast
  from g(3) have "fr_credited_value_wei result = 90" by (auto simp: demo_result_def)
  with g(4) have "wf_minted_expected_value_wei g = 90" by (simp only:)
  moreover have "wf_status g = ''acknowledged''" "wf_credited_value_wei g = Some (wf_minted_expected_value_wei g)"
    by (subst g(2), simp)+
  ultimately show ?thesis using run g(1) by metis
qed

lemma truncate_frames [simp]:
  "billing_db.truncate (replace_funding mid f db) = billing_db.truncate db"
  "billing_db.truncate (replace_account a b db) = billing_db.truncate db"
  "billing_db.truncate (set_budget v db) = billing_db.truncate db"
  by (simp_all add: billing_db.truncate_def replace_funding_def replace_account_def set_budget_def)

lemma mint_isolated:
  assumes "record_minted_funding mid p s = (r, s')"
  shows "billing_db.truncate (working s') = billing_db.truncate (working s) \<and>
    billing_db.truncate (durable s') \<in> {billing_db.truncate (durable s), billing_db.truncate (working s)}"
  using assms by (cases rule: mint_cases) auto

lemma ack_isolated:
  assumes "acknowledge_account_funding sha mid result ob dmn at s = (r, s')"
  shows "billing_db.truncate (durable s') \<in> {billing_db.truncate (durable s), billing_db.truncate (working s)}"
  using assms by (cases rule: ack_cases) auto

lemma mint_step_isolated:
  assumes "mint_step route ob plan payer create_payment funding (clean db) = (r, s')"
  shows "billing_db.truncate (working s') = billing_db.truncate db \<and>
    billing_db.truncate (durable s') = billing_db.truncate db"
  using assms
proof (cases rule: mint_step_cases)
  case (minted p)
  from mint_isolated [OF minted(3)] show ?thesis by simp
qed simp

lemma wholesale_step_isolated:
  assumes "wholesale_step db db'" and inv: "wholesale_inv db"
  shows "billing_db.truncate db' = billing_db.truncate db"
  using assms(1)
proof (cases rule: wholesale_step.cases)
  case (claim ob ok nid route dmn plan limits mid cid pv r s')
  from claim(3) show ?thesis
  proof (cases rule: claim_cases)
    case (claimed budget aid db1 snap)
    have dp: "domain_pattern dmn" using claimed(2) claim(2) by (simp add: observation_ok_def)
    from claimed_db(4) [OF claimed(5) _ dp claimed(1) claimed(4) claimed(7)] inv claim(1)
    show ?thesis by simp
  qed (use claim(1) in auto)
next
  case (mint mid p r s')
  with mint_isolated [OF mint(2)] show ?thesis by simp
next
  case (acknowledge ob sha mid result dmn at r s')
  with ack_isolated [OF acknowledge(3)] show ?thesis by simp
next
  case (complete get_after sha fo route ob dmn plan payer create_payment fund at r s')
  from complete(3) show ?thesis
  proof (cases rule: complete_cases)
    case (minted funding r1)
    with mint_step_isolated [OF minted(2)] complete(1) show ?thesis by simp
  next
    case (acked funding f1 s1 payment result after r2)
    with mint_step_isolated [OF acked(2)] ack_isolated [OF acked(6)] complete(1) show ?thesis by simp
  qed (use complete(1) in simp)
qed

text \<open>Wholesale funding never touches a customer: no sequence of transactions of this domain, on
  any branch, changes a balance, a ledger row, a top-up, a spend window or a billing configuration.\<close>

theorem wholesale_isolated:
  assumes "wholesale_inv db" and "wholesale_step\<^sup>*\<^sup>* db db'"
  shows "billing_db.truncate db' = billing_db.truncate db"
  using assms(2,1)
proof (induction rule: rtranclp_induct)
  case (step y z)
  then show ?case using wholesale_step_isolated wholesale.inv_star by metis
qed simp

theorem wholesale_isolated_witness:
  "ledger demo_claimed = ledger demo_wholesale \<and> balances demo_claimed = balances demo_wholesale"
proof -
  have "billing_db.truncate demo_claimed = billing_db.truncate demo_wholesale"
    using wholesale_isolated [OF wholesale_inv_empty [OF demo_wholesale_empty] r_into_rtranclp]
      demo_claimed_step by blast
  then show ?thesis by (simp add: billing_db.truncate_def)
qed

end
