(* ===== verification/Settlement.thy ===== *)
theory Settlement
  imports Broker
begin

text \<open>
  Verification of broker-signed settlement and non-admission envelopes
  (\<open>providers/settlement_verification.py\<close>). What the module takes from other packages is the record
  \<open>verifier\<close>: the canonical JSON encoding, public-key recovery over the prefixed message, protobuf
  parsing of a payload and \<open>datetime.fromisoformat\<close>. A parsed record has the fields of the protobuf
  message: absent strings are empty, big integers are their bytes, an outcome is its name.
\<close>

section \<open>Records\<close>

record settlement_record =
  st_wholesale_account_id :: string
  st_settlement_domain_id :: string
  st_request_id :: string
  st_job_id :: string
  st_gateway_session_id :: string
  st_session_id :: string
  st_work_id :: string
  st_predecessor_work_id :: string
  st_rotation_generation :: int
  st_work_unit_name :: string
  st_actual_units :: int
  st_billed_units :: int
  st_claimed_units :: int
  st_debited_units :: int
  st_generation_debited_units :: int
  st_payment_cumulative_units :: int
  st_accepted_quote_ref :: quote_ref
  st_amount_wei :: bytes
  st_per_units :: int
  st_billed_value_wei :: bytes
  st_funded_value_wei :: bytes
  st_generation_billed_value_wei :: bytes
  st_authorization_id :: string
  st_authorized_value_wei :: bytes
  st_reserved_value_wei :: bytes
  st_released_value_wei :: bytes
  st_settlement_seq :: int
  st_state :: string
  st_outcome :: string
  st_breakdown :: "(string \<times> string) list"

record non_admission_record =
  na_outcome :: string
  na_wholesale_account_id :: string
  na_settlement_domain_id :: string
  na_protocol :: string
  na_request_id :: string
  na_work_id :: string
  na_sender :: bytes
  na_recipient :: bytes
  na_accepted_quote_ref :: quote_ref
  na_broker_eth_address :: string
  na_observed_at :: string
  na_coverage_started_at :: string

record verifier =
  vf_jcs :: "(string \<times> json) list \<Rightarrow> bytes option"
  vf_recover :: "bytes \<Rightarrow> bytes \<Rightarrow> bytes option"
  vf_fromisoformat :: "string \<Rightarrow> datetime option"
  vf_parse_record :: "(string \<times> json) list \<Rightarrow> settlement_record option"
  vf_parse_non_admission :: "(string \<times> json) list \<Rightarrow> non_admission_record option"

text \<open>
  A pinned delegation: its \<open>public_key\<close> entry, and \<open>str(...)\<close> of its two dates, \<open>None\<close> when the
  entry is missing.
\<close>

record delegation =
  dg_public_key :: "json option"
  dg_not_before :: "string option"
  dg_expires_at :: "string option"

record job_settlement_expectation =
  je_wholesale_account_id :: string
  je_settlement_domain_id :: string
  je_request_id :: string
  je_job_id :: string
  je_work_id :: string
  je_work_unit :: string
  je_actual_units :: int
  je_max_total_units :: int
  je_funded_value_wei :: wei
  je_amount_wei :: wei
  je_per_units :: int
  je_quote_ref :: quote_ref
  je_authorization_id :: "string option"
  je_authorized_value_wei :: "wei option"

record verified_job_settlement =
  vj_actual_units :: int
  vj_billed_value_wei :: wei
  vj_outcome :: string
  vj_issued_at :: timestamp
  vj_signing_public_key :: string

record non_admission_expectation =
  ne_wholesale_account_id :: string
  ne_settlement_domain_id :: string
  ne_protocol :: string
  ne_request_id :: string
  ne_work_id :: string
  ne_sender :: bytes
  ne_recipient :: bytes
  ne_quote_ref :: quote_ref
  ne_broker_eth_address :: string
  ne_job_issued_at :: datetime

record verified_non_admission =
  vn_observed_at :: timestamp
  vn_coverage_started_at :: timestamp
  vn_signing_public_key :: string

record session_settlement_expectation =
  se_wholesale_account_id :: string
  se_settlement_domain_id :: string
  se_gateway_session_id :: string
  se_broker_session_id :: "string option"
  se_work_id :: string
  se_predecessor_work_id :: string
  se_rotation_generation :: int
  se_work_unit :: string
  se_amount_wei :: wei
  se_per_units :: int
  se_quote_ref :: quote_ref
  se_funded_value_wei :: wei
  se_last_settlement_seq :: int
  se_authorization_id :: "string option"
  se_authorized_value_wei :: "wei option"
  se_require_terminal :: bool

record verified_session_settlement =
  vs_broker_session_id :: string
  vs_work_id :: string
  vs_predecessor_work_id :: string
  vs_rotation_generation :: int
  vs_settlement_seq :: int
  vs_state :: string
  vs_claimed_units :: int
  vs_debited_units :: int
  vs_billed_value_wei :: wei
  vs_outcome :: string
  vs_issued_at :: timestamp
  vs_signing_public_key :: string
  vs_termination_reason :: "string option"
  vs_output_state :: "string option"
  vs_output_state_since :: "timestamp option"
  vs_last_failure_code :: "string option"

section \<open>Building blocks\<close>

definition fail_if :: "bool \<Rightarrow> string \<Rightarrow> error + unit" where
  "fail_if bad code = (if bad then Inl (SettlementVerificationError code) else Inr ())"

lemma fail_if_Inr [simp]: "fail_if bad code = Inr u \<longleftrightarrow> \<not> bad"
  by (simp add: fail_if_def)

definition big :: "bytes \<Rightarrow> wei" where
  "big raw = int (from_bytes_big raw)"

lemma big_nonneg [simp]: "0 \<le> big raw"
  by (simp add: big_def)

definition bill :: "int \<Rightarrow> wei \<Rightarrow> int \<Rightarrow> error + wei" where
  "bill units amount_wei per_units =
     (if units < 0 \<or> amount_wei < 0 \<or> per_units \<le> 0
      then Inl (SettlementVerificationError ''invalid_pricing'')
      else Inr ((units * amount_wei + per_units - 1) div per_units))"

definition canonicalize :: "verifier \<Rightarrow> (string \<times> json) list \<Rightarrow> error + bytes" where
  "canonicalize v payload =
     (case vf_jcs v payload of
        None \<Rightarrow> Inl (SettlementVerificationError ''invalid_canonical_payload'')
      | Some bs \<Rightarrow> Inr bs)"

definition ascii_bytes :: "string \<Rightarrow> bytes" where
  "ascii_bytes s = map (\<lambda>c. word_of_nat (of_char c)) s"

definition recover_public_key :: "verifier \<Rightarrow> bytes \<Rightarrow> json option \<Rightarrow> error + string" where
  "recover_public_key v canonical value =
     (case value of
        Some (JStr s) \<Rightarrow>
          if take 2 s \<noteq> ''0x'' then Inl (SettlementVerificationError ''malformed_signature'')
          else case fromhex (drop 2 s) of
            None \<Rightarrow> Inl (SettlementVerificationError ''malformed_signature'')
          | Some raw \<Rightarrow>
              if length raw \<noteq> 65 \<or> raw ! 64 \<notin> {27, 28}
              then Inl (SettlementVerificationError ''malformed_signature'')
              else
                let signature = raw[64 := raw ! 64 - 27];
                    prefix = (25 :: byte) # ascii_bytes (''Ethereum Signed Message:'' @ [CHR 0x0A] @
                               str_nat (length canonical))
                in (case vf_recover v (prefix @ canonical) signature of
                      None \<Rightarrow> Inl (SettlementVerificationError ''invalid_signature'')
                    | Some key \<Rightarrow> Inr (''0x04'' @ hex key))
      | _ \<Rightarrow> Inl (SettlementVerificationError ''malformed_signature''))"

text \<open>\<open>value.replace("Z", "+00:00")\<close>.\<close>

definition replace_Z :: "string \<Rightarrow> string" where
  "replace_Z s = concat (map (\<lambda>c. if c = CHR ''Z'' then ''+00:00'' else [c]) s)"

definition parse_timestamp :: "verifier \<Rightarrow> json option \<Rightarrow> string \<Rightarrow> error + timestamp" where
  "parse_timestamp v value field =
     (case value of
        Some (JStr s) \<Rightarrow>
          if s = [] then Inl (SettlementVerificationError (''missing_'' @ field))
          else case vf_fromisoformat v (replace_Z s) of
            None \<Rightarrow> Inl (SettlementVerificationError (''invalid_'' @ field))
          | Some (Naive _) \<Rightarrow> Inl (SettlementVerificationError (''invalid_'' @ field))
          | Some (Aware t) \<Rightarrow> Inr t
      | _ \<Rightarrow> Inl (SettlementVerificationError (''missing_'' @ field)))"

definition parse_issued_at :: "verifier \<Rightarrow> json option \<Rightarrow> error + timestamp" where
  "parse_issued_at v value = parse_timestamp v value ''issued_at''"

definition delegation_date :: "verifier \<Rightarrow> string option \<Rightarrow> error + datetime" where
  "delegation_date v value =
     (case value of
        None \<Rightarrow> Inl (SettlementVerificationError ''invalid_delegation'')
      | Some s \<Rightarrow>
          (case vf_fromisoformat v (replace_Z s) of
             None \<Rightarrow> Inl (SettlementVerificationError ''invalid_delegation'')
           | Some d \<Rightarrow> Inr d))"

fun authorize_key :: "verifier \<Rightarrow> string \<Rightarrow> timestamp \<Rightarrow> delegation list \<Rightarrow> error + unit" where
  "authorize_key v public_key issued_at [] =
     Inl (SettlementVerificationError ''unauthorized_signing_key'')"
| "authorize_key v public_key issued_at (d # ds) =
     (if dg_public_key d \<noteq> Some (JStr public_key) then authorize_key v public_key issued_at ds
      else
        bind_r (delegation_date v (dg_not_before d)) (\<lambda>not_before.
        bind_r (delegation_date v (dg_expires_at d)) (\<lambda>expires_at.
        bind_r (datetime_le not_before (Aware issued_at)) (\<lambda>started.
        if \<not> started then authorize_key v public_key issued_at ds
        else
          bind_r (datetime_le (Aware issued_at) expires_at) (\<lambda>valid.
          if valid then Inr () else authorize_key v public_key issued_at ds)))))"

definition parse_record :: "verifier \<Rightarrow> (string \<times> json) list \<Rightarrow> error + settlement_record" where
  "parse_record v payload =
     (case vf_parse_record v payload of
        None \<Rightarrow> Inl (SettlementVerificationError ''malformed_payload'')
      | Some r \<Rightarrow> Inr r)"

definition parse_non_admission_record ::
  "verifier \<Rightarrow> (string \<times> json) list \<Rightarrow> error + non_admission_record" where
  "parse_non_admission_record v payload =
     (case vf_parse_non_admission v payload of
        None \<Rightarrow> Inl (SettlementVerificationError ''malformed_payload'')
      | Some r \<Rightarrow> Inr r)"

text \<open>The payload and signature objects of an envelope with the one supported scheme.\<close>

definition envelope_parts ::
  "(string \<times> json) list \<Rightarrow> error + ((string \<times> json) list \<times> (string \<times> json) list)" where
  "envelope_parts env =
     (case (json_get env ''payload'', json_get env ''signature'') of
        (Some (JObj payload), Some (JObj signature)) \<Rightarrow>
          if json_get signature ''algorithm'' \<noteq> Some (JStr ''secp256k1'') \<or>
             json_get signature ''canonicalization'' \<noteq> Some (JStr ''jcs'')
          then Inl (SettlementVerificationError ''unsupported_signature'')
          else Inr (payload, signature)
      | _ \<Rightarrow> Inl (SettlementVerificationError ''malformed_envelope''))"

definition verify_envelope ::
  "verifier \<Rightarrow> (string \<times> json) list \<Rightarrow> delegation list \<Rightarrow>
   error + (settlement_record \<times> timestamp \<times> string)" where
  "verify_envelope v env keys =
     bind_r (envelope_parts env) (\<lambda>(payload, signature).
     bind_r (canonicalize v payload) (\<lambda>canonical.
     bind_r (recover_public_key v canonical (json_get signature ''value'')) (\<lambda>public_key.
     bind_r (parse_issued_at v (json_get payload ''issued_at'')) (\<lambda>issued_at.
     bind_r (authorize_key v public_key issued_at keys) (\<lambda>_.
     bind_r (parse_record v payload) (\<lambda>record.
     Inr (record, issued_at, public_key)))))))"

definition reject_failed_debit :: "settlement_record \<Rightarrow> error + unit" where
  "reject_failed_debit record = fail_if (st_outcome record = ''DEBIT_FAILED'') ''debit_failed''"

definition verify_settlement_domain :: "string \<Rightarrow> string \<Rightarrow> error + unit" where
  "verify_settlement_domain recorded expected =
     fail_if (expected = [] \<or> recorded \<noteq> expected) ''settlement_domain_mismatch''"

definition verify_authorization_accounting ::
  "settlement_record \<Rightarrow> string option \<Rightarrow> wei option \<Rightarrow> wei \<Rightarrow> error + unit" where
  "verify_authorization_accounting record authorization_id authorized_value_wei billed_value_wei =
     (case authorization_id of
        None \<Rightarrow> fail_if (st_authorization_id record \<noteq> []) ''unexpected_authorization''
      | Some aid \<Rightarrow>
          bind_r (fail_if (st_authorization_id record \<noteq> aid \<or> st_work_id record \<noteq> aid)
                    ''authorization_id_mismatch'') (\<lambda>_.
          case authorized_value_wei of
            None \<Rightarrow> Inl (SettlementVerificationError ''missing_authorization_ceiling'')
          | Some authorized \<Rightarrow>
              let signed_authorized = big (st_authorized_value_wei record);
                  reserved = big (st_reserved_value_wei record);
                  released = big (st_released_value_wei record)
              in bind_r (fail_if (signed_authorized \<noteq> authorized) ''authorization_ceiling_mismatch'') (\<lambda>_.
                 fail_if (signed_authorized < billed_value_wei \<or> signed_authorized < reserved \<or>
                          signed_authorized < released \<or>
                          signed_authorized < billed_value_wei + released)
                   ''authorization_accounting_invalid'')))"

section \<open>Jobs\<close>

definition job_normative_bill ::
  "settlement_record \<Rightarrow> job_settlement_expectation \<Rightarrow> error + wei" where
  "job_normative_bill record expected =
     (let cumulative_units = st_payment_cumulative_units record
      in case je_authorization_id expected of
           Some _ \<Rightarrow>
             bind_r (fail_if (cumulative_units \<noteq> 0) ''payment_curve_invalid'') (\<lambda>_.
             bill (st_debited_units record) (je_amount_wei expected) (je_per_units expected))
         | None \<Rightarrow>
             bind_r (fail_if (cumulative_units < st_debited_units record) ''payment_curve_invalid'') (\<lambda>_.
             bind_r (bill cumulative_units (je_amount_wei expected) (je_per_units expected)) (\<lambda>hi.
             bind_r (bill (cumulative_units - st_debited_units record) (je_amount_wei expected)
                       (je_per_units expected)) (\<lambda>lo.
             Inr (hi - lo)))))"

definition verify_job_settlement ::
  "verifier \<Rightarrow> (string \<times> json) list \<Rightarrow> delegation list \<Rightarrow> job_settlement_expectation \<Rightarrow>
   error + verified_job_settlement" where
  "verify_job_settlement v env keys expected =
     bind_r (verify_envelope v env keys) (\<lambda>(record, issued_at, public_key).
     bind_r (reject_failed_debit record) (\<lambda>_.
     bind_r (fail_if (je_wholesale_account_id expected = [] \<or>
               st_wholesale_account_id record \<noteq> je_wholesale_account_id expected)
               ''wholesale_account_mismatch'') (\<lambda>_.
     bind_r (verify_settlement_domain (st_settlement_domain_id record)
               (je_settlement_domain_id expected)) (\<lambda>_.
     bind_r (fail_if (st_request_id record \<noteq> je_request_id expected) ''request_id_mismatch'') (\<lambda>_.
     bind_r (fail_if (st_job_id record \<noteq> je_job_id expected) ''job_id_mismatch'') (\<lambda>_.
     bind_r (fail_if (st_work_id record \<noteq> je_work_id expected) ''work_id_mismatch'') (\<lambda>_.
     bind_r (fail_if (st_work_unit_name record \<noteq> je_work_unit expected) ''work_unit_mismatch'') (\<lambda>_.
     bind_r (fail_if (st_actual_units record \<noteq> je_actual_units expected \<or>
               st_billed_units record \<noteq> je_actual_units expected \<or>
               st_debited_units record \<noteq> je_actual_units expected) ''work_units_mismatch'') (\<lambda>_.
     bind_r (fail_if (je_max_total_units expected < st_actual_units record)
               ''usage_ceiling_exceeded'') (\<lambda>_.
     bind_r (fail_if (st_accepted_quote_ref record \<noteq> je_quote_ref expected) ''quote_mismatch'') (\<lambda>_.
     let billed_value = big (st_billed_value_wei record)
     in bind_r (job_normative_bill record expected) (\<lambda>normative_bill.
        bind_r (fail_if (billed_value \<noteq> normative_bill) ''billed_value_mismatch'') (\<lambda>_.
        bind_r (fail_if (je_authorization_id expected = None \<and>
                         je_funded_value_wei expected < billed_value) ''funding_ceiling_exceeded'') (\<lambda>_.
        bind_r (verify_authorization_accounting record (je_authorization_id expected)
                  (je_authorized_value_wei expected) billed_value) (\<lambda>_.
        Inr \<lparr>vj_actual_units = st_actual_units record, vj_billed_value_wei = billed_value,
             vj_outcome = st_outcome record, vj_issued_at = issued_at,
             vj_signing_public_key = public_key\<rparr>)))))))))))))))"

section \<open>Non-admission\<close>

definition verify_non_admission ::
  "verifier \<Rightarrow> (string \<times> json) list \<Rightarrow> delegation list \<Rightarrow> non_admission_expectation \<Rightarrow>
   error + verified_non_admission" where
  "verify_non_admission v env keys expected =
     bind_r (envelope_parts env) (\<lambda>(payload, signature).
     bind_r (canonicalize v payload) (\<lambda>canonical.
     bind_r (recover_public_key v canonical (json_get signature ''value'')) (\<lambda>public_key.
     bind_r (parse_non_admission_record v payload) (\<lambda>record.
     bind_r (parse_timestamp v (Some (JStr (na_observed_at record))) ''observed_at'') (\<lambda>observed_at.
     bind_r (parse_timestamp v (Some (JStr (na_coverage_started_at record))) ''coverage_started_at'')
       (\<lambda>coverage_started_at.
     bind_r (authorize_key v public_key observed_at keys) (\<lambda>_.
     bind_r (verify_settlement_domain (na_settlement_domain_id record)
               (ne_settlement_domain_id expected)) (\<lambda>_.
     bind_r (fail_if (ne_wholesale_account_id expected = [] \<or>
               na_wholesale_account_id record \<noteq> ne_wholesale_account_id expected)
               ''wholesale_account_mismatch'') (\<lambda>_.
     bind_r (fail_if (na_outcome record \<noteq> ''NOT_ADMITTED'') ''non_admission_outcome_mismatch'') (\<lambda>_.
     bind_r (fail_if (na_protocol record \<noteq> ne_protocol expected) ''protocol_mismatch'') (\<lambda>_.
     bind_r (fail_if (na_request_id record \<noteq> ne_request_id expected) ''request_id_mismatch'') (\<lambda>_.
     bind_r (fail_if (na_work_id record \<noteq> ne_work_id expected) ''work_id_mismatch'') (\<lambda>_.
     bind_r (fail_if (na_sender record \<noteq> ne_sender expected) ''sender_mismatch'') (\<lambda>_.
     bind_r (fail_if (na_recipient record \<noteq> ne_recipient expected) ''recipient_mismatch'') (\<lambda>_.
     bind_r (fail_if (na_accepted_quote_ref record \<noteq> ne_quote_ref expected) ''quote_mismatch'') (\<lambda>_.
     bind_r (fail_if (lower (na_broker_eth_address record) \<noteq> lower (ne_broker_eth_address expected))
               ''broker_identity_mismatch'') (\<lambda>_.
     case ne_job_issued_at expected of
       Naive _ \<Rightarrow> Inl (SettlementVerificationError ''invalid_job_issued_at'')
     | Aware issued_at \<Rightarrow>
         bind_r (fail_if (issued_at < coverage_started_at) ''coverage_gap'') (\<lambda>_.
         bind_r (fail_if (observed_at < issued_at) ''observation_precedes_job'') (\<lambda>_.
         bind_r (fail_if (observed_at < coverage_started_at) ''invalid_coverage'') (\<lambda>_.
         Inr \<lparr>vn_observed_at = observed_at, vn_coverage_started_at = coverage_started_at,
              vn_signing_public_key = public_key\<rparr>))))))))))))))))))))"

section \<open>Sessions\<close>

text \<open>The pattern \<open>^[a-z][a-z0-9_]{0,63}$\<close>.\<close>

definition safe_code :: "string \<Rightarrow> bool" where
  "safe_code s \<longleftrightarrow> s \<noteq> [] \<and> length s \<le> 64 \<and> is_lower_alpha (hd s) \<and>
     list_all (\<lambda>c. is_lower_alpha c \<or> is_digit c \<or> c = CHR ''_'') s"

text \<open>\<open>breakdown.get(key) or None\<close>.\<close>

definition breakdown_get :: "(string \<times> string) list \<Rightarrow> string \<Rightarrow> string option" where
  "breakdown_get b key = (case map_of b key of Some s \<Rightarrow> (if s = [] then None else Some s) | None \<Rightarrow> None)"

definition verify_session_diagnostics ::
  "verifier \<Rightarrow> settlement_record \<Rightarrow>
   error + (string option \<times> string option \<times> timestamp option \<times> string option)" where
  "verify_session_diagnostics v record =
     (let termination_reason = breakdown_get (st_breakdown record) ''termination_reason'';
          output_state = breakdown_get (st_breakdown record) ''output_state'';
          output_state_since_raw = breakdown_get (st_breakdown record) ''output_state_since'';
          last_failure_code = breakdown_get (st_breakdown record) ''last_failure_code''
      in bind_r (fail_if (\<exists>r \<in> set_option termination_reason. \<not> safe_code r)
                   ''termination_reason_invalid'') (\<lambda>_.
         bind_r (fail_if (\<exists>s \<in> set_option output_state.
                     s \<notin> set [''unknown'', ''waiting'', ''producing'', ''stalled''])
                   ''output_state_invalid'') (\<lambda>_.
         bind_r (case output_state_since_raw of
                   None \<Rightarrow> Inr None
                 | Some raw \<Rightarrow>
                     bind_r (parse_timestamp v (Some (JStr raw)) ''output_state_since'') (\<lambda>t. Inr (Some t)))
           (\<lambda>output_state_since.
         bind_r (fail_if (\<exists>c \<in> set_option last_failure_code. \<not> safe_code c)
                   ''last_failure_code_invalid'') (\<lambda>_.
         Inr (termination_reason, output_state, output_state_since, last_failure_code))))))"

definition verify_session_identity ::
  "settlement_record \<Rightarrow> session_settlement_expectation \<Rightarrow> error + unit" where
  "verify_session_identity record expected =
     bind_r (fail_if (st_gateway_session_id record \<noteq> se_gateway_session_id expected)
               ''gateway_session_id_mismatch'') (\<lambda>_.
     bind_r (fail_if (st_session_id record = []) ''missing_session_id'') (\<lambda>_.
     bind_r (fail_if (se_broker_session_id expected \<noteq> None \<and>
               Some (st_session_id record) \<noteq> se_broker_session_id expected) ''session_id_mismatch'') (\<lambda>_.
     bind_r (fail_if (st_job_id record \<noteq> []) ''job_id_present'') (\<lambda>_.
     bind_r (fail_if (st_work_id record \<noteq> se_work_id expected) ''work_id_mismatch'') (\<lambda>_.
     bind_r (fail_if (st_predecessor_work_id record \<noteq> se_predecessor_work_id expected)
               ''predecessor_mismatch'') (\<lambda>_.
     bind_r (fail_if (st_rotation_generation record \<noteq> se_rotation_generation expected)
               ''rotation_generation_mismatch'') (\<lambda>_.
     bind_r (fail_if (st_work_unit_name record \<noteq> se_work_unit expected) ''work_unit_mismatch'') (\<lambda>_.
     fail_if (st_accepted_quote_ref record \<noteq> se_quote_ref expected) ''quote_mismatch''))))))))"

definition exhausted :: "settlement_record \<Rightarrow> session_settlement_expectation \<Rightarrow> bool" where
  "exhausted record expected \<longleftrightarrow>
     se_authorization_id expected \<noteq> None \<and> st_state record = ''closed'' \<and>
     map_of (st_breakdown record) ''termination_reason'' = Some ''authorization_exhausted'' \<and>
     st_debited_units record < st_claimed_units record"

definition verify_session_accounting ::
  "settlement_record \<Rightarrow> session_settlement_expectation \<Rightarrow> error + wei" where
  "verify_session_accounting record expected =
     bind_r (fail_if (big (st_amount_wei record) \<noteq> se_amount_wei expected \<or>
               st_per_units record \<noteq> se_per_units expected) ''pricing_mismatch'') (\<lambda>_.
     bind_r (fail_if (st_settlement_seq record \<le> se_last_settlement_seq expected)
               ''settlement_replay'') (\<lambda>_.
     bind_r (fail_if (se_require_terminal expected \<and> st_state record \<noteq> ''closed'')
               ''session_not_terminal'') (\<lambda>_.
     bind_r (fail_if (st_claimed_units record \<noteq> st_debited_units record \<and> \<not> exhausted record expected)
               ''claim_debit_gap'') (\<lambda>_.
     bind_r (fail_if (st_actual_units record \<noteq> st_debited_units record \<or>
               st_billed_units record \<noteq> st_debited_units record) ''work_units_mismatch'') (\<lambda>_.
     bind_r (fail_if (st_debited_units record < st_generation_debited_units record)
               ''generation_units_invalid'') (\<lambda>_.
     let billed_value = big (st_billed_value_wei record)
     in bind_r (if exhausted record expected
                then bind_r (bill (st_debited_units record) (se_amount_wei expected)
                               (se_per_units expected)) (\<lambda>normative.
                     fail_if (billed_value \<noteq> normative \<or> big (st_reserved_value_wei record) \<noteq> 0)
                       ''authorization_accounting_invalid'')
                else Inr ()) (\<lambda>_.
        let signed_funded = big (st_funded_value_wei record);
            generation_billed = big (st_generation_billed_value_wei record)
        in bind_r (fail_if (se_funded_value_wei expected < billed_value \<or>
                     se_funded_value_wei expected < signed_funded) ''session_cap_exceeded'') (\<lambda>_.
           bind_r (fail_if (billed_value < generation_billed) ''generation_value_invalid'') (\<lambda>_.
           bind_r (verify_authorization_accounting record (se_authorization_id expected)
                     (se_authorized_value_wei expected) billed_value) (\<lambda>_.
           Inr billed_value))))))))))"

definition verify_session_settlement ::
  "verifier \<Rightarrow> (string \<times> json) list \<Rightarrow> delegation list \<Rightarrow> session_settlement_expectation \<Rightarrow>
   error + verified_session_settlement" where
  "verify_session_settlement v env keys expected =
     bind_r (verify_envelope v env keys) (\<lambda>(record, issued_at, public_key).
     bind_r (reject_failed_debit record) (\<lambda>_.
     bind_r (fail_if (se_wholesale_account_id expected = [] \<or>
               st_wholesale_account_id record \<noteq> se_wholesale_account_id expected)
               ''wholesale_account_mismatch'') (\<lambda>_.
     bind_r (verify_settlement_domain (st_settlement_domain_id record)
               (se_settlement_domain_id expected)) (\<lambda>_.
     bind_r (verify_session_identity record expected) (\<lambda>_.
     bind_r (verify_session_accounting record expected) (\<lambda>billed_value.
     bind_r (verify_session_diagnostics v record) (\<lambda>(termination_reason, output_state,
         output_state_since, last_failure_code).
     Inr \<lparr>vs_broker_session_id = st_session_id record, vs_work_id = st_work_id record,
          vs_predecessor_work_id = st_predecessor_work_id record,
          vs_rotation_generation = st_rotation_generation record,
          vs_settlement_seq = st_settlement_seq record, vs_state = st_state record,
          vs_claimed_units = st_claimed_units record, vs_debited_units = st_debited_units record,
          vs_billed_value_wei = billed_value, vs_outcome = st_outcome record,
          vs_issued_at = issued_at, vs_signing_public_key = public_key,
          vs_termination_reason = termination_reason, vs_output_state = output_state,
          vs_output_state_since = output_state_since, vs_last_failure_code = last_failure_code\<rparr>)))))))"

section \<open>Unit billing\<close>

text \<open>
  The contract of a routine that bills units at an amount per a number of units: on valid pricing it
  returns the smallest number of wei that covers the exact rational price.
\<close>

locale unit_billing =
  fixes bill_of :: "int \<Rightarrow> wei \<Rightarrow> int \<Rightarrow> error + wei"
  assumes bill_covers: "0 \<le> u \<Longrightarrow> 0 \<le> a \<Longrightarrow> 0 < p \<Longrightarrow>
    \<exists>b. bill_of u a p = Inr b \<and> u * a \<le> b * p \<and> b * p < u * a + p"
begin

lemma bill_unique:
  assumes "0 \<le> u" "0 \<le> a" "0 < p" and "bill_of u a p = Inr b" and "u * a \<le> c * p" and "c * p < u * a + p"
  shows "b = c"
proof -
  from bill_covers [OF assms(1-3)] assms(4) have b: "u * a \<le> b * p" "b * p < u * a + p" by auto
  with assms(5,6) have "b * p < c * p + p" "c * p < b * p + p" by linarith+
  then have "b * p < (c + 1) * p" "c * p < (b + 1) * p" by (simp_all add: algebra_simps)
  with assms(3) show ?thesis by (simp add: mult_less_cancel_right)
qed

lemma bill_mono:
  assumes "0 \<le> u" "u \<le> u'" "0 \<le> a" "0 < p" and "bill_of u a p = Inr b" and "bill_of u' a p = Inr b'"
  shows "b \<le> b'"
proof -
  have "0 \<le> u'" using assms by simp
  have "b * p < u * a + p" "u' * a \<le> b' * p"
    using bill_covers [OF assms(1,3,4)] bill_covers [OF \<open>0 \<le> u'\<close> assms(3,4)] assms(5,6) by auto
  moreover have "u * a \<le> u' * a" using assms by (simp add: mult_right_mono)
  ultimately have "b * p < (b' + 1) * p" by (simp add: algebra_simps)
  with assms(4) show ?thesis by (simp add: mult_less_cancel_right)
qed

lemma bill_nonneg: "0 \<le> u \<Longrightarrow> 0 \<le> a \<Longrightarrow> 0 < p \<Longrightarrow> bill_of u a p = Inr b \<Longrightarrow> 0 \<le> b"
proof -
  assume *: "0 \<le> u" "0 \<le> a" "0 < p" "bill_of u a p = Inr b"
  then have "0 \<le> b * p" using bill_covers [of u a p] by (auto intro: order_trans [of 0 "u * a"])
  with *(3) show ?thesis by (simp add: zero_le_mult_iff)
qed

end

lemma ceil_covers:
  fixes n p :: int
  assumes "0 < p"
  shows "n \<le> ((n + p - 1) div p) * p" "((n + p - 1) div p) * p < n + p"
proof -
  have "(n + p - 1) div p * p + (n + p - 1) mod p = n + p - 1" by simp
  moreover have "0 \<le> (n + p - 1) mod p" "(n + p - 1) mod p < p" using assms by simp_all
  ultimately show "n \<le> ((n + p - 1) div p) * p" "((n + p - 1) div p) * p < n + p" by linarith+
qed

interpretation settlement_bill: unit_billing bill
  by unfold_locales (simp add: bill_def ceil_covers)

end
