(* ===== verification/Engagements.thy ===== *)
theory Engagements
  imports Wholesale Settlement
begin

text \<open>
  Engagements: the rows of \<open>payment_session\<close>, shared by paid sessions and paid jobs, their settlement
  events and their spend-authorization grants (\<open>domains/sessions/repo.py\<close>), with the operations of
  \<open>domains/sessions/service.py\<close> both kinds of engagement go through: the lifecycle, claiming and
  releasing the customer hold, issuing and recording a grant, and retiring grants.

  The three tables extend the wholesale database. \<open>ps_route_snapshot\<close> is the typed route the JSON
  column holds; rows are in insertion order, which is the order of \<open>created_at\<close>. An operation whose
  caller commits acts on the database; one that commits itself acts on a transaction. The unique
  constraints are checked where the code flushes. \<open>clock.now()\<close> is the argument \<open>now\<close>; a fresh
  \<open>uuid4\<close> is an argument.
\<close>

section \<open>Tables\<close>

record payment_session =
  ps_id :: uuid
  ps_user_id :: uuid
  ps_api_key_id :: uuid
  ps_work_id :: string
  ps_capability :: string
  ps_offering :: string
  ps_protocol :: string
  ps_accounting_mode :: string
  ps_customer_pricing :: "customer_pricing_snapshot option"
  ps_customer_max_debit_wei :: "wei option"
  ps_authorization_id :: "string option"
  ps_route_snapshot :: "route_snapshot option"
  ps_broker_request_id :: "string option"
  ps_state :: string
  ps_estimated_units :: int
  ps_max_total_units :: int
  ps_funded_value_wei :: wei
  ps_billed_value_wei :: "wei option"
  ps_actual_units :: "int option"
  ps_outcome :: "string option"
  ps_breakdown :: "(string \<times> json) list option"
  ps_sdk_identity :: "string option"
  ps_opened_at :: timestamp
  ps_closed_at :: "timestamp option"
  ps_refill_seq :: int
  ps_rotation_generation :: int
  ps_predecessor_work_id :: "string option"
  ps_broker_session_id :: "string option"
  ps_last_settlement_seq :: int
  ps_last_polled_at :: "timestamp option"

record payment_settlement =
  pe_session_id :: uuid
  pe_recorded_at :: timestamp
  pe_event_type :: string
  pe_actual_units :: "int option"
  pe_billed_value_wei :: "wei option"
  pe_outcome :: "string option"
  pe_raw_record :: "(string \<times> json) list option"

record spend_authorization_grant =
  gr_session_id :: uuid
  gr_authorization_id :: string
  gr_revision :: int
  gr_predecessor_authorization_id :: "string option"
  gr_request_id :: string
  gr_request_digest :: string
  gr_caller_public_key :: string
  gr_authorization_bytes :: bytes
  gr_protocol :: string
  gr_route_snapshot :: route_snapshot
  gr_payer_eth_address :: string
  gr_chain_id :: int
  gr_wholesale_account_id :: string
  gr_settlement_domain_id :: string
  gr_denomination :: string
  gr_max_debit_wei :: wei
  gr_max_total_units :: int
  gr_not_before :: datetime
  gr_expires_at :: datetime
  gr_state :: string
  gr_retired_at :: "timestamp option"

record sessions_db = wholesale_db +
  sessions :: "payment_session list"
  settlements :: "payment_settlement list"
  grants :: "spend_authorization_grant list"

section \<open>The lifecycle\<close>

definition SESSION_STATES :: "string list" where
  "SESSION_STATES = [''open'', ''draining'', ''closed'']"

definition ALLOWED_TRANSITIONS :: "string \<Rightarrow> string list" where
  "ALLOWED_TRANSITIONS from_state =
     (if from_state = ''open'' then [''draining'', ''closed'']
      else if from_state = ''draining'' then [''closed''] else [])"

definition PAID_SESSION_PROTOCOL :: string where
  "PAID_SESSION_PROTOCOL = ''paid-session/v1''"

definition bill_value_wei :: "int \<Rightarrow> wei \<Rightarrow> int \<Rightarrow> error + wei" where
  "bill_value_wei units amount_wei per_units =
     (if per_units < 1 then Inl (ValueError ''per_units must be positive'')
      else Inr ((units * amount_wei + per_units - 1) div per_units))"

definition get_session :: "('z sessions_db_scheme) \<Rightarrow> uuid \<Rightarrow> payment_session option" where
  "get_session db session_id = find (\<lambda>s. ps_id s = session_id) (sessions db)"

definition set_session ::
  "uuid \<Rightarrow> (payment_session \<Rightarrow> payment_session) \<Rightarrow> ('z sessions_db_scheme) \<Rightarrow> ('z sessions_db_scheme)" where
  "set_session session_id f db = db\<lparr>sessions := update_where (\<lambda>s. ps_id s = session_id) f (sessions db)\<rparr>"

text \<open>The first of the rows with the greatest key: \<open>ORDER BY key DESC LIMIT 1\<close>.\<close>

fun latest :: "payment_session list \<Rightarrow> payment_session option" where
  "latest [] = None"
| "latest (s # ss) =
     (case latest ss of
        None \<Rightarrow> Some s
      | Some t \<Rightarrow> if ps_opened_at s < ps_opened_at t then Some t else Some s)"

definition get_session_by_work_id ::
  "('z sessions_db_scheme) \<Rightarrow> string \<Rightarrow> payment_session option" where
  "get_session_by_work_id db work_id = latest (filter (\<lambda>s. ps_work_id s = work_id) (sessions db))"

definition transition_state ::
  "uuid \<Rightarrow> string \<Rightarrow> string \<Rightarrow> timestamp \<Rightarrow> ('z sessions_db_scheme, payment_session) op" where
  "transition_state session_id from_state to_state now =
     bind_op (require (from_state \<in> set SESSION_STATES \<and> to_state \<in> set SESSION_STATES)
                InvalidSessionState) (\<lambda>_.
     bind_op (require (to_state \<in> set (ALLOWED_TRANSITIONS from_state))
                InvalidSessionTransition) (\<lambda>_.
     bind_op (gets (\<lambda>db. get_session db session_id)) (\<lambda>found.
     case found of
       None \<Rightarrow> raise SessionNotFound
     | Some row \<Rightarrow>
         bind_op (require (ps_state row = from_state) InvalidSessionTransition) (\<lambda>_.
         let row' = (if to_state = ''closed'' then row\<lparr>ps_state := to_state, ps_closed_at := Some now\<rparr>
                     else row\<lparr>ps_state := to_state\<rparr>)
         in bind_op (modify (set_session session_id (\<lambda>_. row'))) (\<lambda>_.
            ret row')))))"

definition record_settlement ::
  "uuid \<Rightarrow> string \<Rightarrow> timestamp \<Rightarrow> int option \<Rightarrow> wei option \<Rightarrow> string option \<Rightarrow>
   (string \<times> json) list option \<Rightarrow> ('z sessions_db_scheme, payment_settlement) op" where
  "record_settlement session_id event_type now actual_units billed_value_wei outcome raw_record =
     (let row = \<lparr>pe_session_id = session_id, pe_recorded_at = now, pe_event_type = event_type,
                 pe_actual_units = actual_units, pe_billed_value_wei = billed_value_wei,
                 pe_outcome = outcome, pe_raw_record = raw_record\<rparr>
      in bind_op (modify (\<lambda>db. db\<lparr>settlements := settlements db @ [row]\<rparr>)) (\<lambda>_. ret row))"

definition mark_polled :: "uuid \<Rightarrow> timestamp \<Rightarrow> ('z sessions_db_scheme, unit) op" where
  "mark_polled session_id now =
     bind_op (gets (\<lambda>db. get_session db session_id)) (\<lambda>found.
     case found of
       None \<Rightarrow> ret ()
     | Some row \<Rightarrow> modify (set_session session_id (\<lambda>s. s\<lparr>ps_last_polled_at := Some now\<rparr>)))"

section \<open>Claiming the customer hold\<close>

definition create_session ::
  "uuid \<Rightarrow> uuid \<Rightarrow> uuid \<Rightarrow> string \<Rightarrow> string \<Rightarrow> string \<Rightarrow> string \<Rightarrow> route_snapshot option \<Rightarrow> string option \<Rightarrow>
   int \<Rightarrow> int \<Rightarrow> wei \<Rightarrow> timestamp \<Rightarrow> string option \<Rightarrow> string \<Rightarrow> customer_pricing_snapshot option \<Rightarrow>
   wei option \<Rightarrow> uuid option \<Rightarrow> ('z sessions_db_scheme, payment_session) op" where
  "create_session new_id user_id api_key_id work_id capability offering protocol route_snapshot
     broker_request_id estimated_units max_total_units funded_value_wei now sdk_identity
     accounting_mode customer_pricing customer_max_debit_wei session_id =
     (let row =
        \<lparr>ps_id = (case session_id of Some i \<Rightarrow> i | None \<Rightarrow> new_id), ps_user_id = user_id,
         ps_api_key_id = api_key_id, ps_work_id = work_id, ps_capability = capability,
         ps_offering = offering, ps_protocol = protocol, ps_accounting_mode = accounting_mode,
         ps_customer_pricing = customer_pricing, ps_customer_max_debit_wei = customer_max_debit_wei,
         ps_authorization_id = None, ps_route_snapshot = route_snapshot,
         ps_broker_request_id = broker_request_id, ps_state = ''open'',
         ps_estimated_units = estimated_units, ps_max_total_units = max_total_units,
         ps_funded_value_wei = funded_value_wei, ps_billed_value_wei = None, ps_actual_units = None,
         ps_outcome = None, ps_breakdown = None, ps_sdk_identity = sdk_identity, ps_opened_at = now,
         ps_closed_at = None, ps_refill_seq = 0, ps_rotation_generation = 0,
         ps_predecessor_work_id = None, ps_broker_session_id = None, ps_last_settlement_seq = 0,
         ps_last_polled_at = None\<rparr>
      in bind_op (gets sessions) (\<lambda>existing.
         bind_op (require (\<forall>s \<in> set existing. ps_id s \<noteq> ps_id row \<and>
                     \<not> (broker_request_id \<noteq> None \<and> ps_user_id s = user_id \<and>
                        ps_broker_request_id s = broker_request_id)) IntegrityError) (\<lambda>_.
         bind_op (modify (\<lambda>db. db\<lparr>sessions := sessions db @ [row]\<rparr>)) (\<lambda>_.
         ret row))))"

definition wholesale_pass_through_pricing :: "string \<Rightarrow> customer_pricing_snapshot" where
  "wholesale_pass_through_pricing work_unit =
     \<lparr>cp_plan_id = ''wholesale-pass-through'', cp_kind = wholesale_pass_through,
      cp_work_unit = work_unit, cp_price_per_unit_wei = None, cp_units_per_price = None,
      cp_fee_basis_points = None\<rparr>"

definition engagement_of_request ::
  "('z sessions_db_scheme) \<Rightarrow> uuid \<Rightarrow> string \<Rightarrow> payment_session option" where
  "engagement_of_request db user_id broker_request_id =
     find (\<lambda>s. ps_user_id s = user_id \<and> ps_broker_request_id s = Some broker_request_id \<and>
               ps_accounting_mode s = ''wholesale_account'') (sessions db)"

text \<open>
  What the code does before it creates a row: the caller's identifier must be free or its own, and an
  existing engagement of the request is returned when the whole scope is the same.
\<close>

definition resume_engagement ::
  "uuid \<Rightarrow> uuid \<Rightarrow> selected_route \<Rightarrow> string \<Rightarrow> int \<Rightarrow> int \<Rightarrow> wei \<Rightarrow> uuid option \<Rightarrow>
   ('z sessions_db_scheme, payment_session option) op" where
  "resume_engagement user_id api_key_id route broker_request_id estimated_units max_total_units
     max_debit_wei gateway_session_id =
     bind_op (gets (\<lambda>db. case gateway_session_id of None \<Rightarrow> None | Some i \<Rightarrow> get_session db i)) (\<lambda>id_owner.
     bind_op (require (\<forall>owner \<in> set_option id_owner. ps_user_id owner = user_id \<and>
                 ps_broker_request_id owner = Some broker_request_id)
                (InvalidSessionRequest ''gateway_session_id is already in use'')) (\<lambda>_.
     bind_op (gets (\<lambda>db. engagement_of_request db user_id broker_request_id)) (\<lambda>found.
     case found of
       None \<Rightarrow> ret None
     | Some existing \<Rightarrow>
         bind_op (of_result (snapshot_view route)) (\<lambda>snapshot.
         bind_op (require
             ((ps_api_key_id existing, ps_capability existing, ps_offering existing,
               ps_protocol existing, ps_route_snapshot existing, ps_estimated_units existing,
               ps_max_total_units existing, ps_customer_max_debit_wei existing,
               ps_customer_pricing existing) =
              (api_key_id, sr_capability route, sr_offering route, protocol_value (sr_protocol route),
               Some snapshot, estimated_units, max_total_units, Some max_debit_wei,
               Some (wholesale_pass_through_pricing (sr_work_unit route))))
             (InvalidSessionRequest ''wholesale engagement replay changed scope'')) (\<lambda>_.
         ret (Some existing))))))"

text \<open>
  \<open>conflict\<close> is the outcome of the commit: \<open>None\<close> when it succeeds, and the database the other
  transaction left when the commit raises \<open>IntegrityError\<close>. The recursive call of the code finds the
  winner and so never reaches its own commit.
\<close>

definition claim_wholesale_engagement ::
  "('z sessions_db_scheme) option \<Rightarrow> uuid \<Rightarrow> uuid \<Rightarrow> uuid \<Rightarrow> selected_route \<Rightarrow> string \<Rightarrow> int \<Rightarrow> int \<Rightarrow> wei \<Rightarrow>
   timestamp \<Rightarrow> string option \<Rightarrow> int \<Rightarrow> int \<Rightarrow> uuid option \<Rightarrow>
   (('z sessions_db_scheme) txn, payment_session) op" where
  "claim_wholesale_engagement conflict new_id user_id api_key_id route broker_request_id
     estimated_units max_total_units max_debit_wei now sdk_identity spend_period_seconds
     spend_period_cap_wei gateway_session_id =
     (let resume = on_db (resume_engagement user_id api_key_id route broker_request_id
            estimated_units max_total_units max_debit_wei gateway_session_id)
      in bind_op resume (\<lambda>resumed.
         case resumed of
           Some existing \<Rightarrow> ret existing
         | None \<Rightarrow>
             bind_op (of_result (snapshot_view route)) (\<lambda>snapshot.
             bind_op (on_db (create_session new_id user_id api_key_id [] (sr_capability route)
                 (sr_offering route) (protocol_value (sr_protocol route)) (Some snapshot)
                 (Some broker_request_id) estimated_units max_total_units max_debit_wei now
                 sdk_identity ''wholesale_account''
                 (Some (wholesale_pass_through_pricing (sr_work_unit route)))
                 (Some max_debit_wei) gateway_session_id)) (\<lambda>engagement.
             bind_op (on_db (encumber_customer_engagement user_id (ps_id engagement) max_debit_wei
                 (Aware now) spend_period_seconds spend_period_cap_wei)) (\<lambda>_.
             case conflict of
               None \<Rightarrow> bind_op commit (\<lambda>_. ret engagement)
             | Some other \<Rightarrow>
                 bind_op (modify (\<lambda>s. s\<lparr>durable := other\<rparr>)) (\<lambda>_.
                 bind_op rollback (\<lambda>_.
                 bind_op (read_db (\<lambda>db. engagement_of_request db user_id broker_request_id)) (\<lambda>winner.
                 bind_op (require (winner \<noteq> None) IntegrityError) (\<lambda>_.
                 bind_op resume (\<lambda>again.
                 case again of Some row \<Rightarrow> ret row | None \<Rightarrow> raise IntegrityError))))))))))"

definition release_unauthorized_engagement ::
  "uuid \<Rightarrow> timestamp \<Rightarrow> (('z sessions_db_scheme) txn, bool) op" where
  "release_unauthorized_engagement engagement_id now =
     bind_op (read_db (\<lambda>db. get_session db engagement_id)) (\<lambda>found.
     case found of
       None \<Rightarrow> bind_op rollback (\<lambda>_. ret False)
     | Some engagement \<Rightarrow>
         if ps_accounting_mode engagement \<noteq> ''wholesale_account'' \<or> ps_state engagement \<noteq> ''open'' \<or>
            ps_authorization_id engagement \<noteq> None
         then bind_op rollback (\<lambda>_. ret False)
         else case ps_customer_max_debit_wei engagement of
           None \<Rightarrow> bind_op rollback (\<lambda>_. ret False)
         | Some amount \<Rightarrow>
             bind_op (on_db (release_customer_engagement (ps_user_id engagement) engagement_id amount)) (\<lambda>_.
             bind_op (write_db (set_session engagement_id (\<lambda>s. s\<lparr>ps_state := ''closed'',
                 ps_closed_at := Some now, ps_actual_units := Some 0, ps_billed_value_wei := Some 0,
                 ps_outcome := Some ''NOT_ADMITTED''\<rparr>))) (\<lambda>_.
             bind_op commit (\<lambda>_.
             ret True))))"

definition release_stale_unauthorized_engagements ::
  "timestamp \<Rightarrow> int \<Rightarrow> nat \<Rightarrow> (('z sessions_db_scheme) txn, int) op" where
  "release_stale_unauthorized_engagements now older_than_seconds limit =
     bind_op (read_db (\<lambda>db. map ps_id (take limit (sort_key ps_opened_at (filter
         (\<lambda>s. ps_accounting_mode s = ''wholesale_account'' \<and> ps_state s = ''open'' \<and>
              ps_authorization_id s = None \<and> ps_opened_at s < now - seconds older_than_seconds)
         (sessions db)))))) (\<lambda>candidates.
     bind_op rollback (\<lambda>_.
     fold_op (\<lambda>released engagement_id.
       bind_op (release_unauthorized_engagement engagement_id now) (\<lambda>done.
       ret (if done then released + 1 else released))) 0 candidates))"

section \<open>Spend authorizations\<close>

definition require_authorizable :: "payment_session \<Rightarrow> int \<Rightarrow> error + unit" where
  "require_authorizable engagement revision =
     (if ps_accounting_mode engagement \<noteq> ''wholesale_account''
      then Inl (InvalidSessionRequest ''legacy engagement cannot record an authorization'')
      else if revision = 0 \<and> ps_state engagement \<noteq> ''open'' then Inl EngagementClosed
      else Inr ())"

definition normalized_utc :: "datetime \<Rightarrow> datetime" where
  "normalized_utc value = (case value of Naive t \<Rightarrow> Aware t | Aware t \<Rightarrow> Aware t)"

definition find_grant :: "('z sessions_db_scheme) \<Rightarrow> uuid \<Rightarrow> string \<Rightarrow> spend_authorization_grant option" where
  "find_grant db session_id authorization_id =
     find (\<lambda>g. gr_session_id g = session_id \<and> gr_authorization_id g = authorization_id) (grants db)"

definition find_revision :: "('z sessions_db_scheme) \<Rightarrow> uuid \<Rightarrow> int \<Rightarrow> spend_authorization_grant option" where
  "find_revision db session_id revision =
     find (\<lambda>g. gr_session_id g = session_id \<and> gr_revision g = revision) (grants db)"

definition some_nonempty :: "string \<Rightarrow> string option" where
  "some_nonempty s = (if s = [] then None else Some s)"

definition grant_of ::
  "uuid \<Rightarrow> route_snapshot \<Rightarrow> string \<Rightarrow> create_spend_authorization_request \<Rightarrow>
   create_spend_authorization_response \<Rightarrow> spend_authorization_grant" where
  "grant_of engagement_id snapshot domain request response =
     \<lparr>gr_session_id = engagement_id, gr_authorization_id = aq_authorization_id request,
      gr_revision = aq_revision request,
      gr_predecessor_authorization_id = some_nonempty (aq_predecessor_authorization_id request),
      gr_request_id = aq_request_id request, gr_request_digest = hex (aq_request_digest request),
      gr_caller_public_key = hex (aq_caller_public_key request),
      gr_authorization_bytes = ar_authorization_bytes response, gr_protocol = aq_protocol request,
      gr_route_snapshot = snapshot, gr_payer_eth_address = ''0x'' @ hex (ar_payer response),
      gr_chain_id = aq_chain_id request, gr_wholesale_account_id = aq_wholesale_account_id request,
      gr_settlement_domain_id = domain, gr_denomination = aq_denomination request,
      gr_max_debit_wei = aq_max_debit_wei request, gr_max_total_units = aq_max_total_units request,
      gr_not_before = aq_not_before request, gr_expires_at = aq_expires_at request,
      gr_state = ''issued'', gr_retired_at = None\<rparr>"

text \<open>The replay of a revision: the tuples \<open>expected\<close> and \<open>actual\<close> of the code.\<close>

definition same_grant ::
  "spend_authorization_grant \<Rightarrow> string \<Rightarrow> create_spend_authorization_request \<Rightarrow>
   create_spend_authorization_response \<Rightarrow> bool" where
  "same_grant existing domain request response \<longleftrightarrow>
     gr_authorization_id existing = aq_authorization_id request \<and>
     gr_predecessor_authorization_id existing = some_nonempty (aq_predecessor_authorization_id request) \<and>
     gr_request_id existing = aq_request_id request \<and>
     gr_request_digest existing = hex (aq_request_digest request) \<and>
     gr_caller_public_key existing = hex (aq_caller_public_key request) \<and>
     gr_authorization_bytes existing = ar_authorization_bytes response \<and>
     gr_protocol existing = aq_protocol request \<and>
     removeprefix_0x (gr_payer_eth_address existing) = hex (ar_payer response) \<and>
     gr_chain_id existing = aq_chain_id request \<and>
     gr_settlement_domain_id existing = domain \<and>
     gr_wholesale_account_id existing = aq_wholesale_account_id request \<and>
     gr_denomination existing = aq_denomination request \<and>
     gr_max_debit_wei existing = aq_max_debit_wei request \<and>
     gr_max_total_units existing = aq_max_total_units request \<and>
     normalized_utc (gr_not_before existing) = aq_not_before request \<and>
     normalized_utc (gr_expires_at existing) = aq_expires_at request"

definition request_error :: "string \<Rightarrow> error" where
  "request_error msg = InvalidSessionRequest msg"

definition insert_grant ::
  "uuid \<Rightarrow> spend_authorization_grant \<Rightarrow> ('z sessions_db_scheme, spend_authorization_grant) op" where
  "insert_grant engagement_id grant =
     bind_op (gets id) (\<lambda>db.
     bind_op (require ((\<forall>g \<in> set (grants db). gr_authorization_id g \<noteq> gr_authorization_id grant) \<and>
                 (\<forall>s \<in> set (sessions db). ps_id s \<noteq> engagement_id \<longrightarrow>
                    ps_authorization_id s \<noteq> Some (gr_authorization_id grant))) IntegrityError) (\<lambda>_.
     bind_op (modify (\<lambda>db. db\<lparr>grants := grants db @ [grant]\<rparr>)) (\<lambda>_.
     bind_op (modify (set_session engagement_id (\<lambda>s. s\<lparr>
         ps_authorization_id := Some (gr_authorization_id grant),
         ps_work_id := gr_authorization_id grant\<rparr>))) (\<lambda>_.
     ret grant))))"

definition record_spend_authorization_grant ::
  "uuid \<Rightarrow> uuid \<Rightarrow> selected_route \<Rightarrow> string \<Rightarrow> create_spend_authorization_request \<Rightarrow>
   create_spend_authorization_response \<Rightarrow> ('z sessions_db_scheme, spend_authorization_grant) op" where
  "record_spend_authorization_grant engagement_id user_id route domain request response =
     bind_op (gets (\<lambda>db. get_session db engagement_id)) (\<lambda>found.
     case found of
       None \<Rightarrow> raise SessionNotFound
     | Some engagement \<Rightarrow>
         bind_op (require (ps_user_id engagement = user_id) SessionNotFound) (\<lambda>_.
         bind_op (of_result (require_authorizable engagement (aq_revision request))) (\<lambda>_.
         bind_op (require (domain \<noteq> [])
                    (request_error ''authorization settlement domain is required'')) (\<lambda>_.
         bind_op (require (\<not> (domain \<noteq> sr_settlement_domain_id route \<or>
                              domain \<noteq> aq_settlement_domain_id request))
                    (request_error ''authorization settlement domain changed'')) (\<lambda>_.
         bind_op (of_result (snapshot_view route)) (\<lambda>snapshot.
         bind_op (require (ps_route_snapshot engagement = Some snapshot)
                    (request_error ''authorization route differs from locked engagement'')) (\<lambda>_.
         bind_op (require (ar_authorization_id response = aq_authorization_id request)
                    (request_error ''authorization signer changed identity'')) (\<lambda>_.
         bind_op (require (aq_session_id request =
                       (if aq_protocol request = PAID_SESSION_PROTOCOL then engagement_id else []))
                    (request_error ''authorization session identity changed'')) (\<lambda>_.
         bind_op (require (\<not> (aq_revision request = 0 \<and>
                       ps_broker_request_id engagement \<noteq> Some (aq_request_id request)))
                    (request_error ''authorization request identity changed'')) (\<lambda>_.
         bind_op (gets (\<lambda>db. find_revision db engagement_id (aq_revision request))) (\<lambda>replay.
         case replay of
           Some existing \<Rightarrow>
             if same_grant existing domain request response then ret existing
             else raise (request_error ''authorization revision replay changed scope'')
         | None \<Rightarrow>
             bind_op (gets (\<lambda>db. find_grant db engagement_id (aq_predecessor_authorization_id request)))
               (\<lambda>predecessor.
             bind_op (require (\<not> (0 < aq_revision request \<and>
                         (\<exists>p \<in> set_option predecessor.
                            gr_wholesale_account_id p \<noteq> aq_wholesale_account_id request)))
                        (request_error ''authorization revision changed wholesale account'')) (\<lambda>_.
             bind_op (require (\<not> (0 < aq_revision request \<and> predecessor = None))
                        (request_error ''authorization predecessor is not retained'')) (\<lambda>_.
             insert_grant engagement_id
               (grant_of engagement_id snapshot domain request response)))))))))))))))"

definition set_grant ::
  "string \<Rightarrow> (spend_authorization_grant \<Rightarrow> spend_authorization_grant) \<Rightarrow> ('z sessions_db_scheme) \<Rightarrow>
   ('z sessions_db_scheme)" where
  "set_grant authorization_id f db =
     db\<lparr>grants := update_where (\<lambda>g. gr_authorization_id g = authorization_id) f (grants db)\<rparr>"

text \<open>\<open>grant.retired_at or clock.now()\<close>.\<close>

definition retired_or :: "timestamp \<Rightarrow> spend_authorization_grant \<Rightarrow> timestamp option" where
  "retired_or now g = (case gr_retired_at g of Some t \<Rightarrow> Some t | None \<Rightarrow> Some now)"

definition mark_spend_authorization_settled ::
  "uuid \<Rightarrow> string \<Rightarrow> timestamp \<Rightarrow> ('z sessions_db_scheme, spend_authorization_grant) op" where
  "mark_spend_authorization_settled engagement_id authorization_id now =
     bind_op (gets (\<lambda>db. find_grant db engagement_id authorization_id)) (\<lambda>found.
     case found of
       None \<Rightarrow> raise (SessionSettlementVerificationFailed ''missing_authorization'')
     | Some grant \<Rightarrow>
         bind_op (require (gr_state grant \<in> set [''issued'', ''admitted'', ''settled''])
                    (SessionSettlementVerificationFailed ''authorization_state_conflict'')) (\<lambda>_.
         let grant' = grant\<lparr>gr_state := ''settled'', gr_retired_at := retired_or now grant\<rparr>
         in bind_op (modify (set_grant authorization_id (\<lambda>_. grant'))) (\<lambda>_.
            ret grant')))"

definition resolve_grant :: "timestamp \<Rightarrow> spend_authorization_grant \<Rightarrow> error + spend_authorization_grant" where
  "resolve_grant now grant =
     (if gr_state grant \<in> set [''settled'', ''expired_unused'', ''superseded'', ''operator_resolved'']
      then Inr (grant\<lparr>gr_retired_at := retired_or now grant\<rparr>)
      else if gr_retired_at grant \<noteq> None \<or> gr_state grant \<notin> set [''issued'', ''admitted'', ''outcome_unknown'']
      then Inl (SessionSettlementVerificationFailed ''authorization_state_conflict'')
      else Inr (grant\<lparr>gr_state := ''operator_resolved'', gr_retired_at := Some now\<rparr>))"

definition mark_spend_authorization_operator_resolved ::
  "uuid \<Rightarrow> string \<Rightarrow> timestamp \<Rightarrow> ('z sessions_db_scheme, spend_authorization_grant option) op" where
  "mark_spend_authorization_operator_resolved engagement_id authorization_id now =
     bind_op (gets (\<lambda>db. sort_key gr_revision
         (filter (\<lambda>g. gr_session_id g = engagement_id) (grants db)))) (\<lambda>rows.
     bind_op (require (\<exists>g \<in> set rows. gr_authorization_id g = authorization_id)
                (SessionSettlementVerificationFailed ''missing_authorization'')) (\<lambda>_.
     bind_op (fold_op (\<lambda>_ grant.
         bind_op (of_result (resolve_grant now grant)) (\<lambda>grant'.
         modify (set_grant (gr_authorization_id grant) (\<lambda>_. grant')))) () rows) (\<lambda>_.
     gets (\<lambda>db. find_grant db engagement_id authorization_id))))"

subsection \<open>Issuing\<close>

definition payments_eth_address_to_bytes :: "string \<Rightarrow> error + bytes" where
  "payments_eth_address_to_bytes address =
     (let raw = removeprefix_0x address
      in if length raw \<noteq> 40 then Inl (ValueError ''selected payee must be a 20-byte hex address'')
         else case fromhex raw of
           None \<Rightarrow> Inl (ValueError ''selected payee must be a 20-byte hex address'')
         | Some bs \<Rightarrow> Inr bs)"

text \<open>\<open>sign\<close> is the payer daemon's \<open>create_spend_authorization\<close>.\<close>

definition issue_route_locked_authorization ::
  "(create_spend_authorization_request \<Rightarrow> error + create_spend_authorization_response) \<Rightarrow>
   selected_route \<Rightarrow> string \<Rightarrow> string \<Rightarrow> string \<Rightarrow> bytes \<Rightarrow> bytes \<Rightarrow> wei \<Rightarrow> int \<Rightarrow> timestamp \<Rightarrow> timestamp \<Rightarrow> int \<Rightarrow>
   string \<Rightarrow> int \<Rightarrow> string \<Rightarrow>
   error + (create_spend_authorization_request \<times> create_spend_authorization_response)" where
  "issue_route_locked_authorization sign route authorization_id request_id session_id request_digest
     caller_public_key max_debit_wei max_total_units not_before expires_at chain_id
     wholesale_account_id revision predecessor_authorization_id =
     (if caller_public_key = []
      then Inl (ValueError ''wholesale authorization requires caller proof key'')
      else
        bind_r (payments_eth_address_to_bytes (sr_eth_address route)) (\<lambda>payee.
        let request =
          \<lparr>aq_payee = payee, aq_authorization_id = authorization_id, aq_request_id = request_id,
           aq_session_id = session_id, aq_protocol = protocol_value (sr_protocol route),
           aq_accepted_price =
             \<lparr>ap_capability = sr_capability route, ap_offering = sr_offering route,
              ap_price_per_unit_wei = sr_price_per_work_unit_wei route,
              ap_units_per_price = sr_units_per_price route, ap_work_unit_name = sr_work_unit route,
              ap_quote_ref =
                \<lparr>qr_quote_id = sr_quote_id route, qr_quote_version = sr_quote_version route,
                 qr_constraint_fingerprint = sr_constraint_fingerprint route,
                 qr_route_fingerprint = sr_route_fingerprint route\<rparr>\<rparr>,
           aq_max_debit_wei = max_debit_wei, aq_max_total_units = max_total_units,
           aq_not_before = Aware not_before, aq_expires_at = Aware expires_at,
           aq_request_digest = request_digest, aq_caller_public_key = caller_public_key,
           aq_revision = revision, aq_predecessor_authorization_id = predecessor_authorization_id,
           aq_broker_uri = sr_worker_url route, aq_chain_id = chain_id,
           aq_settlement_domain_id = sr_settlement_domain_id route,
           aq_wholesale_account_id = wholesale_account_id, aq_denomination = ''wei''\<rparr>
        in bind_r (sign request) (\<lambda>response. Inr (request, response))))"

definition issue_initial_authorization_or_release ::
  "payment_session \<Rightarrow> timestamp \<Rightarrow>
   error + (create_spend_authorization_request \<times> create_spend_authorization_response) \<Rightarrow>
   (('z sessions_db_scheme) txn,
     create_spend_authorization_request \<times> create_spend_authorization_response) op" where
  "issue_initial_authorization_or_release engagement now issued =
     (if ps_state engagement \<noteq> ''open'' then raise EngagementClosed
      else case issued of
        Inr pair \<Rightarrow> ret pair
      | Inl (SpendAuthorizationRefused reason) \<Rightarrow>
          bind_op (release_unauthorized_engagement (ps_id engagement) now) (\<lambda>_.
          raise (AuthorizationRefused reason))
      | Inl e \<Rightarrow> raise e)"

definition issue_revision_authorization ::
  "error + (create_spend_authorization_request \<times> create_spend_authorization_response) \<Rightarrow>
   error + (create_spend_authorization_request \<times> create_spend_authorization_response)" where
  "issue_revision_authorization issued =
     (case issued of
        Inl (SpendAuthorizationRefused reason) \<Rightarrow> Inl (AuthorizationRefused reason)
      | _ \<Rightarrow> issued)"

end
