(* ===== verification/Sessions.thy ===== *)
theory Sessions
  imports Engagements
begin

text \<open>
  Paid sessions (\<open>domains/sessions/service.py\<close>): the preparation token, opening and refilling a
  session on the shared wholesale account, closing it from a broker-signed settlement, and the
  janitors that reconcile grants and silent sessions with the broker.

  The payer daemon, the broker and the registry are the answers they give (\<open>replenish_world\<close>,
  \<open>request_world\<close>, function arguments); a broker answer is what the client returns after its own
  checks (theory \<open>Broker\<close>). \<open>session_scope\<close> is the transaction every request and janitor runs in.
  Telemetry events and the percentages of the cap-status report are left out.
\<close>

section \<open>The transaction of a request\<close>

definition session_scope :: "('d txn, 'a) op \<Rightarrow> ('d, 'a) op" where
  "session_scope body db =
     (case body \<lparr>working = db, durable = db\<rparr> of
        (Inr x, s) \<Rightarrow> (Inr x, working s)
      | (Inl e, s) \<Rightarrow> (Inl e, durable s))"

section \<open>Preparation\<close>

text \<open>
  \<open>json.dumps\<close>/\<open>loads\<close>, \<open>hmac.digest\<close> under the session secret and URL-safe base64 (without padding).
\<close>

record token_codec =
  tc_dumps :: "json \<Rightarrow> bytes"
  tc_loads :: "bytes \<Rightarrow> json option"
  tc_hmac :: "bytes \<Rightarrow> bytes"
  tc_b64encode :: "bytes \<Rightarrow> string"
  tc_b64decode :: "string \<Rightarrow> bytes option"

text \<open>Python's own rendering of aware datetimes, and its parser.\<close>

record datetime_text =
  dt_isoformat :: "timestamp \<Rightarrow> string"
  dt_fromisoformat :: "string \<Rightarrow> datetime option"
  dt_json :: "timestamp \<Rightarrow> string"

definition PREPARATION_DOMAIN :: bytes where
  "PREPARATION_DOMAIN = ascii_bytes ''loc-session-preparation/v1'' @ [0]"

definition PREPARATION_TTL :: int where
  "PREPARATION_TTL = seconds 300"

definition encode_preparation :: "token_codec \<Rightarrow> (string \<times> json) list \<Rightarrow> string" where
  "encode_preparation codec payload =
     (let raw = tc_dumps codec (JObj payload);
          signature = tc_hmac codec (PREPARATION_DOMAIN @ raw)
      in tc_b64encode codec raw @ ''.'' @ hex signature)"

text \<open>\<open>token.split(".", 1)\<close> with exactly two parts.\<close>

definition split_dot :: "string \<Rightarrow> (string \<times> string) option" where
  "split_dot token =
     (if CHR ''.'' \<in> set token
      then Some (takeWhile (\<lambda>c. c \<noteq> CHR ''.'') token, tl (dropWhile (\<lambda>c. c \<noteq> CHR ''.'') token))
      else None)"

definition decode_preparation :: "token_codec \<Rightarrow> string \<Rightarrow> error + (string \<times> json) list" where
  "decode_preparation codec token =
     (let bad = Inl (InvalidSessionRequest ''invalid session preparation token'')
      in case split_dot token of
           None \<Rightarrow> bad
         | Some (encoded, supplied_signature) \<Rightarrow>
             (case tc_b64decode codec encoded of
                None \<Rightarrow> bad
              | Some raw \<Rightarrow>
                  if fromhex supplied_signature \<noteq> Some (tc_hmac codec (PREPARATION_DOMAIN @ raw)) then bad
                  else case tc_loads codec raw of
                    Some (JObj payload) \<Rightarrow> Inr payload
                  | _ \<Rightarrow> bad))"

text \<open>
  The members of an object are listed in the order of \<open>sort_keys=True\<close>, which is also the order they
  are parsed back in.
\<close>

definition binding_json :: "route_binding \<Rightarrow> json" where
  "binding_json b = JObj
     [(''constraint_fingerprint'', JStr (rb_constraint_fingerprint b)),
      (''quote_id'', JStr (rb_quote_id b)), (''quote_version'', JStr (str_int (rb_quote_version b))),
      (''route_fingerprint'', JStr (rb_route_fingerprint b)),
      (''settlement_domain_id'', JStr (rb_settlement_domain_id b))]"

definition preparation_scope ::
  "uuid \<Rightarrow> uuid \<Rightarrow> uuid \<Rightarrow> string \<Rightarrow> string \<Rightarrow> string \<Rightarrow> route_binding \<Rightarrow> (string \<times> json) list" where
  "preparation_scope user_id api_key_id gateway_session_id capability offering descriptor_schema binding =
     [(''api_key_id'', JStr api_key_id), (''capability'', JStr capability),
      (''descriptor_schema'', JStr descriptor_schema),
      (''gateway_session_id'', JStr gateway_session_id), (''offering'', JStr offering),
      (''route_binding'', binding_json binding), (''user_id'', JStr user_id)]"

definition preparation_payload :: "(string \<times> json) list \<Rightarrow> string \<Rightarrow> (string \<times> json) list" where
  "preparation_payload scope expires_at =
     take 3 scope @ [(''expires_at'', JStr expires_at)] @ drop 3 scope"

record prepare_session_response =
  pr_gateway_session_id :: uuid
  pr_route_binding :: route_binding
  pr_broker_url :: string
  pr_preparation_token :: string
  pr_expires_at :: timestamp

definition prepare_session ::
  "token_codec \<Rightarrow> datetime_text \<Rightarrow> uuid \<Rightarrow> uuid \<Rightarrow> uuid \<Rightarrow> string \<Rightarrow> string \<Rightarrow> string \<Rightarrow> route_binding option \<Rightarrow>
   selected_route option \<Rightarrow> selected_route list \<Rightarrow> timestamp \<Rightarrow> error + prepare_session_response" where
  "prepare_session codec dt new_id user_id api_key_id capability offering descriptor_schema
     route_binding select select_many now =
     bind_r (select_bound_route select select_many route_binding) (\<lambda>found.
     case found of
       None \<Rightarrow> Inl (no_route route_binding capability offering)
     | Some route \<Rightarrow>
         if sr_protocol route \<noteq> PaidSession
         then Inl (ProtocolNotSupportedForSession (protocol_value (sr_protocol route)))
         else if (case sr_session route of None \<Rightarrow> True
                  | Some axes \<Rightarrow> sa_descriptor_schema axes \<noteq> descriptor_schema)
         then Inl (InvalidSessionRequest ''prepared route descriptor schema changed'')
         else
           bind_r (sr_binding route) (\<lambda>binding.
           let expires_at = now + PREPARATION_TTL;
               payload = preparation_payload
                 (preparation_scope user_id api_key_id new_id capability offering descriptor_schema binding)
                 (dt_isoformat dt expires_at)
           in Inr \<lparr>pr_gateway_session_id = new_id, pr_route_binding = binding,
                   pr_broker_url = sr_worker_url route,
                   pr_preparation_token = encode_preparation codec payload,
                   pr_expires_at = expires_at\<rparr>))"

text \<open>\<open>str(payload["expires_at"])\<close> of a value that is not a string is no ISO date.\<close>

definition verify_prepared_session ::
  "token_codec \<Rightarrow> datetime_text \<Rightarrow> string \<Rightarrow> uuid \<Rightarrow> uuid \<Rightarrow> uuid \<Rightarrow> string \<Rightarrow> string \<Rightarrow> string \<Rightarrow>
   selected_route \<Rightarrow> timestamp \<Rightarrow> error + unit" where
  "verify_prepared_session codec dt token gateway_session_id user_id api_key_id capability offering
     descriptor_schema route now =
     bind_r (decode_preparation codec token) (\<lambda>payload.
     bind_r (sr_binding route) (\<lambda>binding.
     if list_ex (\<lambda>(key, value). json_get payload key \<noteq> Some value)
          (preparation_scope user_id api_key_id gateway_session_id capability offering
             descriptor_schema binding)
     then Inl (InvalidSessionRequest ''session preparation scope changed'')
     else case json_get payload ''expires_at'' of
       Some (JStr s) \<Rightarrow>
         (case dt_fromisoformat dt s of
            None \<Rightarrow> Inl (InvalidSessionRequest ''invalid session preparation expiry'')
          | Some expires_at \<Rightarrow>
              bind_r (datetime_le expires_at (Aware now)) (\<lambda>expired.
              if expired then Inl (InvalidSessionRequest ''session preparation expired'') else Inr ()))
     | _ \<Rightarrow> Inl (InvalidSessionRequest ''invalid session preparation expiry'')))"

section \<open>Replenishing the wholesale account\<close>

record session_settings =
  ss_billing :: billing_settings
  ss_chain_id :: int
  ss_wholesale_account_id :: string
  ss_funding_limits :: wholesale_funding_limits
  ss_session_authorization_ttl_seconds :: int

text \<open>
  The broker and the payer daemon during one replenishment: the account read first, the mint, the
  deposit, the account read after it; a fresh account key and SHA-256.
\<close>

record replenish_world =
  rw_account :: "error + wholesale_account_observation"
  rw_create_payment :: "create_payment_request \<Rightarrow> error + create_payment_response"
  rw_fund :: "bytes \<Rightarrow> error + wholesale_funding_result"
  rw_account_after :: "error + wholesale_account_observation"
  rw_new_account_id :: uuid
  rw_sha256_hex :: "bytes \<Rightarrow> string"

text \<open>During one request also: the predecessor's grant before and after, and the account at the end.\<close>

record request_world =
  qw_replenish :: replenish_world
  qw_predecessor_before :: "error + spend_authorization_observation"
  qw_predecessor_after :: "error + spend_authorization_observation"
  qw_account_ready :: "error + wholesale_account_observation"

definition WHOLESALE_ACCOUNT_PROTOCOL_VERSION :: string where
  "WHOLESALE_ACCOUNT_PROTOCOL_VERSION = ''wholesale-account/3.0.0-draft''"

definition account_identity_hash :: "(bytes \<Rightarrow> string) \<Rightarrow> wholesale_account_observation \<Rightarrow> string" where
  "account_identity_hash sha256_hex observation =
     take 32 (sha256_hex
       (ascii_bytes (str_int (ob_chain_id observation)) @ [0] @ ascii_bytes (ob_payer observation) @ [0] @
        ascii_bytes (ob_payee observation) @ [0] @
        ascii_bytes (ob_settlement_domain_id observation) @ [0] @
        ascii_bytes (ob_wholesale_account_id observation) @ [0] @
        ascii_bytes (ob_denomination observation)))"

text \<open>Every caller has committed or only read, so the session handed to the claim is clean.\<close>

definition replenish_wholesale_account ::
  "replenish_world \<Rightarrow> selected_route \<Rightarrow> string \<Rightarrow> string option \<Rightarrow> string option \<Rightarrow> timestamp \<Rightarrow>
   session_settings \<Rightarrow> wei option \<Rightarrow> (('z sessions_db_scheme) txn, wholesale_funding_plan) op" where
  "replenish_wholesale_account world route payer_eth_address mint_request_id correlation_id now
     settings required_reservation_wei =
     bind_op (of_result (rw_account world)) (\<lambda>observation.
     let identity_hash = account_identity_hash (rw_sha256_hex world) observation;
         (mint_id, correlation) = (case mint_request_id of
            Some m \<Rightarrow> (m, correlation_id)
          | None \<Rightarrow> (''loc-account:auto:'' @ identity_hash @ '':'' @ str_int (ob_version observation),
                      Some (''wholesale-account:'' @ identity_hash)))
     in bind_op (of_result (target_fits_hard_limits (ss_funding_limits settings))) (\<lambda>base_limits.
        bind_op (of_result (case required_reservation_wei of
            None \<Rightarrow> Inr base_limits
          | Some required \<Rightarrow> admission_funding_limits base_limits required)) (\<lambda>limits.
        bind_op (of_result (settlement_domain_id (sr_settlement_domain_id route))) (\<lambda>domain.
        bind_op (on_db (plan_observed_account_shortfall observation domain limits)) (\<lambda>plan.
        bind_op (claim_account_funding True (rw_new_account_id world) route observation domain plan
                   limits mint_id correlation WHOLESALE_ACCOUNT_PROTOCOL_VERSION) (\<lambda>funding.
        bind_op (complete_account_funding (rw_sha256_hex world) funding route observation domain plan
                   payer_eth_address (rw_create_payment world) (rw_fund world) (rw_account_after world)
                   now) (\<lambda>_.
        ret plan)))))))"

definition session_reservation_requirement ::
  "(error + spend_authorization_observation) \<Rightarrow> spend_authorization_grant \<Rightarrow>
   ('z sessions_db_scheme, wei) op" where
  "session_reservation_requirement reply grant =
     (case gr_predecessor_authorization_id grant of
        None \<Rightarrow> ret (gr_max_debit_wei grant)
      | Some pid \<Rightarrow>
          bind_op (gets (\<lambda>db. find_grant db (gr_session_id grant) pid)) (\<lambda>found.
          case found of
            None \<Rightarrow> raise (policy_error ''revision predecessor scope is unavailable'')
          | Some predecessor \<Rightarrow>
              bind_op (require (\<not> (gr_wholesale_account_id predecessor \<noteq> gr_wholesale_account_id grant \<or>
                          gr_settlement_domain_id predecessor \<noteq> gr_settlement_domain_id grant \<or>
                          gr_payer_eth_address predecessor \<noteq> gr_payer_eth_address grant \<or>
                          gr_route_snapshot predecessor \<noteq> gr_route_snapshot grant))
                         (policy_error ''revision predecessor scope is unavailable'')) (\<lambda>_.
              bind_op (of_result reply) (\<lambda>observed.
              let reusable = so_billed_value_wei observed + so_reserved_value_wei observed
              in bind_op (require (\<not> (so_wholesale_account_id observed \<noteq> gr_wholesale_account_id grant \<or>
                             so_settlement_domain_id observed \<noteq> gr_settlement_domain_id grant \<or>
                             so_payee observed \<noteq> rs_eth_address (gr_route_snapshot grant) \<or>
                             so_payer observed \<noteq> gr_payer_eth_address grant \<or>
                             so_authorization_id observed \<noteq> gr_authorization_id predecessor \<or>
                             so_state observed \<noteq> Admitted \<or>
                             gr_max_debit_wei predecessor < reusable \<or>
                             gr_max_total_units predecessor < so_actual_units observed))
                            (policy_error ''revision predecessor admission is unverified'')) (\<lambda>_.
                 ret (max (gr_max_debit_wei grant - reusable) 0))))))"

text \<open>The two exceptions that become \<open>WholesaleFundingUnverified\<close>.\<close>

definition funding_unverified :: "error \<Rightarrow> error" where
  "funding_unverified e =
     (case e of
        WholesaleFundingPolicyError msg \<Rightarrow> WholesaleFundingUnverified msg
      | BrokerWholesaleAccountError msg \<Rightarrow> WholesaleFundingUnverified msg
      | _ \<Rightarrow> e)"

definition replenish_for_request ::
  "request_world \<Rightarrow> spend_authorization_grant \<Rightarrow> selected_route \<Rightarrow> string \<Rightarrow> string \<Rightarrow> string \<Rightarrow> timestamp \<Rightarrow>
   session_settings \<Rightarrow> (('z sessions_db_scheme) txn, wholesale_funding_plan) op" where
  "replenish_for_request world grant route payer_eth_address mint_request_id correlation_id now settings =
     catch_op
       (bind_op (require (gr_wholesale_account_id grant = ss_wholesale_account_id settings)
                  (policy_error ''persisted grant account differs from configuration'')) (\<lambda>_.
        bind_op (on_db (session_reservation_requirement (qw_predecessor_before world) grant)) (\<lambda>required.
        bind_op (replenish_wholesale_account (qw_replenish world) route payer_eth_address
                   (Some mint_request_id) (Some correlation_id) now settings (Some required)) (\<lambda>plan.
        bind_op (on_db (session_reservation_requirement (qw_predecessor_after world) grant)) (\<lambda>required'.
        bind_op (of_result (verify_admission_funding_readiness (qw_account_ready world) route
                   (gr_payer_eth_address grant) (gr_chain_id grant) (gr_wholesale_account_id grant)
                   required')) (\<lambda>_.
        ret plan))))))
       (\<lambda>e. raise (funding_unverified e))"

section \<open>Opening\<close>

record create_session_response =
  cs_session_id :: uuid
  cs_request_id :: string
  cs_work_id :: string
  cs_broker_url :: string
  cs_spend_authorization :: bytes
  cs_expected_value_wei :: wei
  cs_opened_at :: timestamp

definition open_wholesale_session ::
  "('z sessions_db_scheme) option \<Rightarrow> request_world \<Rightarrow>
   (create_spend_authorization_request \<Rightarrow> error + create_spend_authorization_response) \<Rightarrow> uuid \<Rightarrow>
   uuid \<Rightarrow> uuid \<Rightarrow> selected_route \<Rightarrow> int \<Rightarrow> int \<Rightarrow> wei \<Rightarrow> string \<Rightarrow> bytes \<Rightarrow> bytes \<Rightarrow> timestamp \<Rightarrow>
   session_settings \<Rightarrow> string option \<Rightarrow> int \<Rightarrow> int \<Rightarrow> uuid \<Rightarrow>
   (('z sessions_db_scheme) txn, create_session_response) op" where
  "open_wholesale_session conflict world sign new_id user_id api_key_id route estimated_runway_units
     max_total_units max_debit_wei request_id request_digest caller_public_key now settings
     sdk_identity spend_period_seconds spend_period_cap_wei gateway_session_id =
     bind_op (claim_wholesale_engagement conflict new_id user_id api_key_id route request_id
                estimated_runway_units max_total_units max_debit_wei now sdk_identity
                spend_period_seconds spend_period_cap_wei (Some gateway_session_id)) (\<lambda>session_row.
     let authorization_id = ''loc-auth:'' @ request_id;
         issued = issue_route_locked_authorization sign route authorization_id request_id
           (ps_id session_row) request_digest caller_public_key max_debit_wei max_total_units now
           (now + seconds (ss_session_authorization_ttl_seconds settings)) (ss_chain_id settings)
           (ss_wholesale_account_id settings) 0 []
     in bind_op (issue_initial_authorization_or_release session_row now issued)
          (\<lambda>(auth_request, auth_response).
        bind_op (of_result (settlement_domain_id (sr_settlement_domain_id route))) (\<lambda>domain.
        bind_op (on_db (record_spend_authorization_grant (ps_id session_row) user_id route domain
                   auth_request auth_response)) (\<lambda>grant.
        bind_op commit (\<lambda>_.
        bind_op (replenish_for_request world grant route (''0x'' @ hex (ar_payer auth_response))
                   (''loc-account:'' @ request_id) (ps_id session_row) now settings) (\<lambda>plan.
        ret \<lparr>cs_session_id = ps_id session_row, cs_request_id = request_id,
             cs_work_id = authorization_id, cs_broker_url = sr_worker_url route,
             cs_spend_authorization = ar_authorization_bytes auth_response,
             cs_expected_value_wei = wp_shortfall_wei plan,
             cs_opened_at = ps_opened_at session_row\<rparr>))))))"

definition open_session ::
  "token_codec \<Rightarrow> datetime_text \<Rightarrow> ('z sessions_db_scheme) option \<Rightarrow> request_world option \<Rightarrow>
   (create_spend_authorization_request \<Rightarrow> error + create_spend_authorization_response) \<Rightarrow>
   selected_route option \<Rightarrow> selected_route list \<Rightarrow> uuid \<Rightarrow> uuid \<Rightarrow> uuid \<Rightarrow> string \<Rightarrow> string \<Rightarrow> int \<Rightarrow> int \<Rightarrow>
   string option \<Rightarrow> timestamp \<Rightarrow> session_settings \<Rightarrow> string \<Rightarrow> route_binding option \<Rightarrow> string \<Rightarrow> bytes \<Rightarrow>
   bytes \<Rightarrow> uuid \<Rightarrow> string \<Rightarrow> (('z sessions_db_scheme) txn, create_session_response) op" where
  "open_session codec dt conflict world sign select select_many new_id user_id api_key_id capability
     offering estimated_runway_units max_total_units sdk_identity now settings descriptor_schema
     route_binding request_id workload_request_digest caller_public_key gateway_session_id
     preparation_token =
     bind_op (require (estimated_runway_units \<le> max_total_units)
                (request_error ''max_total_units must be >= estimated_runway_units'')) (\<lambda>_.
     bind_op (on_db (resolve_billing_config user_id (ss_billing settings))) (\<lambda>cfg.
     bind_op (of_result (select_bound_route select select_many route_binding)) (\<lambda>found.
     case found of
       None \<Rightarrow> raise (no_route route_binding capability offering)
     | Some route \<Rightarrow>
         bind_op (require (sr_protocol route = PaidSession)
                    (ProtocolNotSupportedForSession (protocol_value (sr_protocol route)))) (\<lambda>_.
         bind_op (require (sr_settlement_keys route \<noteq> []) (NoSettlementDelegation capability offering)) (\<lambda>_.
         case sr_session route of
           None \<Rightarrow> raise (request_error ''session route declaration is unavailable'')
         | Some session_axes \<Rightarrow>
             bind_op (require (sa_descriptor_schema session_axes = descriptor_schema)
                        (request_error ''offering declares another descriptor schema'')) (\<lambda>_.
             bind_op (of_result (bill_value_wei max_total_units (sr_price_per_work_unit_wei route)
                        (sr_units_per_price route))) (\<lambda>worst_case_value_wei.
             bind_op (on_db (get_balance user_id)) (\<lambda>balance.
             bind_op (require (worst_case_value_wei \<le> cb_amount_wei balance)
                        (InsufficientCredit (cb_amount_wei balance) worst_case_value_wei)) (\<lambda>_.
             bind_op (of_result (verify_prepared_session codec dt preparation_token gateway_session_id
                        user_id api_key_id capability offering descriptor_schema route now)) (\<lambda>_.
             case world of
               None \<Rightarrow> raise (DaemonUnavailable ''wholesale-account'' ''broker account client is unavailable'')
             | Some w \<Rightarrow>
                 open_wholesale_session conflict w sign new_id user_id api_key_id route
                   estimated_runway_units max_total_units worst_case_value_wei request_id
                   workload_request_digest caller_public_key now settings sdk_identity
                   (rbc_spend_period_seconds cfg) (rbc_spend_period_cap_wei cfg)
                   gateway_session_id))))))))))"

section \<open>Refilling\<close>

definition selected_route_from_snapshot :: "route_snapshot \<Rightarrow> error + selected_route" where
  "selected_route_from_snapshot snapshot =
     (case (fromhex (rs_constraint_fingerprint snapshot), fromhex (rs_route_fingerprint snapshot)) of
        (Some constraint_fingerprint, Some route_fingerprint) \<Rightarrow>
          SelectedRoute
            \<lparr>sr_worker_url = rs_broker_url snapshot, sr_eth_address = rs_eth_address snapshot,
             sr_capability = rs_capability snapshot, sr_offering = rs_offering snapshot,
             sr_price_per_work_unit_wei = rs_price_per_work_unit_wei snapshot,
             sr_work_unit = rs_work_unit snapshot, sr_units_per_price = rs_units_per_price snapshot,
             sr_quote_id = rs_quote_id snapshot, sr_quote_version = rs_quote_version snapshot,
             sr_constraint_fingerprint = constraint_fingerprint,
             sr_route_fingerprint = route_fingerprint,
             sr_settlement_domain_id = rs_settlement_domain_id snapshot,
             sr_protocol = rs_protocol snapshot, sr_settlement_keys = rs_settlement_keys snapshot,
             sr_work_unit_estimator = rs_work_unit_estimator snapshot, sr_extra = rs_extra snapshot\<rparr>
      | _ \<Rightarrow> Inl (ValueError ''non-hexadecimal number found in fromhex()''))"

definition route_from_persisted_snapshot :: "payment_session \<Rightarrow> error + selected_route" where
  "route_from_persisted_snapshot session_row =
     (case ps_route_snapshot session_row of
        None \<Rightarrow> Inl (ValueError ''invalid route snapshot'')
      | Some raw \<Rightarrow> bind_r (RouteSnapshot raw) selected_route_from_snapshot)"

text \<open>
  The new revision, which the caller commits: the predecessor, the new caps, the larger hold, the signed
  grant and the session row.
\<close>

definition revise_cap ::
  "(create_spend_authorization_request \<Rightarrow> error + create_spend_authorization_response) \<Rightarrow>
   payment_session \<Rightarrow> uuid \<Rightarrow> selected_route \<Rightarrow> int \<Rightarrow> bytes \<Rightarrow> string \<Rightarrow> timestamp \<Rightarrow> session_settings \<Rightarrow>
   resolved_billing_config \<Rightarrow> ('z sessions_db_scheme, spend_authorization_grant) op" where
  "revise_cap sign session_row user_id route requested_max_total_units request_digest request_id now
     settings cfg =
     bind_op (require (ps_max_total_units session_row < requested_max_total_units)
                (request_error ''wholesale cap revision must increase max_total_units'')) (\<lambda>_.
     case ps_authorization_id session_row of
       None \<Rightarrow> raise (request_error ''wholesale session has no current authorization'')
     | Some current \<Rightarrow>
         bind_op (gets (\<lambda>db. find_grant db (ps_id session_row) current)) (\<lambda>found.
         case found of
           None \<Rightarrow> raise (request_error ''authorization predecessor is unavailable'')
         | Some predecessor \<Rightarrow>
             bind_op (require (gr_wholesale_account_id predecessor = ss_wholesale_account_id settings)
                        (request_error ''authorization revision changed wholesale account'')) (\<lambda>_.
             bind_op (of_result (bill_value_wei requested_max_total_units
                        (sr_price_per_work_unit_wei route) (sr_units_per_price route))) (\<lambda>new_wholesale_cap.
             case (ps_customer_pricing session_row, ps_customer_max_debit_wei session_row) of
               (Some raw_pricing, Some old_cap) \<Rightarrow>
                 bind_op (of_result (fields_match_policy raw_pricing)) (\<lambda>pricing.
                 bind_op (of_result (calculate_customer_charge pricing requested_max_total_units
                            new_wholesale_cap)) (\<lambda>new_customer_cap.
                 let incremental_hold = new_customer_cap - old_cap;
                     next_revision = gr_revision predecessor + 1;
                     authorization_id = ''loc-auth:'' @ request_id
                 in bind_op (require (\<not> incremental_hold \<le> 0)
                        (request_error ''cap revision did not increase customer exposure'')) (\<lambda>_.
                    bind_op (increase_customer_engagement_cap user_id (ps_id session_row)
                        next_revision incremental_hold (Aware now) (rbc_spend_period_seconds cfg)
                        (rbc_spend_period_cap_wei cfg)) (\<lambda>_.
                    bind_op (of_result (case fromhex (gr_caller_public_key predecessor) of
                        None \<Rightarrow> Inl (ValueError ''non-hexadecimal number found in fromhex()'')
                      | Some key \<Rightarrow> Inr key)) (\<lambda>caller_public_key.
                    bind_op (of_result (issue_revision_authorization
                      (issue_route_locked_authorization sign route authorization_id request_id
                         (ps_id session_row) request_digest caller_public_key new_wholesale_cap
                         requested_max_total_units now
                         (now + seconds (ss_session_authorization_ttl_seconds settings))
                         (ss_chain_id settings) (ss_wholesale_account_id settings) next_revision
                         (gr_authorization_id predecessor)))) (\<lambda>(auth_request, auth_response).
                    bind_op (of_result (settlement_domain_id (sr_settlement_domain_id route))) (\<lambda>domain.
                    bind_op (record_spend_authorization_grant (ps_id session_row) user_id route domain
                      auth_request auth_response) (\<lambda>grant.
                    bind_op (modify (set_session (ps_id session_row) (\<lambda>s. s\<lparr>
                      ps_max_total_units := requested_max_total_units,
                      ps_funded_value_wei := new_wholesale_cap,
                      ps_customer_max_debit_wei := Some new_customer_cap,
                      ps_refill_seq := next_revision\<rparr>))) (\<lambda>_.
                    ret grant)))))))))
             | _ \<Rightarrow> raise (request_error ''wholesale customer pricing is unavailable'')))))"

record refill_session_response =
  rf_work_id :: string
  rf_request_id :: string
  rf_refill_seq :: int
  rf_spend_authorization :: bytes
  rf_expected_value_wei :: wei

definition refill_wholesale_session ::
  "request_world option \<Rightarrow>
   (create_spend_authorization_request \<Rightarrow> error + create_spend_authorization_response) \<Rightarrow>
   payment_session \<Rightarrow> uuid \<Rightarrow> int \<Rightarrow> bytes \<Rightarrow> string \<Rightarrow> timestamp \<Rightarrow> session_settings \<Rightarrow>
   resolved_billing_config \<Rightarrow> (('z sessions_db_scheme) txn, refill_session_response) op" where
  "refill_wholesale_session world sign session_row user_id requested_max_total_units request_digest
     request_id now settings cfg =
     (case world of
        None \<Rightarrow> raise (DaemonUnavailable ''wholesale-account'' ''broker account client is unavailable'')
      | Some w \<Rightarrow>
          bind_op (of_result (route_from_persisted_snapshot session_row)) (\<lambda>route.
          bind_op (require (case sr_session route of None \<Rightarrow> False
                      | Some axes \<Rightarrow> sa_refill axes = extensible) RefillNotSupported) (\<lambda>_.
          bind_op (read_db (\<lambda>db. find_grant db (ps_id session_row) (''loc-auth:'' @ request_id))) (\<lambda>found.
          bind_op (case found of
              None \<Rightarrow>
                bind_op (on_db (revise_cap sign session_row user_id route requested_max_total_units
                  request_digest request_id now settings cfg)) (\<lambda>g.
                bind_op commit (\<lambda>_.
                ret g))
            | Some g \<Rightarrow>
                bind_op (require (\<not> (gr_request_id g \<noteq> request_id \<or>
                     gr_max_total_units g \<noteq> requested_max_total_units \<or>
                     gr_request_digest g \<noteq> hex request_digest))
                   (request_error ''authorization revision replay changed scope'')) (\<lambda>_.
                ret g)) (\<lambda>revision_grant.
          bind_op (replenish_for_request w revision_grant route (gr_payer_eth_address revision_grant)
                     (''loc-account:'' @ request_id) (ps_id session_row) now settings) (\<lambda>plan.
          ret \<lparr>rf_work_id = gr_authorization_id revision_grant, rf_request_id = request_id,
               rf_refill_seq = gr_revision revision_grant,
               rf_spend_authorization = gr_authorization_bytes revision_grant,
               rf_expected_value_wei = wp_shortfall_wei plan\<rparr>))))))"

definition refill_session ::
  "request_world option \<Rightarrow>
   (create_spend_authorization_request \<Rightarrow> error + create_spend_authorization_response) \<Rightarrow>
   uuid \<Rightarrow> uuid \<Rightarrow> timestamp \<Rightarrow> session_settings \<Rightarrow> string \<Rightarrow> int \<Rightarrow> bytes \<Rightarrow>
   (('z sessions_db_scheme) txn, refill_session_response) op" where
  "refill_session world sign session_id user_id now settings request_id max_total_units
     workload_request_digest =
     bind_op (on_db (resolve_billing_config user_id (ss_billing settings))) (\<lambda>cfg.
     bind_op (read_db (\<lambda>db. get_session db session_id)) (\<lambda>found.
     case found of
       None \<Rightarrow> raise SessionNotFound
     | Some session_row \<Rightarrow>
         bind_op (require (ps_user_id session_row = user_id) SessionNotFound) (\<lambda>_.
         bind_op (require (ps_state session_row = ''open'') (SessionNotOpen (ps_state session_row))) (\<lambda>_.
         bind_op (require (ps_accounting_mode session_row = ''wholesale_account'')
            (request_error ''legacy sessions cannot be refilled by the wholesale-only release'')) (\<lambda>_.
         refill_wholesale_session world sign session_row user_id max_total_units
           workload_request_digest request_id now settings cfg)))))"

section \<open>Closing\<close>

definition infer_close_outcome :: "wei \<Rightarrow> wei \<Rightarrow> string" where
  "infer_close_outcome funded billed =
     (if funded < billed then ''UNDERFUNDED'' else if billed < funded then ''OVERFUNDED'' else ''EXACT'')"

definition verification_failed :: "string \<Rightarrow> error" where
  "verification_failed reason = SessionSettlementVerificationFailed reason"

definition delegation_of :: "datetime_text \<Rightarrow> settlement_key \<Rightarrow> delegation" where
  "delegation_of dt key =
     \<lparr>dg_public_key = Some (JStr (sk_public_key key)), dg_not_before = Some (dt_json dt (sk_not_before key)),
      dg_expires_at = Some (dt_json dt (sk_expires_at key))\<rparr>"

text \<open>The exceptions \<open>_verify_close_settlement\<close> translates.\<close>

definition close_reason :: "error \<Rightarrow> error" where
  "close_reason e =
     (case e of
        SettlementVerificationError code \<Rightarrow> verification_failed code
      | KeyError _ \<Rightarrow> verification_failed ''invalid_snapshot''
      | TypeError _ \<Rightarrow> verification_failed ''invalid_snapshot''
      | ValueError _ \<Rightarrow> verification_failed ''invalid_snapshot''
      | _ \<Rightarrow> e)"

definition authorization_hint :: "(string \<times> json) list \<Rightarrow> string option" where
  "authorization_hint settlement =
     (case json_get settlement ''payload'' of
        Some (JObj payload) \<Rightarrow>
          (case json_get payload ''authorization_id'' of
             Some (JStr s) \<Rightarrow> some_nonempty s
           | _ \<Rightarrow> None)
      | _ \<Rightarrow> None)"

definition close_expectation ::
  "payment_session \<Rightarrow> route_snapshot \<Rightarrow> spend_authorization_grant \<Rightarrow> string \<Rightarrow> bool \<Rightarrow>
   error + session_settlement_expectation" where
  "close_expectation session_row snapshot grant predecessor_work_id require_terminal =
     (case (fromhex (rs_constraint_fingerprint snapshot), fromhex (rs_route_fingerprint snapshot)) of
        (Some constraint_fingerprint, Some route_fingerprint) \<Rightarrow> Inr
          \<lparr>se_wholesale_account_id = gr_wholesale_account_id grant,
           se_settlement_domain_id = gr_settlement_domain_id grant,
           se_gateway_session_id = ps_id session_row,
           se_broker_session_id = ps_broker_session_id session_row,
           se_work_id = gr_authorization_id grant, se_predecessor_work_id = predecessor_work_id,
           se_rotation_generation = ps_rotation_generation session_row,
           se_work_unit = rs_work_unit snapshot, se_amount_wei = rs_price_per_work_unit_wei snapshot,
           se_per_units = rs_units_per_price snapshot,
           se_quote_ref =
             \<lparr>qr_quote_id = rs_quote_id snapshot, qr_quote_version = rs_quote_version snapshot,
              qr_constraint_fingerprint = constraint_fingerprint,
              qr_route_fingerprint = route_fingerprint\<rparr>,
           se_funded_value_wei = ps_funded_value_wei session_row,
           se_last_settlement_seq = ps_last_settlement_seq session_row,
           se_authorization_id = Some (gr_authorization_id grant),
           se_authorized_value_wei = Some (gr_max_debit_wei grant),
           se_require_terminal = require_terminal\<rparr>
      | _ \<Rightarrow> Inl (ValueError ''non-hexadecimal number found in fromhex()''))"

definition verify_close_settlement ::
  "verifier \<Rightarrow> datetime_text \<Rightarrow> payment_session \<Rightarrow> (string \<times> json) list option \<Rightarrow> bool \<Rightarrow>
   ('z sessions_db_scheme, verified_session_settlement) op" where
  "verify_close_settlement v dt session_row settlement_opt require_terminal =
     (case settlement_opt of
        None \<Rightarrow> raise (verification_failed ''missing_settlement'')
      | Some settlement \<Rightarrow>
          bind_op (require (json_get settlement ''signature'' \<notin> {None, Some JNull})
                     (verification_failed ''missing_signature'')) (\<lambda>_.
          case ps_route_snapshot session_row of
            None \<Rightarrow> raise (verification_failed ''missing_delegation'')
          | Some snapshot \<Rightarrow>
              bind_op (require (rs_settlement_keys snapshot \<noteq> [])
                         (verification_failed ''missing_delegation'')) (\<lambda>_.
              bind_op (require (\<not> (0 < ps_rotation_generation session_row \<and>
                           ps_predecessor_work_id session_row \<in> {None, Some []}))
                         (verification_failed ''missing_rotation_predecessor'')) (\<lambda>_.
              let predecessor_work_id =
                    (if 0 < ps_rotation_generation session_row
                     then the (ps_predecessor_work_id session_row) else [])
              in case authorization_hint settlement of
                   None \<Rightarrow> raise (verification_failed ''missing_authorization'')
                 | Some hint \<Rightarrow>
                     bind_op (gets (\<lambda>db. find_grant db (ps_id session_row) hint)) (\<lambda>found.
                     case found of
                       None \<Rightarrow> raise (verification_failed ''missing_authorization'')
                     | Some grant \<Rightarrow>
                         catch_op (of_result
                           (bind_r (close_expectation session_row snapshot grant predecessor_work_id
                                      require_terminal) (\<lambda>expected.
                            verify_session_settlement v settlement
                              (map (delegation_of dt) (rs_settlement_keys snapshot)) expected)))
                           (\<lambda>e. raise (close_reason e)))))))"

record close_session_response =
  cz_session_id :: uuid
  cz_work_id :: string
  cz_actual_units :: int
  cz_billed_value_wei :: wei
  cz_refund_wei :: wei
  cz_outcome :: string
  cz_closed_at :: timestamp

definition replay_closed_session ::
  "payment_session \<Rightarrow> (string \<times> json) list option \<Rightarrow> int \<Rightarrow> string option \<Rightarrow>
   ('z sessions_db_scheme, close_session_response) op" where
  "replay_closed_session row settlement actual_units outcome =
     bind_op (gets (\<lambda>db. find (\<lambda>e. pe_session_id e = ps_id row \<and> pe_event_type e = ''close'')
         (settlements db))) (\<lambda>previous.
     bind_op (require (case previous of
          None \<Rightarrow> False
        | Some p \<Rightarrow> settlement \<noteq> None \<and> pe_raw_record p = settlement \<and>
            ps_actual_units row = Some actual_units \<and> (outcome = None \<or> outcome = ps_outcome row))
        (SessionNotOpen (ps_state row))) (\<lambda>_.
     case (ps_closed_at row, ps_actual_units row, ps_billed_value_wei row,
           ps_customer_max_debit_wei row, ps_outcome row) of
       (Some closed_at, Some units, Some billed, Some cap, Some final) \<Rightarrow>
         ret \<lparr>cz_session_id = ps_id row, cz_work_id = ps_work_id row, cz_actual_units = units,
              cz_billed_value_wei = billed, cz_refund_wei = max (cap - billed) 0,
              cz_outcome = final, cz_closed_at = closed_at\<rparr>
     | _ \<Rightarrow> raise AssertionError))"

definition require_retired_successors ::
  "payment_session \<Rightarrow> string \<Rightarrow> ('z sessions_db_scheme, unit) op" where
  "require_retired_successors row authorization_id =
     bind_op (gets (\<lambda>db. filter (\<lambda>g. gr_session_id g = ps_id row) (grants db))) (\<lambda>rows.
     case find (\<lambda>g. gr_authorization_id g = authorization_id) rows of
       None \<Rightarrow> raise (RuntimeError ''coroutine raised StopIteration'')
     | Some settled \<Rightarrow>
         (case find (\<lambda>g. gr_revision settled < gr_revision g \<and>
                 \<not> (gr_state g \<in> set [''canceled_unused'', ''expired_unused''] \<and> gr_retired_at g \<noteq> None)) rows of
            None \<Rightarrow> ret ()
          | Some g \<Rightarrow> raise (SuccessorAuthorizationUnresolved (ps_id row) (gr_authorization_id g))))"

definition diagnostics_json :: "datetime_text \<Rightarrow> verified_session_settlement \<Rightarrow> (string \<times> json) list" where
  "diagnostics_json dt verified =
     (let entry = (\<lambda>key value. case value of None \<Rightarrow> [] | Some s \<Rightarrow> [(key, JStr s)])
      in entry ''termination_reason'' (vs_termination_reason verified) @
         entry ''output_state'' (vs_output_state verified) @
         entry ''output_state_since'' (map_option (dt_isoformat dt) (vs_output_state_since verified)) @
         entry ''last_failure_code'' (vs_last_failure_code verified))"

definition dict_set :: "string \<Rightarrow> json \<Rightarrow> (string \<times> json) list \<Rightarrow> (string \<times> json) list" where
  "dict_set key value d =
     (if key \<in> fst ` set d then map (\<lambda>(k, x). if k = key then (k, value) else (k, x)) d
      else d @ [(key, value)])"

definition close_breakdown ::
  "datetime_text \<Rightarrow> verified_session_settlement \<Rightarrow> (string \<times> json) list option \<Rightarrow>
   (string \<times> json) list option" where
  "close_breakdown dt verified breakdown =
     (let prior = filter (\<lambda>(k, _). k \<noteq> ''settlement_block'') (case breakdown of None \<Rightarrow> [] | Some b \<Rightarrow> b);
          diagnostics = diagnostics_json dt verified;
          prior' = (if diagnostics = [] then prior
                    else dict_set ''broker_diagnostics'' (JObj diagnostics) prior)
      in if prior' = [] then None else Some prior')"

text \<open>The accounting of a verified settlement, before anything is written.\<close>

definition close_accounting ::
  "payment_session \<Rightarrow> verified_session_settlement \<Rightarrow> string option \<Rightarrow> error + (wei \<times> wei \<times> string)" where
  "close_accounting session_row verified outcome =
     (case (ps_customer_pricing session_row, ps_customer_max_debit_wei session_row) of
        (Some raw_pricing, Some cap) \<Rightarrow>
          bind_r (fields_match_policy raw_pricing) (\<lambda>pricing.
          bind_r (calculate_customer_charge pricing (vs_debited_units verified)
                    (vs_billed_value_wei verified)) (\<lambda>billed_value_wei.
          if cap < billed_value_wei then Inl (verification_failed ''customer_cap_exceeded'')
          else
            let signed_outcome =
                  (if vs_outcome verified = ''SETTLEMENT_OUTCOME_UNSPECIFIED''
                   then infer_close_outcome (ps_funded_value_wei session_row) billed_value_wei
                   else vs_outcome verified)
            in if outcome \<noteq> None \<and> outcome \<noteq> Some signed_outcome
               then Inl (verification_failed ''outcome_mismatch'')
               else Inr (billed_value_wei, cap - billed_value_wei, signed_outcome)))
      | _ \<Rightarrow> Inl (verification_failed ''missing_customer_pricing''))"

text \<open>The writes of a close: the row, the refund, the grant and the event.\<close>

definition finalize_close ::
  "datetime_text \<Rightarrow> payment_session \<Rightarrow> uuid \<Rightarrow> verified_session_settlement \<Rightarrow> (string \<times> json) list \<Rightarrow>
   wei \<Rightarrow> wei \<Rightarrow> string \<Rightarrow> timestamp \<Rightarrow> ('z sessions_db_scheme, close_session_response) op" where
  "finalize_close dt session_row user_id verified settlement billed_value_wei refund_wei final_outcome now =
     bind_op (transition_state (ps_id session_row) (ps_state session_row) ''closed'' now) (\<lambda>_.
     bind_op (if 0 < refund_wei
              then bind_op (release_customer_engagement user_id (ps_id session_row) refund_wei) (\<lambda>_. ret ())
              else ret ()) (\<lambda>_.
     bind_op (modify (set_session (ps_id session_row) (\<lambda>s. s\<lparr>
         ps_actual_units := Some (vs_debited_units verified),
         ps_billed_value_wei := Some billed_value_wei, ps_outcome := Some final_outcome,
         ps_broker_session_id := Some (vs_broker_session_id verified),
         ps_last_settlement_seq := vs_settlement_seq verified,
         ps_breakdown := close_breakdown dt verified (ps_breakdown s)\<rparr>))) (\<lambda>_.
     case authorization_hint settlement of
       None \<Rightarrow> raise (verification_failed ''missing_authorization'')
     | Some settled_authorization_id \<Rightarrow>
         bind_op (modify (set_session (ps_id session_row) (\<lambda>s. s\<lparr>
             ps_authorization_id := Some settled_authorization_id,
             ps_work_id := settled_authorization_id\<rparr>))) (\<lambda>_.
         bind_op (mark_spend_authorization_settled (ps_id session_row) settled_authorization_id now) (\<lambda>_.
         bind_op (record_settlement (ps_id session_row) ''close'' now (Some (vs_debited_units verified))
             (Some billed_value_wei) (Some final_outcome) (Some settlement)) (\<lambda>_.
         ret \<lparr>cz_session_id = ps_id session_row, cz_work_id = settled_authorization_id,
              cz_actual_units = vs_debited_units verified, cz_billed_value_wei = billed_value_wei,
              cz_refund_wei = max refund_wei 0, cz_outcome = final_outcome, cz_closed_at = now\<rparr>))))))"

definition close_session ::
  "verifier \<Rightarrow> datetime_text \<Rightarrow> uuid \<Rightarrow> uuid \<Rightarrow> int \<Rightarrow> string option \<Rightarrow> (string \<times> json) list option \<Rightarrow>
   timestamp \<Rightarrow> ('z sessions_db_scheme, close_session_response) op" where
  "close_session v dt session_id user_id actual_units outcome settlement_opt now =
     bind_op (gets (\<lambda>db. get_session db session_id)) (\<lambda>found.
     case found of
       None \<Rightarrow> raise SessionNotFound
     | Some session_row \<Rightarrow>
         bind_op (require (ps_user_id session_row = user_id) SessionNotFound) (\<lambda>_.
         if ps_state session_row = ''closed''
         then replay_closed_session session_row settlement_opt actual_units outcome
         else
           bind_op (require (ps_accounting_mode session_row = ''wholesale_account'')
                      (verification_failed ''legacy_accounting_disabled'')) (\<lambda>_.
           bind_op (verify_close_settlement v dt session_row settlement_opt True) (\<lambda>verified.
           bind_op (require (actual_units = vs_debited_units verified)
                      (verification_failed ''work_units_mismatch'')) (\<lambda>_.
           case settlement_opt of
             None \<Rightarrow> raise AssertionError
           | Some settlement \<Rightarrow>
               bind_op (require_retired_successors session_row (vs_work_id verified)) (\<lambda>_.
               bind_op (of_result (close_accounting session_row verified outcome))
                 (\<lambda>(billed_value_wei, refund_wei, final_outcome).
               finalize_close dt session_row user_id verified settlement billed_value_wei refund_wei
                 final_outcome now)))))))"

section \<open>Maintaining active accounts\<close>

record active_wholesale_account_route =
  aw_route_snapshot :: route_snapshot
  aw_payer_eth_address :: string
  aw_chain_id :: int
  aw_wholesale_account_id :: string
  aw_settlement_domain_id :: string
  aw_denomination :: string

definition candidate_identity ::
  "active_wholesale_account_route \<Rightarrow> int \<times> string \<times> string \<times> string \<times> string \<times> string" where
  "candidate_identity a =
     (aw_chain_id a, aw_payer_eth_address a, lower (rs_eth_address (aw_route_snapshot a)),
      aw_settlement_domain_id a, aw_wholesale_account_id a, aw_denomination a)"

definition active_candidate ::
  "payment_session \<times> spend_authorization_grant \<Rightarrow> error + active_wholesale_account_route" where
  "active_candidate = (\<lambda>(session_row, grant).
     bind_r (RouteSnapshot (gr_route_snapshot grant)) (\<lambda>snapshot.
     case ps_route_snapshot session_row of
       None \<Rightarrow> Inl (request_error ''active wholesale route snapshot is unavailable'')
     | Some raw \<Rightarrow>
         bind_r (RouteSnapshot raw) (\<lambda>session_snapshot.
         if rs_protocol snapshot \<noteq> PaidSession \<or>
            rs_settlement_domain_id snapshot \<noteq> gr_settlement_domain_id grant \<or>
            snapshot \<noteq> session_snapshot
         then Inl (request_error ''active wholesale route identity is inconsistent'')
         else Inr \<lparr>aw_route_snapshot = snapshot, aw_payer_eth_address = gr_payer_eth_address grant,
                   aw_chain_id = gr_chain_id grant,
                   aw_wholesale_account_id = gr_wholesale_account_id grant,
                   aw_settlement_domain_id = gr_settlement_domain_id grant,
                   aw_denomination = gr_denomination grant\<rparr>)))"

fun collect_candidates ::
  "active_wholesale_account_route list \<Rightarrow> (payment_session \<times> spend_authorization_grant) list \<Rightarrow>
   error + active_wholesale_account_route list" where
  "collect_candidates acc [] = Inr acc"
| "collect_candidates acc (row # rows) =
     bind_r (active_candidate row) (\<lambda>a.
     collect_candidates (if candidate_identity a \<in> candidate_identity ` set acc then acc else acc @ [a]) rows)"

text \<open>
  \<open>rows\<close> is the join of the live paid sessions with their current grant, in the order of the
  session keys; \<open>rank\<close> is that order on UUIDs.
\<close>

definition active_rows ::
  "(uuid \<Rightarrow> nat) \<Rightarrow> ('z sessions_db_scheme) \<Rightarrow> (payment_session \<times> spend_authorization_grant) list" where
  "active_rows rank db =
     concat (map (\<lambda>s. map (Pair s) (filter
         (\<lambda>g. gr_session_id g = ps_id s \<and> ps_authorization_id s = Some (gr_authorization_id g)) (grants db)))
       (sort_key (\<lambda>s. rank (ps_id s)) (filter
         (\<lambda>s. ps_protocol s = PAID_SESSION_PROTOCOL \<and> ps_accounting_mode s = ''wholesale_account'' \<and>
              ps_state s \<in> set [''open'', ''draining'']) (sessions db))))"

definition list_active_wholesale_account_routes ::
  "(uuid \<Rightarrow> nat) \<Rightarrow> ('z sessions_db_scheme, active_wholesale_account_route list) op" where
  "list_active_wholesale_account_routes rank =
     bind_op (gets (active_rows rank)) (\<lambda>rows. of_result (collect_candidates [] rows))"

definition replenish_active_wholesale_account ::
  "replenish_world \<Rightarrow> active_wholesale_account_route \<Rightarrow> timestamp \<Rightarrow> session_settings \<Rightarrow>
   (('z sessions_db_scheme) txn, wholesale_funding_plan) op" where
  "replenish_active_wholesale_account world candidate now settings =
     bind_op (require (aw_wholesale_account_id candidate = ss_wholesale_account_id settings)
                (request_error ''active wholesale route changed wholesale account'')) (\<lambda>_.
     bind_op (require (aw_chain_id candidate = ss_chain_id settings)
                (request_error ''active wholesale route changed chain'')) (\<lambda>_.
     bind_op (of_result (selected_route_from_snapshot (aw_route_snapshot candidate))) (\<lambda>route.
     bind_op (require (sr_settlement_domain_id route = aw_settlement_domain_id candidate)
                (request_error ''active wholesale route changed settlement domain'')) (\<lambda>_.
     replenish_wholesale_account world route (aw_payer_eth_address candidate) None None now settings None))))"

section \<open>Reconciling grants\<close>

text \<open>
  The broker's view of one grant: the authorization and, for a zero-use terminal state, the account.
  A grant the broker cannot be asked about, or answers inconsistently, is left as it is.
\<close>

definition terminal_state :: "spend_authorization_state \<Rightarrow> bool" where
  "terminal_state st \<longleftrightarrow> st \<in> {Settled, ExpiredUnused, CanceledUnused, Superseded}"

definition zero_use_verified ::
  "spend_authorization_grant \<Rightarrow> spend_authorization_observation \<Rightarrow>
   (error + wholesale_account_observation) \<Rightarrow> error + bool" where
  "zero_use_verified grant observed account_reply =
     (if so_payer observed \<noteq> lower (gr_payer_eth_address grant) \<or>
         so_authorization_id observed \<noteq> gr_authorization_id grant \<or> so_actual_units observed \<noteq> 0 \<or>
         so_billed_value_wei observed \<noteq> 0 \<or> so_reserved_value_wei observed \<noteq> 0 \<or>
         gr_state grant = ''admitted''
      then Inr False
      else if so_state observed = ExpiredUnused \<and>
         (case normalized_utc (gr_expires_at grant) of Aware t \<Rightarrow> so_observed_at observed < t
          | Naive _ \<Rightarrow> False)
      then Inr False
      else case account_reply of
        Inl (BrokerWholesaleAccountError _) \<Rightarrow> Inr False
      | Inl (KeyError _) \<Rightarrow> Inr False
      | Inl e \<Rightarrow> Inl e
      | Inr account \<Rightarrow> Inr (\<not> (
          ob_wholesale_account_id account \<noteq> gr_wholesale_account_id grant \<or>
          ob_settlement_domain_id account \<noteq> gr_settlement_domain_id grant \<or>
          ob_payer account \<noteq> lower (gr_payer_eth_address grant) \<or>
          ob_payee account \<noteq> lower (rs_eth_address (gr_route_snapshot grant)) \<or>
          ob_chain_id account \<noteq> gr_chain_id grant \<or> ob_denomination account \<noteq> gr_denomination grant)))"

text \<open>The grant after one observation, \<open>None\<close> when it stays as it is.\<close>

definition reconcile_grant ::
  "spend_authorization_grant \<Rightarrow> (error + spend_authorization_observation) \<Rightarrow>
   (error + wholesale_account_observation) \<Rightarrow> timestamp \<Rightarrow> error + spend_authorization_grant option" where
  "reconcile_grant grant reply account_reply now =
     (if rs_broker_url (gr_route_snapshot grant) = [] then Inr None
      else case reply of
        Inl (BrokerWholesaleAccountError _) \<Rightarrow> Inr None
      | Inl e \<Rightarrow> Inl e
      | Inr observed \<Rightarrow>
          if so_wholesale_account_id observed \<noteq> gr_wholesale_account_id grant \<or>
             so_payer observed \<noteq> lower (gr_payer_eth_address grant) \<or>
             so_authorization_id observed \<noteq> gr_authorization_id grant
          then Inr None
          else
            bind_r (if so_state observed \<in> {CanceledUnused, ExpiredUnused}
                    then zero_use_verified grant observed account_reply else Inr True) (\<lambda>verified.
            if \<not> verified then Inr None
            else if state_value (so_state observed) = gr_state grant then Inr None
            else if gr_state grant = ''admitted'' \<and> so_state observed \<in> {Issued, ExpiredUnused} then Inr None
            else if gr_state grant = ''outcome_unknown'' \<and> \<not> terminal_state (so_state observed) then Inr None
            else Inr (Some (grant\<lparr>gr_state := state_value (so_state observed),
                   gr_retired_at := (if terminal_state (so_state observed) then retired_or now grant
                                     else gr_retired_at grant)\<rparr>))))"

definition active_grant :: "spend_authorization_grant \<Rightarrow> bool" where
  "active_grant g \<longleftrightarrow> gr_state g \<in> set [''issued'', ''admitted'', ''outcome_unknown'']"

text \<open>One grant of the batch, read again under the lock of its session.\<close>

definition reconcile_row ::
  "(spend_authorization_grant \<Rightarrow> error + spend_authorization_observation) \<Rightarrow>
   (spend_authorization_grant \<Rightarrow> error + wholesale_account_observation) \<Rightarrow> timestamp \<Rightarrow> int \<Rightarrow>
   spend_authorization_grant \<Rightarrow> ('z sessions_db_scheme, int) op" where
  "reconcile_row query account now changed row =
     bind_op (gets (\<lambda>db. find_grant db (gr_session_id row) (gr_authorization_id row))) (\<lambda>found.
     case found of
       None \<Rightarrow> ret changed
     | Some grant \<Rightarrow>
         if \<not> active_grant grant then ret changed
         else
           bind_op (of_result (reconcile_grant grant (query grant) (account grant) now)) (\<lambda>result.
           case result of
             None \<Rightarrow> ret changed
           | Some grant' \<Rightarrow>
               bind_op (modify (set_grant (gr_authorization_id grant) (\<lambda>_. grant'))) (\<lambda>_.
               ret (changed + 1))))"

definition reconcile_spend_authorization_states ::
  "(spend_authorization_grant \<Rightarrow> error + spend_authorization_observation) \<Rightarrow>
   (spend_authorization_grant \<Rightarrow> error + wholesale_account_observation) \<Rightarrow> timestamp \<Rightarrow> nat \<Rightarrow>
   ('z sessions_db_scheme, int) op" where
  "reconcile_spend_authorization_states query account now batch_limit =
     bind_op (gets (\<lambda>db. take batch_limit (filter (\<lambda>g. active_grant g \<and>
         (\<exists>s \<in> set (sessions db). ps_id s = gr_session_id g \<and>
            ps_accounting_mode s = ''wholesale_account'')) (grants db)))) (\<lambda>rows.
     fold_op (reconcile_row query account now) 0 rows)"

section \<open>Finalizing silent sessions\<close>

definition signature_value :: "(string \<times> json) list \<Rightarrow> json option" where
  "signature_value settlement =
     (case json_get settlement ''signature'' of
        Some (JObj signature) \<Rightarrow> json_get signature ''value''
      | _ \<Rightarrow> None)"

text \<open>\<open>dict.get\<close> gives \<open>None\<close> for a missing key and for a stored null alike.\<close>

definition none_as_null :: "json option \<Rightarrow> json" where
  "none_as_null v = (case v of None \<Rightarrow> JNull | Some j \<Rightarrow> j)"

definition settlement_blocked :: "payment_session \<Rightarrow> (string \<times> json) list \<Rightarrow> bool" where
  "settlement_blocked session_row settlement \<longleftrightarrow>
     (case json_get (case ps_breakdown session_row of None \<Rightarrow> [] | Some b \<Rightarrow> b) ''settlement_block'' of
        Some (JObj block) \<Rightarrow>
          none_as_null (json_get block ''signature'') = none_as_null (signature_value settlement) \<and>
          json_get block ''policy'' = Some (JStr ''authorization-exhaustion-v1'')
      | _ \<Rightarrow> False)"

definition block_settlement ::
  "datetime_text \<Rightarrow> string \<Rightarrow> (string \<times> json) list \<Rightarrow> timestamp \<Rightarrow> payment_session \<Rightarrow> payment_session" where
  "block_settlement dt reason settlement now s = s\<lparr>ps_breakdown := Some (dict_set ''settlement_block''
     (JObj [(''policy'', JStr ''authorization-exhaustion-v1''), (''reason'', JStr reason),
            (''signature'', none_as_null (signature_value settlement)),
            (''first_seen'', JStr (dt_isoformat dt now)), (''last_seen'', JStr (dt_isoformat dt now)),
            (''attempts'', JInt 1)])
     (case ps_breakdown s of None \<Rightarrow> [] | Some b \<Rightarrow> b))\<rparr>"

text \<open>A settlement the broker returned for a session that is still open here.\<close>

definition apply_polled_settlement ::
  "verifier \<Rightarrow> datetime_text \<Rightarrow> timestamp \<Rightarrow> payment_session \<Rightarrow> (string \<times> json) list \<Rightarrow>
   ('z sessions_db_scheme, bool) op" where
  "apply_polled_settlement v dt now row settlement db =
     (case verify_close_settlement v dt row (Some settlement) False db of
        (Inl (SessionSettlementVerificationFailed reason), db1) \<Rightarrow>
          if reason = ''settlement_replay'' then (Inr False, db1)
          else (Inr False, set_session (ps_id row) (block_settlement dt reason settlement now) db1)
      | (Inl e, db1) \<Rightarrow> (Inl e, db1)
      | (Inr verified, db1) \<Rightarrow>
          if vs_state verified \<noteq> ''closed'' then (Inr False, db1)
          else (case close_session v dt (ps_id row) (ps_user_id row) (vs_debited_units verified) None
                  (Some settlement) now db1 of
              (Inl (SessionNotOpen _), db2) \<Rightarrow> (Inr False, db2)
            | (Inl (SuccessorAuthorizationUnresolved _ _), db2) \<Rightarrow> (Inr False, db2)
            | (Inl e, db2) \<Rightarrow> (Inl e, db2)
            | (Inr _, db2) \<Rightarrow> (Inr True, db2)))"

text \<open>One session of the batch; the result says whether it was finalized.\<close>

definition reconcile_open_session ::
  "verifier \<Rightarrow> datetime_text \<Rightarrow> (uuid \<Rightarrow> error + (string \<times> json) list option) \<Rightarrow> timestamp \<Rightarrow>
   payment_session \<Rightarrow> ('z sessions_db_scheme, bool) op" where
  "reconcile_open_session v dt fetch now session_row =
     (if (case ps_route_snapshot session_row of None \<Rightarrow> True | Some snapshot \<Rightarrow> rs_broker_url snapshot = [])
      then ret False
      else case fetch (ps_id session_row) of
        Inl (BrokerSettlementQueryError _) \<Rightarrow> ret False
      | Inl e \<Rightarrow> raise e
      | Inr answer \<Rightarrow>
          bind_op (mark_polled (ps_id session_row) now) (\<lambda>_.
          case answer of
            None \<Rightarrow> ret False
          | Some settlement \<Rightarrow>
              bind_op (gets (\<lambda>db. get_session db (ps_id session_row))) (\<lambda>current.
              let row = (case current of None \<Rightarrow> session_row | Some r \<Rightarrow> r)
              in if settlement_blocked row settlement then ret False
                 else apply_polled_settlement v dt now row settlement)))"

definition poll_due :: "timestamp \<Rightarrow> payment_session \<Rightarrow> bool" where
  "poll_due cutoff s \<longleftrightarrow> (case ps_last_polled_at s of None \<Rightarrow> True | Some t \<Rightarrow> t < cutoff)"

text \<open>\<open>ORDER BY last_polled_at ASC NULLS FIRST\<close>.\<close>

definition by_last_polled :: "payment_session list \<Rightarrow> payment_session list" where
  "by_last_polled rows =
     filter (\<lambda>s. ps_last_polled_at s = None) rows @
     sort_key (\<lambda>s. the (ps_last_polled_at s)) (filter (\<lambda>s. ps_last_polled_at s \<noteq> None) rows)"

definition reconcile_open_sessions ::
  "verifier \<Rightarrow> datetime_text \<Rightarrow> (uuid \<Rightarrow> error + (string \<times> json) list option) \<Rightarrow> timestamp \<Rightarrow> int \<Rightarrow> nat \<Rightarrow>
   ('z sessions_db_scheme, int) op" where
  "reconcile_open_sessions v dt fetch now interval_seconds batch_limit =
     bind_op (gets (\<lambda>db. take batch_limit (by_last_polled (filter
         (\<lambda>s. ps_protocol s = PAID_SESSION_PROTOCOL \<and> ps_accounting_mode s = ''wholesale_account'' \<and>
              ps_state s \<in> set [''open'', ''draining''] \<and>
              poll_due (now - seconds interval_seconds) s) (sessions db))))) (\<lambda>rows.
     fold_op (\<lambda>finalized session_row.
       bind_op (reconcile_open_session v dt fetch now session_row) (\<lambda>done.
       ret (if done then finalized + 1 else finalized))) 0 rows)"

end
