(* ===== verification/Payments.thy ===== *)
theory Payments
  imports Engagements
begin

text \<open>
  The payments domain (\<open>domains/payments/repo.py\<close>, \<open>domains/payments/service.py\<close>): the payment and deposit
  rows other domains read, and the durable ledger of create requests, which makes an HTTP retry of a job or
  session creation replay instead of minting again.

  The tables extend the engagement database to \<open>clearing_db\<close>, with the operator audit log. A claim commits
  by itself, so it can lose a race: \<open>snapshot\<close> is the database its first read saw, when other transactions have
  committed between that read and its write, and \<open>None\<close> when there was none. \<open>clock.now()\<close> is \<open>now\<close>; fresh UUIDs, SHA-256 over the
  canonical JSON and the daemon's answer are arguments.
\<close>

section \<open>Tables\<close>

record payment =
  pm_user_id :: uuid
  pm_api_key_id :: uuid
  pm_session_id :: "uuid option"
  pm_work_id :: string
  pm_mint_request_id :: "string option"
  pm_sender_eth_address :: "string option"
  pm_recipient_eth_address :: string
  pm_capability :: string
  pm_offering :: string
  pm_work_units_requested :: int
  pm_price_per_work_unit_wei :: wei
  pm_funded_value_wei :: wei
  pm_expected_value_wei :: wei
  pm_creation_round :: "int option"
  pm_expires_after_round :: "int option"
  pm_ticket_validity_period :: "int option"
  pm_ticket_validity_period_observed_at :: "timestamp option"
  pm_reserved_wei :: wei
  pm_refunded_wei :: wei
  pm_status :: string
  pm_refused_reason :: "string option"

record payment_idempotency_key =
  ik_user_id :: uuid
  ik_api_key_id :: uuid
  ik_operation :: string
  ik_idempotency_key :: string
  ik_request_fingerprint :: string
  ik_broker_request_id :: string
  ik_status :: string
  ik_http_status :: "int option"
  ik_response_payload :: "(string \<times> json) list option"
  ik_payment_id :: "uuid option"
  ik_expires_at :: timestamp

record payment_daemon_deposit_snapshot =
  dp_taken_at :: timestamp
  dp_deposit_wei :: wei
  dp_reserve_wei :: wei
  dp_withdraw_round :: int
  dp_current_round :: "int option"
  dp_ticket_validity_period :: "int option"
  dp_ticket_validity_period_observed_at :: "datetime option"

record operator_audit =
  oa_operator_id :: uuid
  oa_action :: string
  oa_target_user_id :: "uuid option"
  oa_params :: "(string \<times> json) list option"

record clearing_db = sessions_db +
  payments :: "payment list"
  create_requests :: "payment_idempotency_key list"
  deposits :: "payment_daemon_deposit_snapshot list"
  audits :: "operator_audit list"

section \<open>Create requests\<close>

record create_request_claim =
  cc_broker_request_id :: string
  cc_replay_status :: "int option"
  cc_replay_payload :: "(string \<times> json) list option"
  cc_lease_expires_at :: "timestamp option"

definition is_replay :: "create_request_claim \<Rightarrow> bool" where
  "is_replay self \<longleftrightarrow> cc_replay_status self \<noteq> None"

text \<open>\<open>digest\<close> is SHA-256 in hex of the canonical JSON text of a value.\<close>

definition create_request_fingerprint :: "(json \<Rightarrow> string) \<Rightarrow> string \<Rightarrow> (string \<times> json) list \<Rightarrow> string" where
  "create_request_fingerprint digest operation payload =
     digest (JObj [(''operation'', JStr operation), (''payload'', JObj payload)])"

definition request_key :: "payment_idempotency_key \<Rightarrow> uuid \<times> string \<times> string" where
  "request_key row = (ik_user_id row, ik_operation row, ik_idempotency_key row)"

definition get_create_request ::
  "('z clearing_db_scheme) \<Rightarrow> uuid \<times> string \<times> string \<Rightarrow> payment_idempotency_key option" where
  "get_create_request db key = find (\<lambda>row. request_key row = key) (create_requests db)"

definition require_create_request ::
  "uuid \<times> string \<times> string \<Rightarrow> (('z clearing_db_scheme) txn, payment_idempotency_key) op" where
  "require_create_request key =
     bind_op (read_db (\<lambda>db. get_create_request db key)) (\<lambda>found.
     case found of
       None \<Rightarrow> raise (RuntimeError ''idempotency claim disappeared'')
     | Some row \<Rightarrow> ret row)"

definition claim_from_existing :: "payment_idempotency_key \<Rightarrow> string \<Rightarrow> error + create_request_claim" where
  "claim_from_existing row request_fingerprint =
     (if ik_request_fingerprint row \<noteq> request_fingerprint then Inl IdempotencyKeyReuse
      else if ik_status row = ''in_flight'' then Inl IdempotencyInProgress
      else if ik_status row = ''expired'' then Inl IdempotencyOutcomeUnknown
      else if ik_status row \<notin> set [''completed'', ''failed'', ''outcome_unknown''] \<or> ik_http_status row = None
      then Inl IdempotencyOutcomeUnknown
      else Inr \<lparr>cc_broker_request_id = ik_broker_request_id row, cc_replay_status = ik_http_status row,
                cc_replay_payload = Some (case ik_response_payload row of None \<Rightarrow> [] | Some p \<Rightarrow> p),
                cc_lease_expires_at = None\<rparr>)"

definition set_request ::
  "(payment_idempotency_key \<Rightarrow> bool) \<Rightarrow> (payment_idempotency_key \<Rightarrow> payment_idempotency_key) \<Rightarrow>
   ('z clearing_db_scheme) \<Rightarrow> ('z clearing_db_scheme)" where
  "set_request p f db = db\<lparr>create_requests := update_where p f (create_requests db)\<rparr>"

text \<open>What the first read of a claim saw.\<close>

definition seen :: "('z clearing_db_scheme) option \<Rightarrow> ('z clearing_db_scheme) \<Rightarrow> ('z clearing_db_scheme)" where
  "seen snapshot db = (case snapshot of None \<Rightarrow> db | Some old \<Rightarrow> old)"

text \<open>The rows the conditional \<open>UPDATE\<close> of a reclaim matches.\<close>

definition reclaimable ::
  "uuid \<times> string \<times> string \<Rightarrow> timestamp \<Rightarrow> timestamp \<Rightarrow> payment_idempotency_key \<Rightarrow> bool" where
  "reclaimable key previous_expiry now row \<longleftrightarrow>
     request_key row = key \<and> ik_status row \<in> set [''in_flight'', ''expired''] \<and>
     ik_expires_at row = previous_expiry \<and>
     (ik_expires_at row \<le> now \<or> ik_operation row = ''sessions.prepare'' \<and> ik_status row = ''expired'')"

definition reclaim_request ::
  "uuid \<times> string \<times> string \<Rightarrow> string \<Rightarrow> payment_idempotency_key \<Rightarrow>
   timestamp \<Rightarrow> timestamp \<Rightarrow> (('z clearing_db_scheme) txn, create_request_claim) op" where
  "reclaim_request key request_fingerprint row now claim_expires_at =
     bind_op (read_db (\<lambda>db. length (filter (reclaimable key (ik_expires_at row) now) (create_requests db)))) (\<lambda>rowcount.
     bind_op (write_db (set_request (reclaimable key (ik_expires_at row) now) (\<lambda>r. r\<lparr>
         ik_status := ''in_flight'', ik_expires_at := claim_expires_at\<rparr>))) (\<lambda>_.
     if rowcount = 1 then
       bind_op commit (\<lambda>_.
       ret \<lparr>cc_broker_request_id = ik_broker_request_id row, cc_replay_status = None,
            cc_replay_payload = None, cc_lease_expires_at = Some claim_expires_at\<rparr>)
     else
       bind_op rollback (\<lambda>_.
       bind_op (read_db (\<lambda>db. get_create_request db key)) (\<lambda>winner.
       case winner of
         None \<Rightarrow> raise (RuntimeError ''idempotency claim disappeared during recovery'')
       | Some w \<Rightarrow> of_result (claim_from_existing w request_fingerprint)))))"

definition insert_request ::
  "payment_idempotency_key \<Rightarrow> (('z clearing_db_scheme) txn, create_request_claim) op" where
  "insert_request row =
     bind_op (read_db (\<lambda>db. get_create_request db (request_key row))) (\<lambda>winner.
     case winner of
       Some w \<Rightarrow>
         bind_op rollback (\<lambda>_.
         of_result (claim_from_existing w (ik_request_fingerprint row)))
     | None \<Rightarrow>
         bind_op (write_db (\<lambda>db. db\<lparr>create_requests := create_requests db @ [row]\<rparr>)) (\<lambda>_.
         bind_op commit (\<lambda>_.
         ret \<lparr>cc_broker_request_id = ik_broker_request_id row, cc_replay_status = None,
              cc_replay_payload = None, cc_lease_expires_at = Some (ik_expires_at row)\<rparr>)))"

definition claim_create_request ::
  "('z clearing_db_scheme) option \<Rightarrow> string \<Rightarrow> uuid \<Rightarrow> uuid \<Rightarrow> string \<Rightarrow> string \<Rightarrow> string \<Rightarrow> timestamp \<Rightarrow> int \<Rightarrow>
   (('z clearing_db_scheme) txn, create_request_claim) op" where
  "claim_create_request snapshot new_request_id user_id api_key_id operation idempotency_key
     request_fingerprint now inflight_timeout_seconds =
     (let claim_expires_at = now + seconds inflight_timeout_seconds;
          key = (user_id, operation, idempotency_key)
      in bind_op (read_db (\<lambda>db. get_create_request (seen snapshot db) key)) (\<lambda>found.
         case found of
           Some row \<Rightarrow>
             if ik_request_fingerprint row \<noteq> request_fingerprint
             then of_result (claim_from_existing row request_fingerprint)
             else if ik_status row \<in> set [''in_flight'', ''expired'']
             then reclaim_request key request_fingerprint row now
                    (if operation = ''sessions.prepare'' then max claim_expires_at (ik_expires_at row + 1)
                     else claim_expires_at)
             else of_result (claim_from_existing row request_fingerprint)
         | None \<Rightarrow>
             insert_request
               \<lparr>ik_user_id = user_id, ik_api_key_id = api_key_id, ik_operation = operation,
                ik_idempotency_key = idempotency_key, ik_request_fingerprint = request_fingerprint,
                ik_broker_request_id = new_request_id, ik_status = ''in_flight'', ik_http_status = None,
                ik_response_payload = None, ik_payment_id = None, ik_expires_at = claim_expires_at\<rparr>))"

definition complete_create_request ::
  "uuid \<Rightarrow> string \<Rightarrow> string \<Rightarrow> int \<Rightarrow> (string \<times> json) list \<Rightarrow> timestamp \<Rightarrow> int \<Rightarrow> uuid option \<Rightarrow>
   (('z clearing_db_scheme) txn, unit) op" where
  "complete_create_request user_id operation idempotency_key http_status response_payload now
     retention_seconds payment_id =
     bind_op (require_create_request (user_id, operation, idempotency_key)) (\<lambda>_.
     bind_op (write_db (set_request (\<lambda>r. request_key r = (user_id, operation, idempotency_key)) (\<lambda>r. r\<lparr>
         ik_status := ''completed'', ik_http_status := Some http_status,
         ik_response_payload := Some response_payload, ik_payment_id := payment_id,
         ik_expires_at := now + seconds retention_seconds\<rparr>))) (\<lambda>_.
     commit))"

definition release_session_preparation_claim ::
  "uuid \<Rightarrow> string \<Rightarrow> string \<Rightarrow> timestamp \<Rightarrow> (('z clearing_db_scheme) txn, unit) op" where
  "release_session_preparation_claim user_id idempotency_key broker_request_id lease_expires_at =
     write_db (set_request (\<lambda>r. request_key r = (user_id, ''sessions.prepare'', idempotency_key) \<and>
         ik_broker_request_id r = broker_request_id \<and> ik_status r = ''in_flight'' \<and>
         ik_expires_at r = lease_expires_at \<and> ik_payment_id r = None) (\<lambda>r. r\<lparr>ik_status := ''expired''\<rparr>))"

definition release_failed_session_preparation ::
  "uuid \<Rightarrow> string \<Rightarrow> create_request_claim \<Rightarrow> (('z clearing_db_scheme) txn, unit) op" where
  "release_failed_session_preparation user_id idempotency_key claim =
     (case cc_lease_expires_at claim of
        None \<Rightarrow> ret ()
      | Some lease \<Rightarrow>
          bind_op (release_session_preparation_claim user_id idempotency_key
                     (cc_broker_request_id claim) lease) (\<lambda>_.
          commit))"

definition fail_create_request ::
  "uuid \<Rightarrow> string \<Rightarrow> string \<Rightarrow> int \<Rightarrow> (string \<times> json) list \<Rightarrow> timestamp \<Rightarrow> int \<Rightarrow> bool \<Rightarrow>
   (('z clearing_db_scheme) txn, unit) op" where
  "fail_create_request user_id operation idempotency_key http_status response_payload now
     retention_seconds retain_tombstone =
     bind_op (require_create_request (user_id, operation, idempotency_key)) (\<lambda>_.
     bind_op (write_db (set_request (\<lambda>r. request_key r = (user_id, operation, idempotency_key)) (\<lambda>r. r\<lparr>
         ik_status := (if retain_tombstone then ''outcome_unknown'' else ''failed''),
         ik_http_status := Some http_status, ik_response_payload := Some response_payload,
         ik_expires_at := now + seconds retention_seconds\<rparr>))) (\<lambda>_.
     commit))"

definition expire_stale_idempotency_keys :: "timestamp \<Rightarrow> ('z clearing_db_scheme, int) op" where
  "expire_stale_idempotency_keys now =
     (let stale = (\<lambda>r. ik_status r = ''in_flight'' \<and> ik_expires_at r < now);
          done = (\<lambda>r. ik_status r \<in> set [''completed'', ''failed''] \<and> ik_expires_at r < now)
      in bind_op (gets (\<lambda>db. length (filter stale (create_requests db)))) (\<lambda>count.
         bind_op (modify (set_request stale (\<lambda>r. r\<lparr>ik_status := ''expired''\<rparr>))) (\<lambda>_.
         bind_op (gets (\<lambda>db. length (filter done (create_requests db)))) (\<lambda>deleted.
         bind_op (modify (\<lambda>db. db\<lparr>create_requests := filter (\<lambda>r. \<not> done r) (create_requests db)\<rparr>)) (\<lambda>_.
         ret (int count + int deleted))))))"

section \<open>Payment rows and deposits\<close>

text \<open>Newest first: rows are in the order of \<open>created_at\<close>.\<close>

definition list_payments_for_user :: "uuid \<Rightarrow> nat \<Rightarrow> ('z clearing_db_scheme, payment list) op" where
  "list_payments_for_user user_id limit =
     gets (\<lambda>db. take limit (rev (filter (\<lambda>p. pm_user_id p = user_id) (payments db))))"

definition get_payment_by_work_id :: "uuid \<Rightarrow> string \<Rightarrow> ('z clearing_db_scheme, payment option) op" where
  "get_payment_by_work_id user_id work_id =
     gets (\<lambda>db. find (\<lambda>p. pm_user_id p = user_id \<and> pm_work_id p = work_id) (payments db))"

text \<open>\<open>GetDepositInfo\<close> of the payer daemon.\<close>

record deposit_info =
  di_deposit_wei :: wei
  di_reserve_wei :: wei
  di_withdraw_round :: int
  di_current_round :: int
  di_ticket_validity_period :: int
  di_ticket_validity_period_observed_at :: timestamp

text \<open>The first of the rows with the greatest \<open>taken_at\<close>.\<close>

fun latest_deposit :: "payment_daemon_deposit_snapshot list \<Rightarrow> payment_daemon_deposit_snapshot option" where
  "latest_deposit [] = None"
| "latest_deposit (d # ds) =
     (case latest_deposit ds of
        None \<Rightarrow> Some d
      | Some e \<Rightarrow> if dp_taken_at d < dp_taken_at e then Some e else Some d)"

definition snapshot_deposit ::
  "error + deposit_info \<Rightarrow> timestamp \<Rightarrow> ('z clearing_db_scheme, payment_daemon_deposit_snapshot) op" where
  "snapshot_deposit reply now =
     bind_op (of_result reply) (\<lambda>info.
     bind_op (gets (\<lambda>db. latest_deposit (deposits db))) (\<lambda>previous.
     bind_op (require (\<not> (di_current_round info \<le> 0 \<or> di_ticket_validity_period info \<le> 0))
                (ValueError ''payment daemon returned invalid validity telemetry'')) (\<lambda>_.
     bind_op (require (case previous of None \<Rightarrow> True
                | Some p \<Rightarrow> (case dp_current_round p of None \<Rightarrow> True
                             | Some r \<Rightarrow> \<not> di_current_round info < r))
                (ValueError ''payment daemon current_round regressed'')) (\<lambda>_.
     bind_op (require (case previous of None \<Rightarrow> True
                | Some p \<Rightarrow> (case dp_ticket_validity_period_observed_at p of None \<Rightarrow> True
                             | Some t \<Rightarrow>
                                 (case normalized_utc t of
                                    Aware u \<Rightarrow> \<not> di_ticket_validity_period_observed_at info < u
                                  | Naive _ \<Rightarrow> True)))
                (ValueError ''payment daemon validity observation time regressed'')) (\<lambda>_.
     let row = \<lparr>dp_taken_at = now, dp_deposit_wei = di_deposit_wei info,
                dp_reserve_wei = di_reserve_wei info, dp_withdraw_round = di_withdraw_round info,
                dp_current_round = Some (di_current_round info),
                dp_ticket_validity_period = Some (di_ticket_validity_period info),
                dp_ticket_validity_period_observed_at =
                  Some (Aware (di_ticket_validity_period_observed_at info))\<rparr>
     in bind_op (modify (\<lambda>db. db\<lparr>deposits := deposits db @ [row]\<rparr>)) (\<lambda>_.
        ret row))))))"

definition list_deposit_snapshots ::
  "nat \<Rightarrow> ('z clearing_db_scheme, payment_daemon_deposit_snapshot list) op" where
  "list_deposit_snapshots limit =
     gets (\<lambda>db. take limit (rev (sort_key dp_taken_at (rev (deposits db)))))"

end
