(* ===== verification/Cap_Status.thy ===== *)
theory Cap_Status
  imports Sessions Payments Complex_Main
begin

text \<open>
  The headroom report of a session (\<open>domains/sessions/service.py\<close>, \<open>_compute_cap_status\<close> and
  \<open>get_session_status\<close>). A percentage is the exact quotient here; the code rounds it to 28 digits and to a
  double, which only shows within that precision of the threshold.
\<close>

section \<open>What was issued for a session\<close>

definition issued_payments :: "('z clearing_db_scheme) \<Rightarrow> uuid \<Rightarrow> payment list" where
  "issued_payments db session_id =
     filter (\<lambda>p. pm_session_id p = Some session_id \<and> pm_status p \<noteq> ''refused'') (payments db)"

definition session_billed_so_far_wei :: "('z clearing_db_scheme) \<Rightarrow> uuid \<Rightarrow> wei" where
  "session_billed_so_far_wei db session_id =
     sum_list (map pm_expected_value_wei (issued_payments db session_id))"

definition session_funded_units :: "('z clearing_db_scheme) \<Rightarrow> uuid \<Rightarrow> int" where
  "session_funded_units db session_id =
     sum_list (map pm_work_units_requested (issued_payments db session_id))"

section \<open>The report\<close>

record cap_status =
  ct_session_pct_used :: rat
  ct_spend_period_pct_used :: "rat option"
  ct_user_balance_pct_used :: "rat option"
  ct_operator_pool_pct_used :: "rat option"
  ct_will_refuse_next_refill :: bool
  ct_winddown_reason :: "string option"

definition CAP_IMMINENT_THRESHOLD :: rat where
  "CAP_IMMINENT_THRESHOLD = 95 / 100"

definition clamp :: "rat \<Rightarrow> rat" where
  "clamp x = min (max x 0) 1"

definition project_next_refusal ::
  "rat \<Rightarrow> wei \<Rightarrow> wei \<Rightarrow> rat option \<Rightarrow> bool \<Rightarrow> bool \<times> string option" where
  "project_next_refusal session_pct session_remaining_wei next_mint_value_wei spend_period_pct
     session_units_exhausted =
     (if session_units_exhausted then (True, Some ''session_cap_imminent'')
      else if CAP_IMMINENT_THRESHOLD \<le> session_pct \<and> session_remaining_wei < next_mint_value_wei
      then (True, Some ''session_cap_imminent'')
      else if (\<exists>p \<in> set_option spend_period_pct. CAP_IMMINENT_THRESHOLD \<le> p)
      then (True, Some ''spend_period_cap_imminent'')
      else (False, None))"

definition session_billed :: "payment_session \<Rightarrow> ('z clearing_db_scheme) \<Rightarrow> wei" where
  "session_billed session_row db =
     (case ps_billed_value_wei session_row of
        Some billed \<Rightarrow> billed
      | None \<Rightarrow> session_billed_so_far_wei db (ps_id session_row))"

definition compute_cap_status ::
  "payment_session \<Rightarrow> uuid \<Rightarrow> wei \<Rightarrow> bool \<Rightarrow> resolved_billing_config \<Rightarrow> timestamp \<Rightarrow>
   ('z clearing_db_scheme, cap_status) op" where
  "compute_cap_status session_row user_id next_mint_value_wei session_units_exhausted cfg now =
     bind_op (gets (session_billed session_row)) (\<lambda>billed.
     bind_op (require (ps_funded_value_wei session_row \<noteq> 0) ZeroDivisionError) (\<lambda>_.
     let session_pct = clamp (of_int billed / of_int (ps_funded_value_wei session_row))
     in bind_op (if 0 < rbc_spend_period_cap_wei cfg
                 then
                   bind_op (remaining_window_room user_id (Aware now) (rbc_spend_period_seconds cfg)
                              (rbc_spend_period_cap_wei cfg)) (\<lambda>room.
                   ret (map_option (\<lambda>r. clamp (of_int (rbc_spend_period_cap_wei cfg - r) /
                                              of_int (rbc_spend_period_cap_wei cfg))) room))
                 else ret None) (\<lambda>spend_period_pct.
        let (will_refuse, reason) = project_next_refusal session_pct
              (ps_funded_value_wei session_row - billed) next_mint_value_wei spend_period_pct
              session_units_exhausted
        in ret \<lparr>ct_session_pct_used = session_pct, ct_spend_period_pct_used = spend_period_pct,
                ct_user_balance_pct_used = None, ct_operator_pool_pct_used = None,
                ct_will_refuse_next_refill = will_refuse, ct_winddown_reason = reason\<rparr>)))"

record session_status_response =
  sx_session_id :: uuid
  sx_work_id :: string
  sx_capability :: string
  sx_offering :: string
  sx_protocol :: string
  sx_state :: string
  sx_estimated_units :: int
  sx_max_total_units :: int
  sx_funded_value_wei :: wei
  sx_billed_value_wei :: wei
  sx_refill_count :: int
  sx_cap_status :: "cap_status option"
  sx_opened_at :: timestamp
  sx_closed_at :: "timestamp option"
  sx_actual_units :: "int option"
  sx_outcome :: "string option"

definition get_session_status ::
  "uuid \<Rightarrow> uuid \<Rightarrow> timestamp \<Rightarrow> billing_settings \<Rightarrow> ('z clearing_db_scheme, session_status_response) op" where
  "get_session_status session_id user_id now settings =
     bind_op (gets (\<lambda>db. get_session db session_id)) (\<lambda>found.
     case found of
       None \<Rightarrow> raise SessionNotFound
     | Some session_row \<Rightarrow>
         bind_op (require (ps_user_id session_row = user_id) SessionNotFound) (\<lambda>_.
         bind_op (if ps_state session_row \<noteq> ''closed''
                  then
                    bind_op (resolve_billing_config user_id settings) (\<lambda>cfg.
                    bind_op (gets (\<lambda>db. session_funded_units db session_id)) (\<lambda>units.
                    bind_op (compute_cap_status session_row user_id 0
                               (ps_max_total_units session_row \<le> units) cfg now) (\<lambda>status.
                    ret (Some status))))
                  else ret None) (\<lambda>cap_status.
         bind_op (gets (session_billed session_row)) (\<lambda>billed_wei.
         ret \<lparr>sx_session_id = ps_id session_row, sx_work_id = ps_work_id session_row,
              sx_capability = ps_capability session_row, sx_offering = ps_offering session_row,
              sx_protocol = ps_protocol session_row, sx_state = ps_state session_row,
              sx_estimated_units = ps_estimated_units session_row,
              sx_max_total_units = ps_max_total_units session_row,
              sx_funded_value_wei = ps_funded_value_wei session_row, sx_billed_value_wei = billed_wei,
              sx_refill_count = ps_refill_seq session_row, sx_cap_status = cap_status,
              sx_opened_at = ps_opened_at session_row, sx_closed_at = ps_closed_at session_row,
              sx_actual_units = ps_actual_units session_row, sx_outcome = ps_outcome session_row\<rparr>))))"

text \<open>The report only reads.\<close>

lemma compute_cap_status_pure: "compute_cap_status row u next_mint gone cfg now db = (r, db') \<Longrightarrow> db' = db"
  by (auto simp: compute_cap_status_def remaining_window_room_def bind_assoc op_run Let_def split: if_splits sum.splits prod.splits)

lemma clamp_bounds: "0 \<le> clamp x" "clamp x \<le> 1"
  by (simp_all add: clamp_def)

end
