(* ===== verification/Jobs.thy ===== *)
theory Jobs
  imports Cap_Status
begin

text \<open>
  Paid jobs (\<open>domains/jobs/service.py\<close>): opening a one-shot job on the shared wholesale account, settling it
  from a broker-signed record, and the janitor that recovers jobs whose customer never settled them.

  The broker and the registry are the answers they give, as for sessions. \<open>digest\<close> is SHA-256 in hex of the
  RFC 8785 text of an envelope and \<open>trunc\<close> is Python's \<open>int\<close> of the float a JSON text denotes, which raises for
  an infinity. Telemetry events and counters are left out.
\<close>

type_synonym dict = "(string \<times> json) list"

section \<open>Opening\<close>

definition PAID_JOB_PROTOCOL :: string where
  "PAID_JOB_PROTOCOL = ''paid-job/v1''"

definition transport_value :: "transport \<Rightarrow> string" where
  "transport_value t = (case t of unary \<Rightarrow> ''unary'' | stream \<Rightarrow> ''stream'' | multipart \<Rightarrow> ''multipart'')"

definition select_job_route ::
  "selected_route option \<Rightarrow> selected_route list \<Rightarrow> string \<Rightarrow> string \<Rightarrow> transport \<Rightarrow> route_binding option \<Rightarrow>
   error + selected_route" where
  "select_job_route select select_many capability offering transport binding =
     bind_r (select_bound_route select select_many binding) (\<lambda>found.
     case found of
       None \<Rightarrow> Inl (no_route binding capability offering)
     | Some route \<Rightarrow>
         if protocol_value (sr_protocol route) \<noteq> PAID_JOB_PROTOCOL
         then Inl (ProtocolNotSupportedForJob (protocol_value (sr_protocol route)))
         else case sr_job route of
           None \<Rightarrow> Inl (RuntimeError ''paid-job/v1 route has no job axes'')
         | Some axes \<Rightarrow>
             if transport \<notin> set (ja_transports axes)
             then Inl (TransportNotSupportedForJob (transport_value transport)
                    (map transport_value (ja_transports axes)))
             else if sr_settlement_keys route = [] then Inl (NoSettlementDelegation capability offering)
             else Inr route)"

definition settle_endpoint_for :: "uuid \<Rightarrow> string" where
  "settle_endpoint_for job_id = ''/v1/jobs/'' @ job_id @ ''/settle''"

record create_job_response =
  cj_job_id :: uuid
  cj_request_id :: string
  cj_work_id :: string
  cj_broker_url :: string
  cj_protocol :: string
  cj_transport :: transport
  cj_work_unit :: string
  cj_route_snapshot :: route_snapshot
  cj_spend_authorization :: bytes
  cj_accounting_mode :: string
  cj_expected_value_wei :: wei
  cj_funded_value_wei :: wei
  cj_settle_endpoint :: string
  cj_opened_at :: timestamp

text \<open>The body of the \<open>try\<close>: replenish the account, then read that it covers the job.\<close>

definition fund_job_account ::
  "request_world \<Rightarrow> selected_route \<Rightarrow> string \<Rightarrow> string \<Rightarrow> uuid \<Rightarrow> wei \<Rightarrow> timestamp \<Rightarrow> session_settings \<Rightarrow>
   (('z sessions_db_scheme) txn, wholesale_funding_plan) op" where
  "fund_job_account world route payer request_id job_id max_debit_wei now settings =
     (let rw = qw_replenish world
      in bind_op (of_result (rw_account rw)) (\<lambda>observation.
         bind_op (of_result (target_fits_hard_limits (ss_funding_limits settings))) (\<lambda>base_limits.
         bind_op (of_result (admission_funding_limits base_limits max_debit_wei)) (\<lambda>limits.
         bind_op (of_result (settlement_domain_id (sr_settlement_domain_id route))) (\<lambda>domain.
         bind_op (on_db (plan_observed_account_shortfall observation domain limits)) (\<lambda>plan.
         bind_op (claim_account_funding True (rw_new_account_id rw) route observation domain plan limits
                    (''loc-account:'' @ request_id) (Some job_id) WHOLESALE_ACCOUNT_PROTOCOL_VERSION) (\<lambda>funding.
         bind_op (complete_account_funding (rw_sha256_hex rw) funding route observation domain plan payer
                    (rw_create_payment rw) (rw_fund rw) (rw_account_after rw) now) (\<lambda>_.
         bind_op (of_result (verify_admission_funding_readiness (qw_account_ready world) route payer
                    (ss_chain_id settings) (ss_wholesale_account_id settings) max_debit_wei)) (\<lambda>_.
         ret plan)))))))))"

definition policy_unverified :: "error \<Rightarrow> error" where
  "policy_unverified e =
     (case e of WholesaleFundingPolicyError msg \<Rightarrow> WholesaleFundingUnverified msg | _ \<Rightarrow> e)"

definition open_wholesale_job ::
  "('z sessions_db_scheme) option \<Rightarrow> request_world \<Rightarrow>
   (create_spend_authorization_request \<Rightarrow> error + create_spend_authorization_response) \<Rightarrow> uuid \<Rightarrow>
   uuid \<Rightarrow> uuid \<Rightarrow> selected_route \<Rightarrow> int \<Rightarrow> int \<Rightarrow> wei \<Rightarrow> string \<Rightarrow> bytes \<Rightarrow> bytes \<Rightarrow> timestamp \<Rightarrow>
   session_settings \<Rightarrow> string option \<Rightarrow> int \<Rightarrow> int \<Rightarrow> transport \<Rightarrow>
   (('z sessions_db_scheme) txn, create_job_response) op" where
  "open_wholesale_job conflict world sign new_id user_id api_key_id route estimated_units
     max_total_units max_debit_wei request_id request_digest caller_public_key now settings
     sdk_identity spend_period_seconds spend_period_cap_wei transport =
     bind_op (claim_wholesale_engagement conflict new_id user_id api_key_id route request_id
                estimated_units max_total_units max_debit_wei now sdk_identity
                spend_period_seconds spend_period_cap_wei None) (\<lambda>job.
     let authorization_id = ''loc-auth:'' @ request_id;
         issued = issue_route_locked_authorization sign route authorization_id request_id
           [] request_digest caller_public_key max_debit_wei max_total_units now
           (now + seconds 300) (ss_chain_id settings) (ss_wholesale_account_id settings) 0 []
     in bind_op (issue_initial_authorization_or_release job now issued)
          (\<lambda>(auth_request, auth_response).
        bind_op (of_result (settlement_domain_id (sr_settlement_domain_id route))) (\<lambda>domain.
        bind_op (on_db (record_spend_authorization_grant (ps_id job) user_id route domain
                   auth_request auth_response)) (\<lambda>_.
        bind_op commit (\<lambda>_.
        bind_op (catch_op
                   (fund_job_account world route (''0x'' @ hex (ar_payer auth_response)) request_id
                      (ps_id job) max_debit_wei now settings)
                   (\<lambda>e. raise (policy_unverified e))) (\<lambda>plan.
        bind_op (of_result (snapshot_view route)) (\<lambda>snapshot.
        ret \<lparr>cj_job_id = ps_id job, cj_request_id = request_id, cj_work_id = authorization_id,
             cj_broker_url = sr_worker_url route, cj_protocol = protocol_value (sr_protocol route),
             cj_transport = transport, cj_work_unit = sr_work_unit route, cj_route_snapshot = snapshot,
             cj_spend_authorization = ar_authorization_bytes auth_response,
             cj_accounting_mode = ''wholesale_account'',
             cj_expected_value_wei = wp_shortfall_wei plan, cj_funded_value_wei = wp_shortfall_wei plan,
             cj_settle_endpoint = settle_endpoint_for (ps_id job),
             cj_opened_at = ps_opened_at job\<rparr>)))))))"

text \<open>\<open>fresh_request_id\<close> is the \<open>uuid4\<close> used when the caller gives no request identifier.\<close>

definition open_job ::
  "('z sessions_db_scheme) option \<Rightarrow> request_world option \<Rightarrow>
   (create_spend_authorization_request \<Rightarrow> error + create_spend_authorization_response) \<Rightarrow>
   selected_route option \<Rightarrow> selected_route list \<Rightarrow> uuid \<Rightarrow> string \<Rightarrow> uuid \<Rightarrow> uuid \<Rightarrow> string \<Rightarrow> string \<Rightarrow> int \<Rightarrow>
   int option \<Rightarrow> string option \<Rightarrow> timestamp \<Rightarrow> session_settings \<Rightarrow> transport \<Rightarrow> route_binding option \<Rightarrow>
   string option \<Rightarrow> bytes \<Rightarrow> bytes \<Rightarrow> (('z sessions_db_scheme) txn, create_job_response) op" where
  "open_job conflict world sign select select_many new_id fresh_request_id user_id api_key_id
     capability offering estimated_units max_total_units sdk_identity now settings transport
     route_binding request_id workload_request_digest caller_public_key =
     (let broker_request_id = (case request_id of None \<Rightarrow> fresh_request_id
            | Some r \<Rightarrow> if r = [] then fresh_request_id else r);
          effective_max = (case max_total_units of None \<Rightarrow> estimated_units | Some m \<Rightarrow> m)
      in bind_op (require (\<not> effective_max < estimated_units)
                    (request_error ''max_total_units must be >= estimated_units'')) (\<lambda>_.
         bind_op (on_db (resolve_billing_config user_id (ss_billing settings))) (\<lambda>cfg.
         bind_op (of_result (select_job_route select select_many capability offering transport
                    route_binding)) (\<lambda>route.
         case world of
           None \<Rightarrow> raise (DaemonUnavailable ''wholesale-account'' ''broker account client is unavailable'')
         | Some w \<Rightarrow>
             bind_op (of_result (bill_value_wei effective_max (sr_price_per_work_unit_wei route)
                        (sr_units_per_price route))) (\<lambda>worst_case_value_wei.
             bind_op (on_db (get_balance user_id)) (\<lambda>balance.
             bind_op (require (\<not> cb_amount_wei balance < worst_case_value_wei)
                        (InsufficientCredit (cb_amount_wei balance) worst_case_value_wei)) (\<lambda>_.
             open_wholesale_job conflict w sign new_id user_id api_key_id route estimated_units
               effective_max worst_case_value_wei broker_request_id workload_request_digest
               caller_public_key now settings sdk_identity (rbc_spend_period_seconds cfg)
               (rbc_spend_period_cap_wei cfg) transport)))))))"

section \<open>Settling\<close>

record settlement_signature_block =
  sb_algorithm :: string
  sb_canonicalization :: string
  sb_value :: string

record settlement_envelope =
  sv_payload :: dict
  sv_signature :: "settlement_signature_block option"

text \<open>\<open>model_dump\<close>.\<close>

definition dump_envelope :: "settlement_envelope \<Rightarrow> dict" where
  "dump_envelope settlement =
     [(''payload'', JObj (sv_payload settlement)),
      (''signature'', case sv_signature settlement of
          None \<Rightarrow> JNull
        | Some s \<Rightarrow> JObj [(''algorithm'', JStr (sb_algorithm s)),
            (''canonicalization'', JStr (sb_canonicalization s)), (''value'', JStr (sb_value s))])]"

text \<open>\<open>model_validate\<close> of the envelope a broker exchange carries.\<close>

definition SettlementEnvelope :: "envelope \<Rightarrow> error + settlement_envelope" where
  "SettlementEnvelope e =
     (if en_algorithm e \<noteq> ''secp256k1'' \<or> en_canonicalization e \<noteq> ''jcs'' \<or>
         \<not> (length (en_signature e) = 132 \<and> take 2 (en_signature e) = ''0x'' \<and>
            list_all (\<lambda>c. hex_val c \<noteq> None) (drop 2 (en_signature e)))
      then Inl (ValueError ''invalid settlement envelope'')
      else Inr \<lparr>sv_payload = en_payload e,
             sv_signature = Some \<lparr>sb_algorithm = en_algorithm e,
               sb_canonicalization = en_canonicalization e, sb_value = en_signature e\<rparr>\<rparr>)"

definition job_expectation ::
  "payment_session \<Rightarrow> route_snapshot \<Rightarrow> spend_authorization_grant \<Rightarrow> string \<Rightarrow> string \<Rightarrow> int \<Rightarrow>
   error + job_settlement_expectation" where
  "job_expectation job_row snapshot grant request_id broker_job_id actual_units =
     (case (fromhex (rs_constraint_fingerprint snapshot), fromhex (rs_route_fingerprint snapshot)) of
        (Some constraint_fingerprint, Some route_fingerprint) \<Rightarrow> Inr
          \<lparr>je_wholesale_account_id = gr_wholesale_account_id grant,
           je_settlement_domain_id = gr_settlement_domain_id grant, je_request_id = request_id,
           je_job_id = broker_job_id, je_work_id = ps_work_id job_row,
           je_work_unit = rs_work_unit snapshot, je_actual_units = actual_units,
           je_max_total_units = ps_max_total_units job_row,
           je_funded_value_wei = ps_funded_value_wei job_row,
           je_amount_wei = rs_price_per_work_unit_wei snapshot,
           je_per_units = rs_units_per_price snapshot,
           je_quote_ref =
             \<lparr>qr_quote_id = rs_quote_id snapshot, qr_quote_version = rs_quote_version snapshot,
              qr_constraint_fingerprint = constraint_fingerprint,
              qr_route_fingerprint = route_fingerprint\<rparr>,
           je_authorization_id = Some (gr_authorization_id grant),
           je_authorized_value_wei = Some (gr_max_debit_wei grant)\<rparr>
      | _ \<Rightarrow> Inl (ValueError ''non-hexadecimal number found in fromhex()''))"

definition verify_job ::
  "verifier \<Rightarrow> datetime_text \<Rightarrow> payment_session \<Rightarrow> spend_authorization_grant \<Rightarrow> string \<Rightarrow> int \<Rightarrow>
   settlement_envelope \<Rightarrow> error + verified_job_settlement" where
  "verify_job v dt job_row grant broker_job_id actual_units settlement =
     (case ps_broker_request_id job_row of
        None \<Rightarrow> Inl (SettlementVerificationError ''missing_request_id'')
      | Some request_id \<Rightarrow>
          if request_id = [] then Inl (SettlementVerificationError ''missing_request_id'')
          else if sv_signature settlement = None
          then Inl (SettlementVerificationError ''missing_signature'')
          else case ps_route_snapshot job_row of
            None \<Rightarrow> Inl (KeyError ''settlement_keys'')
          | Some snapshot \<Rightarrow>
              if rs_settlement_keys snapshot = []
              then Inl (SettlementVerificationError ''missing_delegation'')
              else
                bind_r (job_expectation job_row snapshot grant request_id broker_job_id actual_units) (\<lambda>expected.
                verify_job_settlement v (dump_envelope settlement)
                  (map (delegation_of dt) (rs_settlement_keys snapshot)) expected))"

definition settle_reason :: "error \<Rightarrow> error" where
  "settle_reason e =
     (case e of
        SettlementVerificationError code \<Rightarrow> SettlementVerificationFailed code
      | KeyError _ \<Rightarrow> SettlementVerificationFailed ''invalid_snapshot''
      | TypeError _ \<Rightarrow> SettlementVerificationFailed ''invalid_snapshot''
      | ValueError _ \<Rightarrow> SettlementVerificationFailed ''invalid_snapshot''
      | _ \<Rightarrow> e)"

definition job_accounting ::
  "payment_session \<Rightarrow> verified_job_settlement \<Rightarrow> error + (wei \<times> wei)" where
  "job_accounting job_row verified =
     (case (ps_customer_pricing job_row, ps_customer_max_debit_wei job_row) of
        (Some raw_pricing, Some cap) \<Rightarrow>
          bind_r (fields_match_policy raw_pricing) (\<lambda>pricing.
          bind_r (calculate_customer_charge pricing (vj_actual_units verified)
                    (vj_billed_value_wei verified)) (\<lambda>billed_value_wei.
          if cap < billed_value_wei then Inl (SettlementVerificationFailed ''customer_cap_exceeded'')
          else Inr (billed_value_wei, cap - billed_value_wei)))
      | _ \<Rightarrow> Inl (SettlementVerificationFailed ''missing_customer_pricing''))"

definition job_breakdown :: "string \<Rightarrow> string \<Rightarrow> dict option \<Rightarrow> dict" where
  "job_breakdown broker_job_id work_unit breakdown =
     dict_set ''work_unit'' (JStr work_unit) (dict_set ''broker_job_id'' (JStr broker_job_id)
       (case breakdown of None \<Rightarrow> [] | Some b \<Rightarrow> b))"

text \<open>The writes of a settlement: the row, the refund, the grant and the event.\<close>

definition finalize_job ::
  "payment_session \<Rightarrow> uuid \<Rightarrow> int \<Rightarrow> string \<Rightarrow> string \<Rightarrow> settlement_envelope \<Rightarrow> string \<Rightarrow> wei \<Rightarrow> wei \<Rightarrow>
   timestamp \<Rightarrow> ('z sessions_db_scheme, unit) op" where
  "finalize_job job_row user_id actual_units broker_job_id work_unit settlement final_outcome
     billed_value_wei refund_wei now =
     bind_op (transition_state (ps_id job_row) (ps_state job_row) ''closed'' now) (\<lambda>_.
     bind_op (if 0 < refund_wei
              then bind_op (release_customer_engagement user_id (ps_id job_row) refund_wei) (\<lambda>_. ret ())
              else ret ()) (\<lambda>_.
     bind_op (modify (set_session (ps_id job_row) (\<lambda>s. s\<lparr>
         ps_actual_units := Some actual_units, ps_billed_value_wei := Some billed_value_wei,
         ps_outcome := Some final_outcome\<rparr>))) (\<lambda>_.
     case ps_authorization_id job_row of
       None \<Rightarrow> raise AssertionError
     | Some authorization_id \<Rightarrow>
         bind_op (mark_spend_authorization_settled (ps_id job_row) authorization_id now) (\<lambda>_.
         bind_op (modify (set_session (ps_id job_row) (\<lambda>s. s\<lparr>
             ps_breakdown := Some (job_breakdown broker_job_id work_unit (ps_breakdown s))\<rparr>))) (\<lambda>_.
         bind_op (record_settlement (ps_id job_row) ''close'' now (Some actual_units)
             (Some billed_value_wei) (Some final_outcome)
             (Some [(''broker_job_id'', JStr broker_job_id), (''work_unit'', JStr work_unit),
                    (''settlement'', JObj (dump_envelope settlement))])) (\<lambda>_.
         ret ()))))))"

record settle_job_response =
  sj_job_id :: uuid
  sj_work_id :: string
  sj_actual_units :: int
  sj_billed_value_wei :: wei
  sj_refund_wei :: wei
  sj_outcome :: string
  sj_closed_at :: timestamp
  sj_cap_status :: cap_status

definition settle_job ::
  "verifier \<Rightarrow> datetime_text \<Rightarrow> uuid \<Rightarrow> uuid \<Rightarrow> int \<Rightarrow> string \<Rightarrow> string \<Rightarrow> string option \<Rightarrow>
   settlement_envelope \<Rightarrow> timestamp \<Rightarrow> billing_settings \<Rightarrow> ('z clearing_db_scheme, settle_job_response) op" where
  "settle_job v dt job_id user_id actual_units broker_job_id work_unit outcome settlement now settings =
     bind_op (gets (\<lambda>db. get_session db job_id)) (\<lambda>found.
     case found of
       None \<Rightarrow> raise JobNotFound
     | Some job_row \<Rightarrow>
         bind_op (require (ps_user_id job_row = user_id) JobNotFound) (\<lambda>_.
         bind_op (require (ps_state job_row \<noteq> ''closed'') (JobAlreadySettled (ps_state job_row))) (\<lambda>_.
         bind_op (require (ps_accounting_mode job_row = ''wholesale_account'')
                    (SettlementVerificationFailed ''legacy_accounting_disabled'')) (\<lambda>_.
         bind_op (gets (\<lambda>db. case ps_authorization_id job_row of None \<Rightarrow> None
                        | Some a \<Rightarrow> find_grant db job_id a)) (\<lambda>authorization.
         case authorization of
           None \<Rightarrow> raise (SettlementVerificationFailed ''missing_authorization'')
         | Some grant \<Rightarrow>
             let expected_work_unit =
                   (case ps_route_snapshot job_row of None \<Rightarrow> [] | Some s \<Rightarrow> rs_work_unit s)
             in bind_op (require (work_unit = expected_work_unit)
                           (WorkUnitMismatch expected_work_unit work_unit)) (\<lambda>_.
                bind_op (catch_op (of_result (verify_job v dt job_row grant broker_job_id actual_units settlement))
                           (\<lambda>e. raise (settle_reason e))) (\<lambda>verified.
                bind_op (require (outcome = None \<or> outcome = Some (vj_outcome verified))
                           (SettlementVerificationFailed ''outcome_mismatch'')) (\<lambda>_.
                bind_op (of_result (job_accounting job_row verified)) (\<lambda>(billed_value_wei, refund_wei).
                bind_op (finalize_job job_row user_id actual_units broker_job_id work_unit settlement
                           (vj_outcome verified) billed_value_wei refund_wei now) (\<lambda>_.
                bind_op (resolve_billing_config user_id settings) (\<lambda>cfg.
                bind_op (compute_cap_status (job_row\<lparr>ps_billed_value_wei := Some billed_value_wei\<rparr>) user_id
                           0 False cfg now) (\<lambda>cap_status.
                ret \<lparr>sj_job_id = job_id, sj_work_id = ps_work_id job_row, sj_actual_units = actual_units,
                     sj_billed_value_wei = billed_value_wei, sj_refund_wei = max refund_wei 0,
                     sj_outcome = vj_outcome verified, sj_closed_at = now,
                     sj_cap_status = cap_status\<rparr>))))))))))))"

section \<open>Recovering unsettled jobs\<close>

definition outcome_value :: "broker_exchange_outcome \<Rightarrow> string" where
  "outcome_value o' =
     (case o' of
        SETTLED \<Rightarrow> ''SETTLED'' | ACCOUNTING_PENDING \<Rightarrow> ''ACCOUNTING_PENDING'' | IN_FLIGHT \<Rightarrow> ''IN_FLIGHT''
      | ADMITTED_OUTCOME_UNKNOWN \<Rightarrow> ''ADMITTED_OUTCOME_UNKNOWN''
      | ADMITTED_EVIDENCE_EXPIRED \<Rightarrow> ''ADMITTED_EVIDENCE_EXPIRED''
      | ADMISSION_REJECTED \<Rightarrow> ''ADMISSION_REJECTED'' | NOT_ADMITTED \<Rightarrow> ''NOT_ADMITTED''
      | NO_RECORD \<Rightarrow> ''NO_RECORD'')"

text \<open>The dictionary of a decoded evidence envelope.\<close>

definition envelope_dict :: "envelope \<Rightarrow> dict" where
  "envelope_dict e =
     [(''payload'', JObj (en_payload e)),
      (''signature'', JObj [(''algorithm'', JStr (en_algorithm e)),
         (''canonicalization'', JStr (en_canonicalization e)), (''value'', JStr (en_signature e))])]"

definition exchange_audit_record :: "exchange_result \<Rightarrow> dict" where
  "exchange_audit_record exchange =
     (let text_field = (\<lambda>key value. case value of None \<Rightarrow> [] | Some s \<Rightarrow> [(key, JStr s)]);
          int_field = (\<lambda>key value. case value of None \<Rightarrow> [] | Some n \<Rightarrow> [(key, JInt n)]);
          evidence_field = (\<lambda>key value. case value of None \<Rightarrow> [] | Some e \<Rightarrow> [(key, JObj (envelope_dict e))])
      in [(''request_id'', JStr (xr_request_id exchange)),
          (''outcome'', JStr (outcome_value (xr_outcome exchange)))] @
         text_field ''job_id'' (xr_job_id exchange) @ text_field ''state'' (xr_state exchange) @
         int_field ''status'' (xr_status exchange) @ int_field ''work_units'' (xr_work_units exchange) @
         text_field ''unit'' (xr_unit exchange) @
         int_field ''debit_attempts'' (xr_debit_attempts exchange) @
         text_field ''deadline'' (xr_deadline exchange) @ text_field ''ended_at'' (xr_ended_at exchange) @
         text_field ''detail'' (xr_detail exchange) @
         evidence_field ''non_admission'' (xr_non_admission exchange) @
         evidence_field ''settlement'' (xr_settlement exchange))"

definition breakdown_of :: "payment_session \<Rightarrow> dict" where
  "breakdown_of job_row = (case ps_breakdown job_row of None \<Rightarrow> [] | Some b \<Rightarrow> b)"

definition note_exchange :: "dict \<Rightarrow> payment_session \<Rightarrow> payment_session" where
  "note_exchange evidence s = s\<lparr>ps_breakdown := Some (dict_set ''broker_exchange'' (JObj evidence) (breakdown_of s))\<rparr>"

subsection \<open>Conservative charge\<close>

text \<open>\<open>isoformat\<close> of a datetime read from a table: a naive one has no offset.\<close>

definition isoformat_of :: "datetime_text \<Rightarrow> datetime \<Rightarrow> string" where
  "isoformat_of dt value =
     (case value of
        Aware t \<Rightarrow> dt_isoformat dt t
      | Naive t \<Rightarrow> (let s = dt_isoformat dt t in take (length s - length ''+00:00'') s))"

definition json_int :: "int option \<Rightarrow> json" where
  "json_int value = (case value of None \<Rightarrow> JNull | Some n \<Rightarrow> JInt n)"

definition json_text :: "string option \<Rightarrow> json" where
  "json_text value = (case value of None \<Rightarrow> JNull | Some s \<Rightarrow> JStr s)"

definition conservative_audit ::
  "datetime_text \<Rightarrow> timestamp \<Rightarrow> timestamp \<Rightarrow> timestamp \<Rightarrow> payment \<Rightarrow> payment_daemon_deposit_snapshot option \<Rightarrow>
   dict \<Rightarrow> dict" where
  "conservative_audit dt opened_at operational_deadline now initial_payment validity_snapshot evidence =
     [(''terminal_kind'', JStr ''conservative_full_charge''),
      (''reason'', JStr ''operational_deadline_without_valid_settlement''),
      (''job_issued_at'', JStr (dt_isoformat dt opened_at)),
      (''operational_deadline'', JStr (dt_isoformat dt operational_deadline)),
      (''finalized_at'', JStr (dt_isoformat dt now)),
      (''creation_round'', json_int (pm_creation_round initial_payment)),
      (''expires_after_round'', json_int (pm_expires_after_round initial_payment)),
      (''mint_ticket_validity_period'', json_int (pm_ticket_validity_period initial_payment)),
      (''mint_ticket_validity_period_observed_at'',
         json_text (map_option (dt_isoformat dt) (pm_ticket_validity_period_observed_at initial_payment))),
      (''observed_current_round'', json_int (Option.bind validity_snapshot dp_current_round)),
      (''current_ticket_validity_period'', json_int (Option.bind validity_snapshot dp_ticket_validity_period)),
      (''current_ticket_validity_period_observed_at'',
         json_text (map_option (isoformat_of dt)
           (Option.bind validity_snapshot dp_ticket_validity_period_observed_at))),
      (''evidence'', JObj evidence)]"

definition dict_update :: "dict \<Rightarrow> dict \<Rightarrow> dict" where
  "dict_update new d = fold (\<lambda>(k, x). dict_set k x) new d"

definition finalize_conservative_full_charge ::
  "datetime_text \<Rightarrow> uuid \<Rightarrow> timestamp \<Rightarrow> int \<Rightarrow> dict \<Rightarrow> ('z clearing_db_scheme, bool) op" where
  "finalize_conservative_full_charge dt job_id now deadline_seconds evidence =
     (if deadline_seconds \<le> 0 then ret False
      else
        bind_op (gets (\<lambda>db. get_session db job_id)) (\<lambda>found.
        case found of
          None \<Rightarrow> ret False
        | Some job_row \<Rightarrow>
            if ps_protocol job_row \<noteq> PAID_JOB_PROTOCOL \<or> ps_state job_row \<noteq> ''open'' then ret False
            else
              let operational_deadline = ps_opened_at job_row + seconds deadline_seconds
              in if now < operational_deadline then ret False
                 else
                   bind_op (gets (\<lambda>db. find (\<lambda>p. pm_session_id p = Some job_id) (payments db))) (\<lambda>initial.
                   case initial of
                     None \<Rightarrow> ret False
                   | Some initial_payment \<Rightarrow>
                       bind_op (gets (\<lambda>db. latest_deposit (deposits db))) (\<lambda>validity_snapshot.
                       let audit = conservative_audit dt (ps_opened_at job_row) operational_deadline now
                             initial_payment validity_snapshot evidence
                       in bind_op (transition_state job_id ''open'' ''closed'' now) (\<lambda>_.
                          bind_op (modify (set_session job_id (\<lambda>s. s\<lparr>
                              ps_actual_units := None, ps_billed_value_wei := Some (ps_funded_value_wei s),
                              ps_outcome := Some ''conservative_full_charge'',
                              ps_breakdown := Some (dict_update audit (breakdown_of s))\<rparr>))) (\<lambda>_.
                          bind_op (record_settlement job_id ''conservative_full_charge'' now None
                              (Some (ps_funded_value_wei job_row)) (Some ''conservative_full_charge'')
                              (Some audit)) (\<lambda>_.
                          ret True)))))))"

subsection \<open>Non-admission\<close>

definition job_payer_scope :: "payment_session \<Rightarrow> ('z sessions_db_scheme) \<Rightarrow> (string \<times> string \<times> string) option" where
  "job_payer_scope job_row db =
     (case (Option.bind (ps_authorization_id job_row) (find_grant db (ps_id job_row)),
            ps_route_snapshot job_row) of
        (Some grant, Some snapshot) \<Rightarrow>
          Some (lower (gr_payer_eth_address grant), lower (rs_eth_address snapshot),
                gr_wholesale_account_id grant)
      | _ \<Rightarrow> None)"

definition non_admission_grant ::
  "payment_session \<Rightarrow> ('z sessions_db_scheme) \<Rightarrow> error + spend_authorization_grant" where
  "non_admission_grant job_row db =
     (case Option.bind (ps_authorization_id job_row) (find_grant db (ps_id job_row)) of
        None \<Rightarrow> query_error ''job lacks a consistent unused authorization scope''
      | Some grant \<Rightarrow>
          if ps_accounting_mode job_row \<noteq> ''wholesale_account'' \<or> gr_protocol grant \<noteq> PAID_JOB_PROTOCOL \<or>
             Some (gr_request_id grant) \<noteq> ps_broker_request_id job_row \<or>
             gr_authorization_id grant \<noteq> ps_work_id job_row \<or> gr_revision grant \<noteq> 0 \<or>
             gr_predecessor_authorization_id grant \<noteq> None \<or>
             Some (gr_route_snapshot grant) \<noteq> ps_route_snapshot job_row \<or>
             Some (gr_settlement_domain_id grant) \<noteq> map_option rs_settlement_domain_id (ps_route_snapshot job_row) \<or>
             gr_state grant \<notin> set [''issued'', ''outcome_unknown'', ''expired_unused'']
          then query_error ''job lacks a consistent unused authorization scope''
          else Inr grant)"

definition expiry_of :: "spend_authorization_grant \<Rightarrow> timestamp" where
  "expiry_of grant = (case gr_expires_at grant of Aware t \<Rightarrow> t | Naive t \<Rightarrow> t)"

record non_admission_query =
  nq_protocol :: string
  nq_work_id :: string
  nq_sender :: string
  nq_recipient :: string
  nq_quote_id :: string
  nq_quote_version :: int
  nq_constraint_fingerprint :: string
  nq_route_fingerprint :: string
  nq_wholesale_account_id :: string
  nq_job_issued_at :: string

text \<open>The pattern \<open>^0x[0-9a-f]{40}$\<close>.\<close>

definition lower_address :: "string \<Rightarrow> bool" where
  "lower_address s \<longleftrightarrow> length s = 42 \<and> take 2 s = ''0x'' \<and> list_all is_lower_hex (drop 2 s)"

definition NonAdmissionQuery :: "non_admission_query \<Rightarrow> error + non_admission_query" where
  "NonAdmissionQuery q =
     (if nq_protocol q = [] \<or> nq_work_id q = [] \<or> \<not> lower_address (nq_sender q) \<or>
         \<not> lower_address (nq_recipient q) \<or> nq_quote_id q = [] \<or> nq_quote_version q < 0 \<or>
         \<not> fingerprint_ok (nq_constraint_fingerprint q) \<or> \<not> fingerprint_ok (nq_route_fingerprint q) \<or>
         validate_wholesale_account_id (nq_wholesale_account_id q) \<noteq> Inr () \<or> nq_job_issued_at q = []
      then Inl (ValueError ''invalid non-admission scope'') else Inr q)"

text \<open>\<open>ask\<close> is the broker's non-admission endpoint.\<close>

definition ask_non_admission ::
  "datetime_text \<Rightarrow> (non_admission_query \<Rightarrow> error + exchange_result) \<Rightarrow> payment_session \<Rightarrow> timestamp \<Rightarrow>
   ('z sessions_db_scheme) \<Rightarrow> error + exchange_result" where
  "ask_non_admission dt ask job_row now db =
     (case job_payer_scope job_row db of
        None \<Rightarrow> query_error ''job lacks persisted payer sender scope''
      | Some (sender, recipient, wholesale_account_id) \<Rightarrow>
          bind_r (non_admission_grant job_row db) (\<lambda>grant.
          if now < expiry_of grant then query_error ''job authorization has not expired''
          else case ps_route_snapshot job_row of
            None \<Rightarrow> query_error ''job lacks valid non-admission scope''
          | Some snapshot \<Rightarrow>
              (case NonAdmissionQuery
                 \<lparr>nq_protocol = PAID_JOB_PROTOCOL, nq_work_id = ps_work_id job_row, nq_sender = sender,
                  nq_recipient = recipient, nq_quote_id = rs_quote_id snapshot,
                  nq_quote_version = rs_quote_version snapshot,
                  nq_constraint_fingerprint = rs_constraint_fingerprint snapshot,
                  nq_route_fingerprint = rs_route_fingerprint snapshot,
                  nq_wholesale_account_id = wholesale_account_id,
                  nq_job_issued_at = dt_isoformat dt (ps_opened_at job_row)\<rparr> of
                 Inl _ \<Rightarrow> query_error ''job lacks valid non-admission scope''
               | Inr query \<Rightarrow> ask query)))"

definition non_admission_expectation ::
  "payment_session \<Rightarrow> route_snapshot \<Rightarrow> spend_authorization_grant \<Rightarrow> string \<Rightarrow> string \<times> string \<times> string \<Rightarrow>
   error + non_admission_expectation" where
  "non_admission_expectation job_row snapshot grant request_id scope =
     (case scope of (sender, recipient, wholesale_account_id) \<Rightarrow>
        bind_r (eth_address_to_bytes sender) (\<lambda>sender_bytes.
        bind_r (eth_address_to_bytes recipient) (\<lambda>recipient_bytes.
        case (fromhex (rs_constraint_fingerprint snapshot), fromhex (rs_route_fingerprint snapshot)) of
          (Some constraint_fingerprint, Some route_fingerprint) \<Rightarrow> Inr
            \<lparr>ne_wholesale_account_id = wholesale_account_id,
             ne_settlement_domain_id = gr_settlement_domain_id grant, ne_protocol = PAID_JOB_PROTOCOL,
             ne_request_id = request_id, ne_work_id = ps_work_id job_row, ne_sender = sender_bytes,
             ne_recipient = recipient_bytes,
             ne_quote_ref =
               \<lparr>qr_quote_id = rs_quote_id snapshot, qr_quote_version = rs_quote_version snapshot,
                qr_constraint_fingerprint = constraint_fingerprint,
                qr_route_fingerprint = route_fingerprint\<rparr>,
             ne_broker_eth_address = rs_eth_address snapshot,
             ne_job_issued_at = Aware (ps_opened_at job_row)\<rparr>
        | _ \<Rightarrow> Inl (ValueError ''non-hexadecimal number found in fromhex()''))))"

definition check_non_admission ::
  "verifier \<Rightarrow> datetime_text \<Rightarrow> payment_session \<Rightarrow> exchange_result \<Rightarrow> envelope \<Rightarrow> string \<Rightarrow>
   ('z sessions_db_scheme) \<Rightarrow> error + (spend_authorization_grant \<times> verified_non_admission)" where
  "check_non_admission v dt job_row exchange envelope request_id db =
     bind_r (non_admission_grant job_row db) (\<lambda>grant.
     if xr_request_id exchange \<noteq> request_id
     then Inl (SettlementVerificationError ''request_id_mismatch'')
     else case job_payer_scope job_row db of
       None \<Rightarrow> Inl (SettlementVerificationError ''missing_sender'')
     | Some scope \<Rightarrow>
         (case ps_route_snapshot job_row of
            None \<Rightarrow> Inl (KeyError ''settlement_keys'')
          | Some snapshot \<Rightarrow>
              if rs_settlement_keys snapshot = []
              then Inl (SettlementVerificationError ''missing_delegation'')
              else
                bind_r (non_admission_expectation job_row snapshot grant request_id scope) (\<lambda>expected.
                bind_r (verify_non_admission v (envelope_dict envelope)
                          (map (delegation_of dt) (rs_settlement_keys snapshot)) expected) (\<lambda>verified.
                Inr (grant, verified)))))"

text \<open>The errors the code turns into a rejected audit record, with the reason it notes.\<close>

definition rejection_reason :: "error \<Rightarrow> string option" where
  "rejection_reason e =
     (case e of
        SettlementVerificationError code \<Rightarrow> Some code
      | KeyError _ \<Rightarrow> Some ''invalid_snapshot''
      | TypeError _ \<Rightarrow> Some ''invalid_snapshot''
      | ValueError _ \<Rightarrow> Some ''invalid_snapshot''
      | BrokerSettlementQueryError _ \<Rightarrow> Some ''invalid_snapshot''
      | _ \<Rightarrow> None)"

definition verified_audit :: "datetime_text \<Rightarrow> string \<Rightarrow> verified_non_admission \<Rightarrow> exchange_result \<Rightarrow> dict" where
  "verified_audit dt evidence_digest verified exchange =
     exchange_audit_record exchange @
       [(''verification'', JObj
          [(''status'', JStr ''verified''), (''evidence_digest'', JStr evidence_digest),
           (''signing_public_key'', JStr (vn_signing_public_key verified)),
           (''observed_at'', JStr (dt_isoformat dt (vn_observed_at verified))),
           (''coverage_started_at'', JStr (dt_isoformat dt (vn_coverage_started_at verified)))])]"

text \<open>The audit event, once per evidence.\<close>

definition record_non_admission_audit ::
  "uuid \<Rightarrow> timestamp \<Rightarrow> string \<Rightarrow> dict \<Rightarrow> ('z sessions_db_scheme, unit) op" where
  "record_non_admission_audit job_id now evidence_digest audit =
     bind_op (gets (\<lambda>db. filter (\<lambda>e. pe_session_id e = job_id \<and> pe_event_type e = ''non_admission_audit'')
         (settlements db))) (\<lambda>prior.
     if list_ex (\<lambda>e. Option.bind (pe_raw_record e) (\<lambda>raw. json_get raw ''evidence_digest'') =
                    Some (JStr evidence_digest)) prior
     then ret ()
     else
       bind_op (record_settlement job_id ''non_admission_audit'' now None None (Some ''NOT_ADMITTED'')
         (Some ((''evidence_digest'', JStr evidence_digest) # audit))) (\<lambda>_.
       ret ()))"

definition release_not_admitted ::
  "payment_session \<Rightarrow> spend_authorization_grant \<Rightarrow> wei \<Rightarrow> timestamp \<Rightarrow> dict \<Rightarrow> ('z sessions_db_scheme, unit) op" where
  "release_not_admitted job_row grant amount now raw_record =
     bind_op (transition_state (ps_id job_row) ''open'' ''closed'' now) (\<lambda>_.
     bind_op (release_customer_engagement (ps_user_id job_row) (ps_id job_row) amount) (\<lambda>_.
     bind_op (modify (set_session (ps_id job_row) (\<lambda>s. s\<lparr>ps_actual_units := Some 0,
         ps_billed_value_wei := Some 0, ps_outcome := Some ''NOT_ADMITTED''\<rparr>))) (\<lambda>_.
     bind_op (modify (set_grant (gr_authorization_id grant) (\<lambda>g. g\<lparr>gr_state := ''expired_unused'',
         gr_retired_at := retired_or now g\<rparr>))) (\<lambda>_.
     bind_op (record_settlement (ps_id job_row) ''close'' now (Some 0) (Some 0) (Some ''NOT_ADMITTED'')
         (Some raw_record)) (\<lambda>_.
     ret ())))))"

definition retain_verified_non_admission ::
  "verifier \<Rightarrow> datetime_text \<Rightarrow> (dict \<Rightarrow> string) \<Rightarrow> uuid \<Rightarrow> exchange_result \<Rightarrow> timestamp \<Rightarrow>
   ('z sessions_db_scheme, bool) op" where
  "retain_verified_non_admission v dt digest job_id exchange now =
     bind_op (gets (\<lambda>db. get_session db job_id)) (\<lambda>found.
     case found of
       None \<Rightarrow> ret False
     | Some job_row \<Rightarrow>
         if ps_state job_row \<noteq> ''open'' then ret False
         else case (xr_non_admission exchange, ps_broker_request_id job_row) of
           (Some envelope, Some request_id) \<Rightarrow>
             bind_op (gets (check_non_admission v dt job_row exchange envelope request_id)) (\<lambda>checked.
             case checked of
               Inl e \<Rightarrow>
                 (case rejection_reason e of
                    None \<Rightarrow> raise e
                  | Some reason \<Rightarrow>
                      bind_op (modify (set_session job_id (note_exchange (exchange_audit_record exchange @
                        [(''verification'', JObj [(''status'', JStr ''rejected''), (''reason'', JStr reason)])])))) (\<lambda>_.
                      ret False))
             | Inr (grant, verified) \<Rightarrow>
                 let evidence_digest = digest (envelope_dict envelope);
                     audit = verified_audit dt evidence_digest verified exchange
                 in bind_op (modify (set_session job_id (note_exchange audit))) (\<lambda>_.
                    bind_op (record_non_admission_audit job_id now evidence_digest audit) (\<lambda>_.
                    if now < expiry_of grant \<or> vn_observed_at verified < expiry_of grant then ret False
                    else case ps_customer_max_debit_wei job_row of
                      None \<Rightarrow> ret False
                    | Some amount \<Rightarrow>
                        bind_op (release_not_admitted job_row grant amount now
                          ((''evidence_digest'', JStr evidence_digest) # audit)) (\<lambda>_.
                        ret True))))
         | _ \<Rightarrow> ret False)"

subsection \<open>Settlements that do not verify\<close>

definition settlement_signature :: "dict \<Rightarrow> string option" where
  "settlement_signature settlement =
     (case json_get settlement ''signature'' of
        Some (JObj signature) \<Rightarrow>
          (case json_get signature ''value'' of Some (JStr value) \<Rightarrow> Some value | _ \<Rightarrow> None)
      | _ \<Rightarrow> None)"

definition settlement_is_blocked :: "payment_session \<Rightarrow> dict \<Rightarrow> bool" where
  "settlement_is_blocked job_row settlement =
     (case json_get (breakdown_of job_row) ''settlement_block'' of
        Some (JObj block) \<Rightarrow>
          none_as_null (json_get block ''signature'') = json_text (settlement_signature settlement)
      | _ \<Rightarrow> False)"

text \<open>
  \<open>int(text)\<close> of a string: surrounding blanks, a sign, and digits with single underscores between them.
\<close>

fun digit_groups :: "bool \<Rightarrow> string \<Rightarrow> bool" where
  "digit_groups after_digit [] = after_digit"
| "digit_groups after_digit (c # cs) =
     (if is_digit c then digit_groups True cs
      else if c = CHR ''_'' \<and> after_digit then cs \<noteq> [] \<and> digit_groups False cs
      else False)"

definition strip :: "string \<Rightarrow> string" where
  "strip s = rev (dropWhile is_space (rev (dropWhile is_space s)))"

definition int_of_text :: "string \<Rightarrow> error + int" where
  "int_of_text s =
     (let body = strip s;
          negative = (take 1 body = ''-'');
          digits = (if take 1 body \<in> {''-'', ''+''} then drop 1 body else body)
      in if \<not> digit_groups False digits then Inl (ValueError ''invalid literal for int()'')
         else let n = int (dec_val (filter is_digit digits)) in Inr (if negative then - n else n))"

definition py_int :: "(string \<Rightarrow> error + int) \<Rightarrow> json \<Rightarrow> error + int" where
  "py_int trunc value =
     (case value of
        JInt n \<Rightarrow> Inr n
      | JBool b \<Rightarrow> Inr (if b then 1 else 0)
      | JFloat s \<Rightarrow> trunc s
      | JStr s \<Rightarrow> int_of_text s
      | _ \<Rightarrow> Inl (TypeError ''int() argument must be a string or a number''))"

definition record_settlement_block ::
  "datetime_text \<Rightarrow> (string \<Rightarrow> error + int) \<Rightarrow> payment_session \<Rightarrow> dict \<Rightarrow> string \<Rightarrow> timestamp \<Rightarrow>
   error + payment_session" where
  "record_settlement_block dt trunc job_row settlement reason now =
     (let existing = (case json_get (breakdown_of job_row) ''settlement_block'' of
            Some (JObj block) \<Rightarrow> Some block | _ \<Rightarrow> None);
          signature = json_text (settlement_signature settlement)
      in bind_r (case existing of
                   None \<Rightarrow> Inr 1
                 | Some block \<Rightarrow>
                     bind_r (py_int trunc (case json_get block ''attempts'' of None \<Rightarrow> JInt 0 | Some a \<Rightarrow> a)) (\<lambda>n.
                     Inr (n + 1))) (\<lambda>attempts.
         let first_seen = (case existing of
               Some block \<Rightarrow>
                 if none_as_null (json_get block ''signature'') = signature
                 then none_as_null (json_get block ''first_seen'') else JStr (dt_isoformat dt now)
             | None \<Rightarrow> JStr (dt_isoformat dt now))
         in Inr (job_row\<lparr>ps_breakdown := Some (dict_set ''settlement_block''
              (JObj [(''reason'', JStr reason), (''signature'', signature), (''first_seen'', first_seen),
                     (''last_seen'', JStr (dt_isoformat dt now)), (''attempts'', JInt attempts)])
              (breakdown_of job_row))\<rparr>)))"

record recovered_settlement_claims =
  rc_job_id :: string
  rc_work_unit :: string
  rc_actual_units :: int
  rc_outcome :: string

text \<open>\<open>KeyError\<close>, \<open>TypeError\<close> and \<open>ValueError\<close> mean no claims; any other exception leaves the function.\<close>

definition recovered_settlement_claims ::
  "(string \<Rightarrow> error + int) \<Rightarrow> exchange_result \<Rightarrow> error + recovered_settlement_claims option" where
  "recovered_settlement_claims trunc exchange =
     (case xr_settlement exchange of
        None \<Rightarrow> Inr None
      | Some envelope \<Rightarrow>
          let payload = en_payload envelope
          in case (json_get payload ''job_id'', json_get payload ''work_unit_name'',
                   json_get payload ''actual_units'', json_get payload ''outcome'') of
               (Some job_id, Some work_unit, Some units, outcome) \<Rightarrow>
                 (case py_int trunc units of
                    Inl (TypeError _) \<Rightarrow> Inr None
                  | Inl (ValueError _) \<Rightarrow> Inr None
                  | Inl e \<Rightarrow> Inl e
                  | Inr actual_units \<Rightarrow>
                      (case (job_id, work_unit, outcome) of
                         (JStr j, JStr w, Some (JStr o')) \<Rightarrow>
                           if j = [] \<or> w = [] \<or> actual_units < 0 \<or> o' = [] then Inr None
                           else Inr (Some \<lparr>rc_job_id = j, rc_work_unit = w,
                                  rc_actual_units = actual_units, rc_outcome = o'\<rparr>)
                       | _ \<Rightarrow> Inr None))
             | _ \<Rightarrow> Inr None)"

text \<open>The exceptions the janitor catches: those that block the settlement, with the reason noted, and those it ignores.\<close>

definition block_reason :: "error \<Rightarrow> string option" where
  "block_reason e =
     (case e of
        SettlementVerificationFailed reason \<Rightarrow> Some reason
      | WorkUnitMismatch _ _ \<Rightarrow> Some ''work_unit_mismatch''
      | _ \<Rightarrow> None)"

definition ignored_error :: "error \<Rightarrow> bool" where
  "ignored_error e = (case e of JobAlreadySettled _ \<Rightarrow> True | ValueError _ \<Rightarrow> True | _ \<Rightarrow> False)"

definition block_job ::
  "datetime_text \<Rightarrow> (string \<Rightarrow> error + int) \<Rightarrow> uuid \<Rightarrow> dict \<Rightarrow> string \<Rightarrow> timestamp \<Rightarrow> ('z sessions_db_scheme, bool) op" where
  "block_job dt trunc job_id settlement reason now =
     bind_op (gets (\<lambda>db. get_session db job_id)) (\<lambda>current.
     case current of
       None \<Rightarrow> ret False
     | Some row \<Rightarrow>
         bind_op (of_result (record_settlement_block dt trunc row settlement reason now)) (\<lambda>row'.
         bind_op (modify (set_session job_id (\<lambda>_. row'))) (\<lambda>_.
         ret False)))"

text \<open>The recovered settlement of one job: whether it was settled.\<close>

definition settle_recovered ::
  "verifier \<Rightarrow> datetime_text \<Rightarrow> (string \<Rightarrow> error + int) \<Rightarrow> uuid \<Rightarrow> exchange_result \<Rightarrow> timestamp \<Rightarrow> billing_settings \<Rightarrow>
   ('z clearing_db_scheme, bool) op" where
  "settle_recovered v dt trunc job_id exchange now settings =
     bind_op (of_result (recovered_settlement_claims trunc exchange)) (\<lambda>claims.
     bind_op (gets (\<lambda>db. get_session db job_id)) (\<lambda>found.
     case (claims, xr_settlement exchange, found) of
       (Some c, Some envelope, Some job_row) \<Rightarrow>
         if settlement_is_blocked job_row (envelope_dict envelope) then ret False
         else
           catch_op
             (bind_op (of_result (SettlementEnvelope envelope)) (\<lambda>settlement.
              bind_op (settle_job v dt job_id (ps_user_id job_row) (rc_actual_units c) (rc_job_id c)
                         (rc_work_unit c) (Some (rc_outcome c)) settlement now settings) (\<lambda>_.
              ret True)))
             (\<lambda>e. case block_reason e of
                Some reason \<Rightarrow> block_job dt trunc job_id (envelope_dict envelope) reason now
              | None \<Rightarrow> if ignored_error e then ret False else raise e)
     | _ \<Rightarrow> ret False))"

subsection \<open>The janitor\<close>

text \<open>
  What the broker answers about one job: the exchange lookup and, when asked, the non-admission query.
\<close>

record job_oracle =
  jo_exchange :: "error + exchange_result"
  jo_non_admission :: "non_admission_query \<Rightarrow> error + exchange_result"

definition lookup_failed :: "string \<Rightarrow> string \<Rightarrow> dict" where
  "lookup_failed request_id detail =
     [(''request_id'', JStr request_id), (''outcome'', JStr ''LOOKUP_FAILED''), (''detail'', JStr detail)]"

definition refine_exchange ::
  "datetime_text \<Rightarrow> job_oracle \<Rightarrow> payment_session \<Rightarrow> exchange_result \<Rightarrow> timestamp \<Rightarrow> ('z sessions_db_scheme) \<Rightarrow>
   error + exchange_result" where
  "refine_exchange dt broker job_row exchange now db =
     (if xr_outcome exchange \<in> {NO_RECORD, ADMISSION_REJECTED}
      then case ask_non_admission dt (jo_non_admission broker) job_row now db of
             Inl (BrokerSettlementQueryError msg) \<Rightarrow>
               Inr (exchange\<lparr>xr_detail := Some (''non-admission query failed: '' @ msg)\<rparr>)
           | answer \<Rightarrow> answer
      else Inr exchange)"

text \<open>One job of the batch; the result says whether it was finalized.\<close>

definition apply_exchange ::
  "verifier \<Rightarrow> datetime_text \<Rightarrow> (dict \<Rightarrow> string) \<Rightarrow> (string \<Rightarrow> error + int) \<Rightarrow> uuid \<Rightarrow> exchange_result \<Rightarrow> timestamp \<Rightarrow>
   billing_settings \<Rightarrow> int \<Rightarrow> ('z clearing_db_scheme, bool) op" where
  "apply_exchange v dt digest trunc job_id exchange now settings charge_after =
     (if xr_outcome exchange = NOT_ADMITTED
      then retain_verified_non_admission v dt digest job_id exchange now
      else
        bind_op (if xr_outcome exchange = SETTLED
                 then settle_recovered v dt trunc job_id exchange now settings else ret False) (\<lambda>settled.
        if settled then ret True
        else if xr_outcome exchange \<in> {ACCOUNTING_PENDING, IN_FLIGHT, ADMISSION_REJECTED} then ret False
        else if charge_after \<le> 0 then ret False
        else finalize_conservative_full_charge dt job_id now charge_after (exchange_audit_record exchange)))"

definition reconcile_open_job ::
  "verifier \<Rightarrow> datetime_text \<Rightarrow> (dict \<Rightarrow> string) \<Rightarrow> (string \<Rightarrow> error + int) \<Rightarrow> (payment_session \<Rightarrow> job_oracle) \<Rightarrow>
   timestamp \<Rightarrow> billing_settings \<Rightarrow> int \<Rightarrow> payment_session \<Rightarrow> ('z clearing_db_scheme, bool) op" where
  "reconcile_open_job v dt digest trunc oracle now settings charge_after job_row =
     (let polled = (\<lambda>evidence s. note_exchange evidence (s\<lparr>ps_last_polled_at := Some now\<rparr>))
      in case (ps_broker_request_id job_row, ps_route_snapshot job_row) of
           (Some request_id, Some snapshot) \<Rightarrow>
             if request_id = [] \<or> rs_broker_url snapshot = [] then ret False
             else (case jo_exchange (oracle job_row) of
                 Inl (BrokerSettlementQueryError detail) \<Rightarrow>
                   let evidence = lookup_failed request_id detail
                   in bind_op (modify (set_session (ps_id job_row) (polled evidence))) (\<lambda>_.
                      if charge_after \<le> 0 then ret False
                      else finalize_conservative_full_charge dt (ps_id job_row) now charge_after evidence)
               | Inl e \<Rightarrow> raise e
               | Inr first \<Rightarrow>
                   bind_op (gets (refine_exchange dt (oracle job_row) job_row first now)) (\<lambda>refined.
                   bind_op (of_result refined) (\<lambda>exchange.
                   bind_op (modify (set_session (ps_id job_row) (polled (exchange_audit_record exchange)))) (\<lambda>_.
                   apply_exchange v dt digest trunc (ps_id job_row) exchange now settings charge_after))))
         | _ \<Rightarrow> ret False)"

definition reconcile_open_jobs ::
  "verifier \<Rightarrow> datetime_text \<Rightarrow> (dict \<Rightarrow> string) \<Rightarrow> (string \<Rightarrow> error + int) \<Rightarrow> (payment_session \<Rightarrow> job_oracle) \<Rightarrow>
   timestamp \<Rightarrow> billing_settings \<Rightarrow> int \<Rightarrow> int \<Rightarrow> nat \<Rightarrow> ('z clearing_db_scheme, int) op" where
  "reconcile_open_jobs v dt digest trunc oracle now settings charge_after interval_seconds batch_limit =
     bind_op (gets (\<lambda>db. take batch_limit (by_last_polled (filter
         (\<lambda>s. ps_protocol s = PAID_JOB_PROTOCOL \<and> ps_accounting_mode s = ''wholesale_account'' \<and>
              ps_state s = ''open'' \<and> poll_due (now - seconds interval_seconds) s) (sessions db))))) (\<lambda>rows.
     fold_op (\<lambda>finalized job_row.
       bind_op (reconcile_open_job v dt digest trunc oracle now settings charge_after job_row) (\<lambda>done.
       ret (if done then finalized + 1 else finalized))) 0 rows)"

section \<open>Status\<close>

record job_status_response =
  jx_job_id :: uuid
  jx_request_id :: string
  jx_work_id :: string
  jx_state :: string
  jx_accounting_outcome :: string
  jx_broker_exchange_outcome :: "string option"
  jx_actual_units :: "int option"
  jx_billed_value_wei :: "wei option"
  jx_funded_value_wei :: wei
  jx_creation_round :: "int option"
  jx_expires_after_round :: "int option"
  jx_mint_ticket_validity_period :: "int option"
  jx_mint_ticket_validity_period_observed_at :: "timestamp option"
  jx_observed_current_round :: "int option"
  jx_current_ticket_validity_period :: "int option"
  jx_current_ticket_validity_period_observed_at :: "datetime option"
  jx_opened_at :: timestamp
  jx_closed_at :: "timestamp option"

definition exchange_outcome_of :: "payment_session \<Rightarrow> string option" where
  "exchange_outcome_of job_row =
     (case json_get (breakdown_of job_row) ''broker_exchange'' of
        Some (JObj exchange) \<Rightarrow> (case json_get exchange ''outcome'' of Some (JStr s) \<Rightarrow> Some s | _ \<Rightarrow> None)
      | _ \<Rightarrow> None)"

definition verified_evidence :: "payment_session \<Rightarrow> bool" where
  "verified_evidence job_row \<longleftrightarrow>
     (case json_get (breakdown_of job_row) ''broker_exchange'' of
        Some (JObj exchange) \<Rightarrow>
          (case json_get exchange ''verification'' of
             Some (JObj verification) \<Rightarrow> json_get verification ''status'' = Some (JStr ''verified'')
           | _ \<Rightarrow> False)
      | _ \<Rightarrow> False)"

definition accounting_outcome :: "payment_session \<Rightarrow> string" where
  "accounting_outcome job_row =
     (if ps_outcome job_row = Some ''conservative_full_charge'' then ''conservative_full_charge''
      else if ps_state job_row = ''closed'' then ''broker_settled''
      else if exchange_outcome_of job_row = Some (outcome_value NOT_ADMITTED) \<and> verified_evidence job_row
      then ''non_admission_audit''
      else ''unresolved'')"

definition get_job_status :: "uuid \<Rightarrow> uuid \<Rightarrow> ('z clearing_db_scheme, job_status_response) op" where
  "get_job_status job_id user_id =
     bind_op (gets (\<lambda>db. get_session db job_id)) (\<lambda>found.
     case found of
       None \<Rightarrow> raise JobNotFound
     | Some job_row \<Rightarrow>
         (case ps_broker_request_id job_row of
            None \<Rightarrow> raise JobNotFound
          | Some request_id \<Rightarrow>
              bind_op (require (\<not> (ps_user_id job_row \<noteq> user_id \<or> ps_protocol job_row \<noteq> PAID_JOB_PROTOCOL \<or>
                          request_id = [])) JobNotFound) (\<lambda>_.
              bind_op (gets (\<lambda>db. find (\<lambda>p. pm_session_id p = Some job_id) (payments db))) (\<lambda>initial_payment.
              bind_op (gets (\<lambda>db. latest_deposit (deposits db))) (\<lambda>validity_snapshot.
              ret \<lparr>jx_job_id = ps_id job_row, jx_request_id = request_id, jx_work_id = ps_work_id job_row,
                   jx_state = ps_state job_row, jx_accounting_outcome = accounting_outcome job_row,
                   jx_broker_exchange_outcome = exchange_outcome_of job_row,
                   jx_actual_units = ps_actual_units job_row,
                   jx_billed_value_wei = ps_billed_value_wei job_row,
                   jx_funded_value_wei = ps_funded_value_wei job_row,
                   jx_creation_round = Option.bind initial_payment pm_creation_round,
                   jx_expires_after_round = Option.bind initial_payment pm_expires_after_round,
                   jx_mint_ticket_validity_period = Option.bind initial_payment pm_ticket_validity_period,
                   jx_mint_ticket_validity_period_observed_at =
                     Option.bind initial_payment pm_ticket_validity_period_observed_at,
                   jx_observed_current_round = Option.bind validity_snapshot dp_current_round,
                   jx_current_ticket_validity_period =
                     Option.bind validity_snapshot dp_ticket_validity_period,
                   jx_current_ticket_validity_period_observed_at =
                     Option.bind validity_snapshot dp_ticket_validity_period_observed_at,
                   jx_opened_at = ps_opened_at job_row, jx_closed_at = ps_closed_at job_row\<rparr>)))))"

end
