(* ===== verification/Endpoints.thy ===== *)
theory Endpoints
  imports Jobs
begin

text \<open>
  The creating HTTP handlers (\<open>domains/jobs/runtime.py\<close>, \<open>domains/sessions/runtime.py\<close>) over the service
  operations: claim the idempotency key, replay a stored answer, otherwise run the service and store its answer or
  its failure. The exceptions are rendered as \<open>errors.py\<close> and the service modules declare them.

  Bodies are the validated request models. \<open>rp\<close> is Python's \<open>repr\<close> of a string; a response model is stored as
  its JSON dump and read back by \<open>model_validate\<close>, both arguments (\<open>codec\<close>).
\<close>

section \<open>Rendering exceptions\<close>

record error_view =
  ev_status_code :: int
  ev_code :: string
  ev_message :: string
  ev_details :: dict

definition error_view :: "int \<Rightarrow> string \<Rightarrow> string \<Rightarrow> dict \<Rightarrow> error_view option" where
  "error_view status code message details =
     Some \<lparr>ev_status_code = status, ev_code = code, ev_message = message, ev_details = details\<rparr>"

text \<open>What an exception renders to when it is an \<open>OpenClearinghouseError\<close>; \<open>None\<close> for any other exception.\<close>

definition describe :: "(string \<Rightarrow> string) \<Rightarrow> error \<Rightarrow> error_view option" where
  "describe rp e =
     (case e of
        InsufficientCredit available required \<Rightarrow> error_view 402 ''INSUFFICIENT_CREDIT''
          (''Available balance '' @ str_int available @ '' wei is less than required '' @ str_int required @ '' wei'')
          [(''available_wei'', JStr (str_int available)), (''required_wei'', JStr (str_int required))]
      | SpendCapExceeded cap would \<Rightarrow> error_view 402 ''SPEND_CAP_EXCEEDED''
          (''Window spend cap '' @ str_int cap @ '' wei would be exceeded ('' @ str_int would @ '' wei after this charge)'')
          [(''cap_wei'', JStr (str_int cap)), (''would_be_spent_wei'', JStr (str_int would))]
      | AccountNotApproved \<Rightarrow> error_view 403 ''ACCOUNT_NOT_APPROVED'' ''Account has not been approved by an operator yet'' []
      | NoRouteAvailable capability offering \<Rightarrow> error_view 404 ''NO_ROUTE_AVAILABLE''
          (''No route for capability='' @ rp capability @ '', offering='' @ rp offering)
          [(''capability'', JStr capability), (''offering'', JStr offering)]
      | NoSettlementDelegation capability offering \<Rightarrow> error_view 400 ''no_settlement_delegation''
          (''route for capability='' @ rp capability @ '', offering='' @ rp offering @
           '' publishes no settlement_keys; refusing to fund work that could never settle'')
          [(''capability'', JStr capability), (''offering'', JStr offering)]
      | DaemonUnavailable daemon reason \<Rightarrow> error_view 503 ''DAEMON_UNAVAILABLE''
          (daemon @ '' unavailable: '' @ reason) [(''daemon'', JStr daemon), (''reason'', JStr reason)]
      | AuthorizationRefused reason \<Rightarrow> error_view 422 ''AUTHORIZATION_REFUSED''
          (''payer refused the spend authorization: '' @ reason) [(''reason'', JStr reason)]
      | WholesaleFundingUnverified reason \<Rightarrow> error_view 503 ''WHOLESALE_FUNDING_UNVERIFIED''
          (''wholesale account funding could not be verified: '' @ reason) [(''reason'', JStr reason)]
      | EngagementClosed \<Rightarrow> error_view 409 ''ENGAGEMENT_CLOSED''
          ''this request's engagement is already closed; retry with a new request'' []
      | IdempotencyKeyReuse \<Rightarrow> error_view 409 ''IDEMPOTENCY_KEY_REUSE''
          ''This Idempotency-Key was already used with different content'' []
      | IdempotencyInProgress \<Rightarrow> error_view 409 ''IDEMPOTENCY_IN_PROGRESS''
          ''The request associated with this Idempotency-Key is still in flight'' []
      | IdempotencyOutcomeUnknown \<Rightarrow> error_view 409 ''IDEMPOTENCY_OUTCOME_UNKNOWN''
          (''The payer reserved this mint request but has no completed result to replay; '' @
           ''retry with a new Idempotency-Key'') []
      | ProtocolNotSupportedForSession protocol \<Rightarrow> error_view 400 ''protocol_not_supported_for_session''
          (''protocol '' @ rp protocol @ '' is not accepted by POST /v1/sessions; paid jobs use POST /v1/jobs'') []
      | InvalidSessionRequest message \<Rightarrow> error_view 400 ''invalid_session_request'' message []
      | RouteBindingMismatch binding \<Rightarrow> error_view 409 ''route_binding_mismatch''
          ''the selected route binding is unavailable or has changed''
          [(''route_binding'', JObj (map (\<lambda>(k, v). (k, JStr v)) binding))]
      | SessionSettlementVerificationFailed reason \<Rightarrow> error_view 400 ''settlement_verification_failed''
          ''the signed session settlement could not be verified'' [(''reason'', JStr reason)]
      | RefillNotSupported \<Rightarrow> error_view 400 ''refill_not_supported''
          (''this offering declares session.refill='' @ rp ''bounded'' @
           ''; the session will end when its funded runway is exhausted'') []
      | SessionNotOpen state \<Rightarrow> error_view 409 ''session_not_open''
          (''session is in state '' @ rp state @ ''; refill requires '' @ rp ''open'') []
      | SuccessorAuthorizationUnresolved session authorization \<Rightarrow>
          error_view 503 ''successor_authorization_unresolved''
          ''successor authorization retirement is not yet verified''
          [(''session_id'', JStr session), (''authorization_id'', JStr authorization)]
      | ProtocolNotSupportedForJob protocol \<Rightarrow> error_view 400 ''protocol_not_supported_for_job''
          (''protocol '' @ rp protocol @ '' is not accepted by POST /v1/jobs; paid sessions use POST /v1/sessions'') []
      | TransportNotSupportedForJob transport declared \<Rightarrow> error_view 400 ''protocol_transport_unsupported''
          (''transport '' @ rp transport @ '' is not declared by the selected offering'')
          [(''transport'', JStr transport), (''declared_transports'', JArr (map JStr declared))]
      | JobNotFound \<Rightarrow> error_view 404 ''job_not_found'' ''job not found'' []
      | JobAlreadySettled state \<Rightarrow> error_view 409 ''job_already_settled''
          (''job is in state '' @ rp state @ ''; settle requires '' @ rp ''open'') []
      | WorkUnitMismatch expected received \<Rightarrow> error_view 409 ''work_unit_mismatch''
          (''broker reported work unit '' @ rp received @ ''; expected '' @ rp expected)
          [(''expected'', JStr expected), (''received'', JStr received)]
      | SettlementVerificationFailed reason \<Rightarrow> error_view 409 ''settlement_verification_failed''
          ''broker settlement verification failed'' [(''reason'', JStr reason)]
      | JobNotResolvable reason state \<Rightarrow> error_view 409 ''job_not_resolvable''
          (''job cannot be resolved: '' @ reason) [(''reason'', JStr reason), (''state'', json_text state)]
      | OpenClearinghouseError status code message details \<Rightarrow> error_view status code message details
      | _ \<Rightarrow> None)"

definition error_payload :: "error_view \<Rightarrow> dict" where
  "error_payload v =
     [(''error'', JObj [(''code'', JStr (ev_code v)), (''message'', JStr (ev_message v)),
        (''details'', JObj (ev_details v))])]"

text \<open>The global handler: the status and the body of a response; an exception it does not know is a 500.\<close>

definition handle :: "(string \<Rightarrow> string) \<Rightarrow> error \<Rightarrow> int \<times> dict option" where
  "handle rp e =
     (case describe rp e of None \<Rightarrow> (500, None) | Some v \<Rightarrow> (ev_status_code v, Some (error_payload v)))"

section \<open>Claimed requests\<close>

record 'r codec =
  co_dump :: "'r \<Rightarrow> dict"
  co_load :: "dict \<Rightarrow> error + 'r"

text \<open>\<open>str(value)\<close> of the members an error payload has; the stored payloads hold strings there.\<close>

definition text_or :: "string \<Rightarrow> json option \<Rightarrow> string" where
  "text_or fallback value = (case value of Some (JStr s) \<Rightarrow> s | _ \<Rightarrow> fallback)"

text \<open>\<open>success\<close> is 201 for a creation and 200 for a refill.\<close>

definition replay_create :: "'r codec \<Rightarrow> int \<Rightarrow> create_request_claim \<Rightarrow> error + 'r" where
  "replay_create codec success claim =
     (let payload = (case cc_replay_payload claim of None \<Rightarrow> [] | Some p \<Rightarrow> p)
      in if cc_replay_status claim = Some success then co_load codec payload
         else case (case json_get payload ''error'' of None \<Rightarrow> JObj [] | Some e \<Rightarrow> e) of
           JObj error \<Rightarrow>
             Inl (OpenClearinghouseError
               (case cc_replay_status claim of None \<Rightarrow> 500 | Some s \<Rightarrow> if s = 0 then 500 else s)
               (text_or ''IDEMPOTENCY_REPLAY_ERROR'' (json_get error ''code''))
               (text_or ''Stored request failed'' (json_get error ''message''))
               (case json_get error ''details'' of Some (JObj details) \<Rightarrow> details | _ \<Rightarrow> []))
         | _ \<Rightarrow> Inl (RuntimeError ''stored idempotency error payload is malformed''))"

definition may_retry :: "error \<Rightarrow> bool" where
  "may_retry e = (case e of DaemonUnavailable _ _ \<Rightarrow> True | WholesaleFundingUnverified _ \<Rightarrow> True | _ \<Rightarrow> False)"

text \<open>The \<open>except OpenClearinghouseError\<close> of a creating handler.\<close>

definition record_failure ::
  "(string \<Rightarrow> string) \<Rightarrow> uuid \<Rightarrow> string \<Rightarrow> string \<Rightarrow> timestamp \<Rightarrow> int \<Rightarrow> error \<Rightarrow>
   (('z clearing_db_scheme) txn, 'r) op" where
  "record_failure rp user_id operation idempotency_key now retention_seconds e =
     (case describe rp e of
        None \<Rightarrow> raise e
      | Some view \<Rightarrow>
          bind_op rollback (\<lambda>_.
          bind_op (if may_retry e then ret ()
                   else fail_create_request user_id operation idempotency_key (ev_status_code view)
                          (error_payload view) now retention_seconds (e = IdempotencyOutcomeUnknown)) (\<lambda>_.
          raise e)))"

definition claimed_request ::
  "(string \<Rightarrow> string) \<Rightarrow> 'r codec \<Rightarrow> int \<Rightarrow> uuid \<Rightarrow> string \<Rightarrow> string \<Rightarrow> timestamp \<Rightarrow> int \<Rightarrow>
   (string \<Rightarrow> (('z clearing_db_scheme) txn, 'r) op) \<Rightarrow> create_request_claim \<Rightarrow> (('z clearing_db_scheme) txn, 'r) op" where
  "claimed_request rp codec success user_id operation idempotency_key now retention_seconds service claim =
     (if is_replay claim then of_result (replay_create codec success claim)
      else
        bind_op (catch_op (service (cc_broker_request_id claim))
                   (record_failure rp user_id operation idempotency_key now retention_seconds)) (\<lambda>response.
        bind_op (complete_create_request user_id operation idempotency_key success (co_dump codec response) now
                   retention_seconds None) (\<lambda>_.
        ret response)))"

text \<open>\<open>bytes.fromhex\<close> of a body field.\<close>

definition body_bytes :: "string \<Rightarrow> error + bytes" where
  "body_bytes s = (case fromhex s of None \<Rightarrow> Inl (ValueError ''non-hexadecimal number found in fromhex()'') | Some b \<Rightarrow> Inr b)"

definition dump_optional_binding :: "route_binding option \<Rightarrow> json" where
  "dump_optional_binding b =
     (case b of None \<Rightarrow> JNull | Some r \<Rightarrow> JObj (map (\<lambda>(k, v). (k, JStr v)) (dump_binding r)))"

section \<open>Jobs\<close>

record create_job_request =
  jr_capability :: string
  jr_offering :: string
  jr_transport :: transport
  jr_estimated_units :: int
  jr_max_total_units :: "int option"
  jr_route_binding :: "route_binding option"
  jr_workload_request_digest :: string
  jr_caller_public_key :: string

definition CreateJobRequest :: "create_job_request \<Rightarrow> bool" where
  "CreateJobRequest body \<longleftrightarrow> jr_capability body \<noteq> [] \<and> jr_offering body \<noteq> [] \<and> 0 < jr_estimated_units body \<and>
     (case jr_max_total_units body of None \<Rightarrow> True | Some m \<Rightarrow> 0 < m) \<and>
     length (jr_workload_request_digest body) = 64 \<and> list_all is_lower_hex (jr_workload_request_digest body) \<and>
     length (jr_caller_public_key body) = 66 \<and> take 2 (jr_caller_public_key body) \<in> {''02'', ''03''} \<and>
     list_all is_lower_hex (jr_caller_public_key body)"

definition dump_job_request :: "create_job_request \<Rightarrow> dict" where
  "dump_job_request body =
     [(''capability'', JStr (jr_capability body)), (''offering'', JStr (jr_offering body)),
      (''transport'', JStr (transport_value (jr_transport body))),
      (''estimated_units'', JInt (jr_estimated_units body)),
      (''max_total_units'', json_int (jr_max_total_units body)),
      (''route_binding'', dump_optional_binding (jr_route_binding body)),
      (''workload_request_digest'', JStr (jr_workload_request_digest body)),
      (''caller_public_key'', JStr (jr_caller_public_key body))]"

definition open_job_endpoint ::
  "('z clearing_db_scheme) option \<Rightarrow> ('z clearing_db_scheme) option \<Rightarrow> (string \<Rightarrow> string) \<Rightarrow> (json \<Rightarrow> string) \<Rightarrow>
   create_job_response codec \<Rightarrow> request_world option \<Rightarrow>
   (create_spend_authorization_request \<Rightarrow> error + create_spend_authorization_response) \<Rightarrow> selected_route option \<Rightarrow>
   selected_route list \<Rightarrow> uuid \<Rightarrow> string \<Rightarrow> string \<Rightarrow> uuid \<Rightarrow> uuid \<Rightarrow> create_job_request \<Rightarrow> string \<Rightarrow> string option \<Rightarrow>
   timestamp \<Rightarrow> session_settings \<Rightarrow> int \<Rightarrow> int \<Rightarrow> (('z clearing_db_scheme) txn, create_job_response) op" where
  "open_job_endpoint snapshot conflict rp digest codec world sign select select_many new_id new_request_id
     fresh_request_id user_id api_key_id body idempotency_key sdk_identity now settings
     inflight_timeout_seconds retention_seconds =
     (let operation = ''jobs.create'';
          fingerprint = create_request_fingerprint digest operation (dump_job_request body)
      in bind_op (claim_create_request snapshot new_request_id user_id api_key_id operation idempotency_key
                    fingerprint now inflight_timeout_seconds)
           (claimed_request rp codec 201 user_id operation idempotency_key now retention_seconds
              (\<lambda>broker_request_id.
                 bind_op (of_result (body_bytes (jr_workload_request_digest body))) (\<lambda>request_digest.
                 bind_op (of_result (body_bytes (jr_caller_public_key body))) (\<lambda>caller_public_key.
                 open_job conflict world sign select select_many new_id fresh_request_id user_id api_key_id
                   (jr_capability body) (jr_offering body) (jr_estimated_units body) (jr_max_total_units body)
                   sdk_identity now settings (jr_transport body) (jr_route_binding body)
                   (Some broker_request_id) request_digest caller_public_key)))))"

section \<open>Sessions\<close>

record prepare_session_request =
  qp_capability :: string
  qp_offering :: string
  qp_descriptor_schema :: string
  qp_route_binding :: "route_binding option"

definition dump_prepare_request :: "prepare_session_request \<Rightarrow> dict" where
  "dump_prepare_request body =
     [(''capability'', JStr (qp_capability body)), (''offering'', JStr (qp_offering body)),
      (''descriptor_schema'', JStr (qp_descriptor_schema body)),
      (''route_binding'', dump_optional_binding (qp_route_binding body))]"

text \<open>A failed preparation releases its own lease instead of storing the failure.\<close>

definition prepare_session_endpoint ::
  "('z clearing_db_scheme) option \<Rightarrow> (string \<Rightarrow> string) \<Rightarrow> (json \<Rightarrow> string) \<Rightarrow> prepare_session_response codec \<Rightarrow>
   token_codec \<Rightarrow> datetime_text \<Rightarrow> selected_route option \<Rightarrow> selected_route list \<Rightarrow> uuid \<Rightarrow> string \<Rightarrow> uuid \<Rightarrow> uuid \<Rightarrow>
   prepare_session_request \<Rightarrow> string \<Rightarrow> timestamp \<Rightarrow> int \<Rightarrow> int \<Rightarrow>
   (('z clearing_db_scheme) txn, prepare_session_response) op" where
  "prepare_session_endpoint snapshot rp digest codec tokens dt select select_many new_id new_request_id user_id
     api_key_id body idempotency_key now inflight_timeout_seconds retention_seconds =
     (let operation = ''sessions.prepare'';
          fingerprint = create_request_fingerprint digest operation (dump_prepare_request body)
      in bind_op (claim_create_request snapshot new_request_id user_id api_key_id operation idempotency_key
                    fingerprint now inflight_timeout_seconds) (\<lambda>claim.
         if is_replay claim
         then of_result (co_load codec (case cc_replay_payload claim of None \<Rightarrow> [] | Some p \<Rightarrow> p))
         else
           bind_op (catch_op
             (of_result (prepare_session tokens dt new_id user_id api_key_id (qp_capability body)
                (qp_offering body) (qp_descriptor_schema body) (qp_route_binding body) select select_many now))
             (\<lambda>e. if describe rp e = None then raise e
                  else bind_op rollback (\<lambda>_.
                       bind_op (release_failed_session_preparation user_id idempotency_key claim) (\<lambda>_.
                       raise e)))) (\<lambda>response.
           bind_op (complete_create_request user_id operation idempotency_key 201 (co_dump codec response) now
                      retention_seconds None) (\<lambda>_.
           ret response))))"

record create_session_request =
  qs_capability :: string
  qs_offering :: string
  qs_descriptor_schema :: string
  qs_session_params :: dict
  qs_estimated_runway_units :: int
  qs_max_total_units :: int
  qs_gateway_session_id :: uuid
  qs_preparation_token :: string
  qs_route_binding :: "route_binding option"
  qs_workload_request_digest :: string
  qs_caller_public_key :: string

definition dump_session_request :: "create_session_request \<Rightarrow> dict" where
  "dump_session_request body =
     [(''capability'', JStr (qs_capability body)), (''offering'', JStr (qs_offering body)),
      (''descriptor_schema'', JStr (qs_descriptor_schema body)),
      (''session_params'', JObj (qs_session_params body)),
      (''estimated_runway_units'', JInt (qs_estimated_runway_units body)),
      (''max_total_units'', JInt (qs_max_total_units body)),
      (''gateway_session_id'', JStr (qs_gateway_session_id body)),
      (''preparation_token'', JStr (qs_preparation_token body)),
      (''route_binding'', dump_optional_binding (qs_route_binding body)),
      (''workload_request_digest'', JStr (qs_workload_request_digest body)),
      (''caller_public_key'', JStr (qs_caller_public_key body))]"

definition open_session_endpoint ::
  "('z clearing_db_scheme) option \<Rightarrow> ('z clearing_db_scheme) option \<Rightarrow> (string \<Rightarrow> string) \<Rightarrow> (json \<Rightarrow> string) \<Rightarrow>
   create_session_response codec \<Rightarrow> token_codec \<Rightarrow> datetime_text \<Rightarrow> request_world option \<Rightarrow>
   (create_spend_authorization_request \<Rightarrow> error + create_spend_authorization_response) \<Rightarrow> selected_route option \<Rightarrow>
   selected_route list \<Rightarrow> uuid \<Rightarrow> string \<Rightarrow> uuid \<Rightarrow> uuid \<Rightarrow> create_session_request \<Rightarrow> string \<Rightarrow> string option \<Rightarrow>
   timestamp \<Rightarrow> session_settings \<Rightarrow> int \<Rightarrow> int \<Rightarrow> (('z clearing_db_scheme) txn, create_session_response) op" where
  "open_session_endpoint snapshot conflict rp digest codec tokens dt world sign select select_many new_id
     new_request_id user_id api_key_id body idempotency_key sdk_identity now settings
     inflight_timeout_seconds retention_seconds =
     (let operation = ''sessions.create'';
          fingerprint = create_request_fingerprint digest operation (dump_session_request body)
      in bind_op (claim_create_request snapshot new_request_id user_id api_key_id operation idempotency_key
                    fingerprint now inflight_timeout_seconds)
           (claimed_request rp codec 201 user_id operation idempotency_key now retention_seconds
              (\<lambda>broker_request_id.
                 bind_op (of_result (body_bytes (qs_workload_request_digest body))) (\<lambda>request_digest.
                 bind_op (of_result (body_bytes (qs_caller_public_key body))) (\<lambda>caller_public_key.
                 open_session tokens dt conflict world sign select select_many new_id user_id api_key_id
                   (qs_capability body) (qs_offering body) (qs_estimated_runway_units body)
                   (qs_max_total_units body) sdk_identity now settings (qs_descriptor_schema body)
                   (qs_route_binding body) broker_request_id request_digest caller_public_key
                   (qs_gateway_session_id body) (qs_preparation_token body))))))"

record refill_session_request =
  qr_observed_consumed_units :: "int option"
  qr_max_total_units :: int
  qr_workload_request_digest :: string

definition dump_refill_request :: "uuid \<Rightarrow> refill_session_request \<Rightarrow> dict" where
  "dump_refill_request session_id body =
     [(''session_id'', JStr session_id),
      (''observed_consumed_units'', json_int (qr_observed_consumed_units body)),
      (''max_total_units'', JInt (qr_max_total_units body)),
      (''workload_request_digest'', JStr (qr_workload_request_digest body))]"

definition refill_session_endpoint ::
  "('z clearing_db_scheme) option \<Rightarrow> (string \<Rightarrow> string) \<Rightarrow> (json \<Rightarrow> string) \<Rightarrow> refill_session_response codec \<Rightarrow>
   request_world option \<Rightarrow> (create_spend_authorization_request \<Rightarrow> error + create_spend_authorization_response) \<Rightarrow>
   uuid \<Rightarrow> refill_session_request \<Rightarrow> string \<Rightarrow> uuid \<Rightarrow> uuid \<Rightarrow> string \<Rightarrow> timestamp \<Rightarrow> session_settings \<Rightarrow> int \<Rightarrow> int \<Rightarrow>
   (('z clearing_db_scheme) txn, refill_session_response) op" where
  "refill_session_endpoint snapshot rp digest codec world sign session_id body new_request_id user_id api_key_id
     idempotency_key now settings inflight_timeout_seconds retention_seconds =
     (let operation = ''sessions.refill'';
          fingerprint = create_request_fingerprint digest operation (dump_refill_request session_id body)
      in bind_op (claim_create_request snapshot new_request_id user_id api_key_id operation idempotency_key
                    fingerprint now inflight_timeout_seconds)
           (claimed_request rp codec 200 user_id operation idempotency_key now retention_seconds
              (\<lambda>broker_request_id.
                 bind_op (of_result (body_bytes (qr_workload_request_digest body))) (\<lambda>request_digest.
                 refill_session world sign session_id user_id now settings broker_request_id
                   (qr_max_total_units body) request_digest))))"

end
