(* ===== verification/Resolution.thy ===== *)
theory Resolution
  imports Jobs
begin

text \<open>
  Operator recourse (\<open>domains/admin/service.py\<close>, \<open>resolve_stuck_work\<close>): an operator closes a job or a session
  that cannot settle, by refunding the hold, charging it in full or accepting what the broker reported.
  \<open>clock.now()\<close> is \<open>now\<close>; \<open>trunc\<close> is Python's \<open>int\<close> of the float a JSON text denotes.
\<close>

record operator =
  op_id :: uuid
  op_email :: string
  op_name :: string
  op_token_hash :: string
  op_role :: string
  op_revoked_at :: "timestamp option"

section \<open>What the broker reported\<close>

text \<open>The first of the keys whose value reads as a natural number; \<open>int\<close> of an infinite float raises.\<close>

fun first_count :: "(string \<Rightarrow> error + int) \<Rightarrow> dict \<Rightarrow> string list \<Rightarrow> error + int option" where
  "first_count trunc payload [] = Inr None"
| "first_count trunc payload (key # keys) =
     (case json_get payload key of
        None \<Rightarrow> first_count trunc payload keys
      | Some value \<Rightarrow>
          (case py_int trunc value of
             Inl (TypeError _) \<Rightarrow> first_count trunc payload keys
           | Inl (ValueError _) \<Rightarrow> first_count trunc payload keys
           | Inl e \<Rightarrow> Inl e
           | Inr n \<Rightarrow> if 0 \<le> n then Inr (Some n) else first_count trunc payload keys))"

definition reported_units_for :: "(string \<Rightarrow> error + int) \<Rightarrow> payment_session \<Rightarrow> error + int option" where
  "reported_units_for trunc row =
     (case json_get (breakdown_of row) ''broker_exchange'' of
        Some (JObj exchange) \<Rightarrow>
          let from_settlement =
                (case json_get exchange ''settlement'' of
                   Some (JObj settlement) \<Rightarrow>
                     (case json_get settlement ''payload'' of
                        Some (JObj payload) \<Rightarrow> first_count trunc payload [''actual_units'', ''debited_units'']
                      | _ \<Rightarrow> Inr None)
                 | _ \<Rightarrow> Inr None)
          in (case json_get exchange ''work_units'' of
                Some (JInt units) \<Rightarrow> if 0 \<le> units then Inr (Some units) else from_settlement
              | _ \<Rightarrow> from_settlement)
      | _ \<Rightarrow> Inr None)"

section \<open>Amounts\<close>

definition ceil_bill :: "int \<Rightarrow> wei \<Rightarrow> int \<Rightarrow> wei" where
  "ceil_bill units amount_wei per_units =
     (let per = max 1 per_units in (units * amount_wei + per - 1) div per)"

text \<open>The body of the \<open>try\<close>.\<close>

definition reported_charge :: "payment_session \<Rightarrow> customer_pricing_snapshot \<Rightarrow> int \<Rightarrow> error + wei" where
  "reported_charge row raw_pricing reported =
     bind_r (fields_match_policy raw_pricing) (\<lambda>pricing.
     case ps_route_snapshot row of
       None \<Rightarrow> Inl (KeyError ''work_unit'')
     | Some snapshot \<Rightarrow>
         if cp_work_unit pricing \<noteq> rs_work_unit snapshot
         then Inl (ValueError ''retail and route work units differ'')
         else if rs_price_per_work_unit_wei snapshot < 0 \<or> rs_units_per_price snapshot \<le> 0
         then Inl (ValueError ''invalid wholesale price'')
         else calculate_customer_charge pricing reported
                (ceil_bill reported (rs_price_per_work_unit_wei snapshot) (rs_units_per_price snapshot)))"

definition invalid_pricing :: "error \<Rightarrow> bool" where
  "invalid_pricing e = (case e of KeyError _ \<Rightarrow> True | TypeError _ \<Rightarrow> True | ValueError _ \<Rightarrow> True | _ \<Rightarrow> False)"

definition wholesale_resolution_amounts ::
  "(string \<Rightarrow> error + int) \<Rightarrow> payment_session \<Rightarrow> string \<Rightarrow> error + (wei \<times> int option)" where
  "wholesale_resolution_amounts trunc row action =
     (let refuse = (\<lambda>reason. Inl (JobNotResolvable reason (Some (ps_state row))))
      in case (ps_customer_max_debit_wei row, ps_customer_pricing row) of
           (Some maximum, Some raw_pricing) \<Rightarrow>
             if action = ''refund_hold'' then Inr (0, None)
             else if action = ''charge_full'' then Inr (maximum, None)
             else if action \<noteq> ''accept_reported'' then refuse ''unknown_action''
             else bind_r (reported_units_for trunc row) (\<lambda>found.
               case found of
                 None \<Rightarrow> refuse ''no_broker_report''
               | Some reported \<Rightarrow>
                   if ps_max_total_units row < reported then refuse ''reported_units_exceed_authorization''
                   else (case reported_charge row raw_pricing reported of
                       Inl e \<Rightarrow> if invalid_pricing e then refuse ''invalid_pricing_snapshot'' else Inl e
                     | Inr billed \<Rightarrow>
                         if maximum < billed then refuse ''customer_cap_exceeded''
                         else Inr (billed, Some reported)))
         | _ \<Rightarrow> refuse ''missing_customer_pricing'')"

section \<open>Resolving\<close>

record resolve_job_response =
  rj_job_id :: uuid
  rj_protocol :: string
  rj_action :: string
  rj_state :: string
  rj_outcome :: string
  rj_actual_units :: "int option"
  rj_funded_value_wei :: wei
  rj_billed_value_wei :: wei
  rj_refund_wei :: wei
  rj_resolved_at :: timestamp

definition dict_pop :: "string \<Rightarrow> dict \<Rightarrow> dict" where
  "dict_pop key d = filter (\<lambda>(k, _). k \<noteq> key) d"

definition operator_resolution ::
  "datetime_text \<Rightarrow> operator \<Rightarrow> string \<Rightarrow> string option \<Rightarrow> wei \<Rightarrow> wei \<Rightarrow> timestamp \<Rightarrow> dict" where
  "operator_resolution dt operator action note billed refund resolved_at =
     [(''action'', JStr action), (''operator_id'', JStr (op_id operator)),
      (''operator_email'', JStr (op_email operator)), (''note'', json_text note),
      (''billed_value_wei'', JStr (str_int billed)), (''refund_wei'', JStr (str_int refund)),
      (''resolved_at'', JStr (dt_isoformat dt resolved_at))]"

definition resolve_audit ::
  "operator \<Rightarrow> payment_session \<Rightarrow> string \<Rightarrow> string option \<Rightarrow> wei \<Rightarrow> wei \<Rightarrow> operator_audit" where
  "resolve_audit operator row action note billed refund =
     \<lparr>oa_operator_id = op_id operator, oa_action = ''resolve_job'',
      oa_target_user_id = Some (ps_user_id row),
      oa_params = Some [(''job_id'', JStr (ps_id row)), (''protocol'', JStr (ps_protocol row)),
        (''capability'', JStr (ps_capability row)), (''offering'', JStr (ps_offering row)),
        (''action'', JStr action), (''billed_value_wei'', JStr (str_int billed)),
        (''refund_wei'', JStr (str_int refund)), (''note'', json_text note)]\<rparr>"

definition transition_refused :: "string \<Rightarrow> error \<Rightarrow> error" where
  "transition_refused state e =
     (case e of InvalidSessionTransition \<Rightarrow> JobNotResolvable ''already_closed'' (Some state) | _ \<Rightarrow> e)"

definition grant_refused :: "error \<Rightarrow> error" where
  "grant_refused e =
     (case e of SessionSettlementVerificationFailed reason \<Rightarrow> JobNotResolvable reason (Some ''closed'') | _ \<Rightarrow> e)"

text \<open>
  The writes. The row is the one the transition changes, so its state is \<open>closed\<close> in the exception that a grant
  in conflict raises.
\<close>

definition finalize_resolution ::
  "datetime_text \<Rightarrow> payment_session \<Rightarrow> operator \<Rightarrow> string \<Rightarrow> string option \<Rightarrow> string \<Rightarrow> wei \<Rightarrow> wei \<Rightarrow> int option \<Rightarrow>
   timestamp \<Rightarrow> ('z clearing_db_scheme, unit) op" where
  "finalize_resolution dt row operator action note authorization_id billed refund actual_units now =
     (let outcome = ''operator_'' @ action;
          resolution = operator_resolution dt operator action note billed refund now
      in bind_op (catch_op (transition_state (ps_id row) (ps_state row) ''closed'' now)
           (\<lambda>e. raise (transition_refused (ps_state row) e))) (\<lambda>_.
         bind_op (if 0 < refund
                  then bind_op (release_customer_engagement (ps_user_id row) (ps_id row) refund) (\<lambda>_. ret ())
                  else ret ()) (\<lambda>_.
         bind_op (modify (set_session (ps_id row) (\<lambda>s. s\<lparr>
             ps_actual_units := actual_units, ps_billed_value_wei := Some billed,
             ps_outcome := Some outcome\<rparr>))) (\<lambda>_.
         bind_op (catch_op (mark_spend_authorization_operator_resolved (ps_id row) authorization_id now)
           (\<lambda>e. raise (grant_refused e))) (\<lambda>_.
         bind_op (modify (set_session (ps_id row) (\<lambda>s. s\<lparr>
             ps_breakdown := Some (dict_set ''operator_resolution'' (JObj resolution)
               (dict_pop ''settlement_block'' (breakdown_of s)))\<rparr>))) (\<lambda>_.
         bind_op (record_settlement (ps_id row) ''operator_resolve'' now actual_units (Some billed)
             (Some outcome) (Some resolution)) (\<lambda>_.
         modify (\<lambda>db. db\<lparr>audits := audits db @ [resolve_audit operator row action note billed refund]\<rparr>))))))))"

definition resolve_stuck_work ::
  "datetime_text \<Rightarrow> (string \<Rightarrow> error + int) \<Rightarrow> uuid \<Rightarrow> operator \<Rightarrow> string \<Rightarrow> string option \<Rightarrow> timestamp \<Rightarrow>
   ('z clearing_db_scheme, resolve_job_response) op" where
  "resolve_stuck_work dt trunc job_id operator action note now =
     bind_op (gets (\<lambda>db. get_session db job_id)) (\<lambda>found.
     case found of
       None \<Rightarrow> raise (JobNotResolvable ''not_found'' None)
     | Some row \<Rightarrow>
         bind_op (require (ps_state row \<in> set [''open'', ''draining''])
                    (JobNotResolvable ''already_closed'' (Some (ps_state row)))) (\<lambda>_.
         bind_op (require (ps_accounting_mode row = ''wholesale_account'')
                    (JobNotResolvable ''legacy_accounting_disabled'' (Some (ps_state row)))) (\<lambda>_.
         case ps_authorization_id row of
           None \<Rightarrow> raise (JobNotResolvable ''missing_authorization'' (Some (ps_state row)))
         | Some authorization_id \<Rightarrow>
             bind_op (require (authorization_id \<noteq> [])
                        (JobNotResolvable ''missing_authorization'' (Some (ps_state row)))) (\<lambda>_.
             bind_op (of_result (wholesale_resolution_amounts trunc row action)) (\<lambda>(billed, actual_units).
             case ps_customer_max_debit_wei row of
               None \<Rightarrow> raise AssertionError
             | Some funded \<Rightarrow>
                 bind_op (finalize_resolution dt row operator action note authorization_id billed
                            (funded - billed) actual_units now) (\<lambda>_.
                 ret \<lparr>rj_job_id = job_id, rj_protocol = ps_protocol row, rj_action = action,
                      rj_state = ''closed'', rj_outcome = ''operator_'' @ action,
                      rj_actual_units = actual_units, rj_funded_value_wei = funded,
                      rj_billed_value_wei = billed, rj_refund_wei = funded - billed,
                      rj_resolved_at = now\<rparr>))))))"

end
