(* ===== verification/Triples.thy ===== *)
theory Triples
  imports Prelude
begin

text \<open>
  A small Hoare logic for operations. \<open>triple P m Q E\<close>: from a state that satisfies \<open>P\<close>, \<open>m\<close> either
  returns a value and a state that satisfy \<open>Q\<close>, or raises in a state that satisfies \<open>E\<close>. The requests of
  the program change several tables in one transaction and may raise between two changes; their triples
  have an exceptional postcondition about the committed database only.
\<close>

definition triple ::
  "('s \<Rightarrow> bool) \<Rightarrow> ('s, 'a) op \<Rightarrow> ('a \<Rightarrow> 's \<Rightarrow> bool) \<Rightarrow> ('s \<Rightarrow> bool) \<Rightarrow> bool" where
  "triple P m Q E \<longleftrightarrow> (\<forall>s. P s \<longrightarrow> (case m s of (Inr x, s') \<Rightarrow> Q x s' | (Inl e, s') \<Rightarrow> E s'))"

lemma tripleI:
  assumes "\<And>s x s'. P s \<Longrightarrow> m s = (Inr x, s') \<Longrightarrow> Q x s'"
    and "\<And>s e s'. P s \<Longrightarrow> m s = (Inl e, s') \<Longrightarrow> E s'"
  shows "triple P m Q E"
  using assms unfolding triple_def by (auto split: prod.splits sum.splits)

lemma tripleD1: "triple P m Q E \<Longrightarrow> P s \<Longrightarrow> m s = (Inr x, s') \<Longrightarrow> Q x s'"
  by (drule triple_def [THEN iffD1, THEN spec, THEN mp]) auto

lemma tripleD2: "triple P m Q E \<Longrightarrow> P s \<Longrightarrow> m s = (Inl e, s') \<Longrightarrow> E s'"
  by (drule triple_def [THEN iffD1, THEN spec, THEN mp]) auto

lemmas tripleD = tripleD1 tripleD2

lemma triple_pre: "triple P m Q E \<Longrightarrow> (\<And>s. P' s \<Longrightarrow> P s) \<Longrightarrow> triple P' m Q E"
  by (simp add: triple_def)

lemma triple_post:
  "triple P m Q E \<Longrightarrow> (\<And>x s. Q x s \<Longrightarrow> Q' x s) \<Longrightarrow> (\<And>s. E s \<Longrightarrow> E' s) \<Longrightarrow> triple P m Q' E'"
  by (rule tripleI) (auto dest: tripleD)

lemma triple_bind:
  assumes "triple P m R E" and "\<And>x. triple (R x) (f x) Q E"
  shows "triple P (bind_op m f) Q E"
  using assms by (intro tripleI) (auto simp: op_iff dest: tripleD)

lemma triple_ret: "(\<And>s. P s \<Longrightarrow> Q x s) \<Longrightarrow> triple P (ret x) Q E"
  by (simp add: triple_def ret_def)

lemma triple_raise: "(\<And>s. P s \<Longrightarrow> E s) \<Longrightarrow> triple P (raise e) Q E"
  by (simp add: triple_def raise_def)

lemma triple_require:
  "(\<And>s. P s \<Longrightarrow> E s) \<Longrightarrow> triple P (require c e) (\<lambda>_ s. P s \<and> c) E"
  by (simp add: triple_def require_def)

lemma triple_of_result:
  "(\<And>s. P s \<Longrightarrow> E s) \<Longrightarrow> triple P (of_result r) (\<lambda>x s. P s \<and> r = Inr x) E"
  by (auto simp: triple_def of_result_def split: sum.splits)

lemma triple_gets: "triple P (gets g) (\<lambda>x s. P s \<and> x = g s) E"
  by (simp add: triple_def gets_def)

lemma triple_read_db: "triple P (read_db g) (\<lambda>x s. P s \<and> x = g (working s)) E"
  by (simp add: triple_def read_db_def gets_def)

lemma triple_modify: "(\<And>s. P s \<Longrightarrow> Q () (g s)) \<Longrightarrow> triple P (modify g) Q E"
  by (simp add: triple_def modify_def)

lemma triple_if:
  "(c \<Longrightarrow> triple P m1 Q E) \<Longrightarrow> (\<not> c \<Longrightarrow> triple P m2 Q E) \<Longrightarrow> triple P (if c then m1 else m2) Q E"
  by simp

lemma triple_case_option:
  "(v = None \<Longrightarrow> triple P m Q E) \<Longrightarrow> (\<And>x. v = Some x \<Longrightarrow> triple P (f x) Q E) \<Longrightarrow>
     triple P (case v of None \<Rightarrow> m | Some x \<Rightarrow> f x) Q E"
  by (cases v) auto

lemma triple_assume:
  "(c \<Longrightarrow> triple P m Q E) \<Longrightarrow> triple (\<lambda>s. P s \<and> c) m Q E"
  by (auto simp: triple_def)

lemma keeps_fold_in: "(\<And>acc x. x \<in> set xs \<Longrightarrow> keeps I (f acc x)) \<Longrightarrow> keeps I (fold_op f acc xs)"
  by (induction xs arbitrary: acc) auto

section \<open>Transactions that keep an invariant of the database\<close>

definition both :: "('d \<Rightarrow> bool) \<Rightarrow> 'd txn \<Rightarrow> bool" where
  "both I s \<longleftrightarrow> I (working s) \<and> I (durable s)"

definition committed :: "('d \<Rightarrow> bool) \<Rightarrow> 'd txn \<Rightarrow> bool" where
  "committed I s \<longleftrightarrow> I (durable s)"

lemma triple_on_db:
  assumes "\<And>s w. P s \<Longrightarrow> E (s\<lparr>working := w\<rparr>)"
  shows "triple P (on_db m) (\<lambda>x s. \<exists>s0 w. P s0 \<and> m (working s0) = (Inr x, w) \<and> s = s0\<lparr>working := w\<rparr>) E"
  using assms by (intro tripleI) (auto simp: on_db_iff)

lemma triple_write_db: "(\<And>s. P s \<Longrightarrow> Q () (s\<lparr>working := g (working s)\<rparr>)) \<Longrightarrow> triple P (write_db g) Q E"
  by (simp add: triple_def write_db_def modify_def)

lemma triple_commit: "(\<And>s. P s \<Longrightarrow> Q () (s\<lparr>durable := working s\<rparr>)) \<Longrightarrow> triple P commit Q E"
  by (simp add: triple_def commit_def modify_def)

text \<open>Safe: the invariant holds after every return, and in the committed database after every raise.\<close>

definition safe :: "('d \<Rightarrow> bool) \<Rightarrow> ('d txn, 'a) op \<Rightarrow> bool" where
  "safe I m \<longleftrightarrow> triple (both I) m (\<lambda>_. both I) (committed I)"

lemma both_committed: "both I s \<Longrightarrow> committed I s"
  by (simp add: both_def committed_def)

lemma safe_bind:
  assumes "safe I m" and "\<And>x. safe I (f x)"
  shows "safe I (bind_op m f)"
  using assms unfolding safe_def by (rule triple_bind)

lemma safe_ret: "safe I (ret x)"
  unfolding safe_def by (rule triple_ret)

lemma safe_raise: "safe I (raise e)"
  unfolding safe_def by (rule triple_raise) (rule both_committed)

lemma safe_require: "safe I (require c e)"
  by (simp add: safe_def triple_def require_def both_def committed_def)

lemma safe_of_result: "safe I (of_result r)"
  by (simp add: safe_def triple_def of_result_def both_def committed_def split: sum.splits)

lemma safe_read_db: "safe I (read_db g)"
  by (simp add: safe_def triple_def read_db_def gets_def)

lemma safe_commit: "safe I commit"
  by (simp add: safe_def triple_def commit_def modify_def both_def)

lemma safe_rollback: "safe I rollback"
  by (simp add: safe_def triple_def rollback_def modify_def both_def)

lemma safe_write_db: "(\<And>db. I db \<Longrightarrow> I (g db)) \<Longrightarrow> safe I (write_db g)"
  by (simp add: safe_def triple_def write_db_def modify_def both_def)

lemma safe_on_db:
  "(\<And>db x db'. I db \<Longrightarrow> m db = (Inr x, db') \<Longrightarrow> I db') \<Longrightarrow> safe I (on_db m)"
  unfolding safe_def by (rule tripleI) (auto simp: both_def committed_def on_db_iff)

lemma safe_if: "(c \<Longrightarrow> safe I m1) \<Longrightarrow> (\<not> c \<Longrightarrow> safe I m2) \<Longrightarrow> safe I (if c then m1 else m2)"
  by simp

lemma safe_case_option:
  "safe I m \<Longrightarrow> (\<And>x. v = Some x \<Longrightarrow> safe I (f x)) \<Longrightarrow> safe I (case v of None \<Rightarrow> m | Some x \<Rightarrow> f x)"
  by (cases v) auto

lemma safe_case_prod: "(\<And>x y. v = (x, y) \<Longrightarrow> safe I (f x y)) \<Longrightarrow> safe I (case v of (x, y) \<Rightarrow> f x y)"
  by (cases v) auto

lemma safe_fold: "(\<And>acc x. safe I (f acc x)) \<Longrightarrow> safe I (fold_op f acc xs)"
  by (induction xs arbitrary: acc) (auto intro: safe_ret safe_bind)

lemma safe_reraise: "safe I m \<Longrightarrow> safe I (catch_op m (\<lambda>e. raise (g e)))"
  unfolding safe_def
  by (rule tripleI) (auto simp: catch_op_def raise_def dest: tripleD split: prod.splits sum.splits)

lemmas safe_intros = safe_bind safe_ret safe_raise safe_require safe_of_result safe_read_db safe_commit
  safe_rollback safe_if safe_case_option safe_case_prod safe_fold safe_reraise

end
