(* ===== verification/Engagements_Laws.thy ===== *)
theory Engagements_Laws
  imports Engagements Billing_Laws Wholesale_Laws Triples
begin

text \<open>
  The accounting invariant of engagements: what the ledger holds against an engagement is exactly its
  customer cap while it is live and exactly its bill once it is closed. The price is passed through, so the
  customer cap is the wholesale cap of the row. It rests on a chain of grants
  (the current authorization is the grant of the session's last revision) and on the keys of the ledger.
\<close>

section \<open>What the ledger says of an engagement\<close>

definition etotal :: "credit_ledger list \<Rightarrow> uuid \<Rightarrow> wei" where
  "etotal rows e = sum_list (map cl_delta_wei (filter (\<lambda>r. cl_related_engagement_id r = Some e) rows))"

definition has_entry :: "credit_ledger list \<Rightarrow> uuid \<Rightarrow> string \<Rightarrow> bool" where
  "has_entry rows e reason \<longleftrightarrow>
     (\<exists>r \<in> set rows. cl_related_engagement_id r = Some e \<and> cl_reason r = reason)"

lemma engagement_entry_None: "engagement_entry db e reason = None \<longleftrightarrow> \<not> has_entry (ledger db) e reason"
  by (auto simp: engagement_entry_def has_entry_def find_None_iff)

lemma etotal_append [simp]: "etotal (xs @ ys) e = etotal xs e + etotal ys e"
  by (simp add: etotal_def)

lemma has_entry_append [simp]: "has_entry (xs @ ys) e reason \<longleftrightarrow> has_entry xs e reason \<or> has_entry ys e reason"
  by (auto simp: has_entry_def)

definition about :: "uuid \<Rightarrow> credit_ledger \<Rightarrow> bool" where
  "about e r \<longleftrightarrow> cl_related_engagement_id r = Some e"

lemma etotal_other: "list_all (about e) rows \<Longrightarrow> e' \<noteq> e \<Longrightarrow> etotal rows e' = 0"
  by (induction rows) (auto simp: etotal_def about_def)

lemma has_entry_other: "list_all (about e) rows \<Longrightarrow> e' \<noteq> e \<Longrightarrow> \<not> has_entry rows e' reason"
  by (auto simp: has_entry_def about_def list_all_iff)

section \<open>The invariant\<close>

definition gkey :: "spend_authorization_grant \<Rightarrow> uuid \<times> string \<times> int" where
  "gkey g = (gr_session_id g, gr_authorization_id g, gr_revision g)"

definition live :: "payment_session \<Rightarrow> bool" where
  "live s \<longleftrightarrow> ps_state s \<in> {''open'', ''draining''}"

definition chain_ok :: "(uuid \<times> string \<times> int) set \<Rightarrow> payment_session \<Rightarrow> bool" where
  "chain_ok K s \<longleftrightarrow>
     (case ps_authorization_id s of
        None \<Rightarrow> ps_refill_seq s = 0 \<and> (\<forall>a n. (ps_id s, a, n) \<notin> K)
      | Some a \<Rightarrow> (ps_id s, a, ps_refill_seq s) \<in> K \<and> (\<exists>a0. (ps_id s, a0, 0) \<in> K))"

definition open_ok :: "credit_ledger list \<Rightarrow> (uuid \<times> string \<times> int) set \<Rightarrow> payment_session \<Rightarrow> wei \<Rightarrow> bool" where
  "open_ok L K s m \<longleftrightarrow> etotal L (ps_id s) = - m \<and> \<not> has_entry L (ps_id s) ''engagement_release'' \<and>
     (\<forall>n. has_entry L (ps_id s) (cap_revision_reason n) \<longrightarrow> n \<le> ps_refill_seq s) \<and> chain_ok K s"

definition closed_ok :: "credit_ledger list \<Rightarrow> payment_session \<Rightarrow> wei \<Rightarrow> bool" where
  "closed_ok L s m \<longleftrightarrow> ps_state s = ''closed'' \<and>
     (\<exists>b. ps_billed_value_wei s = Some b \<and> 0 \<le> b \<and> b \<le> m \<and> etotal L (ps_id s) = - b)"

text \<open>Every engagement is sold at the wholesale price: the cap held from the customer is what the broker may draw.\<close>

definition pass_through :: "payment_session \<Rightarrow> bool" where
  "pass_through s \<longleftrightarrow> ps_customer_max_debit_wei s = Some (ps_funded_value_wei s) \<and>
     map_option cp_kind (ps_customer_pricing s) = Some wholesale_pass_through"

definition hold_ok :: "credit_ledger list \<Rightarrow> (uuid \<times> string \<times> int) set \<Rightarrow> payment_session \<Rightarrow> bool" where
  "hold_ok L K s \<longleftrightarrow> ps_accounting_mode s = ''wholesale_account'' \<and> pass_through s \<and>
     (\<exists>m. ps_customer_max_debit_wei s = Some m \<and> 0 \<le> m \<and> (if live s then open_ok L K s m else closed_ok L s m))"

definition owned :: "payment_session list \<Rightarrow> credit_ledger \<Rightarrow> bool" where
  "owned S r \<longleftrightarrow> (\<forall>e. cl_related_engagement_id r = Some e \<longrightarrow>
     (\<exists>s \<in> set S. ps_id s = e \<and> ps_user_id s = cl_user_id r))"

definition engagement_inv :: "('z sessions_db_scheme) \<Rightarrow> bool" where
  "engagement_inv db \<longleftrightarrow>
     distinct (map ps_id (sessions db)) \<and> distinct (map gr_authorization_id (grants db)) \<and>
     (\<forall>r \<in> set (ledger db). owned (sessions db) r) \<and>
     (\<forall>g \<in> set (grants db). \<exists>s \<in> set (sessions db). ps_id s = gr_session_id g) \<and>
     (\<forall>s \<in> set (sessions db). hold_ok (ledger db) (gkey ` set (grants db)) s)"

lemma engagement_inv_cong:
  "ledger db' = ledger db \<Longrightarrow> sessions db' = sessions db \<Longrightarrow> grants db' = grants db \<Longrightarrow>
     engagement_inv db' = engagement_inv db"
  by (simp add: engagement_inv_def)

text \<open>
  How a row moves: it keeps its owner, its revision and caps never decrease, it never leaves a state
  backwards, and once it is closed its accounting is final.
\<close>

definition final_account :: "payment_session \<Rightarrow> payment_session \<Rightarrow> bool" where
  "final_account s t \<longleftrightarrow> ps_state t = ps_state s \<and> ps_billed_value_wei t = ps_billed_value_wei s \<and>
     ps_customer_max_debit_wei t = ps_customer_max_debit_wei s \<and> ps_outcome t = ps_outcome s \<and>
     ps_actual_units t = ps_actual_units s \<and> ps_closed_at t = ps_closed_at s"

definition session_le :: "payment_session \<Rightarrow> payment_session \<Rightarrow> bool" where
  "session_le s t \<longleftrightarrow> ps_id t = ps_id s \<and> ps_user_id t = ps_user_id s \<and> ps_refill_seq s \<le> ps_refill_seq t \<and>
     ps_max_total_units s \<le> ps_max_total_units t \<and>
     (\<forall>m. ps_customer_max_debit_wei s = Some m \<longrightarrow> (\<exists>n \<ge> m. ps_customer_max_debit_wei t = Some n)) \<and>
     (live t \<longrightarrow> live s) \<and> (ps_state s = ''closed'' \<longrightarrow> final_account s t)"

lemma session_le_refl [simp]: "session_le s s"
  by (simp add: session_le_def final_account_def)

lemma session_le_trans: "session_le s t \<Longrightarrow> session_le t v \<Longrightarrow> session_le s v"
proof -
  assume st: "session_le s t" and tv: "session_le t v"
  have "\<exists>n \<ge> m. ps_customer_max_debit_wei v = Some n" if "ps_customer_max_debit_wei s = Some m" for m
    using st tv that unfolding session_le_def by (meson order_trans)
  moreover have "final_account s v" if "ps_state s = ''closed''"
    using st tv that by (simp add: session_le_def final_account_def)
  ultimately show "session_le s v" using st tv by (auto simp: session_le_def)
qed

definition evolves :: "payment_session list \<Rightarrow> payment_session list \<Rightarrow> bool" where
  "evolves B S \<longleftrightarrow> (\<forall>s \<in> set B. \<exists>t \<in> set S. session_le s t)"

lemma evolves_refl [simp]: "evolves B B"
  unfolding evolves_def using session_le_refl by blast

lemma evolves_trans: "evolves B S \<Longrightarrow> evolves S T \<Longrightarrow> evolves B T"
  unfolding evolves_def using session_le_trans by meson

text \<open>A close event that is not among the old ones \<open>E\<close> belongs to a closed session.\<close>

definition events_ok :: "payment_settlement list \<Rightarrow> payment_session list \<Rightarrow> payment_settlement list \<Rightarrow> bool" where
  "events_ok E S P \<longleftrightarrow> (\<forall>p \<in> set P. pe_event_type p = ''close'' \<longrightarrow>
     p \<in> set E \<or> (\<exists>s \<in> set S. ps_id s = pe_session_id p \<and> ps_state s = ''closed''))"

lemma events_self [simp]: "events_ok E S E"
  by (simp add: events_ok_def)

lemma events_evolve:
  assumes "events_ok E S P" and "evolves S T"
  shows "events_ok E T P"
  unfolding events_ok_def
proof (intro ballI impI)
  fix p assume p: "p \<in> set P" "pe_event_type p = ''close''"
  show "p \<in> set E \<or> (\<exists>t \<in> set T. ps_id t = pe_session_id p \<and> ps_state t = ''closed'')"
  proof (cases "p \<in> set E")
    case False
    with p assms(1) obtain s where s: "s \<in> set S" "ps_id s = pe_session_id p" "ps_state s = ''closed''"
      by (auto simp: events_ok_def)
    with assms(2) obtain t where "t \<in> set T" "session_le s t" by (auto simp: evolves_def)
    with s show ?thesis by (auto simp: session_le_def final_account_def)
  qed simp
qed

text \<open>The invariant, together with the progress of the rows and of the events since a baseline \<open>B\<close>.\<close>

definition tracked :: "payment_session list \<times> payment_settlement list \<Rightarrow> ('z sessions_db_scheme) \<Rightarrow> bool" where
  "tracked B db \<longleftrightarrow> engagement_inv db \<and> evolves (fst B) (sessions db) \<and>
     events_ok (snd B) (sessions db) (settlements db)"

lemma tracked_inv: "tracked B db \<Longrightarrow> engagement_inv db"
  by (simp add: tracked_def)

lemma tracked_self: "engagement_inv db \<Longrightarrow> tracked (sessions db, settlements db) db"
  by (simp add: tracked_def)

lemma tracked_cong:
  "ledger db' = ledger db \<Longrightarrow> sessions db' = sessions db \<Longrightarrow> grants db' = grants db \<Longrightarrow>
     settlements db' = settlements db \<Longrightarrow> tracked B db' = tracked B db"
  using engagement_inv_cong [of db' db] by (simp add: tracked_def)

lemma hold_ok_other:
  assumes "list_all (about e) new" and "\<And>k. k \<in> N \<Longrightarrow> fst k = e" and "ps_id s \<noteq> e"
  shows "hold_ok (L @ new) (K \<union> N) s = hold_ok L K s"
proof -
  from assms have "(ps_id s, a, n) \<notin> N" for a n by force
  with assms show ?thesis
    by (simp add: hold_ok_def open_ok_def closed_ok_def chain_ok_def etotal_other has_entry_other
        cong: option.case_cong)
qed

lemma get_session_in: "get_session db e = Some s \<Longrightarrow> s \<in> set (sessions db) \<and> ps_id s = e"
  by (auto simp: get_session_def dest: find_SomeD)

text \<open>Every change of one engagement: its row, rows of the ledger about it, grants of its own.\<close>

lemma inv_update:
  assumes tr: "tracked B db" and s: "get_session db e = Some s" and le: "session_le s (f s)"
    and S: "sessions db' = update_where (\<lambda>x. ps_id x = e) f (sessions db)"
    and L: "ledger db' = ledger db @ new" "list_all (about e) new" "list_all (\<lambda>r. cl_user_id r = ps_user_id s) new"
    and G: "gkey ` set (grants db') = gkey ` set (grants db) \<union> N" "\<And>k. k \<in> N \<Longrightarrow> fst k = e"
      "distinct (map gr_authorization_id (grants db'))"
    and ok: "hold_ok (ledger db') (gkey ` set (grants db')) (f s)"
    and P: "\<And>p. p \<in> set (settlements db') \<Longrightarrow> pe_event_type p = ''close'' \<Longrightarrow>
      p \<in> set (settlements db) \<or> pe_session_id p = e \<and> ps_state (f s) = ''closed''"
  shows "tracked B db'"
proof -
  from tr have inv: "engagement_inv db" by (rule tracked_inv)
  have dist: "distinct (map ps_id (sessions db))" using inv by (simp add: engagement_inv_def)
  from get_session_in [OF s] have s_in: "s \<in> set (sessions db)" and e: "ps_id s = e" by auto
  from le e have f: "ps_id (f s) = e" "ps_user_id (f s) = ps_user_id s" by (simp_all add: session_le_def)
  have uniq: "x = s" if "x \<in> set (sessions db)" "ps_id x = e" for x
    using dist that s_in e by (metis distinct_map inj_onD)
  then have S': "sessions db' = map (\<lambda>x. if ps_id x = e then f s else x) (sessions db)"
    using S by (auto simp: update_where_def)
  have ids: "map ps_id (sessions db') = map ps_id (sessions db)"
    using S' f(1) by simp
  have keep: "\<exists>y \<in> set (sessions db'). ps_id y = ps_id x \<and> ps_user_id y = ps_user_id x"
    if x: "x \<in> set (sessions db)" for x
  proof (cases "ps_id x = e")
    case True
    then have "x = s" using uniq x by blast
    with S' f x e show ?thesis by force
  next
    case False
    with S' x show ?thesis by force
  qed
  have own: "owned (sessions db') r" if "r \<in> set (ledger db')" for r
  proof (cases "r \<in> set (ledger db)")
    case True
    with inv have "owned (sessions db) r" by (simp add: engagement_inv_def)
    with keep show ?thesis unfolding owned_def by metis
  next
    case False
    with that L have "about e r" "cl_user_id r = ps_user_id s" by (auto simp: list_all_iff)
    with keep [OF s_in] e show ?thesis by (auto simp: owned_def about_def)
  qed
  have gr: "\<exists>x \<in> set (sessions db'). ps_id x = gr_session_id g" if g: "g \<in> set (grants db')" for g
  proof -
    from g have "gkey g \<in> gkey ` set (grants db) \<union> N" using G(1) by blast
    then consider g' where "g' \<in> set (grants db)" "gkey g = gkey g'" | "gr_session_id g = e"
      using G(2) by (auto simp: gkey_def)
    then show ?thesis
    proof cases
      case 1
      then have "gr_session_id g = gr_session_id g'" by (simp add: gkey_def)
      with 1 inv keep show ?thesis by (metis engagement_inv_def)
    next
      case 2
      with keep [OF s_in] e show ?thesis by auto
    qed
  qed
  have "hold_ok (ledger db') (gkey ` set (grants db')) x" if x: "x \<in> set (sessions db')" for x
  proof (cases "ps_id x = e")
    case True
    with x S' f(1) have "x = f s" by auto
    with ok show ?thesis by simp
  next
    case False
    with x S' f(1) have "x \<in> set (sessions db)" by auto
    with inv have "hold_ok (ledger db) (gkey ` set (grants db)) x" by (simp add: engagement_inv_def)
    with hold_ok_other [OF L(2) G(2) False] L(1) G(1) show ?thesis by simp
  qed
  note hold = this
  have ev: "evolves (sessions db) (sessions db')"
    unfolding evolves_def
  proof
    fix x assume x: "x \<in> set (sessions db)"
    show "\<exists>t \<in> set (sessions db'). session_le x t"
    proof (cases "ps_id x = e")
      case True
      with x uniq have "x = s" by blast
      with x True le S' show ?thesis by force
    next
      case False
      with x S' have "x \<in> set (sessions db')" by force
      then show ?thesis using session_le_refl by blast
    qed
  qed
  from tr have "events_ok (snd B) (sessions db) (settlements db)" by (simp add: tracked_def)
  from events_evolve [OF this ev] have old: "events_ok (snd B) (sessions db') (settlements db)" .
  have fs: "f s \<in> set (sessions db')" using S' s_in e by force
  have events: "events_ok (snd B) (sessions db') (settlements db')"
    unfolding events_ok_def
  proof (intro ballI impI)
    fix p assume "p \<in> set (settlements db')" "pe_event_type p = ''close''"
    with P [of p] old fs f(1)
    show "p \<in> set (snd B) \<or> (\<exists>x \<in> set (sessions db'). ps_id x = pe_session_id p \<and> ps_state x = ''closed'')"
      unfolding events_ok_def by blast
  qed
  from ids dist own gr G(3) hold have "engagement_inv db'" unfolding engagement_inv_def by auto
  with ev events show ?thesis using tr evolves_trans unfolding tracked_def by blast
qed

lemma inv_hold: "engagement_inv db \<Longrightarrow> get_session db e = Some s \<Longrightarrow> hold_ok (ledger db) (gkey ` set (grants db)) s"
  using get_session_in by (force simp: engagement_inv_def)

section \<open>Claiming and releasing\<close>

lemma sessions_of_more:
  assumes "billing_db.more db' = billing_db.more (db :: ('z sessions_db_scheme))"
  shows "sessions db' = sessions db" "grants db' = grants db" "settlements db' = settlements db"
    "accounts db' = accounts db" "fundings db' = fundings db" "budgets db' = budgets db"
  using assms by (cases db; cases db'; simp)+

lemma keyed_posts:
  fixes db :: "('z sessions_db_scheme)"
  assumes "keyed_step u e reason d spend msg db = (Inr b, db')" and "windows_only spend"
    and "\<not> has_entry (ledger db) e reason"
  obtains r where "ledger db' = ledger db @ [r]" "about e r" "cl_user_id r = u" "cl_delta_wei r = d"
    "cl_reason r = reason" "sessions db' = sessions db" "grants db' = grants db"
    "settlements db' = settlements db"
  using assms(1,2)
proof (cases rule: keyed_step_cases)
  case (first ws)
  let ?r = "entry_of u d reason None (Some e) None None (server_now db)"
  from first have "ledger db' = ledger db @ [?r]" "billing_db.more db' = billing_db.more db"
    by simp_all
  with sessions_of_more [of db' db] that [of ?r] show thesis by (simp add: about_def)
qed (use assms(3) in \<open>auto simp: engagement_entry_None [symmetric]\<close>)

lemma etotal_one: "etotal [r] e = (if about e r then cl_delta_wei r else 0)"
  by (simp add: etotal_def about_def)

lemma has_entry_one: "has_entry [r] e reason \<longleftrightarrow> about e r \<and> cl_reason r = reason"
  by (simp add: has_entry_def about_def)

lemma etotal_unowned:
  assumes "\<forall>r \<in> set L. owned S r" and "\<forall>s \<in> set S. ps_id s \<noteq> e"
  shows "etotal L e = 0" "\<not> has_entry L e reason"
proof -
  have none: "cl_related_engagement_id r \<noteq> Some e" if "r \<in> set L" for r
    using assms that by (auto simp: owned_def)
  then have "filter (\<lambda>r. cl_related_engagement_id r = Some e) L = []" by (auto simp: filter_empty_conv)
  with none show "etotal L e = 0" "\<not> has_entry L e reason" by (auto simp: etotal_def has_entry_def)
qed

lemma create_session_run:
  assumes "create_session nid u k w cap off p snap brid est mx fund now sdk mode pricing cmax sid db = (Inr row, db')"
  shows "db' = db\<lparr>sessions := sessions db @ [row]\<rparr>" "\<forall>s \<in> set (sessions db). ps_id s \<noteq> ps_id row"
    "ps_user_id row = u" "ps_accounting_mode row = mode" "ps_customer_max_debit_wei row = cmax"
    "ps_state row = ''open''" "ps_authorization_id row = None" "ps_refill_seq row = 0"
    "ps_customer_pricing row = pricing" "ps_broker_request_id row = brid" "ps_route_snapshot row = snap"
    "ps_max_total_units row = mx" "ps_funded_value_wei row = fund"
  using assms by (auto simp: create_session_def Let_def op_run split: if_splits)

text \<open>A new engagement with its hold.\<close>

lemma claim_block:
  assumes tr: "tracked B db" and m: "0 \<le> m"
    and cr: "create_session nid u k w cap off p snap brid est mx m now sdk ''wholesale_account''
      (Some (wholesale_pass_through_pricing unit)) (Some m) sid db = (Inr row, db1)"
    and en: "encumber_customer_engagement u (ps_id row) m t period wcap db1 = (Inr b, db2)"
  shows "tracked B db2"
proof -
  from tr have inv: "engagement_inv db" by (rule tracked_inv)
  note c = create_session_run [OF cr]
  let ?e = "ps_id row"
  have own: "\<forall>r \<in> set (ledger db). owned (sessions db) r" using inv by (simp add: engagement_inv_def)
  note fresh = etotal_unowned [OF own c(2)]
  have led: "ledger db1 = ledger db" "grants db1 = grants db" by (simp_all add: c(1))
  have kd: "keyed_step u ?e ''engagement_encumbrance'' (- m) (enforce_and_record_spend u m t period wcap)
       ''engagement encumbrance replay changed amount'' db1 = (Inr b, db2)"
    using en by (simp add: encumber_keyed)
  obtain r where r: "ledger db2 = ledger db @ [r]" "about ?e r" "cl_user_id r = u" "cl_delta_wei r = - m"
      "cl_reason r = ''engagement_encumbrance''" "sessions db2 = sessions db @ [row]" "grants db2 = grants db"
      "settlements db2 = settlements db"
    using keyed_posts [OF kd windows_only_spend] fresh(2) led c(1) by auto
  have nokeys: "(?e, a, n) \<notin> gkey ` set (grants db)" for a n
    using inv c(2) unfolding engagement_inv_def gkey_def by fastforce
  have "hold_ok (ledger db2) (gkey ` set (grants db2)) row"
    using r fresh c nokeys m
    by (simp add: hold_ok_def pass_through_def wholesale_pass_through_pricing_def live_def open_ok_def chain_ok_def
        etotal_one has_entry_one cap_revision_reason_def)
  moreover have "hold_ok (ledger db2) (gkey ` set (grants db2)) s" if s: "s \<in> set (sessions db)" for s
  proof -
    from c(2) s have ne: "ps_id s \<noteq> ?e" by auto
    have "hold_ok (ledger db) (gkey ` set (grants db)) s" using inv s by (simp add: engagement_inv_def)
    with hold_ok_other [of ?e "[r]" "{}" s "ledger db" "gkey ` set (grants db)"] ne r show ?thesis by simp
  qed
  moreover have "owned (sessions db2) x" if "x \<in> set (ledger db2)" for x
  proof (cases "x \<in> set (ledger db)")
    case True
    with own r(6) show ?thesis by (fastforce simp: owned_def)
  next
    case False
    with that r c(3) show ?thesis by (auto simp: owned_def about_def)
  qed
  moreover have ev: "evolves (sessions db) (sessions db2)"
    unfolding evolves_def r(6) using session_le_refl by force
  moreover have "events_ok (snd B) (sessions db2) (settlements db2)"
    using tr events_evolve [OF _ ev] by (simp add: r(8) tracked_def)
  ultimately have "engagement_inv db2" "evolves (sessions db) (sessions db2)"
      "events_ok (snd B) (sessions db2) (settlements db2)"
    using inv r(6,7) c(2) unfolding engagement_inv_def by auto
  then show ?thesis using tr evolves_trans unfolding tracked_def by blast
qed

lemma resume_run:
  assumes "resume_engagement u k route brid est mx m gid db = (r, db')"
  shows "db' = db"
  using assms
  by (auto simp: resume_engagement_def op_run split: option.splits if_splits sum.splits)

lemma claim_safe:
  assumes "\<And>other. conflict = Some other \<Longrightarrow> (tracked B) other" and "0 \<le> m"
  shows "safe (tracked B) (claim_wholesale_engagement conflict nid u k route brid est mx m now sdk
    period wcap gid)"
proof -
  let ?resume = "on_db (resume_engagement u k route brid est mx m gid)"
  have resume: "safe (tracked B) ?resume"
    by (rule safe_on_db) (auto dest: resume_run)
  let ?create = "\<lambda>snapshot. create_session nid u k [] (sr_capability route) (sr_offering route)
     (protocol_value (sr_protocol route)) (Some snapshot) (Some brid) est mx m now sdk ''wholesale_account''
     (Some (wholesale_pass_through_pricing (sr_work_unit route))) (Some m) gid"
  let ?mid = "\<lambda>snapshot row s. \<exists>db0. (tracked B) db0 \<and> (tracked B) (durable s) \<and>
     ?create snapshot db0 = (Inr row, working s)"
  have create: "triple (both (tracked B)) (on_db (?create snapshot)) (?mid snapshot) (committed (tracked B))"
    for snapshot
    by (rule tripleI) (auto simp: on_db_iff both_def committed_def)
  have encumber: "triple (?mid snapshot row)
     (on_db (encumber_customer_engagement u (ps_id row) m (Aware now) period wcap))
     (\<lambda>_. both (tracked B)) (committed (tracked B))" for snapshot row
    by (rule tripleI) (auto simp: on_db_iff both_def committed_def intro: claim_block [OF _ assms(2)])
  have lost: "safe (tracked B) (bind_op (modify (\<lambda>s. s\<lparr>durable := other\<rparr>)) (\<lambda>_. bind_op rollback (\<lambda>_. rest)))"
    if "tracked B other" "safe (tracked B) rest" for other and rest :: "(_, payment_session) op"
  proof -
    have "triple (both (tracked B)) (modify (\<lambda>s. s\<lparr>durable := other\<rparr>)) (\<lambda>_ s. (tracked B) (durable s)) (committed (tracked B))"
      using that by (intro triple_modify) simp
    moreover have "triple (\<lambda>s. (tracked B) (durable s)) rollback (\<lambda>_. both (tracked B)) (committed (tracked B))"
      by (simp add: rollback_def triple_def modify_def both_def)
    ultimately show ?thesis using that unfolding safe_def by (blast intro: triple_bind)
  qed
  show ?thesis
    unfolding claim_wholesale_engagement_def Let_def safe_def
    apply (rule triple_bind [OF resume [unfolded safe_def]])
    apply (rule triple_case_option)
     apply (rule triple_bind [OF safe_of_result [unfolded safe_def]])
     apply (rule triple_bind [OF create])
     apply (rule triple_bind [OF encumber])
     apply (fold safe_def)
     apply (rule safe_case_option)
      apply (intro safe_intros)
     apply (rule lost)
      apply (simp add: assms)
     apply (intro safe_intros resume)
    apply (rule safe_ret)
    done
qed

lemma release_block:
  assumes tr: "tracked B db" and s: "get_session db e = Some s"
    and live: "ps_state s = ''open''" and cap: "ps_customer_max_debit_wei s = Some m"
    and rel: "release_customer_engagement (ps_user_id s) e m db = (Inr b, db1)"
    and db2: "db2 = set_session e (\<lambda>s. s\<lparr>ps_state := ''closed'', ps_closed_at := Some now,
      ps_actual_units := Some 0, ps_billed_value_wei := Some 0, ps_outcome := Some ''NOT_ADMITTED''\<rparr>) db1"
  shows "tracked B db2"
proof -
  from tr have inv: "engagement_inv db" by (rule tracked_inv)
  have e: "ps_id s = e" using get_session_in [OF s] by simp
  from inv_hold [OF inv s] live cap have op: "open_ok (ledger db) (gkey ` set (grants db)) s m"
    "ps_accounting_mode s = ''wholesale_account''" "0 \<le> m" "pass_through s"
    by (auto simp: hold_ok_def live_def)
  then have norel: "\<not> has_entry (ledger db) e ''engagement_release''" by (simp add: open_ok_def e)
  obtain r where r: "ledger db1 = ledger db @ [r]" "about e r" "cl_user_id r = ps_user_id s" "cl_delta_wei r = m"
      "sessions db1 = sessions db" "grants db1 = grants db" "settlements db1 = settlements db"
    using keyed_posts [OF rel [unfolded release_keyed] windows_only_ret norel] by auto
  show ?thesis
    by (rule inv_update [OF tr s, of "\<lambda>s. s\<lparr>ps_state := ''closed'', ps_closed_at := Some now,
      ps_actual_units := Some 0, ps_billed_value_wei := Some 0, ps_outcome := Some ''NOT_ADMITTED''\<rparr>" db2 "[r]" "{}"])
       (use r e op inv live in \<open>auto simp: session_le_def db2 set_session_def hold_ok_def pass_through_def live_def cap closed_ok_def
          open_ok_def etotal_one engagement_inv_def\<close>)
qed

lemma release_unauthorized_safe: "safe (tracked B) (release_unauthorized_engagement e now)"
proof -
  { fix s r s'
    assume b: "both (tracked B) s" and run: "release_unauthorized_engagement e now s = (r, s')"
    have "tracked B (durable s') \<and> (\<forall>x. r = Inr x \<longrightarrow> (tracked B) (working s'))"
    proof (cases "\<exists>eng m. get_session (working s) e = Some eng \<and> ps_accounting_mode eng = ''wholesale_account'' \<and>
        ps_state eng = ''open'' \<and> ps_authorization_id eng = None \<and> ps_customer_max_debit_wei eng = Some m")
      case False
      with run have "r = Inr False" "s' = s\<lparr>working := durable s\<rparr>"
        by (auto simp: release_unauthorized_engagement_def op_run split: option.splits if_splits)
      with b show ?thesis by (simp add: both_def)
    next
      case True
      then obtain eng m where eng: "get_session (working s) e = Some eng" "ps_state eng = ''open''"
        "ps_customer_max_debit_wei eng = Some m" and rest: "ps_accounting_mode eng = ''wholesale_account''"
        "ps_authorization_id eng = None" by blast
      obtain q w where rel: "release_customer_engagement (ps_user_id eng) e m (working s) = (q, w)" by force
      then have on: "on_db (release_customer_engagement (ps_user_id eng) e m) s = (q, s\<lparr>working := w\<rparr>)"
        by (simp add: on_db_def)
      show ?thesis
      proof (cases q)
        case (Inl x)
        with run eng rest on have "r = Inl x" "s' = s\<lparr>working := w\<rparr>"
          by (simp_all add: release_unauthorized_engagement_def bind_eq_Inl [of "on_db (release_customer_engagement (ps_user_id eng) e m)"])
        with b show ?thesis by (simp add: both_def)
      next
        case (Inr x)
        with run eng rest on have "working s' = set_session e (\<lambda>s. s\<lparr>ps_state := ''closed'', ps_closed_at := Some now,
            ps_actual_units := Some 0, ps_billed_value_wei := Some 0, ps_outcome := Some ''NOT_ADMITTED''\<rparr>) w"
          "durable s' = working s'"
          by (auto simp: release_unauthorized_engagement_def bind_eq_Inr [of "on_db (release_customer_engagement (ps_user_id eng) e m)"] op_run)
        with release_block [OF _ eng(1,2,3) rel [unfolded Inr]] b show ?thesis by (simp add: both_def)
      qed
    qed }
  then show ?thesis unfolding safe_def by (intro tripleI) (auto simp: both_def committed_def)
qed

lemma release_stale_safe: "safe (tracked B) (release_stale_unauthorized_engagements now secs limit)"
  unfolding release_stale_unauthorized_engagements_def
  by (intro safe_intros release_unauthorized_safe)

section \<open>Grants\<close>

lemma find_grant_in: "find_grant db e a = Some g \<Longrightarrow> g \<in> set (grants db) \<and> gr_session_id g = e \<and> gr_authorization_id g = a"
  by (auto simp: find_grant_def dest: find_SomeD)

lemma insert_grant_run:
  assumes "insert_grant e g db = (Inr g', db')"
  shows "g' = g" "\<forall>x \<in> set (grants db). gr_authorization_id x \<noteq> gr_authorization_id g"
    "db' = set_session e (\<lambda>s. s\<lparr>ps_authorization_id := Some (gr_authorization_id g),
        ps_work_id := gr_authorization_id g\<rparr>) (db\<lparr>grants := grants db @ [g]\<rparr>)"
  using assms by (auto simp: insert_grant_def op_run split: if_splits)

lemma record_grant_cases:
  assumes "record_spend_authorization_grant e u route domain q p db = (Inr g, db')"
  obtains (replay) eng where "get_session db e = Some eng" "ps_user_id eng = u" "db' = db"
      "find_revision db e (aq_revision q) = Some g" "gr_authorization_id g = aq_authorization_id q"
    | (new) eng snapshot where "get_session db e = Some eng" "ps_user_id eng = u"
      "require_authorizable eng (aq_revision q) = Inr ()" "snapshot_view route = Inr snapshot"
      "ps_route_snapshot eng = Some snapshot" "find_revision db e (aq_revision q) = None"
      "g = grant_of e snapshot domain q p" "insert_grant e g db = (Inr g, db')"
proof -
  from assms obtain eng snapshot where eng: "get_session db e = Some eng" "ps_user_id eng = u"
    "require_authorizable eng (aq_revision q) = Inr ()" "snapshot_view route = Inr snapshot"
    "ps_route_snapshot eng = Some snapshot"
    by (auto simp: record_spend_authorization_grant_def op_run split: option.splits if_splits sum.splits)
  show thesis
  proof (cases "find_revision db e (aq_revision q)")
    case (Some existing)
    with assms eng have "db' = db" "g = existing" "same_grant existing domain q p"
      by (auto simp: record_spend_authorization_grant_def op_run split: if_splits)
    with replay [of eng] eng Some show thesis by (simp add: same_grant_def)
  next
    case None
    with assms eng have "insert_grant e (grant_of e snapshot domain q p) db = (Inr g, db')"
      by (simp add: record_spend_authorization_grant_def raise_def split: if_splits)
    with insert_grant_run(1) [OF this] new [OF eng None] show thesis by simp
  qed
qed

lemma grant_of_simps [simp]:
  "gr_session_id (grant_of e snap d q p) = e" "gr_authorization_id (grant_of e snap d q p) = aq_authorization_id q"
  "gr_revision (grant_of e snap d q p) = aq_revision q" "gr_max_debit_wei (grant_of e snap d q p) = aq_max_debit_wei q"
  "gr_state (grant_of e snap d q p) = ''issued''" "gr_retired_at (grant_of e snap d q p) = None"
  "gr_route_snapshot (grant_of e snap d q p) = snap"
  "gr_max_total_units (grant_of e snap d q p) = aq_max_total_units q"
  by (simp_all add: grant_of_def)

lemma find_revision_None: "find_revision db e n = None \<longleftrightarrow> (\<forall>a. (e, a, n) \<notin> gkey ` set (grants db))"
  by (auto simp: find_revision_def find_None_iff gkey_def)

text \<open>The initial grant of an engagement.\<close>

lemma record_initial_inv:
  assumes tr: "tracked B db" and rev: "aq_revision q = 0"
    and run: "record_spend_authorization_grant e u route domain q p db = (Inr g, db')"
  shows "tracked B db'"
  using run
proof (cases rule: record_grant_cases)
  case (replay eng)
  with tr show ?thesis by simp
next
  case (new eng snapshot)
  from tr have inv: "engagement_inv db" by (rule tracked_inv)
  note ins = insert_grant_run [OF new(8)]
  have e: "ps_id eng = e" using get_session_in [OF new(1)] by simp
  from new(3) rev have op: "ps_state eng = ''open''" by (simp add: require_authorizable_def split: if_splits)
  from inv_hold [OF inv new(1)] op obtain m where m: "ps_customer_max_debit_wei eng = Some m"
    "ps_accounting_mode eng = ''wholesale_account''" "open_ok (ledger db) (gkey ` set (grants db)) eng m" "0 \<le> m"
    "pass_through eng" by (auto simp: hold_ok_def live_def)
  have none: "(e, a, 0) \<notin> gkey ` set (grants db)" for a using new(6) rev by (simp add: find_revision_None)
  with m(3) e have seq: "ps_refill_seq eng = 0"
    by (auto simp: open_ok_def chain_ok_def split: option.splits)
  show ?thesis
  proof (rule inv_update [OF tr new(1), of "\<lambda>s. s\<lparr>ps_authorization_id := Some (gr_authorization_id g),
        ps_work_id := gr_authorization_id g\<rparr>" db' "[]" "{gkey g}"])
    show "distinct (map gr_authorization_id (grants db'))"
      using inv ins(2,3) by (auto simp: engagement_inv_def set_session_def)
    show "hold_ok (ledger db') (gkey ` set (grants db')) (eng\<lparr>ps_authorization_id := Some (gr_authorization_id g),
        ps_work_id := gr_authorization_id g\<rparr>)"
      using m op e seq rev ins(3) new(7)
      by (auto simp: hold_ok_def pass_through_def live_def open_ok_def chain_ok_def set_session_def gkey_def)
  qed (use ins(3) e new(7) op in \<open>auto simp: set_session_def gkey_def session_le_def live_def\<close>)
qed

text \<open>Changes of grants that keep their keys.\<close>

lemma inv_grant_states:
  assumes "tracked B db" and "ledger db' = ledger db" and "sessions db' = sessions db"
    and "map gkey (grants db') = map gkey (grants db)" and "settlements db' = settlements db"
  shows "tracked B db'"
proof -
  have a: "map gr_authorization_id gs = map (fst \<circ> snd) (map gkey gs)"
    and b: "map gr_session_id gs = map fst (map gkey gs)" for gs
    by (simp_all add: gkey_def)
  have "gkey ` set (grants db') = gkey ` set (grants db)" using assms(4) by (metis set_map)
  moreover have "map gr_authorization_id (grants db') = map gr_authorization_id (grants db)"
    using assms(4) by (simp only: a)
  moreover have "gr_session_id ` set (grants db') = gr_session_id ` set (grants db)"
    using assms(4) by (metis b set_map)
  ultimately show ?thesis
    using assms unfolding tracked_def engagement_inv_def by (metis (no_types, lifting) imageE imageI)
qed

lemma gkeys_set_grant:
  assumes "distinct (map gr_authorization_id gs)" and "gkey g' \<in> gkey ` set gs"
  shows "map gkey (update_where (\<lambda>x. gr_authorization_id x = gr_authorization_id g') (\<lambda>_. g') gs) = map gkey gs"
proof -
  from assms(2) obtain g where g: "g \<in> set gs" "gkey g' = gkey g" by auto
  then have "gr_authorization_id g' = gr_authorization_id g" by (simp add: gkey_def)
  then have "x = g" if "x \<in> set gs" "gr_authorization_id x = gr_authorization_id g'" for x
    using assms(1) that g(1) by (metis distinct_map inj_onD)
  with g(2) show ?thesis by (auto simp: update_where_def)
qed

lemma set_grant_inv:
  assumes "tracked B db" and "gkey g' \<in> gkey ` set (grants db)" and "a = gr_authorization_id g'"
  shows "tracked B (set_grant a (\<lambda>_. g') db)"
    "gkey ` set (grants (set_grant a (\<lambda>_. g') db)) = gkey ` set (grants db)"
proof -
  have keys: "map gkey (grants (set_grant a (\<lambda>_. g') db)) = map gkey (grants db)"
    using assms by (simp add: set_grant_def tracked_def engagement_inv_def gkeys_set_grant)
  then show "tracked B (set_grant a (\<lambda>_. g') db)"
    by (intro inv_grant_states [OF assms(1)]) (simp_all add: set_grant_def)
  from keys show "gkey ` set (grants (set_grant a (\<lambda>_. g') db)) = gkey ` set (grants db)"
    by (metis set_map)
qed

lemma mark_settled_run:
  assumes "mark_spend_authorization_settled e a now db = (Inr g', db')"
  obtains g where "find_grant db e a = Some g" "gr_state g \<in> {''issued'', ''admitted'', ''settled''}"
    "g' = g\<lparr>gr_state := ''settled'', gr_retired_at := retired_or now g\<rparr>" "db' = set_grant a (\<lambda>_. g') db"
  using assms
  by (auto simp: mark_spend_authorization_settled_def op_run Let_def split: option.splits if_splits)

lemma resolve_grant_gkey: "resolve_grant now g = Inr g' \<Longrightarrow> gkey g' = gkey g"
  by (auto simp: resolve_grant_def gkey_def split: if_splits)

lemma operator_resolved_keeps: "keeps (tracked B) (mark_spend_authorization_operator_resolved e a now)"
proof (rule keepsI)
  fix db :: "('z sessions_db_scheme)" and r db'
  assume inv: "tracked B db" and run: "mark_spend_authorization_operator_resolved e a now db = (r, db')"
  let ?rows = "sort_key gr_revision (filter (\<lambda>g. gr_session_id g = e) (grants db))"
  let ?K = "gkey ` set (grants db)"
  let ?J = "\<lambda>d. (tracked B) d \<and> gkey ` set (grants d) = ?K"
  have "keeps ?J (fold_op (\<lambda>_ grant. bind_op (of_result (resolve_grant now grant)) (\<lambda>grant'.
      modify (set_grant (gr_authorization_id grant) (\<lambda>_. grant')))) () ?rows)"
  proof (rule keeps_fold_in)
    fix acc g assume g: "g \<in> set ?rows"
    show "keeps ?J (bind_op (of_result (resolve_grant now g)) (\<lambda>grant'.
      modify (set_grant (gr_authorization_id g) (\<lambda>_. grant'))))"
    proof (rule keepsI)
      fix d r d' assume J: "?J d" and st: "bind_op (of_result (resolve_grant now g)) (\<lambda>grant'.
        modify (set_grant (gr_authorization_id g) (\<lambda>_. grant'))) d = (r, d')"
      show "?J d'"
      proof (cases "resolve_grant now g")
        case (Inl x)
        with st J show ?thesis by simp
      next
        case (Inr g')
        then have key: "gkey g' = gkey g" by (rule resolve_grant_gkey)
        then have "gr_authorization_id g = gr_authorization_id g'" by (simp add: gkey_def)
        moreover have "gkey g' \<in> gkey ` set (grants d)" using J g key by auto
        ultimately show ?thesis using st J Inr set_grant_inv [of B d g'] by (auto simp: op_run)
      qed
    qed
  qed
  then have J: "?J d" if "bind_op (fold_op (\<lambda>_ grant. bind_op (of_result (resolve_grant now grant)) (\<lambda>grant'.
      modify (set_grant (gr_authorization_id grant) (\<lambda>_. grant')))) () ?rows)
      (\<lambda>_. gets (\<lambda>db. find_grant db e a)) db = (q, d)" for q d
    using that inv by (auto simp: op_iff bind_op_def gets_def dest: keepsD split: prod.splits sum.splits)
  from run have "db' = db \<or> (\<exists>q. bind_op (fold_op (\<lambda>_ grant. bind_op (of_result (resolve_grant now grant)) (\<lambda>grant'.
      modify (set_grant (gr_authorization_id grant) (\<lambda>_. grant')))) () ?rows)
      (\<lambda>_. gets (\<lambda>db. find_grant db e a)) db = (q, db'))"
    by (auto simp: mark_spend_authorization_operator_resolved_def split: if_splits)
  with J inv show "tracked B db'" by auto
qed

section \<open>Ending an engagement\<close>

text \<open>
  However an engagement ends, it ends with a bill between zero and its cap, and the ledger gets back the rest of the
  hold.
\<close>

lemma ended_inv:
  assumes tr: "tracked B db" and row: "get_session db e = Some row" and live: "live row"
    and cap: "ps_customer_max_debit_wei row = Some cap" and billed: "0 \<le> billed" "billed \<le> cap"
    and S: "sessions db' = update_where (\<lambda>x. ps_id x = e) (\<lambda>_. row') (sessions db)"
    and row': "ps_id row' = e" "ps_user_id row' = ps_user_id row" "ps_accounting_mode row' = ps_accounting_mode row"
      "ps_customer_max_debit_wei row' = Some cap" "ps_state row' = ''closed''" "ps_billed_value_wei row' = Some billed"
      "ps_refill_seq row' = ps_refill_seq row" "ps_max_total_units row' = ps_max_total_units row"
      "ps_funded_value_wei row' = ps_funded_value_wei row" "ps_customer_pricing row' = ps_customer_pricing row"
    and L: "ledger db' = ledger db @ new" "list_all (about e) new" "list_all (\<lambda>r. cl_user_id r = ps_user_id row) new"
      "etotal new e = cap - billed"
    and G: "map gkey (grants db') = map gkey (grants db)"
    and P: "settlements db' = settlements db @ events" "list_all (\<lambda>p. pe_session_id p = e) events"
  shows "tracked B db'"
proof -
  from tr have inv: "engagement_inv db" by (rule tracked_inv)
  have e: "ps_id row = e" using get_session_in [OF row] by simp
  from inv_hold [OF inv row] live cap have op: "open_ok (ledger db) (gkey ` set (grants db)) row cap"
    "ps_accounting_mode row = ''wholesale_account''" "0 \<le> cap" "pass_through row" by (auto simp: hold_ok_def)
  have auth: "map gr_authorization_id gs = map (fst \<circ> snd) (map gkey gs)" for gs by (simp add: gkey_def)
  have "distinct (map gr_authorization_id (grants db'))"
    using inv G unfolding auth engagement_inv_def by simp
  moreover have "gkey ` set (grants db') = gkey ` set (grants db) \<union> {}" using G by (metis set_map sup_bot_right)
  moreover have "hold_ok (ledger db') (gkey ` set (grants db')) row'"
    using op cap billed L(1,4) row' e by (auto simp: hold_ok_def pass_through_def live_def closed_ok_def open_ok_def)
  moreover have "session_le row row'"
    using row' cap live e by (auto simp: session_le_def live_def)
  ultimately show ?thesis
    by (intro inv_update [OF tr row _ S L(1-3), where N = "{}"]) (use row'(5) P in \<open>auto simp: list_all_iff\<close>)
qed

end
