(* ===== verification/Sessions_Laws.thy ===== *)
theory Sessions_Laws
  imports Sessions Engagements_Laws
begin

text \<open>
  The session operations keep the engagement invariant: closing, revising a cap, opening, replenishing
  and reconciling. Wholesale funding never writes a table the invariant reads (locale
  \<open>customer_invariant\<close>), so a request that both changes an engagement and funds the shared account is
  safe when its engagement part is.
\<close>

section \<open>Wholesale funding and the customer's tables\<close>

locale customer_invariant =
  fixes I :: "('z sessions_db_scheme) \<Rightarrow> bool"
  assumes I_accounts: "I (db\<lparr>accounts := a\<rparr>) = I db"
    and I_fundings: "I (db\<lparr>fundings := f\<rparr>) = I db"
    and I_budgets: "I (db\<lparr>budgets := b\<rparr>) = I db"
begin

lemma safe_accounts: "safe I (write_db (\<lambda>db. db\<lparr>accounts := g db\<rparr>))"
  by (rule safe_write_db) (simp add: I_accounts)

lemma safe_fundings: "safe I (write_db (\<lambda>db. db\<lparr>fundings := g db\<rparr>))"
  by (rule safe_write_db) (simp add: I_fundings)

lemma safe_budget: "safe I (write_db (set_budget v))"
  by (rule safe_write_db) (simp add: set_budget_def I_budgets)

lemma safe_both: "safe I (write_db (\<lambda>db. db\<lparr>accounts := g db, fundings := h db\<rparr>))"
  by (rule safe_write_db) (simp add: I_accounts I_fundings)

lemmas safe_wholesale_intros = safe_intros safe_accounts safe_fundings safe_budget safe_both

lemma safe_store: "safe I (store_observation nid route ob domain pv account)"
  unfolding store_observation_def Let_def by (intro safe_wholesale_intros)

lemma safe_replay_claim: "safe I (replay_claim route ob domain plan corr existing)"
  unfolding replay_claim_def Let_def by (intro safe_wholesale_intros)

lemma safe_claim:
  "safe I (claim_account_funding clean nid route ob domain plan limits mid corr pv)"
  unfolding claim_account_funding_def Let_def
  by (intro safe_wholesale_intros safe_store safe_replay_claim)

lemma safe_record_minted: "safe I (record_minted_funding mid response)"
  unfolding record_minted_funding_def Let_def by (intro safe_wholesale_intros)

lemma safe_acknowledge: "safe I (acknowledge_account_funding sha mid result ob domain at)"
  unfolding acknowledge_account_funding_def Let_def by (intro safe_wholesale_intros)

lemma safe_mint_step: "safe I (mint_step route ob plan payer create funding)"
  unfolding mint_step_def by (intro safe_wholesale_intros safe_record_minted)

lemma safe_complete:
  "safe I (complete_account_funding sha funding route ob domain plan payer create fund after at)"
  unfolding complete_account_funding_def by (intro safe_wholesale_intros safe_mint_step safe_acknowledge)

lemma safe_plan: "safe I (on_db (plan_observed_account_shortfall ob domain limits))"
  by (rule safe_on_db)
     (auto simp: plan_observed_account_shortfall_def op_run Let_def split: sum.splits if_splits)

lemma safe_replenish:
  "safe I (replenish_wholesale_account world route payer mid corr now settings required)"
  unfolding replenish_wholesale_account_def Let_def
  by (intro safe_wholesale_intros safe_plan safe_claim safe_complete)

lemma safe_reservation: "safe I (on_db (session_reservation_requirement reply grant))"
  by (rule safe_on_db)
     (auto simp: session_reservation_requirement_def op_run Let_def split: option.splits sum.splits if_splits)

lemma safe_replenish_for_request:
  "safe I (replenish_for_request world grant route payer mid corr now settings)"
  unfolding replenish_for_request_def
  by (intro safe_wholesale_intros safe_reservation safe_replenish)

lemma safe_replenish_active: "safe I (replenish_active_wholesale_account world candidate now settings)"
  unfolding replenish_active_wholesale_account_def
  by (intro safe_wholesale_intros safe_replenish)

end

interpretation engagement: customer_invariant "tracked B :: ('z sessions_db_scheme) \<Rightarrow> bool"
  by unfold_locales (simp_all add: tracked_def engagement_inv_def)

section \<open>Closing\<close>

lemma update_where_twice:
  "(\<And>x. p x \<Longrightarrow> p (f x)) \<Longrightarrow> update_where p g (update_where p f xs) = update_where p (\<lambda>x. g (f x)) xs"
  by (induction xs) auto

lemma charge_nonneg: "calculate_customer_charge policy units w = Inr c \<Longrightarrow> 0 \<le> c"
  by (auto simp: calculate_customer_charge_def Let_def split: if_splits pricing_kind.splits option.splits)

lemma transition_run:
  assumes "transition_state e from_state to_state now db = (Inr row', db')"
  obtains row where "get_session db e = Some row" "ps_state row = from_state"
    "to_state \<in> set (ALLOWED_TRANSITIONS from_state)"
    "row' = (if to_state = ''closed'' then row\<lparr>ps_state := to_state, ps_closed_at := Some now\<rparr>
             else row\<lparr>ps_state := to_state\<rparr>)" "db' = set_session e (\<lambda>_. row') db"
  using assms
  by (auto simp: transition_state_def op_run Let_def split: option.splits if_splits)

lemma close_accounting_run:
  assumes "close_accounting row v outcome = Inr (billed, refund, final)"
  obtains pricing cap where "ps_customer_pricing row = Some pricing" "ps_customer_max_debit_wei row = Some cap"
    "fields_match_policy pricing = Inr pricing"
    "calculate_customer_charge pricing (vs_debited_units v) (vs_billed_value_wei v) = Inr billed"
    "billed \<le> cap" "refund = cap - billed" "0 \<le> billed"
    "final = (if vs_outcome v = ''SETTLEMENT_OUTCOME_UNSPECIFIED''
              then infer_close_outcome (ps_funded_value_wei row) billed else vs_outcome v)"
    "outcome = None \<or> outcome = Some final"
proof -
  have id: "fields_match_policy q = Inr q' \<Longrightarrow> q' = q" for q q'
    by (auto simp: fields_match_policy_def Let_def split: if_splits)
  from assms show thesis
    by (auto simp: close_accounting_def bind_r_Inr_iff Let_def split: option.splits if_splits
        intro!: that dest: charge_nonneg id)
qed

definition closed_row ::
  "datetime_text \<Rightarrow> verified_session_settlement \<Rightarrow> wei \<Rightarrow> string \<Rightarrow> string \<Rightarrow> timestamp \<Rightarrow> payment_session \<Rightarrow>
   payment_session" where
  "closed_row dt v billed final a now row = row\<lparr>ps_state := ''closed'', ps_closed_at := Some now,
     ps_actual_units := Some (vs_debited_units v), ps_billed_value_wei := Some billed,
     ps_outcome := Some final, ps_broker_session_id := Some (vs_broker_session_id v),
     ps_last_settlement_seq := vs_settlement_seq v, ps_breakdown := close_breakdown dt v (ps_breakdown row),
     ps_authorization_id := Some a, ps_work_id := a\<rparr>"

definition close_event :: "uuid \<Rightarrow> timestamp \<Rightarrow> verified_session_settlement \<Rightarrow> wei \<Rightarrow> string \<Rightarrow> (string \<times> json) list \<Rightarrow> payment_settlement" where
  "close_event e now v billed final settlement =
     \<lparr>pe_session_id = e, pe_recorded_at = now, pe_event_type = ''close'',
      pe_actual_units = Some (vs_debited_units v), pe_billed_value_wei = Some billed,
      pe_outcome = Some final, pe_raw_record = Some settlement\<rparr>"

definition refund_step :: "uuid \<Rightarrow> uuid \<Rightarrow> wei \<Rightarrow> ('z sessions_db_scheme, unit) op" where
  "refund_step u e refund =
     (if 0 < refund then bind_op (release_customer_engagement u e refund) (\<lambda>_. ret ()) else ret ())"

lemma finalize_run:
  assumes run: "finalize_close dt row u v settlement billed refund final now db = (Inr r, db')"
    and row: "get_session db (ps_id row) = Some row"
  obtains a db1 db2 g where "authorization_hint settlement = Some a"
    "refund_step u (ps_id row) refund (set_session (ps_id row)
       (\<lambda>_. row\<lparr>ps_state := ''closed'', ps_closed_at := Some now\<rparr>) db) = (Inr (), db1)"
    "ps_state row \<in> {''open'', ''draining''}"
    "db2 = set_session (ps_id row) (\<lambda>s. s\<lparr>ps_authorization_id := Some a, ps_work_id := a\<rparr>)
       (set_session (ps_id row) (\<lambda>s. s\<lparr>ps_actual_units := Some (vs_debited_units v),
         ps_billed_value_wei := Some billed, ps_outcome := Some final,
         ps_broker_session_id := Some (vs_broker_session_id v),
         ps_last_settlement_seq := vs_settlement_seq v,
         ps_breakdown := close_breakdown dt v (ps_breakdown s)\<rparr>) db1)"
    "find_grant db2 (ps_id row) a = Some g" "gr_state g \<in> {''issued'', ''admitted'', ''settled''}"
    "db' = (set_grant a (\<lambda>_. g\<lparr>gr_state := ''settled'', gr_retired_at := retired_or now g\<rparr>) db2)
       \<lparr>settlements := settlements db2 @ [close_event (ps_id row) now v billed final settlement]\<rparr>"
    "r = \<lparr>cz_session_id = ps_id row, cz_work_id = a, cz_actual_units = vs_debited_units v,
          cz_billed_value_wei = billed, cz_refund_wei = max refund 0, cz_outcome = final, cz_closed_at = now\<rparr>"
proof -
  from run [unfolded finalize_close_def, THEN bind_Inr_iff [THEN iffD1]] obtain row' d0
    where tr: "transition_state (ps_id row) (ps_state row) ''closed'' now db = (Inr row', d0)" by blast
  obtain row0 where "get_session db (ps_id row) = Some row0"
    "''closed'' \<in> set (ALLOWED_TRANSITIONS (ps_state row))"
    "row' = (if ''closed'' = ''closed'' then row0\<lparr>ps_state := ''closed'', ps_closed_at := Some now\<rparr>
             else row0\<lparr>ps_state := ''closed''\<rparr>)" "d0 = set_session (ps_id row) (\<lambda>_. row') db"
    using tr by (rule transition_run)
  with row have st: "ps_state row \<in> {''open'', ''draining''}"
    and d0: "d0 = set_session (ps_id row) (\<lambda>_. row\<lparr>ps_state := ''closed'', ps_closed_at := Some now\<rparr>) db"
    by (auto simp: ALLOWED_TRANSITIONS_def split: if_splits)
  obtain db1 where rf: "refund_step u (ps_id row) refund d0 = (Inr (), db1)"
    using run unfolding finalize_close_def refund_step_def [symmetric]
      bind_eq_Inr [of "transition_state (ps_id row) (ps_state row) ''closed'' now", OF tr]
    by (auto dest: bind_Inr_iff [THEN iffD1])
  define db2' where "db2' = set_session (ps_id row) (\<lambda>s. s\<lparr>ps_actual_units := Some (vs_debited_units v),
         ps_billed_value_wei := Some billed, ps_outcome := Some final,
         ps_broker_session_id := Some (vs_broker_session_id v),
         ps_last_settlement_seq := vs_settlement_seq v,
         ps_breakdown := close_breakdown dt v (ps_breakdown s)\<rparr>) db1"
  have run2: "(case authorization_hint settlement of
       None \<Rightarrow> raise (verification_failed ''missing_authorization'')
     | Some a \<Rightarrow>
         bind_op (modify (set_session (ps_id row) (\<lambda>s. s\<lparr>ps_authorization_id := Some a, ps_work_id := a\<rparr>))) (\<lambda>_.
         bind_op (mark_spend_authorization_settled (ps_id row) a now) (\<lambda>_.
         bind_op (record_settlement (ps_id row) ''close'' now (Some (vs_debited_units v))
             (Some billed) (Some final) (Some settlement)) (\<lambda>_.
         ret \<lparr>cz_session_id = ps_id row, cz_work_id = a,
              cz_actual_units = vs_debited_units v, cz_billed_value_wei = billed,
              cz_refund_wei = max refund 0, cz_outcome = final, cz_closed_at = now\<rparr>)))) db2' = (Inr r, db')"
    using run unfolding finalize_close_def bind_eq_Inr [of "transition_state (ps_id row) (ps_state row) ''closed'' now", OF tr]
      refund_step_def [symmetric] bind_eq_Inr [of "refund_step u (ps_id row) refund", OF rf] bind_modify db2'_def by simp
  then obtain a where a: "authorization_hint settlement = Some a"
    by (auto simp: raise_def split: option.splits)
  let ?db2 = "set_session (ps_id row) (\<lambda>s. s\<lparr>ps_authorization_id := Some a, ps_work_id := a\<rparr>) db2'"
  from run2 a obtain g' d3 where mk: "mark_spend_authorization_settled (ps_id row) a now ?db2 = (Inr g', d3)"
    by (auto simp: op_iff)
  from mk obtain g where g: "find_grant ?db2 (ps_id row) a = Some g"
    "gr_state g \<in> {''issued'', ''admitted'', ''settled''}"
    "g' = g\<lparr>gr_state := ''settled'', gr_retired_at := retired_or now g\<rparr>" "d3 = set_grant a (\<lambda>_. g') ?db2"
    by (rule mark_settled_run)
  from run2 a mk have "db' = d3\<lparr>settlements := settlements d3 @ [close_event (ps_id row) now v billed final settlement]\<rparr>"
    "r = \<lparr>cz_session_id = ps_id row, cz_work_id = a, cz_actual_units = vs_debited_units v,
          cz_billed_value_wei = billed, cz_refund_wei = max refund 0, cz_outcome = final, cz_closed_at = now\<rparr>"
    by (auto simp: bind_eq_Inr [of "mark_spend_authorization_settled (ps_id row) a now"]
        record_settlement_def Let_def close_event_def bind_assoc op_run)
  moreover have "settlements d3 = settlements ?db2" by (simp add: g(4) set_grant_def)
  ultimately show thesis
    by (intro that [OF a rf [unfolded d0] st _ g(1,2)]) (simp_all add: db2'_def g(3,4))
qed

lemma refund_run:
  assumes run: "refund_step u e refund db = (Inr (), db')" and none: "\<not> has_entry (ledger db) e ''engagement_release''"
  obtains new where "ledger db' = ledger db @ new" "list_all (about e) new" "list_all (\<lambda>r. cl_user_id r = u) new"
    "etotal new e = max refund 0" "sessions db' = sessions db" "grants db' = grants db"
    "settlements db' = settlements db"
proof (cases "0 < refund")
  case False
  with run that [of "[]"] show thesis by (simp add: refund_step_def ret_def etotal_def max_def)
next
  case True
  from run [unfolded refund_step_def] True obtain b where
    "release_customer_engagement u e refund db = (Inr b, db')"
    by (auto simp: op_iff)
  from keyed_posts [OF this [unfolded release_keyed] windows_only_ret none] obtain r where
    "ledger db' = ledger db @ [r]" "about e r" "cl_user_id r = u" "cl_delta_wei r = refund"
    "sessions db' = sessions db" "grants db' = grants db" "settlements db' = settlements db" by blast
  with True that [of "[r]"] show thesis by (simp add: etotal_one max_def)
qed

lemma close_inv:
  assumes tr: "tracked B db" and row: "get_session db (ps_id row) = Some row"
    and u: "ps_user_id row = u" and acc: "close_accounting row v outcome = Inr (billed, refund, final)"
    and run: "finalize_close dt row u v settlement billed refund final now db = (Inr r, db')"
  shows "tracked B db'"
proof -
  from tr have inv: "engagement_inv db" by (rule tracked_inv)
  let ?e = "ps_id row"
  from run row obtain a db1 db2 g where f: "authorization_hint settlement = Some a"
    "refund_step u ?e refund (set_session ?e (\<lambda>_. row\<lparr>ps_state := ''closed'', ps_closed_at := Some now\<rparr>) db)
       = (Inr (), db1)" "ps_state row \<in> {''open'', ''draining''}"
    "db2 = set_session ?e (\<lambda>s. s\<lparr>ps_authorization_id := Some a, ps_work_id := a\<rparr>)
       (set_session ?e (\<lambda>s. s\<lparr>ps_actual_units := Some (vs_debited_units v),
         ps_billed_value_wei := Some billed, ps_outcome := Some final,
         ps_broker_session_id := Some (vs_broker_session_id v),
         ps_last_settlement_seq := vs_settlement_seq v,
         ps_breakdown := close_breakdown dt v (ps_breakdown s)\<rparr>) db1)"
    "find_grant db2 ?e a = Some g"
    "db' = (set_grant a (\<lambda>_. g\<lparr>gr_state := ''settled'', gr_retired_at := retired_or now g\<rparr>) db2)
       \<lparr>settlements := settlements db2 @ [close_event ?e now v billed final settlement]\<rparr>"
    by (rule finalize_run)
  obtain pricing cap where cap: "ps_customer_max_debit_wei row = Some cap" "billed \<le> cap" "refund = cap - billed" "0 \<le> billed"
    using acc by (rule close_accounting_run)
  from inv_hold [OF inv row] f(3) cap have op: "open_ok (ledger db) (gkey ` set (grants db)) row cap"
    "ps_accounting_mode row = ''wholesale_account''" by (auto simp: hold_ok_def live_def)
  then have none: "\<not> has_entry (ledger (set_session ?e (\<lambda>_. row\<lparr>ps_state := ''closed'', ps_closed_at := Some now\<rparr>) db)) ?e ''engagement_release''"
    by (simp add: open_ok_def set_session_def)
  obtain new where new: "ledger db1 = ledger db @ new" "list_all (about ?e) new" "list_all (\<lambda>r. cl_user_id r = u) new"
    "etotal new ?e = max refund 0" "grants db1 = grants db"
    "sessions db1 = update_where (\<lambda>x. ps_id x = ?e) (\<lambda>_. row\<lparr>ps_state := ''closed'', ps_closed_at := Some now\<rparr>) (sessions db)"
    "settlements db1 = settlements db"
    using refund_run [OF f(2) none] by (auto simp: set_session_def)
  have S: "sessions db' = update_where (\<lambda>x. ps_id x = ?e) (\<lambda>_. closed_row dt v billed final a now row) (sessions db)"
    by (simp add: f(4,6) set_grant_def set_session_def new(6) update_where_twice closed_row_def)
  have g: "g \<in> set (grants db)" "gr_authorization_id g = a"
    using find_grant_in [OF f(5)] by (simp_all add: f(4) set_session_def new(5))
  have keys: "map gkey (grants db') = map gkey (grants db)"
    using gkeys_set_grant [of "grants db" "g\<lparr>gr_state := ''settled'', gr_retired_at := retired_or now g\<rparr>"] g inv
    by (auto simp: f(4,6) set_grant_def set_session_def new(5) gkey_def engagement_inv_def rev_image_eqI)
  have L: "ledger db' = ledger db @ new" by (simp add: f(4,6) set_grant_def set_session_def new(1))
  have P: "settlements db' = settlements db @ [close_event ?e now v billed final settlement]"
    by (simp add: f(4,6) set_grant_def set_session_def new(7))
  show ?thesis
    by (rule ended_inv [OF tr row _ cap(1) cap(4) _ S _ _ _ _ _ _ _ _ _ _ L new(2) _ _ keys P])
       (use f(3) cap u new(3,4) in \<open>auto simp: closed_row_def live_def close_event_def\<close>)
qed

lemma verify_close_pure: "verify_close_settlement v dt row settlement terminal db = (r, db') \<Longrightarrow> db' = db"
  by (auto simp: verify_close_settlement_def catch_op_def op_run Let_def split: option.splits if_splits sum.splits)

lemma successors_pure: "require_retired_successors row a db = (r, db') \<Longrightarrow> db' = db"
  by (auto simp: require_retired_successors_def op_run split: option.splits)

lemma replay_pure: "replay_closed_session row settlement units outcome db = (r, db') \<Longrightarrow> db' = db"
  by (auto simp: replay_closed_session_def op_run split: option.splits if_splits)

text \<open>The ways a close ends.\<close>

lemma close_cases:
  assumes "close_session v dt e u units outcome settlement_opt now db = (Inr r, db')"
  obtains (replay) row where "get_session db e = Some row" "ps_user_id row = u" "ps_state row = ''closed''"
      "replay_closed_session row settlement_opt units outcome db = (Inr r, db)" "db' = db"
    | (close) row settlement verified billed refund final where "get_session db e = Some row"
      "ps_user_id row = u" "ps_state row \<noteq> ''closed''" "settlement_opt = Some settlement"
      "verify_close_settlement v dt row settlement_opt True db = (Inr verified, db)"
      "units = vs_debited_units verified"
      "require_retired_successors row (vs_work_id verified) db = (Inr (), db)"
      "close_accounting row verified outcome = Inr (billed, refund, final)"
      "finalize_close dt row u verified settlement billed refund final now db = (Inr r, db')"
proof -
  from assms obtain row where row: "get_session db e = Some row" "ps_user_id row = u"
    by (auto simp: close_session_def op_run split: option.splits if_splits)
  show thesis
  proof (cases "ps_state row = ''closed''")
    case True
    with assms row have "replay_closed_session row settlement_opt units outcome db = (Inr r, db')"
      by (simp add: close_session_def)
    with replay_pure [OF this] replay [OF row True] show thesis by simp
  next
    case False
    with assms row have "bind_op (require (ps_accounting_mode row = ''wholesale_account'')
                      (verification_failed ''legacy_accounting_disabled'')) (\<lambda>_.
           bind_op (verify_close_settlement v dt row settlement_opt True) (\<lambda>verified.
           bind_op (require (units = vs_debited_units verified)
                      (verification_failed ''work_units_mismatch'')) (\<lambda>_.
           case settlement_opt of
             None \<Rightarrow> raise AssertionError
           | Some settlement \<Rightarrow>
               bind_op (require_retired_successors row (vs_work_id verified)) (\<lambda>_.
               bind_op (of_result (close_accounting row verified outcome))
                 (\<lambda>(billed_value_wei, refund_wei, final_outcome).
               finalize_close dt row u verified settlement billed_value_wei refund_wei
                 final_outcome now))))) db = (Inr r, db')"
      by (simp add: close_session_def)
    then obtain verified d1 where ver: "verify_close_settlement v dt row settlement_opt True db = (Inr verified, d1)"
      and run: "bind_op (require (units = vs_debited_units verified)
                      (verification_failed ''work_units_mismatch'')) (\<lambda>_.
           case settlement_opt of
             None \<Rightarrow> raise AssertionError
           | Some settlement \<Rightarrow>
               bind_op (require_retired_successors row (vs_work_id verified)) (\<lambda>_.
               bind_op (of_result (close_accounting row verified outcome))
                 (\<lambda>(billed_value_wei, refund_wei, final_outcome).
               finalize_close dt row u verified settlement billed_value_wei refund_wei
                 final_outcome now))) d1 = (Inr r, db')"
      unfolding bind_Inr_iff require_iff by auto
    from verify_close_pure [OF ver] have d1: "d1 = db" .
    from run obtain settlement where st: "settlement_opt = Some settlement" "units = vs_debited_units verified"
      by (cases settlement_opt) (auto simp: raise_def split: if_splits)
    with run d1 obtain d2 where suc: "require_retired_successors row (vs_work_id verified) db = (Inr (), d2)"
      and run2: "bind_op (of_result (close_accounting row verified outcome))
                 (\<lambda>(billed_value_wei, refund_wei, final_outcome).
               finalize_close dt row u verified settlement billed_value_wei refund_wei final_outcome now) d2 = (Inr r, db')"
      by (simp add: bind_Inr_iff) blast
    from successors_pure [OF suc] run2 obtain billed refund final where
      "close_accounting row verified outcome = Inr (billed, refund, final)"
      "finalize_close dt row u verified settlement billed refund final now db = (Inr r, db')"
      by (auto split: sum.splits)
    with close [OF row False st(1)] ver d1 st(2) suc successors_pure [OF suc] show thesis by simp
  qed
qed

lemma close_session_inv:
  assumes inv: "tracked B db" and run: "close_session v dt e u units outcome settlement_opt now db = (Inr r, db')"
  shows "tracked B db'"
  using run
proof (cases rule: close_cases)
  case (replay row)
  with inv show ?thesis by simp
next
  case (close row settlement verified billed refund final)
  have "ps_id row = e" using get_session_in [OF close(1)] by simp
  with close close_inv [OF inv] show ?thesis by metis
qed

section \<open>Refilling\<close>

lemma issue_revision: 
  assumes "issue_route_locked_authorization sign route aid rid sid digest key debit units nb ex chain acct n pred = Inr (q, p)"
  shows "aq_revision q = n" "aq_authorization_id q = aid" "aq_max_debit_wei q = debit"
    "aq_max_total_units q = units" "sign q = Inr p" "aq_session_id q = sid"
    "aq_protocol q = protocol_value (sr_protocol route)" "aq_request_id q = rid"
  using assms by (auto simp: issue_route_locked_authorization_def Let_def bind_r_Inr_iff split: if_splits)

lemma issue_revision_Inr: "issue_revision_authorization r = Inr x \<longleftrightarrow> r = Inr x"
  by (cases r) (auto simp: issue_revision_authorization_def split: error.splits)

text \<open>The block of a revision: the larger hold, the grant and the row.\<close>

lemma revise_block:
  assumes tr: "tracked B db" and row: "get_session db e = Some row" and live: "ps_state row = ''open''"
    and auth: "ps_authorization_id row = Some current" "find_grant db e current = Some pred"
    and u: "ps_user_id row = u" and cap: "ps_customer_max_debit_wei row = Some old"
    and inc: "increase_customer_engagement_cap u e (gr_revision pred + 1) (newcap - old) t period wcap db = (Inr b, db1)"
    and nog: "find_grant db e (aq_authorization_id q) = None" and rev: "aq_revision q = gr_revision pred + 1"
    and rec: "record_spend_authorization_grant e u route domain q p db1 = (Inr g, db2)"
    and db3: "db3 = set_session e (\<lambda>s. s\<lparr>ps_max_total_units := units, ps_funded_value_wei := fund,
       ps_customer_max_debit_wei := Some newcap, ps_refill_seq := gr_revision pred + 1\<rparr>) db2"
    and up: "old < newcap" "ps_max_total_units row < units" and same: "fund = newcap"
  shows "tracked B db3"
proof -
  from tr have inv: "engagement_inv db" by (rule tracked_inv)
  have e: "ps_id row = e" using get_session_in [OF row] by simp
  from inv_hold [OF inv row] live cap have op: "open_ok (ledger db) (gkey ` set (grants db)) row old"
    "ps_accounting_mode row = ''wholesale_account''" "0 \<le> old" "pass_through row" by (auto simp: hold_ok_def live_def)
  have pred: "pred \<in> set (grants db)" "gkey pred = (e, current, gr_revision pred)"
    using find_grant_in [OF auth(2)] by (auto simp: gkey_def)
  have seq: "gr_revision pred = ps_refill_seq row"
  proof -
    from op(1) auth(1) e obtain h where h: "h \<in> set (grants db)" "gkey h = (e, current, ps_refill_seq row)"
      by (auto simp: open_ok_def chain_ok_def)
    then have "gr_authorization_id h = gr_authorization_id pred" using pred by (simp add: gkey_def)
    then have "h = pred" using inv h(1) pred(1) by (metis engagement_inv_def distinct_map inj_onD)
    with h(2) pred(2) show ?thesis by simp
  qed
  have inc': "0 < gr_revision pred + 1" "keyed_step u e (cap_revision_reason (gr_revision pred + 1)) (- (newcap - old))
      (enforce_and_record_spend u (newcap - old) t period wcap) ''engagement cap revision replay changed amount'' db = (Inr b, db1)"
    using inc by (auto simp: increase_keyed split: if_splits)
  have none: "\<not> has_entry (ledger db) e (cap_revision_reason (gr_revision pred + 1))"
    using op(1) e seq by (force simp: open_ok_def)
  obtain r where r: "ledger db1 = ledger db @ [r]" "about e r" "cl_user_id r = u" "cl_delta_wei r = old - newcap"
    "cl_reason r = cap_revision_reason (gr_revision pred + 1)" "sessions db1 = sessions db" "grants db1 = grants db"
    "settlements db1 = settlements db"
    using keyed_posts [OF inc'(2) windows_only_spend none] by auto
  have nog': "\<forall>x \<in> set (grants db). gr_session_id x = e \<longrightarrow> gr_authorization_id x \<noteq> aq_authorization_id q"
    using nog by (auto simp: find_grant_def find_None_iff)
  from rec show ?thesis
  proof (cases rule: record_grant_cases)
    case (replay eng)
    then have "g \<in> set (grants db)" "gr_session_id g = e" using r(7)
      by (auto simp: find_revision_def dest!: find_SomeD)
    with replay(5) nog' show ?thesis by blast
  next
    case (new eng snapshot)
    note ins = insert_grant_run [OF new(8)]
    let ?f = "\<lambda>s. s\<lparr>ps_authorization_id := Some (aq_authorization_id q),
        ps_work_id := aq_authorization_id q, ps_max_total_units := units, ps_funded_value_wei := fund,
        ps_customer_max_debit_wei := Some newcap, ps_refill_seq := gr_revision pred + 1\<rparr>"
    have g: "gr_authorization_id g = aq_authorization_id q" "gkey g = (e, aq_authorization_id q, gr_revision pred + 1)"
      using new(7) rev by (simp_all add: gkey_def)
    have S: "sessions db3 = update_where (\<lambda>x. ps_id x = e) ?f (sessions db)"
      by (simp add: db3 ins(3) set_session_def update_where_twice r(6) g(1))
    have G: "grants db3 = grants db @ [g]" and L: "ledger db3 = ledger db @ [r]" and P: "settlements db3 = settlements db"
      by (simp_all add: db3 ins(3) set_session_def r)
    have "hold_ok (ledger db3) (gkey ` set (grants db3)) (?f row)"
      using op live e seq r(2,4,5) g(2) auth(1) up(1) same
      by (auto simp: hold_ok_def pass_through_def live_def open_ok_def chain_ok_def L G etotal_one has_entry_one cap_revision_reason_def)
    moreover have "distinct (map gr_authorization_id (grants db3))"
      using inv ins(2) r(7) by (auto simp: G engagement_inv_def)
    moreover have "session_le row (?f row)"
      using live up cap seq by (simp add: session_le_def live_def)
    ultimately show ?thesis
      using inv_update [OF tr row _ S, where new = "[r]" and N = "{gkey g}"] e u r(2,3) g(2) L G P by simp
  qed
qed

lemma revise_cap_run:
  assumes "revise_cap sign row u route units digest rid now settings cfg db = (Inr g, db')"
  obtains current pred fund pricing old newcap b db1 q p domain db2
  where "ps_max_total_units row < units" "ps_authorization_id row = Some current"
    "find_grant db (ps_id row) current = Some pred"
    "bill_value_wei units (sr_price_per_work_unit_wei route) (sr_units_per_price route) = Inr fund"
    "ps_customer_pricing row = Some pricing" "ps_customer_max_debit_wei row = Some old"
    "calculate_customer_charge pricing units fund = Inr newcap" "old < newcap"
    "increase_customer_engagement_cap u (ps_id row) (gr_revision pred + 1) (newcap - old) (Aware now)
       (rbc_spend_period_seconds cfg) (rbc_spend_period_cap_wei cfg) db = (Inr b, db1)"
    "aq_revision q = gr_revision pred + 1" "aq_authorization_id q = ''loc-auth:'' @ rid"
    "aq_max_debit_wei q = fund" "aq_max_total_units q = units" "sign q = Inr p"
    "record_spend_authorization_grant (ps_id row) u route domain q p db1 = (Inr g, db2)"
    "db' = set_session (ps_id row) (\<lambda>s. s\<lparr>ps_max_total_units := units, ps_funded_value_wei := fund,
       ps_customer_max_debit_wei := Some newcap, ps_refill_seq := gr_revision pred + 1\<rparr>) db2"
proof -
  have id: "fields_match_policy q = Inr q' \<Longrightarrow> q' = q" for q q'
    by (auto simp: fields_match_policy_def Let_def split: if_splits)
  from assms obtain current where cur: "ps_max_total_units row < units" "ps_authorization_id row = Some current"
    by (auto simp: revise_cap_def op_run split: if_splits option.splits)
  from assms cur obtain pred where pred: "find_grant db (ps_id row) current = Some pred"
    "gr_wholesale_account_id pred = ss_wholesale_account_id settings"
    by (auto simp: revise_cap_def op_run split: if_splits option.splits)
  from assms cur pred obtain fund where fund:
    "bill_value_wei units (sr_price_per_work_unit_wei route) (sr_units_per_price route) = Inr fund"
    by (auto simp: revise_cap_def op_run split: sum.splits)
  from assms cur pred fund obtain pricing old where pr: "ps_customer_pricing row = Some pricing"
    "ps_customer_max_debit_wei row = Some old"
    by (auto simp: revise_cap_def op_run split: option.splits)
  from assms cur pred fund pr obtain newcap where nc: "fields_match_policy pricing = Inr pricing"
    "calculate_customer_charge pricing units fund = Inr newcap" "old < newcap"
    by (auto simp: revise_cap_def op_run Let_def dest: id split: sum.splits if_splits)
  let ?q = "\<lambda>key. issue_revision_authorization (issue_route_locked_authorization sign route (''loc-auth:'' @ rid) rid
      (ps_id row) digest key fund units now (now + seconds (ss_session_authorization_ttl_seconds settings))
      (ss_chain_id settings) (ss_wholesale_account_id settings) (gr_revision pred + 1) (gr_authorization_id pred))"
  from assms cur pred fund pr nc obtain b db1 where inc: "increase_customer_engagement_cap u (ps_id row)
       (gr_revision pred + 1) (newcap - old) (Aware now)
       (rbc_spend_period_seconds cfg) (rbc_spend_period_cap_wei cfg) db = (Inr b, db1)"
    by (simp add: revise_cap_def Let_def bind_Inr_iff) blast
  note inc_bind = bind_eq_Inr [of "increase_customer_engagement_cap u (ps_id row) (gr_revision pred + 1)
       (newcap - old) (Aware now) (rbc_spend_period_seconds cfg) (rbc_spend_period_cap_wei cfg)", OF inc]
  from assms cur pred fund pr nc obtain key q p domain where q: "?q key = Inr (q, p)"
    and rest: "bind_op (record_spend_authorization_grant (ps_id row) u route domain q p) (\<lambda>grant.
       bind_op (modify (set_session (ps_id row) (\<lambda>s. s\<lparr>ps_max_total_units := units,
         ps_funded_value_wei := fund, ps_customer_max_debit_wei := Some newcap,
         ps_refill_seq := gr_revision pred + 1\<rparr>))) (\<lambda>_. ret grant)) db1 = (Inr g, db')"
    by (auto simp: revise_cap_def Let_def inc_bind split: sum.splits option.splits)
  from rest obtain db2 where rec: "record_spend_authorization_grant (ps_id row) u route domain q p db1 = (Inr g, db2)"
    "db' = set_session (ps_id row) (\<lambda>s. s\<lparr>ps_max_total_units := units, ps_funded_value_wei := fund,
       ps_customer_max_debit_wei := Some newcap, ps_refill_seq := gr_revision pred + 1\<rparr>) db2"
    by (auto simp: bind_Inr_iff op_run)
  from q have "issue_route_locked_authorization sign route (''loc-auth:'' @ rid) rid
      (ps_id row) digest key fund units now (now + seconds (ss_session_authorization_ttl_seconds settings))
      (ss_chain_id settings) (ss_wholesale_account_id settings) (gr_revision pred + 1) (gr_authorization_id pred)
      = Inr (q, p)" by (simp add: issue_revision_Inr)
  note iss = issue_revision [OF this]
  show thesis by (rule that [OF cur pred(1) fund pr nc(2,3) inc iss(1-5) rec])
qed

lemma revise_cap_inv:
  assumes inv: "tracked B db" and row: "get_session db (ps_id row) = Some row" and st: "ps_state row = ''open''"
    and u: "ps_user_id row = u" and nog: "find_grant db (ps_id row) (''loc-auth:'' @ rid) = None"
    and run: "revise_cap sign row u route units digest rid now settings cfg db = (Inr g, db')"
  shows "tracked B db'"
  using run
proof (rule revise_cap_run)
  fix current pred fund pricing old newcap b db1 q p domain db2
  assume a: "ps_authorization_id row = Some current" "find_grant db (ps_id row) current = Some pred"
    "ps_customer_max_debit_wei row = Some old"
    "increase_customer_engagement_cap u (ps_id row) (gr_revision pred + 1) (newcap - old) (Aware now)
       (rbc_spend_period_seconds cfg) (rbc_spend_period_cap_wei cfg) db = (Inr b, db1)"
    "aq_revision q = gr_revision pred + 1" "aq_authorization_id q = ''loc-auth:'' @ rid"
    "record_spend_authorization_grant (ps_id row) u route domain q p db1 = (Inr g, db2)"
    "db' = set_session (ps_id row) (\<lambda>s. s\<lparr>ps_max_total_units := units, ps_funded_value_wei := fund,
       ps_customer_max_debit_wei := Some newcap, ps_refill_seq := gr_revision pred + 1\<rparr>) db2"
    "old < newcap" "ps_max_total_units row < units" "ps_customer_pricing row = Some pricing"
    "calculate_customer_charge pricing units fund = Inr newcap"
  have "pass_through row" using inv_hold [OF tracked_inv [OF inv] row] by (simp add: hold_ok_def)
  with a(11,12) have same: "fund = newcap"
    by (auto simp: pass_through_def calculate_customer_charge_def split: if_splits)
  from nog a(6) have "find_grant db (ps_id row) (aq_authorization_id q) = None" by simp
  with revise_block [OF inv row st a(1,2) u a(3,4) _ a(5,7-10) same] show ?thesis .
qed

lemma config_pure: "resolve_billing_config u settings db = (r, db') \<Longrightarrow> db' = db"
  by (auto simp: resolve_billing_config_def get_billing_config_def op_run)

lemma refill_wholesale_safe:
  "triple (\<lambda>s. both (tracked B) s \<and> get_session (working s) (ps_id row) = Some row \<and> ps_state row = ''open'' \<and>
      ps_user_id row = u)
     (refill_wholesale_session world sign row u units digest rid now settings cfg)
     (\<lambda>_. both (tracked B)) (committed (tracked B))" (is "triple ?P _ _ ?E")
proof -
  have E: "?P s \<Longrightarrow> ?E s" for s by (simp add: both_committed)
  have revise: "triple (\<lambda>s. ?P s \<and> found = find_grant (working s) (ps_id row) (''loc-auth:'' @ rid))
      (case found of
         None \<Rightarrow> bind_op (on_db (revise_cap sign row u route units digest rid now settings cfg)) (\<lambda>g.
           bind_op commit (\<lambda>_. ret g))
       | Some g \<Rightarrow> bind_op (require (\<not> (gr_request_id g \<noteq> rid \<or> gr_max_total_units g \<noteq> units \<or>
             gr_request_digest g \<noteq> hex digest)) (request_error ''authorization revision replay changed scope'')) (\<lambda>_. ret g))
      (\<lambda>_. both (tracked B)) ?E" for found route
  proof (rule tripleI)
    fix s x s'
    assume P: "?P s \<and> found = find_grant (working s) (ps_id row) (''loc-auth:'' @ rid)"
      and run: "(case found of
         None \<Rightarrow> bind_op (on_db (revise_cap sign row u route units digest rid now settings cfg)) (\<lambda>g.
           bind_op commit (\<lambda>_. ret g))
       | Some g \<Rightarrow> bind_op (require (\<not> (gr_request_id g \<noteq> rid \<or> gr_max_total_units g \<noteq> units \<or>
             gr_request_digest g \<noteq> hex digest)) (request_error ''authorization revision replay changed scope'')) (\<lambda>_. ret g))
        s = (Inr x, s')"
    show "both (tracked B) s'"
    proof (cases found)
      case None
      with run obtain w where w: "revise_cap sign row u route units digest rid now settings cfg (working s) = (Inr x, w)"
        "s' = s\<lparr>working := w, durable := w\<rparr>"
        by (auto simp: bind_Inr_iff on_db_iff commit_iff ret_iff)
      with P None revise_cap_inv [OF _ _ _ _ _ w(1)] show ?thesis by (simp add: both_def)
    qed (use run P in \<open>auto simp: op_run split: if_splits\<close>)
  next
    fix s e s'
    assume P: "?P s \<and> found = find_grant (working s) (ps_id row) (''loc-auth:'' @ rid)"
      and run: "(case found of
         None \<Rightarrow> bind_op (on_db (revise_cap sign row u route units digest rid now settings cfg)) (\<lambda>g.
           bind_op commit (\<lambda>_. ret g))
       | Some g \<Rightarrow> bind_op (require (\<not> (gr_request_id g \<noteq> rid \<or> gr_max_total_units g \<noteq> units \<or>
             gr_request_digest g \<noteq> hex digest)) (request_error ''authorization revision replay changed scope'')) (\<lambda>_. ret g))
        s = (Inl e, s')"
    from P have "committed (tracked B) s" by (simp add: both_committed)
    with run show "?E s'"
      by (cases found) (simp_all add: bind_Inl_iff on_db_iff commit_iff ret_iff require_iff committed_def,
        auto simp: ret_iff split: if_splits)
  qed
  show ?thesis
    unfolding refill_wholesale_session_def
    apply (rule triple_case_option)
     apply (rule triple_raise, rule E, assumption)
    apply (rule triple_bind [OF triple_of_result], rule E, assumption)
    apply (rule triple_assume)
    apply (rule triple_bind [OF triple_require], rule E, assumption)
    apply (rule triple_assume)
    apply (rule triple_bind [OF triple_read_db])
    apply (rule triple_bind [OF revise])
    apply (fold safe_def)
    apply (rule safe_bind [OF engagement.safe_replenish_for_request])
    apply (rule safe_ret)
    done
qed

lemma refill_safe: "safe (tracked B) (refill_session world sign e u now settings rid units digest)"
  unfolding refill_session_def
  apply (rule safe_bind)
   apply (rule safe_on_db, auto dest: config_pure) [1]
  unfolding safe_def
  apply (rule triple_bind [OF triple_read_db])
  apply (rule triple_case_option)
   apply (rule triple_raise, simp add: both_committed)
  apply (rule triple_bind [OF triple_require], simp add: both_committed)
  apply (rule triple_bind [OF triple_require], simp add: both_committed)
  apply (rule triple_bind [OF triple_require], simp add: both_committed)
  apply (rule triple_pre [OF refill_wholesale_safe])
  apply (elim conjE)
  subgoal for _ found row
    using get_session_in [of _ e row] by (cases found) auto
  done

section \<open>Opening\<close>

lemma issue_initial_safe:
  assumes "\<And>q p. issued = Inr (q, p) \<Longrightarrow> aq_revision q = 0"
  shows "triple (both (tracked B)) (issue_initial_authorization_or_release row now issued)
    (\<lambda>qp s. both (tracked B) s \<and> aq_revision (fst qp) = 0) (committed (tracked B))"
proof (cases issued)
  case (Inr qp)
  with assms [of "fst qp" "snd qp"] show ?thesis
    by (auto simp: issue_initial_authorization_or_release_def both_committed intro: triple_ret triple_raise)
next
  case (Inl e)
  have rel: "triple (both (tracked B)) (bind_op (release_unauthorized_engagement (ps_id row) now) (\<lambda>_.
      raise (AuthorizationRefused reason))) (\<lambda>qp s. both (tracked B) s \<and> aq_revision (fst qp) = 0)
      (committed (tracked B))" for reason
    by (rule triple_bind [OF release_unauthorized_safe [unfolded safe_def]])
       (rule triple_raise, rule both_committed)
  show ?thesis
    unfolding issue_initial_authorization_or_release_def Inl
    by (auto simp: both_committed rel intro: triple_raise split: error.splits)
qed

lemma open_wholesale_safe:
  assumes "\<And>other. conflict = Some other \<Longrightarrow> (tracked B) other" and "0 \<le> m"
  shows "safe (tracked B) (open_wholesale_session conflict world sign nid u k route est units m rid digest
    key now settings sdk period wcap gid)"
proof -
  have recorded: "triple (\<lambda>s. both (tracked B) s \<and> aq_revision q = 0)
      (on_db (record_spend_authorization_grant e u route domain q p)) (\<lambda>_. both (tracked B)) (committed (tracked B))"
    for e domain q p
    by (rule triple_assume, fold safe_def, rule safe_on_db) (rule record_initial_inv)
  have rest: "triple (\<lambda>s. both (tracked B) s \<and> aq_revision (fst qp) = 0)
      (case qp of (auth_request, auth_response) \<Rightarrow>
        bind_op (of_result (settlement_domain_id (sr_settlement_domain_id route))) (\<lambda>domain.
        bind_op (on_db (record_spend_authorization_grant (ps_id row) u route domain
                   auth_request auth_response)) (\<lambda>grant.
        bind_op commit (\<lambda>_.
        bind_op (replenish_for_request world grant route (''0x'' @ hex (ar_payer auth_response))
                   (''loc-account:'' @ rid) (ps_id row) now settings) (\<lambda>plan. ret (f qp plan))))))
      (\<lambda>_. both (tracked B)) (committed (tracked B))" for qp row f
    apply (cases qp)
    apply simp
    apply (rule triple_bind [OF triple_of_result], simp add: both_committed)
    apply (rule triple_pre [OF triple_bind [OF recorded]])
     apply (fold safe_def)
     apply (intro safe_bind safe_commit safe_ret engagement.safe_replenish_for_request)
    apply simp
    done
  show ?thesis
    unfolding open_wholesale_session_def Let_def safe_def
    apply (rule triple_bind [OF claim_safe [OF _ assms(2), unfolded safe_def]])
     apply (erule assms)
    apply (rule triple_bind [OF issue_initial_safe])
     apply (erule issue_revision)
    subgoal for row qp
      using rest [of qp row "\<lambda>qp plan. \<lparr>cs_session_id = ps_id row, cs_request_id = rid,
             cs_work_id = ''loc-auth:'' @ rid, cs_broker_url = sr_worker_url route,
             cs_spend_authorization = ar_authorization_bytes (snd qp),
             cs_expected_value_wei = wp_shortfall_wei plan, cs_opened_at = ps_opened_at row\<rparr>"]
      by (cases qp) simp
    done
qed

lemma get_balance_inv: "tracked B db \<Longrightarrow> get_balance u db = (r, db') \<Longrightarrow> (tracked B) db'"
  by (auto simp: get_balance_ensure ensure_run ensured_def tracked_def engagement_inv_def)

lemma safe_balance: "safe (tracked B) (on_db (get_balance u))"
  by (rule safe_on_db) (rule get_balance_inv)

lemma safe_config: "safe I (on_db (resolve_billing_config u settings))"
  by (rule safe_on_db) (auto dest: config_pure)

text \<open>The registry client returns routes that were constructed, so their fields are valid; a price is not negative.\<close>

definition constructed :: "selected_route option \<Rightarrow> selected_route list \<Rightarrow> bool" where
  "constructed select select_many \<longleftrightarrow> list_all (\<lambda>r. SelectedRoute r = Inr r) select_many \<and>
     (case select of None \<Rightarrow> True | Some r \<Rightarrow> SelectedRoute r = Inr r)"

lemma worst_case_nonneg:
  assumes "constructed sel many" and "select_bound_route sel many binding = Inr (Some r)" and "0 \<le> units"
    and "bill_value_wei units (sr_price_per_work_unit_wei r) (sr_units_per_price r) = Inr m"
  shows "0 \<le> m"
proof -
  have "SelectedRoute r = Inr r"
    using assms(1,2) find_binding_Some
    by (fastforce simp: constructed_def select_bound_route_def list_all_iff split: option.splits)
  then have "0 \<le> sr_price_per_work_unit_wei r" by (auto simp: SelectedRoute_def split: if_splits)
  with assms(3) have "0 \<le> units * sr_price_per_work_unit_wei r" by simp
  with assms(4) show ?thesis by (auto simp: bill_value_wei_def pos_imp_zdiv_nonneg_iff split: if_splits)
qed

lemma safe_bind_result: "(\<And>x. r = Inr x \<Longrightarrow> safe I (f x)) \<Longrightarrow> safe I (bind_op (of_result r) f)"
  by (cases r) (auto simp: safe_def triple_def both_def committed_def bind_op_def of_result_def)

lemma safe_bind_require: "(c \<Longrightarrow> safe I m) \<Longrightarrow> safe I (bind_op (require c e) (\<lambda>_. m))"
  by (cases c) (auto simp: safe_def triple_def both_def committed_def bind_op_def require_def)

lemma open_safe:
  assumes "\<And>other. conflict = Some other \<Longrightarrow> (tracked B) other" and "constructed sel many" "0 \<le> units"
  shows "safe (tracked B) (open_session codec dt conflict world sign sel many nid u k cap off est units sdk now
    settings schema binding rid digest key gid token)"
  unfolding open_session_def
  by (intro safe_bind_result safe_intros safe_config safe_balance open_wholesale_safe)
     (auto intro: assms(1) worst_case_nonneg [OF assms(2) _ assms(3)])

section \<open>Reconciliation\<close>

lemma reconcile_grant_gkey:
  "reconcile_grant g reply account now = Inr (Some g') \<Longrightarrow> gkey g' = gkey g"
  by (auto simp: reconcile_grant_def gkey_def bind_r_Inr_iff split: if_splits sum.splits error.splits)

text \<open>One grant of the janitor's batch is left alone or changed and counted.\<close>

lemma reconcile_row_cases:
  assumes "reconcile_row query account now n row db = (r, db')"
  obtains (same) "db' = db" "\<And>m. r = Inr m \<Longrightarrow> m = n"
    | (changed) g h where "find_grant db (gr_session_id row) (gr_authorization_id row) = Some g" "active_grant g"
      "reconcile_grant g (query g) (account g) now = Inr (Some h)" "r = Inr (n + 1)"
      "db' = set_grant (gr_authorization_id row) (\<lambda>_. h) db"
      "gr_authorization_id h = gr_authorization_id row" "gr_authorization_id g = gr_authorization_id row"
proof (cases "db' = db \<and> (\<forall>m. r = Inr m \<longrightarrow> m = n)")
  case True
  then show thesis by (intro same) auto
next
  case False
  with assms obtain g h where g: "find_grant db (gr_session_id row) (gr_authorization_id row) = Some g" "active_grant g"
    "reconcile_grant g (query g) (account g) now = Inr (Some h)" "r = Inr (n + 1)"
    "db' = set_grant (gr_authorization_id g) (\<lambda>_. h) db"
    by (auto simp: reconcile_row_def op_run split: option.splits if_splits sum.splits)
  have "gr_authorization_id h = gr_authorization_id row" "gr_authorization_id g = gr_authorization_id row"
    using reconcile_grant_gkey [OF g(3)] find_grant_in [OF g(1)] by (auto simp: gkey_def)
  with changed [OF g(1-4)] g(5) show thesis by simp
qed

lemma reconcile_keeps:
  assumes step: "\<And>db e a g h. I db \<Longrightarrow> find_grant db e a = Some g \<Longrightarrow> active_grant g \<Longrightarrow>
    reconcile_grant g (query g) (account g) now = Inr (Some h) \<Longrightarrow> I (set_grant a (\<lambda>_. h) db)"
  shows "keeps I (reconcile_spend_authorization_states query account now limit)"
proof -
  have "keeps I (reconcile_row query account now n row)" for n row
  proof (rule keepsI)
    fix db r db' assume "I db" and "reconcile_row query account now n row db = (r, db')"
    from this(2,1) show "I db'" by (cases rule: reconcile_row_cases) (auto intro: step)
  qed
  then show ?thesis
    unfolding reconcile_spend_authorization_states_def by (intro keeps_bind keeps_gets keeps_fold)
qed

lemma reconcile_states_keeps: "keeps (tracked B) (reconcile_spend_authorization_states query account now limit)"
proof (rule reconcile_keeps)
  fix db :: "('z sessions_db_scheme)" and e a g h
  assume inv: "tracked B db" and g: "find_grant db e a = Some g"
    and rec: "reconcile_grant g (query g) (account g) now = Inr (Some h)"
  have key: "gkey h = gkey g" using reconcile_grant_gkey [OF rec] .
  then have "a = gr_authorization_id h" using find_grant_in [OF g] by (simp add: gkey_def)
  moreover have "gkey h \<in> gkey ` set (grants db)" using find_grant_in [OF g] key by auto
  ultimately show "tracked B (set_grant a (\<lambda>_. h) db)" using set_grant_inv(1) [OF inv] by simp
qed

text \<open>A change of a session row that the invariant does not read.\<close>

definition same_account :: "payment_session \<Rightarrow> payment_session \<Rightarrow> bool" where
  "same_account s t \<longleftrightarrow> ps_id t = ps_id s \<and> ps_user_id t = ps_user_id s \<and>
     ps_accounting_mode t = ps_accounting_mode s \<and> ps_customer_max_debit_wei t = ps_customer_max_debit_wei s \<and>
     ps_funded_value_wei t = ps_funded_value_wei s \<and> ps_customer_pricing t = ps_customer_pricing s \<and>
     ps_state t = ps_state s \<and> ps_billed_value_wei t = ps_billed_value_wei s \<and>
     ps_authorization_id t = ps_authorization_id s \<and> ps_refill_seq t = ps_refill_seq s \<and>
     ps_max_total_units t = ps_max_total_units s \<and> ps_outcome t = ps_outcome s \<and>
     ps_actual_units t = ps_actual_units s \<and> ps_closed_at t = ps_closed_at s"

lemma hold_ok_same: "same_account s t \<Longrightarrow> hold_ok L K t = hold_ok L K s"
  by (simp only: same_account_def hold_ok_def pass_through_def live_def open_ok_def closed_ok_def chain_ok_def)

lemma set_session_same_inv:
  assumes "tracked B db" and "\<And>s. same_account s (f s)"
  shows "tracked B (set_session e f db)"
proof (cases "get_session db e")
  case None
  then have "sessions (set_session e f db) = sessions db"
    by (auto simp: set_session_def get_session_def find_None_iff intro!: update_where_id)
  with assms(1) tracked_cong [of "set_session e f db" db] show ?thesis by (simp add: set_session_def)
next
  case (Some s)
  have same: "same_account s (f s)" by (rule assms(2))
  have inv: "engagement_inv db" by (rule tracked_inv [OF assms(1)])
  show ?thesis
    by (rule inv_update [OF assms(1) Some, where new = "[]" and N = "{}" and f = f])
       (use same inv inv_hold [OF inv Some] hold_ok_same [OF same]
         in \<open>auto simp: set_session_def same_account_def engagement_inv_def session_le_def final_account_def live_def\<close>)
qed

lemma mark_polled_keeps: "keeps (tracked B) (mark_polled e now)"
  by (rule keepsI)
     (auto simp: mark_polled_def op_run same_account_def intro!: set_session_same_inv split: option.splits)

text \<open>The errors the janitor swallows are raised before a close has written anything.\<close>

definition swallowed :: "error \<Rightarrow> bool" where
  "swallowed e \<longleftrightarrow> (\<exists>st. e = SessionNotOpen st) \<or> (\<exists>i a. e = SuccessorAuthorizationUnresolved i a)"

lemma release_not_swallowed: "release_customer_engagement u e a db = (Inl x, db') \<Longrightarrow> \<not> swallowed x"
  unfolding release_keyed
  by (erule keyed_step_cases) (auto simp: swallowed_def ret_def)

lemma finalize_not_swallowed:
  "finalize_close dt row u v settlement billed refund final now db = (Inl x, db') \<Longrightarrow> \<not> swallowed x"
  unfolding finalize_close_def
  by (auto simp: bind_Inl_iff transition_state_def mark_spend_authorization_settled_def record_settlement_def
      verification_failed_def Let_def op_run swallowed_def
      dest: release_not_swallowed split: option.splits if_splits)

lemma close_swallowed_pure:
  assumes run: "close_session v dt e u units outcome settlement_opt now db = (Inl x, db')" and sw: "swallowed x"
  shows "db' = db"
proof -
  have fin: "finalize_close dt row u v' st b rf fo now d \<noteq> (Inl x, d')" for row v' st b rf fo d d'
    using finalize_not_swallowed sw by blast
  have nf: "x \<noteq> verification_failed m" "x \<noteq> SessionNotFound" "x \<noteq> AssertionError" for m
    using sw by (auto simp: swallowed_def verification_failed_def)
  show ?thesis
    using run unfolding close_session_def
    by (auto simp: bind_Inl_iff require_iff of_result_iff gets_iff raise_iff fin nf nf [symmetric]
        simp del: bind_of_result dest: verify_close_pure successors_pure replay_pure split: option.splits if_splits sum.splits)
qed

lemma apply_polled_inv:
  assumes inv: "tracked B db" and run: "apply_polled_settlement v dt now r settlement db = (Inr y, db')"
  shows "tracked B db'"
proof -
  have block: "same_account s (block_settlement dt reason settlement now s)" for s reason
    by (simp add: same_account_def block_settlement_def)
  obtain q d1 where q: "verify_close_settlement v dt r (Some settlement) False db = (q, d1)" by force
  then have d1: "d1 = db" by (rule verify_close_pure)
  show ?thesis
  proof (cases q)
    case (Inl e)
    with run q d1 inv show ?thesis
      by (auto simp: apply_polled_settlement_def intro: set_session_same_inv block split: error.splits if_splits)
  next
    case (Inr verified)
    obtain w d2 where w: "close_session v dt (ps_id r) (ps_user_id r) (vs_debited_units verified) None
        (Some settlement) now db = (w, d2)" by force
    show ?thesis
    proof (cases w)
      case (Inl e)
      with run q d1 Inr w have "db' = db \<or> (swallowed e \<and> db' = d2)"
        by (auto simp: apply_polled_settlement_def swallowed_def split: error.splits if_splits)
      with close_swallowed_pure [OF w [unfolded Inl]] inv show ?thesis by auto
    next
      case (Inr z)
      with run q d1 \<open>q = Inr verified\<close> w have "db' = db \<or> db' = d2"
        by (auto simp: apply_polled_settlement_def split: if_splits)
      with inv close_session_inv [OF inv w [unfolded Inr]] show ?thesis by auto
    qed
  qed
qed

lemma reconcile_open_session_inv:
  assumes inv: "tracked B db" and run: "reconcile_open_session v dt fetch now row db = (Inr x, db')"
  shows "tracked B db'"
proof (cases "db' = db")
  case False
  with run obtain answer where "fetch (ps_id row) = Inr answer"
    by (auto simp: reconcile_open_session_def ret_def raise_def split: if_splits sum.splits error.splits)
  with run False obtain d where d: "mark_polled (ps_id row) now db = (Inr (), d)"
    and rest: "db' = d \<or> (\<exists>r settlement. apply_polled_settlement v dt now r settlement d = (Inr x, db'))"
    by (auto simp: reconcile_open_session_def bind_Inr_iff ret_iff gets_iff Let_def split: if_splits option.splits)
  from keepsD [OF mark_polled_keeps inv d] rest show ?thesis by (auto dest: apply_polled_inv)
qed (use inv in simp)

lemma fold_op_inv:
  assumes "\<And>acc x s y s'. I s \<Longrightarrow> f acc x s = (Inr y, s') \<Longrightarrow> I s'"
  shows "fold_op f acc xs s = (Inr y, s') \<Longrightarrow> I s \<Longrightarrow> I s'"
  by (induction xs arbitrary: acc s) (auto simp: ret_iff bind_Inr_iff dest: assms)

lemma reconcile_open_sessions_inv:
  assumes inv: "tracked B db" and run: "reconcile_open_sessions v dt fetch now interval limit db = (Inr n, db')"
  shows "tracked B db'"
proof -
  let ?f = "\<lambda>finalized row. bind_op (reconcile_open_session v dt fetch now row) (\<lambda>d.
       ret (if d then finalized + 1 else finalized))"
  from run obtain rows where "fold_op ?f 0 rows db = (Inr n, db')"
    by (auto simp: reconcile_open_sessions_def)
  then show ?thesis
    by (rule fold_op_inv [rotated]) (use inv in \<open>auto simp: bind_Inr_iff ret_iff dest: reconcile_open_session_inv\<close>)
qed

end
