(* ===== verification/Jobs_Laws.thy ===== *)
theory Jobs_Laws
  imports Jobs Sessions_Laws
begin

text \<open>
  The job operations keep the engagement invariant: opening, settling, the release on verified non-admission and
  the janitor, which swallows some exceptions of a settlement and so must not see a half-written one.
\<close>

section \<open>Opening\<close>

text \<open>The funding of a job is the funding of a session request, with the job's own read of the account after it.\<close>

lemma fund_job_account_replenish:
  "fund_job_account world route payer rid job_id m now settings =
     bind_op (replenish_wholesale_account (qw_replenish world) route payer (Some (''loc-account:'' @ rid))
       (Some job_id) now settings (Some m)) (\<lambda>plan.
     bind_op (of_result (verify_admission_funding_readiness (qw_account_ready world) route payer
       (ss_chain_id settings) (ss_wholesale_account_id settings) m)) (\<lambda>_.
     ret plan))"
  by (simp add: fund_job_account_def replenish_wholesale_account_def bind_assoc Let_def del: bind_of_result)

context customer_invariant
begin

lemma safe_fund_job: "safe I (fund_job_account world route payer rid job_id m now settings)"
  unfolding fund_job_account_replenish by (intro safe_intros safe_replenish)

end

lemma open_wholesale_job_safe:
  assumes "\<And>other. conflict = Some other \<Longrightarrow> tracked B other" and "0 \<le> m"
  shows "safe (tracked B) (open_wholesale_job conflict world sign nid u k route est units m rid digest key now
    settings sdk period wcap transport)"
proof -
  have recorded: "triple (\<lambda>s. both (tracked B) s \<and> aq_revision q = 0)
      (on_db (record_spend_authorization_grant e u route domain q p)) (\<lambda>_. both (tracked B)) (committed (tracked B))"
    for e domain q p
    by (rule triple_assume, fold safe_def, rule safe_on_db) (rule record_initial_inv)
  have rest: "triple (\<lambda>s. both (tracked B) s \<and> aq_revision (fst qp) = 0)
      (case qp of (auth_request, auth_response) \<Rightarrow>
        bind_op (of_result (settlement_domain_id (sr_settlement_domain_id route))) (\<lambda>domain.
        bind_op (on_db (record_spend_authorization_grant (ps_id row) u route domain
                   auth_request auth_response)) (\<lambda>_. k' auth_request auth_response)))
      (\<lambda>_. both (tracked B)) (committed (tracked B))"
    if "\<And>q p. safe (tracked B) (k' q p)" for qp row and
      k' :: "create_spend_authorization_request \<Rightarrow> create_spend_authorization_response \<Rightarrow>
        (('z sessions_db_scheme) txn, create_job_response) op"
    apply (cases qp)
    apply simp
    apply (rule triple_bind [OF triple_of_result], simp add: both_committed)
    apply (rule triple_pre [OF triple_bind [OF recorded]])
     apply (fold safe_def)
     apply (rule that)
    apply simp
    done
  show ?thesis
    unfolding open_wholesale_job_def Let_def safe_def
    apply (rule triple_bind [OF claim_safe [OF _ assms(2), unfolded safe_def]])
     apply (erule assms)
    apply (rule triple_bind [OF issue_initial_safe])
     apply (erule issue_revision)
    apply (rule rest)
    apply (intro safe_intros engagement.safe_fund_job)
    done
qed

lemma select_job_route_bound:
  "select_job_route sel many cap off transport binding = Inr r \<Longrightarrow> select_bound_route sel many binding = Inr (Some r)"
  by (auto simp: select_job_route_def bind_r_Inr_iff split: option.splits if_splits)

lemma open_job_safe:
  assumes "\<And>other. conflict = Some other \<Longrightarrow> tracked B other" and "constructed sel many" "0 \<le> est"
  shows "safe (tracked B) (open_job conflict world sign sel many nid frid u k cap off est units sdk now settings
    transport binding rid digest key)"
proof -
  let ?max = "case units of None \<Rightarrow> est | Some m \<Rightarrow> m"
  have worst: "0 \<le> m" if "\<not> ?max < est" "select_job_route sel many cap off transport binding = Inr r"
    "bill_value_wei ?max (sr_price_per_work_unit_wei r) (sr_units_per_price r) = Inr m" for r m
    using worst_case_nonneg [OF assms(2) select_job_route_bound [OF that(2)] _ that(3)] that(1) assms(3) by linarith
  show ?thesis
    unfolding open_job_def Let_def
    by (intro safe_bind_require safe_bind_result safe_intros safe_config safe_balance open_wholesale_job_safe)
       (auto intro: assms(1) worst)
qed

section \<open>Settling\<close>

lemma fields_match_id: "fields_match_policy q = Inr q' \<Longrightarrow> q' = q"
  by (auto simp: fields_match_policy_def Let_def split: if_splits)

lemma job_accounting_run:
  assumes "job_accounting row v = Inr (billed, refund)"
  obtains pricing cap where "ps_customer_pricing row = Some pricing" "ps_customer_max_debit_wei row = Some cap"
    "calculate_customer_charge pricing (vj_actual_units v) (vj_billed_value_wei v) = Inr billed"
    "billed \<le> cap" "refund = cap - billed" "0 \<le> billed"
  using assms
  by (auto simp: job_accounting_def bind_r_Inr_iff split: option.splits if_splits
      intro!: that dest: charge_nonneg fields_match_id)

definition settled_job_row :: "string \<Rightarrow> string \<Rightarrow> int \<Rightarrow> wei \<Rightarrow> string \<Rightarrow> timestamp \<Rightarrow> payment_session \<Rightarrow> payment_session" where
  "settled_job_row bjid wu units billed final now row = row\<lparr>ps_state := ''closed'', ps_closed_at := Some now,
     ps_actual_units := Some units, ps_billed_value_wei := Some billed, ps_outcome := Some final,
     ps_breakdown := Some (job_breakdown bjid wu (ps_breakdown row))\<rparr>"

definition job_event :: "uuid \<Rightarrow> timestamp \<Rightarrow> int \<Rightarrow> wei \<Rightarrow> string \<Rightarrow> string \<Rightarrow> string \<Rightarrow> settlement_envelope \<Rightarrow> payment_settlement" where
  "job_event e now units billed final bjid wu settlement =
     \<lparr>pe_session_id = e, pe_recorded_at = now, pe_event_type = ''close'', pe_actual_units = Some units,
      pe_billed_value_wei = Some billed, pe_outcome = Some final,
      pe_raw_record = Some [(''broker_job_id'', JStr bjid), (''work_unit'', JStr wu),
        (''settlement'', JObj (dump_envelope settlement))]\<rparr>"

definition closing :: "timestamp \<Rightarrow> payment_session \<Rightarrow> payment_session" where
  "closing now row = row\<lparr>ps_state := ''closed'', ps_closed_at := Some now\<rparr>"

text \<open>The transition of a live row never fails; what follows it decides.\<close>

lemma transition_live:
  assumes "get_session db e = Some row" and "live row"
  shows "transition_state e (ps_state row) ''closed'' now db = (Inr (closing now row), set_session e (\<lambda>_. closing now row) db)"
  using assms
  by (auto simp: transition_state_def SESSION_STATES_def ALLOWED_TRANSITIONS_def live_def closing_def Let_def op_run)

definition job_fields :: "int \<Rightarrow> wei \<Rightarrow> string \<Rightarrow> payment_session \<Rightarrow> payment_session" where
  "job_fields units billed final s =
     s\<lparr>ps_actual_units := Some units, ps_billed_value_wei := Some billed, ps_outcome := Some final\<rparr>"

lemma finalize_job_eq:
  assumes row: "get_session db (ps_id row) = Some row" and live: "live row"
  shows "finalize_job row u units bjid wu settlement final billed refund now db =
    bind_op (refund_step u (ps_id row) refund) (\<lambda>_.
    bind_op (modify (set_session (ps_id row) (job_fields units billed final))) (\<lambda>_.
    case ps_authorization_id row of
      None \<Rightarrow> raise AssertionError
    | Some a \<Rightarrow>
        bind_op (mark_spend_authorization_settled (ps_id row) a now) (\<lambda>_.
        modify (\<lambda>d. (set_session (ps_id row) (\<lambda>s. s\<lparr>ps_breakdown := Some (job_breakdown bjid wu (ps_breakdown s))\<rparr>) d)
          \<lparr>settlements := settlements d @ [job_event (ps_id row) now units billed final bjid wu settlement]\<rparr>))))
      (set_session (ps_id row) (\<lambda>_. closing now row) db)"
  unfolding finalize_job_def bind_eq_Inr [of "transition_state (ps_id row) (ps_state row) ''closed'' now",
      OF transition_live [OF row live]] refund_step_def job_fields_def
  by (simp add: record_settlement_def job_event_def Let_def bind_assoc bind_op_def set_session_def op_run
      split: option.split prod.split sum.split)

lemma find_grant_set_session [simp]: "find_grant (set_session e f db) e' a = find_grant db e' a"
  by (simp add: find_grant_def set_session_def)

lemma finalize_job_run:
  assumes row: "get_session db (ps_id row) = Some row" and live: "live row"
    and run: "finalize_job row u units bjid wu settlement final billed refund now db = (Inr (), db')"
  obtains a g db1 where "ps_authorization_id row = Some a"
    "refund_step u (ps_id row) refund (set_session (ps_id row) (\<lambda>_. closing now row) db) = (Inr (), db1)"
    "find_grant db1 (ps_id row) a = Some g" "gr_state g \<in> {''issued'', ''admitted'', ''settled''}"
    "sessions db' = update_where (\<lambda>x. ps_id x = ps_id row)
       (\<lambda>s. (job_fields units billed final s)\<lparr>ps_breakdown := Some (job_breakdown bjid wu (ps_breakdown s))\<rparr>) (sessions db1)"
    "grants db' = update_where (\<lambda>x. gr_authorization_id x = a)
       (\<lambda>_. g\<lparr>gr_state := ''settled'', gr_retired_at := retired_or now g\<rparr>) (grants db1)"
    "settlements db' = settlements db1 @ [job_event (ps_id row) now units billed final bjid wu settlement]"
    "ledger db' = ledger db1" "balances db' = balances db1"
proof -
  from run [unfolded finalize_job_eq [OF row live]] obtain a db1 g' d3 where
    a: "ps_authorization_id row = Some a" and
    r: "refund_step u (ps_id row) refund (set_session (ps_id row) (\<lambda>_. closing now row) db) = (Inr (), db1)" and
    m: "mark_spend_authorization_settled (ps_id row) a now (set_session (ps_id row) (job_fields units billed final) db1) = (Inr g', d3)" and
    db': "db' = (set_session (ps_id row) (\<lambda>s. s\<lparr>ps_breakdown := Some (job_breakdown bjid wu (ps_breakdown s))\<rparr>) d3)
          \<lparr>settlements := settlements d3 @ [job_event (ps_id row) now units billed final bjid wu settlement]\<rparr>"
    by (auto simp: bind_Inr_iff op_run split: option.splits)
  from m obtain g where g: "find_grant db1 (ps_id row) a = Some g" "gr_state g \<in> {''issued'', ''admitted'', ''settled''}"
    "g' = g\<lparr>gr_state := ''settled'', gr_retired_at := retired_or now g\<rparr>"
    "d3 = set_grant a (\<lambda>_. g') (set_session (ps_id row) (job_fields units billed final) db1)"
    by (rule mark_settled_run) simp
  show thesis
    by (rule that [OF a r g(1,2)])
       (simp_all add: db' g(3,4) set_session_def set_grant_def update_where_twice job_fields_def)
qed

lemma finalize_job_inv:
  assumes tr: "tracked B db" and row: "get_session db (ps_id row) = Some row" and live: "live row"
    and u: "ps_user_id row = u" and cap: "ps_customer_max_debit_wei row = Some cap" "billed \<le> cap" "refund = cap - billed" "0 \<le> billed"
    and run: "finalize_job row u units bjid wu settlement final billed refund now db = (Inr (), db')"
  shows "tracked B db'" "sessions db' = update_where (\<lambda>x. ps_id x = ps_id row)
    (\<lambda>_. settled_job_row bjid wu units billed final now row) (sessions db)"
proof -
  let ?e = "ps_id row"
  from tr have inv: "engagement_inv db" by (rule tracked_inv)
  from run obtain a g db1 where f: "refund_step u ?e refund (set_session ?e (\<lambda>_. closing now row) db) = (Inr (), db1)"
    "find_grant db1 ?e a = Some g"
    "sessions db' = update_where (\<lambda>x. ps_id x = ?e)
       (\<lambda>s. (job_fields units billed final s)\<lparr>ps_breakdown := Some (job_breakdown bjid wu (ps_breakdown s))\<rparr>) (sessions db1)"
    "grants db' = update_where (\<lambda>x. gr_authorization_id x = a)
       (\<lambda>_. g\<lparr>gr_state := ''settled'', gr_retired_at := retired_or now g\<rparr>) (grants db1)"
    "settlements db' = settlements db1 @ [job_event ?e now units billed final bjid wu settlement]" "ledger db' = ledger db1"
    by (rule finalize_job_run [OF row live])
  have none: "\<not> has_entry (ledger (set_session ?e (\<lambda>_. closing now row) db)) ?e ''engagement_release''"
    using inv_hold [OF inv row] live cap by (auto simp: hold_ok_def open_ok_def set_session_def)
  obtain new where new: "ledger db1 = ledger db @ new" "list_all (about ?e) new" "list_all (\<lambda>r. cl_user_id r = u) new"
    "etotal new ?e = max refund 0" "grants db1 = grants db"
    "sessions db1 = update_where (\<lambda>x. ps_id x = ?e) (\<lambda>_. closing now row) (sessions db)"
    "settlements db1 = settlements db"
    using refund_run [OF f(1) none] by (auto simp: set_session_def)
  show S: "sessions db' = update_where (\<lambda>x. ps_id x = ?e) (\<lambda>_. settled_job_row bjid wu units billed final now row) (sessions db)"
    by (simp add: f(3) new(6) update_where_twice settled_job_row_def job_fields_def closing_def)
  have g: "g \<in> set (grants db)" "gr_authorization_id g = a"
    using find_grant_in [OF f(2)] by (simp_all add: new(5))
  have keys: "map gkey (grants db') = map gkey (grants db)"
    using gkeys_set_grant [of "grants db" "g\<lparr>gr_state := ''settled'', gr_retired_at := retired_or now g\<rparr>"] g inv
    by (auto simp: f(4) new(5) gkey_def engagement_inv_def rev_image_eqI)
  have L: "ledger db' = ledger db @ new" using f(6) new(1) by simp
  have P: "settlements db' = settlements db @ [job_event ?e now units billed final bjid wu settlement]" by (simp add: f(5) new(7))
  show "tracked B db'"
    by (rule ended_inv [OF tr row live cap(1) cap(4) _ S _ _ _ _ _ _ _ _ _ _ L new(2) _ _ keys P])
       (use cap u new(3,4) in \<open>auto simp: settled_job_row_def job_event_def\<close>)
qed

text \<open>The exceptions the janitor swallows.\<close>

definition recoverable :: "error \<Rightarrow> bool" where
  "recoverable e \<longleftrightarrow> (\<exists>m. e = SettlementVerificationFailed m) \<or> (\<exists>a b. e = WorkUnitMismatch a b) \<or>
     (\<exists>s. e = JobAlreadySettled s) \<or> (\<exists>m. e = ValueError m)"

lemma release_first_error:
  assumes "release_customer_engagement u e a db = (Inl x, db')" and "\<not> has_entry (ledger db) e ''engagement_release''"
  shows "\<not> recoverable x"
  using assms(1) [unfolded release_keyed] windows_only_ret
  by (cases rule: keyed_step_cases) (use assms(2) in \<open>auto simp: recoverable_def ret_def engagement_entry_None [symmetric]\<close>)

lemma finalize_job_error:
  assumes row: "get_session db (ps_id row) = Some row" and live: "live row"
    and none: "\<not> has_entry (ledger db) (ps_id row) ''engagement_release''"
    and run: "finalize_job row u units bjid wu settlement final billed refund now db = (Inl x, db')"
  shows "\<not> recoverable x"
proof -
  have none': "\<not> has_entry (ledger (set_session (ps_id row) (\<lambda>_. closing now row) db)) (ps_id row) ''engagement_release''"
    using none by (simp add: set_session_def)
  from run [unfolded finalize_job_eq [OF row live]] show ?thesis
    by (auto simp: bind_Inl_iff refund_step_def mark_spend_authorization_settled_def recoverable_def op_run Let_def
        split: option.splits if_splits dest!: release_first_error [OF _ none', unfolded recoverable_def])
qed

text \<open>The ways a settlement ends.\<close>

lemma settle_job_cases:
  assumes "settle_job v dt job_id u units bjid wu outcome settlement now settings db = (r, db')"
  obtains (raised) e where "r = Inl e" "db' = db"
    | (failed) row billed refund final e where "get_session db job_id = Some row" "ps_user_id row = u" "ps_state row \<noteq> ''closed''"
      "r = Inl e" "finalize_job row u units bjid wu settlement final billed refund now db = (Inl e, db')"
    | (settled) row grant a verified billed refund where "get_session db job_id = Some row" "ps_user_id row = u"
      "ps_state row \<noteq> ''closed''" "ps_accounting_mode row = ''wholesale_account''"
      "ps_authorization_id row = Some a" "find_grant db job_id a = Some grant"
      "verify_job v dt row grant bjid units settlement = Inr verified"
      "outcome = None \<or> outcome = Some (vj_outcome verified)"
      "job_accounting row verified = Inr (billed, refund)"
      "finalize_job row u units bjid wu settlement (vj_outcome verified) billed refund now db = (Inr (), db')"
      "\<And>x. r = Inr x \<Longrightarrow> sj_job_id x = job_id \<and> sj_work_id x = ps_work_id row \<and> sj_actual_units x = units \<and>
         sj_billed_value_wei x = billed \<and> sj_refund_wei x = max refund 0 \<and> sj_outcome x = vj_outcome verified \<and>
         sj_closed_at x = now"
proof (cases "\<exists>e. r = Inl e \<and> db' = db")
  case True
  then show thesis using raised by blast
next
  case False
  from assms False obtain row where row: "get_session db job_id = Some row" "ps_user_id row = u" "ps_state row \<noteq> ''closed''"
    "ps_accounting_mode row = ''wholesale_account''"
    by (auto simp: settle_job_def op_run split: option.splits if_splits)
  with assms False obtain a grant where g: "ps_authorization_id row = Some a" "find_grant db job_id a = Some grant"
    by (auto simp: settle_job_def op_run split: option.splits)
  note known = settle_job_def row g Let_def
  from assms False have wu: "wu = (case ps_route_snapshot row of None \<Rightarrow> [] | Some s \<Rightarrow> rs_work_unit s)"
    by (auto simp: known split: if_splits)
  from assms False wu obtain verified where v: "verify_job v dt row grant bjid units settlement = Inr verified"
    by (cases "verify_job v dt row grant bjid units settlement") (auto simp: known catch_op_def op_run bind_op_def)
  then have catch: "catch_op (of_result (verify_job v dt row grant bjid units settlement)) (\<lambda>e. raise (settle_reason e)) = ret verified"
    by (simp add: fun_eq_iff catch_op_def op_run)
  from assms False wu have o: "outcome = None \<or> outcome = Some (vj_outcome verified)"
    by (auto simp: known catch split: if_splits)
  from assms False wu o obtain billed refund where acc: "job_accounting row verified = Inr (billed, refund)"
    by (cases "job_accounting row verified") (auto simp: known catch)
  obtain q d where f: "finalize_job row u units bjid wu settlement (vj_outcome verified) billed refund now db = (q, d)" by force
  show thesis
  proof (cases q)
    case (Inl e)
    with f have "(r, db') = (Inl e, d)"
      using assms wu o acc by (auto simp: known catch bind_eq_Inl [of "finalize_job row u units bjid _ settlement _ billed refund now"])
    with failed [OF row(1,2,3)] f Inl show thesis by simp
  next
    case (Inr x)
    then have fin: "finalize_job row u units bjid wu settlement (vj_outcome verified) billed refund now db = (Inr (), d)" using f by simp
    obtain cfg d1 where cfg: "resolve_billing_config u settings d = (Inr cfg, d1)"
      by (auto simp: resolve_billing_config_def get_billing_config_def op_run)
    with config_pure have d1: "d1 = d" by blast
    from assms wu o acc have "bind_op (compute_cap_status (row\<lparr>ps_billed_value_wei := Some billed\<rparr>) u 0 False cfg now)
        (\<lambda>cap_status. ret \<lparr>sj_job_id = job_id, sj_work_id = ps_work_id row, sj_actual_units = units,
           sj_billed_value_wei = billed, sj_refund_wei = max refund 0, sj_outcome = vj_outcome verified,
           sj_closed_at = now, sj_cap_status = cap_status\<rparr>) d = (r, db')"
      using fin cfg d1
      by (simp add: known catch bind_eq_Inr [of "finalize_job row u units bjid _ settlement _ billed refund now"]
          bind_eq_Inr [of "resolve_billing_config u settings"])
    then have "db' = d" and r: "\<And>y. r = Inr y \<Longrightarrow> sj_job_id y = job_id \<and> sj_work_id y = ps_work_id row \<and> sj_actual_units y = units \<and>
         sj_billed_value_wei y = billed \<and> sj_refund_wei y = max refund 0 \<and> sj_outcome y = vj_outcome verified \<and> sj_closed_at y = now"
      by (auto simp: bind_op_def op_run dest!: compute_cap_status_pure split: prod.splits sum.splits)
    with settled [OF row g v o acc] fin show thesis by simp
  qed
qed

lemma settle_job_inv:
  assumes tr: "tracked B db" and run: "settle_job v dt job_id u units bjid wu outcome settlement now settings db = (r, db')"
    and "case r of Inl e \<Rightarrow> recoverable e | Inr x \<Rightarrow> True"
  shows "tracked B db'"
  using run
proof (cases rule: settle_job_cases)
  case (raised e)
  with tr show ?thesis by simp
next
  case (failed row billed refund final e)
  have e: "ps_id row = job_id" using get_session_in [OF failed(1)] by simp
  have inv: "hold_ok (ledger db) (gkey ` set (grants db)) row" using inv_hold [OF tracked_inv [OF tr] failed(1)] .
  with failed(3) have live: "live row" by (auto simp: hold_ok_def closed_ok_def split: if_splits)
  with inv have "\<not> has_entry (ledger db) (ps_id row) ''engagement_release''" by (auto simp: hold_ok_def open_ok_def)
  from finalize_job_error [OF _ live this] failed e assms(3) show ?thesis by auto
next
  case (settled row grant a verified billed refund)
  have e: "ps_id row = job_id" using get_session_in [OF settled(1)] by simp
  have "hold_ok (ledger db) (gkey ` set (grants db)) row" using inv_hold [OF tracked_inv [OF tr] settled(1)] .
  with settled(3) have live: "live row" by (auto simp: hold_ok_def closed_ok_def split: if_splits)
  from settled(9) obtain cap where "ps_customer_max_debit_wei row = Some cap" "billed \<le> cap" "refund = cap - billed" "0 \<le> billed"
    by (rule job_accounting_run)
  from finalize_job_inv(1) [OF tr _ live settled(2) this settled(10)] settled(1) e show ?thesis by simp
qed

section \<open>Non-admission\<close>

lemma tracked_event:
  "pe_event_type p \<noteq> ''close'' \<Longrightarrow> tracked B (db\<lparr>settlements := settlements db @ [p]\<rparr>) = tracked B db"
  by (auto simp: tracked_def engagement_inv_def events_ok_def)

lemma record_settlement_keeps:
  "kind \<noteq> ''close'' \<Longrightarrow> keeps (tracked B) (record_settlement e kind now units billed outcome raw)"
  unfolding record_settlement_def Let_def
  by (intro keeps_bind keeps_modify keeps_ret) (simp add: tracked_event)

lemma audit_event_keeps: "keeps (tracked B) (record_non_admission_audit e now d audit)"
  unfolding record_non_admission_audit_def
  by (intro keeps_bind keeps_gets keeps_if keeps_ret record_settlement_keeps) simp_all

lemma non_admission_grantD:
  assumes "non_admission_grant row db = Inr g"
  obtains a where "ps_authorization_id row = Some a" "find_grant db (ps_id row) a = Some g"
    "gr_state g \<in> {''issued'', ''outcome_unknown'', ''expired_unused''}" "gr_revision g = 0"
    "gr_authorization_id g = a" "a = ps_work_id row" "Some (gr_request_id g) = ps_broker_request_id row"
    "gr_protocol g = PAID_JOB_PROTOCOL" "ps_accounting_mode row = ''wholesale_account''"
proof -
  from assms obtain a where a: "ps_authorization_id row = Some a" "find_grant db (ps_id row) a = Some g"
    by (auto simp: non_admission_grant_def bind_eq_Some_conv split: option.splits if_splits)
  moreover have "gr_authorization_id g = a" using find_grant_in [OF a(2)] by simp
  ultimately show thesis
    using that [of a] assms by (auto simp: non_admission_grant_def split: if_splits)
qed

definition not_admitted_row :: "timestamp \<Rightarrow> payment_session \<Rightarrow> payment_session" where
  "not_admitted_row now row = (closing now row)\<lparr>ps_actual_units := Some 0, ps_billed_value_wei := Some 0,
     ps_outcome := Some ''NOT_ADMITTED''\<rparr>"

definition not_admitted_event :: "uuid \<Rightarrow> timestamp \<Rightarrow> dict \<Rightarrow> payment_settlement" where
  "not_admitted_event e now raw =
     \<lparr>pe_session_id = e, pe_recorded_at = now, pe_event_type = ''close'', pe_actual_units = Some 0,
      pe_billed_value_wei = Some 0, pe_outcome = Some ''NOT_ADMITTED'', pe_raw_record = Some raw\<rparr>"

definition retire_unused :: "timestamp \<Rightarrow> spend_authorization_grant \<Rightarrow> spend_authorization_grant" where
  "retire_unused now g = g\<lparr>gr_state := ''expired_unused'', gr_retired_at := retired_or now g\<rparr>"

lemma release_not_admitted_run:
  assumes row: "get_session db (ps_id row) = Some row" and st: "ps_state row = ''open''"
    and run: "release_not_admitted row g amount now raw db = (Inr (), db')"
  obtains b db1 where
    "release_customer_engagement (ps_user_id row) (ps_id row) amount (set_session (ps_id row) (\<lambda>_. closing now row) db) = (Inr b, db1)"
    "db' = (set_grant (gr_authorization_id g) (retire_unused now)
       (set_session (ps_id row) (\<lambda>s. s\<lparr>ps_actual_units := Some 0, ps_billed_value_wei := Some 0,
         ps_outcome := Some ''NOT_ADMITTED''\<rparr>) db1))
       \<lparr>settlements := settlements db1 @ [not_admitted_event (ps_id row) now raw]\<rparr>"
proof -
  have tr: "transition_state (ps_id row) ''open'' ''closed'' now db =
      (Inr (closing now row), set_session (ps_id row) (\<lambda>_. closing now row) db)"
    using transition_live [OF row] st by (simp add: live_def)
  from run [unfolded release_not_admitted_def bind_eq_Inr [of "transition_state (ps_id row) ''open'' ''closed'' now", OF tr]]
  show thesis
    by (auto simp: bind_Inr_iff [of "release_customer_engagement _ _ _"] record_settlement_def Let_def bind_assoc op_run
        set_session_def set_grant_def retire_unused_def [abs_def] not_admitted_event_def intro!: that)
qed

lemma release_not_admitted_inv:
  assumes tr: "tracked B db" and row: "get_session db (ps_id row) = Some row" and st: "ps_state row = ''open''"
    and cap: "ps_customer_max_debit_wei row = Some amount"
    and run: "release_not_admitted row g amount now raw db = (Inr (), db')"
  shows "tracked B db'" "sessions db' = update_where (\<lambda>x. ps_id x = ps_id row) (\<lambda>_. not_admitted_row now row) (sessions db)"
proof -
  let ?e = "ps_id row" and ?d = "set_session (ps_id row) (\<lambda>_. closing now row) db"
  from tr have inv: "engagement_inv db" by (rule tracked_inv)
  from row st run obtain b db1 where rel: "release_customer_engagement (ps_user_id row) ?e amount ?d = (Inr b, db1)" and
    db': "db' = (set_grant (gr_authorization_id g) (retire_unused now)
       (set_session ?e (\<lambda>s. s\<lparr>ps_actual_units := Some 0, ps_billed_value_wei := Some 0,
         ps_outcome := Some ''NOT_ADMITTED''\<rparr>) db1))
       \<lparr>settlements := settlements db1 @ [not_admitted_event ?e now raw]\<rparr>"
    by (rule release_not_admitted_run)
  have live: "live row" using st by (simp add: live_def)
  have none: "\<not> has_entry (ledger ?d) ?e ''engagement_release''"
    using inv_hold [OF inv row] live by (auto simp: hold_ok_def open_ok_def set_session_def)
  obtain r where r: "ledger db1 = ledger db @ [r]" "about ?e r" "cl_user_id r = ps_user_id row" "cl_delta_wei r = amount"
    "sessions db1 = update_where (\<lambda>x. ps_id x = ?e) (\<lambda>_. closing now row) (sessions db)" "grants db1 = grants db"
    "settlements db1 = settlements db"
    using keyed_posts [OF rel [unfolded release_keyed] windows_only_ret none] by (auto simp: set_session_def)
  show S: "sessions db' = update_where (\<lambda>x. ps_id x = ?e) (\<lambda>_. not_admitted_row now row) (sessions db)"
    by (simp add: db' set_grant_def set_session_def r(5) update_where_twice not_admitted_row_def closing_def)
  have keys: "map gkey (grants db') = map gkey (grants db)"
    by (simp add: db' set_grant_def set_session_def r(6) retire_unused_def gkey_def)
  have L: "ledger db' = ledger db @ [r]" by (simp add: db' set_grant_def set_session_def r(1))
  have P: "settlements db' = settlements db @ [not_admitted_event ?e now raw]" by (simp add: db' r(7))
  have pos: "0 \<le> amount" using inv_hold [OF inv row] cap by (auto simp: hold_ok_def)
  show "tracked B db'"
    by (rule ended_inv [OF tr row live cap _ _ S _ _ _ _ _ _ _ _ _ _ L _ _ _ keys P, where billed = 0])
       (use pos cap r(2-4) in \<open>auto simp: not_admitted_row_def not_admitted_event_def closing_def etotal_one\<close>)
qed

lemma set_session_get:
  assumes "get_session db e = Some row" and "\<And>s. ps_id (f s) = ps_id s"
  shows "get_session (set_session e f db) e = Some (f row)"
proof -
  have "find (\<lambda>s. ps_id s = e) (update_where (\<lambda>s. ps_id s = e) f (sessions db)) = map_option f (find (\<lambda>s. ps_id s = e) (sessions db))"
    using assms(2) by (intro find_update_where_same) simp
  with assms(1) show ?thesis by (simp add: get_session_def set_session_def)
qed

lemma note_exchange_same: "same_account s (note_exchange evidence s)"
  by (simp add: same_account_def note_exchange_def)

text \<open>What a retained proof leaves, and when it releases.\<close>

lemma retain_cases:
  assumes "retain_verified_non_admission v dt digest e exchange now db = (Inr x, db')"
  obtains (same) "x = False" "db' = db"
    | (rejected) audit where "x = False" "db' = set_session e (note_exchange audit) db"
    | (verified) row envelope rid g ver audit db1 where "get_session db e = Some row" "ps_state row = ''open''"
      "xr_non_admission exchange = Some envelope" "ps_broker_request_id row = Some rid"
      "check_non_admission v dt row exchange envelope rid db = Inr (g, ver)"
      "audit = verified_audit dt (digest (envelope_dict envelope)) ver exchange"
      "record_non_admission_audit e now (digest (envelope_dict envelope)) audit (set_session e (note_exchange audit) db) = (Inr (), db1)"
      "x = False \<and> db' = db1 \<or> x \<and> expiry_of g \<le> now \<and> expiry_of g \<le> vn_observed_at ver \<and>
         (\<exists>amount. ps_customer_max_debit_wei row = Some amount \<and>
            release_not_admitted row g amount now ((''evidence_digest'', JStr (digest (envelope_dict envelope))) # audit) db1 = (Inr (), db'))"
proof (cases "x = False \<and> db' = db")
  case True
  then show thesis using same by blast
next
  case False
  from assms False obtain row envelope rid where row: "get_session db e = Some row" "ps_state row = ''open''"
    "xr_non_admission exchange = Some envelope" "ps_broker_request_id row = Some rid"
    by (auto simp: retain_verified_non_admission_def op_run split: option.splits if_splits)
  show thesis
  proof (cases "check_non_admission v dt row exchange envelope rid db")
    case (Inl err)
    with assms row show thesis
      by (auto simp: retain_verified_non_admission_def op_run intro!: rejected split: option.splits)
  next
    case (Inr gv)
    obtain g ver where gv: "gv = (g, ver)" by force
    let ?d = "digest (envelope_dict envelope)"
    define audit where "audit = verified_audit dt ?d ver exchange"
    have "bind_op (record_non_admission_audit e now ?d audit) (\<lambda>_.
        if now < expiry_of g \<or> vn_observed_at ver < expiry_of g then ret False
        else case ps_customer_max_debit_wei row of None \<Rightarrow> ret False
        | Some amount \<Rightarrow> bind_op (release_not_admitted row g amount now ((''evidence_digest'', JStr ?d) # audit)) (\<lambda>_. ret True))
        (set_session e (note_exchange audit) db) = (Inr x, db')"
      using assms row Inr gv unfolding audit_def by (simp add: retain_verified_non_admission_def Let_def)
    then obtain db1 where
      rec: "record_non_admission_audit e now ?d audit (set_session e (note_exchange audit) db) = (Inr (), db1)" and
      rest: "(if now < expiry_of g \<or> vn_observed_at ver < expiry_of g then ret False
        else case ps_customer_max_debit_wei row of None \<Rightarrow> ret False
        | Some amount \<Rightarrow> bind_op (release_not_admitted row g amount now ((''evidence_digest'', JStr ?d) # audit)) (\<lambda>_. ret True)) db1 = (Inr x, db')"
      unfolding bind_Inr_iff [of "record_non_admission_audit e now ?d audit"] by (elim exE conjE, intro that) (simp, assumption)
    from rest have "x = False \<and> db' = db1 \<or> x \<and> expiry_of g \<le> now \<and> expiry_of g \<le> vn_observed_at ver \<and>
         (\<exists>amount. ps_customer_max_debit_wei row = Some amount \<and>
            release_not_admitted row g amount now ((''evidence_digest'', JStr ?d) # audit) db1 = (Inr (), db'))"
      by (auto simp: op_iff split: if_splits option.splits)
    with verified [OF row Inr [unfolded gv] audit_def rec] show thesis by simp
  qed
qed

lemma audit_event_frame:
  assumes "record_non_admission_audit e now d audit db = (r, db')"
  shows "sessions db' = sessions db" "grants db' = grants db" "ledger db' = ledger db" "balances db' = balances db"
  using assms by (auto simp: record_non_admission_audit_def record_settlement_def Let_def op_run bind_assoc split: if_splits)

lemma retain_inv:
  assumes tr: "tracked B db" and run: "retain_verified_non_admission v dt digest e exchange now db = (Inr x, db')"
  shows "tracked B db'"
  using run
proof (cases rule: retain_cases)
  case (verified row envelope rid g ver audit db1)
  have e: "ps_id row = e" using get_session_in [OF verified(1)] by simp
  let ?row = "note_exchange audit row"
  have db1: "tracked B db1"
    using keepsD [OF audit_event_keeps set_session_same_inv [OF tr] verified(7)] note_exchange_same by blast
  have "get_session (set_session e (note_exchange audit) db) e = Some ?row"
    using set_session_get [OF verified(1)] by (simp add: note_exchange_def)
  then have row1: "get_session db1 e = Some ?row"
    using audit_event_frame(1) [OF verified(7)] by (simp add: get_session_def)
  show ?thesis
  proof (cases x)
    case True
    with verified(8) obtain amount where am: "ps_customer_max_debit_wei row = Some amount"
      "release_not_admitted row g amount now ((''evidence_digest'', JStr (digest (envelope_dict envelope))) # audit) db1 = (Inr (), db')"
      by auto
    have "release_not_admitted ?row g amount now raw db1 = release_not_admitted row g amount now raw db1" for raw
      by (simp add: release_not_admitted_def note_exchange_def)
    with am have "release_not_admitted ?row g amount now ((''evidence_digest'', JStr (digest (envelope_dict envelope))) # audit) db1 = (Inr (), db')"
      by simp
    from release_not_admitted_inv(1) [OF db1 _ _ _ this] row1 am(1) verified(2) e show ?thesis by (simp add: note_exchange_def)
  qed (use verified(8) db1 in simp)
qed (use tr in \<open>auto intro!: set_session_same_inv note_exchange_same\<close>)

end
