(* ===== verification/Request_Invariants.thy ===== *)
theory Request_Invariants
  imports Resolution Jobs_Laws
begin

text \<open>
  Requests and janitors are built from a few operations that write the ledger or the grants. A property of
  the database that those operations keep, and that does not read the session or wholesale tables, is
  kept by every request and janitor (locale \<open>request_invariant\<close>). Two properties are such: the ledger invariant
  of billing, so that a customer stays solvent whatever the sessions, the broker and the janitors do, and
  the progress of the grants.
\<close>

lemma keeps_catch [intro]:
  assumes "keeps I m" and "\<And>e. keeps I (h e)"
  shows "keeps I (catch_op m h)"
  using assms by (fastforce simp: keeps_def catch_op_def split: prod.splits sum.splits)

lemma triple_keeps: "keeps J m \<Longrightarrow> (\<And>s. J s \<Longrightarrow> E s) \<Longrightarrow> triple J m (\<lambda>_. J) E"
  by (rule tripleI) (auto dest: keepsD)

lemma grants_frame:
  fixes db :: "('z sessions_db_scheme)"
  shows "grants (ensured u db) = grants db" "grants (posted r db) = grants db"
  by (rule sessions_of_more(2), simp)+

lemma release_grants:
  fixes db :: "('z sessions_db_scheme)"
  assumes "release_customer_engagement u e a db = (r, db')"
  shows "grants db' = grants db"
  using assms [unfolded release_keyed] windows_only_ret
  by (cases rule: keyed_step_cases) (auto simp: grants_frame)

locale request_invariant = customer_invariant I for I :: "('z sessions_db_scheme) \<Rightarrow> bool" +
  assumes I_sessions: "I (db\<lparr>sessions := ss\<rparr>) = I db"
    and I_settlements: "I (db\<lparr>settlements := es\<rparr>) = I db"
    and I_hold: "keeps I (encumber_customer_engagement u e a now period cap)"
    and I_increase: "keeps I (increase_customer_engagement_cap u e n a now period cap)"
    and I_release: "keeps I (release_customer_engagement u e a)"
    and I_balance: "keeps I (get_balance u)"
    and I_insert: "keeps I (insert_grant e g)"
    and I_mark: "keeps I (mark_spend_authorization_settled e aid t)"
    and I_reconcile: "keeps I (reconcile_spend_authorization_states query account t limit)"
begin

lemma I_rows: "I (set_session e f db) = I db"
  by (simp add: set_session_def I_sessions)

lemma keeps_pure: "(\<And>db r db'. m db = (r, db') \<Longrightarrow> db' = db) \<Longrightarrow> keeps I m"
  by (rule keepsI) metis

lemma keeps_modify_rows:
  "keeps I (modify (set_session e f))"
  "keeps I (modify (\<lambda>db. db\<lparr>sessions := g db\<rparr>))" "keeps I (modify (\<lambda>db. db\<lparr>settlements := k db\<rparr>))"
  by (rule keeps_modify, simp add: I_rows I_sessions I_settlements)+

lemmas keeps_rows = keeps_bind keeps_if keeps_case_option keeps_ret keeps_raise keeps_gets keeps_require
  keeps_of_result keeps_modify_rows I_hold I_increase I_release I_balance I_insert I_mark

lemma safe_keeps: "keeps I m \<Longrightarrow> safe I (on_db m)"
  by (rule safe_on_db) (auto dest: keepsD)

lemma safe_write_rows: "safe I (write_db (set_session e f))"
  by (rule safe_write_db) (simp add: I_rows)

lemma claim:
  assumes "\<And>other. conflict = Some other \<Longrightarrow> I other"
  shows "safe I (claim_wholesale_engagement conflict nid u k route rid est units m now sdk period cap gid)"
proof -
  have resume: "safe I (on_db (resume_engagement u k route rid est units m gid))"
    by (rule safe_keeps, rule keeps_pure) (auto simp: resume_engagement_def op_run split: option.splits if_splits sum.splits)
  have create: "keeps I (create_session nid u k w c off p snap brid est mx fund now sdk mode pricing cmax sid)"
    for w c off p snap brid mx fund mode pricing cmax sid
    unfolding create_session_def Let_def by (intro keeps_rows)
  have lost: "safe I (bind_op (modify (\<lambda>s. s\<lparr>durable := other\<rparr>)) (\<lambda>_. bind_op rollback (\<lambda>_. k')))"
    if "I other" "safe I k'" for other and k' :: "(('z sessions_db_scheme) txn, payment_session) op"
    using that by (auto simp: safe_def triple_def both_def)
  show ?thesis
    unfolding claim_wholesale_engagement_def Let_def
    by (intro lost safe_intros resume safe_keeps create I_hold assms)
qed

lemma release: "safe I (release_unauthorized_engagement e now)"
  unfolding release_unauthorized_engagement_def by (intro safe_intros safe_keeps I_release safe_write_rows)

lemma release_stale: "safe I (release_stale_unauthorized_engagements now secs limit)"
  unfolding release_stale_unauthorized_engagements_def by (intro safe_intros release)

lemma record_grant: "keeps I (record_spend_authorization_grant e u route domain q p)"
  unfolding record_spend_authorization_grant_def by (intro keeps_rows)

lemma issue_initial: "safe I (issue_initial_authorization_or_release row now issued)"
  unfolding issue_initial_authorization_or_release_def
  by (auto intro!: safe_intros release split: sum.splits error.splits)

lemma open_wholesale:
  assumes "\<And>other. conflict = Some other \<Longrightarrow> I other"
  shows "safe I (open_wholesale_session conflict world sign nid u k route est units m rid digest key now
    settings sdk period cap gid)"
  unfolding open_wholesale_session_def Let_def
  by (intro safe_intros claim issue_initial safe_keeps record_grant safe_replenish_for_request assms)

lemma config: "safe I (on_db (resolve_billing_config u settings))"
  by (rule safe_config)

lemma open_request:
  assumes "\<And>other. conflict = Some other \<Longrightarrow> I other"
  shows "safe I (open_session codec dt conflict world sign sel many nid u k cap off est units sdk now
    settings schema binding rid digest key gid token)"
  unfolding open_session_def by (intro safe_intros config safe_keeps I_balance open_wholesale assms)

lemma revise: "keeps I (revise_cap sign row u route units digest rid now settings cfg)"
  unfolding revise_cap_def Let_def
  by (auto intro!: keeps_rows record_grant split: option.splits)

lemma refill: "safe I (refill_session world sign e u now settings rid units digest)"
  unfolding refill_session_def refill_wholesale_session_def
  by (intro safe_intros config safe_keeps revise safe_replenish_for_request)

lemma transition: "keeps I (transition_state e from_state to_state now)"
  unfolding transition_state_def Let_def by (intro keeps_rows)

lemma settlement: "keeps I (record_settlement e kind now units billed outcome raw)"
  unfolding record_settlement_def Let_def by (intro keeps_rows)

lemma finalize: "keeps I (finalize_close dt row u verified settlement billed refund final now)"
  unfolding finalize_close_def by (intro keeps_rows transition settlement)

lemma keeps_case_prod: "(\<And>x y. keeps I (f x y)) \<Longrightarrow> keeps I (case v of (x, y) \<Rightarrow> f x y)"
  by (cases v) simp

lemma keeps_checks:
  "keeps I (verify_close_settlement v dt row settlement terminal)" "keeps I (require_retired_successors row a)"
  "keeps I (replay_closed_session row settlement units outcome)"
  by (rule keepsI, use verify_close_pure successors_pure replay_pure in metis)+

lemma close: "keeps I (close_session v dt e u units outcome settlement now)"
  unfolding close_session_def
  by (intro keeps_rows keeps_checks keeps_case_prod finalize)

lemma polled: "keeps I (apply_polled_settlement v dt now row settlement)"
proof (rule keepsI)
  fix db r db' assume I: "I db" and run: "apply_polled_settlement v dt now row settlement db = (r, db')"
  obtain q d1 where q: "verify_close_settlement v dt row (Some settlement) False db = (q, d1)" by force
  with verify_close_pure have d1: "d1 = db" by blast
  obtain w d2 where w: "close_session v dt (ps_id row) (ps_user_id row) (vs_debited_units (projr q)) None
      (Some settlement) now db = (w, d2)" by force
  from run q d1 w have "db' = db \<or> db' = d2 \<or> (\<exists>f. db' = set_session (ps_id row) f db)"
    by (auto simp: apply_polled_settlement_def split: sum.splits error.splits if_splits)
  with I keepsD [OF close I w] I_rows show "I db'" by metis
qed

lemma sessions_janitor: "keeps I (reconcile_open_sessions v dt fetch now interval limit)"
  unfolding reconcile_open_sessions_def reconcile_open_session_def mark_polled_def Let_def
  by (intro keeps_rows keeps_fold) (auto intro!: keeps_rows polled split: sum.splits error.splits option.splits)

lemma open_wholesale_job:
  assumes "\<And>other. conflict = Some other \<Longrightarrow> I other"
  shows "safe I (open_wholesale_job conflict world sign nid u k route est units m rid digest key now
    settings sdk period cap transport)"
  unfolding open_wholesale_job_def Let_def fund_job_account_replenish
  by (intro safe_intros claim issue_initial safe_keeps record_grant safe_replenish assms)

lemma open_job_request:
  assumes "\<And>other. conflict = Some other \<Longrightarrow> I other"
  shows "safe I (open_job conflict world sign sel many nid frid u k cap off est units sdk now settings
    transport binding rid digest key)"
  unfolding open_job_def Let_def by (intro safe_intros config safe_keeps I_balance open_wholesale_job assms)

end

text \<open>
  The same for the requests of jobs and of operators, which also write create requests, deposits and the audit log,
  retire a grant on verified non-admission and close grants by an operator's decision.
\<close>

locale clearing_invariant = request_invariant I for I :: "('z clearing_db_scheme) \<Rightarrow> bool" +
  assumes I_requests: "I (db\<lparr>create_requests := rs\<rparr>) = I db"
    and I_deposits: "I (db\<lparr>deposits := ds\<rparr>) = I db"
    and I_audits: "I (db\<lparr>audits := as\<rparr>) = I db"
    and I_retire: "\<lbrakk>I db; find_grant db e a = Some g; gr_state g \<in> {''issued'', ''outcome_unknown'', ''expired_unused''}\<rbrakk> \<Longrightarrow>
      I (set_grant a (retire_unused t) db)"
    and I_resolve: "keeps I (mark_spend_authorization_operator_resolved e aid t)"
begin

lemma finalize_one_job: "keeps I (finalize_job row u units bjid wu settlement final billed refund now)"
  unfolding finalize_job_def by (intro keeps_rows transition settlement)

lemma cap_status: "keeps I (compute_cap_status row u units refused cfg now)"
  by (rule keeps_pure) (rule compute_cap_status_pure)

lemma billing_config: "keeps I (resolve_billing_config u settings)"
  by (rule keeps_pure) (rule config_pure)

lemma settle: "keeps I (settle_job v dt job_id u units bjid wu outcome settlement now settings)"
  unfolding settle_job_def Let_def
  by (intro keeps_rows keeps_catch keeps_case_prod finalize_one_job cap_status billing_config)

lemma conservative: "keeps I (finalize_conservative_full_charge dt job_id now secs evidence)"
  unfolding finalize_conservative_full_charge_def Let_def by (intro keeps_rows transition settlement)

lemma audit_event: "keeps I (record_non_admission_audit e now d audit)"
  unfolding record_non_admission_audit_def by (intro keeps_rows settlement)

lemma release_unused:
  assumes g: "find_grant db e (gr_authorization_id g) = Some g" "gr_state g \<in> {''issued'', ''outcome_unknown'', ''expired_unused''}"
    and I: "I db" and run: "release_not_admitted row g amount now raw db = (r, db')"
  shows "I db'"
proof -
  let ?J = "\<lambda>d. I d \<and> grants d = grants db"
  have tr: "keeps ?J (transition_state (ps_id row) ''open'' ''closed'' now)"
    unfolding transition_state_def Let_def by (intro keeps_bind keeps_ret keeps_gets keeps_require keeps_raise
      keeps_case_option keeps_modify) (simp_all add: I_rows set_session_def I_sessions)
  have rel: "keeps ?J (release_customer_engagement u' e' a')" for u' e' a'
    by (rule keepsI) (auto dest: keepsD [OF I_release] release_grants)
  have row: "keeps ?J (modify (set_session e' f))" for e' f
    by (rule keeps_modify) (simp add: set_session_def I_sessions)
  have retire: "triple ?J (modify (set_grant (gr_authorization_id g) (\<lambda>g. g\<lparr>gr_state := ''expired_unused'',
         gr_retired_at := retired_or now g\<rparr>))) (\<lambda>_. I) I"
    by (rule triple_modify) (use g in \<open>auto simp: find_grant_def intro: I_retire [unfolded retire_unused_def [abs_def]]\<close>)
  have "triple ?J (release_not_admitted row g amount now raw) (\<lambda>_. I) I"
    unfolding release_not_admitted_def
    by (rule triple_bind [OF triple_keeps [OF tr]] triple_bind [OF triple_keeps [OF rel]]
        triple_bind [OF triple_keeps [OF row]] triple_bind [OF retire] triple_bind [OF triple_keeps [OF settlement]]
        triple_ret; simp)+
  then show ?thesis using I run by (cases r) (auto dest: tripleD)
qed

lemma non_admission:
  assumes I: "I db" and run: "retain_verified_non_admission v dt digest e exchange now db = (Inr x, db')"
  shows "I db'"
  using run
proof (cases rule: retain_cases)
  case (verified row envelope rid g ver audit db1)
  have e: "ps_id row = e" using get_session_in [OF verified(1)] by simp
  have db1: "I db1" using keepsD [OF audit_event _ verified(7)] I by (simp add: I_rows)
  show ?thesis
  proof (cases x)
    case True
    with verified(8) obtain amount where rel:
      "release_not_admitted row g amount now ((''evidence_digest'', JStr (digest (envelope_dict envelope))) # audit) db1 = (Inr (), db')"
      by auto
    have "non_admission_grant row db = Inr g"
      using verified(5) by (auto simp: check_non_admission_def bind_r_Inr_iff split: if_splits option.splits)
    then obtain a where a: "find_grant db e a = Some g" "gr_authorization_id g = a"
      "gr_state g \<in> {''issued'', ''outcome_unknown'', ''expired_unused''}"
      by (rule non_admission_grantD) (simp add: e)
    have g1: "find_grant db1 e a = Some g"
      using a(1) audit_event_frame(2) [OF verified(7)] by (simp add: find_grant_def set_session_def)
    from a(2) g1 have "find_grant db1 e (gr_authorization_id g) = Some g" by simp
    from release_unused [OF this a(3) db1 rel] show ?thesis .
  qed (use verified(8) db1 in simp)
qed (use I in \<open>auto simp: I_rows\<close>)

lemma resolve: "keeps I (resolve_stuck_work dt trunc job_id operator action note now)"
proof -
  have audit: "keeps I (modify (\<lambda>db. db\<lparr>audits := g db\<rparr>))" for g
    by (rule keeps_modify) (simp add: I_audits)
  have "keeps I (case e of InvalidSessionTransition \<Rightarrow> raise x | _ \<Rightarrow> raise e)"
    "keeps I (case e of SessionSettlementVerificationFailed r \<Rightarrow> raise (y r) | _ \<Rightarrow> raise e)" for e x y
    by (auto split: error.splits)
  then show ?thesis
    unfolding resolve_stuck_work_def finalize_resolution_def Let_def
    by (intro keeps_rows keeps_catch keeps_case_prod transition settlement audit I_resolve)
qed

end

section \<open>The ledger\<close>

lemma billing_inv_frame:
  fixes db :: "('z sessions_db_scheme)"
  shows "billing_inv (db\<lparr>accounts := a\<rparr>) = billing_inv db" "billing_inv (db\<lparr>fundings := f\<rparr>) = billing_inv db"
    "billing_inv (db\<lparr>budgets := b\<rparr>) = billing_inv db" "billing_inv (db\<lparr>sessions := ss\<rparr>) = billing_inv db"
    "billing_inv (db\<lparr>settlements := es\<rparr>) = billing_inv db" "billing_inv (db\<lparr>grants := gs\<rparr>) = billing_inv db"
    "billing_inv (db\<lparr>server_now := t\<rparr>) = billing_inv db"
  by (rule billing_inv_cong; simp)+

lemma billing_inv_grants:
  "keeps billing_inv (insert_grant e g)" "keeps billing_inv (mark_spend_authorization_settled e a t)"
  "keeps billing_inv (reconcile_spend_authorization_states query account t limit)"
  "keeps billing_inv (mark_spend_authorization_operator_resolved e a t)"
proof -
  have row: "billing_inv (set_grant a h db) = billing_inv db" "billing_inv (set_session e k db) = billing_inv db"
    for a h e k and db :: "('z sessions_db_scheme)"
    by (simp_all add: set_grant_def set_session_def billing_inv_frame)
  note intros = keeps_bind keeps_gets keeps_require keeps_ret keeps_raise keeps_case_option keeps_modify keeps_if
    keeps_of_result keeps_fold
  show "keeps billing_inv (insert_grant e g)" "keeps billing_inv (mark_spend_authorization_settled e a t)"
    "keeps billing_inv (reconcile_spend_authorization_states query account t limit)"
    "keeps billing_inv (mark_spend_authorization_operator_resolved e a t)"
    unfolding insert_grant_def mark_spend_authorization_settled_def reconcile_spend_authorization_states_def
      reconcile_row_def mark_spend_authorization_operator_resolved_def Let_def
    by (intro intros; simp add: row billing_inv_frame)+
qed

lemma billing_inv_clearing:
  fixes db :: "('z clearing_db_scheme)"
  shows "billing_inv (db\<lparr>create_requests := rs\<rparr>) = billing_inv db" "billing_inv (db\<lparr>deposits := ds\<rparr>) = billing_inv db"
    "billing_inv (db\<lparr>audits := as\<rparr>) = billing_inv db"
  by (rule billing_inv_cong; simp)+

interpretation solvent: clearing_invariant "billing_inv :: ('z clearing_db_scheme) \<Rightarrow> bool"
  by unfold_locales
     (simp_all add: billing_inv_frame billing_inv_clearing get_balance_ensure keeps_inv_ensure keeps_inv_encumber
       keeps_inv_increase keeps_inv_release billing_inv_grants set_grant_def)

section \<open>The grants\<close>

text \<open>The order of the receiver's states: issued, admitted, outcome unknown, then the terminal ones.\<close>

definition grant_rank :: "spend_authorization_grant \<Rightarrow> nat" where
  "grant_rank g = (if gr_state g = ''issued'' then 0 else if gr_state g = ''admitted'' then 1
     else if gr_state g = ''outcome_unknown'' then 2 else 3)"

definition grant_le :: "spend_authorization_grant \<Rightarrow> spend_authorization_grant \<Rightarrow> bool" where
  "grant_le g h \<longleftrightarrow> h = g\<lparr>gr_state := gr_state h, gr_retired_at := gr_retired_at h\<rparr> \<and>
     grant_rank g \<le> grant_rank h \<and> (grant_rank g = 3 \<longrightarrow> gr_state h = gr_state g) \<and>
     (gr_retired_at g \<noteq> None \<longrightarrow> gr_retired_at h = gr_retired_at g)"

lemma grant_le_refl [simp]: "grant_le g g"
  by (simp add: grant_le_def)

lemma grant_rank_le: "grant_rank g \<le> 3"
  by (simp add: grant_rank_def)

lemma grant_le_trans: "grant_le g h \<Longrightarrow> grant_le h k \<Longrightarrow> grant_le g k"
proof -
  assume gh: "grant_le g h" and hk: "grant_le h k"
  from gh obtain st rt where h: "h = g\<lparr>gr_state := st, gr_retired_at := rt\<rparr>" unfolding grant_le_def by blast
  from hk obtain st' rt' where k: "k = h\<lparr>gr_state := st', gr_retired_at := rt'\<rparr>" unfolding grant_le_def by blast
  have "k = g\<lparr>gr_state := gr_state k, gr_retired_at := gr_retired_at k\<rparr>" by (simp add: k h)
  moreover have "grant_rank h = 3" if "grant_rank g = 3"
    using gh that grant_rank_le [of h] by (simp add: grant_le_def)
  ultimately show ?thesis using gh hk unfolding grant_le_def by auto
qed

lemma settled_le:
  "gr_state g \<in> {''issued'', ''admitted'', ''settled''} \<Longrightarrow>
     grant_le g (g\<lparr>gr_state := ''settled'', gr_retired_at := retired_or t g\<rparr>)"
  by (auto simp: grant_le_def grant_rank_def retired_or_def split: option.splits)

lemma reconcile_run:
  assumes "reconcile_grant g reply account t = Inr (Some h)"
  obtains ob :: spend_authorization_observation where "state_value (so_state ob) \<noteq> gr_state g"
    "gr_state g = ''admitted'' \<Longrightarrow> so_state ob \<notin> {Issued, ExpiredUnused, CanceledUnused}"
    "gr_state g = ''outcome_unknown'' \<Longrightarrow> terminal_state (so_state ob)"
    "h = g\<lparr>gr_state := state_value (so_state ob),
       gr_retired_at := (if terminal_state (so_state ob) then retired_or t g else gr_retired_at g)\<rparr>"
proof -
  from assms obtain ob where ob: "reply = Inr ob"
    by (auto simp: reconcile_grant_def split: if_splits sum.splits error.splits)
  have "gr_state g \<noteq> ''admitted''" if "zero_use_verified g ob account = Inr True"
    using that by (auto simp: zero_use_verified_def split: if_splits)
  with assms ob that [of ob] show thesis
    by (auto simp: reconcile_grant_def bind_r_Inr_iff split: if_splits)
qed

lemma reconcile_rank:
  assumes "reconcile_grant g reply account t = Inr (Some h)" and "active_grant g"
  shows "grant_rank g < grant_rank h"
  using assms(1)
proof (cases rule: reconcile_run)
  case (1 ob)
  then have "gr_state h = state_value (so_state ob)" by simp
  with assms(2) 1(1-3) show ?thesis
    by (cases "so_state ob") (auto simp: grant_rank_def state_value_def active_grant_def terminal_state_def)
qed

lemma reconcile_le:
  assumes "reconcile_grant g reply account t = Inr (Some h)" and "active_grant g"
  shows "grant_le g h"
  using assms(1)
proof (cases rule: reconcile_run)
  case (1 ob)
  then have "h = g\<lparr>gr_state := gr_state h, gr_retired_at := gr_retired_at h\<rparr>"
    "gr_retired_at g \<noteq> None \<longrightarrow> gr_retired_at h = gr_retired_at g" by (auto simp: retired_or_def)
  then show ?thesis using reconcile_rank [OF assms] grant_rank_le [of h] unfolding grant_le_def by linarith
qed

definition granted :: "spend_authorization_grant list \<Rightarrow> ('z sessions_db_scheme) \<Rightarrow> bool" where
  "granted B db \<longleftrightarrow> distinct (map gr_authorization_id (grants db)) \<and>
     (\<forall>g \<in> set B. \<exists>h \<in> set (grants db). grant_le g h)"

lemma granted_set:
  assumes "granted B db" and "find_grant db e a = Some g" and "grant_le g h"
  shows "granted B (set_grant a (\<lambda>_. h) db)"
proof -
  note g = find_grant_in [OF assms(2)]
  from assms(3) obtain st rt where "h = g\<lparr>gr_state := st, gr_retired_at := rt\<rparr>" unfolding grant_le_def by blast
  then have h: "gr_authorization_id h = a" using g by simp
  have uniq: "x = g" if "x \<in> set (grants db)" "gr_authorization_id x = a" for x
    using assms(1) that g by (metis granted_def distinct_map inj_onD)
  have "map gr_authorization_id (grants (set_grant a (\<lambda>_. h) db)) = map gr_authorization_id (grants db)"
    using h by (auto simp: set_grant_def update_where_def)
  moreover have "\<exists>z \<in> set (grants (set_grant a (\<lambda>_. h) db)). grant_le y z" if y: "y \<in> set B" for y
  proof -
    from assms(1) y obtain x where x: "x \<in> set (grants db)" "grant_le y x" by (auto simp: granted_def)
    show ?thesis
    proof (cases "gr_authorization_id x = a")
      case True
      with x uniq have "grant_le y h" using grant_le_trans assms(3) by blast
      with x True show ?thesis by (force simp: set_grant_def set_update_where)
    next
      case False
      with x show ?thesis by (force simp: set_grant_def set_update_where)
    qed
  qed
  ultimately show ?thesis using assms(1) by (simp add: granted_def)
qed

lemma granted_keyed: "windows_only spend \<Longrightarrow> keeps (granted B) (keyed_step u e reason d spend msg)"
  by (rule keepsI, erule keyed_step_cases) (auto simp: granted_def grants_frame)

lemma granted_ledger:
  "keeps (granted B) (encumber_customer_engagement u e a t period cap)"
  "keeps (granted B) (increase_customer_engagement_cap u e n a t period cap)"
  "keeps (granted B) (release_customer_engagement u e a)" "keeps (granted B) (get_balance u)"
  unfolding encumber_keyed increase_keyed release_keyed get_balance_ensure
  by (intro granted_keyed keeps_bind keeps_require keepsI; auto simp: ensure_run granted_def grants_frame)+

lemma granted_insert: "keeps (granted B) (insert_grant e g)"
  by (rule keepsI) (auto simp: insert_grant_def op_run granted_def set_session_def split: if_splits)

lemma granted_mark: "keeps (granted B) (mark_spend_authorization_settled e a t)"
proof (rule keepsI)
  fix db :: "('z sessions_db_scheme)" and r db'
  assume db: "granted B db" and run: "mark_spend_authorization_settled e a t db = (r, db')"
  show "granted B db'"
  proof (cases r)
    case (Inl x)
    with run db show ?thesis
      by (auto simp: mark_spend_authorization_settled_def op_run Let_def split: option.splits if_splits)
  next
    case (Inr g')
    from run [unfolded Inr] obtain g where "find_grant db e a = Some g" "gr_state g \<in> {''issued'', ''admitted'', ''settled''}"
      "g' = g\<lparr>gr_state := ''settled'', gr_retired_at := retired_or t g\<rparr>" "db' = set_grant a (\<lambda>_. g') db"
      by (rule mark_settled_run)
    with granted_set [OF db] settled_le show ?thesis by metis
  qed
qed

lemma granted_reconcile: "keeps (granted B) (reconcile_spend_authorization_states query account t limit)"
  by (rule reconcile_keeps) (blast intro: granted_set reconcile_le)

lemma granted_update:
  assumes "granted B db" and "find_grant db e a = Some g" and "grant_le g (f g)"
  shows "granted B (set_grant a f db)"
proof -
  have "update_where (\<lambda>x. gr_authorization_id x = a) f (grants db) = update_where (\<lambda>x. gr_authorization_id x = a) (\<lambda>_. f g) (grants db)"
    using assms(1) find_grant_in [OF assms(2)]
    by (auto simp: update_where_def granted_def) (metis distinct_map inj_onD)
  with granted_set [OF assms] show ?thesis by (simp add: set_grant_def)
qed

lemma retire_le:
  "gr_state g \<in> {''issued'', ''outcome_unknown'', ''expired_unused''} \<Longrightarrow> grant_le g (retire_unused t g)"
  by (auto simp: grant_le_def grant_rank_def retire_unused_def retired_or_def split: option.splits)

lemma resolve_le:
  assumes "resolve_grant t g = Inr h"
  shows "grant_le g h"
proof (cases "gr_state g \<in> set [''settled'', ''expired_unused'', ''superseded'', ''operator_resolved'']")
  case True
  have "grant_rank (g\<lparr>gr_retired_at := x\<rparr>) = grant_rank g" for x by (simp add: grant_rank_def)
  with assms True show ?thesis
    by (auto simp: resolve_grant_def grant_le_def retired_or_def split: option.splits)
next
  case False
  with assms have h: "h = g\<lparr>gr_state := ''operator_resolved'', gr_retired_at := Some t\<rparr>" "gr_retired_at g = None"
    and "gr_state g \<in> set [''issued'', ''admitted'', ''outcome_unknown'']"
    unfolding resolve_grant_def by (auto simp only: if_False sum.simps split: if_splits)
  then have "grant_rank g < 3" by (auto simp: grant_rank_def)
  moreover have "grant_rank h = 3" by (simp add: h grant_rank_def)
  ultimately show ?thesis by (simp add: grant_le_def h)
qed

text \<open>The rows are read before the loop writes them; each is written once.\<close>

lemma granted_resolve_rows:
  assumes "distinct (map gr_authorization_id rows)" and "granted B db" and "set rows \<subseteq> set (grants db)"
    and "fold_op (\<lambda>_ grant. bind_op (of_result (resolve_grant t grant)) (\<lambda>grant'.
         modify (set_grant (gr_authorization_id grant) (\<lambda>_. grant')))) () rows db = (r, db')"
  shows "granted B db'"
  using assms
proof (induction rows arbitrary: db)
  case (Cons g rows)
  let ?a = "gr_authorization_id g"
  show ?case
  proof (cases "resolve_grant t g")
    case (Inr h)
    let ?d = "set_grant ?a (\<lambda>_. h) db"
    have dist: "distinct (map gr_authorization_id (grants db))" and g: "g \<in> set (grants db)"
      using Cons.prems(2,3) by (auto simp: granted_def)
    then have "find_grant db (gr_session_id g) ?a = find (\<lambda>x. gr_authorization_id x = ?a) (grants db)"
      unfolding find_grant_def by (intro find_cong_pred) (metis distinct_map inj_onD)
    with find_key_unique [OF dist g] have "find_grant db (gr_session_id g) ?a = Some g" by simp
    then have "granted B ?d" using granted_set [OF Cons.prems(2)] resolve_le [OF Inr] by blast
    moreover have "set rows \<subseteq> set (grants ?d)"
    proof
      fix x assume x: "x \<in> set rows"
      with Cons.prems(1) have "gr_authorization_id x \<noteq> ?a" by (auto simp: image_iff)
      with x Cons.prems(3) show "x \<in> set (grants ?d)" by (force simp: set_grant_def update_where_def)
    qed
    ultimately show ?thesis using Cons.IH [of ?d] Cons.prems(1,4) Inr by simp
  qed (use Cons.prems in \<open>simp add: bind_op_def of_result_def\<close>)
qed (simp add: ret_def)

lemma granted_resolve: "keeps (granted B) (mark_spend_authorization_operator_resolved e a t)"
proof (rule keepsI)
  fix db r db' assume db: "granted B db" and run: "mark_spend_authorization_operator_resolved e a t db = (r, db')"
  let ?rows = "sort_key gr_revision (filter (\<lambda>g. gr_session_id g = e) (grants db))"
  obtain q d where fold: "fold_op (\<lambda>_ grant. bind_op (of_result (resolve_grant t grant)) (\<lambda>grant'.
         modify (set_grant (gr_authorization_id grant) (\<lambda>_. grant')))) () ?rows db = (q, d)" by force
  have "distinct (map gr_authorization_id ?rows)" using db by (auto simp: granted_def distinct_map intro: inj_on_subset)
  from granted_resolve_rows [OF this db _ fold] have "granted B d" by auto
  moreover have "db' = db \<or> db' = d"
    using run fold by (cases q) (auto simp: mark_spend_authorization_operator_resolved_def bind_op_def op_run split: if_splits)
  ultimately show "granted B db'" using db by auto
qed

interpretation grant_progress: clearing_invariant "granted B :: ('z clearing_db_scheme) \<Rightarrow> bool"
proof unfold_locales
  show "granted B (set_grant a (retire_unused t) db)" if "granted B db" "find_grant db e a = Some g"
    "gr_state g \<in> {''issued'', ''outcome_unknown'', ''expired_unused''}" for db :: "('z clearing_db_scheme)" and e a g t
    using granted_update [OF that(1,2)] retire_le [OF that(3)] by blast
qed (simp_all only: granted_ledger granted_insert granted_mark granted_reconcile granted_resolve, simp_all add: granted_def)

lemma granted_delta: "keeps (granted B) (apply_delta u d reason p e t o')"
  by (rule keepsI) (auto simp: apply_delta_run granted_def grants_frame split: if_splits)

lemma granted_topup: "keeps (granted B) (topup tid u a kind op')"
  unfolding topup_def Let_def by (intro keeps_bind keeps_ret keeps_modify granted_delta) (simp add: granted_def)

lemma granted_plain:
  "keeps (granted B) (grant_initial_credit tid u a op)" "keeps (granted B) (run_auto_replenish new_id settings)"
proof -
  show "keeps (granted B) (grant_initial_credit tid u a op)"
    unfolding grant_initial_credit_def Let_def
    by (intro keeps_bind keeps_if keeps_ret keeps_modify granted_delta) (simp add: granted_def)
  show "keeps (granted B) (run_auto_replenish new_id settings)"
    unfolding run_auto_replenish_def replenish_user_def resolve_billing_config_def get_billing_config_def bind_assoc
    by (intro keeps_bind keeps_gets keeps_fold keeps_ret keeps_if granted_topup granted_ledger(4) [unfolded get_balance_ensure])
qed

end
