(* ===== verification/Job_Recovery.thy ===== *)
theory Job_Recovery
  imports Request_Invariants
begin

text \<open>
  The janitor of open jobs. It polls each job's broker, and one job may change the database before the next is
  looked at: a property is kept by the batch when the three ways to end a job keep it and it does not
  read what a poll notes on a row (locale \<open>recovery_invariant\<close>). The engagement invariant is such a property as long as
  there is no row in the payments table, which no operation of the program writes.
\<close>

lemma recoverable_caught: "block_reason e \<noteq> None \<or> ignored_error e \<Longrightarrow> recoverable e"
  by (cases e) (auto simp: block_reason_def ignored_error_def recoverable_def)

locale recovery_invariant =
  fixes I :: "('z clearing_db_scheme) \<Rightarrow> bool"
  assumes R_note: "I db \<Longrightarrow> (\<And>s. same_account s (f s)) \<Longrightarrow> I (set_session e f db)"
    and R_row: "I db \<Longrightarrow> get_session db e = Some row \<Longrightarrow> same_account row row' \<Longrightarrow> I (set_session e (\<lambda>_. row') db)"
    and R_settle: "I db \<Longrightarrow> settle_job v dt job_id u units bjid wu outcome settlement now settings db = (r, db') \<Longrightarrow>
      (case r of Inl x \<Rightarrow> recoverable x | Inr y \<Rightarrow> True) \<Longrightarrow> I db'"
    and R_retain: "I db \<Longrightarrow> retain_verified_non_admission v dt digest job_id exchange now db = (Inr x, db') \<Longrightarrow> I db'"
    and R_conservative: "I db \<Longrightarrow> finalize_conservative_full_charge dt job_id now secs evidence db = (Inr x, db') \<Longrightarrow> I db'"
begin

lemma blocked:
  assumes "I db" and "block_job dt trunc e settlement reason now db = (Inr x, db')"
  shows "I db'"
proof (cases "get_session db e")
  case (Some row)
  with assms(2) obtain row' where row': "record_settlement_block dt trunc row settlement reason now = Inr row'"
    "db' = set_session e (\<lambda>_. row') db"
    by (cases "record_settlement_block dt trunc row settlement reason now") (auto simp: block_job_def op_run)
  then obtain b where "row' = row\<lparr>ps_breakdown := Some b\<rparr>"
    by (auto simp: record_settlement_block_def Let_def bind_r_Inr_iff)
  with R_row [OF assms(1) Some] row'(2) show ?thesis by (simp add: same_account_def)
qed (use assms in \<open>simp add: block_job_def op_run\<close>)

lemma attempt:
  assumes "I db" and "bind_op (of_result (SettlementEnvelope envelope)) (\<lambda>settlement.
      bind_op (settle_job v dt job_id u units bjid wu outcome settlement now settings) (\<lambda>_. ret True)) db = (r, d)"
    and "case r of Inl x \<Rightarrow> recoverable x | Inr y \<Rightarrow> True"
  shows "I d"
proof (cases "SettlementEnvelope envelope")
  case (Inr settlement)
  obtain q d' where q: "settle_job v dt job_id u units bjid wu outcome settlement now settings db = (q, d')" by force
  with assms(2) Inr have "d = d'" "r = (case q of Inl x \<Rightarrow> Inl x | Inr _ \<Rightarrow> Inr True)"
    by (auto simp: bind_op_def op_run split: sum.splits)
  with R_settle [OF assms(1) q] assms(3) show ?thesis by (auto split: sum.splits)
qed (use assms in \<open>simp add: bind_op_def op_run\<close>)

lemma settle_recovered_inv:
  assumes I: "I db" and run: "settle_recovered v dt trunc job_id exchange now settings db = (Inr x, db')"
  shows "I db'"
proof (cases "db' = db")
  case False
  with run obtain c envelope row where known: "recovered_settlement_claims trunc exchange = Inr (Some c)"
    "xr_settlement exchange = Some envelope" "get_session db job_id = Some row"
    "\<not> settlement_is_blocked row (envelope_dict envelope)"
    by (auto simp: settle_recovered_def op_run split: sum.splits option.splits if_splits)
  let ?m = "bind_op (of_result (SettlementEnvelope envelope)) (\<lambda>settlement.
      bind_op (settle_job v dt job_id (ps_user_id row) (rc_actual_units c) (rc_job_id c) (rc_work_unit c)
        (Some (rc_outcome c)) settlement now settings) (\<lambda>_. ret True))"
  obtain r d where m: "?m db = (r, d)" by force
  show ?thesis
  proof (cases r)
    case (Inr y)
    with run known m have "db' = d" by (simp add: settle_recovered_def Let_def catch_op_def)
    with attempt [OF I m] Inr show ?thesis by simp
  next
    case (Inl e)
    from run known m Inl have h: "(case block_reason e of
        Some reason \<Rightarrow> block_job dt trunc job_id (envelope_dict envelope) reason now
      | None \<Rightarrow> if ignored_error e then ret False else raise e) d = (Inr x, db')"
      by (simp add: settle_recovered_def catch_op_def)
    then have "recoverable e" using recoverable_caught by (fastforce simp: raise_def split: option.splits if_splits)
    with attempt [OF I m] Inl have d: "I d" by simp
    from h show ?thesis
      using d by (auto simp: raise_def ret_def intro: blocked [OF d] split: option.splits if_splits)
  qed
qed (use I in simp)

lemma apply_exchange_inv:
  assumes "I db" and "apply_exchange v dt digest trunc job_id exchange now settings charge_after db = (Inr x, db')"
  shows "I db'"
  using assms
  by (auto simp: apply_exchange_def op_iff split: if_splits intro: R_retain R_conservative settle_recovered_inv
      dest: settle_recovered_inv R_retain R_conservative)

lemma polled: "I db \<Longrightarrow> I (set_session e (\<lambda>s. note_exchange evidence (s\<lparr>ps_last_polled_at := Some now\<rparr>)) db)"
  by (rule R_note) (simp_all add: same_account_def note_exchange_def)

lemma reconcile_job_inv:
  assumes I: "I db" and run: "reconcile_open_job v dt digest trunc oracle now settings charge_after row db = (Inr x, db')"
  shows "I db'"
proof (cases "db' = db")
  case False
  with run show ?thesis
    by (auto simp: reconcile_open_job_def Let_def op_run split: option.splits sum.splits error.splits if_splits
        intro: polled [OF I] R_conservative [OF polled [OF I]] apply_exchange_inv [OF polled [OF I]])
qed (use I in simp)

lemma reconcile_jobs_inv:
  assumes I: "I db" and run: "reconcile_open_jobs v dt digest trunc oracle now settings charge_after interval limit db = (Inr n, db')"
  shows "I db'"
proof -
  from run obtain rows where "fold_op (\<lambda>finalized row. bind_op (reconcile_open_job v dt digest trunc oracle now settings charge_after row)
      (\<lambda>fin. ret (if fin then finalized + 1 else finalized))) 0 rows db = (Inr n, db')"
    by (auto simp: reconcile_open_jobs_def)
  then show ?thesis
    by (rule fold_op_inv [rotated]) (use I in \<open>auto simp: bind_Inr_iff ret_iff dest: reconcile_job_inv\<close>)
qed

end

text \<open>What every request keeps, the janitor keeps.\<close>

sublocale clearing_invariant \<subseteq> jobs: recovery_invariant I
  by unfold_locales (auto simp: I_rows intro: keepsD [OF settle] non_admission keepsD [OF conservative])

section \<open>Tables that requests leave alone\<close>

text \<open>
  Opening, refilling and closing touch nothing beyond the ledger, the wholesale and the engagement tables: not the
  create requests, not the payment rows, not the audit log.
\<close>

lemma beyond_frame:
  fixes db :: "('z sessions_db_scheme)"
  shows "sessions_db.more (ensured u db) = sessions_db.more db" "sessions_db.more (posted r db) = sessions_db.more db"
proof -
  have more: "sessions_db.more db' = sessions_db.more db" if "billing_db.more db' = billing_db.more db" for db' :: "('z sessions_db_scheme)"
    using that by (cases db; cases db'; simp)
  show "sessions_db.more (ensured u db) = sessions_db.more db" "sessions_db.more (posted r db) = sessions_db.more db" by (rule more, simp)+
qed

abbreviation beyond :: "'z \<Rightarrow> ('z sessions_db_scheme) \<Rightarrow> bool" where
  "beyond M db \<equiv> sessions_db.more db = M"

lemma beyond_keyed: "windows_only spend \<Longrightarrow> keeps (beyond M) (keyed_step u e reason d spend msg)"
  by (rule keepsI, erule keyed_step_cases) (auto simp: beyond_frame)

lemma beyond_ledger:
  "keeps (beyond M) (encumber_customer_engagement u e a t period cap)"
  "keeps (beyond M) (increase_customer_engagement_cap u e n a t period cap)"
  "keeps (beyond M) (release_customer_engagement u e a)" "keeps (beyond M) (get_balance u)"
  unfolding encumber_keyed increase_keyed release_keyed get_balance_ensure
  by (intro beyond_keyed keeps_bind keeps_require keepsI; auto simp: ensure_run beyond_frame)+

lemma beyond_grants:
  "keeps (beyond M) (insert_grant e g)" "keeps (beyond M) (mark_spend_authorization_settled e a t)"
  "keeps (beyond M) (reconcile_spend_authorization_states query account t limit)"
  "keeps (beyond M) (mark_spend_authorization_operator_resolved e a t)"
  unfolding insert_grant_def mark_spend_authorization_settled_def reconcile_spend_authorization_states_def
    reconcile_row_def mark_spend_authorization_operator_resolved_def Let_def
  by (intro keeps_bind keeps_gets keeps_require keeps_ret keeps_raise keeps_case_option keeps_modify keeps_if
    keeps_of_result keeps_fold; simp add: set_grant_def set_session_def)+

interpretation beyond: request_invariant "beyond M" for M
  by unfold_locales (simp_all add: beyond_ledger beyond_grants)

lemma beyond_tables:
  fixes db db' :: "('z clearing_db_scheme)"
  assumes "sessions_db.more db' = sessions_db.more db"
  shows "payments db' = payments db" "create_requests db' = create_requests db" "audits db' = audits db"
  using assms by (cases db; cases db'; simp)+

section \<open>No payment rows\<close>

abbreviation unpaid :: "('z clearing_db_scheme) \<Rightarrow> bool" where
  "unpaid db \<equiv> payments db = []"

lemma unpaid_beyond:
  fixes m :: "('z clearing_db_scheme, 'a) op"
  assumes "\<And>M. keeps (beyond M) m"
  shows "keeps unpaid m"
  by (rule keepsI) (metis keepsD [OF assms refl] beyond_tables(1))

interpretation unpaid: clearing_invariant "unpaid :: ('z clearing_db_scheme) \<Rightarrow> bool"
  by unfold_locales (simp_all add: unpaid_beyond beyond_ledger beyond_grants set_grant_def)

section \<open>The engagement invariant\<close>

definition booked :: "payment_session list \<times> payment_settlement list \<Rightarrow> ('z clearing_db_scheme) \<Rightarrow> bool" where
  "booked B db \<longleftrightarrow> tracked B db \<and> payments db = []"

lemma no_conservative_charge:
  assumes "payments db = []" and "finalize_conservative_full_charge dt job_id now secs evidence db = (r, db')"
  shows "r = Inr False" "db' = db"
  using assms by (auto simp: finalize_conservative_full_charge_def op_run Let_def split: option.splits if_splits)

lemma set_session_row_inv:
  assumes "tracked B db" and "get_session db e = Some row" and "same_account row row'"
  shows "tracked B (set_session e (\<lambda>_. row') db)"
proof -
  have "distinct (map ps_id (sessions db))" using tracked_inv [OF assms(1)] by (simp add: engagement_inv_def)
  then have "s = row" if "s \<in> set (sessions db)" "ps_id s = e" for s
    using get_session_in [OF assms(2)] that by (metis distinct_map inj_onD)
  then have "set_session e (\<lambda>_. row') db = set_session e (\<lambda>s. if s = row then row' else s) db"
    by (simp add: set_session_def update_where_def)
  moreover have "same_account s s" for s by (simp add: same_account_def)
  ultimately show ?thesis using set_session_same_inv [OF assms(1), of "\<lambda>s. if s = row then row' else s"] assms(3) by simp
qed

interpretation engagement_jobs: recovery_invariant "booked B :: ('z clearing_db_scheme) \<Rightarrow> bool"
proof (unfold_locales, goal_cases)
  case (1 db f e)
  then show ?case by (simp add: booked_def set_session_same_inv) (simp add: set_session_def)
next
  case (2 db e row row')
  then show ?case by (simp add: booked_def set_session_row_inv) (simp add: set_session_def)
next
  case (3 db v dt job_id u units bjid wu outcome settlement now settings r db')
  then show ?case unfolding booked_def by (blast intro: settle_job_inv keepsD [OF unpaid.settle])
next
  case (4 db v dt digest job_id exchange now x db')
  then show ?case unfolding booked_def by (blast intro: retain_inv unpaid.non_admission)
next
  case (5 db dt job_id now secs evidence x db')
  then show ?case using no_conservative_charge(2) unfolding booked_def by blast
qed

end
