(* ===== verification/Resolution_Laws.thy ===== *)
theory Resolution_Laws
  imports Resolution Jobs_Laws
begin

text \<open>
  An operator's resolution ends an engagement the way a settlement does: with a bill between zero and the
  cap, and the rest of the hold released.
\<close>

lemma resolution_amounts:
  assumes "wholesale_resolution_amounts trunc row action = Inr (billed, units)"
  obtains cap where "ps_customer_max_debit_wei row = Some cap" "billed = 0 \<or> billed = cap \<or> 0 \<le> billed \<and> billed \<le> cap"
    "action = ''refund_hold'' \<and> billed = 0 \<and> units = None \<or> action = ''charge_full'' \<and> billed = cap \<and> units = None \<or>
     action = ''accept_reported'' \<and> (\<exists>n pricing. units = Some n \<and> reported_units_for trunc row = Inr (Some n) \<and>
       n \<le> ps_max_total_units row \<and> ps_customer_pricing row = Some pricing \<and> reported_charge row pricing n = Inr billed)"
proof -
  from assms obtain cap pricing where row: "ps_customer_max_debit_wei row = Some cap" "ps_customer_pricing row = Some pricing"
    by (auto simp: wholesale_resolution_amounts_def Let_def split: option.splits)
  consider "action = ''refund_hold''" | "action = ''charge_full''"
    | n where "action = ''accept_reported''" "reported_units_for trunc row = Inr (Some n)" "n \<le> ps_max_total_units row"
      "reported_charge row pricing n = Inr billed" "billed \<le> cap" "units = Some n"
  proof (cases "action = ''refund_hold'' \<or> action = ''charge_full''")
    case False
    with assms row have act: "action = ''accept_reported''"
      by (auto simp: wholesale_resolution_amounts_def Let_def split: if_splits)
    with assms row obtain n where n: "reported_units_for trunc row = Inr (Some n)"
      by (auto simp: wholesale_resolution_amounts_def bind_r_Inr_iff split: option.splits)
    with assms row act that(3) [of n] show thesis
      by (cases "reported_charge row pricing n")
         (auto simp: wholesale_resolution_amounts_def Let_def split: if_splits)
  qed (use that in blast)
  then show thesis
  proof cases
    case 3
    then have "0 \<le> billed"
      by (auto simp: reported_charge_def bind_r_Inr_iff split: option.splits if_splits dest: charge_nonneg)
    with 3 row that show ?thesis by blast
  qed (use assms row that in \<open>auto simp: wholesale_resolution_amounts_def\<close>)
qed

lemma catch_reraise: "catch_op m (\<lambda>e. raise (f e)) s = (Inr x, s') \<longleftrightarrow> m s = (Inr x, s')"
  by (auto simp: catch_op_def raise_def split: prod.splits sum.splits)

definition resolved_row :: "string \<Rightarrow> int option \<Rightarrow> wei \<Rightarrow> timestamp \<Rightarrow> payment_session \<Rightarrow> payment_session" where
  "resolved_row action units billed now row = (closing now row)\<lparr>ps_actual_units := units,
     ps_billed_value_wei := Some billed, ps_outcome := Some (''operator_'' @ action)\<rparr>"

definition note_resolution :: "dict \<Rightarrow> payment_session \<Rightarrow> payment_session" where
  "note_resolution resolution s = s\<lparr>ps_breakdown := Some (dict_set ''operator_resolution'' (JObj resolution)
     (dict_pop ''settlement_block'' (breakdown_of s)))\<rparr>"

lemma finalize_resolution_run:
  assumes row: "get_session db (ps_id row) = Some row" and live: "live row"
    and run: "finalize_resolution dt row operator action note a billed refund units now db = (Inr (), db')"
  obtains db1 g db2 where
    "refund_step (ps_user_id row) (ps_id row) refund (set_session (ps_id row) (\<lambda>_. closing now row) db) = (Inr (), db1)"
    "mark_spend_authorization_operator_resolved (ps_id row) a now
       (set_session (ps_id row) (\<lambda>s. s\<lparr>ps_actual_units := units, ps_billed_value_wei := Some billed,
          ps_outcome := Some (''operator_'' @ action)\<rparr>) db1) = (Inr g, db2)"
    "db' = (set_session (ps_id row) (note_resolution (operator_resolution dt operator action note billed refund now)) db2)
       \<lparr>settlements := settlements db2 @ [\<lparr>pe_session_id = ps_id row, pe_recorded_at = now,
          pe_event_type = ''operator_resolve'', pe_actual_units = units, pe_billed_value_wei = Some billed,
          pe_outcome = Some (''operator_'' @ action),
          pe_raw_record = Some (operator_resolution dt operator action note billed refund now)\<rparr>],
        audits := audits db2 @ [resolve_audit operator row action note billed refund]\<rparr>"
proof -
  have tr: "catch_op (transition_state (ps_id row) (ps_state row) ''closed'' now) (\<lambda>e. raise (transition_refused (ps_state row) e)) db =
      (Inr (closing now row), set_session (ps_id row) (\<lambda>_. closing now row) db)"
    using transition_live [OF row live] by (simp add: catch_op_def)
  from run [unfolded finalize_resolution_def Let_def refund_step_def [symmetric] bind_eq_Inr [of "catch_op _ _", OF tr]]
  show thesis
    by (auto simp: bind_Inr_iff [of "refund_step _ _ _"] bind_Inr_iff [of "catch_op _ _"] catch_reraise record_settlement_def
        bind_assoc Let_def op_run set_session_def note_resolution_def [abs_def] intro!: that)
qed

lemma resolve_inv:
  assumes tr: "tracked B db" and run: "resolve_stuck_work dt trunc job_id operator action note now db = (Inr r, db')"
  shows "tracked B db'"
proof -
  from run obtain row a cap billed units where row: "get_session db job_id = Some row" "ps_state row \<in> {''open'', ''draining''}"
    and am: "wholesale_resolution_amounts trunc row action = Inr (billed, units)"
    and cap: "ps_customer_max_debit_wei row = Some cap"
    and fin: "finalize_resolution dt row operator action note a billed (cap - billed) units now db = (Inr (), db')"
    by (auto simp: resolve_stuck_work_def bind_Inr_iff [of "finalize_resolution _ _ _ _ _ _ _ _ _ _"] op_run
        split: option.splits if_splits sum.splits)
  let ?e = "ps_id row"
  have e: "?e = job_id" using get_session_in [OF row(1)] by simp
  have live: "live row" using row(2) by (simp add: live_def)
  from tr have inv: "engagement_inv db" by (rule tracked_inv)
  with row(1) cap have pos: "0 \<le> cap" and none: "\<not> has_entry (ledger db) ?e ''engagement_release''"
    using inv_hold [OF inv row(1)] live by (auto simp: hold_ok_def open_ok_def)
  obtain db1 g db2 where
    f: "refund_step (ps_user_id row) ?e (cap - billed) (set_session ?e (\<lambda>_. closing now row) db) = (Inr (), db1)"
    "mark_spend_authorization_operator_resolved ?e a now
       (set_session ?e (\<lambda>s. s\<lparr>ps_actual_units := units, ps_billed_value_wei := Some billed,
          ps_outcome := Some (''operator_'' @ action)\<rparr>) db1) = (Inr g, db2)" and
    db': "\<exists>r p as. db' = (set_session ?e (note_resolution r) db2)\<lparr>settlements := settlements db2 @ [p], audits := as\<rparr> \<and>
      pe_event_type p \<noteq> ''close''"
    by (rule finalize_resolution_run [OF row(1) [folded e] live fin], rule that, assumption, assumption)
      (intro exI conjI, assumption, simp)
  obtain new where new: "ledger db1 = ledger db @ new" "list_all (about ?e) new" "list_all (\<lambda>r. cl_user_id r = ps_user_id row) new"
    "etotal new ?e = max (cap - billed) 0" "grants db1 = grants db" "settlements db1 = settlements db"
    "sessions db1 = update_where (\<lambda>x. ps_id x = ?e) (\<lambda>_. closing now row) (sessions db)"
    using refund_run [OF f(1)] none by (auto simp: set_session_def)
  let ?d = "set_session ?e (\<lambda>s. s\<lparr>ps_actual_units := units, ps_billed_value_wei := Some billed,
          ps_outcome := Some (''operator_'' @ action)\<rparr>) db1"
  have S: "sessions ?d = update_where (\<lambda>x. ps_id x = ?e) (\<lambda>_. resolved_row action units billed now row) (sessions db)"
    by (simp add: set_session_def new(7) update_where_twice resolved_row_def closing_def)
  have billed: "0 \<le> billed" "billed \<le> cap"
    using am pos cap by (auto elim!: resolution_amounts)
  have "tracked B ?d"
    by (rule ended_inv [OF tr row(1) [folded e] live cap billed S _ _ _ _ _ _ _ _ _ _ _ new(2), where events = "[]"])
       (use cap new billed in \<open>auto simp: resolved_row_def closing_def set_session_def\<close>)
  with f(2) have db2: "tracked B db2" using keepsD [OF operator_resolved_keeps] by blast
  from db' obtain h p as where db': "db' = (set_session ?e (note_resolution h) db2)\<lparr>settlements := settlements db2 @ [p], audits := as\<rparr>"
    and p: "pe_event_type p \<noteq> ''close''" by blast
  have "tracked B (set_session ?e (note_resolution h) db2)"
    by (rule set_session_same_inv [OF db2]) (simp add: same_account_def note_resolution_def)
  with tracked_event [OF p, of B "set_session ?e (note_resolution h) db2"] show ?thesis
    by (simp add: db' tracked_def engagement_inv_def set_session_def)
qed

end
