(* ===== verification/Endpoint_Laws.thy ===== *)
theory Endpoint_Laws
  imports Endpoints Job_Recovery Resolution_Laws
begin

text \<open>
  The handlers around the services: an invariant that does not read the create requests is kept by a handler
  when its service keeps it. Two invariants are combined with \<open>safe_conj\<close>.
\<close>

lemma safe_conj:
  assumes "safe I m" and "safe J m"
  shows "safe (\<lambda>db. I db \<and> J db) m"
  unfolding safe_def
proof (rule tripleI)
  fix s x s' assume "both (\<lambda>db. I db \<and> J db) s" and run: "m s = (Inr x, s')"
  then have "both I s" "both J s" by (auto simp: both_def)
  with assms run show "both (\<lambda>db. I db \<and> J db) s'" unfolding safe_def by (auto simp: both_def dest: tripleD)
next
  fix s e s' assume "both (\<lambda>db. I db \<and> J db) s" and run: "m s = (Inl e, s')"
  then have "both I s" "both J s" by (auto simp: both_def)
  with assms run show "committed (\<lambda>db. I db \<and> J db) s'" unfolding safe_def by (auto simp: committed_def dest: tripleD)
qed

locale request_rows =
  fixes I :: "('z clearing_db_scheme) \<Rightarrow> bool"
  assumes I_create_requests: "I (db\<lparr>create_requests := rs\<rparr>) = I db"
begin

lemma safe_requests: "safe I (write_db (set_request p f))" "safe I (write_db (\<lambda>db. db\<lparr>create_requests := g db\<rparr>))"
  by (rule safe_write_db, simp add: set_request_def I_create_requests)+

lemma claim_request: "safe I (claim_create_request snapshot nid u k op' ik fp now secs)"
  unfolding claim_create_request_def reclaim_request_def insert_request_def Let_def
  by (intro safe_intros safe_requests)

lemma complete_request: "safe I (complete_create_request u op' ik status payload now secs pid)"
  unfolding complete_create_request_def require_create_request_def by (intro safe_intros safe_requests)

lemma fail_request: "safe I (fail_create_request u op' ik status payload now secs tomb)"
  unfolding fail_create_request_def require_create_request_def by (intro safe_intros safe_requests)

lemma release_preparation: "safe I (release_failed_session_preparation u ik claim)"
  unfolding release_failed_session_preparation_def release_session_preparation_claim_def
  by (intro safe_intros safe_requests)

lemma expire_requests: "keeps I (expire_stale_idempotency_keys now)"
  unfolding expire_stale_idempotency_keys_def Let_def
  by (intro keeps_bind keeps_gets keeps_ret keeps_modify) (simp_all add: set_request_def I_create_requests)

text \<open>A handler may roll the failed service back: what is left is the committed database.\<close>

lemma safe_recover:
  assumes "safe I m" and "\<And>e. h e = raise e \<or> (\<exists>k. h e = bind_op rollback (\<lambda>_. k) \<and> safe I k)"
  shows "safe I (catch_op m h)"
  unfolding safe_def
proof (rule tripleI)
  fix s x s' assume s: "both I s" and run: "catch_op m h s = (Inr x, s')"
  obtain r d where m: "m s = (r, d)" by force
  show "both I s'"
  proof (cases r)
    case (Inl e)
    with m s assms(1) have "I (durable d)" unfolding safe_def by (auto simp: committed_def dest: tripleD)
    then have "both I (d\<lparr>working := durable d\<rparr>)" by (simp add: both_def)
    with assms(2) [of e] run m Inl show ?thesis
      unfolding safe_def by (auto simp: catch_op_def raise_def rollback_def bind_op_def modify_def dest: tripleD)
  qed (use m s run assms(1) in \<open>auto simp: catch_op_def safe_def dest: tripleD\<close>)
next
  fix s e' s' assume s: "both I s" and run: "catch_op m h s = (Inl e', s')"
  obtain r d where m: "m s = (r, d)" by force
  show "committed I s'"
  proof (cases r)
    case (Inl e)
    with m s assms(1) have d: "I (durable d)" unfolding safe_def by (auto simp: committed_def dest: tripleD)
    then have "both I (d\<lparr>working := durable d\<rparr>)" by (simp add: both_def)
    with assms(2) [of e] run m Inl d show ?thesis
      unfolding safe_def by (auto simp: committed_def catch_op_def raise_def rollback_def bind_op_def modify_def dest: tripleD)
  qed (use m run in \<open>auto simp: catch_op_def\<close>)
qed

lemma claimed:
  assumes "\<And>rid. safe I (service rid)"
  shows "safe I (claimed_request rp codec success u op' ik now secs service claim)"
proof -
  have "safe I (catch_op (service rid) (record_failure rp u op' ik now secs))" for rid
    by (rule safe_recover [OF assms])
       (auto simp: record_failure_def intro!: safe_intros fail_request split: option.split)
  then show ?thesis unfolding claimed_request_def by (intro safe_intros complete_request)
qed

lemma job_endpoint:
  assumes "\<And>frid rid digest key. safe I (open_job conflict world sign sel many nid frid u k (jr_capability body) (jr_offering body)
      (jr_estimated_units body) (jr_max_total_units body) sdk now settings (jr_transport body) (jr_route_binding body) rid digest key)"
  shows "safe I (open_job_endpoint snapshot conflict rp hash codec world sign sel many nid nrid frid u k body ik sdk now
    settings inflight secs)"
  unfolding open_job_endpoint_def Let_def by (intro safe_bind claim_request claimed safe_of_result assms)

lemma session_endpoint:
  assumes "\<And>rid digest key. safe I (open_session tokens dt conflict world sign sel many nid u k (qs_capability body) (qs_offering body)
      (qs_estimated_runway_units body) (qs_max_total_units body) sdk now settings (qs_descriptor_schema body)
      (qs_route_binding body) rid digest key (qs_gateway_session_id body) (qs_preparation_token body))"
  shows "safe I (open_session_endpoint snapshot conflict rp hash codec tokens dt world sign sel many nid nrid u k body ik
    sdk now settings inflight secs)"
  unfolding open_session_endpoint_def Let_def by (intro safe_bind claim_request claimed safe_of_result assms)

lemma refill_endpoint:
  assumes "\<And>rid units digest. safe I (refill_session world sign e u now settings rid units digest)"
  shows "safe I (refill_session_endpoint snapshot rp hash codec world sign e body nrid u k ik now settings inflight secs)"
  unfolding refill_session_endpoint_def Let_def by (intro safe_bind claim_request claimed safe_of_result assms)

lemma prepare_endpoint:
  "safe I (prepare_session_endpoint snapshot rp hash codec tokens dt sel many nid nrid u k body ik now inflight secs)"
proof -
  have "safe I (catch_op (of_result r) (\<lambda>e. if describe rp e = None then raise e
      else bind_op rollback (\<lambda>_. bind_op (release_failed_session_preparation u ik claim) (\<lambda>_. raise e))))"
    for r :: "error + prepare_session_response" and claim
    by (rule safe_recover [OF safe_of_result]) (auto intro!: safe_intros release_preparation)
  then show ?thesis unfolding prepare_session_endpoint_def Let_def by (intro safe_intros claim_request complete_request)
qed

end

sublocale clearing_invariant \<subseteq> rows: request_rows I
  by unfold_locales (rule I_requests)

interpretation booked_rows: request_rows "booked B :: ('z clearing_db_scheme) \<Rightarrow> bool"
  by unfold_locales (simp add: booked_def tracked_def engagement_inv_def)

end
