(* ===== verification/Engagement_System.thy ===== *)
theory Engagement_System
  imports Endpoint_Laws
begin

text \<open>
  The clearinghouse as a transition system: every request, operator action and janitor that touches an engagement,
  a grant, a create request or a customer balance, each in its own transaction (\<open>session_scope\<close>), with any
  arguments the request models accept and whatever the broker, the daemon and the registry answer. The theorems are
  about every reachable database.
\<close>

section \<open>The transition system\<close>

lemma safe_scope:
  assumes "safe I m" and "I db" and "session_scope m db = (r, db')"
  shows "I db'"
proof -
  obtain q s where m: "m \<lparr>working = db, durable = db\<rparr> = (q, s)" by force
  have "both I \<lparr>working = db, durable = db\<rparr>" using assms(2) by (simp add: both_def)
  note t = tripleD [OF assms(1) [unfolded safe_def] this]
  show ?thesis
  proof (cases q)
    case (Inl e)
    with t(2) m assms(3) show ?thesis by (auto simp: session_scope_def committed_def)
  next
    case (Inr x)
    with t(1) m assms(3) show ?thesis by (auto simp: session_scope_def both_def)
  qed
qed

lemma scope_on_db: "session_scope (on_db m) db = (case m db of (Inr x, d) \<Rightarrow> (Inr x, d) | (Inl e, d) \<Rightarrow> (Inl e, db))"
  by (simp add: session_scope_def on_db_def split: prod.splits sum.splits)

lemma posted_plain:
  fixes db :: "('z sessions_db_scheme)"
  assumes "tracked B db" and "cl_related_engagement_id r = None"
  shows "tracked B (posted r db)"
proof -
  note more = sessions_of_more [of "posted r db" db, OF posted_simps(6)]
  have "hold_ok (ledger db @ [r]) K s = hold_ok (ledger db) K s" for K s
    using assms(2) by (simp add: hold_ok_def open_ok_def closed_ok_def etotal_def has_entry_def)
  with assms more show ?thesis
    by (simp add: tracked_def engagement_inv_def owned_def)
qed

lemma ensured_tracked:
  fixes db :: "('z sessions_db_scheme)"
  shows "tracked B db \<Longrightarrow> tracked B (ensured u db)"
  using tracked_cong [of "ensured u db" db B] sessions_of_more [of "ensured u db" db, OF ensured_simps(6)] by simp

lemma apply_delta_plain: "keeps (tracked B) (apply_delta u d reason p None t o')"
  by (rule keepsI) (auto simp: apply_delta_run intro!: posted_plain ensured_tracked split: if_splits)

lemma tracked_billing_fields:
  "tracked B (db\<lparr>topups := a\<rparr>) = tracked B db" "tracked B (db\<lparr>configs := c\<rparr>) = tracked B db"
  "tracked B (db\<lparr>server_now := n\<rparr>) = tracked B db"
  by (simp_all add: tracked_def engagement_inv_def)

lemma topup_plain: "keeps (tracked B) (topup tid u a kind op)"
  unfolding topup_def Let_def
  by (intro keeps_bind keeps_ret keeps_modify apply_delta_plain) (simp add: tracked_billing_fields)

lemma grant_plain: "keeps (tracked B) (grant_initial_credit tid u a op)"
  unfolding grant_initial_credit_def Let_def
  by (intro keeps_bind keeps_if keeps_ret keeps_modify apply_delta_plain) (simp add: tracked_billing_fields)

lemma ensure_plain: "keeps (tracked B) (ensure_balance_row u)"
  by (rule keepsI) (auto simp: ensure_run intro: ensured_tracked)

lemma get_balance_plain: "keeps (tracked B) (get_balance u)"
  by (rule keepsI) (rule get_balance_inv)

lemma replenish_job_plain: "keeps (tracked B) (run_auto_replenish new_id settings)"
  unfolding run_auto_replenish_def replenish_user_def resolve_billing_config_def get_billing_config_def bind_assoc
  by (intro keeps_bind keeps_gets keeps_fold keeps_ret keeps_if topup_plain ensure_plain)

inductive engagement_step :: "('z clearing_db_scheme) \<Rightarrow> ('z clearing_db_scheme) \<Rightarrow> bool" where
  es_tick: "engagement_step db (db\<lparr>server_now := t\<rparr>)"
| es_grant: "session_scope (on_db (grant_initial_credit tid u a op)) db = (r1, db') \<Longrightarrow> engagement_step db db'"
| es_topup: "session_scope (on_db (topup tid u a kind op')) db = (r2, db') \<Longrightarrow> engagement_step db db'"
| es_replenish: "session_scope (on_db (run_auto_replenish new_id bsettings)) db = (r3, db') \<Longrightarrow> engagement_step db db'"
| es_open: "(\<And>other. conflict = Some other \<Longrightarrow> engagement_step db other) \<Longrightarrow> constructed sel many \<Longrightarrow> 0 < units \<Longrightarrow>
    session_scope (open_session codec dt conflict world sign sel many nid u k cap off est units sdk now
      settings schema binding rid digest key gid token) db = (r4, db') \<Longrightarrow> engagement_step db db'"
| es_open_request: "(\<And>other. conflict = Some other \<Longrightarrow> engagement_step db other) \<Longrightarrow> constructed sel many \<Longrightarrow>
    0 < qs_max_total_units sbody \<Longrightarrow>
    session_scope (open_session_endpoint snapshot conflict rp hash scodec codec dt world sign sel many nid nrid u k sbody ik
      sdk now settings inflight secs) db = (r4, db') \<Longrightarrow> engagement_step db db'"
| es_prepare: "session_scope (prepare_session_endpoint snapshot rp hash pcodec codec dt sel many nid nrid u k pbody ik now
      inflight secs) db = (r10, db') \<Longrightarrow> engagement_step db db'"
| es_job: "(\<And>other. conflict = Some other \<Longrightarrow> engagement_step db other) \<Longrightarrow> constructed sel many \<Longrightarrow> 0 < est \<Longrightarrow>
    session_scope (open_job conflict world sign sel many nid frid u k cap off est most sdk now settings
      transport binding req digest key) db = (r11, db') \<Longrightarrow> engagement_step db db'"
| es_open_job: "(\<And>other. conflict = Some other \<Longrightarrow> engagement_step db other) \<Longrightarrow> constructed sel many \<Longrightarrow>
    CreateJobRequest jbody \<Longrightarrow>
    session_scope (open_job_endpoint snapshot conflict rp hash jcodec world sign sel many nid nrid frid u k jbody ik
      sdk now settings inflight secs) db = (r11, db') \<Longrightarrow> engagement_step db db'"
| es_refill: "session_scope (refill_session world sign e u now settings rid units digest) db = (r5, db') \<Longrightarrow>
    engagement_step db db'"
| es_refill_request: "session_scope (refill_session_endpoint snapshot rp hash rcodec world sign e rbody nrid u k ik now
      settings inflight secs) db = (r5, db') \<Longrightarrow> engagement_step db db'"
| es_close: "session_scope (on_db (close_session v dt e u units outcome settlement now)) db = (r6, db') \<Longrightarrow>
    engagement_step db db'"
| es_settle: "session_scope (on_db (settle_job v dt e u units bjid wu outcome envelope now bsettings)) db = (r12, db') \<Longrightarrow>
    engagement_step db db'"
| es_resolve: "session_scope (on_db (resolve_stuck_work dt trunc e who action remark now)) db = (r13, db') \<Longrightarrow>
    engagement_step db db'"
| es_release: "session_scope (release_unauthorized_engagement e now) db = (r7, db') \<Longrightarrow> engagement_step db db'"
| es_release_stale: "session_scope (release_stale_unauthorized_engagements now secs limit) db = (r8, db') \<Longrightarrow>
    engagement_step db db'"
| es_grants: "session_scope (on_db (reconcile_spend_authorization_states query account now limit)) db = (r8, db') \<Longrightarrow>
    engagement_step db db'"
| es_sessions: "session_scope (on_db (reconcile_open_sessions v dt fetch now interval limit)) db = (r8, db') \<Longrightarrow>
    engagement_step db db'"
| es_jobs: "session_scope (on_db (reconcile_open_jobs v dt evidence trunc brokers now bsettings charge_after interval limit)) db =
    (r8, db') \<Longrightarrow> engagement_step db db'"
| es_account: "session_scope (replenish_active_wholesale_account aworld candidate now settings) db = (r9, db') \<Longrightarrow>
    engagement_step db db'"
| es_expire: "session_scope (on_db (expire_stale_idempotency_keys now)) db = (r8, db') \<Longrightarrow> engagement_step db db'"
| es_deposit: "session_scope (on_db (snapshot_deposit reply now)) db = (r14, db') \<Longrightarrow> engagement_step db db'"

definition engagements_empty :: "('z clearing_db_scheme) \<Rightarrow> bool" where
  "engagements_empty db \<longleftrightarrow> ledger db = [] \<and> sessions db = [] \<and> grants db = [] \<and> payments db = []"

lemma keeps_scope: "keeps I m \<Longrightarrow> I db \<Longrightarrow> session_scope (on_db m) db = (r, db') \<Longrightarrow> I db'"
  by (rule safe_scope [OF safe_on_db]) (auto dest: keepsD)

lemma returns_scope:
  "(\<And>db x db'. I db \<Longrightarrow> m db = (Inr x, db') \<Longrightarrow> I db') \<Longrightarrow> I db \<Longrightarrow> session_scope (on_db m) db = (r, db') \<Longrightarrow> I db'"
  by (rule safe_scope [OF safe_on_db])

text \<open>A step keeps every invariant that the operations of a request keep.\<close>

context clearing_invariant
begin

lemma deposit: "keeps I (snapshot_deposit reply now)"
  unfolding snapshot_deposit_def Let_def
  by (intro keeps_bind keeps_of_result keeps_gets keeps_require keeps_ret keeps_modify) (simp add: I_deposits)

lemma step:
  assumes tick: "\<And>db t. I db \<Longrightarrow> I (db\<lparr>server_now := t\<rparr>)"
    and credit: "\<And>tid u a op. keeps I (grant_initial_credit tid u a op)" "\<And>tid u a kind op. keeps I (topup tid u a kind op)"
      "\<And>nid s. keeps I (run_auto_replenish nid s)"
    and "engagement_step db db'" and "I db"
  shows "I db'"
proof -
  note kept = credit [THEN keeps_scope] keeps_scope [OF close] keeps_scope [OF settle] keeps_scope [OF resolve]
    keeps_scope [OF I_reconcile] keeps_scope [OF sessions_janitor] keeps_scope [OF rows.expire_requests] keeps_scope [OF deposit]
  note safely = safe_scope [OF refill] safe_scope [OF release] safe_scope [OF release_stale]
    safe_scope [OF safe_replenish_active] safe_scope [OF rows.prepare_endpoint] safe_scope [OF rows.refill_endpoint [OF refill]]
  from assms(5,6) show ?thesis
  proof (induction rule: engagement_step.induct)
    case (es_open conflict db)
    then show ?case using open_request safe_scope by metis
  next
    case (es_open_request conflict db)
    from es_open_request.IH es_open_request.prems have other: "\<And>o'. conflict = Some o' \<Longrightarrow> I o'" by blast
    show ?case by (rule safe_scope [OF rows.session_endpoint es_open_request.prems es_open_request.hyps(4)])
      (rule open_request, erule other)
  next
    case (es_job conflict db)
    then show ?case using open_job_request safe_scope by metis
  next
    case (es_open_job conflict db)
    from es_open_job.IH es_open_job.prems have other: "\<And>o'. conflict = Some o' \<Longrightarrow> I o'" by blast
    show ?case by (rule safe_scope [OF rows.job_endpoint es_open_job.prems es_open_job.hyps(4)])
      (rule open_job_request, erule other)
  next
    case (es_jobs v dt evidence trunc brokers now bsettings charge_after interval limit db)
    then show ?case by (elim returns_scope [rotated -1]) (auto dest: jobs.reconcile_jobs_inv)
  next
    case (es_tick db t)
    then show ?case by (simp add: tick)
  qed (erule kept [rotated] safely [rotated], assumption)+
qed

end

section \<open>Every step keeps the engagements\<close>

lemma booked_conj: "booked B = (\<lambda>db. tracked B db \<and> unpaid db)"
  by (simp add: fun_eq_iff booked_def)

lemma booked_safe: "safe (tracked B) m \<Longrightarrow> safe unpaid m \<Longrightarrow> safe (booked B) m"
  unfolding booked_conj by (rule safe_conj)

lemma booked_keeps: "keeps (tracked B) m \<Longrightarrow> keeps unpaid m \<Longrightarrow> keeps (booked B) m"
  by (simp add: booked_conj keeps_def)

lemma unpaid_delta: "keeps unpaid (apply_delta u d reason p e t o')"
  by (rule unpaid_beyond, rule keepsI) (auto simp: apply_delta_run beyond_frame split: if_splits)

lemma unpaid_credit:
  "keeps unpaid (grant_initial_credit tid u a op)" "keeps unpaid (topup tid u a kind op')" "keeps unpaid (run_auto_replenish nid s)"
proof -
  show top: "keeps unpaid (topup tid u a kind op')" for tid u a kind op'
    unfolding topup_def Let_def by (intro keeps_bind keeps_ret keeps_modify unpaid_delta) simp
  show "keeps unpaid (grant_initial_credit tid u a op)"
    unfolding grant_initial_credit_def Let_def
    by (intro keeps_bind keeps_if keeps_ret keeps_modify unpaid_delta) simp
  show "keeps unpaid (run_auto_replenish nid s)"
    unfolding run_auto_replenish_def replenish_user_def resolve_billing_config_def get_billing_config_def bind_assoc
    by (intro keeps_bind keeps_gets keeps_fold keeps_ret keeps_if top unpaid_beyond [OF beyond_ledger(4) [unfolded get_balance_ensure]])
qed

lemma booked_step: "engagement_step db db' \<Longrightarrow> booked B db \<Longrightarrow> booked B db'"
proof -
  note kept = booked_keeps [OF grant_plain unpaid_credit(1), THEN keeps_scope]
    booked_keeps [OF topup_plain unpaid_credit(2), THEN keeps_scope]
    booked_keeps [OF replenish_job_plain unpaid_credit(3), THEN keeps_scope]
    booked_keeps [OF reconcile_states_keeps unpaid.I_reconcile, THEN keeps_scope]
    keeps_scope [OF booked_rows.expire_requests]
  note safely = booked_safe [OF refill_safe unpaid.refill, THEN safe_scope]
    booked_safe [OF release_unauthorized_safe unpaid.release, THEN safe_scope]
    booked_safe [OF release_stale_safe unpaid.release_stale, THEN safe_scope]
    booked_safe [OF engagement.safe_replenish_active unpaid.safe_replenish_active, THEN safe_scope]
    safe_scope [OF booked_rows.prepare_endpoint]
    safe_scope [OF booked_rows.refill_endpoint [OF booked_safe [OF refill_safe unpaid.refill]]]
  assume "engagement_step db db'" and "booked B db"
  then show "booked B db'"
  proof (induction rule: engagement_step.induct)
    case (es_tick db t)
    then show ?case by (simp add: booked_def tracked_billing_fields)
  next
    case (es_deposit reply now db)
    have "keeps (tracked B) (snapshot_deposit reply now)" for reply now
      unfolding snapshot_deposit_def Let_def
      by (intro keeps_bind keeps_of_result keeps_gets keeps_require keeps_ret keeps_modify) (simp add: tracked_def engagement_inv_def)
    from keeps_scope [OF booked_keeps [OF this unpaid.deposit]] es_deposit show ?case by blast
  next
    case (es_open conflict db sel many units)
    have "safe (booked B) (open_session codec dt conflict world sign sel many nid u k cap off est units sdk now
      settings schema binding rid digest key gid token)"
      for codec dt world sign nid u k cap off est sdk now settings schema binding rid digest key gid token
      using es_open.IH es_open.prems es_open.hyps(2,3)
      by (intro booked_safe open_safe unpaid.open_request) (auto simp: booked_def)
    from safe_scope [OF this es_open.prems es_open.hyps(4)] show ?case .
  next
    case (es_open_request conflict db sel many sbody)
    show ?case
      by (rule safe_scope [OF booked_rows.session_endpoint es_open_request.prems es_open_request.hyps(4)])
         (use es_open_request in \<open>auto simp: booked_def intro!: booked_safe open_safe unpaid.open_request\<close>)
  next
    case (es_job conflict db sel many est)
    have "safe (booked B) (open_job conflict world sign sel many nid frid u k cap off est most sdk now settings
      transport binding req digest key)"
      for world sign nid frid u k cap off most sdk now settings transport binding req digest key
      using es_job.IH es_job.prems es_job.hyps(2,3)
      by (intro booked_safe open_job_safe unpaid.open_job_request) (auto simp: booked_def)
    from safe_scope [OF this es_job.prems es_job.hyps(4)] show ?case .
  next
    case (es_open_job conflict db sel many jbody)
    show ?case
      by (rule safe_scope [OF booked_rows.job_endpoint es_open_job.prems es_open_job.hyps(4)])
         (use es_open_job in \<open>auto simp: booked_def CreateJobRequest_def intro!: booked_safe open_job_safe unpaid.open_job_request\<close>)
  next
    case (es_close v dt e u units outcome settlement now db)
    then show ?case
      by (elim returns_scope [rotated -1]) (auto simp: booked_def dest: close_session_inv keepsD [OF unpaid.close])
  next
    case (es_settle v dt e u units bjid wu outcome envelope now bsettings db)
    then show ?case by (elim returns_scope [rotated -1]) (auto intro: engagement_jobs.R_settle)
  next
    case (es_resolve dt trunc e who action remark now db)
    then show ?case
      by (elim returns_scope [rotated -1]) (auto simp: booked_def dest: resolve_inv keepsD [OF unpaid.resolve])
  next
    case (es_sessions v dt fetch now interval limit db)
    then show ?case
      by (elim returns_scope [rotated -1])
         (auto simp: booked_def dest: reconcile_open_sessions_inv keepsD [OF unpaid.sessions_janitor])
  next
    case (es_jobs v dt evidence trunc brokers now bsettings charge_after interval limit db)
    then show ?case by (elim returns_scope [rotated -1]) (auto dest: engagement_jobs.reconcile_jobs_inv)
  qed (erule kept [rotated] safely [rotated], assumption)+
qed

text \<open>The invariant of a reachable database.\<close>

definition clearing_inv :: "('z clearing_db_scheme) \<Rightarrow> bool" where
  "clearing_inv db \<longleftrightarrow> engagement_inv db \<and> payments db = []"

lemma booked_self: "clearing_inv db \<Longrightarrow> booked (sessions db, settlements db) db"
  by (simp add: clearing_inv_def booked_def tracked_self)

lemma booked_inv: "booked B db \<Longrightarrow> clearing_inv db"
  by (auto simp: clearing_inv_def booked_def dest: tracked_inv)

interpretation engagements: transition_system engagements_empty engagement_step clearing_inv
proof
  show "engagements_empty s \<Longrightarrow> clearing_inv s" for s :: "('z clearing_db_scheme)"
    by (simp add: engagements_empty_def clearing_inv_def engagement_inv_def)
  show "clearing_inv s \<Longrightarrow> engagement_step s s' \<Longrightarrow> clearing_inv s'" for s s' :: "('z clearing_db_scheme)"
    using booked_step booked_self booked_inv by blast
qed

lemma reachable_inv: "engagements_empty db0 \<Longrightarrow> engagement_step\<^sup>*\<^sup>* db0 db \<Longrightarrow> engagement_inv db"
  using engagements.inv_reachable by (auto simp: clearing_inv_def)

lemma session_row_step:
  assumes "clearing_inv db" and "engagement_step db db'" and "get_session db e = Some s"
  shows "\<exists>t. get_session db' e = Some t \<and> session_le s t"
proof -
  have tr: "tracked (sessions db, settlements db) db'" using booked_step [OF assms(2) booked_self [OF assms(1)]] by (simp add: booked_def)
  from get_session_in [OF assms(3)] tr obtain t where t: "t \<in> set (sessions db')" "session_le s t" "ps_id s = e"
    by (auto simp: tracked_def evolves_def)
  moreover have "get_session db' e = Some t"
    using find_key_unique [of ps_id "sessions db'" t] t tracked_inv [OF tr]
    by (simp add: get_session_def engagement_inv_def session_le_def)
  ultimately show ?thesis by blast
qed

interpretation session_rows: monotone_rows engagements_empty engagement_step clearing_inv get_session session_le
  by unfold_locales (auto intro: session_le_trans session_row_step)

section \<open>Every step keeps the ledger\<close>

lemma keeps_inv_auto_replenish: "keeps billing_inv (run_auto_replenish new_id settings)"
  unfolding run_auto_replenish_def by auto

lemma engagement_step_solvent: "engagement_step db db' \<Longrightarrow> billing_inv db \<Longrightarrow> billing_inv db'"
  by (rule solvent.step)
     (auto simp: billing_inv_frame intro: keeps_inv_grant keeps_inv_topup keeps_inv_auto_replenish)

definition books_empty :: "('z clearing_db_scheme) \<Rightarrow> bool" where
  "books_empty db \<longleftrightarrow> engagements_empty db \<and> billing_empty db"

interpretation books: transition_system books_empty engagement_step
  "\<lambda>db :: ('z clearing_db_scheme). clearing_inv db \<and> billing_inv db"
proof
  fix s s' :: "('z clearing_db_scheme)"
  show "books_empty s \<Longrightarrow> clearing_inv s \<and> billing_inv s"
    by (simp add: books_empty_def engagements.inv_init billing_inv_empty)
  show "clearing_inv s \<and> billing_inv s \<Longrightarrow> engagement_step s s' \<Longrightarrow> clearing_inv s' \<and> billing_inv s'"
    using engagements.inv_step engagement_step_solvent by blast
qed

section \<open>Every step advances the grants\<close>

lemma engagement_step_granted: "engagement_step db db' \<Longrightarrow> granted B db \<Longrightarrow> granted B db'"
  by (rule grant_progress.step) (simp_all add: granted_plain granted_topup, simp add: granted_def)

definition grant_by_id :: "('z clearing_db_scheme) \<Rightarrow> string \<Rightarrow> spend_authorization_grant option" where
  "grant_by_id db a = find (\<lambda>g. gr_authorization_id g = a) (grants db)"

interpretation grant_rows: monotone_rows engagements_empty engagement_step
  "\<lambda>db :: ('z clearing_db_scheme). distinct (map gr_authorization_id (grants db))" grant_by_id grant_le
proof
  fix s s' :: "('z clearing_db_scheme)" and k r
  show "engagements_empty s \<Longrightarrow> distinct (map gr_authorization_id (grants s))"
    by (simp add: engagements_empty_def)
  assume "distinct (map gr_authorization_id (grants s))" and step: "engagement_step s s'"
  then have g: "granted (grants s) s" by (auto simp: granted_def intro: grant_le_refl)
  from engagement_step_granted [OF step g] show "distinct (map gr_authorization_id (grants s'))" by (simp add: granted_def)
  assume "grant_by_id s k = Some r"
  then have r: "r \<in> set (grants s)" "gr_authorization_id r = k" by (auto simp: grant_by_id_def dest: find_SomeD)
  with engagement_step_granted [OF step g] obtain h where h: "h \<in> set (grants s')" "grant_le r h" "distinct (map gr_authorization_id (grants s'))"
    by (auto simp: granted_def)
  from h(2) obtain st rt where "h = r\<lparr>gr_state := st, gr_retired_at := rt\<rparr>" unfolding grant_le_def by blast
  with r have "gr_authorization_id h = k" by simp
  with find_key_unique [OF h(3,1)] h(2) show "\<exists>r'. grant_by_id s' k = Some r' \<and> grant_le r r'"
    by (auto simp: grant_by_id_def)
qed (simp_all add: grant_le_trans)

end
