(* ===== verification/Settlement_Properties.thy ===== *)
theory Settlement_Properties
  imports Settlement
begin

text \<open>
  What a verified envelope guarantees: the key was delegated when it signed, the evidence is bound to
  the expected identity and quote, and the billed value is the normative one and within the
  authorization. A concrete verifier instantiates the packages the module relies on.
\<close>

section \<open>Delegation\<close>

lemma datetime_le_Inr [simp]: "datetime_le x (Aware t) = Inr b \<longleftrightarrow> (\<exists>u. x = Aware u \<and> b = (u \<le> t))"
  "datetime_le (Aware t) x = Inr b \<longleftrightarrow> (\<exists>u. x = Aware u \<and> b = (t \<le> u))"
  by (cases x; auto simp: datetime_le_def)+

definition delegated :: "verifier \<Rightarrow> string \<Rightarrow> timestamp \<Rightarrow> delegation \<Rightarrow> bool" where
  "delegated v key at d \<longleftrightarrow> dg_public_key d = Some (JStr key) \<and>
     (\<exists>nb ex. delegation_date v (dg_not_before d) = Inr (Aware nb) \<and>
        delegation_date v (dg_expires_at d) = Inr (Aware ex) \<and> nb \<le> at \<and> at \<le> ex)"

lemma authorize_key_Inr: "authorize_key v key at ds = Inr u \<Longrightarrow> \<exists>d \<in> set ds. delegated v key at d"
proof (induction ds)
  case (Cons d ds)
  then show ?case
    by (auto simp: bind_r_Inr_iff delegated_def split: if_splits)
qed simp

definition signed_by :: "verifier \<Rightarrow> (string \<times> json) list \<Rightarrow> string \<Rightarrow> bool" where
  "signed_by v env key \<longleftrightarrow> (\<exists>payload signature canonical.
     envelope_parts env = Inr (payload, signature) \<and> canonicalize v payload = Inr canonical \<and>
     recover_public_key v canonical (json_get signature ''value'') = Inr key)"

lemma verify_envelope_Inr:
  assumes "verify_envelope v env keys = Inr (record, at, key)"
  shows "signed_by v env key" "\<exists>d \<in> set keys. delegated v key at d"
    "\<exists>payload signature. envelope_parts env = Inr (payload, signature) \<and> parse_record v payload = Inr record \<and>
       parse_issued_at v (json_get payload ''issued_at'') = Inr at"
  using assms
  by (auto simp: verify_envelope_def bind_r_Inr_iff signed_by_def dest!: authorize_key_Inr split: prod.splits)

lemma authorization_accounting_Inr:
  assumes "verify_authorization_accounting r (Some aid) av billed = Inr u"
  shows "st_authorization_id r = aid" "st_work_id r = aid" "av = Some (big (st_authorized_value_wei r))"
    "billed + big (st_released_value_wei r) \<le> big (st_authorized_value_wei r)"
    "billed \<le> big (st_authorized_value_wei r)"
  using assms by (auto simp: verify_authorization_accounting_def bind_r_Inr_iff Let_def split: option.splits)

section \<open>Jobs\<close>

text \<open>C26. A job settlement that verifies was signed by a key delegated for this route at its issue time,
  names the expected account, domain, request, job, work and quote, and its units agree and stay within
  the ceiling. For an authorization-backed job the billed value is the smallest whole number of wei that
  covers units times price (the exact ceiling), never above the authorized value.\<close>

theorem job_settlement_sound:
  assumes "verify_job_settlement v env keys e = Inr r" and "je_authorization_id e = Some aid"
    and "je_authorized_value_wei e = Some ceiling"
  shows "signed_by v env (vj_signing_public_key r) \<and>
    (\<exists>d \<in> set keys. delegated v (vj_signing_public_key r) (vj_issued_at r) d) \<and>
    (\<exists>payload signature rec. envelope_parts env = Inr (payload, signature) \<and> parse_record v payload = Inr rec \<and>
       st_request_id rec = je_request_id e \<and> st_job_id rec = je_job_id e \<and> st_work_id rec = aid \<and>
       st_wholesale_account_id rec = je_wholesale_account_id e \<and>
       st_settlement_domain_id rec = je_settlement_domain_id e \<and> st_accepted_quote_ref rec = je_quote_ref e \<and>
       st_outcome rec \<noteq> ''DEBIT_FAILED'') \<and>
    vj_actual_units r = je_actual_units e \<and> vj_actual_units r \<le> je_max_total_units e \<and>
    vj_actual_units r * je_amount_wei e \<le> vj_billed_value_wei r * je_per_units e \<and>
    vj_billed_value_wei r * je_per_units e < vj_actual_units r * je_amount_wei e + je_per_units e \<and>
    0 \<le> vj_billed_value_wei r \<and> vj_billed_value_wei r \<le> ceiling"
proof -
  obtain rec at key where env: "verify_envelope v env keys = Inr (rec, at, key)"
    using assms(1) by (auto simp: verify_job_settlement_def bind_r_Inr_iff)
  have facts: "st_outcome rec \<noteq> ''DEBIT_FAILED''" "st_wholesale_account_id rec = je_wholesale_account_id e"
    "st_settlement_domain_id rec = je_settlement_domain_id e" "st_request_id rec = je_request_id e"
    "st_job_id rec = je_job_id e" "st_accepted_quote_ref rec = je_quote_ref e"
    "st_actual_units rec = je_actual_units e" "st_debited_units rec = je_actual_units e"
    "st_actual_units rec \<le> je_max_total_units e"
    "bill (st_debited_units rec) (je_amount_wei e) (je_per_units e) = Inr (big (st_billed_value_wei rec))"
    "verify_authorization_accounting rec (Some aid) (Some ceiling) (big (st_billed_value_wei rec)) = Inr ()"
    "r = \<lparr>vj_actual_units = st_actual_units rec, vj_billed_value_wei = big (st_billed_value_wei rec),
      vj_outcome = st_outcome rec, vj_issued_at = at, vj_signing_public_key = key\<rparr>"
    using assms env
    by (auto simp: verify_job_settlement_def bind_r_Inr_iff reject_failed_debit_def verify_settlement_domain_def
        job_normative_bill_def Let_def)
  have "0 \<le> st_debited_units rec \<and> 0 \<le> je_amount_wei e \<and> 0 < je_per_units e"
    using facts(10) by (auto simp: bill_def split: if_splits)
  then have "st_debited_units rec * je_amount_wei e \<le> big (st_billed_value_wei rec) * je_per_units e"
    "big (st_billed_value_wei rec) * je_per_units e < st_debited_units rec * je_amount_wei e + je_per_units e"
    using settlement_bill.bill_covers facts(10) by force+
  moreover note acc = authorization_accounting_Inr [OF facts(11)]
  ultimately show ?thesis
    using verify_envelope_Inr [OF env] facts by auto
qed

text \<open>A concrete verifier: fixed answers of the packages, and one job record.\<close>

definition demo_quote :: quote_ref where
  "demo_quote = \<lparr>qr_quote_id = ''q1'', qr_quote_version = 1, qr_constraint_fingerprint = [1],
     qr_route_fingerprint = [2]\<rparr>"

definition demo_record :: settlement_record where
  "demo_record = \<lparr>st_wholesale_account_id = ''loc'', st_settlement_domain_id = ''0xd'', st_request_id = ''req'',
     st_job_id = ''job'', st_gateway_session_id = [], st_session_id = [], st_work_id = ''auth'',
     st_predecessor_work_id = [], st_rotation_generation = 0, st_work_unit_name = ''token'',
     st_actual_units = 7, st_billed_units = 7, st_claimed_units = 7, st_debited_units = 7,
     st_generation_debited_units = 0, st_payment_cumulative_units = 0, st_accepted_quote_ref = demo_quote,
     st_amount_wei = [3], st_per_units = 2, st_billed_value_wei = [11], st_funded_value_wei = [],
     st_generation_billed_value_wei = [], st_authorization_id = ''auth'', st_authorized_value_wei = [20],
     st_reserved_value_wei = [], st_released_value_wei = [9], st_settlement_seq = 1, st_state = [],
     st_outcome = ''SETTLED'', st_breakdown = []\<rparr>"

definition demo_session_record :: settlement_record where
  "demo_session_record = demo_record\<lparr>st_job_id := [], st_gateway_session_id := ''gw'', st_session_id := ''bs'',
     st_state := ''closed'', st_claimed_units := 9,
     st_breakdown := [(''termination_reason'', ''authorization_exhausted'')]\<rparr>"

definition demo_non_admission :: non_admission_record where
  "demo_non_admission = \<lparr>na_outcome = ''NOT_ADMITTED'', na_wholesale_account_id = ''loc'',
     na_settlement_domain_id = ''0xd'', na_protocol = ''paid-job/v1'', na_request_id = ''req'', na_work_id = ''auth'',
     na_sender = [1], na_recipient = [2], na_accepted_quote_ref = demo_quote, na_broker_eth_address = ''0xB'',
     na_observed_at = ''b'', na_coverage_started_at = ''a''\<rparr>"

text \<open>The toy date parser reads the first letter.\<close>

definition demo_verifier :: "settlement_record \<Rightarrow> verifier" where
  "demo_verifier rec = \<lparr>vf_jcs = (\<lambda>_. Some [1]), vf_recover = (\<lambda>_ _. Some [4]),
     vf_fromisoformat = (\<lambda>s. Some (Aware (of_char (hd s)))), vf_parse_record = (\<lambda>_. Some rec),
     vf_parse_non_admission = (\<lambda>_. Some demo_non_admission)\<rparr>"

lemma demo_verifier_simps [simp]:
  "vf_jcs (demo_verifier rec) = (\<lambda>_. Some [1])" "vf_recover (demo_verifier rec) = (\<lambda>_ _. Some [4])"
  "vf_fromisoformat (demo_verifier rec) = (\<lambda>s. Some (Aware (of_char (hd s))))"
  "vf_parse_record (demo_verifier rec) = (\<lambda>_. Some rec)"
  "vf_parse_non_admission (demo_verifier rec) = (\<lambda>_. Some demo_non_admission)"
  by (simp_all add: demo_verifier_def)

lemma demo_texts: "hex [4 :: byte] = ''04''" "lower ''0xB'' = lower ''0xb''"
  by code_simp+

definition demo_key :: string where
  "demo_key = ''0x0404''"

definition demo_envelope :: "(string \<times> json) list" where
  "demo_envelope = [(''payload'', JObj [(''issued_at'', JStr ''b'')]),
     (''signature'', JObj [(''algorithm'', JStr ''secp256k1''), (''canonicalization'', JStr ''jcs''),
        (''value'', JStr (''0x'' @ hex (replicate 64 0 @ [27])))])]"

definition demo_delegations :: "delegation list" where
  "demo_delegations = [\<lparr>dg_public_key = Some (JStr demo_key), dg_not_before = Some ''a'', dg_expires_at = Some ''c''\<rparr>]"

lemma demo_recover:
  "recover_public_key (demo_verifier rec) canonical (Some (JStr (''0x'' @ hex (replicate 64 0 @ [27])))) = Inr demo_key"
  unfolding recover_public_key_def
  using demo_texts(1) by (simp add: fromhex_hex nth_append demo_key_def Let_def del: hex_simps)

lemma demo_parts: "envelope_parts demo_envelope = Inr ([(''issued_at'', JStr ''b'')],
    [(''algorithm'', JStr ''secp256k1''), (''canonicalization'', JStr ''jcs''),
     (''value'', JStr (''0x'' @ hex (replicate 64 0 @ [27])))])"
  by (simp add: envelope_parts_def demo_envelope_def json_get_def)

lemma demo_authorize: "authorize_key (demo_verifier rec) demo_key 98 demo_delegations = Inr ()"
  by (simp add: demo_delegations_def delegation_date_def replace_Z_def datetime_le_def)

lemma demo_verify_envelope: "verify_envelope (demo_verifier rec) demo_envelope demo_delegations = Inr (rec, 98, demo_key)"
  using demo_recover demo_authorize
  by (simp add: verify_envelope_def demo_parts json_get_def)
     (simp add: canonicalize_def parse_issued_at_def parse_timestamp_def parse_record_def replace_Z_def)

definition demo_job_expectation :: job_settlement_expectation where
  "demo_job_expectation = \<lparr>je_wholesale_account_id = ''loc'', je_settlement_domain_id = ''0xd'', je_request_id = ''req'',
     je_job_id = ''job'', je_work_id = ''auth'', je_work_unit = ''token'', je_actual_units = 7,
     je_max_total_units = 10, je_funded_value_wei = 0, je_amount_wei = 3, je_per_units = 2,
     je_quote_ref = demo_quote, je_authorization_id = Some ''auth'', je_authorized_value_wei = Some 20\<rparr>"

theorem job_settlement_sound_witness:
  "\<exists>r. verify_job_settlement (demo_verifier demo_record) demo_envelope demo_delegations demo_job_expectation = Inr r \<and>
     vj_billed_value_wei r \<le> 20 \<and> 7 * 3 \<le> vj_billed_value_wei r * 2"
proof -
  obtain r where run: "verify_job_settlement (demo_verifier demo_record) demo_envelope demo_delegations
      demo_job_expectation = Inr r"
    using demo_verify_envelope [of demo_record]
    by (simp add: verify_job_settlement_def reject_failed_debit_def verify_settlement_domain_def fail_if_def
        job_normative_bill_def bill_def verify_authorization_accounting_def big_def from_bytes_big_def
        demo_record_def demo_job_expectation_def Let_def)
  have "je_authorization_id demo_job_expectation = Some ''auth''" "je_authorized_value_wei demo_job_expectation = Some 20"
    by (simp_all add: demo_job_expectation_def)
  from job_settlement_sound [OF run this] run show ?thesis by (simp add: demo_job_expectation_def)
qed

fun curve_bills :: "job_settlement_expectation \<Rightarrow> settlement_record list \<Rightarrow> error + wei" where
  "curve_bills e [] = Inr 0"
| "curve_bills e (r # rs) = bind_r (job_normative_bill r e) (\<lambda>b. bind_r (curve_bills e rs) (\<lambda>bs. Inr (b + bs)))"

fun continues :: "int \<Rightarrow> settlement_record list \<Rightarrow> bool" where
  "continues from [] \<longleftrightarrow> True"
| "continues from (r # rs) \<longleftrightarrow> 0 \<le> st_debited_units r \<and>
     st_payment_cumulative_units r = from + st_debited_units r \<and>
     continues (from + st_debited_units r) rs"

text \<open>Ticket-session jobs partition the billing curve: when each job's cumulative position continues
  where the previous one ended, the normative bills of the jobs add up to the bill of all their units at
  once, so rounding never accumulates across jobs.\<close>

theorem curve_bills_telescope:
  assumes "je_authorization_id e = None" and "0 \<le> je_amount_wei e" and "0 < je_per_units e"
    and "0 \<le> from" and "continues from rs"
  shows "\<exists>total before after. curve_bills e rs = Inr total \<and> bill from (je_amount_wei e) (je_per_units e) = Inr before \<and>
     bill (from + sum_list (map st_debited_units rs)) (je_amount_wei e) (je_per_units e) = Inr after \<and>
     total = after - before"
  using assms(4,5)
proof (induction rs arbitrary: "from")
  case Nil
  then show ?case using assms by (simp add: bill_def)
next
  case (Cons r rs)
  from Cons.IH [of "from + st_debited_units r"] Cons.prems obtain total before after where ih:
    "curve_bills e rs = Inr total" "bill (from + st_debited_units r) (je_amount_wei e) (je_per_units e) = Inr before"
    "bill (from + st_debited_units r + sum_list (map st_debited_units rs)) (je_amount_wei e) (je_per_units e) = Inr after"
    "total = after - before" by auto
  obtain start where start: "bill from (je_amount_wei e) (je_per_units e) = Inr start"
    using Cons.prems assms by (simp add: bill_def)
  have "job_normative_bill r e = Inr (before - start)"
    using Cons.prems assms ih(2) start by (simp add: job_normative_bill_def fail_if_def)
  with ih start show ?case by (simp add: add.assoc)
qed

theorem curve_bills_telescope_witness:
  "curve_bills (demo_job_expectation\<lparr>je_authorization_id := None\<rparr>)
     [demo_record\<lparr>st_payment_cumulative_units := 7\<rparr>, demo_record\<lparr>st_payment_cumulative_units := 14\<rparr>] = Inr 21"
  using curve_bills_telescope [of "demo_job_expectation\<lparr>je_authorization_id := None\<rparr>" 0
     "[demo_record\<lparr>st_payment_cumulative_units := 7\<rparr>, demo_record\<lparr>st_payment_cumulative_units := 14\<rparr>]"]
  by (simp add: demo_job_expectation_def demo_record_def bill_def)

section \<open>Sessions\<close>

lemma session_settlement_run:
  assumes "verify_session_settlement v env keys e = Inr r"
  obtains rec at key where "verify_envelope v env keys = Inr (rec, at, key)" "st_outcome rec \<noteq> ''DEBIT_FAILED''"
    "se_wholesale_account_id e \<noteq> []" "st_wholesale_account_id rec = se_wholesale_account_id e"
    "se_settlement_domain_id e \<noteq> []" "st_settlement_domain_id rec = se_settlement_domain_id e"
    "verify_session_identity rec e = Inr ()" "verify_session_accounting rec e = Inr (vs_billed_value_wei r)"
    "vs_broker_session_id r = st_session_id rec" "vs_work_id r = st_work_id rec"
    "vs_predecessor_work_id r = st_predecessor_work_id rec" "vs_rotation_generation r = st_rotation_generation rec"
    "vs_settlement_seq r = st_settlement_seq rec" "vs_state r = st_state rec" "vs_claimed_units r = st_claimed_units rec"
    "vs_debited_units r = st_debited_units rec" "vs_outcome r = st_outcome rec" "vs_issued_at r = at"
    "vs_signing_public_key r = key"
  using assms
  by (auto simp: verify_session_settlement_def bind_r_Inr_iff reject_failed_debit_def verify_settlement_domain_def
      split: prod.splits intro!: that)

lemma session_identity_Inr:
  assumes "verify_session_identity rec e = Inr u"
  shows "st_gateway_session_id rec = se_gateway_session_id e" "st_session_id rec \<noteq> []"
    "se_broker_session_id e \<in> {None, Some (st_session_id rec)}" "st_job_id rec = []" "st_work_id rec = se_work_id e"
    "st_predecessor_work_id rec = se_predecessor_work_id e" "st_rotation_generation rec = se_rotation_generation e"
    "st_work_unit_name rec = se_work_unit e" "st_accepted_quote_ref rec = se_quote_ref e"
  using assms by (auto simp: verify_session_identity_def bind_r_Inr_iff)

lemma session_accounting_Inr:
  assumes "verify_session_accounting rec e = Inr billed"
  shows "billed = big (st_billed_value_wei rec)" "billed \<le> se_funded_value_wei e"
    "big (st_funded_value_wei rec) \<le> se_funded_value_wei e"
    "big (st_amount_wei rec) = se_amount_wei e" "st_per_units rec = se_per_units e"
    "se_last_settlement_seq e < st_settlement_seq rec" "se_require_terminal e \<longrightarrow> st_state rec = ''closed''"
    "st_actual_units rec = st_debited_units rec" "st_billed_units rec = st_debited_units rec"
    "st_generation_debited_units rec \<le> st_debited_units rec" "big (st_generation_billed_value_wei rec) \<le> billed"
    "verify_authorization_accounting rec (se_authorization_id e) (se_authorized_value_wei e) billed = Inr ()"
    "st_claimed_units rec \<noteq> st_debited_units rec \<longrightarrow> exhausted rec e"
    "exhausted rec e \<longrightarrow> bill (st_debited_units rec) (se_amount_wei e) (se_per_units e) = Inr billed \<and>
       big (st_reserved_value_wei rec) = 0"
  using assms by (auto simp: verify_session_accounting_def bind_r_Inr_iff Let_def split: if_splits)

text \<open>C27. A session settlement that verifies is the signed record of exactly this session: the record parsed from
  the signed payload names the expected gateway session, broker session (any one, if none is known yet), wholesale
  account, settlement domain, work, predecessor, generation, work unit, quote and price, no job, and no failed
  debit; it is newer than the last one, terminal when a terminal one is required, and signed by a key delegated at
  its issue time. What is returned is what was signed; the billed value is within the funded value and, with the
  released value, within the authorization. Claimed and debited units can differ only at an exhausted authorization,
  and then the billed value is the exact ceiling of the debited units and nothing stays reserved.\<close>

theorem session_settlement_sound:
  assumes "verify_session_settlement v env keys e = Inr r"
  shows "signed_by v env (vs_signing_public_key r) \<and>
    (\<exists>d \<in> set keys. delegated v (vs_signing_public_key r) (vs_issued_at r) d) \<and>
    (\<exists>payload signature rec. envelope_parts env = Inr (payload, signature) \<and> parse_record v payload = Inr rec \<and>
       parse_issued_at v (json_get payload ''issued_at'') = Inr (vs_issued_at r) \<and>
       st_wholesale_account_id rec = se_wholesale_account_id e \<and> se_wholesale_account_id e \<noteq> [] \<and>
       st_settlement_domain_id rec = se_settlement_domain_id e \<and> se_settlement_domain_id e \<noteq> [] \<and>
       st_gateway_session_id rec = se_gateway_session_id e \<and> st_job_id rec = [] \<and> st_session_id rec \<noteq> [] \<and>
       se_broker_session_id e \<in> {None, Some (st_session_id rec)} \<and> st_work_id rec = se_work_id e \<and>
       st_predecessor_work_id rec = se_predecessor_work_id e \<and> st_rotation_generation rec = se_rotation_generation e \<and>
       st_work_unit_name rec = se_work_unit e \<and> st_accepted_quote_ref rec = se_quote_ref e \<and>
       big (st_amount_wei rec) = se_amount_wei e \<and> st_per_units rec = se_per_units e \<and>
       st_outcome rec \<noteq> ''DEBIT_FAILED'' \<and>
       vs_broker_session_id r = st_session_id rec \<and> vs_work_id r = st_work_id rec \<and>
       vs_predecessor_work_id r = st_predecessor_work_id rec \<and> vs_rotation_generation r = st_rotation_generation rec \<and>
       vs_settlement_seq r = st_settlement_seq rec \<and> vs_state r = st_state rec \<and> vs_outcome r = st_outcome rec \<and>
       vs_claimed_units r = st_claimed_units rec \<and> vs_debited_units r = st_debited_units rec \<and>
       st_actual_units rec = vs_debited_units r \<and> st_billed_units rec = vs_debited_units r \<and>
       vs_billed_value_wei r = big (st_billed_value_wei rec) \<and>
       st_generation_debited_units rec \<le> vs_debited_units r \<and>
       big (st_generation_billed_value_wei rec) \<le> vs_billed_value_wei r \<and>
       big (st_funded_value_wei rec) \<le> se_funded_value_wei e \<and>
       (\<forall>aid. se_authorization_id e = Some aid \<longrightarrow> vs_work_id r = aid \<and> st_authorization_id rec = aid \<and>
          (\<exists>ceiling. se_authorized_value_wei e = Some ceiling \<and> big (st_authorized_value_wei rec) = ceiling \<and>
             vs_billed_value_wei r + big (st_released_value_wei rec) \<le> ceiling \<and>
             big (st_reserved_value_wei rec) \<le> ceiling)) \<and>
       (vs_claimed_units r \<noteq> vs_debited_units r \<longrightarrow>
          vs_debited_units r < vs_claimed_units r \<and> vs_state r = ''closed'' \<and> big (st_reserved_value_wei rec) = 0 \<and>
          bill (vs_debited_units r) (se_amount_wei e) (se_per_units e) = Inr (vs_billed_value_wei r))) \<and>
    se_last_settlement_seq e < vs_settlement_seq r \<and> (se_require_terminal e \<longrightarrow> vs_state r = ''closed'') \<and>
    0 \<le> vs_billed_value_wei r \<and> vs_billed_value_wei r \<le> se_funded_value_wei e"
  using assms
proof (cases rule: session_settlement_run)
  case (1 rec at key)
  note idn = session_identity_Inr [OF 1(7)] and acc = session_accounting_Inr [OF 1(8)]
  have auth: "st_work_id rec = aid \<and> st_authorization_id rec = aid \<and> (\<exists>ceiling. se_authorized_value_wei e = Some ceiling \<and>
      big (st_authorized_value_wei rec) = ceiling \<and> vs_billed_value_wei r + big (st_released_value_wei rec) \<le> ceiling \<and>
      big (st_reserved_value_wei rec) \<le> ceiling)"
    if "se_authorization_id e = Some aid" for aid
    using acc(12) that by (auto simp: verify_authorization_accounting_def bind_r_Inr_iff Let_def split: option.splits)
  have gap: "vs_debited_units r < vs_claimed_units r \<and> vs_state r = ''closed'' \<and> big (st_reserved_value_wei rec) = 0 \<and>
      bill (vs_debited_units r) (se_amount_wei e) (se_per_units e) = Inr (vs_billed_value_wei r)"
    if "vs_claimed_units r \<noteq> vs_debited_units r"
    using acc(13,14) that 1(9-) by (auto simp: exhausted_def)
  have shown: "0 \<le> vs_billed_value_wei r" using acc(1) by simp
  from verify_envelope_Inr(3) [OF 1(1)] obtain payload signature where env: "envelope_parts env = Inr (payload, signature)"
    "parse_record v payload = Inr rec" "parse_issued_at v (json_get payload ''issued_at'') = Inr at" by blast
  show ?thesis
    using verify_envelope_Inr(1,2) [OF 1(1)] acc(2,6,7) shown env 1(2-6) idn acc(1,3-5,8-11) auth gap 1(9-)
    by (intro conjI exI [of _ payload] exI [of _ signature] exI [of _ rec]) simp_all
qed

definition demo_session_expectation :: session_settlement_expectation where
  "demo_session_expectation = \<lparr>se_wholesale_account_id = ''loc'', se_settlement_domain_id = ''0xd'',
     se_gateway_session_id = ''gw'', se_broker_session_id = None, se_work_id = ''auth'', se_predecessor_work_id = [],
     se_rotation_generation = 0, se_work_unit = ''token'', se_amount_wei = 3, se_per_units = 2,
     se_quote_ref = demo_quote, se_funded_value_wei = 20, se_last_settlement_seq = 0,
     se_authorization_id = Some ''auth'', se_authorized_value_wei = Some 20, se_require_terminal = True\<rparr>"

theorem session_settlement_sound_witness:
  "\<exists>r. verify_session_settlement (demo_verifier demo_session_record) demo_envelope demo_delegations
      demo_session_expectation = Inr r \<and> vs_billed_value_wei r \<le> 20 \<and> vs_state r = ''closed''"
proof -
  obtain r where run: "verify_session_settlement (demo_verifier demo_session_record) demo_envelope demo_delegations
      demo_session_expectation = Inr r"
    using demo_verify_envelope [of demo_session_record]
    by (simp add: verify_session_settlement_def reject_failed_debit_def verify_settlement_domain_def fail_if_def
        verify_session_identity_def verify_session_accounting_def exhausted_def bill_def
        verify_authorization_accounting_def big_def from_bytes_big_def demo_record_def demo_session_record_def
        demo_session_expectation_def verify_session_diagnostics_def breakdown_get_def safe_code_def
        is_lower_alpha_def is_digit_def Let_def)
  from session_settlement_sound [OF run] run show ?thesis by (auto simp: demo_session_expectation_def)
qed

lemma verify_non_admission_Inr:
  assumes "verify_non_admission v env keys e = Inr r" and "ne_job_issued_at e = Aware issued"
  shows "vn_coverage_started_at r \<le> issued \<and> issued \<le> vn_observed_at r \<and>
    signed_by v env (vn_signing_public_key r) \<and>
    (\<exists>d \<in> set keys. delegated v (vn_signing_public_key r) (vn_observed_at r) d) \<and>
    (\<exists>payload signature rec. envelope_parts env = Inr (payload, signature) \<and>
       parse_non_admission_record v payload = Inr rec \<and> na_outcome rec = ''NOT_ADMITTED'' \<and>
       na_request_id rec = ne_request_id e \<and> na_work_id rec = ne_work_id e \<and> na_sender rec = ne_sender e \<and>
       na_recipient rec = ne_recipient e \<and> na_accepted_quote_ref rec = ne_quote_ref e \<and>
       na_settlement_domain_id rec = ne_settlement_domain_id e \<and>
       na_wholesale_account_id rec = ne_wholesale_account_id e)"
  using assms
  by (auto simp: verify_non_admission_def bind_r_Inr_iff signed_by_def verify_settlement_domain_def
      dest!: authorize_key_Inr split: prod.splits)

text \<open>Non-admission evidence that verifies covers the whole life of the job: the signing key was
  delegated when the broker observed the absence, the broker's coverage began no later than the job was
  issued, the observation was made no earlier, and the evidence names the expected request, work, sender,
  recipient and quote.\<close>

theorem non_admission_covers_job:
  assumes "verify_non_admission v env keys e = Inr r" and "ne_job_issued_at e = Aware issued"
  shows "vn_coverage_started_at r \<le> issued \<and> issued \<le> vn_observed_at r \<and>
    signed_by v env (vn_signing_public_key r) \<and>
    (\<exists>d \<in> set keys. delegated v (vn_signing_public_key r) (vn_observed_at r) d) \<and>
    (\<exists>payload signature rec. envelope_parts env = Inr (payload, signature) \<and>
       parse_non_admission_record v payload = Inr rec \<and> na_outcome rec = ''NOT_ADMITTED'' \<and>
       na_request_id rec = ne_request_id e \<and> na_work_id rec = ne_work_id e \<and> na_sender rec = ne_sender e \<and>
       na_recipient rec = ne_recipient e \<and> na_accepted_quote_ref rec = ne_quote_ref e \<and>
       na_settlement_domain_id rec = ne_settlement_domain_id e \<and>
       na_wholesale_account_id rec = ne_wholesale_account_id e)"
  by (rule verify_non_admission_Inr [OF assms])

theorem non_admission_covers_job_witness:
  "\<exists>r. verify_non_admission (demo_verifier demo_record) demo_envelope demo_delegations
     \<lparr>ne_wholesale_account_id = ''loc'', ne_settlement_domain_id = ''0xd'', ne_protocol = ''paid-job/v1'',
      ne_request_id = ''req'', ne_work_id = ''auth'', ne_sender = [1], ne_recipient = [2],
      ne_quote_ref = demo_quote, ne_broker_eth_address = ''0xb'', ne_job_issued_at = Aware 97\<rparr> = Inr r \<and>
    97 \<le> vn_observed_at r"
proof -
  let ?e = "\<lparr>ne_wholesale_account_id = ''loc'', ne_settlement_domain_id = ''0xd'', ne_protocol = ''paid-job/v1'',
      ne_request_id = ''req'', ne_work_id = ''auth'', ne_sender = [1], ne_recipient = [2],
      ne_quote_ref = demo_quote, ne_broker_eth_address = ''0xb'', ne_job_issued_at = Aware 97\<rparr>"
  obtain r where run: "verify_non_admission (demo_verifier demo_record) demo_envelope demo_delegations ?e = Inr r"
    using demo_recover demo_authorize demo_texts(2)
    by (simp add: verify_non_admission_def demo_parts json_get_def canonicalize_def parse_timestamp_def
        parse_non_admission_record_def replace_Z_def verify_settlement_domain_def fail_if_def
        demo_non_admission_def)
  from non_admission_covers_job [OF run] run show ?thesis by simp
qed

end
