(* ===== verification/Session_Example.thy ===== *)
theory Session_Example
  imports Engagement_System Billing_Properties Settlement_Properties
begin

text \<open>
  One concrete paid session, evaluated step by step: a customer is topped up with 100 wei, opens a session of
  at most 10 units at 3 wei per 2 units (a hold of 15), the payer signs the grant, the broker's account
  is unreachable, so that the request fails after its commits, and the broker-signed settlement later
  closes the session at 7 units (a bill of 11). The theorems are applied to these states.
\<close>

section \<open>The route and the outside world\<close>

definition example_key :: settlement_key where
  "example_key = \<lparr>sk_public_key = demo_key, sk_not_before = 97, sk_expires_at = 99,
     sk_introduced_in_publication_seq = 1\<rparr>"

definition example_route :: selected_route where
  "example_route = demo_route\<lparr>sr_eth_address := ''0x'' @ hex (replicate 20 17),
     sr_price_per_work_unit_wei := 3, sr_units_per_price := 2, sr_protocol := PaidSession,
     sr_settlement_keys := [example_key],
     sr_extra := [(''session'', JObj [(''descriptor_schema'', JStr ''live/v1''),
                                      (''metering'', JStr ''runner-reported'')])]\<rparr>"

definition example_snapshot :: route_snapshot where
  "example_snapshot = projr (snapshot_view example_route)"

lemma example_axes: "sr_job example_route = None"
  "sr_session example_route = Some \<lparr>sa_descriptor_schema = ''live/v1'', sa_refill = extensible, sa_extra = []\<rparr>"
  by (simp_all add: sr_job_def sr_session_def example_route_def demo_route_def parse_session_axes_def json_get_def
      descriptor_schema_ok_def is_lower_alpha_def is_digit_def)

lemma example_constructed: "constructed (Some example_route) []"
  using demo_domain_ok
  by (simp add: constructed_def SelectedRoute_def example_route_def demo_route_def parse_session_axes_def json_get_def
      descriptor_schema_ok_def is_lower_alpha_def is_digit_def uint64_ge1_def UINT64_MAX_def axis_name_def other_axis_def)

lemma example_route_simps [simp]:
  "sr_capability example_route = ''openai:chat-completions''" "sr_offering example_route = ''gpt-oss-20b''"
  "sr_protocol example_route = PaidSession" "sr_settlement_keys example_route = [example_key]"
  "sr_price_per_work_unit_wei example_route = 3" "sr_units_per_price example_route = 2"
  "sr_work_unit example_route = ''token''" "sr_settlement_domain_id example_route = demo_domain"
  "sr_worker_url example_route = ''https://orch-1.example''"
  "sr_eth_address example_route = ''0x'' @ hex (replicate 20 17)"
  "sr_quote_id example_route = ''q1''" "sr_quote_version example_route = 1"
  "sr_constraint_fingerprint example_route = replicate 32 0" "sr_route_fingerprint example_route = replicate 32 17"
  by (simp_all add: example_route_def demo_route_def)

lemma example_snapshot_ok: "snapshot_view example_route = Inr example_snapshot"
proof -
  have fp: "fingerprint_ok (hex bs)" if "length bs = 32" for bs
    using that hex_lower by (simp add: fingerprint_ok_def)
  obtain snap where "snapshot_view example_route = Inr snap"
    using demo_domain_ok fp example_axes
    by (simp add: snapshot_view_def RouteSnapshot_def uint64_ge1_def UINT64_MAX_def)
  then show ?thesis by (simp add: example_snapshot_def)
qed

lemma RouteSnapshot_id: "RouteSnapshot x = Inr y \<Longrightarrow> y = x"
  by (auto simp: RouteSnapshot_def split: if_splits)

lemmas example_snapshot_eq = RouteSnapshot_id [OF example_snapshot_ok [unfolded snapshot_view_def]]

lemma example_snapshot_simps [simp]:
  "rs_settlement_keys example_snapshot = [example_key]" "rs_price_per_work_unit_wei example_snapshot = 3"
  "rs_units_per_price example_snapshot = 2" "rs_work_unit example_snapshot = ''token''"
  "rs_quote_id example_snapshot = ''q1''" "rs_quote_version example_snapshot = 1"
  "rs_constraint_fingerprint example_snapshot = hex (replicate 32 0)"
  "rs_route_fingerprint example_snapshot = hex (replicate 32 17)"
  by (simp_all add: example_snapshot_eq)

lemma example_payee: "payments_eth_address_to_bytes (''0x'' @ hex (replicate 20 17)) = Inr (replicate 20 17)"
  using length_hex [of "replicate 20 17"] fromhex_hex [of "replicate 20 17"]
  by (simp add: payments_eth_address_to_bytes_def removeprefix_0x_def del: hex_simps)

lemma example_binding: "sr_binding example_route = Inr demo_binding"
  using demo_binding_ok by (simp add: sr_binding_def demo_binding_def)

lemma example_domain: "settlement_domain_id demo_domain = Inr demo_domain"
  using demo_domain_ok by (simp add: settlement_domain_id_def)

text \<open>Fixed answers: a codec for one token, dates, a payer that signs, a broker that is down.\<close>

definition example_payload :: "(string \<times> json) list" where
  "example_payload = preparation_payload (preparation_scope ''u1'' ''k1'' ''gw'' ''openai:chat-completions''
     ''gpt-oss-20b'' ''live/v1'' demo_binding) ''c''"

definition example_codec :: token_codec where
  "example_codec = \<lparr>tc_dumps = (\<lambda>_. [7]), tc_loads = (\<lambda>_. Some (JObj example_payload)), tc_hmac = (\<lambda>_. [4]),
     tc_b64encode = (\<lambda>_. ''Bw''), tc_b64decode = (\<lambda>_. Some [7])\<rparr>"

definition example_dates :: datetime_text where
  "example_dates = \<lparr>dt_isoformat = (\<lambda>_. ''c''), dt_fromisoformat = (\<lambda>_. Some (Aware 99)),
     dt_json = (\<lambda>t. if t = 97 then ''a'' else ''c'')\<rparr>"

definition example_sign ::
  "create_spend_authorization_request \<Rightarrow> error + create_spend_authorization_response" where
  "example_sign q = Inr \<lparr>ar_authorization_bytes = [1], ar_authorization_id = aq_authorization_id q,
     ar_payer = [2]\<rparr>"

definition example_settings :: session_settings where
  "example_settings = \<lparr>ss_billing = \<lparr>default_spend_period_seconds = 60, default_spend_period_cap_wei = 50,
       settings_auto_replenish_increment_wei = 40\<rparr>, ss_chain_id = 1, ss_wholesale_account_id = ''loc'',
     ss_funding_limits = \<lparr>wl_target_available_wei = 100, wl_replenish_below_wei = 50,
       wl_max_available_per_payee_wei = 1000, wl_max_aggregate_available_wei = 1000,
       wl_max_single_funding_wei = 100\<rparr>,
     ss_session_authorization_ttl_seconds = 60\<rparr>"

definition example_world :: request_world where
  "example_world = \<lparr>qw_replenish = \<lparr>rw_account = Inl (BrokerWholesaleAccountError ''down''),
       rw_create_payment = (\<lambda>_. Inl (PaymentDaemonError ''down'')),
       rw_fund = (\<lambda>_. Inl (BrokerWholesaleAccountError ''down'')),
       rw_account_after = Inl (BrokerWholesaleAccountError ''down''), rw_new_account_id = ''acc'',
       rw_sha256_hex = (\<lambda>_. [])\<rparr>,
     qw_predecessor_before = Inl (BrokerWholesaleAccountError ''down''),
     qw_predecessor_after = Inl (BrokerWholesaleAccountError ''down''),
     qw_account_ready = Inl (BrokerWholesaleAccountError ''down'')\<rparr>"

section \<open>The steps\<close>

definition example_empty :: clearing_db where
  "example_empty = \<lparr>server_now = 0, balances = [], ledger = [], topups = [], windows = [], configs = [],
     accounts = [], fundings = [], budgets = [], sessions = [], settlements = [], grants = [],
     payments = [], create_requests = [], deposits = [], audits = []\<rparr>"

definition example_funded :: clearing_db where
  "example_funded = snd (session_scope (on_db (topup ''t1'' ''u1'' 100 ''manual'' None)) example_empty)"

definition example_open :: "(clearing_db txn, create_session_response) op" where
  "example_open = open_session example_codec example_dates None (Some example_world) example_sign
     (Some example_route) [] ''new'' ''u1'' ''k1'' ''openai:chat-completions'' ''gpt-oss-20b'' 4 10 None 5
     example_settings ''live/v1'' None ''r1'' [9] [8] ''gw'' ''Bw.04''"

definition example_opened :: clearing_db where
  "example_opened = snd (session_scope example_open example_funded)"

lemma example_empty_ok: "engagements_empty example_empty"
  by (simp add: engagements_empty_def example_empty_def)

lemma example_books_empty: "books_empty example_empty"
  by (simp add: books_empty_def example_empty_ok billing_empty_def) (simp add: example_empty_def)

lemma example_steps: "engagement_step example_empty example_funded" "engagement_step example_funded example_opened"
proof -
  show "engagement_step example_empty example_funded"
    unfolding example_funded_def by (rule es_topup) (rule prod.collapse [symmetric])
  show "engagement_step example_funded example_opened"
    unfolding example_opened_def example_open_def by (rule es_open [OF _ example_constructed _ prod.collapse [symmetric]]) simp_all
qed

lemma example_funded_eval:
  "example_funded = example_empty\<lparr>
     balances := [\<lparr>cb_user_id = ''u1'', cb_amount_wei = 100, cb_version = 1\<rparr>],
     ledger := [entry_of ''u1'' 100 ''topup'' None None (Some ''t1'') None 0],
     topups := [\<lparr>ct_id = ''t1'', ct_user_id = ''u1'', ct_amount_wei = 100, ct_topup_kind = ''manual'',
                ct_operator_id = None\<rparr>]\<rparr>"
  by (simp add: example_funded_def scope_on_db example_empty_def topup_def Let_def bind_op_def op_simps modify_def
      ret_def balance_row_def balance_of_def new_balance_def posted_def ensured_def bump_def)

lemma example_prepared:
  "verify_prepared_session example_codec example_dates ''Bw.04'' ''gw'' ''u1'' ''k1'' ''openai:chat-completions''
     ''gpt-oss-20b'' ''live/v1'' example_route 5 = Inr ()"
proof -
  have "fromhex ''04'' = Some [4]" by code_simp
  then have "decode_preparation example_codec ''Bw.04'' = Inr example_payload"
    by (simp add: decode_preparation_def split_dot_def example_codec_def)
  then show ?thesis
    by (simp add: verify_prepared_session_def example_binding preparation_scope_def example_payload_def
        preparation_payload_def json_get_def example_dates_def datetime_le_def)
qed

definition example_session :: payment_session where
  "example_session = \<lparr>ps_id = ''gw'', ps_user_id = ''u1'', ps_api_key_id = ''k1'', ps_work_id = [],
     ps_capability = ''openai:chat-completions'', ps_offering = ''gpt-oss-20b'', ps_protocol = ''paid-session/v1'',
     ps_accounting_mode = ''wholesale_account'',
     ps_customer_pricing = Some (wholesale_pass_through_pricing ''token''), ps_customer_max_debit_wei = Some 15,
     ps_authorization_id = None, ps_route_snapshot = Some example_snapshot, ps_broker_request_id = Some ''r1'',
     ps_state = ''open'', ps_estimated_units = 4, ps_max_total_units = 10, ps_funded_value_wei = 15,
     ps_billed_value_wei = None, ps_actual_units = None, ps_outcome = None, ps_breakdown = None,
     ps_sdk_identity = None, ps_opened_at = 5, ps_closed_at = None, ps_refill_seq = 0,
     ps_rotation_generation = 0, ps_predecessor_work_id = None, ps_broker_session_id = None,
     ps_last_settlement_seq = 0, ps_last_polled_at = None\<rparr>"

definition example_held :: clearing_db where
  "example_held = example_funded\<lparr>
     balances := [\<lparr>cb_user_id = ''u1'', cb_amount_wei = 85, cb_version = 2\<rparr>],
     ledger := ledger example_funded @ [entry_of ''u1'' (-15) ''engagement_encumbrance'' None (Some ''gw'') None None 0],
     windows := [\<lparr>sw_user_id = ''u1'', sw_window_start = 0, sw_window_end = 60000000, sw_spent_wei = 15,
                  sw_cap_wei = 50\<rparr>],
     sessions := [example_session]\<rparr>"

lemma example_claim:
  "claim_wholesale_engagement None ''new'' ''u1'' ''k1'' example_route ''r1'' 4 10 15 5 None 60 50 (Some ''gw'')
     \<lparr>working = example_funded, durable = example_funded\<rparr>
   = (Inr example_session, \<lparr>working = example_held, durable = example_held\<rparr>)"
  by (simp add: claim_wholesale_engagement_def resume_engagement_def create_session_def on_db_def Let_def bind_op_def
      op_run example_snapshot_ok example_funded_eval example_empty_def get_session_def engagement_of_request_def
      example_session_def example_held_def protocol_value_def
      encumber_keyed keyed_step_def op_simps engagement_entry_def window_bounds_for_def truncate_seconds_def
      window_row_def window_of_def window_ensured_def spent_in_def balance_row_def balance_of_def ensured_def posted_def
      bump_def commit_def entry_of_def)

definition example_request :: create_spend_authorization_request where
  "example_request = fst (projr (issue_route_locked_authorization example_sign example_route ''loc-auth:r1'' ''r1''
     ''gw'' [9] [8] 15 10 5 60000005 1 ''loc'' 0 []))"

definition example_response :: create_spend_authorization_response where
  "example_response = \<lparr>ar_authorization_bytes = [1], ar_authorization_id = ''loc-auth:r1'', ar_payer = [2]\<rparr>"

lemma example_issue:
  "issue_route_locked_authorization example_sign example_route ''loc-auth:r1'' ''r1'' ''gw'' [9] [8] 15 10 5
     60000005 1 ''loc'' 0 [] = Inr (example_request, example_response)"
  using example_payee
  by (simp add: example_request_def issue_route_locked_authorization_def Let_def example_sign_def example_response_def)

lemma example_request_simps [simp]:
  "aq_authorization_id example_request = ''loc-auth:r1''" "aq_request_id example_request = ''r1''"
  "aq_session_id example_request = ''gw''" "aq_protocol example_request = ''paid-session/v1''"
  "aq_revision example_request = 0" "aq_predecessor_authorization_id example_request = []"
  "aq_settlement_domain_id example_request = demo_domain" "aq_max_debit_wei example_request = 15"
  "aq_max_total_units example_request = 10" "aq_wholesale_account_id example_request = ''loc''"
  using example_payee
  by (simp_all add: example_request_def issue_route_locked_authorization_def Let_def example_sign_def protocol_value_def)

definition example_grant :: spend_authorization_grant where
  "example_grant = grant_of ''gw'' example_snapshot demo_domain example_request example_response"

definition example_authorized :: payment_session where
  "example_authorized = example_session\<lparr>ps_authorization_id := Some ''loc-auth:r1'', ps_work_id := ''loc-auth:r1''\<rparr>"

lemma example_record:
  "record_spend_authorization_grant ''gw'' ''u1'' example_route demo_domain example_request example_response example_held
   = (Inr example_grant, example_held\<lparr>sessions := [example_authorized], grants := [example_grant]\<rparr>)"
proof -
  have "get_session example_held ''gw'' = Some example_session" "grants example_held = []"
    by (simp_all add: example_held_def get_session_def example_session_def example_funded_eval example_empty_def)
  moreover have "sessions example_held = [example_session]" by (simp add: example_held_def)
  moreover have "demo_domain \<noteq> []" by (simp add: demo_domain_def)
  ultimately show ?thesis
    by (simp add: record_spend_authorization_grant_def require_authorizable_def example_snapshot_ok find_revision_def
        find_grant_def insert_grant_def set_session_def example_authorized_def example_grant_def
        PAID_SESSION_PROTOCOL_def example_response_def ret_def, simp add: example_session_def)
qed

definition example_db :: clearing_db where
  "example_db = example_held\<lparr>sessions := [example_authorized], grants := [example_grant]\<rparr>"

lemma example_replenish:
  "replenish_for_request example_world example_grant example_route payer mid corr 5 example_settings t =
     (Inl (WholesaleFundingUnverified ''down''), t)"
  by (simp add: replenish_for_request_def catch_op_def example_grant_def grant_of_def example_settings_def
      session_reservation_requirement_def some_nonempty_def on_db_def op_run bind_op_def funding_unverified_def
      replenish_wholesale_account_def example_world_def)

lemma example_open_wholesale:
  "open_wholesale_session None example_world example_sign ''new'' ''u1'' ''k1'' example_route 4 10 15 ''r1'' [9] [8] 5
     example_settings None 60 50 ''gw'' \<lparr>working = example_funded, durable = example_funded\<rparr> =
   (Inl (WholesaleFundingUnverified ''down''), \<lparr>working = example_db, durable = example_db\<rparr>)"
proof -
  have s: "ps_id example_session = ''gw''" "ps_state example_session = ''open''" by (simp_all add: example_session_def)
  have st: "ss_session_authorization_ttl_seconds example_settings = 60" "ss_chain_id example_settings = 1"
    "ss_wholesale_account_id example_settings = ''loc''" by (simp_all add: example_settings_def)
  have rec: "on_db (record_spend_authorization_grant ''gw'' ''u1'' example_route demo_domain example_request example_response)
      \<lparr>working = example_held, durable = example_held\<rparr> = (Inr example_grant, \<lparr>working = example_db, durable = example_held\<rparr>)"
    by (simp add: on_db_def example_record example_db_def)
  show ?thesis
    unfolding open_wholesale_session_def bind_eq_Inr [of "claim_wholesale_engagement _ _ _ _ _ _ _ _ _ _ _ _ _ _", OF example_claim]
    by (simp add: s st example_issue issue_initial_authorization_or_release_def example_domain bind_eq_Inr [of "on_db _", OF rec]
        bind_eq_Inl [of "replenish_for_request _ _ _ _ _ _ _ _", OF example_replenish])
qed

lemma example_until_claim:
  "session_scope (open_session example_codec example_dates None (Some example_world) sign
     (Some example_route) [] ''new'' ''u1'' ''k1'' ''openai:chat-completions'' ''gpt-oss-20b'' 4 10 None 5
     example_settings ''live/v1'' None ''r1'' [9] [8] ''gw'' ''Bw.04'') example_funded =
   session_scope (open_wholesale_session None example_world sign ''new'' ''u1'' ''k1'' example_route 4 10 15 ''r1'' [9] [8] 5
     example_settings None 60 50 ''gw'') example_funded"
proof -
  have bal: "on_db (get_balance ''u1'') \<lparr>working = example_funded, durable = example_funded\<rparr> =
      (Inr \<lparr>cb_user_id = ''u1'', cb_amount_wei = 100, cb_version = 1\<rparr>, \<lparr>working = example_funded, durable = example_funded\<rparr>)"
    by (simp add: on_db_def get_balance_ensure ensure_run ensured_def balance_row_def balance_of_def example_funded_eval example_empty_def)
  have cfg: "on_db (resolve_billing_config ''u1'' (ss_billing example_settings)) \<lparr>working = example_funded, durable = example_funded\<rparr> =
      (Inr \<lparr>rbc_spend_period_seconds = 60, rbc_spend_period_cap_wei = 50, rbc_auto_replenish_increment_wei = 40,
     rbc_auto_replenish_threshold_wei = 0\<rparr>, \<lparr>working = example_funded, durable = example_funded\<rparr>)"
    by (simp add: on_db_def resolve_billing_config_def get_billing_config_def ret_def example_funded_eval example_empty_def
        example_settings_def)
  show ?thesis
    by (simp add: session_scope_def open_session_def select_bound_route_def example_axes bill_value_wei_def
        bind_eq_Inr [of "on_db _", OF bal] bind_eq_Inr [of "on_db _", OF cfg] example_prepared)
qed

lemma example_opened_eval:
  "session_scope example_open example_funded = (Inl (WholesaleFundingUnverified ''down''), example_db)"
  "example_opened = example_db"
proof -
  show "session_scope example_open example_funded = (Inl (WholesaleFundingUnverified ''down''), example_db)"
    by (simp add: example_open_def example_until_claim) (simp add: session_scope_def example_open_wholesale)
  then show "example_opened = example_db" by (simp add: example_opened_def)
qed

text \<open>The same request when the payer daemon is down: the claimed engagement stays.\<close>

lemma example_claimed: "engagement_step example_funded example_held"
proof (rule es_open [of None])
  let ?sign = "\<lambda>_. Inl (PaymentDaemonError ''down'')"
  have "issue_route_locked_authorization ?sign example_route ''loc-auth:r1'' ''r1'' ''gw'' [9] [8] 15 10 5 60000005 1 ''loc'' 0 []
      = Inl (PaymentDaemonError ''down'')"
    using example_payee by (simp add: issue_route_locked_authorization_def Let_def)
  moreover have "ps_id example_session = ''gw''" "ps_state example_session = ''open''" by (simp_all add: example_session_def)
  ultimately have "session_scope (open_wholesale_session None example_world ?sign ''new'' ''u1'' ''k1'' example_route 4 10 15
      ''r1'' [9] [8] 5 example_settings None 60 50 ''gw'') example_funded = (Inl (PaymentDaemonError ''down''), example_held)"
    unfolding session_scope_def open_wholesale_session_def
      bind_eq_Inr [of "claim_wholesale_engagement _ _ _ _ _ _ _ _ _ _ _ _ _ _", OF example_claim]
    by (simp add: issue_initial_authorization_or_release_def example_settings_def raise_def)
  then show "session_scope (open_session example_codec example_dates None (Some example_world) ?sign
     (Some example_route) [] ''new'' ''u1'' ''k1'' ''openai:chat-completions'' ''gpt-oss-20b'' 4 10 None 5
     example_settings ''live/v1'' None ''r1'' [9] [8] ''gw'' ''Bw.04'') example_funded =
     (Inl (PaymentDaemonError ''down''), example_held)"
    by (simp only: example_until_claim)
qed (simp_all add: example_constructed)

section \<open>The settlement\<close>

definition example_settlement :: "(string \<times> json) list" where
  "example_settlement = [(''payload'', JObj [(''issued_at'', JStr ''b''), (''authorization_id'', JStr ''loc-auth:r1'')]),
     (''signature'', JObj [(''algorithm'', JStr ''secp256k1''), (''canonicalization'', JStr ''jcs''),
        (''value'', JStr (''0x'' @ hex (replicate 64 0 @ [27])))])]"

definition example_record :: settlement_record where
  "example_record = demo_session_record\<lparr>st_settlement_domain_id := demo_domain, st_work_id := ''loc-auth:r1'',
     st_authorization_id := ''loc-auth:r1'', st_authorized_value_wei := [15], st_released_value_wei := [4],
     st_accepted_quote_ref := \<lparr>qr_quote_id = ''q1'', qr_quote_version = 1,
       qr_constraint_fingerprint = replicate 32 0, qr_route_fingerprint = replicate 32 17\<rparr>,
     st_outcome := ''SETTLEMENT_OUTCOME_UNSPECIFIED''\<rparr>"

definition example_verified :: verified_session_settlement where
  "example_verified = \<lparr>vs_broker_session_id = ''bs'', vs_work_id = ''loc-auth:r1'', vs_predecessor_work_id = [],
     vs_rotation_generation = 0, vs_settlement_seq = 1, vs_state = ''closed'', vs_claimed_units = 9,
     vs_debited_units = 7, vs_billed_value_wei = 11, vs_outcome = ''SETTLEMENT_OUTCOME_UNSPECIFIED'',
     vs_issued_at = 98, vs_signing_public_key = demo_key,
     vs_termination_reason = Some ''authorization_exhausted'', vs_output_state = None,
     vs_output_state_since = None, vs_last_failure_code = None\<rparr>"

lemma example_envelope: "verify_envelope (demo_verifier rec) example_settlement demo_delegations = Inr (rec, 98, demo_key)"
proof -
  have "envelope_parts example_settlement = Inr ([(''issued_at'', JStr ''b''), (''authorization_id'', JStr ''loc-auth:r1'')],
    [(''algorithm'', JStr ''secp256k1''), (''canonicalization'', JStr ''jcs''),
     (''value'', JStr (''0x'' @ hex (replicate 64 0 @ [27])))])"
    by (simp add: envelope_parts_def example_settlement_def json_get_def)
  then show ?thesis
    using demo_recover demo_authorize
    by (simp add: verify_envelope_def json_get_def)
       (simp add: canonicalize_def parse_issued_at_def parse_timestamp_def parse_record_def replace_Z_def)
qed

lemma example_keys: "map (delegation_of example_dates) [example_key] = demo_delegations"
  by (simp add: delegation_of_def example_dates_def example_key_def demo_delegations_def)

lemma example_verify:
  assumes "find_grant db ''gw'' ''loc-auth:r1'' = Some example_grant"
  shows "verify_close_settlement (demo_verifier example_record) example_dates example_authorized (Some example_settlement)
     True db = (Inr example_verified, db)"
proof -
  have hint: "authorization_hint example_settlement = Some ''loc-auth:r1''"
    "json_get example_settlement ''signature'' \<notin> {None, Some JNull}"
    by (simp_all add: authorization_hint_def example_settlement_def json_get_def some_nonempty_def)
  obtain ex where ex: "close_expectation example_authorized example_snapshot example_grant [] True = Inr ex"
    and ver: "verify_session_settlement (demo_verifier example_record) example_settlement demo_delegations ex = Inr example_verified"
    using example_envelope [of example_record]
    by (simp add: close_expectation_def fromhex_hex example_grant_def grant_of_def example_authorized_def example_session_def
        verify_session_settlement_def reject_failed_debit_def verify_settlement_domain_def fail_if_def
        verify_session_identity_def verify_session_accounting_def exhausted_def bill_def
        verify_authorization_accounting_def big_def from_bytes_big_def demo_record_def demo_session_record_def
        example_record_def verify_session_diagnostics_def breakdown_get_def safe_code_def demo_domain_def
        is_lower_alpha_def is_digit_def Let_def example_verified_def del: hex_simps)
  have s: "ps_route_snapshot example_authorized = Some example_snapshot" "ps_rotation_generation example_authorized = 0"
    "ps_id example_authorized = ''gw''"
    by (simp_all add: example_authorized_def example_session_def)
  show ?thesis
    using hint ex ver assms s example_keys
    by (simp add: verify_close_settlement_def catch_op_def of_result_def Let_def)
qed

definition example_close :: "(clearing_db, close_session_response) op" where
  "example_close = close_session (demo_verifier example_record) example_dates ''gw'' ''u1'' 7 None
     (Some example_settlement) 70"

definition example_closed :: clearing_db where
  "example_closed = snd (session_scope (on_db example_close) example_opened)"

definition example_closed_db :: clearing_db where
  "example_closed_db = example_db\<lparr>
     balances := [\<lparr>cb_user_id = ''u1'', cb_amount_wei = 89, cb_version = 3\<rparr>],
     ledger := ledger example_db @ [entry_of ''u1'' 4 ''engagement_release'' None (Some ''gw'') None None 0],
     sessions := [closed_row example_dates example_verified 11 ''OVERFUNDED'' ''loc-auth:r1'' 70 example_authorized],
     grants := [example_grant\<lparr>gr_state := ''settled'', gr_retired_at := Some 70\<rparr>],
     settlements := [close_event ''gw'' 70 example_verified 11 ''OVERFUNDED'' example_settlement]\<rparr>"

lemma example_release:
  assumes "db = example_db\<lparr>sessions := ss\<rparr>"
  shows "release_customer_engagement ''u1'' ''gw'' 4 db =
    (Inr \<lparr>cb_user_id = ''u1'', cb_amount_wei = 89, cb_version = 3\<rparr>,
     db\<lparr>balances := [\<lparr>cb_user_id = ''u1'', cb_amount_wei = 89, cb_version = 3\<rparr>],
     ledger := ledger example_db @ [entry_of ''u1'' 4 ''engagement_release'' None (Some ''gw'') None None 0]\<rparr>)"
  unfolding assms
  by (simp add: release_keyed keyed_step_def bind_op_def op_simps op_run engagement_entry_def balance_row_def
      balance_of_def ensured_def posted_def bump_def entry_of_def Let_def example_db_def example_held_def
      example_funded_eval example_empty_def)

lemma example_close_eval:
  "example_close example_db = (Inr \<lparr>cz_session_id = ''gw'', cz_work_id = ''loc-auth:r1'', cz_actual_units = 7,
     cz_billed_value_wei = 11, cz_refund_wei = 4, cz_outcome = ''OVERFUNDED'', cz_closed_at = 70\<rparr>, example_closed_db)"
proof -
  have row: "get_session example_db ''gw'' = Some example_authorized" "sessions example_db = [example_authorized]"
    "ps_user_id example_authorized = ''u1''" "ps_state example_authorized = ''open''" "ps_id example_authorized = ''gw''"
    "ps_accounting_mode example_authorized = ''wholesale_account''"
    by (simp_all add: get_session_def example_db_def example_authorized_def example_session_def)
  have gr: "grants example_db = [example_grant]" "settlements example_db = []"
    "gr_session_id example_grant = ''gw''" "gr_authorization_id example_grant = ''loc-auth:r1''"
    "gr_state example_grant = ''issued''" "gr_retired_at example_grant = None"
    by (simp_all add: example_db_def example_grant_def example_held_def example_funded_eval example_empty_def)
  have suc: "require_retired_successors example_authorized ''loc-auth:r1'' example_db = (Inr (), example_db)"
    by (simp add: require_retired_successors_def row gr ret_def)
  have acc: "close_accounting example_authorized example_verified None = Inr (11, 4, ''OVERFUNDED'')"
    by (simp add: close_accounting_def example_authorized_def example_session_def example_verified_def
        wholesale_pass_through_pricing_def fields_match_policy_def calculate_customer_charge_def infer_close_outcome_def Let_def)
  have ver: "verify_close_settlement (demo_verifier example_record) example_dates example_authorized
      (Some example_settlement) True example_db = (Inr example_verified, example_db)"
    by (rule example_verify) (simp add: find_grant_def gr)
  have hint: "authorization_hint example_settlement = Some ''loc-auth:r1''"
    by (simp_all add: authorization_hint_def example_settlement_def json_get_def some_nonempty_def)
  have vs: "vs_debited_units example_verified = 7" "vs_work_id example_verified = ''loc-auth:r1''"
    by (simp_all add: example_verified_def)
  have tr: "transition_state ''gw'' ''open'' ''closed'' 70 example_db =
      (Inr (example_authorized\<lparr>ps_state := ''closed'', ps_closed_at := Some 70\<rparr>),
       example_db\<lparr>sessions := [example_authorized\<lparr>ps_state := ''closed'', ps_closed_at := Some 70\<rparr>]\<rparr>)"
    by (simp add: transition_state_def row ALLOWED_TRANSITIONS_def SESSION_STATES_def set_session_def ret_def Let_def)
  have fin: "finalize_close example_dates example_authorized ''u1'' example_verified example_settlement 11 4 ''OVERFUNDED'' 70 example_db
      = (Inr \<lparr>cz_session_id = ''gw'', cz_work_id = ''loc-auth:r1'', cz_actual_units = 7,
     cz_billed_value_wei = 11, cz_refund_wei = 4, cz_outcome = ''OVERFUNDED'', cz_closed_at = 70\<rparr>, example_closed_db)"
    unfolding finalize_close_def row
    by (simp add: bind_eq_Inr [of "transition_state _ _ _ _", OF tr] bind_assoc
        bind_eq_Inr [of "release_customer_engagement _ _ _", OF example_release [OF refl]])
       (simp add: hint set_session_def row mark_spend_authorization_settled_def find_grant_def gr vs
        record_settlement_def op_run bind_op_def set_grant_def retired_or_def
        example_closed_db_def closed_row_def close_event_def Let_def)
  show ?thesis
    unfolding example_close_def close_session_def
    by (simp add: row bind_eq_Inr [of "verify_close_settlement _ _ _ _ _", OF ver] vs
        bind_eq_Inr [of "require_retired_successors _ _", OF suc] acc fin)
qed

lemma example_closed_eval: "example_closed = example_closed_db"
  by (simp add: example_closed_def example_opened_eval(2) scope_on_db example_close_eval)

lemma example_close_step: "engagement_step example_opened example_closed"
  unfolding example_closed_def example_close_def by (rule es_close) (rule prod.collapse [symmetric])

lemma example_reachable:
  "engagement_step\<^sup>*\<^sup>* example_empty example_opened" "engagement_step\<^sup>*\<^sup>* example_empty example_closed"
  "engagement_step\<^sup>*\<^sup>* example_empty example_held"
  using example_steps example_close_step example_claimed by (meson r_into_rtranclp rtranclp_trans)+

end
