(* ===== verification/Sessions_Properties.thy ===== *)
theory Sessions_Properties
  imports Session_Example
begin

text \<open>
  What engagements promise: the hold of an engagement is exact in every reachable database, the books of a
  customer balance, a closed engagement is final, a close moves exactly the unused part of the hold and is
  idempotent, a refused authorization gives the hold back, and the life of an engagement refines an
  abstract hold.
\<close>

section \<open>Holds\<close>

text \<open>C2. In every reachable database the ledger holds against an engagement exactly its customer cap
  while it is open or draining, and exactly its bill, between zero and the cap, once it is closed. Every
  ledger row of an engagement belongs to the engagement's customer.\<close>

theorem engagement_hold_exact:
  assumes "engagements_empty db0" and "engagement_step\<^sup>*\<^sup>* db0 db" and "get_session db e = Some s"
  shows "\<exists>m. ps_customer_max_debit_wei s = Some m \<and>
    (if ps_state s \<in> {''open'', ''draining''} then etotal (ledger db) e = - m
     else ps_state s = ''closed'' \<and> (\<exists>b. ps_billed_value_wei s = Some b \<and> 0 \<le> b \<and> b \<le> m \<and>
       etotal (ledger db) e = - b)) \<and>
    (\<forall>r \<in> set (ledger db). cl_related_engagement_id r = Some e \<longrightarrow> cl_user_id r = ps_user_id s)"
proof -
  note inv = reachable_inv [OF assms(1,2)]
  note s = get_session_in [OF assms(3)]
  have owner: "cl_user_id r = ps_user_id s" if r: "r \<in> set (ledger db)" "cl_related_engagement_id r = Some e" for r
  proof -
    from inv r obtain t where t: "t \<in> set (sessions db)" "ps_id t = e" "ps_user_id t = cl_user_id r"
      by (auto simp: engagement_inv_def owned_def)
    with s inv have "t = s" by (metis engagement_inv_def distinct_map inj_onD)
    with t show ?thesis by simp
  qed
  from inv_hold [OF inv assms(3)] s owner show ?thesis
    by (auto simp: hold_ok_def live_def open_ok_def closed_ok_def split: if_splits)
qed

theorem engagement_hold_exact_witness:
  "etotal (ledger example_opened) ''gw'' = - 15 \<and> etotal (ledger example_closed) ''gw'' = - 11"
proof -
  have o: "get_session example_opened ''gw'' = Some example_authorized"
    by (simp add: get_session_def example_opened_eval(2) example_db_def example_authorized_def example_session_def)
  have c: "get_session example_closed ''gw'' = Some (closed_row example_dates example_verified 11 ''OVERFUNDED''
      ''loc-auth:r1'' 70 example_authorized)"
    by (simp add: get_session_def example_closed_eval example_closed_db_def closed_row_def example_authorized_def
        example_session_def)
  from engagement_hold_exact [OF example_empty_ok example_reachable(1) o]
    engagement_hold_exact [OF example_empty_ok example_reachable(2) c]
  show ?thesis by (simp add: closed_row_def example_authorized_def example_session_def)
qed

text \<open>What an engagement takes from its customer.\<close>

definition obligation :: "payment_session \<Rightarrow> wei" where
  "obligation s = (if live s then the (ps_customer_max_debit_wei s) else the (ps_billed_value_wei s))"

lemma etotal_Cons: "etotal (r # L) e = (if cl_related_engagement_id r = Some e then cl_delta_wei r else 0) + etotal L e"
  by (simp add: etotal_def)

lemma sum_indicator:
  "distinct (map key S) \<Longrightarrow>
     sum_list (map (\<lambda>s. if key s = k then d else (0 :: int)) S) = (if k \<in> key ` set S then d else 0)"
  by (induction S) auto

lemma engagement_rows_total:
  assumes "distinct (map ps_id S)" and "\<forall>r \<in> set L. owned S r"
  shows "sum_list (map cl_delta_wei (filter (\<lambda>r. cl_user_id r = u \<and> cl_related_engagement_id r \<noteq> None) L)) =
    sum_list (map (\<lambda>s. etotal L (ps_id s)) (filter (\<lambda>s. ps_user_id s = u) S))"
  using assms(2)
proof (induction L)
  case Nil
  then show ?case by (simp add: etotal_def)
next
  case (Cons r L)
  let ?S = "filter (\<lambda>s. ps_user_id s = u) S"
  have dist: "distinct (map ps_id ?S)" using assms(1) by (simp add: distinct_map_filter)
  have "sum_list (map (\<lambda>s. if cl_related_engagement_id r = Some (ps_id s) then cl_delta_wei r else 0) ?S) =
    (if cl_user_id r = u \<and> cl_related_engagement_id r \<noteq> None then cl_delta_wei r else 0)"
  proof (cases "cl_related_engagement_id r")
    case None
    then show ?thesis by (simp add: sum_list_0)
  next
    case (Some k)
    with Cons.prems obtain s where s: "s \<in> set S" "ps_id s = k" "ps_user_id s = cl_user_id r" by (auto simp: owned_def)
    have "k \<in> ps_id ` set ?S \<longleftrightarrow> cl_user_id r = u"
    proof
      assume "k \<in> ps_id ` set ?S"
      then obtain t where "t \<in> set S" "ps_id t = k" "ps_user_id t = u" by auto
      with s assms(1) show "cl_user_id r = u" by (metis distinct_map inj_onD)
    qed (use s in auto)
    with sum_indicator [OF dist, of k "cl_delta_wei r"] Some show ?thesis by (simp add: eq_commute [of k])
  qed
  with Cons show ?case by (auto simp: etotal_Cons sum_list_addf)
qed

lemma etotal_obligation: "engagement_inv db \<Longrightarrow> s \<in> set (sessions db) \<Longrightarrow> etotal (ledger db) (ps_id s) = - obligation s"
  by (force simp: engagement_inv_def hold_ok_def open_ok_def closed_ok_def obligation_def live_def split: if_splits)

lemma balance_split:
  assumes inv: "engagement_inv db" and bal: "billing_inv db"
  shows "cb_amount_wei (balance_row u db) =
    sum_list (map cl_delta_wei (filter (\<lambda>r. cl_user_id r = u \<and> cl_related_engagement_id r = None) (ledger db))) -
    sum_list (map obligation (filter (\<lambda>s. ps_user_id s = u) (sessions db)))"
proof -
  have "sum_list (map (\<lambda>s. etotal (ledger db) (ps_id s)) (filter (\<lambda>s. ps_user_id s = u) (sessions db))) =
      sum_list (map (\<lambda>s. - obligation s) (filter (\<lambda>s. ps_user_id s = u) (sessions db)))"
    by (intro arg_cong [of _ _ sum_list] map_cong refl) (simp add: etotal_obligation [OF inv])
  moreover have "user_total L u = sum_list (map cl_delta_wei (filter (\<lambda>r. cl_user_id r = u \<and> cl_related_engagement_id r = None) L)) +
      sum_list (map cl_delta_wei (filter (\<lambda>r. cl_user_id r = u \<and> cl_related_engagement_id r \<noteq> None) L))" for L
    by (induction L) (auto simp: user_total_def)
  moreover have "sum_list (map cl_delta_wei (filter (\<lambda>r. cl_user_id r = u \<and> cl_related_engagement_id r \<noteq> None) (ledger db))) =
      sum_list (map (\<lambda>s. etotal (ledger db) (ps_id s)) (filter (\<lambda>s. ps_user_id s = u) (sessions db)))"
    using inv by (intro engagement_rows_total) (auto simp: engagement_inv_def)
  moreover have "cb_amount_wei (balance_row u db) = user_total (ledger db) u"
    using bal by (auto simp: billing_inv_def ledger_ok_def)
  ultimately show ?thesis by (simp add: uminus_sum_list_map comp_def)
qed

text \<open>C1. Conservation: in every reachable database the balance of a customer is what was credited outside
  engagements less, for each of the customer's engagements, the cap while it is live and the bill once it
  is closed; and the balance is not negative.\<close>

theorem customer_books_balance:
  assumes "books_empty db0" and "engagement_step\<^sup>*\<^sup>* db0 db"
  shows "cb_amount_wei (balance_row u db) =
      sum_list (map cl_delta_wei (filter (\<lambda>r. cl_user_id r = u \<and> cl_related_engagement_id r = None) (ledger db))) -
      sum_list (map obligation (filter (\<lambda>s. ps_user_id s = u) (sessions db))) \<and>
    0 \<le> cb_amount_wei (balance_row u db)"
proof -
  from books.inv_reachable [OF assms] have inv: "engagement_inv db" and bal: "billing_inv db" by (auto simp: clearing_inv_def)
  from bal have "0 \<le> cb_amount_wei (balance_row u db)" by (auto simp: billing_inv_def ledger_ok_def)
  with balance_split [OF inv bal] show ?thesis by blast
qed

theorem customer_books_balance_witness:
  "cb_amount_wei (balance_row ''u1'' example_opened) = 100 - 15 \<and>
   cb_amount_wei (balance_row ''u1'' example_closed) = 100 - 11"
proof -
  note at = customer_books_balance [OF example_books_empty, of _ "''u1''"]
  from at [OF example_reachable(1)] at [OF example_reachable(2)] show ?thesis
    by (simp add: example_closed_eval example_closed_db_def example_opened_eval(2) example_db_def example_held_def
        example_funded_eval obligation_def live_def closed_row_def example_authorized_def example_session_def)
qed

section \<open>The life of an engagement\<close>

text \<open>C10. A closed engagement is final: from any reachable database on, whatever requests and janitors run,
  its row stays closed with the same bill, units, cap, outcome and closing time, and the ledger never
  moves for it again.\<close>

theorem closed_is_final:
  assumes "engagements_empty db0" and "engagement_step\<^sup>*\<^sup>* db0 db" and "engagement_step\<^sup>*\<^sup>* db db'"
    and "get_session db e = Some s" and "ps_state s = ''closed''"
  shows "\<exists>t. get_session db' e = Some t \<and> final_account s t \<and> etotal (ledger db') e = etotal (ledger db) e"
proof -
  note ok = engagements.inv_reachable [OF assms(1,2)] and inv = reachable_inv [OF assms(1,2)]
  from session_rows.row_star [OF assms(3) ok assms(4)] obtain t where t: "get_session db' e = Some t" "session_le s t"
    by blast
  with assms(5) have fin: "final_account s t" by (simp add: session_le_def)
  note e = get_session_in [OF assms(4)] get_session_in [OF t(1)]
  from fin have "obligation t = obligation s" by (simp add: obligation_def final_account_def live_def)
  with etotal_obligation [OF inv, of s] etotal_obligation [OF engagements.inv_star [OF assms(3) ok, unfolded clearing_inv_def, THEN conjunct1], of t] e
  have "etotal (ledger db') e = etotal (ledger db) e" by simp
  with t(1) fin show ?thesis by blast
qed

theorem closed_is_final_witness:
  "\<exists>db' t. engagement_step\<^sup>*\<^sup>* example_closed db' \<and> db' \<noteq> example_closed \<and> get_session db' ''gw'' = Some t \<and>
     ps_billed_value_wei t = Some 11 \<and> etotal (ledger db') ''gw'' = - 11"
proof -
  let ?s = "closed_row example_dates example_verified 11 ''OVERFUNDED'' ''loc-auth:r1'' 70 example_authorized"
  have s: "get_session example_closed ''gw'' = Some ?s"
    by (simp add: get_session_def example_closed_eval example_closed_db_def closed_row_def example_authorized_def
        example_session_def)
  let ?d = "example_closed\<lparr>server_now := 80\<rparr>"
  have step: "engagement_step\<^sup>*\<^sup>* example_closed ?d" using es_tick by blast
  have "server_now example_closed = 0"
    by (simp add: example_closed_eval example_closed_db_def example_db_def example_held_def example_funded_eval example_empty_def)
  then have "server_now ?d \<noteq> server_now example_closed" by simp
  then have ne: "?d \<noteq> example_closed" by metis
  have tot: "etotal (ledger example_closed) ''gw'' = - 11"
    by (simp add: example_closed_eval example_closed_db_def example_db_def example_held_def example_funded_eval etotal_def entry_of_def)
  from closed_is_final [OF example_empty_ok example_reachable(2) step s] obtain t where
    "get_session ?d ''gw'' = Some t" "final_account ?s t" "etotal (ledger ?d) ''gw'' = etotal (ledger example_closed) ''gw''"
    by (auto simp: closed_row_def)
  then show ?thesis using step ne tot by (intro exI [of _ ?d] exI [of _ t]) (auto simp: final_account_def closed_row_def)
qed

text \<open>
  The abstract specification of an engagement's money: no hold, a hold of some amount, or a settled bill.
  A hold can be taken, grow, and be settled once at no more than the hold.
\<close>

datatype hold = No_Hold | Held wei | Settled_At wei

inductive hold_step :: "hold \<Rightarrow> hold \<Rightarrow> bool" where
  take_hold: "hold_step No_Hold (Held m)"
| grow_hold: "m \<le> n \<Longrightarrow> hold_step (Held m) (Held n)"
| settle_hold: "0 \<le> b \<Longrightarrow> b \<le> m \<Longrightarrow> hold_step (Held m) (Settled_At b)"

fun held_amount :: "hold \<Rightarrow> wei" where
  "held_amount No_Hold = 0"
| "held_amount (Held m) = m"
| "held_amount (Settled_At b) = b"

text \<open>One hold is below another when steps lead from the first to the second; the order says it without the path.\<close>

instantiation hold :: order
begin

fun less_eq_hold :: "hold \<Rightarrow> hold \<Rightarrow> bool" where
  "less_eq_hold No_Hold y \<longleftrightarrow> (case y of Settled_At b \<Rightarrow> 0 \<le> b | _ \<Rightarrow> True)"
| "less_eq_hold (Held m) y \<longleftrightarrow> (case y of No_Hold \<Rightarrow> False | Held n \<Rightarrow> m \<le> n | Settled_At b \<Rightarrow> 0 \<le> b)"
| "less_eq_hold (Settled_At b) y \<longleftrightarrow> y = Settled_At b"

definition less_hold :: "hold \<Rightarrow> hold \<Rightarrow> bool" where
  "less_hold x y \<longleftrightarrow> x \<le> y \<and> \<not> y \<le> x"

instance
proof
  fix x y z :: hold
  show "x < y \<longleftrightarrow> x \<le> y \<and> \<not> y \<le> x" by (rule less_hold_def)
  show "x \<le> x" by (cases x) simp_all
  show "x \<le> y \<Longrightarrow> y \<le> z \<Longrightarrow> x \<le> z" by (cases x; cases y; cases z) simp_all
  show "x \<le> y \<Longrightarrow> y \<le> x \<Longrightarrow> x = y" by (cases x; cases y) simp_all
qed

end

lemma hold_steps_iff_le: "hold_step\<^sup>*\<^sup>* x y \<longleftrightarrow> x \<le> y"
proof
  show "x \<le> y" if "hold_step\<^sup>*\<^sup>* x y"
    using that
  proof (induction rule: rtranclp_induct)
    case (step y z)
    from step.hyps(2) have "y \<le> z" by cases simp_all
    with step.IH show ?case by (rule order_trans)
  qed simp
  have grow: "hold_step\<^sup>*\<^sup>* (Held m) y" if "Held m \<le> y" for m
  proof (cases y)
    case (Settled_At b)
    with that have "hold_step (Held m) (Held (max m b))" "hold_step (Held (max m b)) y"
      by (auto intro: grow_hold settle_hold)
    then show ?thesis by (simp add: converse_rtranclp_into_rtranclp)
  qed (use that in \<open>auto intro: grow_hold\<close>)
  show "hold_step\<^sup>*\<^sup>* x y" if "x \<le> y"
  proof (cases x)
    case No_Hold
    show ?thesis
    proof (cases "y = No_Hold")
      case False
      with that No_Hold have "Held (held_amount y) \<le> y" by (cases y) simp_all
      with grow No_Hold take_hold show ?thesis by (metis converse_rtranclp_into_rtranclp)
    qed (simp add: No_Hold)
  qed (use that grow in auto)
qed

definition hold_of :: "('z sessions_db_scheme) \<Rightarrow> uuid \<Rightarrow> hold" where
  "hold_of db e =
     (case get_session db e of
        None \<Rightarrow> No_Hold
      | Some s \<Rightarrow> if live s then Held (the (ps_customer_max_debit_wei s))
                   else Settled_At (the (ps_billed_value_wei s)))"

lemma row_hold:
  assumes "engagement_inv db" and "get_session db e = Some s"
  obtains (open_row) m where "live s" "ps_customer_max_debit_wei s = Some m" "hold_of db e = Held m"
    | (closed_row) m b where "\<not> live s" "ps_state s = ''closed''" "ps_customer_max_debit_wei s = Some m"
      "ps_billed_value_wei s = Some b" "0 \<le> b" "b \<le> m" "hold_of db e = Settled_At b"
  using inv_hold [OF assms] assms(2)
  by (auto simp: hold_ok_def closed_ok_def hold_of_def split: if_splits)

lemma hold_amount:
  assumes inv: "engagement_inv db"
  shows "etotal (ledger db) e = - held_amount (hold_of db e)"
proof (cases "get_session db e")
  case None
  then have "\<forall>s \<in> set (sessions db). ps_id s \<noteq> e" by (auto simp: get_session_def find_None_iff)
  with etotal_unowned(1) [of "ledger db" "sessions db" e] inv None show ?thesis
    by (simp add: engagement_inv_def hold_of_def)
next
  case (Some s)
  with etotal_obligation [OF inv, of s] get_session_in [OF Some] show ?thesis
    by (auto simp: hold_of_def obligation_def)
qed

lemma hold_advances:
  assumes "clearing_inv db" and "engagement_step db db'"
  shows "hold_of db e \<le> hold_of db' e"
proof -
  from assms(1) engagements.inv_step [OF assms] have inv: "engagement_inv db" and inv': "engagement_inv db'"
    by (simp_all add: clearing_inv_def)
  show ?thesis
  proof (cases "get_session db e")
    case None
    then have "hold_of db e = No_Hold" by (simp add: hold_of_def)
    moreover have "No_Hold \<le> hold_of db' e"
    proof (cases "get_session db' e")
      case (Some t)
      with inv' show ?thesis by (cases rule: row_hold) simp_all
    qed (simp add: hold_of_def)
    ultimately show ?thesis by simp
  next
    case (Some s)
    from session_row_step [OF assms Some] obtain t where t: "get_session db' e = Some t" "session_le s t" by blast
    from inv Some show ?thesis
    proof (cases rule: row_hold)
      case (open_row m)
      from inv' t(1) show ?thesis using open_row t(2)
        by (cases rule: row_hold) (auto simp: session_le_def)
    next
      case (closed_row m b)
      with t have "hold_of db' e = hold_of db e" by (auto simp: session_le_def final_account_def hold_of_def live_def Some)
      then show ?thesis by simp
    qed
  qed
qed

text \<open>C9. Refinement: every request and janitor, seen from one engagement, is a sequence of steps of the
  abstract hold, and the ledger holds exactly the abstract amount.\<close>

theorem engagement_refines_hold:
  assumes "clearing_inv db" and "engagement_step db db'"
  shows "hold_step\<^sup>*\<^sup>* (hold_of db e) (hold_of db' e) \<and> etotal (ledger db') e = - held_amount (hold_of db' e)"
proof -
  from engagements.inv_step [OF assms] have "engagement_inv db'" by (simp add: clearing_inv_def)
  with hold_amount hold_advances [OF assms] show ?thesis by (simp add: hold_steps_iff_le)
qed

theorem engagement_refines_hold_witness:
  "hold_step\<^sup>*\<^sup>* (Held 15) (Settled_At 11) \<and> hold_of example_opened ''gw'' = Held 15 \<and>
   hold_of example_closed ''gw'' = Settled_At 11"
proof -
  have o: "hold_of example_opened ''gw'' = Held 15"
    by (simp add: hold_of_def get_session_def live_def example_opened_eval(2) example_db_def example_authorized_def
        example_session_def)
  moreover have c: "hold_of example_closed ''gw'' = Settled_At 11"
    by (simp add: hold_of_def get_session_def live_def example_closed_eval example_closed_db_def closed_row_def
        example_authorized_def example_session_def)
  moreover note engagement_refines_hold [OF engagements.inv_reachable [OF example_empty_ok example_reachable(1)]
    example_close_step, of "''gw''"]
  ultimately show ?thesis by simp
qed

section \<open>Closing\<close>

lemma release_balance:
  assumes run: "release_customer_engagement u e a db = (Inr b, db')" and none: "\<not> has_entry (ledger db) e ''engagement_release''"
  shows "cb_amount_wei (balance_row v db') = cb_amount_wei (balance_row v db) + (if v = u then a else 0)"
  using run [unfolded release_keyed] windows_only_ret
proof (cases rule: keyed_step_cases)
  case (first ws)
  then have "balances db' = balances (posted (entry_of u a ''engagement_release'' None (Some e) None None
      (server_now db)) db)" by simp
  from balance_row_cong [OF this, of v] show ?thesis by (simp add: balance_row_posted)
qed (use none in \<open>auto simp: engagement_entry_None [symmetric]\<close>)

lemma refund_balance:
  assumes run: "refund_step u e refund db = (Inr (), db')" and none: "\<not> has_entry (ledger db) e ''engagement_release''"
    and pos: "0 \<le> refund"
  shows "cb_amount_wei (balance_row v db') = cb_amount_wei (balance_row v db) + (if v = u then refund else 0)"
proof (cases "refund = 0")
  case True
  with run show ?thesis by (simp add: refund_step_def ret_def)
next
  case False
  with run pos obtain b where "release_customer_engagement u e refund db = (Inr b, db')"
    by (auto simp: refund_step_def op_iff)
  from release_balance [OF this none] show ?thesis .
qed

lemma find_grant_settled:
  assumes "find_grant db2 e a = Some g" and "grants db' = grants (set_grant a (\<lambda>_. g') db2)"
    and "gr_session_id g' = e" "gr_authorization_id g' = a"
  shows "find_grant db' e a = Some g'"
proof -
  have "find (\<lambda>g. gr_session_id g = e \<and> gr_authorization_id g = a) gs = Some h \<Longrightarrow>
    \<exists>h'. find (\<lambda>g. gr_session_id g = e \<and> gr_authorization_id g = a)
      (update_where (\<lambda>g. gr_authorization_id g = a) (\<lambda>_. g') gs) = Some h' \<and> h' = g'" for gs h
    using assms(3,4) by (induction gs) (auto split: if_splits)
  with assms(1,2) show ?thesis by (force simp: find_grant_def set_grant_def)
qed

text \<open>What a verified closing settlement was checked against.\<close>

lemma verify_close_run:
  assumes "verify_close_settlement v dt row (Some st) terminal db = (Inr verified, db')"
  obtains snapshot a g expected where "ps_route_snapshot row = Some snapshot" "rs_settlement_keys snapshot \<noteq> []"
    "authorization_hint st = Some a" "find_grant db (ps_id row) a = Some g"
    "close_expectation row snapshot g
       (if 0 < ps_rotation_generation row then the (ps_predecessor_work_id row) else []) terminal = Inr expected"
    "verify_session_settlement v st (map (delegation_of dt) (rs_settlement_keys snapshot)) expected = Inr verified"
  using assms
  by (auto simp: verify_close_settlement_def catch_op_def op_run Let_def bind_r_Inr_iff
      split: option.splits if_splits sum.splits intro!: that)

lemma find_filter: "find P (filter Q xs) = find (\<lambda>x. Q x \<and> P x) xs"
  by (induction xs) auto

lemma successors_retired:
  assumes "require_retired_successors row a db = (Inr (), db')" and "find_grant db (ps_id row) a = Some g"
    and "h \<in> set (grants db)" and "gr_session_id h = ps_id row" and "gr_revision g < gr_revision h"
  shows "gr_state h \<in> {''canceled_unused'', ''expired_unused''} \<and> gr_retired_at h \<noteq> None"
proof -
  from assms(2) have "find (\<lambda>g. gr_authorization_id g = a) (filter (\<lambda>g. gr_session_id g = ps_id row) (grants db)) = Some g"
    by (simp add: find_filter find_grant_def)
  with assms(1,3-5) show ?thesis
    by (auto simp: require_retired_successors_def op_run find_None_iff split: option.splits)
qed

text \<open>What the first close of a session leaves behind.\<close>

lemma first_close:
  assumes inv: "engagement_inv db" and s: "get_session db e = Some s" and notclosed: "ps_state s \<noteq> ''closed''"
    and run: "close_session v dt e u units outcome settlement now db = (Inr r, db')"
  obtains cap verified billed final a g st where "ps_user_id s = u" "settlement = Some st"
    "verify_close_settlement v dt s (Some st) True db = (Inr verified, db)" "authorization_hint st = Some a"
    "require_retired_successors s (vs_work_id verified) db = (Inr (), db)"
    "close_accounting s verified outcome = Inr (billed, cap - billed, final)"
    "units = vs_debited_units verified" "ps_customer_max_debit_wei s = Some cap" "0 \<le> billed" "billed \<le> cap"
    "get_session db' e = Some (closed_row dt verified billed final a now s)"
    "settlements db' = settlements db @ [close_event e now verified billed final st]"
    "find_grant db e a = Some g"
    "find_grant db' e a = Some (g\<lparr>gr_state := ''settled'', gr_retired_at := retired_or now g\<rparr>)"
    "\<And>w. cb_amount_wei (balance_row w db') = cb_amount_wei (balance_row w db) + (if w = u then cap - billed else 0)"
    "r = \<lparr>cz_session_id = e, cz_work_id = a, cz_actual_units = units, cz_billed_value_wei = billed,
          cz_refund_wei = cap - billed, cz_outcome = final, cz_closed_at = now\<rparr>"
  using run
proof (cases rule: close_cases)
  case (replay row)
  with s notclosed show ?thesis by simp
next
  case (close row st verified billed refund final)
  have e: "ps_id s = e" using get_session_in [OF s] by simp
  from s close(1) have row: "row = s" by simp
  have row': "get_session db (ps_id s) = Some s" using s e by simp
  obtain cap where acc: "ps_customer_max_debit_wei s = Some cap" "billed \<le> cap" "refund = cap - billed" "0 \<le> billed"
    using close(8) [unfolded row] by (rule close_accounting_run)
  obtain a db1 db2 g where f: "authorization_hint st = Some a"
    "refund_step u (ps_id s) refund (set_session (ps_id s)
       (\<lambda>_. s\<lparr>ps_state := ''closed'', ps_closed_at := Some now\<rparr>) db) = (Inr (), db1)"
    "ps_state s \<in> {''open'', ''draining''}"
    "db2 = set_session (ps_id s) (\<lambda>s. s\<lparr>ps_authorization_id := Some a, ps_work_id := a\<rparr>)
       (set_session (ps_id s) (\<lambda>s. s\<lparr>ps_actual_units := Some (vs_debited_units verified),
         ps_billed_value_wei := Some billed, ps_outcome := Some final,
         ps_broker_session_id := Some (vs_broker_session_id verified),
         ps_last_settlement_seq := vs_settlement_seq verified,
         ps_breakdown := close_breakdown dt verified (ps_breakdown s)\<rparr>) db1)"
    "find_grant db2 (ps_id s) a = Some g"
    "db' = (set_grant a (\<lambda>_. g\<lparr>gr_state := ''settled'', gr_retired_at := retired_or now g\<rparr>) db2)
       \<lparr>settlements := settlements db2 @ [close_event (ps_id s) now verified billed final st]\<rparr>"
    "r = \<lparr>cz_session_id = ps_id s, cz_work_id = a, cz_actual_units = vs_debited_units verified,
          cz_billed_value_wei = billed, cz_refund_wei = max refund 0, cz_outcome = final, cz_closed_at = now\<rparr>"
    using close(9) [unfolded row] row' by (rule finalize_run)
  let ?d = "set_session e (\<lambda>_. s\<lparr>ps_state := ''closed'', ps_closed_at := Some now\<rparr>) db"
  have rf: "refund_step u e refund ?d = (Inr (), db1)" using f(2) e by simp
  from inv_hold [OF inv s] f(3) e have none: "\<not> has_entry (ledger ?d) e ''engagement_release''"
    by (auto simp: hold_ok_def live_def open_ok_def set_session_def)
  have bal: "balance_row w db' = balance_row w db1" "balance_row w ?d = balance_row w db" for w
    by (rule balance_row_cong, simp add: f(4,6) set_session_def set_grant_def)+
  have frame: "settlements db1 = settlements ?d" "sessions db1 = sessions ?d" "grants db1 = grants ?d"
    using refund_run [OF rf none] by metis+
  then have ev: "settlements db' = settlements db @ [close_event e now verified billed final st]"
    and ss: "sessions db' = update_where (\<lambda>x. ps_id x = e) (\<lambda>_. closed_row dt verified billed final a now s) (sessions db)"
    using e by (simp_all add: f(4,6) set_session_def set_grant_def update_where_twice closed_row_def)
  have t: "get_session db' e = Some (closed_row dt verified billed final a now s)"
    using s e find_update_where_same [of "\<lambda>x. ps_id x = e" "\<lambda>_. closed_row dt verified billed final a now s" "sessions db"]
    by (simp add: get_session_def ss closed_row_def)
  have fg: "find_grant db2 e a = Some g" using f(5) e by simp
  then have g0: "find_grant db e a = Some g" using frame(3) by (simp add: f(4) find_grant_def set_session_def)
  have g: "find_grant db' e a = Some (g\<lparr>gr_state := ''settled'', gr_retired_at := retired_or now g\<rparr>)"
    using find_grant_settled [OF fg, of db'] find_grant_in [OF fg] by (simp add: f(6))
  have b: "cb_amount_wei (balance_row w db') = cb_amount_wei (balance_row w db) + (if w = u then cap - billed else 0)" for w
    using refund_balance [OF rf none, of w] acc(2,3) bal [of w] by simp
  show thesis
    by (rule that [OF _ _ _ f(1) _ _ _ acc(1,4,2) t ev g0 g b]) (use close row e f(7) acc in auto)
qed

text \<open>C3. A close settles exactly: when a session that is not closed yet closes, the settlement verified, under a
  key delegated in the session's route snapshot, against the expectation built from the row and from the retained
  grant it names, every later grant of the session had been retired unused, and the bill is the retail charge of
  the verified units and value under the session's pricing, between zero and the cap. The customer's balance grows
  by exactly the cap less the bill and no other balance moves, the ledger keeps exactly the bill, the row and the
  response record the verified numbers, the grant is settled and retired, and one close event with the signed
  settlement is appended.\<close>

theorem close_settles_exactly:
  assumes reach: "engagements_empty db0" "engagement_step\<^sup>*\<^sup>* db0 db" and s: "get_session db e = Some s"
    and notclosed: "ps_state s \<noteq> ''closed''"
    and run: "close_session v dt e u units outcome settlement now db = (Inr r, db')"
  shows "\<exists>st snapshot a g expected verified pricing m.
    ps_user_id s = u \<and> settlement = Some st \<and> authorization_hint st = Some a \<and> find_grant db e a = Some g \<and>
    ps_route_snapshot s = Some snapshot \<and> rs_settlement_keys snapshot \<noteq> [] \<and>
    close_expectation s snapshot g
      (if 0 < ps_rotation_generation s then the (ps_predecessor_work_id s) else []) True = Inr expected \<and>
    verify_session_settlement v st (map (delegation_of dt) (rs_settlement_keys snapshot)) expected = Inr verified \<and>
    (\<forall>h \<in> set (grants db). gr_session_id h = e \<and> gr_revision g < gr_revision h \<longrightarrow>
       gr_state h \<in> {''canceled_unused'', ''expired_unused''} \<and> gr_retired_at h \<noteq> None) \<and>
    units = vs_debited_units verified \<and> ps_customer_pricing s = Some pricing \<and> ps_customer_max_debit_wei s = Some m \<and>
    calculate_customer_charge pricing (vs_debited_units verified) (vs_billed_value_wei verified) =
      Inr (cz_billed_value_wei r) \<and>
    0 \<le> cz_billed_value_wei r \<and> cz_billed_value_wei r \<le> m \<and> cz_refund_wei r = m - cz_billed_value_wei r \<and>
    cz_outcome r = (if vs_outcome verified \<noteq> ''SETTLEMENT_OUTCOME_UNSPECIFIED'' then vs_outcome verified
      else if ps_funded_value_wei s < cz_billed_value_wei r then ''UNDERFUNDED''
      else if cz_billed_value_wei r < ps_funded_value_wei s then ''OVERFUNDED'' else ''EXACT'') \<and>
    (outcome = None \<or> outcome = Some (cz_outcome r)) \<and>
    cz_session_id r = e \<and> cz_work_id r = a \<and> cz_actual_units r = units \<and> cz_closed_at r = now \<and>
    (\<forall>w. cb_amount_wei (balance_row w db') =
       cb_amount_wei (balance_row w db) + (if w = u then cz_refund_wei r else 0)) \<and>
    etotal (ledger db') e = - cz_billed_value_wei r \<and>
    get_session db' e = Some (s\<lparr>ps_state := ''closed'', ps_closed_at := Some now,
      ps_actual_units := Some (vs_debited_units verified), ps_billed_value_wei := Some (cz_billed_value_wei r),
      ps_outcome := Some (cz_outcome r), ps_broker_session_id := Some (vs_broker_session_id verified),
      ps_last_settlement_seq := vs_settlement_seq verified,
      ps_breakdown := close_breakdown dt verified (ps_breakdown s), ps_authorization_id := Some a, ps_work_id := a\<rparr>) \<and>
    find_grant db' e a = Some (g\<lparr>gr_state := ''settled'',
      gr_retired_at := Some (case gr_retired_at g of None \<Rightarrow> now | Some t \<Rightarrow> t)\<rparr>) \<and>
    settlements db' = settlements db @
      [\<lparr>pe_session_id = e, pe_recorded_at = now, pe_event_type = ''close'',
        pe_actual_units = Some (vs_debited_units verified), pe_billed_value_wei = Some (cz_billed_value_wei r),
        pe_outcome = Some (cz_outcome r), pe_raw_record = Some st\<rparr>]"
proof -
  note inv = reachable_inv [OF reach]
  from first_close [OF inv s notclosed run] obtain cap verified billed final a g st where c: "ps_user_id s = u"
    "settlement = Some st" "verify_close_settlement v dt s (Some st) True db = (Inr verified, db)" "authorization_hint st = Some a"
    "require_retired_successors s (vs_work_id verified) db = (Inr (), db)"
    "close_accounting s verified outcome = Inr (billed, cap - billed, final)"
    "units = vs_debited_units verified" "ps_customer_max_debit_wei s = Some cap" "0 \<le> billed" "billed \<le> cap"
    "get_session db' e = Some (closed_row dt verified billed final a now s)"
    "settlements db' = settlements db @ [close_event e now verified billed final st]"
    "find_grant db e a = Some g"
    "find_grant db' e a = Some (g\<lparr>gr_state := ''settled'', gr_retired_at := retired_or now g\<rparr>)"
    "\<forall>w. cb_amount_wei (balance_row w db') = cb_amount_wei (balance_row w db) + (if w = u then cap - billed else 0)"
    "r = \<lparr>cz_session_id = e, cz_work_id = a, cz_actual_units = units, cz_billed_value_wei = billed,
          cz_refund_wei = cap - billed, cz_outcome = final, cz_closed_at = now\<rparr>" by metis
  have e: "ps_id s = e" using get_session_in [OF s] by simp
  obtain snapshot expected where k: "ps_route_snapshot s = Some snapshot" "rs_settlement_keys snapshot \<noteq> []"
    "close_expectation s snapshot g
       (if 0 < ps_rotation_generation s then the (ps_predecessor_work_id s) else []) True = Inr expected"
    "verify_session_settlement v st (map (delegation_of dt) (rs_settlement_keys snapshot)) expected = Inr verified"
    using c(3) by (rule verify_close_run) (use c(4,13) e in simp)
  obtain pricing where p: "ps_customer_pricing s = Some pricing"
    "calculate_customer_charge pricing (vs_debited_units verified) (vs_billed_value_wei verified) = Inr billed"
    "final = (if vs_outcome verified = ''SETTLEMENT_OUTCOME_UNSPECIFIED''
              then infer_close_outcome (ps_funded_value_wei s) billed else vs_outcome verified)"
    "outcome = None \<or> outcome = Some final" using c(6) by (rule close_accounting_run)
  have work: "vs_work_id verified = a"
    using k(3,4) c(13) find_grant_in [OF c(13)]
    by (elim session_settlement_run) (auto dest!: session_identity_Inr(5) simp: close_expectation_def split: option.splits)
  have later: "\<forall>h \<in> set (grants db). gr_session_id h = e \<and> gr_revision g < gr_revision h \<longrightarrow>
      gr_state h \<in> {''canceled_unused'', ''expired_unused''} \<and> gr_retired_at h \<noteq> None"
    using successors_retired [OF c(5), of g] c(13) e work by simp
  have "engagement_inv db'" using close_session_inv [OF tracked_self [OF inv] run] tracked_inv by blast
  from etotal_obligation [OF this, of "closed_row dt verified billed final a now s"] get_session_in [OF c(11)]
  have led: "etotal (ledger db') e = - billed" by (simp add: obligation_def live_def closed_row_def)
  show ?thesis
    by (rule exI [of _ st], rule exI [of _ snapshot], rule exI [of _ a], rule exI [of _ g], rule exI [of _ expected],
        rule exI [of _ verified], rule exI [of _ pricing], rule exI [of _ cap], intro conjI)
      (use c k p later led in \<open>simp_all add: closed_row_def close_event_def retired_or_def infer_close_outcome_def split: option.split\<close>)
qed

theorem close_settles_exactly_witness:
  "\<exists>r. example_close example_opened = (Inr r, example_closed) \<and> cz_billed_value_wei r = 11 \<and> cz_refund_wei r = 4 \<and>
     cb_amount_wei (balance_row ''u1'' example_closed) = cb_amount_wei (balance_row ''u1'' example_opened) + 4"
proof -
  have o: "get_session example_opened ''gw'' = Some example_authorized" "ps_state example_authorized \<noteq> ''closed''"
    by (simp_all add: get_session_def example_opened_eval(2) example_db_def example_authorized_def example_session_def)
  obtain r where run: "example_close example_opened = (Inr r, example_closed)" "cz_billed_value_wei r = 11" "cz_refund_wei r = 4"
    using example_close_eval by (simp add: example_opened_eval(2) example_closed_eval)
  from close_settles_exactly [OF example_empty_ok example_reachable(1) o run(1) [unfolded example_close_def]] run show ?thesis by auto
qed

lemma events_reachable:
  assumes "engagements_empty db0" and "settlements db0 = []" and "engagement_step\<^sup>*\<^sup>* db0 db"
  shows "events_ok [] (sessions db) (settlements db)"
proof -
  from assms(3) have "booked ([], []) db"
  proof (induction rule: rtranclp_induct)
    case base
    from engagements.inv_init [OF assms(1)] assms(2) show ?case
      by (simp add: booked_def tracked_def clearing_inv_def events_ok_def evolves_def)
  qed (rule booked_step)
  then show ?thesis by (simp add: booked_def tracked_def)
qed

lemma open_no_close_event:
  assumes "engagements_empty db0" and "settlements db0 = []" and "engagement_step\<^sup>*\<^sup>* db0 db"
    and "get_session db e = Some s" and "ps_state s \<noteq> ''closed''"
  shows "find (\<lambda>p. pe_session_id p = e \<and> pe_event_type p = ''close'') (settlements db) = None"
proof -
  have "distinct (map ps_id (sessions db))" using reachable_inv [OF assms(1,3)] by (simp add: engagement_inv_def)
  then have "x = s" if "x \<in> set (sessions db)" "ps_id x = e" for x
    using that get_session_in [OF assms(4)] by (metis distinct_map inj_onD)
  with events_reachable [OF assms(1-3)] assms(5) show ?thesis
    by (auto simp: events_ok_def find_None_iff)
qed

text \<open>C11. Closing is idempotent: after the first close of a session a repeat, by whatever verifier and clock,
  never changes anything. It returns the same response exactly when it comes from the same user with the same
  settlement and units and either names no outcome or the recorded one; the outcome the first close named, if it
  named one, is the recorded one, so the exact retry is such a repeat. Another user is told that there is no such
  session, and other evidence that the session is closed.\<close>

theorem close_replays:
  assumes empty: "engagements_empty db0" "settlements db0 = []" and reach: "engagement_step\<^sup>*\<^sup>* db0 db"
    and s: "get_session db e = Some s" and notclosed: "ps_state s \<noteq> ''closed''"
    and run: "close_session v dt e u units outcome settlement now db = (Inr r, db')"
  shows "close_session v' dt' e u' units' outcome' settlement' now' db' =
      (if u' \<noteq> u then Inl SessionNotFound
       else if settlement' = settlement \<and> units' = units \<and> (outcome' = None \<or> outcome' = Some (cz_outcome r)) then Inr r
       else Inl (SessionNotOpen ''closed''), db') \<and>
    (outcome = None \<or> outcome = Some (cz_outcome r)) \<and>
    close_session v' dt' e u units outcome settlement now' db' = (Inr r, db')"
proof -
  note inv = reachable_inv [OF empty(1) reach]
  from first_close [OF inv s notclosed run] obtain cap verified billed final a st where c: "ps_user_id s = u"
    "settlement = Some st" "units = vs_debited_units verified" "ps_customer_max_debit_wei s = Some cap" "billed \<le> cap"
    "get_session db' e = Some (closed_row dt verified billed final a now s)"
    "settlements db' = settlements db @ [close_event e now verified billed final st]"
    "r = \<lparr>cz_session_id = e, cz_work_id = a, cz_actual_units = units, cz_billed_value_wei = billed,
          cz_refund_wei = cap - billed, cz_outcome = final, cz_closed_at = now\<rparr>"
    "close_accounting s verified outcome = Inr (billed, cap - billed, final)" by metis
  have e: "ps_id s = e" using get_session_in [OF s] by simp
  have out: "outcome = None \<or> outcome = Some final" using c(9) by (rule close_accounting_run)
  have ev: "find (\<lambda>p. pe_session_id p = e \<and> pe_event_type p = ''close'') (settlements db') =
      Some (close_event e now verified billed final st)"
    using open_no_close_event [OF empty reach s notclosed] by (simp add: c(7) find_append close_event_def)
  have again: "close_session v' dt' e u' units' outcome' settlement' now' db' =
      (if u' \<noteq> u then Inl SessionNotFound
       else if settlement' = settlement \<and> units' = units \<and> (outcome' = None \<or> outcome' = Some final) then Inr r
       else Inl (SessionNotOpen ''closed''), db')" for u' units' outcome' settlement'
    using c(1-6) e ev
    by (auto simp: close_session_def replay_closed_session_def closed_row_def close_event_def c(8) op_run)
  have final: "cz_outcome r = final" by (simp add: c(8))
  from again out show ?thesis by (auto simp: final)
qed

theorem close_replays_witness:
  "\<exists>r. example_close example_opened = (Inr r, example_closed) \<and> example_close example_closed = (Inr r, example_closed) \<and>
     close_session (demo_verifier example_record) example_dates ''gw'' ''u1'' 7 (Some ''OVERFUNDED'') (Some example_settlement) 90
       example_closed = (Inr r, example_closed) \<and>
     close_session (demo_verifier example_record) example_dates ''gw'' ''u1'' 7 (Some ''EXACT'') (Some example_settlement) 90
       example_closed = (Inl (SessionNotOpen ''closed''), example_closed) \<and>
     close_session (demo_verifier example_record) example_dates ''gw'' ''u1'' 8 None (Some example_settlement) 90
       example_closed = (Inl (SessionNotOpen ''closed''), example_closed) \<and>
     close_session (demo_verifier example_record) example_dates ''gw'' ''u2'' 7 None (Some example_settlement) 90
       example_closed = (Inl SessionNotFound, example_closed)"
proof -
  have o: "get_session example_opened ''gw'' = Some example_authorized" "ps_state example_authorized \<noteq> ''closed''"
    by (simp_all add: get_session_def example_opened_eval(2) example_db_def example_authorized_def example_session_def)
  have none: "settlements example_empty = []" by (simp add: example_empty_def)
  obtain r where run: "example_close example_opened = (Inr r, example_closed)" "cz_outcome r = ''OVERFUNDED''"
    using example_close_eval by (simp add: example_opened_eval(2) example_closed_eval)
  note again = close_replays [OF example_empty_ok none example_reachable(1) o run(1) [unfolded example_close_def],
      THEN conjunct1, of "demo_verifier example_record" example_dates]
  show ?thesis
    by (intro exI [of _ r]) (simp add: run example_close_def [symmetric] again, simp add: example_close_def again)
qed

section \<open>Keys\<close>

text \<open>C14. In every reachable database the rows are well formed: session and authorization identifiers are
  unique, every grant and every engagement row of the ledger refers to a session, every session is in
  wholesale accounting in one of the three states, and the current authorization of a live session is
  the retained grant of its last revision.\<close>

theorem engagement_rows_wellformed:
  assumes "engagements_empty db0" and "engagement_step\<^sup>*\<^sup>* db0 db"
  shows "distinct (map ps_id (sessions db)) \<and> distinct (map gr_authorization_id (grants db)) \<and>
    (\<forall>g \<in> set (grants db). get_session db (gr_session_id g) \<noteq> None) \<and>
    (\<forall>r \<in> set (ledger db). \<forall>e. cl_related_engagement_id r = Some e \<longrightarrow> get_session db e \<noteq> None) \<and>
    (\<forall>s \<in> set (sessions db). ps_accounting_mode s = ''wholesale_account'' \<and> ps_state s \<in> set SESSION_STATES \<and>
       (\<forall>a. ps_state s \<noteq> ''closed'' \<and> ps_authorization_id s = Some a \<longrightarrow>
         (\<exists>g. find_grant db (ps_id s) a = Some g \<and> gr_revision g = ps_refill_seq s)))"
proof -
  note inv = reachable_inv [OF assms]
  have found: "get_session db (ps_id s) \<noteq> None" if "s \<in> set (sessions db)" for s
    using that by (auto simp: get_session_def find_None_iff)
  have current: "\<exists>g. find_grant db (ps_id s) a = Some g \<and> gr_revision g = ps_refill_seq s"
    if s: "s \<in> set (sessions db)" "live s" "ps_authorization_id s = Some a" for s a
  proof -
    from inv s obtain h where h: "h \<in> set (grants db)" "gkey h = (ps_id s, a, ps_refill_seq s)"
      by (force simp: engagement_inv_def hold_ok_def open_ok_def chain_ok_def)
    then obtain g where g: "find_grant db (ps_id s) a = Some g"
      by (cases "find_grant db (ps_id s) a") (auto simp: find_grant_def find_None_iff gkey_def)
    from inv have "inj_on gr_authorization_id (set (grants db))" by (simp add: engagement_inv_def distinct_map)
    from inj_onD [OF this, of g h] find_grant_in [OF g] h have "g = h" by (simp add: gkey_def)
    with g h show ?thesis by (simp add: gkey_def)
  qed
  have state: "ps_accounting_mode s = ''wholesale_account'' \<and> ps_state s \<in> set SESSION_STATES \<and>
      (ps_state s \<noteq> ''closed'' \<longrightarrow> live s)" if "s \<in> set (sessions db)" for s
    using inv that by (auto simp: engagement_inv_def hold_ok_def closed_ok_def live_def SESSION_STATES_def split: if_splits)
  have "get_session db (gr_session_id g) \<noteq> None" if "g \<in> set (grants db)" for g
    using inv that found by (metis engagement_inv_def)
  moreover have "get_session db e \<noteq> None" if "r \<in> set (ledger db)" "cl_related_engagement_id r = Some e" for r e
    using inv that found by (metis engagement_inv_def owned_def)
  ultimately show ?thesis using inv current state by (auto simp: engagement_inv_def)
qed

theorem engagement_rows_wellformed_witness:
  "\<exists>g. find_grant example_opened ''gw'' ''loc-auth:r1'' = Some g \<and> gr_revision g = 0"
proof -
  have "example_authorized \<in> set (sessions example_opened)" "ps_id example_authorized = ''gw''"
    "ps_state example_authorized \<noteq> ''closed''" "ps_authorization_id example_authorized = Some ''loc-auth:r1''"
    "ps_refill_seq example_authorized = 0"
    by (simp_all add: example_opened_eval(2) example_db_def example_authorized_def example_session_def)
  with engagement_rows_wellformed [OF example_empty_ok example_reachable(1)] show ?thesis by metis
qed

section \<open>Grants\<close>

text \<open>C12. Grants only move forward: from any reachable database on, every grant is kept with its scope, its
  state never moves back in the order issued, admitted, outcome unknown, terminal, a terminal state never
  changes, and neither does the time of retirement.\<close>

theorem grants_advance:
  assumes "engagements_empty db0" and "engagement_step\<^sup>*\<^sup>* db0 db" and "engagement_step\<^sup>*\<^sup>* db db'"
    and "grant_by_id db a = Some g"
  shows "\<exists>h. grant_by_id db' a = Some h \<and>
    h = g\<lparr>gr_state := gr_state h, gr_retired_at := gr_retired_at h\<rparr> \<and> grant_rank g \<le> grant_rank h \<and>
    (grant_rank g = 3 \<longrightarrow> gr_state h = gr_state g) \<and>
    (gr_retired_at g \<noteq> None \<longrightarrow> gr_retired_at h = gr_retired_at g)"
proof -
  have "distinct (map gr_authorization_id (grants db))"
    using grant_rows.inv_reachable [OF assms(1,2)] .
  from grant_rows.row_star [OF assms(3) this assms(4)] show ?thesis by (simp add: grant_le_def)
qed

theorem grants_advance_witness:
  "\<exists>h. grant_by_id example_closed ''loc-auth:r1'' = Some h \<and> gr_state h = ''settled'' \<and> gr_retired_at h = Some 70 \<and>
     gr_max_debit_wei h = 15"
proof -
  have g: "grant_by_id example_opened ''loc-auth:r1'' = Some example_grant" "gr_max_debit_wei example_grant = 15"
    by (simp_all add: grant_by_id_def example_opened_eval(2) example_db_def example_grant_def)
  have h: "grant_by_id example_closed ''loc-auth:r1'' = Some (example_grant\<lparr>gr_state := ''settled'', gr_retired_at := Some 70\<rparr>)"
    by (simp add: grant_by_id_def example_closed_eval example_closed_db_def example_grant_def)
  have "engagement_step\<^sup>*\<^sup>* example_opened example_closed" using example_close_step by blast
  from grants_advance [OF example_empty_ok example_reachable(1) this g(1)] h g(2) show ?thesis by auto
qed

text \<open>Several runs of the grants janitor, and how many changes the grants still allow.\<close>

fun janitor_runs ::
  "((spend_authorization_grant \<Rightarrow> error + spend_authorization_observation) \<times>
    (spend_authorization_grant \<Rightarrow> error + wholesale_account_observation) \<times> timestamp \<times> nat) list \<Rightarrow>
   ('z sessions_db_scheme, int) op" where
  "janitor_runs [] = ret 0"
| "janitor_runs ((query, account, now, limit) # runs) =
     bind_op (reconcile_spend_authorization_states query account now limit) (\<lambda>n.
     bind_op (janitor_runs runs) (\<lambda>m. ret (n + m)))"

definition changes_left :: "('z sessions_db_scheme) \<Rightarrow> int" where
  "changes_left db = sum_list (map (\<lambda>g. 3 - int (grant_rank g)) (grants db))"

lemma fold_op_bounded:
  assumes step: "\<And>acc x s y s'. I s \<Longrightarrow> f acc x s = (Inr y, s') \<Longrightarrow> I s' \<and> acc \<le> y \<and> y - acc + M s' \<le> (M s :: int)"
  shows "fold_op f acc xs s = (Inr y, s') \<Longrightarrow> I s \<Longrightarrow> I s' \<and> acc \<le> y \<and> y - acc + M s' \<le> M s"
proof (induction xs arbitrary: acc s)
  case Nil
  then show ?case by (simp add: ret_def)
next
  case (Cons x xs)
  then obtain z t where "f acc x s = (Inr z, t)" "fold_op f z xs t = (Inr y, s')" by (auto simp: bind_Inr_iff)
  with step [OF Cons.prems(2)] Cons.IH [of z t] show ?case by force
qed

lemma changes_set:
  assumes dist: "distinct (map gr_authorization_id (grants db))" and g: "find_grant db e a = Some g"
    and h: "grant_rank g < grant_rank h" "gr_authorization_id h = a"
  shows "distinct (map gr_authorization_id (grants (set_grant a (\<lambda>_. h) db)))"
    "1 + changes_left (set_grant a (\<lambda>_. h) db) \<le> changes_left db"
proof -
  have "map gr_authorization_id (update_where (\<lambda>g. gr_authorization_id g = a) (\<lambda>_. h) (grants db)) =
      map gr_authorization_id (grants db)" using h(2) by (auto simp: update_where_def)
  with dist show "distinct (map gr_authorization_id (grants (set_grant a (\<lambda>_. h) db)))" by (simp add: set_grant_def)
  from find_grant_in [OF g] find_key_unique [OF dist, of g]
  have "find (\<lambda>x. gr_authorization_id x = a) (grants db) = Some g" by auto
  from sum_list_update_where [OF dist this] h(1) show "1 + changes_left (set_grant a (\<lambda>_. h) db) \<le> changes_left db"
    by (simp add: changes_left_def set_grant_def)
qed

lemma reconcile_count:
  assumes dist: "distinct (map gr_authorization_id (grants db))"
    and run: "reconcile_spend_authorization_states query account now limit db = (Inr n, db')"
  shows "distinct (map gr_authorization_id (grants db')) \<and> 0 \<le> n \<and> n + changes_left db' \<le> changes_left db"
proof -
  from run obtain rows where fold: "fold_op (reconcile_row query account now) 0 rows db = (Inr n, db')"
    by (auto simp: reconcile_spend_authorization_states_def)
  have "distinct (map gr_authorization_id (grants d')) \<and> acc \<le> y \<and> y - acc + changes_left d' \<le> changes_left d"
    if d: "distinct (map gr_authorization_id (grants d))" and st: "reconcile_row query account now acc row d = (Inr y, d')"
    for acc row d y d'
    using st
  proof (cases rule: reconcile_row_cases)
    case same
    with d show ?thesis by simp
  next
    case (changed g h)
    with changes_set [OF d changed(1) reconcile_rank [OF changed(3,2)]] show ?thesis by simp
  qed
  from fold_op_bounded [of "\<lambda>d. distinct (map gr_authorization_id (grants d))" "reconcile_row query account now"
      changes_left, OF this fold dist]
  show ?thesis by simp
qed

text \<open>C15. The grants janitor comes to rest: over any number of runs, with any answers of the broker, the
  changes it reports add up to at most three for every grant.\<close>

theorem grants_janitor_terminates:
  assumes "engagements_empty db0" and "engagement_step\<^sup>*\<^sup>* db0 db" and "janitor_runs runs db = (Inr n, db')"
  shows "0 \<le> n \<and> n \<le> 3 * int (length (grants db))"
proof -
  have bound: "distinct (map gr_authorization_id (grants db)) \<Longrightarrow> janitor_runs runs db = (Inr n, db') \<Longrightarrow>
      0 \<le> n \<and> n + changes_left db' \<le> changes_left db" for runs n and db db' :: "('z sessions_db_scheme)"
  proof (induction runs arbitrary: n db rule: janitor_runs.induct)
    case 1
    then show ?case by (simp add: ret_def)
  next
    case (2 query account now limit runs)
    from 2(3) obtain k m d where "reconcile_spend_authorization_states query account now limit db = (Inr k, d)"
      "janitor_runs runs d = (Inr m, db')" "n = k + m"
      by (auto simp: bind_Inr_iff ret_iff)
    with reconcile_count [OF 2(2)] 2(1) [of d m] show ?case by force
  qed
  have "changes_left db' \<ge> 0" unfolding changes_left_def using grant_rank_le
    by (intro sum_list_nonneg) (auto simp: of_nat_diff)
  moreover have "sum_list (map (\<lambda>g. 3 - int (grant_rank g)) gs) \<le> 3 * int (length gs)" for gs
    by (induction gs) auto
  from this [of "grants db"] have "changes_left db \<le> 3 * int (length (grants db))" by (simp add: changes_left_def)
  ultimately show ?thesis
    using bound [OF grant_rows.inv_reachable [OF assms(1,2)] assms(3)] by linarith
qed

definition example_observation :: spend_authorization_observation where
  "example_observation = \<lparr>so_payee = ''0x11'', so_settlement_domain_id = demo_domain, so_payer = lower (''0x'' @ hex [2]),
     so_wholesale_account_id = ''loc'', so_authorization_id = ''loc-auth:r1'', so_state = Admitted,
     so_reserved_value_wei = 15, so_billed_value_wei = 0, so_released_value_wei = 0, so_actual_units = 0,
     so_settlement_seq = 0, so_observed_at = 60\<rparr>"

theorem grants_janitor_terminates_witness:
  "\<exists>db'. janitor_runs [(\<lambda>_. Inr example_observation, \<lambda>_. Inl (KeyError []), 60, 10)] example_opened = (Inr 1, db') \<and>
     (1 :: int) \<le> 3 * int (length (grants example_opened))"
proof -
  have g: "grants example_opened = [example_grant]" "sessions example_opened = [example_authorized]"
    by (simp_all add: example_opened_eval(2) example_db_def)
  have s: "ps_id example_authorized = ''gw''" "ps_accounting_mode example_authorized = ''wholesale_account''"
    by (simp_all add: example_authorized_def example_session_def)
  have gr: "gr_session_id example_grant = ''gw''" "gr_authorization_id example_grant = ''loc-auth:r1''"
    "gr_state example_grant = ''issued''" "gr_wholesale_account_id example_grant = ''loc''"
    "gr_payer_eth_address example_grant = ''0x'' @ hex [2]" "rs_broker_url (gr_route_snapshot example_grant) \<noteq> []"
    by (simp_all add: example_grant_def grant_of_def example_response_def example_snapshot_eq del: hex_simps)
  obtain db' where run: "janitor_runs [(\<lambda>_. Inr example_observation, \<lambda>_. Inl (KeyError []), 60, 10)] example_opened = (Inr 1, db')"
    using g s gr
    by (simp add: reconcile_spend_authorization_states_def reconcile_row_def active_grant_def find_grant_def bind_assoc
        reconcile_grant_def example_observation_def state_value_def terminal_state_def op_run bind_op_def del: hex_simps)
  from grants_janitor_terminates [OF example_empty_ok example_reachable(1) run] run show ?thesis by blast
qed

section \<open>Refusal, preparation and price\<close>

text \<open>C13. When the payer daemon refuses to sign the initial authorization, the request raises
  \<open>AuthorizationRefused\<close>, and the committed database has the engagement closed as not admitted at a bill of
  zero, nothing left on the ledger for it and the whole hold back on the customer's balance.\<close>

theorem refused_authorization_releases:
  assumes reach: "books_empty db0" "engagement_step\<^sup>*\<^sup>* db0 db" and s: "get_session db e = Some s"
    and claimed: "ps_state s = ''open''" "ps_authorization_id s = None" "ps_customer_max_debit_wei s = Some m" "0 \<le> m"
  shows "\<exists>db' t. issue_initial_authorization_or_release s now (Inl (SpendAuthorizationRefused reason))
      \<lparr>working = db, durable = db\<rparr> = (Inl (AuthorizationRefused reason), \<lparr>working = db', durable = db'\<rparr>) \<and>
    get_session db' e = Some t \<and> ps_state t = ''closed'' \<and> ps_outcome t = Some ''NOT_ADMITTED'' \<and>
    ps_billed_value_wei t = Some 0 \<and> etotal (ledger db') e = 0 \<and>
    cb_amount_wei (balance_row (ps_user_id s) db') = cb_amount_wei (balance_row (ps_user_id s) db) + m"
proof -
  from books.inv_reachable [OF reach] have inv: "engagement_inv db" and bal: "billing_inv db" by (auto simp: clearing_inv_def)
  have e: "ps_id s = e" using get_session_in [OF s] by simp
  from inv_hold [OF inv s] claimed(1,3) e have none: "engagement_entry db e ''engagement_release'' = None"
    and mode: "ps_accounting_mode s = ''wholesale_account''"
    by (auto simp: engagement_entry_None hold_ok_def live_def open_ok_def)
  obtain q d where run: "release_customer_engagement (ps_user_id s) e m db = (q, d)" by force
  have nonneg: "0 \<le> cb_amount_wei (balance_row (ps_user_id s) db)"
    using bal by (simp add: billing_inv_def ledger_ok_def)
  obtain b where q: "q = Inr b"
    and amount: "cb_amount_wei (balance_row (ps_user_id s) d) = cb_amount_wei (balance_row (ps_user_id s) db) + m"
    using run [unfolded release_keyed] windows_only_ret
  proof (cases rule: keyed_step_cases)
    case (first ws)
    then have "balances d = balances (posted (entry_of (ps_user_id s) m ''engagement_release'' None (Some e) None None
        (server_now db)) db)" by simp
    from balance_row_cong [OF this, of "ps_user_id s"] first(3) that show thesis by (simp add: balance_row_posted)
  qed (use none nonneg claimed(4) in \<open>auto simp: ret_def\<close>)
  let ?t = "s\<lparr>ps_state := ''closed'', ps_closed_at := Some now, ps_actual_units := Some 0, ps_billed_value_wei := Some 0,
      ps_outcome := Some ''NOT_ADMITTED''\<rparr>"
  let ?f = "\<lambda>s. s\<lparr>ps_state := ''closed'', ps_closed_at := Some now, ps_actual_units := Some 0, ps_billed_value_wei := Some 0,
      ps_outcome := Some ''NOT_ADMITTED''\<rparr>"
  let ?d = "set_session e ?f d"
  have on: "on_db (release_customer_engagement (ps_user_id s) e m) \<lparr>working = db, durable = db\<rparr> =
      (Inr b, \<lparr>working = d, durable = db\<rparr>)" using run q by (simp add: on_db_def)
  have res: "issue_initial_authorization_or_release s now (Inl (SpendAuthorizationRefused reason))
      \<lparr>working = db, durable = db\<rparr> = (Inl (AuthorizationRefused reason), \<lparr>working = ?d, durable = ?d\<rparr>)"
    using s claimed mode e
    by (simp add: issue_initial_authorization_or_release_def release_unauthorized_engagement_def bind_assoc
        bind_eq_Inr [of "on_db _", OF on] raise_def)
  have "sessions d = sessions db"
    using keyed_posts [OF run [unfolded q release_keyed] windows_only_ret] none by (metis engagement_entry_None)
  then have t: "get_session ?d e = Some ?t"
    using s e find_update_where_same [of "\<lambda>x. ps_id x = e" ?f "sessions db"]
    by (simp add: get_session_def set_session_def)
  have "tracked (sessions db, settlements db) ?d"
    using release_block [OF tracked_self [OF inv] s claimed(1,3) run [unfolded q] refl] .
  from etotal_obligation [OF tracked_inv [OF this], of ?t] get_session_in [OF t]
  have "etotal (ledger ?d) e = 0" by (simp add: obligation_def live_def)
  moreover have "balance_row w ?d = balance_row w d" for w by (rule balance_row_cong) (simp add: set_session_def)
  ultimately show ?thesis using res t amount by auto
qed

theorem refused_authorization_releases_witness:
  "\<exists>db'. issue_initial_authorization_or_release example_session 9 (Inl (SpendAuthorizationRefused ''no''))
      \<lparr>working = example_held, durable = example_held\<rparr> =
      (Inl (AuthorizationRefused ''no''), \<lparr>working = db', durable = db'\<rparr>) \<and>
     cb_amount_wei (balance_row ''u1'' db') = 100"
proof -
  have s: "get_session example_held ''gw'' = Some example_session" "ps_state example_session = ''open''"
    "ps_authorization_id example_session = None" "ps_customer_max_debit_wei example_session = Some 15"
    "ps_user_id example_session = ''u1''"
    by (simp_all add: get_session_def example_held_def example_session_def)
  have "cb_amount_wei (balance_row ''u1'' example_held) = 85"
    by (simp add: example_held_def balance_row_def balance_of_def)
  with refused_authorization_releases [OF example_books_empty example_reachable(3) s(1-4), of 9 "''no''"] s(5)
  show ?thesis by force
qed

text \<open>A session preparation token is good for exactly its scope and its life: the token \<open>prepare_session\<close> issues is
  accepted for the same customer, key, session, capability, offering, schema and route before it
  expires, refused once it has expired, and refused for another customer, key or session. The codec and
  the dates are those of the standard library, of which the round trips are assumed.\<close>

theorem preparation_roundtrip:
  assumes prep: "prepare_session codec dt gid u k cap off schema binding (Some route) many now = Inr p"
    and unbound: "binding = None" and b: "sr_binding route = Inr rb"
    and payload: "payload = preparation_payload (preparation_scope u k gid cap off schema rb) (dt_isoformat dt (pr_expires_at p))"
    and json: "tc_loads codec (tc_dumps codec (JObj payload)) = Some (JObj payload)"
    and b64: "\<And>bs. tc_b64decode codec (tc_b64encode codec bs) = Some bs" "\<And>bs. CHR ''.'' \<notin> set (tc_b64encode codec bs)"
    and iso: "dt_fromisoformat dt (dt_isoformat dt (pr_expires_at p)) = Some (Aware (pr_expires_at p))"
  shows "verify_prepared_session codec dt (pr_preparation_token p) (pr_gateway_session_id p) u k cap off schema route now' =
      (if now' < pr_expires_at p then Inr () else Inl (InvalidSessionRequest ''session preparation expired'')) \<and>
    ((u', k', gid') \<noteq> (u, k, gid) \<longrightarrow>
       verify_prepared_session codec dt (pr_preparation_token p) gid' u' k' cap off schema route now' =
         Inl (InvalidSessionRequest ''session preparation scope changed'')) \<and>
    pr_expires_at p = now + seconds 300"
proof -
  have p: "pr_gateway_session_id p = gid" "pr_expires_at p = now + PREPARATION_TTL"
    "pr_preparation_token p = encode_preparation codec payload"
    using prep b unfolding unbound payload
    by (auto simp: prepare_session_def select_bound_route_def Let_def split: if_splits option.splits)
  have tw: "takeWhile (\<lambda>c. c \<noteq> CHR ''.'') (tc_b64encode codec bs @ CHR ''.'' # sig) = tc_b64encode codec bs"
    "dropWhile (\<lambda>c. c \<noteq> CHR ''.'') (tc_b64encode codec bs @ CHR ''.'' # sig) = CHR ''.'' # sig" for bs sig
    using b64(2) [of bs] by (auto simp: takeWhile_append dropWhile_append takeWhile_eq_all_conv)
  have dec: "decode_preparation codec (pr_preparation_token p) = Inr payload"
    by (simp add: p(3) encode_preparation_def decode_preparation_def Let_def split_dot_def tw b64(1) fromhex_hex json)
  show ?thesis
    unfolding verify_prepared_session_def dec
    using iso by (auto simp: b payload preparation_payload_def preparation_scope_def json_get_def p(1,2) datetime_le_def
        PREPARATION_TTL_def)
qed

definition hex_codec :: token_codec where
  "hex_codec = example_codec\<lparr>tc_b64encode := hex, tc_b64decode := fromhex\<rparr>"

theorem preparation_roundtrip_witness:
  "\<exists>p. prepare_session hex_codec example_dates ''gw'' ''u1'' ''k1'' ''openai:chat-completions'' ''gpt-oss-20b'' ''live/v1'' None
      (Some example_route) [] (99 - seconds 300) = Inr p \<and>
    verify_prepared_session hex_codec example_dates (pr_preparation_token p) ''gw'' ''u1'' ''k1''
      ''openai:chat-completions'' ''gpt-oss-20b'' ''live/v1'' example_route 5 = Inr () \<and>
    verify_prepared_session hex_codec example_dates (pr_preparation_token p) ''gw'' ''u2'' ''k1''
      ''openai:chat-completions'' ''gpt-oss-20b'' ''live/v1'' example_route 5 =
      Inl (InvalidSessionRequest ''session preparation scope changed'')"
proof -
  obtain p where p: "prepare_session hex_codec example_dates ''gw'' ''u1'' ''k1'' ''openai:chat-completions'' ''gpt-oss-20b''
      ''live/v1'' None (Some example_route) [] (99 - seconds 300) = Inr p"
    and ex: "pr_expires_at p = 99" "pr_gateway_session_id p = ''gw''"
    by (simp add: prepare_session_def select_bound_route_def example_axes example_binding Let_def PREPARATION_TTL_def)
  have iso: "dt_isoformat example_dates (pr_expires_at p) = ''c''"
    "dt_fromisoformat example_dates (dt_isoformat example_dates (pr_expires_at p)) = Some (Aware (pr_expires_at p))"
    by (simp_all add: example_dates_def ex)
  have dot: "CHR ''.'' \<notin> set (tc_b64encode hex_codec bs)" for bs
    using hex_lower [of bs] by (auto simp: hex_codec_def list_all_iff is_lower_hex_def Let_def)
  note at = preparation_roundtrip [OF p refl example_binding refl _ _ dot iso(2), unfolded iso(1)]
  have "tc_loads hex_codec (tc_dumps hex_codec (JObj example_payload)) = Some (JObj example_payload)"
    "\<And>bs. tc_b64decode hex_codec (tc_b64encode hex_codec bs) = Some bs"
    by (simp_all add: hex_codec_def example_codec_def fromhex_hex)
  note at = at [OF this [unfolded example_payload_def]]
  from p at [of 5 "''u2''" "''k1''" "''gw''"] ex show ?thesis by auto
qed

end
