(* ===== verification/Job_Example.thy ===== *)
theory Job_Example
  imports Session_Example
begin

text \<open>
  One concrete paid job: the customer of the session example opens a job of at most 10 units at 3 wei per 2 units
  (a hold of 15), the payer signs the grant, and the broker's account is unreachable, so that the request fails
  after its commits. The job is then settled from a broker-signed record at 7 units (a bill of 11), or
  closed on the broker's signed statement that it never admitted it.
\<close>

section \<open>Opening\<close>

definition job_route :: selected_route where
  "job_route = demo_route\<lparr>sr_eth_address := ''0x'' @ hex (replicate 20 17),
     sr_price_per_work_unit_wei := 3, sr_units_per_price := 2, sr_settlement_keys := [example_key]\<rparr>"

definition job_snapshot :: route_snapshot where
  "job_snapshot = projr (snapshot_view job_route)"

definition job_sign ::
  "create_spend_authorization_request \<Rightarrow> error + create_spend_authorization_response" where
  "job_sign q = Inr \<lparr>ar_authorization_bytes = [1], ar_authorization_id = aq_authorization_id q,
     ar_payer = replicate 20 2\<rparr>"

lemma job_axes: "sr_job job_route = Some \<lparr>ja_transports = [stream, unary], ja_extra = []\<rparr>" "sr_session job_route = None"
  using demo_route_axes by (simp_all add: sr_job_def sr_session_def job_route_def split: if_splits)

lemma job_constructed: "constructed (Some job_route) []"
  using demo_domain_ok
  by (simp add: constructed_def SelectedRoute_def job_route_def demo_route_def parse_job_axes_def json_get_def
      transport_of_def uint64_ge1_def UINT64_MAX_def axis_name_def other_axis_def)

lemma job_route_simps [simp]:
  "sr_capability job_route = ''openai:chat-completions''" "sr_offering job_route = ''gpt-oss-20b''"
  "sr_protocol job_route = PaidJob" "sr_settlement_keys job_route = [example_key]"
  "sr_price_per_work_unit_wei job_route = 3" "sr_units_per_price job_route = 2"
  "sr_work_unit job_route = ''token''" "sr_settlement_domain_id job_route = demo_domain"
  "sr_worker_url job_route = ''https://orch-1.example''"
  "sr_eth_address job_route = ''0x'' @ hex (replicate 20 17)"
  "sr_quote_id job_route = ''q1''" "sr_quote_version job_route = 1"
  "sr_constraint_fingerprint job_route = replicate 32 0" "sr_route_fingerprint job_route = replicate 32 17"
  by (simp_all add: job_route_def demo_route_def)

lemma job_snapshot_ok: "snapshot_view job_route = Inr job_snapshot"
proof -
  have fp: "fingerprint_ok (hex bs)" if "length bs = 32" for bs
    using that hex_lower by (simp add: fingerprint_ok_def)
  obtain snap where "snapshot_view job_route = Inr snap"
    using demo_domain_ok fp job_axes
    by (simp add: snapshot_view_def RouteSnapshot_def uint64_ge1_def UINT64_MAX_def)
  then show ?thesis by (simp add: job_snapshot_def)
qed

lemmas job_snapshot_eq = RouteSnapshot_id [OF job_snapshot_ok [unfolded snapshot_view_def]]

lemma job_snapshot_simps [simp]:
  "rs_settlement_keys job_snapshot = [example_key]" "rs_price_per_work_unit_wei job_snapshot = 3"
  "rs_units_per_price job_snapshot = 2" "rs_work_unit job_snapshot = ''token''"
  "rs_quote_id job_snapshot = ''q1''" "rs_quote_version job_snapshot = 1"
  "rs_constraint_fingerprint job_snapshot = hex (replicate 32 0)"
  "rs_route_fingerprint job_snapshot = hex (replicate 32 17)"
  "rs_settlement_domain_id job_snapshot = demo_domain" "rs_eth_address job_snapshot = ''0x'' @ hex (replicate 20 17)"
  by (simp_all add: job_snapshot_eq)

definition job_open :: "(clearing_db txn, create_job_response) op" where
  "job_open = open_job None (Some example_world) job_sign (Some job_route) [] ''new'' ''f'' ''u1'' ''k1''
     ''openai:chat-completions'' ''gpt-oss-20b'' 4 (Some 10) None 5 example_settings unary None (Some ''r1'') [9] [8]"

definition job_claimed :: payment_session where
  "job_claimed = example_session\<lparr>ps_id := ''new'', ps_protocol := ''paid-job/v1'', ps_route_snapshot := Some job_snapshot\<rparr>"

text \<open>The database before the request, with any exposure budget and any create requests.\<close>

definition job_funded :: "wholesale_exposure_budget list \<Rightarrow> payment_idempotency_key list \<Rightarrow> clearing_db" where
  "job_funded bs rs = example_funded\<lparr>budgets := bs, create_requests := rs\<rparr>"

definition job_held :: "wholesale_exposure_budget list \<Rightarrow> payment_idempotency_key list \<Rightarrow> clearing_db" where
  "job_held bs rs = (job_funded bs rs)\<lparr>
     balances := [\<lparr>cb_user_id = ''u1'', cb_amount_wei = 85, cb_version = 2\<rparr>],
     ledger := ledger example_funded @ [entry_of ''u1'' (-15) ''engagement_encumbrance'' None (Some ''new'') None None 0],
     windows := [\<lparr>sw_user_id = ''u1'', sw_window_start = 0, sw_window_end = 60000000, sw_spent_wei = 15,
                  sw_cap_wei = 50\<rparr>],
     sessions := [job_claimed]\<rparr>"

lemma job_claim:
  "claim_wholesale_engagement None ''new'' ''u1'' ''k1'' job_route ''r1'' 4 10 15 5 None 60 50 None
     \<lparr>working = job_funded bs rs, durable = job_funded bs rs\<rparr>
   = (Inr job_claimed, \<lparr>working = job_held bs rs, durable = job_held bs rs\<rparr>)"
  by (simp add: claim_wholesale_engagement_def resume_engagement_def create_session_def on_db_def Let_def bind_op_def
      op_run job_snapshot_ok job_funded_def example_funded_eval example_empty_def get_session_def engagement_of_request_def
      example_session_def job_claimed_def job_held_def protocol_value_def
      encumber_keyed keyed_step_def op_simps engagement_entry_def window_bounds_for_def truncate_seconds_def
      window_row_def window_of_def window_ensured_def spent_in_def balance_row_def balance_of_def ensured_def posted_def
      bump_def commit_def entry_of_def)

definition job_request :: create_spend_authorization_request where
  "job_request = fst (projr (issue_route_locked_authorization job_sign job_route ''loc-auth:r1'' ''r1''
     [] [9] [8] 15 10 5 300000005 1 ''loc'' 0 []))"

definition job_response :: create_spend_authorization_response where
  "job_response = \<lparr>ar_authorization_bytes = [1], ar_authorization_id = ''loc-auth:r1'', ar_payer = replicate 20 2\<rparr>"

lemma job_issue:
  "issue_route_locked_authorization job_sign job_route ''loc-auth:r1'' ''r1'' [] [9] [8] 15 10 5
     300000005 1 ''loc'' 0 [] = Inr (job_request, job_response)"
  using example_payee
  by (simp add: job_request_def issue_route_locked_authorization_def Let_def job_sign_def job_response_def)

lemma job_request_simps [simp]:
  "aq_authorization_id job_request = ''loc-auth:r1''" "aq_request_id job_request = ''r1''"
  "aq_session_id job_request = []" "aq_protocol job_request = ''paid-job/v1''"
  "aq_revision job_request = 0" "aq_predecessor_authorization_id job_request = []"
  "aq_settlement_domain_id job_request = demo_domain" "aq_max_debit_wei job_request = 15"
  "aq_max_total_units job_request = 10" "aq_wholesale_account_id job_request = ''loc''"
  "aq_expires_at job_request = Aware 300000005"
  using example_payee
  by (simp_all add: job_request_def issue_route_locked_authorization_def Let_def job_sign_def protocol_value_def)

definition job_grant :: spend_authorization_grant where
  "job_grant = grant_of ''new'' job_snapshot demo_domain job_request job_response"

definition job_authorized :: payment_session where
  "job_authorized = job_claimed\<lparr>ps_authorization_id := Some ''loc-auth:r1'', ps_work_id := ''loc-auth:r1''\<rparr>"

definition job_granted :: "wholesale_exposure_budget list \<Rightarrow> payment_idempotency_key list \<Rightarrow> clearing_db" where
  "job_granted bs rs = (job_held bs rs)\<lparr>sessions := [job_authorized], grants := [job_grant]\<rparr>"

definition job_db :: clearing_db where
  "job_db = job_granted [] []"

lemma job_recorded:
  "record_spend_authorization_grant ''new'' ''u1'' job_route demo_domain job_request job_response (job_held bs rs)
   = (Inr job_grant, job_granted bs rs)"
proof -
  have "get_session (job_held bs rs) ''new'' = Some job_claimed" "grants (job_held bs rs) = []" "sessions (job_held bs rs) = [job_claimed]"
    by (simp_all add: job_held_def job_funded_def get_session_def job_claimed_def example_funded_eval example_empty_def)
  moreover have "demo_domain \<noteq> []" by (simp add: demo_domain_def)
  ultimately show ?thesis
    by (simp add: record_spend_authorization_grant_def require_authorizable_def job_snapshot_ok find_revision_def
        find_grant_def insert_grant_def set_session_def job_authorized_def job_grant_def job_granted_def
        PAID_SESSION_PROTOCOL_def job_response_def ret_def, simp add: job_claimed_def example_session_def)
qed

definition job_config :: resolved_billing_config where
  "job_config = \<lparr>rbc_spend_period_seconds = 60, rbc_spend_period_cap_wei = 50, rbc_auto_replenish_increment_wei = 40,
     rbc_auto_replenish_threshold_wei = 0\<rparr>"

lemma job_until_funding:
  assumes "catch_op (fund_job_account world job_route (''0x'' @ hex (replicate 20 2)) ''r1'' ''new'' 15 5 example_settings)
      (\<lambda>e. raise (policy_unverified e)) \<lparr>working = job_granted bs rs, durable = job_granted bs rs\<rparr> = (funded, s)"
  shows "open_job None (Some world) job_sign (Some job_route) [] ''new'' f ''u1'' ''k1''
     ''openai:chat-completions'' ''gpt-oss-20b'' 4 (Some 10) None 5 example_settings unary None (Some ''r1'') [9] [8]
     \<lparr>working = job_funded bs rs, durable = job_funded bs rs\<rparr> =
   (case funded of
      Inl e \<Rightarrow> (Inl e, s)
    | Inr plan \<Rightarrow> (Inr \<lparr>cj_job_id = ''new'', cj_request_id = ''r1'', cj_work_id = ''loc-auth:r1'',
             cj_broker_url = ''https://orch-1.example'', cj_protocol = ''paid-job/v1'',
             cj_transport = unary, cj_work_unit = ''token'', cj_route_snapshot = job_snapshot,
             cj_spend_authorization = [1], cj_accounting_mode = ''wholesale_account'',
             cj_expected_value_wei = wp_shortfall_wei plan, cj_funded_value_wei = wp_shortfall_wei plan,
             cj_settle_endpoint = settle_endpoint_for ''new'', cj_opened_at = 5\<rparr>, s))"
proof -
  have bal: "on_db (get_balance ''u1'') \<lparr>working = job_funded bs rs, durable = job_funded bs rs\<rparr> =
      (Inr \<lparr>cb_user_id = ''u1'', cb_amount_wei = 100, cb_version = 1\<rparr>, \<lparr>working = job_funded bs rs, durable = job_funded bs rs\<rparr>)"
    by (simp add: on_db_def get_balance_ensure ensure_run ensured_def balance_row_def balance_of_def job_funded_def example_funded_eval
        example_empty_def)
  have cfg: "on_db (resolve_billing_config ''u1'' (ss_billing example_settings)) \<lparr>working = job_funded bs rs, durable = job_funded bs rs\<rparr> =
      (Inr job_config, \<lparr>working = job_funded bs rs, durable = job_funded bs rs\<rparr>)"
    by (simp add: on_db_def resolve_billing_config_def get_billing_config_def ret_def job_funded_def example_funded_eval example_empty_def
        example_settings_def job_config_def)
  have sel: "select_job_route (Some job_route) [] cap off unary None = Inr job_route" for cap off
    by (simp add: select_job_route_def select_bound_route_def job_axes PAID_JOB_PROTOCOL_def protocol_value_def)
  have rec: "on_db (record_spend_authorization_grant ''new'' ''u1'' job_route demo_domain job_request job_response)
      \<lparr>working = job_held bs rs, durable = job_held bs rs\<rparr> = (Inr job_grant, \<lparr>working = job_granted bs rs, durable = job_held bs rs\<rparr>)"
    by (simp add: on_db_def job_recorded)
  have s: "ps_id job_claimed = ''new''" "ps_state job_claimed = ''open''" "ps_opened_at job_claimed = 5"
    by (simp_all add: job_claimed_def example_session_def)
  have st: "ss_chain_id example_settings = 1" "ss_wholesale_account_id example_settings = ''loc''"
    by (simp_all add: example_settings_def)
  have pay: "ar_payer job_response = replicate 20 2" "ar_authorization_bytes job_response = [1]" by (simp_all add: job_response_def)
  have "open_wholesale_job None world job_sign ''new'' ''u1'' ''k1'' job_route 4 10 15 ''r1'' [9] [8] 5
      example_settings None 60 50 unary \<lparr>working = job_funded bs rs, durable = job_funded bs rs\<rparr> =
      (case funded of
      Inl e \<Rightarrow> (Inl e, s)
    | Inr plan \<Rightarrow> (Inr \<lparr>cj_job_id = ''new'', cj_request_id = ''r1'', cj_work_id = ''loc-auth:r1'',
             cj_broker_url = ''https://orch-1.example'', cj_protocol = ''paid-job/v1'',
             cj_transport = unary, cj_work_unit = ''token'', cj_route_snapshot = job_snapshot,
             cj_spend_authorization = [1], cj_accounting_mode = ''wholesale_account'',
             cj_expected_value_wei = wp_shortfall_wei plan, cj_funded_value_wei = wp_shortfall_wei plan,
             cj_settle_endpoint = settle_endpoint_for ''new'', cj_opened_at = 5\<rparr>, s))"
    unfolding open_wholesale_job_def bind_eq_Inr [of "claim_wholesale_engagement _ _ _ _ _ _ _ _ _ _ _ _ _ _", OF job_claim]
    using assms
    by (cases funded)
       (simp_all add: s st job_issue issue_initial_authorization_or_release_def example_domain bind_eq_Inr [of "on_db _", OF rec]
        commit_def bind_op_def [of "catch_op _ _"] pay job_snapshot_ok protocol_value_def ret_def del: hex_simps)
  then show ?thesis
    by (simp add: open_job_def bill_value_wei_def sel
        bind_eq_Inr [of "on_db _", OF bal] bind_eq_Inr [of "on_db _", OF cfg] job_config_def)
qed

lemma job_opened_eval: "session_scope job_open example_funded = (Inl (BrokerWholesaleAccountError ''down''), job_db)"
proof -
  have "fund_job_account example_world job_route payer ''r1'' ''new'' 15 5 example_settings t =
      (Inl (BrokerWholesaleAccountError ''down''), t)" for payer and t :: "clearing_db txn"
    by (simp add: fund_job_account_def example_world_def bind_op_def op_run Let_def)
  then have caught: "catch_op (fund_job_account example_world job_route payer ''r1'' ''new'' 15 5 example_settings)
      (\<lambda>e. raise (policy_unverified e)) t = (Inl (BrokerWholesaleAccountError ''down''), t)" for payer and t :: "clearing_db txn"
    by (simp add: catch_op_def policy_unverified_def raise_def)
  have start: "example_funded = job_funded [] []" by (simp add: job_funded_def example_funded_eval example_empty_def)
  show ?thesis
    unfolding session_scope_def job_open_def start job_until_funding [OF caught] by (simp add: job_db_def)
qed

lemma job_reachable: "engagement_step\<^sup>*\<^sup>* example_empty job_db"
proof -
  have "engagement_step example_funded job_db"
    by (rule es_job [OF _ job_constructed _ job_opened_eval [unfolded job_open_def]]) simp_all
  with example_steps(1) show ?thesis by (meson r_into_rtranclp rtranclp_trans)
qed

section \<open>Settling\<close>

lemma job_rows:
  "get_session job_db ''new'' = Some job_authorized" "sessions job_db = [job_authorized]" "grants job_db = [job_grant]"
  "settlements job_db = []" "configs job_db = []" "payments job_db = []"
  by (simp_all add: job_db_def job_granted_def get_session_def job_authorized_def job_claimed_def job_held_def job_funded_def example_funded_eval example_empty_def)

lemma job_authorized_simps [simp]:
  "ps_id job_authorized = ''new''" "ps_user_id job_authorized = ''u1''" "ps_state job_authorized = ''open''"
  "ps_protocol job_authorized = ''paid-job/v1''" "ps_accounting_mode job_authorized = ''wholesale_account''"
  "ps_authorization_id job_authorized = Some ''loc-auth:r1''" "ps_work_id job_authorized = ''loc-auth:r1''"
  "ps_broker_request_id job_authorized = Some ''r1''" "ps_route_snapshot job_authorized = Some job_snapshot"
  "ps_customer_pricing job_authorized = Some (wholesale_pass_through_pricing ''token'')"
  "ps_customer_max_debit_wei job_authorized = Some 15" "ps_max_total_units job_authorized = 10"
  "ps_funded_value_wei job_authorized = 15" "ps_breakdown job_authorized = None" "ps_opened_at job_authorized = 5"
  "ps_outcome job_authorized = None" "ps_actual_units job_authorized = None"
  by (simp_all add: job_authorized_def job_claimed_def example_session_def)

lemma job_grant_simps [simp]:
  "gr_session_id job_grant = ''new''" "gr_authorization_id job_grant = ''loc-auth:r1''" "gr_state job_grant = ''issued''"
  "gr_retired_at job_grant = None" "gr_wholesale_account_id job_grant = ''loc''" "gr_protocol job_grant = ''paid-job/v1''"
  "gr_settlement_domain_id job_grant = demo_domain" "gr_max_debit_wei job_grant = 15" "gr_request_id job_grant = ''r1''"
  "gr_revision job_grant = 0" "gr_predecessor_authorization_id job_grant = None" "gr_route_snapshot job_grant = job_snapshot"
  "gr_expires_at job_grant = Aware 300000005" "gr_payer_eth_address job_grant = ''0x'' @ hex (replicate 20 2)"
  by (simp_all add: job_grant_def grant_of_def job_response_def some_nonempty_def)

definition job_envelope :: settlement_envelope where
  "job_envelope = \<lparr>sv_payload = [(''issued_at'', JStr ''b''), (''authorization_id'', JStr ''loc-auth:r1'')],
     sv_signature = Some \<lparr>sb_algorithm = ''secp256k1'', sb_canonicalization = ''jcs'',
       sb_value = ''0x'' @ hex (replicate 64 0 @ [27])\<rparr>\<rparr>"

definition job_record :: settlement_record where
  "job_record = demo_record\<lparr>st_settlement_domain_id := demo_domain, st_request_id := ''r1'', st_work_id := ''loc-auth:r1'',
     st_authorization_id := ''loc-auth:r1'', st_authorized_value_wei := [15], st_released_value_wei := [4],
     st_accepted_quote_ref := \<lparr>qr_quote_id = ''q1'', qr_quote_version = 1,
       qr_constraint_fingerprint = replicate 32 0, qr_route_fingerprint = replicate 32 17\<rparr>\<rparr>"

definition job_verified :: verified_job_settlement where
  "job_verified = \<lparr>vj_actual_units = 7, vj_billed_value_wei = 11, vj_outcome = ''SETTLED'', vj_issued_at = 98,
     vj_signing_public_key = demo_key\<rparr>"

lemma job_verify: "verify_job (demo_verifier job_record) example_dates job_authorized job_grant ''job'' 7 job_envelope = Inr job_verified"
proof -
  have "dump_envelope job_envelope = example_settlement"
    by (simp add: dump_envelope_def job_envelope_def example_settlement_def)
  moreover have "sv_signature job_envelope \<noteq> None" by (simp add: job_envelope_def)
  moreover have "[delegation_of example_dates example_key] = demo_delegations" using example_keys by simp
  ultimately show ?thesis
    using example_envelope [of job_record]
    by (simp add: verify_job_def job_expectation_def fromhex_hex verify_job_settlement_def
        reject_failed_debit_def verify_settlement_domain_def fail_if_def job_normative_bill_def bill_def
        verify_authorization_accounting_def big_def from_bytes_big_def demo_record_def job_record_def job_verified_def
        demo_domain_def Let_def del: hex_simps)
qed

definition job_settle :: "(clearing_db, settle_job_response) op" where
  "job_settle = settle_job (demo_verifier job_record) example_dates ''new'' ''u1'' 7 ''job'' ''token'' None job_envelope 70
     (ss_billing example_settings)"

lemma job_release:
  assumes "db = job_db\<lparr>sessions := ss\<rparr>"
  shows "release_customer_engagement ''u1'' ''new'' 4 db =
    (Inr \<lparr>cb_user_id = ''u1'', cb_amount_wei = 89, cb_version = 3\<rparr>,
     db\<lparr>balances := [\<lparr>cb_user_id = ''u1'', cb_amount_wei = 89, cb_version = 3\<rparr>],
     ledger := ledger job_db @ [entry_of ''u1'' 4 ''engagement_release'' None (Some ''new'') None None 0]\<rparr>)"
  unfolding assms
  by (simp add: release_keyed keyed_step_def bind_op_def op_simps op_run engagement_entry_def balance_row_def
      balance_of_def ensured_def posted_def bump_def entry_of_def Let_def job_db_def job_granted_def job_held_def job_funded_def
      example_funded_eval example_empty_def)

lemma job_settle_returns: "\<exists>r db'. job_settle job_db = (Inr r, db') \<and> sj_billed_value_wei r = 11 \<and> sj_refund_wei r = 4"
proof -
  have tr: "transition_state ''new'' ''open'' ''closed'' 70 job_db =
      (Inr (job_authorized\<lparr>ps_state := ''closed'', ps_closed_at := Some 70\<rparr>),
       job_db\<lparr>sessions := [job_authorized\<lparr>ps_state := ''closed'', ps_closed_at := Some 70\<rparr>]\<rparr>)"
    by (simp add: transition_state_def job_rows ALLOWED_TRANSITIONS_def SESSION_STATES_def set_session_def ret_def Let_def)
  obtain db1 where fin: "finalize_job job_authorized ''u1'' 7 ''job'' ''token'' job_envelope ''SETTLED'' 11 4 70 job_db = (Inr (), db1)"
    and cfg: "configs db1 = []"
    unfolding finalize_job_def
    by (simp add: bind_eq_Inr [of "transition_state _ _ _ _", OF tr] bind_assoc
        bind_eq_Inr [of "release_customer_engagement _ _ _", OF job_release [OF refl]])
       (simp add: set_session_def job_rows mark_spend_authorization_settled_def find_grant_def
        record_settlement_def op_run bind_op_def set_grant_def Let_def)
  have acc: "job_accounting job_authorized job_verified = Inr (11, 4)"
    by (simp add: job_accounting_def job_verified_def wholesale_pass_through_pricing_def fields_match_policy_def
        calculate_customer_charge_def Let_def)
  have res: "resolve_billing_config ''u1'' (ss_billing example_settings) db1 = (Inr \<lparr>rbc_spend_period_seconds = 60,
      rbc_spend_period_cap_wei = 50, rbc_auto_replenish_increment_wei = 40, rbc_auto_replenish_threshold_wei = 0\<rparr>, db1)"
    by (simp add: resolve_billing_config_def get_billing_config_def ret_def cfg example_settings_def)
  have "\<exists>status. compute_cap_status (job_authorized\<lparr>ps_billed_value_wei := Some 11\<rparr>) ''u1'' 0 False
      \<lparr>rbc_spend_period_seconds = 60, rbc_spend_period_cap_wei = 50, rbc_auto_replenish_increment_wei = 40,
       rbc_auto_replenish_threshold_wei = 0\<rparr> 70 db1 = (Inr status, db1)"
    by (simp add: compute_cap_status_def remaining_window_room_def bind_op_def op_run Let_def window_bounds_for_def
        truncate_seconds_def split: prod.split)
  then obtain status where stat: "compute_cap_status (job_authorized\<lparr>ps_billed_value_wei := Some 11\<rparr>) ''u1'' 0 False
      \<lparr>rbc_spend_period_seconds = 60, rbc_spend_period_cap_wei = 50, rbc_auto_replenish_increment_wei = 40,
       rbc_auto_replenish_threshold_wei = 0\<rparr> 70 db1 = (Inr status, db1)" by blast
  have ver: "catch_op (of_result (verify_job (demo_verifier job_record) example_dates job_authorized job_grant ''job'' 7 job_envelope))
      (\<lambda>e. raise (settle_reason e)) job_db = (Inr job_verified, job_db)"
    by (simp add: job_verify catch_op_def of_result_def)
  have out: "vj_outcome job_verified = ''SETTLED''" by (simp add: job_verified_def)
  show ?thesis
    unfolding job_settle_def settle_job_def
    by (simp add: job_rows find_grant_def Let_def bind_eq_Inr [of "catch_op _ _", OF ver] out acc
        bind_eq_Inr [of "finalize_job _ _ _ _ _ _ _ _ _ _", OF fin] bind_eq_Inr [of "resolve_billing_config _ _", OF res]
        bind_eq_Inr [of "compute_cap_status _ _ _ _ _ _", OF stat])
       (simp add: ret_def)
qed

section \<open>Not admitted\<close>

text \<open>Dates are hundreds of seconds after the job was opened; the coverage began before.\<close>

definition absence :: non_admission_record where
  "absence = \<lparr>na_outcome = ''NOT_ADMITTED'', na_wholesale_account_id = ''loc'',
     na_settlement_domain_id = demo_domain, na_protocol = ''paid-job/v1'', na_request_id = ''r1'', na_work_id = ''loc-auth:r1'',
     na_sender = replicate 20 2, na_recipient = replicate 20 17,
     na_accepted_quote_ref = \<lparr>qr_quote_id = ''q1'', qr_quote_version = 1,
       qr_constraint_fingerprint = replicate 32 0, qr_route_fingerprint = replicate 32 17\<rparr>,
     na_broker_eth_address = ''0x'' @ hex (replicate 20 17), na_observed_at = ''b'', na_coverage_started_at = ''early''\<rparr>"

definition absence_verifier :: verifier where
  "absence_verifier = (demo_verifier demo_record)\<lparr>
     vf_fromisoformat := (\<lambda>s. Some (Aware (if s = ''early'' then 0 else of_char (hd s) * 10000000))),
     vf_parse_non_admission := (\<lambda>_. Some absence)\<rparr>"

definition absence_envelope :: envelope where
  "absence_envelope = \<lparr>en_payload = [(''observed_at'', JStr ''b'')], en_algorithm = ''secp256k1'',
     en_canonicalization = ''jcs'', en_signature = ''0x'' @ hex (replicate 64 0 @ [27])\<rparr>"

definition absence_exchange :: exchange_result where
  "absence_exchange = \<lparr>xr_request_id = ''r1'', xr_outcome = NOT_ADMITTED, xr_job_id = None, xr_state = None,
     xr_status = None, xr_work_units = None, xr_unit = None, xr_debit_attempts = None, xr_deadline = None,
     xr_ended_at = None, xr_detail = None, xr_observed_at = None, xr_coverage_started_at = None, xr_replayed = None,
     xr_settlement = None, xr_non_admission = Some absence_envelope\<rparr>"

definition absence_verified :: verified_non_admission where
  "absence_verified = \<lparr>vn_observed_at = 980000000, vn_coverage_started_at = 0, vn_signing_public_key = demo_key\<rparr>"

lemma job_scope: "job_payer_scope job_authorized job_db = Some (''0x'' @ hex (replicate 20 2), ''0x'' @ hex (replicate 20 17), ''loc'')"
proof -
  have "lower (''0x'' @ hex (replicate 20 2)) = ''0x'' @ hex (replicate 20 2)" "lower (''0x'' @ hex (replicate 20 17)) = ''0x'' @ hex (replicate 20 17)"
    by code_simp+
  then show ?thesis by (simp add: job_payer_scope_def find_grant_def job_rows del: hex_simps)
qed

lemma absence_checked:
  "check_non_admission absence_verifier example_dates job_authorized absence_exchange absence_envelope ''r1'' job_db =
     Inr (job_grant, absence_verified)"
proof -
  have parts: "envelope_parts (envelope_dict absence_envelope) = Inr ([(''observed_at'', JStr ''b'')],
    [(''algorithm'', JStr ''secp256k1''), (''canonicalization'', JStr ''jcs''),
     (''value'', JStr (''0x'' @ hex (replicate 64 0 @ [27])))])"
    by (simp add: envelope_parts_def envelope_dict_def absence_envelope_def json_get_def del: hex_simps)
  have rec: "vf_recover absence_verifier = vf_recover (demo_verifier demo_record)" by (simp add: absence_verifier_def)
  have key: "recover_public_key absence_verifier canonical (Some (JStr (''0x'' @ hex (replicate 64 0 @ [27])))) = Inr demo_key" for canonical
    using demo_recover [of demo_record canonical] unfolding recover_public_key_def rec .
  have auth: "authorize_key absence_verifier demo_key 980000000 [delegation_of example_dates example_key] = Inr ()"
    using example_keys by (simp add: demo_delegations_def delegation_date_def replace_Z_def datetime_le_def absence_verifier_def)
  have grant: "non_admission_grant job_authorized job_db = Inr job_grant"
    by (simp add: non_admission_grant_def find_grant_def job_rows PAID_JOB_PROTOCOL_def)
  have addr: "eth_address_to_bytes (''0x'' @ hex (replicate 20 2)) = Inr (replicate 20 2)"
    "eth_address_to_bytes (''0x'' @ hex (replicate 20 17)) = Inr (replicate 20 17)"
    by code_simp+
  have world: "parse_non_admission_record absence_verifier payload = Inr absence" "canonicalize absence_verifier payload = Inr [1]"
    "parse_timestamp absence_verifier (Some (JStr ''b'')) field = Inr 980000000"
    "parse_timestamp absence_verifier (Some (JStr ''early'')) field = Inr 0" for payload field
    by (simp_all add: parse_non_admission_record_def canonicalize_def parse_timestamp_def absence_verifier_def replace_Z_def)
  define ex where "ex = \<lparr>ne_wholesale_account_id = ''loc'', ne_settlement_domain_id = demo_domain,
    ne_protocol = ''paid-job/v1'', ne_request_id = ''r1'', ne_work_id = ''loc-auth:r1'', ne_sender = replicate 20 2,
    ne_recipient = replicate 20 17, ne_quote_ref = na_accepted_quote_ref absence,
    ne_broker_eth_address = ''0x'' @ hex (replicate 20 17), ne_job_issued_at = Aware 5\<rparr>"
  have scope: "non_admission_expectation job_authorized job_snapshot job_grant ''r1''
      (''0x'' @ hex (replicate 20 2), ''0x'' @ hex (replicate 20 17), ''loc'') = Inr ex"
    using addr by (simp add: non_admission_expectation_def fromhex_hex absence_def PAID_JOB_PROTOCOL_def ex_def del: hex_simps)
  have ver: "verify_non_admission absence_verifier (envelope_dict absence_envelope) [delegation_of example_dates example_key] ex =
      Inr absence_verified"
    using parts key auth
    by (simp add: verify_non_admission_def world json_get_def absence_def ex_def
        verify_settlement_domain_def fail_if_def absence_verified_def demo_domain_def del: hex_simps authorize_key.simps)
  show ?thesis
    using scope by (simp add: check_non_admission_def grant job_scope ver absence_exchange_def del: hex_simps)
qed


lemma job_full_release:
  "\<exists>b d. release_customer_engagement ''u1'' ''new'' 15 (job_db\<lparr>settlements := es, sessions := ss\<rparr>) = (Inr b, d)"
  by (simp add: release_keyed keyed_step_def bind_op_def op_simps op_run engagement_entry_def balance_row_def
      balance_of_def ensured_def posted_def bump_def entry_of_def Let_def job_db_def job_granted_def job_held_def job_funded_def
      example_funded_eval example_empty_def)

lemma job_not_admitted:
  "\<exists>db'. retain_verified_non_admission absence_verifier example_dates digest ''new'' absence_exchange 400000000 job_db = (Inr True, db')"
proof -
  define d where "d = digest (envelope_dict absence_envelope)"
  define audit where "audit = verified_audit example_dates d absence_verified absence_exchange"
  define db1 where "db1 = job_db\<lparr>sessions := [note_exchange audit job_authorized],
    settlements := [\<lparr>pe_session_id = ''new'', pe_recorded_at = 400000000, pe_event_type = ''non_admission_audit'',
       pe_actual_units = None, pe_billed_value_wei = None, pe_outcome = Some ''NOT_ADMITTED'',
       pe_raw_record = Some ((''evidence_digest'', JStr d) # audit)\<rparr>]\<rparr>"
  have ev: "record_non_admission_audit ''new'' 400000000 d audit (set_session ''new'' (note_exchange audit) job_db) = (Inr (), db1)"
    by (simp add: record_non_admission_audit_def record_settlement_def bind_op_def op_run Let_def set_session_def job_rows db1_def)
  have tr: "transition_state ''new'' ''open'' ''closed'' 400000000 db1 =
      (Inr ((note_exchange audit job_authorized)\<lparr>ps_state := ''closed'', ps_closed_at := Some 400000000\<rparr>),
       db1\<lparr>sessions := [(note_exchange audit job_authorized)\<lparr>ps_state := ''closed'', ps_closed_at := Some 400000000\<rparr>]\<rparr>)"
    by (simp add: transition_state_def db1_def get_session_def note_exchange_def ALLOWED_TRANSITIONS_def SESSION_STATES_def
        set_session_def ret_def Let_def)
  obtain b d2 where rel: "release_customer_engagement ''u1'' ''new'' 15
      (db1\<lparr>sessions := [(note_exchange audit job_authorized)\<lparr>ps_state := ''closed'', ps_closed_at := Some 400000000\<rparr>]\<rparr>) = (Inr b, d2)"
    by (simp add: db1_def) (metis job_full_release)
  obtain db2 where fin: "release_not_admitted job_authorized job_grant 15 400000000 ((''evidence_digest'', JStr d) # audit) db1 = (Inr (), db2)"
    unfolding release_not_admitted_def
    by (simp add: bind_eq_Inr [of "transition_state _ _ _ _", OF tr] bind_eq_Inr [of "release_customer_engagement _ _ _", OF rel])
       (simp add: record_settlement_def op_run bind_op_def Let_def)
  have na: "xr_non_admission absence_exchange = Some absence_envelope" by (simp add: absence_exchange_def)
  have late: "expiry_of job_grant = 300000005" "vn_observed_at absence_verified = 980000000"
    by (simp_all add: expiry_of_def absence_verified_def)
  show ?thesis
    unfolding retain_verified_non_admission_def
    by (simp add: job_rows na absence_checked Let_def d_def [symmetric] audit_def [symmetric] late
        bind_eq_Inr [of "record_non_admission_audit _ _ _ _", OF ev] bind_eq_Inr [of "release_not_admitted _ _ _ _ _", OF fin])
       (simp add: ret_def)
qed

end
