(* ===== verification/Jobs_Properties.thy ===== *)
theory Jobs_Properties
  imports Sessions_Properties Job_Example
begin

text \<open>
  What paid jobs, their janitor and the operators promise: a job is settled exactly as the broker signed it, a
  job the broker never admitted gets its whole hold back and not before its authorization ended, nothing is
  charged without evidence, and an operator's decision moves exactly what it says.
\<close>

section \<open>Settling\<close>

lemma updated_row:
  assumes "sessions db' = update_where (\<lambda>x. ps_id x = e) (\<lambda>_. t) (sessions db)" and "get_session db e = Some s"
    and "ps_id t = e"
  shows "get_session db' e = Some t"
  using assms find_update_where_same [of "\<lambda>x. ps_id x = e" "\<lambda>_. t" "sessions db"] by (simp add: get_session_def)

lemma live_row:
  assumes "engagement_inv db" and "get_session db e = Some s" and "ps_state s \<noteq> ''closed''"
  obtains m where "live s" "ps_customer_max_debit_wei s = Some m" "0 \<le> m"
    "\<not> has_entry (ledger db) e ''engagement_release''" "ps_id s = e"
  using inv_hold [OF assms(1,2)] get_session_in [OF assms(2)] assms(3)
  by (auto simp: hold_ok_def open_ok_def closed_ok_def split: if_splits intro: that)

text \<open>C4. A job settles exactly: when a job settles, the envelope verified against the retained authorization, the
  bill is the retail charge of the verified numbers and lies between zero and the cap, the customer's balance
  grows by exactly the cap less the bill and no other balance moves, the ledger keeps exactly the bill, the row
  and the response record the verified numbers, the grant is settled and retired, and one close event is appended.\<close>

theorem job_settles_exactly:
  assumes reach: "engagements_empty db0" "engagement_step\<^sup>*\<^sup>* db0 db"
    and run: "settle_job v dt job_id u units bjid wu outcome envelope now settings db = (Inr r, db')"
  shows "\<exists>s a g verified pricing m.
    get_session db job_id = Some s \<and> ps_user_id s = u \<and> ps_state s \<in> {''open'', ''draining''} \<and>
    ps_authorization_id s = Some a \<and> find_grant db job_id a = Some g \<and>
    verify_job v dt s g bjid units envelope = Inr verified \<and> ps_customer_pricing s = Some pricing \<and>
    ps_customer_max_debit_wei s = Some m \<and>
    calculate_customer_charge pricing (vj_actual_units verified) (vj_billed_value_wei verified) = Inr (sj_billed_value_wei r) \<and>
    0 \<le> sj_billed_value_wei r \<and> sj_billed_value_wei r \<le> m \<and> sj_refund_wei r = m - sj_billed_value_wei r \<and>
    sj_outcome r = vj_outcome verified \<and> (outcome = None \<or> outcome = Some (sj_outcome r)) \<and>
    (\<forall>w. cb_amount_wei (balance_row w db') =
       cb_amount_wei (balance_row w db) + (if w = u then sj_refund_wei r else 0)) \<and>
    etotal (ledger db') job_id = - sj_billed_value_wei r \<and>
    get_session db' job_id = Some (settled_job_row bjid wu units (sj_billed_value_wei r) (sj_outcome r) now s) \<and>
    find_grant db' job_id a = Some (g\<lparr>gr_state := ''settled'', gr_retired_at := retired_or now g\<rparr>) \<and>
    settlements db' = settlements db @
      [job_event job_id now units (sj_billed_value_wei r) (sj_outcome r) bjid wu envelope]"
proof -
  note inv = reachable_inv [OF reach]
  from run show ?thesis
  proof (cases rule: settle_job_cases)
    case (settled s grant a verified billed refund)
    note resp = settled(11) [OF refl]
    from live_row [OF inv settled(1,3)] obtain m where s: "live s" "ps_customer_max_debit_wei s = Some m"
      "\<not> has_entry (ledger db) job_id ''engagement_release''" "ps_id s = job_id" by blast
    from settled(9) obtain pricing where acc: "ps_customer_pricing s = Some pricing"
      "calculate_customer_charge pricing (vj_actual_units verified) (vj_billed_value_wei verified) = Inr billed"
      "billed \<le> m" "refund = m - billed" "0 \<le> billed"
      using s(2) by (auto elim: job_accounting_run)
    have row: "get_session db (ps_id s) = Some s" using settled(1) s(4) by simp
    note fin = settled(10)
    obtain db1 g where f: "refund_step u job_id refund (set_session job_id (\<lambda>_. closing now s) db) = (Inr (), db1)"
      "find_grant db1 job_id a = Some g"
      "grants db' = update_where (\<lambda>x. gr_authorization_id x = a)
         (\<lambda>_. g\<lparr>gr_state := ''settled'', gr_retired_at := retired_or now g\<rparr>) (grants db1)"
      "settlements db' = settlements db1 @ [job_event job_id now units billed (vj_outcome verified) bjid wu envelope]"
      "balances db' = balances db1"
      by (rule finalize_job_run [OF row s(1) fin]) (use settled(5) s(4) in auto)
    have none: "\<not> has_entry (ledger (set_session job_id (\<lambda>_. closing now s) db)) job_id ''engagement_release''"
      using s(3) by (simp add: set_session_def)
    obtain frame: "grants db1 = grants db" "settlements db1 = settlements db"
      using refund_run [OF f(1) none] by (auto simp: set_session_def)
    have g: "g = grant" using f(2) settled(6) frame(1) by (simp add: find_grant_def)
    have grant: "find_grant db' job_id a = Some (grant\<lparr>gr_state := ''settled'', gr_retired_at := retired_or now grant\<rparr>)"
      by (rule find_grant_settled [OF f(2)]) (use f(3) find_grant_in [OF settled(6)] g in \<open>simp_all add: set_grant_def\<close>)
    note S = finalize_job_inv [OF tracked_self [OF inv] row s(1) settled(2) s(2) acc(3-5) fin]
    have t: "get_session db' job_id = Some (settled_job_row bjid wu units billed (vj_outcome verified) now s)"
      by (rule updated_row [OF S(2) [unfolded s(4)] settled(1)]) (simp add: settled_job_row_def s(4))
    have "engagement_inv db'" using S(1) by (rule tracked_inv)
    from etotal_obligation [OF this, of "settled_job_row bjid wu units billed (vj_outcome verified) now s"] get_session_in [OF t]
    have led: "etotal (ledger db') job_id = - billed" by (simp add: obligation_def live_def settled_job_row_def s(4))
    have bal: "cb_amount_wei (balance_row w db') = cb_amount_wei (balance_row w db) + (if w = u then m - billed else 0)" for w
      using refund_balance [OF f(1) none, of w] acc(3,4) balance_row_cong [OF f(5), of w]
        balance_row_cong [of "set_session job_id (\<lambda>_. closing now s) db" db w] by (simp add: set_session_def)
    have res: "sj_billed_value_wei r = billed" "sj_refund_wei r = m - billed" "sj_outcome r = vj_outcome verified"
      using resp acc(3,4) by auto
    have "ps_state s \<in> {''open'', ''draining''}" using s(1) by (simp add: live_def)
    with settled(1,2,5-8) acc s(2) res bal led t grant f(4) frame(2) show ?thesis
      by (intro exI [of _ s] exI [of _ a] exI [of _ grant] exI [of _ verified] exI [of _ pricing] exI [of _ m]) auto
  qed auto
qed

theorem job_settles_exactly_witness:
  "\<exists>r db'. job_settle job_db = (Inr r, db') \<and> cb_amount_wei (balance_row ''u1'' db') = 89 \<and> etotal (ledger db') ''new'' = - 11"
proof -
  obtain r db' where run: "job_settle job_db = (Inr r, db')" "sj_billed_value_wei r = 11" "sj_refund_wei r = 4"
    using job_settle_returns by blast
  have bal: "cb_amount_wei (balance_row ''u1'' job_db) = 85"
    by (simp add: balance_row_def balance_of_def job_db_def job_granted_def job_held_def)
  note T = job_settles_exactly [OF example_empty_ok job_reachable run(1) [unfolded job_settle_def]]
  then have "cb_amount_wei (balance_row ''u1'' db') = 89" "etotal (ledger db') ''new'' = - 11"
    using run(2,3) bal by auto
  with run(1) show ?thesis by blast
qed

section \<open>Jobs the broker never admitted\<close>

lemma find_grant_updated:
  assumes "find_grant db e a = Some g" and "grants db' = update_where (\<lambda>g. gr_authorization_id g = a) f (grants db)"
    and "\<And>g. gr_session_id (f g) = gr_session_id g" "\<And>g. gr_authorization_id (f g) = gr_authorization_id g"
  shows "find_grant db' e a = Some (f g)"
proof -
  have "find (\<lambda>g. gr_session_id g = e \<and> gr_authorization_id g = a) gs = Some h \<Longrightarrow>
    find (\<lambda>g. gr_session_id g = e \<and> gr_authorization_id g = a)
      (update_where (\<lambda>g. gr_authorization_id g = a) f gs) = Some (f h)" for gs h
    using assms(3,4) by (induction gs) (auto split: if_splits)
  with assms(1,2) show ?thesis by (simp add: find_grant_def)
qed

lemma release_not_admitted_effect:
  assumes inv: "engagement_inv db" and row: "get_session db (ps_id row) = Some row" and st: "ps_state row = ''open''"
    and cap: "ps_customer_max_debit_wei row = Some m" and g: "find_grant db (ps_id row) (gr_authorization_id g) = Some g"
    and run: "release_not_admitted row g m now raw db = (Inr (), db')"
  shows "get_session db' (ps_id row) = Some (not_admitted_row now row)" "etotal (ledger db') (ps_id row) = 0"
    "cb_amount_wei (balance_row w db') = cb_amount_wei (balance_row w db) + (if w = ps_user_id row then m else 0)"
    "find_grant db' (ps_id row) (gr_authorization_id g) = Some (retire_unused now g)"
proof -
  let ?d = "set_session (ps_id row) (\<lambda>_. closing now row) db"
  note S = release_not_admitted_inv [OF tracked_self [OF inv] row st cap run]
  show t: "get_session db' (ps_id row) = Some (not_admitted_row now row)"
    by (rule updated_row [OF S(2) row]) (simp add: not_admitted_row_def closing_def)
  from etotal_obligation [OF tracked_inv [OF S(1)], of "not_admitted_row now row"] get_session_in [OF t]
  show "etotal (ledger db') (ps_id row) = 0" by (simp add: obligation_def live_def not_admitted_row_def closing_def)
  obtain b d1 where d: "release_customer_engagement (ps_user_id row) (ps_id row) m ?d = (Inr b, d1)" "balances db' = balances d1"
    "grants db' = update_where (\<lambda>g'. gr_authorization_id g' = gr_authorization_id g) (retire_unused now) (grants d1)"
    by (rule release_not_admitted_run [OF row st run]) (auto simp: set_grant_def set_session_def)
  from live_row [OF inv row] st have none: "\<not> has_entry (ledger ?d) (ps_id row) ''engagement_release''" by (auto simp: set_session_def)
  show "cb_amount_wei (balance_row w db') = cb_amount_wei (balance_row w db) + (if w = ps_user_id row then m else 0)"
    using release_balance [OF d(1) none, of w] balance_row_cong [OF d(2), of w] balance_row_cong [of ?d db w]
    by (simp add: set_session_def)
  have "grants d1 = grants db"
    using keyed_posts [OF d(1) [unfolded release_keyed] windows_only_ret none] by (auto simp: set_session_def)
  with d(3) have "grants db' = update_where (\<lambda>g'. gr_authorization_id g' = gr_authorization_id g) (retire_unused now) (grants db)" by simp
  from find_grant_updated [OF g this] show "find_grant db' (ps_id row) (gr_authorization_id g) = Some (retire_unused now g)"
    by (simp add: retire_unused_def)
qed

lemma check_non_admission_sound:
  assumes "check_non_admission v dt s exchange env rid db = Inr (g, ver)"
  shows "non_admission_grant s db = Inr g \<and> xr_request_id exchange = rid \<and> signed_by v (envelope_dict env) (vn_signing_public_key ver) \<and>
    (\<exists>snap. ps_route_snapshot s = Some snap \<and> (\<exists>d \<in> set (map (delegation_of dt) (rs_settlement_keys snap)).
       delegated v (vn_signing_public_key ver) (vn_observed_at ver) d)) \<and>
    vn_coverage_started_at ver \<le> ps_opened_at s \<and> ps_opened_at s \<le> vn_observed_at ver"
proof -
  from assms obtain snap scope ex where c: "non_admission_grant s db = Inr g" "xr_request_id exchange = rid"
    "ps_route_snapshot s = Some snap" "non_admission_expectation s snap g rid scope = Inr ex"
    "verify_non_admission v (envelope_dict env) (map (delegation_of dt) (rs_settlement_keys snap)) ex = Inr ver"
    by (auto simp: check_non_admission_def bind_r_Inr_iff split: if_splits option.splits)
  from c(4) have "ne_job_issued_at ex = Aware (ps_opened_at s)"
    by (cases scope; cases "fromhex (rs_constraint_fingerprint snap)"; cases "fromhex (rs_route_fingerprint snap)")
       (auto simp: non_admission_expectation_def bind_r_Inr_iff)
  from verify_non_admission_Inr [OF c(5) this] c(1-3) show ?thesis by blast
qed

text \<open>C5. A job the broker never admitted gets its whole hold back, and only on proof: when the janitor releases a
  job as not admitted, the evidence is signed by a key delegated at the time of the observation, it covers the
  job from before it was opened until after its authorization expired, and the authorization has expired now as well;
  the row is then closed at a bill of zero, the customer's balance grows by exactly the cap, the ledger keeps
  nothing, and the grant is retired unused. When it does not release, no balance, ledger row, grant or state
  changes.\<close>

theorem non_admission_releases:
  assumes reach: "engagements_empty db0" "engagement_step\<^sup>*\<^sup>* db0 db"
    and run: "retain_verified_non_admission v dt digest e exchange now db = (Inr released, db')"
  shows "if released then
      \<exists>s env g (ver :: verified_non_admission) snap d m t. get_session db e = Some s \<and> ps_state s = ''open'' \<and> xr_non_admission exchange = Some env \<and>
        find_grant db e (gr_authorization_id g) = Some g \<and> ps_authorization_id s = Some (gr_authorization_id g) \<and>
        Some (xr_request_id exchange) = ps_broker_request_id s \<and>
        signed_by v (envelope_dict env) (vn_signing_public_key ver) \<and> ps_route_snapshot s = Some snap \<and>
        d \<in> delegation_of dt ` set (rs_settlement_keys snap) \<and> delegated v (vn_signing_public_key ver) (vn_observed_at ver) d \<and>
        vn_coverage_started_at ver \<le> ps_opened_at s \<and> expiry_of g \<le> vn_observed_at ver \<and> expiry_of g \<le> now \<and>
        ps_customer_max_debit_wei s = Some m \<and>
        get_session db' e = Some t \<and> ps_state t = ''closed'' \<and> ps_outcome t = Some ''NOT_ADMITTED'' \<and> ps_billed_value_wei t = Some 0 \<and>
        (\<forall>w. cb_amount_wei (balance_row w db') = cb_amount_wei (balance_row w db) + (if w = ps_user_id s then m else 0)) \<and>
        etotal (ledger db') e = 0 \<and> find_grant db' e (gr_authorization_id g) = Some (retire_unused now g)
    else balances db' = balances db \<and> ledger db' = ledger db \<and> grants db' = grants db \<and>
      map ps_state (sessions db') = map ps_state (sessions db)"
proof -
  note inv = reachable_inv [OF reach]
  have states: "map ps_state (update_where P (note_exchange audit) ss) = map ps_state ss" for P audit ss
    by (simp add: update_where_def note_exchange_def)
  from run show ?thesis
  proof (cases rule: retain_cases)
    case (verified row env rid g ver audit db1)
    let ?row = "note_exchange audit row" and ?raw = "(''evidence_digest'', JStr (digest (envelope_dict env))) # audit"
    have e: "ps_id row = e" using get_session_in [OF verified(1)] by simp
    note fr = audit_event_frame [OF verified(7)]
    have tr1: "tracked (sessions db, settlements db) db1"
      using keepsD [OF audit_event_keeps set_session_same_inv [OF tracked_self [OF inv]] verified(7)] note_exchange_same by blast
    have row1: "get_session db1 e = Some ?row"
      using set_session_get [OF verified(1), of "note_exchange audit"] fr(1) by (simp add: get_session_def note_exchange_def)
    show ?thesis
    proof (cases released)
      case False
      with verified(8) fr states show ?thesis by (simp add: set_session_def)
    next
      case True
      with verified(8) obtain m where m: "expiry_of g \<le> now" "expiry_of g \<le> vn_observed_at ver" "ps_customer_max_debit_wei row = Some m"
        "release_not_admitted row g m now ?raw db1 = (Inr (), db')" by blast
      have rel: "release_not_admitted ?row g m now ?raw db1 = (Inr (), db')"
        using m(4) by (simp add: release_not_admitted_def note_exchange_def)
      have R: "ps_id ?row = e" "ps_state ?row = ''open''" "ps_customer_max_debit_wei ?row = Some m" "ps_user_id ?row = ps_user_id row"
        using e verified(2) m(3) by (simp_all add: note_exchange_def)
      note C = check_non_admission_sound [OF verified(5)]
      then obtain a where a: "ps_authorization_id row = Some a" "find_grant db e a = Some g" "gr_authorization_id g = a"
        using e by (auto elim: non_admission_grantD)
      have g: "find_grant db1 (ps_id ?row) (gr_authorization_id g) = Some g" using a fr(2) R(1) by (simp add: find_grant_def set_session_def)
      note E = release_not_admitted_effect [OF tracked_inv [OF tr1] row1 [folded R(1)] R(2,3) g rel, unfolded R(1,4)]
      have same: "balance_row w db1 = balance_row w db" for w using fr(4) by (intro balance_row_cong) (simp add: set_session_def)
      have t: "ps_state (not_admitted_row now ?row) = ''closed''" "ps_outcome (not_admitted_row now ?row) = Some ''NOT_ADMITTED''"
        "ps_billed_value_wei (not_admitted_row now ?row) = Some 0"
        by (simp_all add: not_admitted_row_def closing_def)
      from C obtain snap d where "ps_route_snapshot row = Some snap" "d \<in> delegation_of dt ` set (rs_settlement_keys snap)"
        "delegated v (vn_signing_public_key ver) (vn_observed_at ver) d" by auto
      with True verified(1-4) a C m(1-3) E t same show ?thesis
        by simp blast
    qed
  qed (use states in \<open>auto simp: set_session_def\<close>)
qed

theorem non_admission_releases_witness:
  "\<exists>db'. retain_verified_non_admission absence_verifier example_dates (\<lambda>_. ''d'') ''new'' absence_exchange 400000000 job_db = (Inr True, db') \<and>
     cb_amount_wei (balance_row ''u1'' db') = 100"
proof -
  obtain db' where run: "retain_verified_non_admission absence_verifier example_dates (\<lambda>_. ''d'') ''new'' absence_exchange 400000000 job_db =
    (Inr True, db')" using job_not_admitted by blast
  have bal: "cb_amount_wei (balance_row ''u1'' job_db) = 85"
    by (simp add: balance_row_def balance_of_def job_db_def job_granted_def job_held_def)
  from non_admission_releases [OF example_empty_ok job_reachable run] run bal show ?thesis by (auto simp: job_rows)
qed

end
