(* ===== verification/Resolution_Properties.thy ===== *)
theory Resolution_Properties
  imports Jobs_Properties
begin

text \<open>
  What operators and the janitor may do to work that does not settle: a resolution moves exactly what it says and
  leaves no live grant, and the charge without evidence is never made.
\<close>

section \<open>Resolutions\<close>

definition ended :: "spend_authorization_grant \<Rightarrow> bool" where
  "ended g \<longleftrightarrow> gr_state g \<in> {''settled'', ''expired_unused'', ''superseded'', ''operator_resolved''} \<and> gr_retired_at g \<noteq> None"

lemma resolve_grant_ended: "resolve_grant now g = Inr g' \<Longrightarrow> ended g'"
  by (auto simp: resolve_grant_def ended_def retired_or_def split: if_splits option.splits)

definition resolve_step :: "timestamp \<Rightarrow> unit \<Rightarrow> spend_authorization_grant \<Rightarrow> ('z sessions_db_scheme, unit) op" where
  "resolve_step now = (\<lambda>_ grant. bind_op (of_result (resolve_grant now grant))
     (\<lambda>grant'. modify (set_grant (gr_authorization_id grant) (\<lambda>_. grant'))))"

lemma resolve_step_run:
  "resolve_step now u g db = (Inr x, db') \<longleftrightarrow> (\<exists>g'. resolve_grant now g = Inr g' \<and> db' = set_grant (gr_authorization_id g) (\<lambda>_. g') db)"
  by (cases "resolve_grant now g") (auto simp: resolve_step_def modify_def)

lemma resolve_all_ended:
  assumes "fold_op (resolve_step now) () rows db = (Inr u, db')"
    and "\<forall>g \<in> set (grants db). gr_session_id g = e \<longrightarrow> ended g \<or> g \<in> set rows"
  shows "\<forall>g \<in> set (grants db'). gr_session_id g = e \<longrightarrow> ended g"
  using assms
proof (induction rows arbitrary: db)
  case Nil
  then show ?case by (auto simp: ret_def)
next
  case (Cons r rows)
  from Cons.prems(1) obtain r' where r': "resolve_grant now r = Inr r'" and
    rest: "fold_op (resolve_step now) () rows (set_grant (gr_authorization_id r) (\<lambda>_. r') db) = (Inr u, db')"
    by (auto simp: bind_Inr_iff resolve_step_run)
  show ?case
    by (rule Cons.IH [OF rest])
       (use Cons.prems(2) resolve_grant_ended [OF r'] in \<open>auto simp: set_grant_def update_where_def\<close>)
qed

lemma operator_resolved_run:
  assumes "mark_spend_authorization_operator_resolved e a now db = (Inr g, db')"
  shows "\<forall>h \<in> set (grants db'). gr_session_id h = e \<longrightarrow> ended h"
    "sessions db' = sessions db" "ledger db' = ledger db" "balances db' = balances db" "settlements db' = settlements db"
    "sessions_db.more db' = sessions_db.more db"
proof -
  obtain u where fold: "fold_op (resolve_step now) () (sort_key gr_revision (filter (\<lambda>g. gr_session_id g = e) (grants db))) db = (Inr u, db')"
    using assms
    by (auto simp: mark_spend_authorization_operator_resolved_def resolve_step_def [symmetric] bind_Inr_iff [of "fold_op _ _ _"] gets_def split: if_splits)
  show "\<forall>h \<in> set (grants db'). gr_session_id h = e \<longrightarrow> ended h" by (rule resolve_all_ended [OF fold]) simp
  let ?F = "\<lambda>d. sessions d = sessions db \<and> ledger d = ledger db \<and> balances d = balances db \<and> settlements d = settlements db \<and>
    sessions_db.more d = sessions_db.more db"
  have "keeps ?F (fold_op (resolve_step now) () rows)" for rows
    unfolding resolve_step_def by (intro keeps_fold keeps_bind keeps_of_result keeps_modify) (simp add: set_grant_def)
  from keepsD [OF this _ fold] show "sessions db' = sessions db" "ledger db' = ledger db" "balances db' = balances db"
    "settlements db' = settlements db" "sessions_db.more db' = sessions_db.more db" by auto
qed

lemma resolve_stuck_run:
  assumes "resolve_stuck_work dt trunc e who action remark now db = (Inr r, db')"
  obtains s a cap billed units where "get_session db e = Some s" "live s" "ps_authorization_id s = Some a"
    "wholesale_resolution_amounts trunc s action = Inr (billed, units)" "ps_customer_max_debit_wei s = Some cap"
    "finalize_resolution dt s who action remark a billed (cap - billed) units now db = (Inr (), db')"
    "rj_billed_value_wei r = billed" "rj_refund_wei r = cap - billed" "rj_actual_units r = units"
    "rj_outcome r = ''operator_'' @ action" "rj_state r = ''closed''"
  using assms
  by (auto simp: resolve_stuck_work_def live_def bind_Inr_iff [of "finalize_resolution _ _ _ _ _ _ _ _ _ _"] op_run
      split: option.splits if_splits sum.splits intro: that)

lemma refund_beyond:
  assumes "refund_step u e a db = (r, db')"
  shows "sessions_db.more db' = sessions_db.more db"
proof -
  have "keeps (beyond (sessions_db.more db)) (refund_step u e a)"
    unfolding refund_step_def by (intro keeps_if keeps_bind keeps_ret beyond_ledger)
  from keepsD [OF this refl assms] show ?thesis .
qed

lemma finalize_resolution_effect:
  assumes inv: "engagement_inv db" and s: "get_session db (ps_id s) = Some s" "live s" "ps_customer_max_debit_wei s = Some cap"
    and billed: "billed \<le> cap"
    and run: "finalize_resolution dt s who action remark a billed (cap - billed) units now db = (Inr (), db')"
  shows "\<exists>t. get_session db' (ps_id s) = Some t \<and> ps_state t = ''closed'' \<and> ps_billed_value_wei t = Some billed \<and>
      ps_actual_units t = units \<and> ps_outcome t = Some (''operator_'' @ action)"
    "cb_amount_wei (balance_row w db') = cb_amount_wei (balance_row w db) + (if w = ps_user_id s then cap - billed else 0)"
    "\<forall>h \<in> set (grants db'). gr_session_id h = ps_id s \<longrightarrow> ended h"
    "audits db' = audits db @ [resolve_audit who s action remark billed (cap - billed)]"
proof -
  let ?e = "ps_id s" and ?d = "set_session (ps_id s) (\<lambda>_. closing now s) db"
  let ?f = "\<lambda>s. s\<lparr>ps_actual_units := units, ps_billed_value_wei := Some billed, ps_outcome := Some (''operator_'' @ action)\<rparr>"
  let ?r = "operator_resolution dt who action remark billed (cap - billed) now"
  obtain db1 g db2 where f: "refund_step (ps_user_id s) ?e (cap - billed) ?d = (Inr (), db1)"
    "mark_spend_authorization_operator_resolved ?e a now (set_session ?e ?f db1) = (Inr g, db2)"
    "sessions db' = update_where (\<lambda>x. ps_id x = ?e) (note_resolution ?r) (sessions db2)"
    "balances db' = balances db2" "grants db' = grants db2"
    "audits db' = audits db2 @ [resolve_audit who s action remark billed (cap - billed)]"
    by (rule finalize_resolution_run [OF s(1,2) run]) (auto simp: set_session_def)
  note m = operator_resolved_run [OF f(2)]
  have none: "\<not> has_entry (ledger ?d) ?e ''engagement_release''"
    using live_row [OF inv s(1)] s(2) by (auto simp: set_session_def live_def)
  have s1: "sessions db1 = update_where (\<lambda>x. ps_id x = ?e) (\<lambda>_. closing now s) (sessions db)"
    using refund_run [OF f(1) none] by (auto simp: set_session_def)
  have "get_session db' ?e = Some (note_resolution ?r (?f (closing now s)))"
    by (rule updated_row [OF _ s(1)])
       (simp_all add: f(3) m(2) set_session_def s1 update_where_twice note_resolution_def closing_def)
  then show "\<exists>t. get_session db' ?e = Some t \<and> ps_state t = ''closed'' \<and> ps_billed_value_wei t = Some billed \<and>
      ps_actual_units t = units \<and> ps_outcome t = Some (''operator_'' @ action)"
    by (simp add: note_resolution_def closing_def)
  show "cb_amount_wei (balance_row w db') = cb_amount_wei (balance_row w db) + (if w = ps_user_id s then cap - billed else 0)"
    using refund_balance [OF f(1) none, of w] billed balance_row_cong [of db' db1 w] balance_row_cong [of ?d db w] f(4) m(4)
    by (simp add: set_session_def)
  show "\<forall>h \<in> set (grants db'). gr_session_id h = ?e \<longrightarrow> ended h" using m(1) f(5) by simp
  show "audits db' = audits db @ [resolve_audit who s action remark billed (cap - billed)]"
    using f(6) beyond_tables(3) [of db2 db] m(6) refund_beyond [OF f(1)] by (simp add: set_session_def)
qed

text \<open>C6. An operator's resolution is exact: only live work is resolved; a refund bills nothing, a full charge bills the
  cap, and an accepted report bills the retail charge of the units the broker reported, which are within the
  authorized units; the bill is between zero and the cap, the customer's balance grows by exactly the cap less the
  bill and no other balance moves, the ledger keeps exactly the bill, the row is closed with the operator's
  outcome, every grant of the engagement is terminal and retired, and one audit row names the operator and
  the amounts.\<close>

theorem operator_resolution_exact:
  assumes reach: "engagements_empty db0" "engagement_step\<^sup>*\<^sup>* db0 db"
    and run: "resolve_stuck_work dt trunc e who action remark now db = (Inr r, db')"
  shows "\<exists>s t m. get_session db e = Some s \<and> ps_state s \<in> {''open'', ''draining''} \<and> ps_customer_max_debit_wei s = Some m \<and>
    (action = ''refund_hold'' \<and> rj_billed_value_wei r = 0 \<or> action = ''charge_full'' \<and> rj_billed_value_wei r = m \<or>
     action = ''accept_reported'' \<and> (\<exists>n pricing. rj_actual_units r = Some n \<and> reported_units_for trunc s = Inr (Some n) \<and>
       n \<le> ps_max_total_units s \<and> ps_customer_pricing s = Some pricing \<and> reported_charge s pricing n = Inr (rj_billed_value_wei r))) \<and>
    0 \<le> rj_billed_value_wei r \<and> rj_billed_value_wei r \<le> m \<and> rj_refund_wei r = m - rj_billed_value_wei r \<and>
    (\<forall>w. cb_amount_wei (balance_row w db') = cb_amount_wei (balance_row w db) + (if w = ps_user_id s then rj_refund_wei r else 0)) \<and>
    etotal (ledger db') e = - rj_billed_value_wei r \<and>
    get_session db' e = Some t \<and> ps_state t = ''closed'' \<and> ps_billed_value_wei t = Some (rj_billed_value_wei r) \<and>
    ps_actual_units t = rj_actual_units r \<and> ps_outcome t = Some (''operator_'' @ action) \<and>
    (\<forall>h \<in> set (grants db'). gr_session_id h = e \<longrightarrow> ended h) \<and>
    audits db' = audits db @ [resolve_audit who s action remark (rj_billed_value_wei r) (rj_refund_wei r)]"
proof -
  note inv = reachable_inv [OF reach]
  from resolve_stuck_run [OF run] obtain s a cap billed units where s: "get_session db e = Some s" "live s"
    and am: "wholesale_resolution_amounts trunc s action = Inr (billed, units)" and cap: "ps_customer_max_debit_wei s = Some cap"
    and fin: "finalize_resolution dt s who action remark a billed (cap - billed) units now db = (Inr (), db')"
    and r: "rj_billed_value_wei r = billed" "rj_refund_wei r = cap - billed" "rj_actual_units r = units" by metis
  have e: "ps_id s = e" using get_session_in [OF s(1)] by simp
  have "0 \<le> cap" using inv_hold [OF inv s(1)] cap by (auto simp: hold_ok_def)
  with am cap have billed: "0 \<le> billed" "billed \<le> cap" by (auto elim!: resolution_amounts)
  note E = finalize_resolution_effect [OF inv _ s(2) cap billed(2) fin, unfolded e, OF s(1)]
  from E(1) obtain t where t: "get_session db' e = Some t" "ps_state t = ''closed''" "ps_billed_value_wei t = Some billed"
    "ps_actual_units t = units" "ps_outcome t = Some (''operator_'' @ action)" by blast
  have "engagement_inv db'" using resolve_inv [OF tracked_self [OF inv] run] by (rule tracked_inv)
  from etotal_obligation [OF this, of t] get_session_in [OF t(1)] t(2,3)
  have led: "etotal (ledger db') e = - billed" by (simp add: obligation_def live_def)
  have "ps_state s \<in> {''open'', ''draining''}" using s(2) by (simp add: live_def)
  moreover have "action = ''refund_hold'' \<and> billed = 0 \<or> action = ''charge_full'' \<and> billed = cap \<or>
     action = ''accept_reported'' \<and> (\<exists>n pricing. units = Some n \<and> reported_units_for trunc s = Inr (Some n) \<and>
       n \<le> ps_max_total_units s \<and> ps_customer_pricing s = Some pricing \<and> reported_charge s pricing n = Inr billed)"
    using resolution_amounts [OF am] cap by (metis option.inject)
  ultimately show ?thesis
    unfolding r using s(1) cap billed E(2-4) t led by blast
qed

definition example_operator :: operator where
  "example_operator = \<lparr>op_id = ''op'', op_email = ''op@example'', op_name = ''Op'', op_token_hash = [], op_role = ''owner'', op_revoked_at = None\<rparr>"

lemma example_resolves:
  "\<exists>r db'. resolve_stuck_work example_dates trunc ''new'' example_operator ''refund_hold'' None 70 job_db = (Inr r, db')"
proof -
  let ?closed = "job_authorized\<lparr>ps_state := ''closed'', ps_closed_at := Some 70\<rparr>"
  have tr: "catch_op (transition_state ''new'' ''open'' ''closed'' 70) (\<lambda>e. raise (transition_refused ''open'' e)) job_db =
      (Inr ?closed, job_db\<lparr>sessions := [?closed]\<rparr>)"
    by (simp add: catch_op_def transition_state_def job_rows ALLOWED_TRANSITIONS_def SESSION_STATES_def set_session_def ret_def Let_def)
  obtain b d where rel: "release_customer_engagement ''u1'' ''new'' 15 (job_db\<lparr>sessions := [?closed]\<rparr>) = (Inr b, d)"
    using job_full_release [where es = "[]" and ss = "[?closed]"]
    by (auto simp: job_db_def job_granted_def job_held_def job_funded_def example_funded_eval example_empty_def)
  have "grants d = [job_grant]"
    using keyed_posts [OF rel [unfolded release_keyed] windows_only_ret]
    by (auto simp: job_rows has_entry_def job_db_def job_granted_def job_held_def job_funded_def example_funded_eval example_empty_def entry_of_def)
  then obtain d2 g where mark: "catch_op (mark_spend_authorization_operator_resolved ''new'' ''loc-auth:r1'' 70)
      (\<lambda>e. raise (grant_refused e)) (set_session ''new'' (\<lambda>s. s\<lparr>ps_actual_units := None, ps_billed_value_wei := Some 0,
        ps_outcome := Some ''operator_refund_hold''\<rparr>) d) = (Inr g, d2)"
    by (simp add: catch_op_def mark_spend_authorization_operator_resolved_def set_session_def bind_op_def op_run resolve_grant_def)
  have "\<exists>db'. finalize_resolution example_dates job_authorized example_operator ''refund_hold'' None ''loc-auth:r1'' 0 15 None 70 job_db
      = (Inr (), db')"
    unfolding finalize_resolution_def Let_def
    by (simp add: bind_eq_Inr [of "catch_op _ _", OF tr] bind_eq_Inr [of "release_customer_engagement _ _ _", OF rel] bind_assoc
        bind_eq_Inr [of "catch_op _ _", OF mark])
       (simp add: record_settlement_def op_run bind_op_def Let_def)
  then obtain db' where "finalize_resolution example_dates job_authorized example_operator ''refund_hold'' None ''loc-auth:r1'' 0 15 None 70 job_db
      = (Inr (), db')" by blast
  note fin = bind_eq_Inr [of "finalize_resolution _ _ _ _ _ _ _ _ _ _", OF this]
  show ?thesis
    by (simp add: resolve_stuck_work_def job_rows wholesale_resolution_amounts_def fin) (simp add: ret_def)
qed

theorem operator_resolution_exact_witness:
  "\<exists>r db'. resolve_stuck_work example_dates (\<lambda>s. Inl (ValueError s)) ''new'' example_operator ''refund_hold'' None 70 job_db = (Inr r, db') \<and>
     rj_billed_value_wei r = 0 \<and> cb_amount_wei (balance_row ''u1'' db') = 100 \<and> etotal (ledger db') ''new'' = 0"
proof -
  obtain r db' where run: "resolve_stuck_work example_dates (\<lambda>s. Inl (ValueError s)) ''new'' example_operator ''refund_hold'' None 70 job_db =
    (Inr r, db')" using example_resolves by blast
  have bal: "cb_amount_wei (balance_row ''u1'' job_db) = 85"
    by (simp add: balance_row_def balance_of_def job_db_def job_granted_def job_held_def)
  from operator_resolution_exact [OF example_empty_ok job_reachable run] run bal show ?thesis by (auto simp: job_rows)
qed

section \<open>No charge without evidence\<close>

text \<open>A customer is never charged without evidence: in every reachable database the conservative full charge of the
  janitor is a no-op, whatever the deadline, the clock and the evidence, since it requires a payment row and
  nothing in the service creates one.\<close>

theorem conservative_charge_unreachable:
  assumes "engagements_empty db0" and "engagement_step\<^sup>*\<^sup>* db0 db"
  shows "finalize_conservative_full_charge dt job_id now secs evidence db = (Inr False, db)"
proof -
  have "payments db = []" using engagements.inv_reachable [OF assms] by (simp add: clearing_inv_def)
  then show ?thesis
    using no_conservative_charge by (metis surj_pair)
qed

theorem conservative_charge_unreachable_witness:
  "finalize_conservative_full_charge example_dates ''new'' 900000000 60 [] job_db = (Inr False, job_db)"
  by (rule conservative_charge_unreachable [OF example_empty_ok job_reachable])

end
