(* ===== verification/Payments_Properties.thy ===== *)
theory Payments_Properties
  imports Payments Triples
begin

text \<open>
  The ledger of create requests: a lease excludes every other claim, a completed request replays its stored
  answer, and a request that was not answered keeps the identity under which the payer may have minted.
\<close>

section \<open>Lookups by the primary key\<close>

definition requests_wf :: "('z clearing_db_scheme) \<Rightarrow> bool" where
  "requests_wf db \<longleftrightarrow> distinct (map request_key (create_requests db))"

lemma get_set_request:
  assumes "\<And>r. request_key (f r) = request_key r"
  shows "get_create_request (set_request p f db) key =
         map_option (\<lambda>r. if p r then f r else r) (get_create_request db key)"
proof -
  have "find (\<lambda>r. request_key r = key) (update_where p f rows) =
        map_option (\<lambda>r. if p r then f r else r) (find (\<lambda>r. request_key r = key) rows)" for rows
    using assms by (induction rows) auto
  then show ?thesis by (simp add: get_create_request_def set_request_def)
qed

lemma wf_set_request:
  assumes "\<And>r. request_key (f r) = request_key r"
  shows "requests_wf (set_request p f db) = requests_wf db"
  using assms by (simp add: requests_wf_def set_request_def)

lemma get_create_requestD: "get_create_request db key = Some r \<Longrightarrow> request_key r = key"
  unfolding get_create_request_def by (auto dest: find_SomeD)

lemma count_by_key:
  assumes "requests_wf db"
  shows "length (filter (\<lambda>r. request_key r = key \<and> P r) (create_requests db)) =
         (case get_create_request db key of None \<Rightarrow> 0 | Some r \<Rightarrow> if P r then 1 else 0)"
proof -
  have none: "filter (\<lambda>r. request_key r = key \<and> P r) rows = []" if "key \<notin> request_key ` set rows" for rows
    using that by (induction rows) auto
  have "length (filter (\<lambda>r. request_key r = key \<and> P r) rows) =
        (case find (\<lambda>r. request_key r = key) rows of None \<Rightarrow> 0 | Some r \<Rightarrow> if P r then 1 else 0)"
    if "distinct (map request_key rows)" for rows
    using that by (induction rows) (auto simp: none rev_image_eqI dest: find_SomeD split: option.splits)
  with assms show ?thesis by (simp add: requests_wf_def get_create_request_def)
qed

lemma get_insert_request:
  "get_create_request (db\<lparr>create_requests := create_requests db @ [row]\<rparr>) key =
     (case get_create_request db key of None \<Rightarrow> if request_key row = key then Some row else None | Some r \<Rightarrow> Some r)"
  by (simp add: get_create_request_def find_append split: option.split)

lemma get_filter_request:
  assumes "requests_wf db"
  shows "get_create_request (db\<lparr>create_requests := filter P (create_requests db)\<rparr>) key =
         (case get_create_request db key of None \<Rightarrow> None | Some r \<Rightarrow> if P r then Some r else None)"
proof -
  have none: "find (\<lambda>r. request_key r = key) (filter P rows) = None" if "key \<notin> request_key ` set rows" for rows
    using that by (auto simp: find_None_iff)
  have "find (\<lambda>r. request_key r = key) (filter P rows) =
        (case find (\<lambda>r. request_key r = key) rows of None \<Rightarrow> None | Some r \<Rightarrow> if P r then Some r else None)"
    if "distinct (map request_key rows)" for rows
    using that by (induction rows) (auto simp: none rev_image_eqI dest: find_SomeD split: option.splits)
  with assms show ?thesis by (simp add: requests_wf_def get_create_request_def)
qed

lemma wf_insert_request:
  assumes "requests_wf db" and "get_create_request db (request_key row) = None"
  shows "requests_wf (db\<lparr>create_requests := create_requests db @ [row]\<rparr>)"
  using assms by (auto simp: requests_wf_def get_create_request_def find_None_iff)

lemma wf_filter_request:
  "requests_wf db \<Longrightarrow> requests_wf (db\<lparr>create_requests := filter P (create_requests db)\<rparr>)"
  by (simp add: requests_wf_def distinct_map_filter)

section \<open>A claim\<close>

abbreviation synced :: "'d \<Rightarrow> 'd txn" where
  "synced db \<equiv> \<lparr>working = db, durable = db\<rparr>"

definition leased :: "string \<Rightarrow> timestamp \<Rightarrow> create_request_claim" where
  "leased request_id lease =
     \<lparr>cc_broker_request_id = request_id, cc_replay_status = None, cc_replay_payload = None,
      cc_lease_expires_at = Some lease\<rparr>"

lemma reclaim_request_run:
  assumes "requests_wf db"
  shows "reclaim_request key fp row now lease (synced db) =
    (case get_create_request db key of
       None \<Rightarrow> (Inl (RuntimeError ''idempotency claim disappeared during recovery''), synced db)
     | Some w \<Rightarrow>
         if reclaimable key (ik_expires_at row) now w
         then (Inr (leased (ik_broker_request_id row) lease),
               synced (set_request (reclaimable key (ik_expires_at row) now)
                 (\<lambda>r. r\<lparr>ik_status := ''in_flight'', ik_expires_at := lease\<rparr>) db))
         else (claim_from_existing w fp, synced db))"
proof -
  have count: "length (filter (reclaimable key e now) (create_requests db)) =
      (case get_create_request db key of None \<Rightarrow> 0 | Some r \<Rightarrow> if reclaimable key e now r then 1 else 0)" for e
    using count_by_key [OF assms, of key "reclaimable key e now"] unfolding reclaimable_def by simp
  show ?thesis
    by (auto simp: reclaim_request_def count op_run leased_def dest: get_create_requestD split: option.splits)
qed

lemma insert_request_run:
  "insert_request row (synced db) =
    (case get_create_request db (request_key row) of
       Some w \<Rightarrow> (claim_from_existing w (ik_request_fingerprint row), synced db)
     | None \<Rightarrow> (Inr (leased (ik_broker_request_id row) (ik_expires_at row)),
         synced (db\<lparr>create_requests := create_requests db @ [row]\<rparr>)))"
  by (auto simp: insert_request_def op_run leased_def split: option.splits)

text \<open>A claim that is granted leaves the lease in the committed row.\<close>

lemma claim_from_existing_no_lease:
  "claim_from_existing row fp = Inr c \<Longrightarrow> cc_lease_expires_at c = None"
  by (auto simp: claim_from_existing_def split: if_splits)

lemma claim_fresh:
  assumes "get_create_request (seen snapshot db) (u, op, ik) = None"
  shows "claim_create_request snapshot new_id u k op ik fp now timeout (synced db) =
    (let row = \<lparr>ik_user_id = u, ik_api_key_id = k, ik_operation = op, ik_idempotency_key = ik,
                ik_request_fingerprint = fp, ik_broker_request_id = new_id, ik_status = ''in_flight'',
                ik_http_status = None, ik_response_payload = None, ik_payment_id = None,
                ik_expires_at = now + seconds timeout\<rparr>
     in case get_create_request db (u, op, ik) of
          Some w \<Rightarrow> (claim_from_existing w fp, synced db)
        | None \<Rightarrow> (Inr (leased new_id (now + seconds timeout)),
            synced (db\<lparr>create_requests := create_requests db @ [row]\<rparr>)))"
  using assms by (simp add: claim_create_request_def insert_request_run request_key_def Let_def split: option.split)

definition next_lease :: "string \<Rightarrow> timestamp \<Rightarrow> int \<Rightarrow> payment_idempotency_key \<Rightarrow> timestamp" where
  "next_lease operation now timeout row =
     (if operation = ''sessions.prepare'' then max (now + seconds timeout) (ik_expires_at row + 1)
      else now + seconds timeout)"

lemma claim_again:
  assumes "get_create_request (seen snapshot db) (u, op, ik) = Some row" and "requests_wf db"
  shows "claim_create_request snapshot new_id u k op ik fp now timeout (synced db) =
    (if ik_request_fingerprint row = fp \<and> ik_status row \<in> set [''in_flight'', ''expired''] then
       case get_create_request db (u, op, ik) of
         None \<Rightarrow> (Inl (RuntimeError ''idempotency claim disappeared during recovery''), synced db)
       | Some w \<Rightarrow>
           if reclaimable (u, op, ik) (ik_expires_at row) now w then
             (Inr (leased (ik_broker_request_id row) (next_lease op now timeout row)),
              synced (set_request (reclaimable (u, op, ik) (ik_expires_at row) now) (\<lambda>r. r\<lparr>
                ik_status := ''in_flight'', ik_expires_at := next_lease op now timeout row\<rparr>) db))
           else (claim_from_existing w fp, synced db)
     else (claim_from_existing row fp, synced db))"
  using assms by (auto simp: claim_create_request_def reclaim_request_run next_lease_def [symmetric] Let_def op_run)

lemma granted_reclaims:
  assumes "claim_create_request None new_id u k op ik fp now timeout (synced db) = (Inr c, s')"
    and "cc_lease_expires_at c = Some lease" and "get_create_request db (u, op, ik) = Some row" and "requests_wf db"
  shows "ik_request_fingerprint row = fp \<and> reclaimable (u, op, ik) (ik_expires_at row) now row \<and>
    lease = next_lease op now timeout row \<and> c = leased (ik_broker_request_id row) lease \<and>
    s' = synced (set_request (reclaimable (u, op, ik) (ik_expires_at row) now)
           (\<lambda>r. r\<lparr>ik_status := ''in_flight'', ik_expires_at := lease\<rparr>) db)"
proof -
  have "\<not> (claim_from_existing row fp = Inr c \<and> cc_lease_expires_at c = Some lease)"
    using claim_from_existing_no_lease by fastforce
  with assms(1,2) show ?thesis
    unfolding claim_again [of None, unfolded seen_def option.case, OF assms(3,4)] assms(3)
    by (auto simp: leased_def split: if_splits)
qed

definition leases :: "('z clearing_db_scheme) \<Rightarrow> uuid \<times> string \<times> string \<Rightarrow> string \<Rightarrow> timestamp \<Rightarrow> bool" where
  "leases db key fp lease \<longleftrightarrow> requests_wf db \<and>
     (\<exists>row. get_create_request db key = Some row \<and> ik_status row = ''in_flight'' \<and> ik_expires_at row = lease \<and>
        ik_request_fingerprint row = fp)"

lemma claim_leases:
  assumes "claim_create_request None new_id u k op ik fp now timeout (synced db) = (Inr c, s')"
    and "cc_lease_expires_at c = Some lease" and "requests_wf db"
  shows "now + seconds timeout \<le> lease \<and> (\<exists>db'. s' = synced db' \<and> leases db' (u, op, ik) fp lease)"
proof (cases "get_create_request db (u, op, ik)")
  case None
  with assms show ?thesis
    by (auto simp: claim_fresh seen_def leased_def leases_def Let_def get_insert_request request_key_def
        intro!: wf_insert_request)
next
  case (Some row)
  with granted_reclaims [OF assms(1,2) Some assms(3)] assms(3) show ?thesis
    by (auto simp: leases_def get_set_request wf_set_request request_key_def next_lease_def)
qed

lemma leased_refuses:
  assumes "leases db (u, op, ik) fp lease" and "snapshot = None \<Longrightarrow> now < lease"
    and "\<And>old row. snapshot = Some old \<Longrightarrow> get_create_request old (u, op, ik) = Some row \<Longrightarrow>
           ik_request_fingerprint row = fp \<and> ik_status row \<in> set [''in_flight'', ''expired''] \<and> ik_expires_at row \<noteq> lease"
  shows "claim_create_request snapshot new_id u k op ik fp' now timeout (synced db) =
    (Inl (if fp' = fp then IdempotencyInProgress else IdempotencyKeyReuse), synced db)"
proof -
  obtain w where w: "get_create_request db (u, op, ik) = Some w" "ik_status w = ''in_flight''"
    "ik_expires_at w = lease" "ik_request_fingerprint w = fp" and wf: "requests_wf db"
    using assms(1) by (auto simp: leases_def)
  show ?thesis
  proof (cases "get_create_request (seen snapshot db) (u, op, ik)")
    case None
    with w show ?thesis by (simp add: claim_fresh claim_from_existing_def Let_def)
  next
    case (Some row)
    have "ik_request_fingerprint row = fp \<and> ik_status row \<in> set [''in_flight'', ''expired''] \<and>
        (ik_expires_at row = lease \<longrightarrow> now < lease)"
      using Some w assms(2,3) by (cases snapshot) (auto simp: seen_def)
    then show ?thesis
      unfolding claim_again [OF Some wf]
      using w by (auto simp: claim_from_existing_def reclaimable_def)
  qed
qed

section \<open>A concrete run\<close>

definition requests_empty :: clearing_db where
  "requests_empty = \<lparr>server_now = 0, balances = [], ledger = [], topups = [], windows = [], configs = [],
     accounts = [], fundings = [], budgets = [], sessions = [], settlements = [], grants = [],
     payments = [], create_requests = [], deposits = [], audits = []\<rparr>"

definition demo_request :: payment_idempotency_key where
  "demo_request = \<lparr>ik_user_id = ''u1'', ik_api_key_id = ''k1'', ik_operation = ''jobs.create'',
     ik_idempotency_key = ''i1'', ik_request_fingerprint = ''f1'', ik_broker_request_id = ''b1'',
     ik_status = ''in_flight'', ik_http_status = None, ik_response_payload = None, ik_payment_id = None,
     ik_expires_at = 30000000\<rparr>"

definition requests_claimed :: clearing_db where
  "requests_claimed = requests_empty\<lparr>create_requests := [demo_request]\<rparr>"

lemma demo_claim:
  "claim_create_request None ''b1'' ''u1'' ''k1'' ''jobs.create'' ''i1'' ''f1'' 0 30 (synced requests_empty) =
     (Inr (leased ''b1'' 30000000), synced requests_claimed)"
  by (simp add: claim_fresh seen_def get_create_request_def requests_empty_def requests_claimed_def demo_request_def Let_def)

lemma demo_wf: "requests_wf requests_empty" "requests_wf requests_claimed"
  "get_create_request requests_claimed (''u1'', ''jobs.create'', ''i1'') = Some demo_request"
  by (simp_all add: requests_wf_def requests_claimed_def requests_empty_def get_create_request_def request_key_def demo_request_def)

section \<open>Leases\<close>

text \<open>C36. A lease is exclusive. When a create request is claimed for work, the lease lasts the whole timeout, and
  neither a retry before it ends nor a request that had read the table before the claim committed is let
  through: the first is told that the request is in progress and changes nothing, the second loses the race and
  is told the same, and another body under the same key is refused as a reuse.
\<close>

theorem claim_is_exclusive:
  assumes "requests_wf db" and "0 < timeout"
    and "claim_create_request None new_id u k op ik fp now timeout (synced db) = (Inr c, s')"
    and "cc_lease_expires_at c = Some lease"
  shows "now + seconds timeout \<le> lease \<and>
    (snapshot = None \<and> now' < lease \<or> snapshot = Some db \<longrightarrow>
       claim_create_request snapshot new_id' u k' op ik fp' now' timeout' s' =
         (Inl (if fp' = fp then IdempotencyInProgress else IdempotencyKeyReuse), s'))"
proof -
  obtain db' where now: "now + seconds timeout \<le> lease" and s': "s' = synced db'"
    and leases: "leases db' (u, op, ik) fp lease"
    using claim_leases [OF assms(3,4,1)] by auto
  have "ik_request_fingerprint row = fp \<and> ik_status row \<in> set [''in_flight'', ''expired''] \<and> ik_expires_at row \<noteq> lease"
    if "get_create_request db (u, op, ik) = Some row" for row
    using granted_reclaims [OF assms(3,4) that assms(1)] assms(2)
    by (auto simp: reclaimable_def request_key_def next_lease_def)
  then show ?thesis
    using now leased_refuses [OF leases, of snapshot] by (auto simp: s')
qed

theorem claim_is_exclusive_witness:
  "claim_create_request None ''b2'' ''u1'' ''k2'' ''jobs.create'' ''i1'' ''f1'' 29999999 30 (synced requests_claimed) =
     (Inl IdempotencyInProgress, synced requests_claimed) \<and>
   claim_create_request (Some requests_empty) ''b2'' ''u1'' ''k1'' ''jobs.create'' ''i1'' ''f2'' 0 30
     (synced requests_claimed) = (Inl IdempotencyKeyReuse, synced requests_claimed)"
proof -
  have lease: "cc_lease_expires_at (leased ''b1'' 30000000) = Some 30000000" by (simp add: leased_def)
  show ?thesis
    using claim_is_exclusive [OF demo_wf(1) _ demo_claim lease, of None 29999999 "''b2''" "''k2''" "''f1''" 30]
      claim_is_exclusive [OF demo_wf(1) _ demo_claim lease, of "Some requests_empty" 0 "''b2''" "''k1''" "''f2''" 30]
    by simp
qed

section \<open>What later requests and the janitor do to a row\<close>

datatype 'd request_event =
    Claim "'d option" string uuid uuid string string string timestamp int
  | Complete uuid string string int "(string \<times> json) list" timestamp int "uuid option"
  | Fail uuid string string int "(string \<times> json) list" timestamp int bool
  | Release uuid string create_request_claim
  | Expire timestamp

fun run_event :: "('z clearing_db_scheme) request_event \<Rightarrow> ('z clearing_db_scheme) \<Rightarrow> ('z clearing_db_scheme)" where
  "run_event (Claim snapshot new_id u k op ik fp now timeout) db =
     durable (snd (claim_create_request snapshot new_id u k op ik fp now timeout (synced db)))"
| "run_event (Complete u op ik status payload now retention payment_id) db =
     durable (snd (complete_create_request u op ik status payload now retention payment_id (synced db)))"
| "run_event (Fail u op ik status payload now retention tombstone) db =
     durable (snd (fail_create_request u op ik status payload now retention tombstone (synced db)))"
| "run_event (Release u ik claim) db = durable (snd (release_failed_session_preparation u ik claim (synced db)))"
| "run_event (Expire now) db = snd (expire_stale_idempotency_keys now db)"

text \<open>A request is written by an answer, and resolved by one that the janitor may delete later.\<close>

fun answers :: "uuid \<times> string \<times> string \<Rightarrow> 'd request_event \<Rightarrow> bool" where
  "answers key (Complete u op ik status payload now retention payment_id) = (key = (u, op, ik))"
| "answers key (Fail u op ik status payload now retention tombstone) = (key = (u, op, ik))"
| "answers key _ = False"

fun resolves :: "uuid \<times> string \<times> string \<Rightarrow> 'd request_event \<Rightarrow> bool" where
  "resolves key (Fail u op ik status payload now retention tombstone) = (key = (u, op, ik) \<and> \<not> tombstone)"
| "resolves key e = answers key e"

definition same_identity :: "payment_idempotency_key \<Rightarrow> payment_idempotency_key \<Rightarrow> bool" where
  "same_identity r r' \<longleftrightarrow> ik_request_fingerprint r' = ik_request_fingerprint r \<and>
     ik_broker_request_id r' = ik_broker_request_id r"

definition pending :: "payment_idempotency_key \<Rightarrow> bool" where
  "pending r \<longleftrightarrow> ik_status r \<in> set [''in_flight'', ''expired'']"

lemma get_modified:
  assumes "get_create_request db key = Some r" and "\<And>r. request_key (f r) = request_key r"
  shows "get_create_request (set_request p f db) key = Some (if p r then f r else r)"
  using assms by (simp add: get_set_request)

definition kept :: "('z clearing_db_scheme) \<Rightarrow> ('z clearing_db_scheme) \<Rightarrow> uuid \<times> string \<times> string \<Rightarrow> bool" where
  "kept db db' key \<longleftrightarrow> (\<forall>r. get_create_request db key = Some r \<longrightarrow>
     (\<exists>r'. get_create_request db' key = Some r' \<and> (r' = r \<or> pending r \<and> pending r' \<and> same_identity r r')))"

lemma kept_refl: "kept db db key"
  by (simp add: kept_def)

lemma kept_set_request:
  assumes "\<And>r. request_key (f r) = request_key r"
    and "\<And>r. p r \<Longrightarrow> request_key r = key \<Longrightarrow> pending r \<and> pending (f r) \<and> same_identity r (f r)"
  shows "kept db (set_request p f db) key"
  unfolding kept_def
proof (intro allI impI)
  fix r assume "get_create_request db key = Some r"
  then show "\<exists>r'. get_create_request (set_request p f db) key = Some r' \<and>
      (r' = r \<or> pending r \<and> pending r' \<and> same_identity r r')"
    using get_modified [of db key r f p, OF _ assms(1)] assms(2) get_create_requestD by fastforce
qed

lemma kept_insert: "kept db (db\<lparr>create_requests := create_requests db @ [row]\<rparr>) key"
  by (auto simp: kept_def get_insert_request)

lemma event_claim:
  assumes "requests_wf db"
  shows "requests_wf (run_event (Claim snapshot new_id u k op ik fp now timeout) db) \<and>
    kept db (run_event (Claim snapshot new_id u k op ik fp now timeout) db) key"
proof (cases "get_create_request (seen snapshot db) (u, op, ik)")
  case None
  then show ?thesis
    using assms by (auto simp: claim_fresh Let_def kept_refl kept_insert request_key_def
        intro!: wf_insert_request split: option.splits)
next
  case (Some row)
  show ?thesis
    using assms unfolding run_event.simps claim_again [OF Some assms]
    by (auto simp: kept_refl wf_set_request request_key_def pending_def same_identity_def reclaimable_def
        intro!: kept_set_request split: option.splits)
qed

lemma event_answer:
  fixes key :: "uuid \<times> string \<times> string"
  assumes "requests_wf db"
  shows "requests_wf (run_event (Complete u op ik status payload now retention payment_id) db)"
    and "requests_wf (run_event (Fail u op ik status payload now retention tombstone) db)"
    and "key \<noteq> (u, op, ik) \<Longrightarrow> kept db (run_event (Complete u op ik status payload now retention payment_id) db) key"
    and "key \<noteq> (u, op, ik) \<Longrightarrow> kept db (run_event (Fail u op ik status payload now retention tombstone) db) key"
  using assms
  by (auto simp: complete_create_request_def fail_create_request_def require_create_request_def commit_def op_run
      bind_assoc wf_set_request request_key_def kept_refl intro!: kept_set_request split: option.split)

lemma event_release:
  assumes "requests_wf db"
  shows "requests_wf (run_event (Release u ik claim) db) \<and> kept db (run_event (Release u ik claim) db) key"
  using assms
  by (auto simp: release_failed_session_preparation_def release_session_preparation_claim_def commit_def op_run
      wf_set_request request_key_def kept_refl pending_def same_identity_def
      intro!: kept_set_request split: option.split)

lemma event_expire:
  assumes "requests_wf db"
  shows "requests_wf (run_event (Expire now) db)"
    and "get_create_request db key = Some r \<Longrightarrow>
      ik_status r \<notin> set [''completed'', ''failed''] \<or> now \<le> ik_expires_at r \<Longrightarrow>
      \<exists>r'. get_create_request (run_event (Expire now) db) key = Some r' \<and>
        (r' = r \<or> pending r \<and> pending r' \<and> same_identity r r')"
  using assms
  by (auto simp: expire_stale_idempotency_keys_def Let_def op_run get_filter_request get_set_request wf_set_request
      wf_filter_request request_key_def pending_def same_identity_def)

lemma wf_event: "requests_wf db \<Longrightarrow> requests_wf (run_event e db)"
  using event_claim [THEN conjunct1] event_answer(1) event_answer(2) event_release [THEN conjunct1] event_expire(1)
  by (cases e) (simp_all del: run_event.simps)

lemma event_row:
  assumes "requests_wf db" and "get_create_request db key = Some r" and "\<not> answers key e"
    and "\<And>now. e = Expire now \<Longrightarrow> ik_status r \<notin> set [''completed'', ''failed''] \<or> now \<le> ik_expires_at r"
  shows "\<exists>r'. get_create_request (run_event e db) key = Some r' \<and>
    (r' = r \<or> pending r \<and> pending r' \<and> same_identity r r')"
proof (cases e)
  case (Expire now)
  with event_expire(2) [OF assms(1,2), of now] assms(4) show ?thesis by blast
next
  case Claim
  with event_claim [OF assms(1), THEN conjunct2] assms(2) show ?thesis by (simp add: kept_def del: run_event.simps)
next
  case Complete
  with event_answer(3) [OF assms(1)] assms(2,3) show ?thesis by (simp add: kept_def del: run_event.simps)
next
  case Fail
  with event_answer(4) [OF assms(1)] assms(2,3) show ?thesis by (simp add: kept_def del: run_event.simps)
next
  case Release
  with event_release [OF assms(1), THEN conjunct2] assms(2) show ?thesis by (simp add: kept_def del: run_event.simps)
qed

lemma event_tombstone:
  assumes "get_create_request db (u, op, ik) = Some r"
  shows "\<exists>r'. get_create_request (run_event (Fail u op ik status payload now retention True) db) (u, op, ik) = Some r' \<and>
    ik_status r' = ''outcome_unknown'' \<and> same_identity r r'"
  using assms
  by (auto simp: fail_create_request_def require_create_request_def commit_def op_run bind_assoc get_set_request
      request_key_def same_identity_def dest!: get_create_requestD)

subsection \<open>Requests with a final answer\<close>

definition request_step ::
  "(('z clearing_db_scheme) request_event \<Rightarrow> bool) \<Rightarrow> ('z clearing_db_scheme) \<Rightarrow> ('z clearing_db_scheme) \<Rightarrow> bool" where
  "request_step allowed db db' \<longleftrightarrow> (\<exists>e. allowed e \<and> db' = run_event e db)"

text \<open>No other answer for the key, and no janitor run after the retention of the answer.\<close>

definition within_retention :: "uuid \<times> string \<times> string \<Rightarrow> timestamp \<Rightarrow> 'd request_event \<Rightarrow> bool" where
  "within_retention key until e \<longleftrightarrow> \<not> answers key e \<and> (\<forall>now. e = Expire now \<longrightarrow> now \<le> until)"

definition answered :: "uuid \<times> string \<times> string \<Rightarrow> timestamp \<Rightarrow> ('z clearing_db_scheme) \<Rightarrow> bool" where
  "answered key until db \<longleftrightarrow> requests_wf db \<and>
     (\<exists>r. get_create_request db key = Some r \<and> \<not> pending r \<and> until \<le> ik_expires_at r)"

lemma answered_step:
  assumes "answered key until db" and "within_retention key until e" and "get_create_request db key = Some r"
  shows "get_create_request (run_event e db) key = Some r"
proof -
  from assms have "\<exists>r'. get_create_request (run_event e db) key = Some r' \<and>
      (r' = r \<or> pending r \<and> pending r' \<and> same_identity r r')"
    by (intro event_row) (auto simp: answered_def within_retention_def)
  with assms show ?thesis by (auto simp: answered_def)
qed

interpretation retained: monotone_rows "answered key until" "request_step (within_retention key until)"
  "answered key until" "\<lambda>db (_::unit). get_create_request db key" "(=)" for key until
proof unfold_locales
  fix db db' :: "'a clearing_db_scheme" and r
  assume "answered key until db" and "request_step (within_retention key until) db db'"
  then obtain e where e: "within_retention key until e" "db' = run_event e db" by (auto simp: request_step_def)
  with \<open>answered key until db\<close> show "answered key until db'"
    using answered_step [OF _ e(1)] wf_event by (fastforce simp: answered_def)
  show "\<exists>r'. get_create_request db' key = Some r' \<and> r = r'" if "get_create_request db key = Some r"
    using answered_step [OF \<open>answered key until db\<close> e(1) that] e(2) by simp
qed auto

lemma answered_replays:
  assumes "get_create_request db (u, op, ik) = Some r" and "ik_status r \<in> set [''completed'', ''failed'', ''outcome_unknown'']"
    and "ik_http_status r = Some status" and "ik_response_payload r = Some payload"
  shows "claim_create_request None new_id u k op ik fp now timeout (synced db) =
    ((if fp = ik_request_fingerprint r
      then Inr \<lparr>cc_broker_request_id = ik_broker_request_id r, cc_replay_status = Some status,
                cc_replay_payload = Some payload, cc_lease_expires_at = None\<rparr>
      else Inl IdempotencyKeyReuse), synced db)"
  using assms by (auto simp: claim_create_request_def seen_def Let_def op_run claim_from_existing_def)

text \<open>A completed request replays. After a create request is completed, whatever other requests, retries and
  janitor runs happen within the retention of its answer, a retry with the same body is answered with exactly the
  stored HTTP status and body under the same broker request id, mints nothing and changes nothing; another body
  under the key is refused.
\<close>

theorem completed_request_replays:
  assumes "requests_wf db"
    and "complete_create_request u op ik status payload now retention payment_id (synced db) = (Inr (), s')"
    and "(request_step (within_retention (u, op, ik) (now + seconds retention)))\<^sup>*\<^sup>* (durable s') db'"
  shows "\<exists>row. get_create_request db (u, op, ik) = Some row \<and>
    claim_create_request None new_id u k op ik fp now' timeout (synced db') =
      ((if fp = ik_request_fingerprint row
        then Inr \<lparr>cc_broker_request_id = ik_broker_request_id row, cc_replay_status = Some status,
                  cc_replay_payload = Some payload, cc_lease_expires_at = None\<rparr>
        else Inl IdempotencyKeyReuse), synced db')"
proof -
  obtain row where row: "get_create_request db (u, op, ik) = Some row"
    using assms(2) by (auto simp: complete_create_request_def require_create_request_def bind_assoc op_run split: option.splits)
  define final where "final = row\<lparr>ik_status := ''completed'', ik_http_status := Some status,
    ik_response_payload := Some payload, ik_payment_id := payment_id, ik_expires_at := now + seconds retention\<rparr>"
  have final: "get_create_request (durable s') (u, op, ik) = Some final" "requests_wf (durable s')"
    using assms(1,2) row get_create_requestD [OF row] by (auto simp: complete_create_request_def require_create_request_def commit_def bind_assoc
      op_run get_set_request wf_set_request request_key_def final_def)
  then have "answered (u, op, ik) (now + seconds retention) (durable s')"
    by (auto simp: answered_def final_def pending_def)
  from retained.row_star [OF assms(3) this, of final] final(1)
  have "get_create_request db' (u, op, ik) = Some final" by simp
  from answered_replays [OF this] row show ?thesis by (simp add: final_def)
qed

definition requests_completed :: clearing_db where
  "requests_completed = requests_empty\<lparr>create_requests := [demo_request\<lparr>ik_status := ''completed'',
     ik_http_status := Some 201, ik_response_payload := Some [], ik_expires_at := 65000000\<rparr>]\<rparr>"

theorem completed_request_replays_witness:
  "claim_create_request None ''b2'' ''u1'' ''k1'' ''jobs.create'' ''i1'' ''f1'' 64000000 30 (synced requests_completed) =
     (Inr \<lparr>cc_broker_request_id = ''b1'', cc_replay_status = Some 201, cc_replay_payload = Some [],
           cc_lease_expires_at = None\<rparr>, synced requests_completed)"
proof -
  have complete: "complete_create_request ''u1'' ''jobs.create'' ''i1'' 201 [] 5000000 60 None (synced requests_claimed) =
      (Inr (), synced requests_completed)"
    by (simp add: complete_create_request_def require_create_request_def get_create_request_def bind_assoc op_run
        commit_def set_request_def requests_claimed_def requests_completed_def requests_empty_def request_key_def demo_request_def)
  have "run_event (Expire 65000000) requests_completed = requests_completed"
    by (simp add: expire_stale_idempotency_keys_def Let_def op_run set_request_def requests_completed_def
        requests_empty_def demo_request_def)
  then have "request_step (within_retention (''u1'', ''jobs.create'', ''i1'') (5000000 + seconds 60))
      (durable (synced requests_completed)) requests_completed"
    unfolding request_step_def by (intro exI [of _ "Expire 65000000"]) (simp add: within_retention_def)
  then have run: "(request_step (within_retention (''u1'', ''jobs.create'', ''i1'') (5000000 + seconds 60)))\<^sup>*\<^sup>*
      (durable (synced requests_completed)) requests_completed"
    by (rule r_into_rtranclp)
  from completed_request_replays [OF demo_wf(2) complete run, of "''b2''" "''k1''" "''f1''" 64000000 30]
  have "claim_create_request None ''b2'' ''u1'' ''k1'' ''jobs.create'' ''i1'' ''f1'' 64000000 30 (synced requests_completed) =
      ((if ''f1'' = ik_request_fingerprint demo_request
        then Inr \<lparr>cc_broker_request_id = ik_broker_request_id demo_request, cc_replay_status = Some 201,
                  cc_replay_payload = Some [], cc_lease_expires_at = None\<rparr>
        else Inl IdempotencyKeyReuse), synced requests_completed)"
    unfolding demo_wf(3) option.inject by blast
  then show ?thesis by (simp add: demo_request_def)
qed

subsection \<open>Requests without a final answer\<close>

definition unanswered :: "uuid \<times> string \<times> string \<Rightarrow> ('z clearing_db_scheme) \<Rightarrow> bool" where
  "unanswered key db \<longleftrightarrow> requests_wf db \<and>
     (\<forall>r. get_create_request db key = Some r \<longrightarrow> pending r \<or> ik_status r = ''outcome_unknown'')"

lemma resolves_cases:
  assumes "\<not> resolves key e"
  obtains "\<not> answers key e"
  | u op ik status payload now retention where "key = (u, op, ik)"
      "e = Fail u op ik status payload now retention True"
  using assms by (cases e) auto

lemma unanswered_row:
  assumes "unanswered key db" and "\<not> resolves key e" and "get_create_request db key = Some r"
  shows "\<exists>r'. get_create_request (run_event e db) key = Some r' \<and> same_identity r r' \<and>
    (pending r' \<or> ik_status r' = ''outcome_unknown'')"
  using assms(2)
proof (cases rule: resolves_cases)
  case 1
  have "\<exists>r'. get_create_request (run_event e db) key = Some r' \<and>
      (r' = r \<or> pending r \<and> pending r' \<and> same_identity r r')"
    using assms 1 by (intro event_row) (auto simp: unanswered_def pending_def)
  with assms show ?thesis by (auto simp: unanswered_def same_identity_def)
next
  case 2
  then show ?thesis using event_tombstone assms(3) by blast
qed

text \<open>A row that appears is a fresh claim.\<close>

lemma fresh_row_pending:
  assumes "requests_wf db" and "get_create_request db key = None" and "get_create_request (run_event e db) key = Some r"
  shows "pending r"
proof (cases e)
  case (Claim snapshot new_id u k op ik fp now timeout)
  show ?thesis
  proof (cases "get_create_request (seen snapshot db) (u, op, ik)")
    case None
    with Claim assms show ?thesis
      by (auto simp: claim_fresh Let_def get_insert_request pending_def split: option.splits if_splits)
  next
    case (Some row)
    with Claim assms show ?thesis
      by (auto simp: claim_again [OF Some assms(1)] get_set_request request_key_def split: option.splits if_splits)
  qed
qed (use assms in \<open>auto simp: complete_create_request_def fail_create_request_def require_create_request_def
  release_failed_session_preparation_def release_session_preparation_claim_def expire_stale_idempotency_keys_def
  Let_def commit_def op_run bind_assoc get_set_request get_filter_request wf_set_request request_key_def
  split: option.splits\<close>)

interpretation unresolved: monotone_rows "unanswered key" "request_step (\<lambda>e. \<not> resolves key e)"
  "unanswered key" "\<lambda>db (_::unit). get_create_request db key" same_identity for key
proof unfold_locales
  fix db db' :: "'a clearing_db_scheme" and r
  assume un: "unanswered key db" and "request_step (\<lambda>e. \<not> resolves key e) db db'"
  then obtain e where e: "\<not> resolves key e" "db' = run_event e db" by (auto simp: request_step_def)
  have "pending r' \<or> ik_status r' = ''outcome_unknown''" if "get_create_request db' key = Some r'" for r'
  proof (cases "get_create_request db key")
    case None
    then show ?thesis using fresh_row_pending [OF _ None] un e that by (simp add: unanswered_def)
  next
    case (Some r0)
    with unanswered_row [OF un e(1) Some] e that show ?thesis by auto
  qed
  then show "unanswered key db'"
    using un e wf_event by (auto simp: unanswered_def)
  show "\<exists>r'. get_create_request db' key = Some r' \<and> same_identity r r'" if "get_create_request db key = Some r"
    using unanswered_row [OF un e(1) that] e(2) by blast
qed (auto simp: same_identity_def)

lemma claim_identity:
  assumes "claim_create_request snapshot new_id u k op ik fp now timeout (synced db) = (Inr c, s')"
    and "requests_wf db" and "get_create_request db (u, op, ik) = Some w"
    and "get_create_request (seen snapshot db) (u, op, ik) = Some row" and "same_identity row w"
  shows "fp = ik_request_fingerprint row \<and> cc_broker_request_id c = ik_broker_request_id row"
  using assms(1) unfolding claim_again [OF assms(4,2)]
  using assms(3,5) by (auto simp: leased_def claim_from_existing_def same_identity_def split: if_splits)

text \<open>C37. An unanswered request keeps its mint identity. From the first claim of a create request until it is
  completed or definitely failed, whatever retries, crashes, expiries, releases, janitor runs and indeterminate
  failures happen in between, and whether or not the claim reads a stale row, every claim that is let through has
  the same body and carries the same broker request id, so the payer cannot be asked to mint under a second one.
\<close>

theorem mint_identity_stable:
  assumes "unanswered (u, op, ik) db" and "get_create_request db (u, op, ik) = Some row"
    and "(request_step (\<lambda>e. \<not> resolves (u, op, ik) e))\<^sup>*\<^sup>* db old"
    and "(request_step (\<lambda>e. \<not> resolves (u, op, ik) e))\<^sup>*\<^sup>* old db'"
    and "snapshot = None \<or> snapshot = Some old"
    and "claim_create_request snapshot new_id u k op ik fp now timeout (synced db') = (Inr c, s')"
  shows "fp = ik_request_fingerprint row \<and> cc_broker_request_id c = ik_broker_request_id row"
proof -
  obtain r1 where r1: "get_create_request old (u, op, ik) = Some r1" "same_identity row r1"
    using unresolved.row_star [OF assms(3,1)] assms(2) by blast
  have un: "unanswered (u, op, ik) old" using unresolved.inv_star [OF assms(3,1)] .
  obtain r2 where r2: "get_create_request db' (u, op, ik) = Some r2" "same_identity r1 r2"
    using unresolved.row_star [OF assms(4) un] r1(1) by blast
  have "requests_wf db'" using unresolved.inv_star [OF assms(4) un] by (simp add: unanswered_def)
  moreover obtain r where "get_create_request (seen snapshot db') (u, op, ik) = Some r" "same_identity row r" "same_identity r r2"
    using assms(5) r1 r2 by (auto simp: seen_def same_identity_def)
  ultimately show ?thesis
    using claim_identity [OF assms(6) _ r2(1)] by (simp add: same_identity_def)
qed

theorem mint_identity_stable_witness:
  "\<exists>c s'. claim_create_request None ''b2'' ''u1'' ''k2'' ''jobs.create'' ''i1'' ''f1'' 40000000 30
     (synced (run_event (Expire 40000000) requests_claimed)) = (Inr c, s') \<and>
     cc_broker_request_id c = ''b1'' \<and> cc_lease_expires_at c = Some 70000000"
proof -
  let ?step = "request_step (\<lambda>e. \<not> resolves (''u1'', ''jobs.create'', ''i1'') e)"
  let ?db = "run_event (Expire 40000000) requests_claimed"
  have un: "unanswered (''u1'', ''jobs.create'', ''i1'') requests_claimed"
    by (simp add: unanswered_def demo_wf) (simp add: pending_def demo_request_def)
  have "?step requests_claimed ?db"
    unfolding request_step_def by (intro exI [of _ "Expire 40000000"]) simp
  then have step: "?step\<^sup>*\<^sup>* requests_claimed ?db" by (rule r_into_rtranclp)
  have row: "?db = requests_empty\<lparr>create_requests := [demo_request\<lparr>ik_status := ''expired''\<rparr>]\<rparr>"
    by (simp add: expire_stale_idempotency_keys_def Let_def op_run set_request_def requests_claimed_def
        requests_empty_def demo_request_def)
  obtain c s' where claim: "claim_create_request None ''b2'' ''u1'' ''k2'' ''jobs.create'' ''i1'' ''f1'' 40000000 30
      (synced ?db) = (Inr c, s')" and "cc_lease_expires_at c = Some 70000000"
    unfolding row
    by (simp add: claim_create_request_def seen_def get_create_request_def request_key_def demo_request_def Let_def
        reclaim_request_run requests_wf_def reclaimable_def leased_def)
  with mint_identity_stable [OF un demo_wf(3) rtranclp.rtrancl_refl step _ claim]
  show ?thesis by (auto simp: demo_request_def)
qed

end
