(* ===== verification/Endpoint_Properties.thy ===== *)
theory Endpoint_Properties
  imports Resolution_Properties Payments_Properties
begin

text \<open>
  What a client sees of a creating request it repeats: the same answer or the same refusal, without a second
  engagement, as long as the create request is retained.
\<close>

section \<open>One handler\<close>

definition request_row ::
  "uuid \<Rightarrow> uuid \<Rightarrow> string \<Rightarrow> string \<Rightarrow> string \<Rightarrow> string \<Rightarrow> timestamp \<Rightarrow> payment_idempotency_key" where
  "request_row u k op' ik fp rid lease = \<lparr>ik_user_id = u, ik_api_key_id = k, ik_operation = op', ik_idempotency_key = ik,
     ik_request_fingerprint = fp, ik_broker_request_id = rid, ik_status = ''in_flight'', ik_http_status = None,
     ik_response_payload = None, ik_payment_id = None, ik_expires_at = lease\<rparr>"

lemma claim_first:
  assumes "get_create_request db (u, op', ik) = None"
  shows "claim_create_request None rid u k op' ik fp now timeout (synced db) =
    (Inr (leased rid (now + seconds timeout)),
     synced (db\<lparr>create_requests := create_requests db @ [request_row u k op' ik fp rid (now + seconds timeout)]\<rparr>))"
  using assms by (simp add: claim_fresh seen_def Let_def request_row_def)

lemma get_request_row:
  assumes "get_create_request db (u, op', ik) = None"
    and "create_requests d = create_requests db @ [request_row u k op' ik fp rid lease]"
  shows "get_create_request d (u, op', ik) = Some (request_row u k op' ik fp rid lease)"
  using assms by (simp add: get_create_request_def find_append request_key_def request_row_def)

text \<open>What a service leaves behind that touches nothing beyond the engagement tables.\<close>

lemma service_requests:
  fixes m :: "(('z clearing_db_scheme) txn, 'a) op"
  assumes "\<And>M. safe (beyond M) m" and "m (synced db) = (r, s)"
  shows "create_requests (durable s) = create_requests db"
    and "r = Inr x \<Longrightarrow> create_requests (working s) = create_requests db"
proof -
  note t = assms(1) [of "sessions_db.more db", unfolded safe_def]
  have b: "both (beyond (sessions_db.more db)) (synced db)" by (simp add: both_def)
  have "sessions_db.more (durable s) = sessions_db.more db"
    using tripleD [OF t b] assms(2) by (cases r) (auto simp: both_def committed_def)
  then show "create_requests (durable s) = create_requests db" by (rule beyond_tables)
  show "create_requests (working s) = create_requests db" if "r = Inr x"
    using tripleD(1) [OF t b] assms(2) that by (auto simp: both_def intro: beyond_tables)
qed

definition answered_row :: "string \<Rightarrow> int \<Rightarrow> dict \<Rightarrow> timestamp \<Rightarrow> payment_idempotency_key \<Rightarrow> payment_idempotency_key" where
  "answered_row status code payload until r = r\<lparr>ik_status := status, ik_http_status := Some code,
     ik_response_payload := Some payload, ik_expires_at := until\<rparr>"

lemma request_key_frame [simp]:
  "request_key (r\<lparr>ik_status := a\<rparr>) = request_key r" "request_key (r\<lparr>ik_http_status := b\<rparr>) = request_key r"
  "request_key (r\<lparr>ik_response_payload := c\<rparr>) = request_key r" "request_key (r\<lparr>ik_payment_id := d\<rparr>) = request_key r"
  "request_key (r\<lparr>ik_expires_at := e\<rparr>) = request_key r"
  by (simp_all add: request_key_def)

lemma answer_run:
  assumes "get_create_request (working s) (u, op', ik) = Some row"
  shows "complete_create_request u op' ik code payload now secs None s =
      (Inr (), synced (set_request (\<lambda>r. request_key r = (u, op', ik))
        (\<lambda>r. r\<lparr>ik_status := ''completed'', ik_http_status := Some code, ik_response_payload := Some payload,
          ik_payment_id := None, ik_expires_at := now + seconds secs\<rparr>) (working s)))"
    "fail_create_request u op' ik code payload now secs tomb s =
      (Inr (), synced (set_request (\<lambda>r. request_key r = (u, op', ik))
        (answered_row (if tomb then ''outcome_unknown'' else ''failed'') code payload (now + seconds secs)) (working s)))"
  using assms
  by (cases s; simp add: complete_create_request_def fail_create_request_def require_create_request_def bind_assoc op_run commit_def
      answered_row_def [abs_def])+

lemma get_answered:
  assumes "get_create_request d (u, op', ik) = Some row" and "\<And>r. request_key (f r) = request_key r"
  shows "get_create_request (set_request (\<lambda>r. request_key r = (u, op', ik)) f d) (u, op', ik) = Some (f row)"
  using assms get_create_requestD [OF assms(1)] by (simp add: get_set_request)

lemma failure_run:
  assumes "get_create_request (durable s) (u, op', ik) = Some row" and "describe rp e = Some v"
  shows "record_failure rp u op' ik now secs e s = (Inl e, if may_retry e then synced (durable s)
    else synced (set_request (\<lambda>r. request_key r = (u, op', ik))
      (answered_row (if e = IdempotencyOutcomeUnknown then ''outcome_unknown'' else ''failed'') (ev_status_code v) (error_payload v)
        (now + seconds secs)) (durable s)))"
  using assms answer_run(2) [of "synced (durable s)" u op' ik row]
  by (cases s; simp add: record_failure_def rollback_def bind_op_def modify_def raise_def ret_def)

lemma failure_unknown: "describe rp e = None \<Longrightarrow> record_failure rp u op' ik now secs e s = (Inl e, s)"
  by (simp add: record_failure_def raise_def)

text \<open>The first request under a key, and what it stores.\<close>

lemma handler_stores:
  fixes db :: "('z clearing_db_scheme)"
  assumes fresh: "get_create_request db (u, op', ik) = None" and keeps: "\<And>M. safe (beyond M) (service rid)"
    and run: "session_scope (bind_op (claim_create_request None rid u k op' ik fp now timeout)
      (claimed_request rp codec success u op' ik now secs service)) db = (r, db')"
  shows "r = Inr x \<Longrightarrow> get_create_request db' (u, op', ik) = Some (answered_row ''completed'' success (co_dump codec x)
      (now + seconds secs) (request_row u k op' ik fp rid (now + seconds timeout)))"
    and "\<lbrakk>r = Inl e; describe rp e = Some v; \<not> may_retry e\<rbrakk> \<Longrightarrow> get_create_request db' (u, op', ik) =
      Some (answered_row (if e = IdempotencyOutcomeUnknown then ''outcome_unknown'' else ''failed'') (ev_status_code v) (error_payload v)
        (now + seconds secs) (request_row u k op' ik fp rid (now + seconds timeout)))"
proof -
  let ?row = "request_row u k op' ik fp rid (now + seconds timeout)"
  let ?db = "db\<lparr>create_requests := create_requests db @ [?row]\<rparr>"
  obtain q s where q: "service rid (synced ?db) = (q, s)" by force
  note S = service_requests [OF keeps q]
  have notreplay: "\<not> is_replay (leased rid lease)" "cc_broker_request_id (leased rid lease) = rid" for lease
    by (simp_all add: is_replay_def leased_def)
  have stored: "get_create_request d (u, op', ik) = Some ?row" if "create_requests d = create_requests ?db" for d :: "('z clearing_db_scheme)"
    by (rule get_request_row [OF fresh]) (simp add: that)
  have key: "request_key ?row = (u, op', ik)" by (simp add: request_key_def request_row_def)
  have out: "(r, db') = session_scope (\<lambda>_. bind_op (catch_op (service rid) (record_failure rp u op' ik now secs)) (\<lambda>x.
      bind_op (complete_create_request u op' ik success (co_dump codec x) now secs None) (\<lambda>_. ret x)) (synced ?db)) db"
    using run by (simp add: session_scope_def bind_eq_Inr [of "claim_create_request _ _ _ _ _ _ _ _ _", OF claim_first [OF fresh]]
        claimed_request_def notreplay)
  show "get_create_request db' (u, op', ik) = Some (answered_row ''completed'' success (co_dump codec x) (now + seconds secs) ?row)"
    if "r = Inr x"
  proof (cases q)
    case (Inl e)
    then have "\<exists>e' s'. catch_op (service rid) (record_failure rp u op' ik now secs) (synced ?db) = (Inl e', s')"
      using q by (cases "describe rp e")
        (auto simp: catch_op_def record_failure_def raise_def bind_op_def rollback_def modify_def split: prod.split sum.split)
    with out that show ?thesis by (auto simp: session_scope_def bind_op_def split: prod.splits sum.splits)
  next
    case (Inr y)
    then have c: "catch_op (service rid) (record_failure rp u op' ik now secs) (synced ?db) = (Inr y, s)" using q by (simp add: catch_op_def)
    have w: "get_create_request (working s) (u, op', ik) = Some ?row" using stored S(2) [OF Inr] by simp
    from out that show ?thesis
      by (simp add: session_scope_def bind_eq_Inr [of "catch_op _ _", OF c] bind_eq_Inr [of "complete_create_request _ _ _ _ _ _ _ _", OF answer_run(1) [OF w]])
         (simp add: ret_def get_answered [OF w] answered_row_def request_row_def)
  qed
  show "get_create_request db' (u, op', ik) =
      Some (answered_row (if e = IdempotencyOutcomeUnknown then ''outcome_unknown'' else ''failed'') (ev_status_code v) (error_payload v)
        (now + seconds secs) ?row)"
    if "r = Inl e" "describe rp e = Some v" "\<not> may_retry e"
  proof (cases q)
    case (Inr y)
    then have c: "catch_op (service rid) (record_failure rp u op' ik now secs) (synced ?db) = (Inr y, s)" using q by (simp add: catch_op_def)
    have w: "get_create_request (working s) (u, op', ik) = Some ?row" using stored S(2) [OF Inr] by simp
    from out that show ?thesis
      by (simp add: session_scope_def bind_eq_Inr [of "catch_op _ _", OF c] bind_eq_Inr [of "complete_create_request _ _ _ _ _ _ _ _", OF answer_run(1) [OF w]])
         (simp add: ret_def)
  next
    case (Inl e0)
    have w: "get_create_request (durable s) (u, op', ik) = Some ?row" using stored S(1) by simp
    have c: "catch_op (service rid) (record_failure rp u op' ik now secs) (synced ?db) = record_failure rp u op' ik now secs e0 s"
      using q Inl by (simp add: catch_op_def)
    have "e0 = e" using out that(1) c
      by (cases "describe rp e0") (auto simp: session_scope_def bind_op_def failure_unknown failure_run [OF w])
    with out that c show ?thesis
      by (simp add: session_scope_def bind_op_def failure_run [OF w] get_answered [OF w] answered_row_def)
  qed
qed

text \<open>A repeated request.\<close>

lemma handler_replays:
  assumes "get_create_request db (u, op', ik) = Some (answered_row st code payload until (request_row u k op' ik fp rid lease))"
    and "st \<in> {''completed'', ''failed'', ''outcome_unknown''}"
  shows "session_scope (bind_op (claim_create_request None rid' u k' op' ik fp' now timeout)
      (claimed_request rp codec success u op' ik now secs service)) db =
    ((if fp' = fp then replay_create codec success \<lparr>cc_broker_request_id = rid, cc_replay_status = Some code,
        cc_replay_payload = Some payload, cc_lease_expires_at = None\<rparr> else Inl IdempotencyKeyReuse), db)"
proof -
  have "claim_create_request None rid' u k' op' ik fp' now timeout (synced db) =
    ((if fp' = fp then Inr \<lparr>cc_broker_request_id = rid, cc_replay_status = Some code, cc_replay_payload = Some payload,
        cc_lease_expires_at = None\<rparr> else Inl IdempotencyKeyReuse), synced db)"
    using answered_replays [OF assms(1)] assms(2) by (auto simp: answered_row_def request_row_def)
  then show ?thesis
    by (auto simp: session_scope_def bind_op_def claimed_request_def is_replay_def of_result_def split: sum.split)
qed



section \<open>Creating a job\<close>

definition job_fingerprint :: "(json \<Rightarrow> string) \<Rightarrow> create_job_request \<Rightarrow> string" where
  "job_fingerprint hash body = create_request_fingerprint hash ''jobs.create'' (dump_job_request body)"

lemma job_service_beyond:
  "safe (beyond M) (bind_op (of_result (body_bytes x)) (\<lambda>digest. bind_op (of_result (body_bytes y)) (\<lambda>key.
     open_job None world sign sel many nid frid u k cap off est most sdk now settings transport binding rid digest key)))"
  by (intro safe_bind safe_of_result beyond.open_job_request) simp

text \<open>C7. Creating a job is idempotent. When the first request under an idempotency key succeeds, repeating it with the
  same body, at any later time and whatever the registry, the payer and the broker would answer then, returns the
  same response and changes nothing, as long as the stored answer is retained; another body under the key is
  refused and changes nothing. The response model is assumed to be read back as it was dumped.\<close>

theorem job_creation_idempotent:
  assumes codec: "co_load codec (co_dump codec r) = Inr r"
    and fresh: "get_create_request db (u, ''jobs.create'', ik) = None"
    and first: "session_scope (open_job_endpoint None None rp hash codec world sign sel many nid nrid frid u k body ik sdk now
      settings inflight secs) db = (Inr r, db')"
    and retained: "get_create_request later (u, ''jobs.create'', ik) = get_create_request db' (u, ''jobs.create'', ik)"
  shows "session_scope (open_job_endpoint None conflict rp hash codec world' sign' sel' many' nid' nrid' frid' u k' body' ik sdk' now'
      settings' inflight' secs') later =
    ((if job_fingerprint hash body' = job_fingerprint hash body then Inr r else Inl IdempotencyKeyReuse), later)"
proof -
  note handler_stores(1) [OF fresh job_service_beyond first [unfolded open_job_endpoint_def Let_def] refl]
  with retained have "get_create_request later (u, ''jobs.create'', ik) =
    Some (answered_row ''completed'' 201 (co_dump codec r) (now + seconds secs)
      (request_row u k ''jobs.create'' ik (job_fingerprint hash body) nrid (now + seconds inflight)))"
    by (simp add: job_fingerprint_def)
  note run = handler_replays [OF this, simplified]
  show ?thesis
    unfolding open_job_endpoint_def Let_def job_fingerprint_def [symmetric] run using codec by (simp add: replay_create_def)
qed


section \<open>Concrete requests\<close>

definition job_body :: create_job_request where
  "job_body = \<lparr>jr_capability = ''openai:chat-completions'', jr_offering = ''gpt-oss-20b'', jr_transport = unary,
     jr_estimated_units = 4, jr_max_total_units = Some 10, jr_route_binding = None,
     jr_workload_request_digest = hex [9], jr_caller_public_key = hex [8]\<rparr>"

text \<open>A codec that remembers one response.\<close>

definition remembers :: "(error + 'r) \<Rightarrow> 'r codec" where
  "remembers x = \<lparr>co_dump = (\<lambda>_. [(''stored'', JBool True)]), co_load = (\<lambda>_. x)\<rparr>"

lemma bind_result: "bind_op (of_result (Inr x)) f = f x"
  by (simp add: fun_eq_iff)

lemma job_body_simps [simp]:
  "jr_capability job_body = ''openai:chat-completions''" "jr_offering job_body = ''gpt-oss-20b''" "jr_transport job_body = unary"
  "jr_estimated_units job_body = 4" "jr_max_total_units job_body = Some 10" "jr_route_binding job_body = None"
  "body_bytes (jr_workload_request_digest job_body) = Inr [9]" "body_bytes (jr_caller_public_key job_body) = Inr [8]"
  using fromhex_hex [of "[9]"] fromhex_hex [of "[8]"] by (simp_all add: job_body_def body_bytes_def del: hex_simps)





text \<open>A job on an account that holds enough: no funding is needed.\<close>

definition rich_account :: wholesale_account_observation where
  "rich_account = \<lparr>ob_payer = ''0x'' @ hex (replicate 20 2), ob_payee = ''0x'' @ hex (replicate 20 17), ob_wholesale_account_id = ''loc'',
     ob_settlement_domain_id = demo_domain, ob_chain_id = 1, ob_denomination = ''wei'', ob_credited_value_wei = 100,
     ob_reserved_value_wei = 0, ob_debited_value_wei = 0, ob_available_value_wei = 100, ob_version = 1, ob_observed_at = 4\<rparr>"

definition rich_world :: request_world where
  "rich_world = example_world\<lparr>qw_replenish := (qw_replenish example_world)\<lparr>rw_account := Inr rich_account\<rparr>,
     qw_account_ready := Inr rich_account\<rparr>"

definition open_budget :: wholesale_exposure_budget where
  "open_budget = \<lparr>eb_scope = ''global'', eb_projected_available_wei = 0\<rparr>"

lemma rich_funding:
  "\<exists>plan s. catch_op (fund_job_account rich_world job_route (''0x'' @ hex (replicate 20 2)) ''r1'' ''new'' 15 5 example_settings)
      (\<lambda>e. raise (policy_unverified e)) (synced (job_granted [open_budget] rs)) = (Inr plan, s)"
proof -
  define db where "db = job_granted [open_budget] rs"
  have db: "accounts db = []" "fundings db = []" "budgets db = [open_budget]"
    by (simp_all add: db_def job_granted_def job_held_def job_funded_def example_funded_eval example_empty_def)
  define limits where "limits = (ss_funding_limits example_settings)"
  have lim: "target_fits_hard_limits (ss_funding_limits example_settings) = Inr limits" "admission_funding_limits limits 15 = Inr limits"
    by (simp_all add: target_fits_hard_limits_def admission_funding_limits_def limits_def example_settings_def)
  have world: "rw_account (qw_replenish rich_world) = Inr rich_account" "qw_account_ready rich_world = Inr rich_account"
    by (simp_all add: rich_world_def)
  have domain: "demo_domain \<noteq> []" by (simp add: demo_domain_def)
  define plan where "plan = \<lparr>wp_target_available_wei = 100, wp_observed_available_wei = 100, wp_shortfall_wei = 0,
    wp_projected_payee_available_wei = 100, wp_projected_aggregate_available_wei = 100\<rparr>"
  have plan: "plan_account_shortfall rich_account 100 (Some 100) limits = Inr plan"
    by (simp add: plan_account_shortfall_def rich_account_def limits_def example_settings_def plan_def)
  have obs: "on_db (plan_observed_account_shortfall rich_account demo_domain limits) (synced db) = (Inr plan, synced db)"
    using domain plan
    by (simp add: on_db_def plan_observed_account_shortfall_def require_settlement_domain_id_def require_observation_domain_def
        global_budget_def open_budget_def db Let_def load_active_accounts_def matching_payee_accounts_def find_account_def
        total_available_def pending_account_funding_def rich_account_def bind_op_def op_run)
  have claim: "\<exists>s. claim_account_funding True aid job_route rich_account demo_domain plan limits mid cid pv (synced db) = (Inr None, s)" for aid mid cid pv
    using domain plan
    by (simp add: claim_account_funding_def require_settlement_domain_id_def require_observation_domain_def find_funding_def
        global_budget_def open_budget_def db Let_def load_active_accounts_def matching_payee_accounts_def find_account_def
        total_available_def pending_account_funding_def rich_account_def op_run synchronized_exposure_def
        store_observation_def bind_assoc plan_def)
  obtain s where c: "claim_account_funding True (rw_new_account_id (qw_replenish rich_world)) job_route rich_account demo_domain plan limits
      ''loc-account:r1'' (Some ''new'') WHOLESALE_ACCOUNT_PROTOCOL_VERSION (synced db) = (Inr None, s)" using claim by blast
  have ready: "verify_admission_funding_readiness (Inr rich_account) job_route (''0x'' @ hex (replicate 20 2)) (ss_chain_id example_settings)
      (ss_wholesale_account_id example_settings) 15 = Inr ()"
    by (simp add: verify_admission_funding_readiness_def rich_account_def example_settings_def del: hex_simps)
  have "fund_job_account rich_world job_route (''0x'' @ hex (replicate 20 2)) ''r1'' ''new'' 15 5 example_settings (synced db) = (Inr plan, s)"
    using ready
    by (simp add: fund_job_account_def world lim example_domain bind_eq_Inr [of "on_db _", OF obs] Let_def
        bind_eq_Inr [of "claim_account_funding _ _ _ _ _ _ _ _ _ _", OF c] complete_account_funding_def del: hex_simps)
       (simp add: ret_def)
  then show ?thesis unfolding db_def by (simp add: catch_op_def del: hex_simps)
qed

definition rich_row :: payment_idempotency_key where
  "rich_row = request_row ''u1'' ''k1'' ''jobs.create'' ''i1'' (job_fingerprint (\<lambda>_. ''h'') job_body) ''r1'' 30000005"

definition rich_first :: "create_job_response codec \<Rightarrow> (clearing_db txn, create_job_response) op" where
  "rich_first codec = open_job_endpoint None None id (\<lambda>_. ''h'') codec (Some rich_world) job_sign (Some job_route) [] ''new'' ''r1'' ''f''
     ''u1'' ''k1'' job_body ''i1'' None 5 example_settings 30 60"

lemma rich_run: "\<exists>r. \<forall>codec. \<exists>db'. session_scope (rich_first codec) (job_funded [open_budget] []) = (Inr r, db')"
proof -
  let ?db = "job_funded [open_budget] []" and ?db1 = "job_funded [open_budget] [rich_row]"
  have fresh: "get_create_request ?db (''u1'', ''jobs.create'', ''i1'') = None"
    by (simp add: get_create_request_def job_funded_def)
  have claim: "claim_create_request None ''r1'' ''u1'' ''k1'' ''jobs.create'' ''i1'' (job_fingerprint (\<lambda>_. ''h'') job_body) 5 30 (synced ?db) =
      (Inr (leased ''r1'' 30000005), synced ?db1)"
    using claim_first [OF fresh, of "''r1''" "''k1''" "job_fingerprint (\<lambda>_. ''h'') job_body" 5 30]
    by (simp add: rich_row_def job_funded_def)
  let ?service = "open_job None (Some rich_world) job_sign (Some job_route) [] ''new'' ''f'' ''u1'' ''k1''
     ''openai:chat-completions'' ''gpt-oss-20b'' 4 (Some 10) None 5 example_settings unary None (Some ''r1'') [9] [8]"
  obtain plan s where fund: "catch_op (fund_job_account rich_world job_route (''0x'' @ hex (replicate 20 2)) ''r1'' ''new'' 15 5 example_settings)
      (\<lambda>e. raise (policy_unverified e)) (synced (job_granted [open_budget] [rich_row])) = (Inr plan, s)"
    using rich_funding by blast
  obtain r where run: "?service (synced ?db1) = (Inr r, s)" using job_until_funding [OF fund, of "''f''"] by auto
  have "create_requests (working s) = create_requests ?db1"
    by (rule service_requests(2) [where m = ?service and r = "Inr r" and x = r]) (intro beyond.open_job_request, simp, simp_all add: run)
  then have stored: "get_create_request (working s) (''u1'', ''jobs.create'', ''i1'') = Some rich_row"
    by (simp add: get_create_request_def job_funded_def rich_row_def request_row_def request_key_def)
  have catch: "catch_op ?service h (synced ?db1) = (Inr r, s)" for h using run by (simp add: catch_op_def)
  have "\<exists>db'. session_scope (rich_first codec) ?db = (Inr r, db')" for codec
    unfolding rich_first_def open_job_endpoint_def Let_def job_fingerprint_def [symmetric] session_scope_def
      bind_eq_Inr [of "claim_create_request _ _ _ _ _ _ _ _ _", OF claim]
    by (simp add: claimed_request_def is_replay_def leased_def bind_result bind_eq_Inr [of "catch_op _ _", OF catch]
        bind_eq_Inr [of "complete_create_request _ _ _ _ _ _ _ _", OF answer_run(1) [OF stored]])
       (simp add: ret_def)
  then show ?thesis by blast
qed

theorem job_creation_idempotent_witness:
  "\<exists>r db'. session_scope (rich_first (remembers (Inr r))) (job_funded [open_budget] []) = (Inr r, db') \<and>
    session_scope (open_job_endpoint None None id (\<lambda>_. ''h'') (remembers (Inr r)) None job_sign None [] ''new2'' ''r2'' ''f'' ''u1'' ''k1''
      job_body ''i1'' None 9 example_settings 30 60) db' = (Inr r, db')"
proof -
  obtain r db' where run: "session_scope (rich_first (remembers (Inr r))) (job_funded [open_budget] []) = (Inr r, db')"
    using rich_run by blast
  have fresh: "get_create_request (job_funded [open_budget] []) (''u1'', ''jobs.create'', ''i1'') = None"
    by (simp add: get_create_request_def job_funded_def)
  have codec: "co_load (remembers (Inr r)) (co_dump (remembers (Inr r)) r) = Inr r" by (simp add: remembers_def)
  from job_creation_idempotent [OF codec fresh run [unfolded rich_first_def] refl, of None None job_sign None "[]"
      "''new2''" "''r2''" "''f''" "''k1''" job_body None 9 example_settings 30 60] run
  show ?thesis by auto
qed

end
