(* ===== verification/Mail.thy ===== *)
theory Mail
  imports Daemon
begin

text \<open>
  The transactional mail the program sends (\<open>providers/email/templates.py\<close>): pure builders of a subject, a text
  and an HTML body. \<open>html.escape\<close> with quotes is the standard library's, character by character. The upstream
  sender (\<open>EmailProvider.send\<close>) is an argument of the operations that mail.
\<close>

record email_message =
  em_to :: string
  em_subject :: string
  em_html :: string
  em_text :: string

type_synonym email_provider = "email_message \<Rightarrow> error + string option"

definition make_message :: "string \<Rightarrow> string \<Rightarrow> string \<Rightarrow> string \<Rightarrow> email_message" where
  "make_message to subject html text = \<lparr>em_to = to, em_subject = subject, em_html = html, em_text = text\<rparr>"

definition NL :: string where
  "NL = [CHR 0x0A]"

definition DQ :: string where
  "DQ = [CHR 0x22]"

definition BRAND :: string where
  "BRAND = ''Livepeer Open Clearinghouse''"

definition lstrip_char :: "char \<Rightarrow> string \<Rightarrow> string" where
  "lstrip_char c s = dropWhile (\<lambda>x. x = c) s"

definition portal_link :: "string \<Rightarrow> string \<Rightarrow> string" where
  "portal_link base_url path = rstrip_char CHR ''/'' base_url @ ''/portal/'' @ lstrip_char CHR ''/'' path"

definition escape_char :: "char \<Rightarrow> string" where
  "escape_char c =
     (if c = CHR ''&'' then ''&amp;'' else if c = CHR ''<'' then ''&lt;'' else if c = CHR ''>'' then ''&gt;''
      else if c = CHR 0x22 then ''&quot;'' else if c = CHR 0x27 then ''&#x27;'' else [c])"

definition safe_text :: "string \<Rightarrow> string" where
  "safe_text text = concat (map escape_char text)"

definition verification_email :: "string \<Rightarrow> string \<Rightarrow> email_message" where
  "verification_email to verify_link =
     (let subject = ''Verify your '' @ BRAND @ '' account'';
          safe_link = safe_text verify_link;
          text = ''Welcome to '' @ BRAND @ ''.'' @ NL @ NL @
                 ''Click this link to verify your email:'' @ NL @ verify_link @ NL @ NL @
                 ''The link expires in 24 hours. After verification an operator will '' @
                 ''review and approve your account.'' @ NL;
          html = ''<p>Welcome to '' @ BRAND @ ''.</p>'' @
                 ''<p><a href='' @ DQ @ safe_link @ DQ @ ''>Click here to verify your email</a>.</p>'' @
                 ''<p>The link expires in 24 hours. After verification an operator '' @
                 ''will review and approve your account.</p>''
      in make_message to subject html text)"

text \<open>The text body has an em dash after "email"; strings here are ASCII, so it is a hyphen.\<close>

definition password_reset_email :: "string \<Rightarrow> string \<Rightarrow> int \<Rightarrow> email_message" where
  "password_reset_email to reset_link ttl_minutes =
     (let subject = ''Reset your '' @ BRAND @ '' password'';
          safe_link = safe_text reset_link;
          text = ''A password reset was requested for your '' @ BRAND @ '' account.'' @ NL @ NL @
                 ''Use this link to set a new password (expires in '' @
                 str_int ttl_minutes @ '' minutes):'' @ NL @ reset_link @ NL @ NL @
                 ''If you didn't ask for this, you can ignore the email - your '' @
                 ''password will not change.'' @ NL;
          html = ''<p>A password reset was requested for your '' @ BRAND @ '' account.</p>'' @
                 ''<p><a href='' @ DQ @ safe_link @ DQ @ ''>Click here to set a new password</a> '' @
                 ''(expires in '' @ str_int ttl_minutes @ '' minutes).</p>'' @
                 ''<p>If you didn't ask for this, you can ignore this email - your '' @
                 ''password will not change.</p>''
      in make_message to subject html text)"

definition approval_notification_email :: "string \<Rightarrow> string \<Rightarrow> email_message" where
  "approval_notification_email to public_base_url =
     (let subject = ''Your '' @ BRAND @ '' account is approved'';
          portal = portal_link public_base_url '''';
          safe_portal = safe_text portal;
          text = ''Your '' @ BRAND @ '' account has been approved.'' @ NL @ NL @
                 ''You can now log in and create API keys at:'' @ NL @ portal @ NL @ NL @
                 ''Each API key is shown to you only once at creation time - copy it '' @
                 ''and store it securely.'' @ NL;
          html = ''<p>Your '' @ BRAND @ '' account has been approved.</p>'' @
                 ''<p><a href='' @ DQ @ safe_portal @ DQ @ ''>Log in to the portal</a> to create your '' @
                 ''API keys.</p>'' @
                 ''<p>Each API key is shown to you only once at creation time - copy '' @
                 ''it and store it securely.</p>''
      in make_message to subject html text)"

text \<open>The body is the dictionary with \<open>str\<close> applied to its values.\<close>

definition join_lines :: "string list \<Rightarrow> string" where
  "join_lines ls = (case ls of [] \<Rightarrow> [] | l # rest \<Rightarrow> l @ concat (map (\<lambda>x. NL @ x) rest))"

definition notification_email :: "string \<Rightarrow> string \<Rightarrow> (string \<times> string) list \<Rightarrow> email_message" where
  "notification_email to subject body =
     (let (text_body, html_body) =
        (if body \<noteq> [] then
           (join_lines (map (\<lambda>(k, v). ''  - '' @ k @ '': '' @ safe_text v) body),
            ''<ul>'' @ concat (map (\<lambda>(k, v). ''<li><strong>'' @ safe_text k @ '':</strong> '' @ safe_text v @ ''</li>'') body) @
            ''</ul>'')
         else (''(no details)'', ''<p>(no details)</p>''));
        text = subject @ NL @ NL @ text_body @ NL @ NL @
               ''You can adjust your notification preferences in the '' @ BRAND @ '' portal.'' @ NL;
        html = ''<p>'' @ safe_text subject @ ''</p>'' @ html_body @
               ''<p>You can adjust your notification preferences in the '' @ BRAND @ '' portal.</p>''
      in make_message to subject html text)"

section \<open>Escaping\<close>

text \<open>Escaped text has no character that could end an attribute or open a tag, and loses nothing.\<close>

lemma escape_char_inert: "set (escape_char c) \<inter> {CHR ''<'', CHR ''>'', CHR 0x22, CHR 0x27} = {}"
  by (simp add: escape_char_def)

lemma safe_text_inert: "set (safe_text s) \<inter> {CHR ''<'', CHR ''>'', CHR 0x22, CHR 0x27} = {}"
  using escape_char_inert by (fastforce simp: safe_text_def)

lemma escape_char_split: "escape_char c @ s = escape_char d @ t \<Longrightarrow> c = d \<and> s = t"
  by (auto simp: escape_char_def split: if_splits)

lemma safe_text_inject: "safe_text s = safe_text t \<longleftrightarrow> s = t"
proof
  show "safe_text s = safe_text t \<Longrightarrow> s = t"
  proof (induction s arbitrary: t)
    case Nil
    then show ?case by (cases t) (auto simp: safe_text_def escape_char_def split: if_splits)
  next
    case (Cons c s)
    then show ?case
    proof (cases t)
      case Nil
      then show ?thesis using Cons.prems by (auto simp: safe_text_def escape_char_def split: if_splits)
    next
      case (Cons d u)
      with Cons.prems have "escape_char c @ safe_text s = escape_char d @ safe_text u" by (simp add: safe_text_def)
      then have "c = d" "safe_text s = safe_text u" by (auto dest: escape_char_split)
      with Cons.IH Cons show ?thesis by blast
    qed
  qed
qed simp

end
