(* ===== verification/Accounts.thy ===== *)
theory Accounts
  imports Payments Mail
begin

text \<open>
  Customer accounts (\<open>domains/accounts\<close>), their API keys (\<open>domains/api_keys\<close>) and the dependencies that resolve
  the caller of a request (\<open>dependencies.py\<close>): signup, email verification, login, portal sessions, password reset,
  linked third-party identities, API keys.

  Random values are arguments: the primary keys of new rows and the raw tokens (\<open>secrets.token_urlsafe\<close>). So are
  \<open>sha256\<close> (the hex digest of a text), the argon2 hasher (\<open>pw_hash\<close> with the salt of the call, \<open>pw_verify\<close>), the
  mail provider and the cookie signer (\<open>unseal\<close>). A row added without a flush is checked against the unique
  columns when it is added; the request fails in either case.
\<close>

section \<open>Rows\<close>

record user =
  us_id :: uuid
  us_email :: string
  us_email_verified_at :: "timestamp option"
  us_password_hash :: "string option"

record user_email_verification =
  uv_id :: uuid
  uv_user_id :: uuid
  uv_token_hash :: string
  uv_expires_at :: timestamp
  uv_consumed_at :: "timestamp option"

record user_password_reset =
  upr_id :: uuid
  upr_user_id :: uuid
  upr_token_hash :: string
  upr_expires_at :: timestamp
  upr_consumed_at :: "timestamp option"

record user_oauth_identity =
  oi_user_id :: uuid
  oi_provider :: string
  oi_provider_user_id :: string
  oi_email_at_link :: string

record user_session =
  ws_user_id :: uuid
  ws_token_hash :: string
  ws_expires_at :: timestamp
  ws_revoked_at :: "timestamp option"

record operator_approval =
  ap_user_id :: uuid
  ap_operator_id :: uuid
  ap_approved_at :: timestamp
  ap_revoked_at :: "timestamp option"
  ap_revocation_reason :: "string option"

record api_key =
  ak_id :: uuid
  ak_user_id :: uuid
  ak_prefix :: string
  ak_hash :: string
  ak_label :: string
  ak_last_used_at :: "timestamp option"
  ak_revoked_at :: "timestamp option"
  ak_created_at :: timestamp

record email_send =
  es_id :: uuid
  es_user_id :: "uuid option"
  es_to_address :: string
  es_subject :: string
  es_provider_message_id :: "string option"
  es_status :: string
  es_sent_at :: timestamp

record office_db = clearing_db +
  users :: "user list"
  verifications :: "user_email_verification list"
  resets :: "user_password_reset list"
  identities :: "user_oauth_identity list"
  web_sessions :: "user_session list"
  approvals :: "operator_approval list"
  api_keys :: "api_key list"
  email_sends :: "email_send list"

definition EMAIL_VERIFICATION_TTL :: timestamp where
  "EMAIL_VERIFICATION_TTL = seconds (24 * 60 * 60)"

definition PASSWORD_RESET_TTL :: timestamp where
  "PASSWORD_RESET_TTL = seconds (60 * 60)"

definition SESSION_TTL :: timestamp where
  "SESSION_TTL = seconds (14 * 24 * 60 * 60)"

text \<open>A new row and the database's check of its unique columns and of its reference to a user.\<close>

definition insert_row :: "('s \<Rightarrow> bool) \<Rightarrow> ('s \<Rightarrow> 's) \<Rightarrow> ('s, unit) op" where
  "insert_row free add = bind_op (gets free) (\<lambda>ok. bind_op (require ok IntegrityError) (\<lambda>_. modify add))"

definition get_user :: "('z office_db_scheme) \<Rightarrow> uuid \<Rightarrow> user option" where
  "get_user db user_id = find (\<lambda>u. us_id u = user_id) (users db)"

definition user_by_email :: "('z office_db_scheme) \<Rightarrow> string \<Rightarrow> user option" where
  "user_by_email db email = find (\<lambda>u. us_email u = email) (users db)"

definition set_user :: "uuid \<Rightarrow> (user \<Rightarrow> user) \<Rightarrow> 'z office_db_scheme \<Rightarrow> 'z office_db_scheme" where
  "set_user user_id f db = db\<lparr>users := update_where (\<lambda>u. us_id u = user_id) f (users db)\<rparr>"

definition insert_user :: "user \<Rightarrow> ('z office_db_scheme, unit) op" where
  "insert_user u =
     insert_row (\<lambda>db. us_id u \<notin> us_id ` set (users db) \<and> us_email u \<notin> us_email ` set (users db))
       (\<lambda>db. db\<lparr>users := users db @ [u]\<rparr>)"

section \<open>Outbound mail\<close>

text \<open>
  The only unique column is the generated key, so the insert of a send does not fail; the branch that logs a
  failed insert is not reached.
\<close>

definition record_email_send ::
  "uuid \<Rightarrow> string \<Rightarrow> string \<Rightarrow> string option \<Rightarrow> uuid option \<Rightarrow> timestamp \<Rightarrow>
   ('z office_db_scheme, email_send option) op" where
  "record_email_send send_id to subject provider_message_id user_id now =
     (let row = \<lparr>es_id = send_id, es_user_id = user_id, es_to_address = to, es_subject = subject,
                 es_provider_message_id = provider_message_id, es_status = ''sent'', es_sent_at = now\<rparr>
      in bind_op (modify (\<lambda>db. db\<lparr>email_sends := email_sends db @ [row]\<rparr>)) (\<lambda>_. ret (Some row)))"

definition send_and_record ::
  "email_provider \<Rightarrow> uuid \<Rightarrow> email_message \<Rightarrow> uuid \<Rightarrow> timestamp \<Rightarrow> ('z office_db_scheme, unit) op" where
  "send_and_record send send_id message user_id now =
     bind_op (of_result (send message)) (\<lambda>provider_message_id.
     bind_op (record_email_send send_id (em_to message) (em_subject message) provider_message_id (Some user_id) now)
       (\<lambda>_. ret ()))"

section \<open>Signup and email verification\<close>

definition send_verification_email ::
  "(string \<Rightarrow> string) \<Rightarrow> email_provider \<Rightarrow> string \<Rightarrow> uuid \<Rightarrow> uuid \<Rightarrow> string \<Rightarrow> user \<Rightarrow> timestamp \<Rightarrow>
   ('z office_db_scheme, unit) op" where
  "send_verification_email sha256 send public_base_url row_id send_id raw_token user now =
     (let row = \<lparr>uv_id = row_id, uv_user_id = us_id user, uv_token_hash = sha256 raw_token,
                 uv_expires_at = now + EMAIL_VERIFICATION_TTL, uv_consumed_at = None\<rparr>;
          verify_link = rstrip_char CHR ''/'' public_base_url @ ''/portal/#/verify-email?token='' @ raw_token
      in bind_op (insert_row (\<lambda>db. row_id \<notin> uv_id ` set (verifications db))
                    (\<lambda>db. db\<lparr>verifications := verifications db @ [row]\<rparr>)) (\<lambda>_.
         send_and_record send send_id (verification_email (us_email user) verify_link) (us_id user) now))"

definition signup ::
  "(string \<Rightarrow> string) \<Rightarrow> (string \<Rightarrow> string) \<Rightarrow> email_provider \<Rightarrow> string \<Rightarrow> uuid \<Rightarrow> uuid \<Rightarrow> uuid \<Rightarrow> string \<Rightarrow>
   string \<Rightarrow> string \<Rightarrow> timestamp \<Rightarrow> ('z office_db_scheme, user) op" where
  "signup sha256 pw_hash send public_base_url user_id row_id send_id raw_token email password now =
     bind_op (gets (\<lambda>db. user_by_email db email)) (\<lambda>existing.
     bind_op (require (existing = None) EmailAlreadyRegistered) (\<lambda>_.
     let user = \<lparr>us_id = user_id, us_email = email, us_email_verified_at = None,
                 us_password_hash = Some (pw_hash password)\<rparr>
     in bind_op (insert_user user) (\<lambda>_.
        bind_op (send_verification_email sha256 send public_base_url row_id send_id raw_token user now) (\<lambda>_.
        ret user))))"

definition find_verification :: "('z office_db_scheme) \<Rightarrow> string \<Rightarrow> user_email_verification option" where
  "find_verification db token_hash =
     find (\<lambda>v. uv_token_hash v = token_hash \<and> uv_consumed_at v = None) (verifications db)"

definition verify_email ::
  "(string \<Rightarrow> string) \<Rightarrow> string \<Rightarrow> timestamp \<Rightarrow> ('z office_db_scheme, user) op" where
  "verify_email sha256 token now =
     bind_op (gets (\<lambda>db. find_verification db (sha256 token))) (\<lambda>found.
     case found of
       None \<Rightarrow> raise InvalidToken
     | Some v \<Rightarrow>
         if uv_expires_at v < now then raise InvalidToken
         else
           bind_op (modify (\<lambda>db. db\<lparr>verifications :=
             update_where (\<lambda>r. uv_id r = uv_id v) (\<lambda>r. r\<lparr>uv_consumed_at := Some now\<rparr>) (verifications db)\<rparr>)) (\<lambda>_.
           bind_op (gets (\<lambda>db. get_user db (uv_user_id v))) (\<lambda>user.
           case user of
             None \<Rightarrow> raise InvalidToken
           | Some u \<Rightarrow>
               bind_op (modify (set_user (us_id u) (\<lambda>w. w\<lparr>us_email_verified_at := Some now\<rparr>))) (\<lambda>_.
               ret (u\<lparr>us_email_verified_at := Some now\<rparr>)))))"

section \<open>Login and sessions\<close>

definition add_web_session ::
  "(string \<Rightarrow> string) \<Rightarrow> uuid \<Rightarrow> string \<Rightarrow> timestamp \<Rightarrow> ('z office_db_scheme, unit) op" where
  "add_web_session sha256 user_id raw_token now =
     (let ws = \<lparr>ws_user_id = user_id, ws_token_hash = sha256 raw_token, ws_expires_at = now + SESSION_TTL,
                ws_revoked_at = None\<rparr>
      in insert_row (\<lambda>db. ws_token_hash ws \<notin> ws_token_hash ` set (web_sessions db))
           (\<lambda>db. db\<lparr>web_sessions := web_sessions db @ [ws]\<rparr>))"

definition login ::
  "(string \<Rightarrow> string) \<Rightarrow> (string \<Rightarrow> string \<Rightarrow> bool) \<Rightarrow> string \<Rightarrow> string \<Rightarrow> string \<Rightarrow> timestamp \<Rightarrow>
   ('z office_db_scheme, user \<times> string) op" where
  "login sha256 pw_verify raw_token email password now =
     bind_op (gets (\<lambda>db. user_by_email db email)) (\<lambda>found.
     case found of
       None \<Rightarrow> raise InvalidCredentials
     | Some user \<Rightarrow>
        (case us_password_hash user of
           None \<Rightarrow> raise InvalidCredentials
         | Some stored \<Rightarrow>
             bind_op (require (pw_verify password stored) InvalidCredentials) (\<lambda>_.
             bind_op (require (us_email_verified_at user \<noteq> None) EmailNotVerified) (\<lambda>_.
             bind_op (add_web_session sha256 (us_id user) raw_token now) (\<lambda>_.
             ret (user, raw_token))))))"

definition find_web_session :: "('z office_db_scheme) \<Rightarrow> string \<Rightarrow> user_session option" where
  "find_web_session db token_hash = find (\<lambda>w. ws_token_hash w = token_hash) (web_sessions db)"

definition resolve_session ::
  "(string \<Rightarrow> string) \<Rightarrow> string \<Rightarrow> timestamp \<Rightarrow> 'z office_db_scheme \<Rightarrow> user option" where
  "resolve_session sha256 raw_token now db =
     (case find_web_session db (sha256 raw_token) of
        None \<Rightarrow> None
      | Some ws \<Rightarrow>
          if ws_revoked_at ws \<noteq> None \<or> ws_expires_at ws < now then None
          else get_user db (ws_user_id ws))"

definition revoke_session :: "(string \<Rightarrow> string) \<Rightarrow> string \<Rightarrow> timestamp \<Rightarrow> ('z office_db_scheme, unit) op" where
  "revoke_session sha256 raw_token now =
     bind_op (gets (\<lambda>db. find_web_session db (sha256 raw_token))) (\<lambda>found.
     case found of
       None \<Rightarrow> ret ()
     | Some ws \<Rightarrow>
         if ws_revoked_at ws \<noteq> None then ret ()
         else modify (\<lambda>db. db\<lparr>web_sessions :=
           update_where (\<lambda>w. ws_token_hash w = ws_token_hash ws) (\<lambda>w. w\<lparr>ws_revoked_at := Some now\<rparr>)
             (web_sessions db)\<rparr>))"

definition active_approval :: "('z office_db_scheme) \<Rightarrow> uuid \<Rightarrow> operator_approval option" where
  "active_approval db user_id = find (\<lambda>a. ap_user_id a = user_id \<and> ap_revoked_at a = None) (approvals db)"

definition is_approved :: "('z office_db_scheme) \<Rightarrow> uuid \<Rightarrow> bool" where
  "is_approved db user_id \<longleftrightarrow> active_approval db user_id \<noteq> None"

section \<open>Resending the verification\<close>

definition request_resend_verification ::
  "(string \<Rightarrow> string) \<Rightarrow> email_provider \<Rightarrow> string \<Rightarrow> uuid \<Rightarrow> uuid \<Rightarrow> string \<Rightarrow> string \<Rightarrow> timestamp \<Rightarrow>
   ('z office_db_scheme, unit) op" where
  "request_resend_verification sha256 send public_base_url row_id send_id raw_token email now =
     bind_op (gets (\<lambda>db. user_by_email db email)) (\<lambda>found.
     case found of
       None \<Rightarrow> ret ()
     | Some user \<Rightarrow>
         if us_email_verified_at user \<noteq> None then ret ()
         else if us_password_hash user = None then ret ()
         else send_verification_email sha256 send public_base_url row_id send_id raw_token user now)"

section \<open>Password reset\<close>

definition request_password_reset ::
  "(string \<Rightarrow> string) \<Rightarrow> email_provider \<Rightarrow> string \<Rightarrow> uuid \<Rightarrow> uuid \<Rightarrow> string \<Rightarrow> string \<Rightarrow> timestamp \<Rightarrow>
   ('z office_db_scheme, unit) op" where
  "request_password_reset sha256 send public_base_url row_id send_id raw_token email now =
     bind_op (gets (\<lambda>db. user_by_email db email)) (\<lambda>found.
     case found of
       None \<Rightarrow> ret ()
     | Some user \<Rightarrow>
         if us_password_hash user = None then ret ()
         else
           let row = \<lparr>upr_id = row_id, upr_user_id = us_id user, upr_token_hash = sha256 raw_token,
                      upr_expires_at = now + PASSWORD_RESET_TTL, upr_consumed_at = None\<rparr>;
               reset_link = rstrip_char CHR ''/'' public_base_url @ ''/portal/#/reset-password?token='' @ raw_token
           in bind_op (insert_row (\<lambda>db. row_id \<notin> upr_id ` set (resets db))
                         (\<lambda>db. db\<lparr>resets := resets db @ [row]\<rparr>)) (\<lambda>_.
              send_and_record send send_id
                (password_reset_email (us_email user) reset_link (PASSWORD_RESET_TTL div seconds 60))
                (us_id user) now))"

definition find_reset :: "('z office_db_scheme) \<Rightarrow> string \<Rightarrow> user_password_reset option" where
  "find_reset db token_hash = find (\<lambda>v. upr_token_hash v = token_hash \<and> upr_consumed_at v = None) (resets db)"

definition revoke_all_sessions :: "uuid \<Rightarrow> timestamp \<Rightarrow> 'z office_db_scheme \<Rightarrow> 'z office_db_scheme" where
  "revoke_all_sessions user_id now db = db\<lparr>web_sessions :=
     update_where (\<lambda>w. ws_user_id w = user_id \<and> ws_revoked_at w = None) (\<lambda>w. w\<lparr>ws_revoked_at := Some now\<rparr>)
       (web_sessions db)\<rparr>"

definition reset_password ::
  "(string \<Rightarrow> string) \<Rightarrow> (string \<Rightarrow> string) \<Rightarrow> string \<Rightarrow> string \<Rightarrow> timestamp \<Rightarrow> ('z office_db_scheme, user) op" where
  "reset_password sha256 pw_hash token new_password now =
     bind_op (gets (\<lambda>db. find_reset db (sha256 token))) (\<lambda>found.
     case found of
       None \<Rightarrow> raise InvalidToken
     | Some r \<Rightarrow>
         if upr_expires_at r < now then raise InvalidToken
         else
           bind_op (modify (\<lambda>db. db\<lparr>resets :=
             update_where (\<lambda>q. upr_id q = upr_id r) (\<lambda>q. q\<lparr>upr_consumed_at := Some now\<rparr>) (resets db)\<rparr>)) (\<lambda>_.
           bind_op (gets (\<lambda>db. get_user db (upr_user_id r))) (\<lambda>user.
           case user of
             None \<Rightarrow> raise InvalidToken
           | Some u \<Rightarrow>
               bind_op (modify (set_user (us_id u) (\<lambda>w. w\<lparr>us_password_hash := Some (pw_hash new_password)\<rparr>))) (\<lambda>_.
               bind_op (modify (revoke_all_sessions (us_id u) now)) (\<lambda>_.
               ret (u\<lparr>us_password_hash := Some (pw_hash new_password)\<rparr>))))))"

section \<open>Third-party identities\<close>

definition insert_identity :: "user_oauth_identity \<Rightarrow> ('z office_db_scheme, unit) op" where
  "insert_identity i =
     insert_row (\<lambda>db. (oi_provider i, oi_provider_user_id i) \<notin>
         (\<lambda>j. (oi_provider j, oi_provider_user_id j)) ` set (identities db))
       (\<lambda>db. db\<lparr>identities := identities db @ [i]\<rparr>)"

definition linked_user :: "string \<Rightarrow> string \<Rightarrow> 'z office_db_scheme \<Rightarrow> user option" where
  "linked_user provider provider_user_id db =
     (case find (\<lambda>i. oi_provider i = provider \<and> oi_provider_user_id i = provider_user_id) (identities db) of
        None \<Rightarrow> None
      | Some i \<Rightarrow> get_user db (oi_user_id i))"

definition mark_verified :: "timestamp \<Rightarrow> user \<Rightarrow> user" where
  "mark_verified now u = (if us_email_verified_at u = None then u\<lparr>us_email_verified_at := Some now\<rparr> else u)"

definition find_or_link_user ::
  "uuid \<Rightarrow> string \<Rightarrow> string \<Rightarrow> string \<Rightarrow> bool \<Rightarrow> timestamp \<Rightarrow> ('z office_db_scheme, user) op" where
  "find_or_link_user user_id provider provider_user_id email email_verified now =
     (if \<not> email_verified then raise UnverifiedProviderEmail
      else
        bind_op (gets (linked_user provider provider_user_id)) (\<lambda>linked.
        case linked of
          Some user \<Rightarrow> ret user
        | None \<Rightarrow>
            bind_op (gets (\<lambda>db. user_by_email db email)) (\<lambda>existing.
            case existing of
              Some u \<Rightarrow>
                bind_op (modify (set_user (us_id u) (mark_verified now))) (\<lambda>_.
                bind_op (insert_identity \<lparr>oi_user_id = us_id u, oi_provider = provider,
                  oi_provider_user_id = provider_user_id, oi_email_at_link = email\<rparr>) (\<lambda>_.
                ret (mark_verified now u)))
            | None \<Rightarrow>
                let user = \<lparr>us_id = user_id, us_email = email, us_email_verified_at = Some now,
                            us_password_hash = None\<rparr>
                in bind_op (insert_user user) (\<lambda>_.
                   bind_op (insert_identity \<lparr>oi_user_id = user_id, oi_provider = provider,
                     oi_provider_user_id = provider_user_id, oi_email_at_link = email\<rparr>) (\<lambda>_.
                   ret user)))))"

text \<open>The callback after the provider's exchange: the profile it attests to is an argument.\<close>

definition oauth_callback ::
  "(string \<Rightarrow> string) \<Rightarrow> (string \<Rightarrow> string) \<Rightarrow> uuid \<Rightarrow> string \<Rightarrow> string \<Rightarrow> string \<times> string \<times> bool \<Rightarrow> timestamp \<Rightarrow>
   ('z office_db_scheme, string) op" where
  "oauth_callback sha256 seal user_id raw_token provider profile now =
     (case profile of (provider_user_id, email, email_verified) \<Rightarrow>
        bind_op (catch_op (find_or_link_user user_id provider provider_user_id email email_verified now)
            (\<lambda>e. raise (case e of UnverifiedProviderEmail \<Rightarrow> HTTPException 400 ''oauth_email_unverified'' | _ \<Rightarrow> e))) (\<lambda>user.
        bind_op (add_web_session sha256 (us_id user) raw_token now) (\<lambda>_.
        ret (seal raw_token))))"

section \<open>API keys\<close>

definition KEY_BRAND :: string where
  "KEY_BRAND = ''pymth_live_''"

definition KEY_RANDOM_LEN :: nat where
  "KEY_RANDOM_LEN = 32"

definition KEY_PREFIX_LEN :: nat where
  "KEY_PREFIX_LEN = length KEY_BRAND + 8"

definition generate_key :: "string \<Rightarrow> string" where
  "generate_key random = KEY_BRAND @ take KEY_RANDOM_LEN random"

definition key_prefix :: "string \<Rightarrow> string" where
  "key_prefix raw_key = take KEY_PREFIX_LEN raw_key"

definition key_hash :: "(string \<Rightarrow> string) \<Rightarrow> string \<Rightarrow> string \<Rightarrow> string" where
  "key_hash sha256 raw_key pepper = sha256 (pepper @ raw_key)"

definition key_verify :: "(string \<Rightarrow> string) \<Rightarrow> string \<Rightarrow> string \<Rightarrow> string \<Rightarrow> bool" where
  "key_verify sha256 raw_key stored_hash pepper \<longleftrightarrow> key_hash sha256 raw_key pepper = stored_hash"

definition looks_well_formed :: "string \<Rightarrow> bool" where
  "looks_well_formed raw_key \<longleftrightarrow> take (length KEY_BRAND) raw_key = KEY_BRAND \<and> KEY_PREFIX_LEN \<le> length raw_key"

definition create_api_key ::
  "(string \<Rightarrow> string) \<Rightarrow> uuid \<Rightarrow> string \<Rightarrow> uuid \<Rightarrow> string \<Rightarrow> string \<Rightarrow> ('z office_db_scheme, api_key \<times> string) op" where
  "create_api_key sha256 key_id random user_id label pepper =
     bind_op (gets server_now) (\<lambda>created.
     let raw_key = generate_key random;
         row = \<lparr>ak_id = key_id, ak_user_id = user_id, ak_prefix = key_prefix raw_key,
                ak_hash = key_hash sha256 raw_key pepper, ak_label = label, ak_last_used_at = None,
                ak_revoked_at = None, ak_created_at = created\<rparr>
     in bind_op (insert_row (\<lambda>db. user_id \<in> us_id ` set (users db) \<and>
                     key_id \<notin> ak_id ` set (api_keys db) \<and> ak_prefix row \<notin> ak_prefix ` set (api_keys db))
                   (\<lambda>db. db\<lparr>api_keys := api_keys db @ [row]\<rparr>)) (\<lambda>_.
        ret (row, raw_key)))"

definition list_for_user :: "uuid \<Rightarrow> 'z office_db_scheme \<Rightarrow> api_key list" where
  "list_for_user user_id db =
     sort_key (\<lambda>k. - ak_created_at k) (filter (\<lambda>k. ak_user_id k = user_id) (api_keys db))"

definition revoke_api_key :: "uuid \<Rightarrow> uuid \<Rightarrow> timestamp \<Rightarrow> ('z office_db_scheme, api_key) op" where
  "revoke_api_key user_id api_key_id now =
     bind_op (gets (\<lambda>db. find (\<lambda>k. ak_id k = api_key_id \<and> ak_user_id k = user_id) (api_keys db))) (\<lambda>found.
     case found of
       None \<Rightarrow> raise ApiKeyNotFound
     | Some row \<Rightarrow>
         if ak_revoked_at row = None then
           bind_op (modify (\<lambda>db. db\<lparr>api_keys :=
             update_where (\<lambda>k. ak_id k = ak_id row) (\<lambda>k. k\<lparr>ak_revoked_at := Some now\<rparr>) (api_keys db)\<rparr>)) (\<lambda>_.
           ret (row\<lparr>ak_revoked_at := Some now\<rparr>))
         else ret row)"

definition validate_raw_key ::
  "(string \<Rightarrow> string) \<Rightarrow> string \<Rightarrow> string \<Rightarrow> timestamp \<Rightarrow> ('z office_db_scheme, (api_key \<times> user) option) op" where
  "validate_raw_key sha256 raw_key pepper now =
     (if \<not> looks_well_formed raw_key then ret None
      else
        bind_op (gets (\<lambda>db. find (\<lambda>k. ak_prefix k = key_prefix raw_key \<and> ak_revoked_at k = None) (api_keys db))) (\<lambda>found.
        case found of
          None \<Rightarrow> ret None
        | Some row \<Rightarrow>
            if \<not> key_verify sha256 raw_key (ak_hash row) pepper then ret None
            else
              bind_op (gets (\<lambda>db. get_user db (ak_user_id row))) (\<lambda>user.
              case user of
                None \<Rightarrow> ret None
              | Some u \<Rightarrow>
                  bind_op (modify (\<lambda>db. db\<lparr>api_keys :=
                    update_where (\<lambda>k. ak_id k = ak_id row) (\<lambda>k. k\<lparr>ak_last_used_at := Some now\<rparr>) (api_keys db)\<rparr>)) (\<lambda>_.
                  ret (Some (row\<lparr>ak_last_used_at := Some now\<rparr>, u))))))"

section \<open>Who is calling\<close>

text \<open>\<open>str.strip()\<close> of a header, a Latin-1 text.\<close>

definition is_str_space :: "char \<Rightarrow> bool" where
  "is_str_space c \<longleftrightarrow>
     (let n = (of_char c :: nat) in n = 32 \<or> 9 \<le> n \<and> n \<le> 13 \<or> 28 \<le> n \<and> n \<le> 31 \<or> n = 133 \<or> n = 160)"

definition str_strip :: "string \<Rightarrow> string" where
  "str_strip s = rev (dropWhile is_str_space (rev (dropWhile is_str_space s)))"

definition unauthorized :: "string \<Rightarrow> error" where
  "unauthorized detail = HTTPException 401 detail"

text \<open>\<open>partition(" ")\<close> of an \<open>Authorization\<close> header, and its token when the scheme is bearer.\<close>

definition bearer_token :: "string \<Rightarrow> string option" where
  "bearer_token authorization =
     (let scheme = takeWhile (\<lambda>c. c \<noteq> CHR '' '') authorization;
          token = drop 1 (dropWhile (\<lambda>c. c \<noteq> CHR '' '') authorization)
      in if lower scheme = ''bearer'' \<and> token \<noteq> [] then Some token else None)"

definition get_current_api_key_and_user ::
  "(string \<Rightarrow> string) \<Rightarrow> string \<Rightarrow> string option \<Rightarrow> string option \<Rightarrow> timestamp \<Rightarrow>
   ('z office_db_scheme, api_key \<times> user) op" where
  "get_current_api_key_and_user sha256 pepper x_api_key authorization now =
     (let raw = (case x_api_key of
            Some k \<Rightarrow> Some k
          | None \<Rightarrow> (case authorization of None \<Rightarrow> None | Some a \<Rightarrow> bearer_token a))
      in case raw of
           None \<Rightarrow> raise (unauthorized ''missing api key'')
         | Some key \<Rightarrow>
             if key = [] then raise (unauthorized ''missing api key'')
             else
               bind_op (validate_raw_key sha256 key pepper now) (\<lambda>result.
               case result of
                 None \<Rightarrow> raise (unauthorized ''invalid api key'')
               | Some pair \<Rightarrow> ret pair))"

definition get_session_user ::
  "(string \<Rightarrow> string) \<Rightarrow> (string \<Rightarrow> string option) \<Rightarrow> string option \<Rightarrow> timestamp \<Rightarrow> ('z office_db_scheme, user) op" where
  "get_session_user sha256 unseal cookie now =
     (case cookie of
        None \<Rightarrow> raise (unauthorized ''missing session'')
      | Some c \<Rightarrow>
         (case unseal c of
            None \<Rightarrow> raise (unauthorized ''invalid session'')
          | Some raw_token \<Rightarrow>
              bind_op (gets (resolve_session sha256 raw_token now)) (\<lambda>user.
              case user of
                None \<Rightarrow> raise (unauthorized ''invalid session'')
              | Some u \<Rightarrow> ret u)))"

definition get_authed_user ::
  "(string \<Rightarrow> string) \<Rightarrow> (string \<Rightarrow> string option) \<Rightarrow> string \<Rightarrow> string option \<Rightarrow> string option \<Rightarrow> timestamp \<Rightarrow>
   ('z office_db_scheme, user) op" where
  "get_authed_user sha256 unseal pepper cookie api_key now =
     (case api_key of
        Some key \<Rightarrow>
          if str_strip key \<noteq> [] then
            bind_op (validate_raw_key sha256 key pepper now) (\<lambda>pair.
            case pair of
              None \<Rightarrow> raise (unauthorized ''invalid api key'')
            | Some (_, user) \<Rightarrow> ret user)
          else if cookie = None then raise (unauthorized ''missing credentials'')
          else get_session_user sha256 unseal cookie now
      | None \<Rightarrow>
          if cookie = None then raise (unauthorized ''missing credentials'')
          else get_session_user sha256 unseal cookie now)"

section \<open>Handlers\<close>

definition account_failure :: "error \<Rightarrow> error" where
  "account_failure e =
     (case e of
        EmailAlreadyRegistered \<Rightarrow> HTTPException 409 ''email_already_registered''
      | InvalidToken \<Rightarrow> HTTPException 400 ''invalid_token''
      | InvalidCredentials \<Rightarrow> HTTPException 401 ''invalid_credentials''
      | EmailNotVerified \<Rightarrow> HTTPException 403 ''email_not_verified''
      | _ \<Rightarrow> e)"

definition with_approval :: "('z office_db_scheme, user) op \<Rightarrow> ('z office_db_scheme, user \<times> bool) op" where
  "with_approval m =
     bind_op (catch_op m (\<lambda>e. raise (account_failure e))) (\<lambda>user.
     bind_op (gets (\<lambda>db. is_approved db (us_id user))) (\<lambda>approved. ret (user, approved)))"

definition verify_email_endpoint ::
  "(string \<Rightarrow> string) \<Rightarrow> string \<Rightarrow> timestamp \<Rightarrow> ('z office_db_scheme, user \<times> bool) op" where
  "verify_email_endpoint sha256 token now = with_approval (verify_email sha256 token now)"

definition confirm_password_reset_endpoint ::
  "(string \<Rightarrow> string) \<Rightarrow> (string \<Rightarrow> string) \<Rightarrow> string \<Rightarrow> string \<Rightarrow> timestamp \<Rightarrow> ('z office_db_scheme, user \<times> bool) op" where
  "confirm_password_reset_endpoint sha256 pw_hash token new_password now =
     with_approval (reset_password sha256 pw_hash token new_password now)"

definition login_endpoint ::
  "(string \<Rightarrow> string) \<Rightarrow> (string \<Rightarrow> string \<Rightarrow> bool) \<Rightarrow> (string \<Rightarrow> string) \<Rightarrow> string \<Rightarrow> string \<Rightarrow> string \<Rightarrow> timestamp \<Rightarrow>
   ('z office_db_scheme, (user \<times> bool) \<times> string) op" where
  "login_endpoint sha256 pw_verify seal raw_token email password now =
     bind_op (catch_op (login sha256 pw_verify raw_token email password now) (\<lambda>e. raise (account_failure e))) (\<lambda>(user, raw).
     bind_op (gets (\<lambda>db. is_approved db (us_id user))) (\<lambda>approved.
     ret ((user, approved), seal raw)))"

definition logout_endpoint ::
  "(string \<Rightarrow> string) \<Rightarrow> (string \<Rightarrow> string option) \<Rightarrow> string option \<Rightarrow> timestamp \<Rightarrow> ('z office_db_scheme, unit) op" where
  "logout_endpoint sha256 unseal cookie now =
     (case cookie of
        None \<Rightarrow> ret ()
      | Some c \<Rightarrow>
          if c = [] then ret ()
          else case unseal c of
                 None \<Rightarrow> ret ()
               | Some raw \<Rightarrow> if raw = [] then ret () else revoke_session sha256 raw now)"

end
