(* ===== verification/Operators.thy ===== *)
theory Operators
  imports Accounts Resolution
begin

text \<open>
  The operators' back office (\<open>domains/admin/service.py\<close> and the operator dependencies of \<open>dependencies.py\<close>): the
  bootstrap operator, bearer authentication, approval of customers with their initial credit, management of the
  operators themselves, and the list of SDK builds. The overview of wholesale exposure and the resolution of stuck
  work are in the theories of their tables (\<open>Wholesale\<close>, \<open>Resolution\<close>).
\<close>

record sdk_approval =
  sa_id :: uuid
  sa_lang :: string
  sa_version :: string
  sa_git_sha7 :: string
  sa_status :: string
  sa_notes :: "string option"
  sa_added_by_operator_id :: "uuid option"

record admin_db = office_db +
  operators :: "operator list"
  sdk_approvals :: "sdk_approval list"

definition add_audit ::
  "uuid \<Rightarrow> string \<Rightarrow> uuid option \<Rightarrow> dict option \<Rightarrow> ('z clearing_db_scheme, unit) op" where
  "add_audit operator_id action target params = modify (\<lambda>db. db\<lparr>audits := audits db @
     [\<lparr>oa_operator_id = operator_id, oa_action = action, oa_target_user_id = target, oa_params = params\<rparr>]\<rparr>)"

section \<open>Bootstrap and authentication\<close>

definition BOOTSTRAP_OPERATOR_EMAIL :: string where
  "BOOTSTRAP_OPERATOR_EMAIL = ''bootstrap@livepeer-open-clearinghouse.local''"

definition BOOTSTRAP_OPERATOR_NAME :: string where
  "BOOTSTRAP_OPERATOR_NAME = ''Bootstrap Operator''"

definition get_operator :: "('z admin_db_scheme) \<Rightarrow> uuid \<Rightarrow> operator option" where
  "get_operator db operator_id = find (\<lambda>p. op_id p = operator_id) (operators db)"

definition operator_by_email :: "('z admin_db_scheme) \<Rightarrow> string \<Rightarrow> operator option" where
  "operator_by_email db email = find (\<lambda>p. op_email p = email) (operators db)"

definition set_operator :: "uuid \<Rightarrow> (operator \<Rightarrow> operator) \<Rightarrow> 'z admin_db_scheme \<Rightarrow> 'z admin_db_scheme" where
  "set_operator operator_id f db = db\<lparr>operators := update_where (\<lambda>p. op_id p = operator_id) f (operators db)\<rparr>"

definition insert_operator :: "operator \<Rightarrow> ('z admin_db_scheme, unit) op" where
  "insert_operator p =
     insert_row (\<lambda>db. op_id p \<notin> op_id ` set (operators db) \<and> op_email p \<notin> op_email ` set (operators db))
       (\<lambda>db. db\<lparr>operators := operators db @ [p]\<rparr>)"

definition ensure_bootstrap_operator ::
  "(string \<Rightarrow> string) \<Rightarrow> uuid \<Rightarrow> string \<Rightarrow> ('z admin_db_scheme, operator) op" where
  "ensure_bootstrap_operator sha256 new_id bootstrap_token =
     bind_op (gets (\<lambda>db. operator_by_email db BOOTSTRAP_OPERATOR_EMAIL)) (\<lambda>existing.
     case existing of
       Some p \<Rightarrow>
         if op_token_hash p \<noteq> sha256 bootstrap_token then
           bind_op (modify (set_operator (op_id p) (\<lambda>q. q\<lparr>op_token_hash := sha256 bootstrap_token\<rparr>))) (\<lambda>_.
           ret (p\<lparr>op_token_hash := sha256 bootstrap_token\<rparr>))
         else ret p
     | None \<Rightarrow>
         let p = \<lparr>op_id = new_id, op_email = BOOTSTRAP_OPERATOR_EMAIL, op_name = BOOTSTRAP_OPERATOR_NAME,
                  op_token_hash = sha256 bootstrap_token, op_role = ''owner'', op_revoked_at = None\<rparr>
         in bind_op (insert_operator p) (\<lambda>_. ret p))"

definition authenticate_operator :: "(string \<Rightarrow> string) \<Rightarrow> string \<Rightarrow> 'z admin_db_scheme \<Rightarrow> operator option" where
  "authenticate_operator sha256 token db =
     find (\<lambda>p. op_token_hash p = sha256 token \<and> op_revoked_at p = None) (operators db)"

definition get_current_operator ::
  "(string \<Rightarrow> string) \<Rightarrow> string option \<Rightarrow> ('z admin_db_scheme, operator) op" where
  "get_current_operator sha256 authorization =
     (case authorization of
        None \<Rightarrow> raise (unauthorized ''missing operator token'')
      | Some a \<Rightarrow>
         (case bearer_token a of
            None \<Rightarrow> raise (unauthorized ''invalid operator token'')
          | Some token \<Rightarrow>
              bind_op (gets (authenticate_operator sha256 token)) (\<lambda>found.
              case found of
                None \<Rightarrow> raise (unauthorized ''invalid operator token'')
              | Some p \<Rightarrow> ret p)))"

definition get_owner_operator ::
  "(string \<Rightarrow> string) \<Rightarrow> string option \<Rightarrow> ('z admin_db_scheme, operator) op" where
  "get_owner_operator sha256 authorization =
     bind_op (get_current_operator sha256 authorization) (\<lambda>p.
     bind_op (require (op_role p = ''owner'') (HTTPException 403 ''operator_role_required:owner'')) (\<lambda>_.
     ret p))"

section \<open>Customers\<close>

text \<open>The table is in insertion order, which is the order of \<open>created_at\<close>.\<close>

definition list_pending_users :: "'z admin_db_scheme \<Rightarrow> user list" where
  "list_pending_users db = filter (\<lambda>u. active_approval db (us_id u) = None) (users db)"

text \<open>
  A failed notification is logged; its exception does not reach the caller. The unique index on active approvals
  is the one the lookup reads.
\<close>

definition notify_approval ::
  "email_provider \<Rightarrow> uuid \<Rightarrow> user \<Rightarrow> string \<Rightarrow> timestamp \<Rightarrow> ('z office_db_scheme, unit) op" where
  "notify_approval send send_id user public_base_url now =
     catch_op (send_and_record send send_id (approval_notification_email (us_email user) public_base_url)
         (us_id user) now)
       (\<lambda>_. ret ())"

definition approve_user ::
  "uuid \<Rightarrow> uuid \<Rightarrow> uuid \<Rightarrow> operator \<Rightarrow> timestamp \<Rightarrow> int \<Rightarrow> email_provider option \<Rightarrow> string option \<Rightarrow>
   ('z office_db_scheme, operator_approval) op" where
  "approve_user topup_id send_id user_id operator now initial_credit_wei email_provider public_base_url =
     bind_op (gets (\<lambda>db. get_user db user_id)) (\<lambda>found.
     case found of
       None \<Rightarrow> raise UserNotFound
     | Some user \<Rightarrow>
         bind_op (gets (\<lambda>db. active_approval db user_id)) (\<lambda>existing.
         bind_op (require (existing = None) UserAlreadyApproved) (\<lambda>_.
         let approval = \<lparr>ap_user_id = user_id, ap_operator_id = op_id operator, ap_approved_at = now,
                         ap_revoked_at = None, ap_revocation_reason = None\<rparr>
         in bind_op (modify (\<lambda>db. db\<lparr>approvals := approvals db @ [approval]\<rparr>)) (\<lambda>_.
            bind_op (add_audit (op_id operator) ''approve_user'' (Some user_id) None) (\<lambda>_.
            bind_op (if 0 < initial_credit_wei
                     then bind_op (grant_initial_credit topup_id user_id initial_credit_wei (op_id operator)) (\<lambda>_. ret ())
                     else ret ()) (\<lambda>_.
            bind_op (case (email_provider, public_base_url) of
                       (Some send, Some url) \<Rightarrow> notify_approval send send_id user url now
                     | _ \<Rightarrow> ret ()) (\<lambda>_.
            ret approval)))))))"

definition resend_verification ::
  "(string \<Rightarrow> string) \<Rightarrow> email_provider \<Rightarrow> string \<Rightarrow> uuid \<Rightarrow> uuid \<Rightarrow> string \<Rightarrow> uuid \<Rightarrow> operator \<Rightarrow> timestamp \<Rightarrow>
   ('z office_db_scheme, user) op" where
  "resend_verification sha256 send public_base_url row_id send_id raw_token user_id operator now =
     bind_op (gets (\<lambda>db. get_user db user_id)) (\<lambda>found.
     case found of
       None \<Rightarrow> raise UserNotFound
     | Some user \<Rightarrow>
         bind_op (require (us_email_verified_at user = None) EmailAlreadyVerified) (\<lambda>_.
         bind_op (send_verification_email sha256 send public_base_url row_id send_id raw_token user now) (\<lambda>_.
         bind_op (add_audit (op_id operator) ''resend_verification'' (Some user_id) None) (\<lambda>_.
         ret user))))"

section \<open>Operators\<close>

definition OPERATOR_ROLES :: "string list" where
  "OPERATOR_ROLES = [''owner'', ''member'']"

definition OPERATOR_TOKEN_PREFIX :: string where
  "OPERATOR_TOKEN_PREFIX = ''loc_op_''"

definition generate_operator_token :: "(string \<Rightarrow> string) \<Rightarrow> string \<Rightarrow> string \<times> string" where
  "generate_operator_token sha256 random =
     (let raw = OPERATOR_TOKEN_PREFIX @ random in (raw, sha256 raw))"

definition active_owner :: "operator \<Rightarrow> bool" where
  "active_owner p \<longleftrightarrow> op_role p = ''owner'' \<and> op_revoked_at p = None"

definition count_active_owners :: "'z admin_db_scheme \<Rightarrow> int" where
  "count_active_owners db = int (length (filter active_owner (operators db)))"

definition create_operator ::
  "(string \<Rightarrow> string) \<Rightarrow> uuid \<Rightarrow> string \<Rightarrow> operator \<Rightarrow> string \<Rightarrow> string \<Rightarrow> string \<Rightarrow>
   ('z admin_db_scheme, operator \<times> string) op" where
  "create_operator sha256 new_id random acting_operator email name role =
     bind_op (require (role \<in> set OPERATOR_ROLES) InvalidOperatorRole) (\<lambda>_.
     bind_op (gets (\<lambda>db. operator_by_email db email)) (\<lambda>existing.
     bind_op (require (existing = None) OperatorEmailTaken) (\<lambda>_.
     let (raw, token_hash) = generate_operator_token sha256 random;
         p = \<lparr>op_id = new_id, op_email = email, op_name = name, op_token_hash = token_hash, op_role = role,
              op_revoked_at = None\<rparr>
     in bind_op (insert_operator p) (\<lambda>_.
        bind_op (add_audit (op_id acting_operator) ''create_operator'' None
          (Some [(''new_operator_id'', JStr new_id), (''email'', JStr email), (''role'', JStr role)])) (\<lambda>_.
        ret (p, raw))))))"

definition update_changes :: "string option \<Rightarrow> string option \<Rightarrow> operator \<Rightarrow> dict" where
  "update_changes name role target =
     (case name of Some n \<Rightarrow> if n \<noteq> op_name target then [(''name'', JStr n)] else [] | None \<Rightarrow> []) @
     (case role of Some r \<Rightarrow> if r \<noteq> op_role target then [(''role'', JStr r)] else [] | None \<Rightarrow> [])"

definition updated_operator :: "string option \<Rightarrow> string option \<Rightarrow> operator \<Rightarrow> operator" where
  "updated_operator name role target =
     target\<lparr>op_name := or_default name (op_name target), op_role := or_default role (op_role target)\<rparr>"

definition update_operator ::
  "operator \<Rightarrow> uuid \<Rightarrow> string option \<Rightarrow> string option \<Rightarrow> ('z admin_db_scheme, operator) op" where
  "update_operator acting_operator operator_id name role =
     bind_op (gets (\<lambda>db. get_operator db operator_id)) (\<lambda>found.
     case found of
       None \<Rightarrow> raise OperatorNotFound
     | Some target \<Rightarrow>
         bind_op (require (role = None \<or> the role \<in> set OPERATOR_ROLES) InvalidOperatorRole) (\<lambda>_.
         bind_op (gets count_active_owners) (\<lambda>owners.
         bind_op (require (\<not> (role \<noteq> None \<and> the role \<noteq> ''owner'' \<and> op_role target = ''owner'' \<and>
                               op_revoked_at target = None \<and> owners \<le> 1)) CannotDemoteLastOwner) (\<lambda>_.
         bind_op (modify (set_operator operator_id (updated_operator name role))) (\<lambda>_.
         bind_op (if update_changes name role target \<noteq> []
                  then add_audit (op_id acting_operator) ''update_operator'' None
                    (Some [(''target_operator_id'', JStr operator_id),
                           (''changes'', JObj (update_changes name role target))])
                  else ret ()) (\<lambda>_.
         ret (updated_operator name role target)))))))"

definition revoke_operator :: "operator \<Rightarrow> uuid \<Rightarrow> timestamp \<Rightarrow> ('z admin_db_scheme, operator) op" where
  "revoke_operator acting_operator operator_id now =
     bind_op (require (operator_id \<noteq> op_id acting_operator) CannotRevokeSelf) (\<lambda>_.
     bind_op (gets (\<lambda>db. get_operator db operator_id)) (\<lambda>found.
     case found of
       None \<Rightarrow> raise OperatorNotFound
     | Some target \<Rightarrow>
         if op_revoked_at target \<noteq> None then ret target
         else
           bind_op (gets count_active_owners) (\<lambda>owners.
           bind_op (require (\<not> (op_role target = ''owner'' \<and> owners \<le> 1)) CannotDemoteLastOwner) (\<lambda>_.
           bind_op (modify (set_operator operator_id (\<lambda>p. p\<lparr>op_revoked_at := Some now\<rparr>))) (\<lambda>_.
           bind_op (add_audit (op_id acting_operator) ''revoke_operator'' None
             (Some [(''target_operator_id'', JStr operator_id)])) (\<lambda>_.
           ret (target\<lparr>op_revoked_at := Some now\<rparr>)))))))"

definition rotate_operator_token ::
  "(string \<Rightarrow> string) \<Rightarrow> string \<Rightarrow> operator \<Rightarrow> uuid \<Rightarrow> ('z admin_db_scheme, operator \<times> string) op" where
  "rotate_operator_token sha256 random acting_operator operator_id =
     bind_op (gets (\<lambda>db. get_operator db operator_id)) (\<lambda>found.
     case found of
       None \<Rightarrow> raise OperatorNotFound
     | Some target \<Rightarrow>
         let (raw, token_hash) = generate_operator_token sha256 random
         in bind_op (modify (set_operator operator_id (\<lambda>p. p\<lparr>op_token_hash := token_hash\<rparr>))) (\<lambda>_.
            bind_op (add_audit (op_id acting_operator) ''rotate_operator_token'' None
              (Some [(''target_operator_id'', JStr operator_id)])) (\<lambda>_.
            ret (target\<lparr>op_token_hash := token_hash\<rparr>, raw))))"

section \<open>SDK builds\<close>

definition SDK_APPROVAL_STATUSES :: "string list" where
  "SDK_APPROVAL_STATUSES = [''approved'', ''deprecated'', ''blocked'']"

text \<open>\<open>str.split("/")\<close>.\<close>

fun split_slash :: "string \<Rightarrow> string list" where
  "split_slash [] = [[]]"
| "split_slash (c # cs) =
     (if c = CHR ''/'' then [] # split_slash cs
      else case split_slash cs of [] \<Rightarrow> [[c]] | p # ps \<Rightarrow> (c # p) # ps)"

definition parse_sdk_identity :: "string option \<Rightarrow> (string \<times> string \<times> string) option" where
  "parse_sdk_identity header =
     (case header of
        None \<Rightarrow> None
      | Some h \<Rightarrow>
          if h = [] then None
          else case split_slash (str_strip h) of
                 [lang, version, git_sha7] \<Rightarrow>
                   if lang = [] \<or> version = [] \<or> git_sha7 = [] then None else Some (lang, version, git_sha7)
               | _ \<Rightarrow> None)"

definition sdk_triple :: "sdk_approval \<Rightarrow> string \<times> string \<times> string" where
  "sdk_triple r = (sa_lang r, sa_version r, sa_git_sha7 r)"

definition find_sdk :: "('z admin_db_scheme) \<Rightarrow> string \<times> string \<times> string \<Rightarrow> sdk_approval option" where
  "find_sdk db triple = find (\<lambda>r. sdk_triple r = triple) (sdk_approvals db)"

definition evaluate_sdk_identity :: "string option \<Rightarrow> 'z admin_db_scheme \<Rightarrow> string" where
  "evaluate_sdk_identity sdk_identity db =
     (case parse_sdk_identity sdk_identity of
        None \<Rightarrow> ''unknown''
      | Some triple \<Rightarrow> (case find_sdk db triple of None \<Rightarrow> ''unknown'' | Some row \<Rightarrow> sa_status row))"

definition create_sdk_approval ::
  "uuid \<Rightarrow> operator \<Rightarrow> string \<Rightarrow> string \<Rightarrow> string \<Rightarrow> string \<Rightarrow> string option \<Rightarrow> ('z admin_db_scheme, sdk_approval) op" where
  "create_sdk_approval new_id acting_operator lang version git_sha7 status notes =
     bind_op (require (status \<in> set SDK_APPROVAL_STATUSES) InvalidSdkApprovalStatus) (\<lambda>_.
     bind_op (gets (\<lambda>db. find_sdk db (lang, version, git_sha7))) (\<lambda>existing.
     bind_op (require (existing = None) SdkApprovalAlreadyExists) (\<lambda>_.
     let row = \<lparr>sa_id = new_id, sa_lang = lang, sa_version = version, sa_git_sha7 = git_sha7, sa_status = status,
                sa_notes = notes, sa_added_by_operator_id = Some (op_id acting_operator)\<rparr>
     in bind_op (insert_row (\<lambda>db. new_id \<notin> sa_id ` set (sdk_approvals db) \<and> sdk_triple row \<notin> sdk_triple ` set (sdk_approvals db))
                   (\<lambda>db. db\<lparr>sdk_approvals := sdk_approvals db @ [row]\<rparr>)) (\<lambda>_.
        bind_op (add_audit (op_id acting_operator) ''create_sdk_approval'' None
          (Some [(''lang'', JStr lang), (''version'', JStr version), (''git_sha7'', JStr git_sha7),
                 (''status'', JStr status)])) (\<lambda>_.
        ret row)))))"

definition edited_sdk :: "string option \<Rightarrow> string option \<Rightarrow> sdk_approval \<Rightarrow> sdk_approval" where
  "edited_sdk status notes row =
     row\<lparr>sa_status := or_default status (sa_status row),
         sa_notes := (case notes of None \<Rightarrow> sa_notes row | Some n \<Rightarrow> Some n)\<rparr>"

definition update_sdk_approval ::
  "operator \<Rightarrow> uuid \<Rightarrow> string option \<Rightarrow> string option \<Rightarrow> ('z admin_db_scheme, sdk_approval) op" where
  "update_sdk_approval acting_operator approval_id status notes =
     bind_op (gets (\<lambda>db. find (\<lambda>r. sa_id r = approval_id) (sdk_approvals db))) (\<lambda>found.
     case found of
       None \<Rightarrow> raise SdkApprovalNotFound
     | Some row \<Rightarrow>
         bind_op (require (status = None \<or> the status \<in> set SDK_APPROVAL_STATUSES) InvalidSdkApprovalStatus) (\<lambda>_.
         bind_op (modify (\<lambda>db. db\<lparr>sdk_approvals :=
           update_where (\<lambda>r. sa_id r = approval_id) (edited_sdk status notes) (sdk_approvals db)\<rparr>)) (\<lambda>_.
         bind_op (add_audit (op_id acting_operator) ''update_sdk_approval'' None
           (Some [(''approval_id'', JStr approval_id), (''status'', json_text status), (''notes'', json_text notes)])) (\<lambda>_.
         ret (edited_sdk status notes row)))))"

definition delete_sdk_approval :: "operator \<Rightarrow> uuid \<Rightarrow> ('z admin_db_scheme, unit) op" where
  "delete_sdk_approval acting_operator approval_id =
     bind_op (gets (\<lambda>db. find (\<lambda>r. sa_id r = approval_id) (sdk_approvals db))) (\<lambda>found.
     case found of
       None \<Rightarrow> raise SdkApprovalNotFound
     | Some row \<Rightarrow>
         bind_op (modify (\<lambda>db. db\<lparr>sdk_approvals := filter (\<lambda>r. sa_id r \<noteq> approval_id) (sdk_approvals db)\<rparr>)) (\<lambda>_.
         add_audit (op_id acting_operator) ''delete_sdk_approval'' None
           (Some [(''approval_id'', JStr approval_id)])))"

text \<open>
  The recent sessions with the status of their SDK: one pass over the sessions collects the triples, one query
  reads the whole list into a dictionary (a later row replaces an earlier one of the same triple), and a second
  pass looks each session up.
\<close>

definition sdk_dictionary :: "sdk_approval list \<Rightarrow> (string \<times> string \<times> string \<rightharpoonup> string)" where
  "sdk_dictionary rows = foldl (\<lambda>m r. m(sdk_triple r \<mapsto> sa_status r)) Map.empty rows"

definition list_recent_sessions_with_sdk :: "nat \<Rightarrow> 'z admin_db_scheme \<Rightarrow> (payment_session \<times> string) list" where
  "list_recent_sessions_with_sdk limit db =
     (let session_rows = take limit (sort_key (\<lambda>s. - ps_opened_at s) (sessions db));
          triples = List.map_filter (\<lambda>s. parse_sdk_identity (ps_sdk_identity s)) session_rows;
          known = (if triples \<noteq> [] then sdk_dictionary (sdk_approvals db) else Map.empty)
      in map (\<lambda>s. (s, case parse_sdk_identity (ps_sdk_identity s) of
                         None \<Rightarrow> ''unknown''
                       | Some t \<Rightarrow> (case known t of None \<Rightarrow> ''unknown'' | Some st \<Rightarrow> st))) session_rows)"

end
