(* ===== verification/Office_Laws.thy ===== *)
theory Office_Laws
  imports Operators Triples
begin

text \<open>
  The account and operator tables as a transition system. \<open>office_step\<close> has one rule per operation that returns (a
  request that raises is rolled back) and one for everything else the program does, which leaves these tables alone.
  \<open>office_inv\<close> is what the tables promise: unique keys, references to existing users, at most one active approval
  per customer, known roles and statuses.
\<close>

section \<open>Running the primitives\<close>

named_theorems office_keeps "operations that keep an invariant of the office tables"

lemma insert_row_iff [op_iff]:
  "insert_row free add s = (r, s') \<longleftrightarrow> (if free s then r = Inr () \<and> s' = add s else r = Inl IntegrityError \<and> s' = s)"
  by (auto simp: insert_row_def require_def modify_def)

lemma bind_insert_row [simp]:
  "bind_op (insert_row free add) f s = (if free s then f () (add s) else (Inl IntegrityError, s))"
  by (simp add: insert_row_def bind_op_def gets_def require_def modify_def)

lemma catch_Inr_iff [op_iff]:
  "catch_op m h s = (Inr x, s') \<longleftrightarrow> m s = (Inr x, s') \<or> (\<exists>e t. m s = (Inl e, t) \<and> h e t = (Inr x, s'))"
  by (auto simp: catch_op_def split: prod.splits sum.splits)

lemma keeps_insert_row: "(\<And>s. I s \<Longrightarrow> free s \<Longrightarrow> I (add s)) \<Longrightarrow> keeps I (insert_row free add)"
  by (rule keepsI) (auto simp: insert_row_iff split: if_splits)

lemma keeps_bind_require: "(c \<Longrightarrow> keeps I (f ())) \<Longrightarrow> keeps I (bind_op (require c e) f)"
  by (simp add: keeps_def)

lemma keeps_reraise: "keeps I m \<Longrightarrow> keeps I (catch_op m (\<lambda>e. raise (g e)))"
  by (rule keepsI) (auto simp: catch_op_def raise_def dest: keepsD split: prod.splits sum.splits)

lemma keeps_ignore: "keeps I m \<Longrightarrow> keeps I (catch_op m (\<lambda>_. ret ()))"
  by (rule keepsI) (auto simp: catch_op_def ret_def dest: keepsD split: prod.splits sum.splits)

lemma keeps_pair: "(\<And>x y. v = (x, y) \<Longrightarrow> keeps I (f x y)) \<Longrightarrow> keeps I (case v of (x, y) \<Rightarrow> f x y)"
  by (cases v) auto

lemmas op_defs = record_email_send_def send_and_record_def send_verification_email_def signup_def verify_email_def
  add_web_session_def login_def revoke_session_def request_resend_verification_def request_password_reset_def
  reset_password_def insert_identity_def insert_user_def find_or_link_user_def oauth_callback_def create_api_key_def
  revoke_api_key_def validate_raw_key_def add_audit_def insert_operator_def ensure_bootstrap_operator_def
  notify_approval_def approve_user_def resend_verification_def create_operator_def update_operator_def
  revoke_operator_def rotate_operator_token_def create_sdk_approval_def update_sdk_approval_def delete_sdk_approval_def

section \<open>The invariant\<close>

definition unique_keys :: "'z admin_db_scheme \<Rightarrow> bool" where
  "unique_keys db \<longleftrightarrow>
     distinct (map us_id (users db)) \<and> distinct (map us_email (users db)) \<and>
     distinct (map uv_id (verifications db)) \<and> distinct (map upr_id (resets db)) \<and>
     distinct (map (\<lambda>i. (oi_provider i, oi_provider_user_id i)) (identities db)) \<and>
     distinct (map ws_token_hash (web_sessions db)) \<and>
     distinct (map ak_id (api_keys db)) \<and> distinct (map ak_prefix (api_keys db)) \<and>
     distinct (map op_id (operators db)) \<and> distinct (map op_email (operators db)) \<and>
     distinct (map sa_id (sdk_approvals db)) \<and> distinct (map sdk_triple (sdk_approvals db))"

definition known_values :: "'z admin_db_scheme \<Rightarrow> bool" where
  "known_values db \<longleftrightarrow> op_role ` set (operators db) \<subseteq> set OPERATOR_ROLES \<and>
     sa_status ` set (sdk_approvals db) \<subseteq> set SDK_APPROVAL_STATUSES"

definition rows_ok :: "'z admin_db_scheme \<Rightarrow> bool" where
  "rows_ok db \<longleftrightarrow> unique_keys db \<and> known_values db"

definition referenced_users :: "'z office_db_scheme \<Rightarrow> uuid set" where
  "referenced_users db = uv_user_id ` set (verifications db) \<union> upr_user_id ` set (resets db) \<union>
     oi_user_id ` set (identities db) \<union> ws_user_id ` set (web_sessions db) \<union> ak_user_id ` set (api_keys db) \<union>
     ap_user_id ` set (approvals db)"

definition references_ok :: "'z office_db_scheme \<Rightarrow> bool" where
  "references_ok db \<longleftrightarrow> referenced_users db \<subseteq> us_id ` set (users db) \<and>
     distinct (map ap_user_id (filter (\<lambda>a. ap_revoked_at a = None) (approvals db)))"

definition office_inv :: "'z admin_db_scheme \<Rightarrow> bool" where
  "office_inv db \<longleftrightarrow> rows_ok db \<and> references_ok db"

lemma rows_cong: "clearing_db.more db' = clearing_db.more db \<Longrightarrow> rows_ok db' = rows_ok db"
  by (cases db, cases db') (simp add: rows_ok_def unique_keys_def known_values_def)

lemma references_cong: "clearing_db.more db' = clearing_db.more db \<Longrightarrow> references_ok db' = references_ok db"
  by (cases db, cases db') (simp add: references_ok_def referenced_users_def)

text \<open>The credit of an approval is booked in the billing tables only.\<close>

lemma apply_delta_more: "keeps (\<lambda>db. billing_db.more db = M) (apply_delta u d r a b c e)"
  unfolding apply_delta_def ensure_balance_row_def Let_def
  by (intro keeps_bind keeps_gets keeps_require keeps_case_option keeps_ret keeps_modify) simp_all

lemma grant_more:
  assumes "grant_initial_credit t u a p db = (r, db')"
  shows "billing_db.more db' = billing_db.more db"
proof -
  have "keeps (\<lambda>d. billing_db.more d = billing_db.more db) (grant_initial_credit t u a p)"
    unfolding grant_initial_credit_def Let_def
    by (intro keeps_if keeps_bind keeps_ret apply_delta_more keeps_modify) simp_all
  from keepsD [OF this _ assms] show ?thesis by simp
qed

lemma more_clearing: "billing_db.more db' = billing_db.more db \<Longrightarrow> clearing_db.more db' = clearing_db.more db"
  by (cases db, cases db') simp

lemma keeps_grant:
  assumes "\<And>db db'. clearing_db.more db' = clearing_db.more db \<Longrightarrow> I db' = I db"
  shows "keeps I (grant_initial_credit t u a p)"
  using assms more_clearing [OF grant_more] by (intro keepsI) blast

text \<open>The keys and the values are local to a row, so each primitive keeps them by itself.\<close>

lemmas row_simps = rows_ok_def unique_keys_def known_values_def

lemma rows_primitives [office_keeps]:
  "keeps rows_ok (insert_user u)" "keeps rows_ok (insert_identity i)" "keeps rows_ok (add_web_session h k t now)"
  "keeps rows_ok (add_audit a b c d)" "keeps rows_ok (grant_initial_credit t k n q)"
  "op_role p \<in> set OPERATOR_ROLES \<Longrightarrow> keeps rows_ok (insert_operator p)"
  unfolding insert_user_def insert_identity_def insert_operator_def add_web_session_def add_audit_def Let_def
  by (auto intro!: keeps_insert_row keeps_modify keeps_grant rows_cong simp: row_simps)

lemma rows_set_user [office_keeps]:
  "(\<And>u. us_id (f u) = us_id u \<and> us_email (f u) = us_email u) \<Longrightarrow> keeps rows_ok (modify (set_user k f))"
  by (rule keeps_modify) (simp add: row_simps set_user_def)

lemma rows_set_operator [office_keeps]:
  assumes "\<And>p. op_id (f p) = op_id p \<and> op_email (f p) = op_email p"
    and "\<And>p. op_role p \<in> set OPERATOR_ROLES \<Longrightarrow> op_role (f p) \<in> set OPERATOR_ROLES"
  shows "keeps rows_ok (modify (set_operator k f))"
  using assms by (intro keeps_modify) (auto simp: row_simps set_operator_def set_update_where)

lemmas keeps_rules = keeps_bind_require keeps_bind keeps_ret keeps_raise keeps_gets keeps_require keeps_of_result
  keeps_if keeps_case_option keeps_pair keeps_reraise keeps_ignore

lemma rows_send [office_keeps]: "keeps rows_ok (send_and_record send k message u now)"
  unfolding send_and_record_def record_email_send_def Let_def
  by (intro keeps_rules keeps_modify) (simp add: row_simps)

lemma rows_send_verification [office_keeps]: "keeps rows_ok (send_verification_email h send url r k t u now)"
  unfolding send_verification_email_def Let_def
  by (intro keeps_rules office_keeps keeps_insert_row) (auto simp: row_simps)

lemma rows_find_or_link [office_keeps]: "keeps rows_ok (find_or_link_user u pv pu e v now)"
  unfolding find_or_link_user_def Let_def by (intro keeps_rules office_keeps) (auto simp: mark_verified_def)

lemma rows_accounts [office_keeps]:
  "keeps rows_ok (signup h ph send url u r k t e p now)"
  "keeps rows_ok (login h pv t e p now)"
  "keeps rows_ok (request_resend_verification h send url r k t e now)"
  "keeps rows_ok (oauth_callback h seal u t provider profile now)"
  "keeps rows_ok (resend_verification h send url r k t u q now)"
  unfolding signup_def login_def request_resend_verification_def oauth_callback_def resend_verification_def Let_def
  by (intro keeps_rules office_keeps)+

lemma rows_tokens [office_keeps]:
  "keeps rows_ok (verify_email h t now)"
  "keeps rows_ok (revoke_session h t now)"
  "keeps rows_ok (request_password_reset h send url r k t e now)"
  "keeps rows_ok (reset_password h ph t p now)"
  unfolding verify_email_def revoke_session_def request_password_reset_def reset_password_def Let_def
  by ((intro keeps_rules office_keeps keeps_modify keeps_insert_row; simp add: row_simps revoke_all_sessions_def)+)

lemma rows_keys [office_keeps]:
  "keeps rows_ok (create_api_key h k random u label pepper)"
  "keeps rows_ok (revoke_api_key u k now)"
  "keeps rows_ok (validate_raw_key h raw pepper now)"
  unfolding create_api_key_def revoke_api_key_def validate_raw_key_def Let_def
  by ((intro keeps_rules office_keeps keeps_modify keeps_insert_row; auto simp: row_simps)+)

lemma rows_approval [office_keeps]: "keeps rows_ok (approve_user tu k u p now credit send url)"
  unfolding approve_user_def notify_approval_def Let_def
  by (intro keeps_rules office_keeps keeps_modify) (auto simp: row_simps intro: keeps_rules office_keeps split: option.splits)

lemma rows_operators [office_keeps]:
  "keeps rows_ok (ensure_bootstrap_operator h k t)"
  "keeps rows_ok (create_operator h k random p e n role)"
  "keeps rows_ok (update_operator p k name role')"
  "keeps rows_ok (revoke_operator p k now)"
  "keeps rows_ok (rotate_operator_token h random p k)"
  unfolding ensure_bootstrap_operator_def create_operator_def update_operator_def revoke_operator_def
    rotate_operator_token_def generate_operator_token_def Let_def
  by ((intro keeps_rules office_keeps; auto simp: updated_operator_def or_default_def OPERATOR_ROLES_def split: option.splits)+)

lemma rows_sdk [office_keeps]:
  "keeps rows_ok (create_sdk_approval k p lang version sha status notes)"
  "keeps rows_ok (delete_sdk_approval p k)"
  unfolding create_sdk_approval_def delete_sdk_approval_def Let_def
  by ((intro keeps_rules office_keeps keeps_modify keeps_insert_row; auto simp: row_simps sdk_triple_def distinct_map_filter)+)

lemma edited_sdk_simps:
  "sa_id (edited_sdk status notes r) = sa_id r" "sdk_triple (edited_sdk status notes r) = sdk_triple r"
  "sa_status (edited_sdk status notes r) = or_default status (sa_status r)"
  by (simp_all add: edited_sdk_def sdk_triple_def)

lemma rows_update_sdk [office_keeps]: "keeps rows_ok (update_sdk_approval p k status notes)"
proof -
  have "keeps rows_ok (modify (\<lambda>db. db\<lparr>sdk_approvals := update_where (\<lambda>r. sa_id r = k) (edited_sdk status notes) (sdk_approvals db)\<rparr>))"
    if "status = None \<or> the status \<in> set SDK_APPROVAL_STATUSES"
    using that by (intro keeps_modify) (fastforce simp: row_simps edited_sdk_simps or_default_def set_update_where split: option.splits)
  then show ?thesis unfolding update_sdk_approval_def by (intro keeps_rules office_keeps)
qed

section \<open>References\<close>

lemma insert_user_refs [office_keeps]: "keeps references_ok (insert_user u)"
  unfolding insert_user_def by (rule keeps_insert_row) (auto simp: references_ok_def referenced_users_def)

lemma image_update_where [simp]: "(\<And>r. p r \<Longrightarrow> g (f r) = g r) \<Longrightarrow> g ` set (update_where p f rows) = g ` set rows"
  by (simp flip: set_map)

lemma set_user_ids: "(\<And>u. us_id (f u) = us_id u) \<Longrightarrow> us_id ` set (users (set_user k f db)) = us_id ` set (users db)"
  by (simp add: set_user_def)

lemma set_user_simps [simp]:
  "verifications (set_user k f db) = verifications db" "resets (set_user k f db) = resets db"
  "identities (set_user k f db) = identities db" "web_sessions (set_user k f db) = web_sessions db"
  "api_keys (set_user k f db) = api_keys db" "approvals (set_user k f db) = approvals db"
  by (simp_all add: set_user_def)

lemma set_user_refs [office_keeps]: "(\<And>u. us_id (f u) = us_id u) \<Longrightarrow> keeps references_ok (modify (set_user k f))"
  by (rule keeps_modify) (simp add: references_ok_def referenced_users_def set_user_ids)

lemma plain_refs [office_keeps]:
  "keeps references_ok (add_audit a b c d)" "keeps references_ok (grant_initial_credit t k n q)"
  "keeps references_ok (send_and_record send k message u now)"
  unfolding add_audit_def send_and_record_def record_email_send_def Let_def
  by (auto intro!: keeps_rules keeps_modify keeps_grant references_cong simp: references_ok_def referenced_users_def)

text \<open>A row of a user who exists.\<close>

definition has_user :: "uuid \<Rightarrow> 'z office_db_scheme \<Rightarrow> bool" where
  "has_user u db \<longleftrightarrow> u \<in> us_id ` set (users db)"

lemma get_user_has: "get_user db k = Some u \<Longrightarrow> us_id u = k \<and> has_user k db"
  by (auto simp: get_user_def has_user_def dest: find_SomeD)

lemma by_email_has: "user_by_email db e = Some u \<Longrightarrow> us_email u = e \<and> has_user (us_id u) db"
  by (auto simp: user_by_email_def has_user_def dest: find_SomeD)

lemma add_web_session_refs:
  "add_web_session h u t now db = (Inr x, db') \<Longrightarrow> references_ok db \<Longrightarrow> has_user u db \<Longrightarrow> references_ok db'"
  by (auto simp: add_web_session_def op_iff references_ok_def referenced_users_def has_user_def split: if_splits)

lemma send_and_record_run:
  assumes "send_and_record send k message u now db = (Inr x, db')"
  obtains mail where "db' = db\<lparr>email_sends := email_sends db @ [mail]\<rparr>"
  using assms by (auto simp: send_and_record_def record_email_send_def Let_def bind_assoc ret_def split: sum.splits)

lemma send_verification_run:
  assumes "send_verification_email h send url r k t u now db = (Inr x, db')"
  obtains mail where "r \<notin> uv_id ` set (verifications db)"
    "db' = db\<lparr>verifications := verifications db @ [\<lparr>uv_id = r, uv_user_id = us_id u, uv_token_hash = h t,
       uv_expires_at = now + EMAIL_VERIFICATION_TTL, uv_consumed_at = None\<rparr>], email_sends := email_sends db @ [mail]\<rparr>"
  using assms by (auto simp: send_verification_email_def Let_def simp del: append_assoc elim!: send_and_record_run split: if_splits)

lemma send_verification_refs:
  "send_verification_email h send url r k t u now db = (Inr x, db') \<Longrightarrow> references_ok db \<Longrightarrow> has_user (us_id u) db \<Longrightarrow> references_ok db'"
  by (erule send_verification_run) (auto simp: references_ok_def referenced_users_def has_user_def)

lemma insert_identity_refs:
  "insert_identity i db = (Inr x, db') \<Longrightarrow> references_ok db \<Longrightarrow> has_user (oi_user_id i) db \<Longrightarrow> references_ok db'"
  by (auto simp: insert_identity_def op_iff references_ok_def referenced_users_def has_user_def split: if_splits)

lemma tokens_refs [office_keeps]:
  "keeps references_ok (verify_email h t now)"
  "keeps references_ok (revoke_session h t now)"
  "keeps references_ok (reset_password h ph t p now)"
  "keeps references_ok (revoke_api_key u k now)"
  "keeps references_ok (validate_raw_key h raw pepper now)"
  unfolding verify_email_def revoke_session_def reset_password_def revoke_api_key_def validate_raw_key_def
  by ((intro keeps_rules office_keeps keeps_modify; simp add: references_ok_def referenced_users_def revoke_all_sessions_def)+)

lemma operators_refs [office_keeps]:
  "keeps references_ok (ensure_bootstrap_operator h k t)"
  "keeps references_ok (create_operator h k random p e n role)"
  "keeps references_ok (update_operator p k name role')"
  "keeps references_ok (revoke_operator p k now)"
  "keeps references_ok (rotate_operator_token h random p k)"
  "keeps references_ok (create_sdk_approval k p lang version sha status notes)"
  "keeps references_ok (update_sdk_approval p k status' notes)"
  "keeps references_ok (delete_sdk_approval p k)"
  unfolding ensure_bootstrap_operator_def create_operator_def update_operator_def revoke_operator_def insert_operator_def
    rotate_operator_token_def generate_operator_token_def create_sdk_approval_def update_sdk_approval_def
    delete_sdk_approval_def set_operator_def Let_def
  by ((intro keeps_rules office_keeps keeps_modify keeps_insert_row; simp add: references_ok_def referenced_users_def)+)

lemma signup_run:
  assumes "signup h ph send url u r k t e p now db = (Inr x, db')"
  obtains mail where "user_by_email db e = None" "u \<notin> us_id ` set (users db)" "e \<notin> us_email ` set (users db)"
    "r \<notin> uv_id ` set (verifications db)"
    "x = \<lparr>us_id = u, us_email = e, us_email_verified_at = None, us_password_hash = Some (ph p)\<rparr>"
    "db' = db\<lparr>users := users db @ [x], verifications := verifications db @ [\<lparr>uv_id = r, uv_user_id = u, uv_token_hash = h t,
       uv_expires_at = now + EMAIL_VERIFICATION_TTL, uv_consumed_at = None\<rparr>], email_sends := email_sends db @ [mail]\<rparr>"
proof -
  let ?u = "\<lparr>us_id = u, us_email = e, us_email_verified_at = None, us_password_hash = Some (ph p)\<rparr>"
  from assms have pre: "user_by_email db e = None" "u \<notin> us_id ` set (users db)" "e \<notin> us_email ` set (users db)" "x = ?u"
    and sent: "send_verification_email h send url r k t ?u now (db\<lparr>users := users db @ [?u]\<rparr>) = (Inr (), db')"
    by (auto simp: signup_def Let_def insert_user_def op_iff split: if_splits)
  obtain mail where mail: "r \<notin> uv_id ` set (verifications (db\<lparr>users := users db @ [?u]\<rparr>))"
    "db' = db\<lparr>users := users db @ [?u], verifications := verifications (db\<lparr>users := users db @ [?u]\<rparr>) @
       [\<lparr>uv_id = r, uv_user_id = us_id ?u, uv_token_hash = h t, uv_expires_at = now + EMAIL_VERIFICATION_TTL, uv_consumed_at = None\<rparr>],
       email_sends := email_sends (db\<lparr>users := users db @ [?u]\<rparr>) @ [mail]\<rparr>"
    using sent by (rule send_verification_run)
  show thesis using that [OF pre(1-3) _ pre(4), of mail] mail by (simp add: pre(4))
qed

lemma signup_refs:
  assumes "signup h ph send url u r k t e p now db = (Inr x, db')" "references_ok db"
  shows "references_ok db'"
  using assms(1)
proof (cases rule: signup_run)
  case (1 mail)
  with assms(2) show ?thesis by (auto simp: references_ok_def referenced_users_def)
qed

lemma login_refs: "login h pv t e p now db = (Inr x, db') \<Longrightarrow> references_ok db \<Longrightarrow> references_ok db'"
  by (auto simp: login_def op_iff dest: by_email_has intro: add_web_session_refs split: option.splits if_splits)

lemma resend_refs:
  "request_resend_verification h send url r k t e now db = (Inr x, db') \<Longrightarrow> references_ok db \<Longrightarrow> references_ok db'"
  by (auto simp: request_resend_verification_def op_iff dest: by_email_has intro: send_verification_refs split: option.splits if_splits)

lemma operator_resend_refs:
  assumes "resend_verification h send url r k t u q now db = (Inr x, db')" "references_ok db"
  shows "references_ok db'"
proof -
  from assms(1) obtain d where u: "get_user db u = Some x" and d: "send_verification_email h send url r k t x now db = (Inr (), d)"
    and a: "add_audit (op_id q) ''resend_verification'' (Some u) None d = (Inr (), db')"
    by (auto simp: resend_verification_def op_iff split: option.splits if_splits)
  from send_verification_refs [OF d assms(2)] get_user_has [OF u] have "references_ok d" by simp
  from keepsD [OF plain_refs(1) this a] show ?thesis .
qed

lemma request_reset_run:
  assumes "request_password_reset h send url r k t e now db = (Inr x, db')"
  obtains "db' = db" | user mail where "user_by_email db e = Some user" "r \<notin> upr_id ` set (resets db)"
    "db' = db\<lparr>resets := resets db @ [\<lparr>upr_id = r, upr_user_id = us_id user, upr_token_hash = h t,
       upr_expires_at = now + PASSWORD_RESET_TTL, upr_consumed_at = None\<rparr>], email_sends := email_sends db @ [mail]\<rparr>"
proof (cases "\<exists>user y. user_by_email db e = Some user \<and> us_password_hash user = Some y")
  case False
  with assms that(1) show ?thesis by (auto simp: request_password_reset_def ret_def split: option.splits if_splits)
next
  case True
  then obtain user y where user: "user_by_email db e = Some user" "us_password_hash user = Some y" by blast
  with assms obtain link where "r \<notin> upr_id ` set (resets db)"
    and "send_and_record send k (password_reset_email (us_email user) link (PASSWORD_RESET_TTL div seconds 60)) (us_id user) now
      (db\<lparr>resets := resets db @ [\<lparr>upr_id = r, upr_user_id = us_id user, upr_token_hash = h t,
       upr_expires_at = now + PASSWORD_RESET_TTL, upr_consumed_at = None\<rparr>]\<rparr>) = (Inr x, db')"
    by (simp add: request_password_reset_def Let_def split: if_splits)
  with that(2) [OF user(1)] show ?thesis by (auto elim!: send_and_record_run)
qed

lemma request_reset_refs:
  assumes "request_password_reset h send url r k t e now db = (Inr x, db')" "references_ok db"
  shows "references_ok db'"
  using assms(1)
proof (cases rule: request_reset_run)
  case (2 user mail)
  with by_email_has [OF 2(1)] assms(2) show ?thesis by (simp add: references_ok_def referenced_users_def has_user_def)
qed (use assms(2) in simp)

lemma find_or_link_refs:
  assumes run: "find_or_link_user u pv pu e v now db = (Inr x, db')" and refs: "references_ok db"
  shows "references_ok db' \<and> has_user (us_id x) db'"
  using assms
  by (auto simp: find_or_link_user_def linked_user_def Let_def op_iff insert_user_def insert_identity_def has_user_def mark_verified_def
      references_ok_def referenced_users_def set_user_ids split: option.splits if_splits dest!: by_email_has get_user_has)

lemma oauth_refs: "oauth_callback h seal u t pv profile now db = (Inr x, db') \<Longrightarrow> references_ok db \<Longrightarrow> references_ok db'"
  by (auto simp: oauth_callback_def op_iff dest!: find_or_link_refs intro: add_web_session_refs split: prod.splits)

lemma create_key_refs: "create_api_key h k random u label pepper db = (Inr x, db') \<Longrightarrow> references_ok db \<Longrightarrow> references_ok db'"
  by (auto simp: create_api_key_def Let_def op_iff references_ok_def referenced_users_def split: if_splits)

text \<open>The mail of an approval never fails it.\<close>

lemma notify_approval_run:
  "\<exists>mails. notify_approval send k user url now db = (Inr (), db\<lparr>email_sends := email_sends db @ mails\<rparr>)"
proof (cases "send (approval_notification_email (us_email user) url)")
  case Inl
  then have "notify_approval send k user url now db = (Inr (), db\<lparr>email_sends := email_sends db @ []\<rparr>)"
    by (simp add: notify_approval_def send_and_record_def catch_op_def ret_def)
  then show ?thesis by blast
next
  case Inr
  then show ?thesis
    by (auto simp: notify_approval_def send_and_record_def record_email_send_def Let_def bind_assoc catch_op_def ret_def)
qed

definition approval_of :: "uuid \<Rightarrow> operator \<Rightarrow> timestamp \<Rightarrow> operator_approval" where
  "approval_of user_id operator now = \<lparr>ap_user_id = user_id, ap_operator_id = op_id operator, ap_approved_at = now,
     ap_revoked_at = None, ap_revocation_reason = None\<rparr>"

definition approved_db :: "uuid \<Rightarrow> operator \<Rightarrow> timestamp \<Rightarrow> 'z office_db_scheme \<Rightarrow> 'z office_db_scheme" where
  "approved_db user_id operator now db = db\<lparr>approvals := approvals db @ [approval_of user_id operator now],
     audits := audits db @ [\<lparr>oa_operator_id = op_id operator, oa_action = ''approve_user'',
       oa_target_user_id = Some user_id, oa_params = None\<rparr>]\<rparr>"

lemma approve_run:
  assumes "approve_user tu k u p now credit send url db = (Inr x, db')"
  obtains user d mails where "get_user db u = Some user" "active_approval db u = None" "x = approval_of u p now"
    "if 0 < credit then \<exists>t. grant_initial_credit tu u credit (op_id p) (approved_db u p now db) = (Inr t, d)
     else d = approved_db u p now db"
    "db' = d\<lparr>email_sends := email_sends d @ mails\<rparr>"
proof -
  from assms obtain user where user: "get_user db u = Some user" "active_approval db u = None" "x = approval_of u p now"
    by (auto simp: approve_user_def Let_def op_iff approval_of_def split: option.splits if_splits)
  let ?mail = "case (send, url) of (Some s, Some w) \<Rightarrow> notify_approval s k user w now | _ \<Rightarrow> ret ()"
  from assms user obtain d where d: "if 0 < credit then \<exists>t. grant_initial_credit tu u credit (op_id p) (approved_db u p now db) = (Inr t, d)
     else d = approved_db u p now db" and m: "?mail d = (Inr (), db')"
    by (cases "0 < credit") (auto simp: approve_user_def Let_def op_iff approval_of_def add_audit_def approved_db_def)
  have "\<exists>mails. ?mail d = (Inr (), d\<lparr>email_sends := email_sends d @ mails\<rparr>)"
    using notify_approval_run by (auto simp: ret_def split: option.splits intro: exI [of _ "[]"])
  with m user d that show thesis by (metis prod.inject)
qed

lemma approve_refs:
  assumes "approve_user tu k u p now credit send url db = (Inr x, db')" "references_ok db"
  shows "references_ok db'"
  using assms(1)
proof (cases rule: approve_run)
  case (1 user d mails)
  have "references_ok (approved_db u p now db)"
    using assms(2) get_user_has [OF 1(1)] 1(2)
    by (fastforce simp: active_approval_def find_None_iff references_ok_def referenced_users_def has_user_def approved_db_def approval_of_def)
  with 1(4) have "references_ok d" using keepsD [OF plain_refs(2)] by (auto split: if_splits)
  with 1(5) show ?thesis by (simp add: references_ok_def referenced_users_def)
qed

section \<open>The operations as steps\<close>

inductive office_step :: "'z admin_db_scheme \<Rightarrow> 'z admin_db_scheme \<Rightarrow> bool" where
  os_signup: "signup h ph send url u r k t e p now db = (Inr x, db') \<Longrightarrow> office_step db db'"
| os_verify: "verify_email h t now db = (Inr x, db') \<Longrightarrow> office_step db db'"
| os_login: "login h pv t e p now db = (Inr y, db') \<Longrightarrow> office_step db db'"
| os_revoke_session: "revoke_session h t now db = (Inr z, db') \<Longrightarrow> office_step db db'"
| os_resend: "request_resend_verification h send url r k t e now db = (Inr z, db') \<Longrightarrow> office_step db db'"
| os_request_reset: "request_password_reset h send url r k t e now db = (Inr z, db') \<Longrightarrow> office_step db db'"
| os_reset: "reset_password h ph t p now db = (Inr x, db') \<Longrightarrow> office_step db db'"
| os_oauth: "oauth_callback h seal u t pv profile now db = (Inr s, db') \<Longrightarrow> office_step db db'"
| os_create_key: "create_api_key h k random u label pepper db = (Inr kr, db') \<Longrightarrow> office_step db db'"
| os_revoke_key: "revoke_api_key u k now db = (Inr key, db') \<Longrightarrow> office_step db db'"
| os_validate_key: "validate_raw_key h raw pepper now db = (Inr found, db') \<Longrightarrow> office_step db db'"
| os_bootstrap: "ensure_bootstrap_operator h k t db = (Inr p, db') \<Longrightarrow> office_step db db'"
| os_approve: "approve_user tu k u p now credit send url db = (Inr a, db') \<Longrightarrow> office_step db db'"
| os_operator_resend: "resend_verification h send url r k t u p now db = (Inr x, db') \<Longrightarrow> office_step db db'"
| os_create_operator: "create_operator h k random p e n role db = (Inr pr, db') \<Longrightarrow> office_step db db'"
| os_update_operator: "update_operator p k name role db = (Inr q, db') \<Longrightarrow> office_step db db'"
| os_revoke_operator: "revoke_operator p k now db = (Inr q, db') \<Longrightarrow> office_step db db'"
| os_rotate: "rotate_operator_token h random p k db = (Inr pr, db') \<Longrightarrow> office_step db db'"
| os_create_sdk: "create_sdk_approval k p lang version sha status notes db = (Inr sdk, db') \<Longrightarrow> office_step db db'"
| os_update_sdk: "update_sdk_approval p k status notes db = (Inr sdk, db') \<Longrightarrow> office_step db db'"
| os_delete_sdk: "delete_sdk_approval p k db = (Inr z, db') \<Longrightarrow> office_step db db'"
| os_elsewhere: "clearing_db.more db' = clearing_db.more db \<Longrightarrow> office_step db db'"

definition office_empty :: "'z admin_db_scheme \<Rightarrow> bool" where
  "office_empty db \<longleftrightarrow> users db = [] \<and> verifications db = [] \<and> resets db = [] \<and> identities db = [] \<and>
     web_sessions db = [] \<and> approvals db = [] \<and> api_keys db = [] \<and> operators db = [] \<and> sdk_approvals db = []"

lemmas rows_keep = rows_accounts rows_tokens rows_keys rows_approval rows_operators rows_sdk rows_update_sdk

lemma rows_step: "office_step db db' \<Longrightarrow> rows_ok db \<Longrightarrow> rows_ok db'"
  by (erule office_step.cases) (blast dest: rows_cong keepsD [OF rows_accounts(1)] rows_keep [THEN keepsD])+

lemmas refs_keep = tokens_refs operators_refs

lemma refs_step: "office_step db db' \<Longrightarrow> references_ok db \<Longrightarrow> references_ok db'"
  by (erule office_step.cases)
     (blast dest: references_cong signup_refs login_refs resend_refs request_reset_refs oauth_refs create_key_refs approve_refs
        operator_resend_refs refs_keep [THEN keepsD])+

interpretation office: transition_system office_empty office_step office_inv
proof
  show "office_inv db" if "office_empty db" for db :: "'z admin_db_scheme"
    using that by (simp add: office_empty_def office_inv_def row_simps references_ok_def referenced_users_def)
  show "office_inv db'" if "office_inv db" "office_step db db'" for db db' :: "'z admin_db_scheme"
    using that rows_step refs_step unfolding office_inv_def by blast
qed

section \<open>What no step takes back\<close>

text \<open>
  Every row of the old table is still in the new one, with the same fixed fields, and has ended if it had ended: a
  revoked session, key or operator stays revoked, a consumed token stays consumed, a verified address stays verified.
\<close>

definition lasting :: "('r \<Rightarrow> 'k) \<Rightarrow> ('r \<Rightarrow> bool) \<Rightarrow> 'r list \<Rightarrow> 'r list \<Rightarrow> bool" where
  "lasting fixed ended old new \<longleftrightarrow> (\<forall>x \<in> set old. \<exists>y \<in> set new. fixed x = fixed y \<and> (ended x \<longrightarrow> ended y))"

lemma lasting_refl [simp]: "lasting fixed ended rows rows"
  by (auto simp: lasting_def)

lemma lasting_append [simp]: "lasting fixed ended old new \<Longrightarrow> lasting fixed ended old (new @ rows)"
  by (fastforce simp: lasting_def)

lemma lasting_update [simp]:
  assumes "lasting fixed ended old new" "\<And>r. p r \<Longrightarrow> fixed (f r) = fixed r" "\<And>r. p r \<Longrightarrow> ended r \<Longrightarrow> ended (f r)"
  shows "lasting fixed ended old (update_where p f new)"
proof -
  have "\<exists>y \<in> set (update_where p f new). fixed x = fixed y \<and> (ended x \<longrightarrow> ended y)" if "x \<in> set old" for x
  proof -
    from assms(1) that obtain y where y: "y \<in> set new" "fixed x = fixed y" "ended x \<longrightarrow> ended y" by (auto simp: lasting_def)
    have "(if p y then f y else y) \<in> set (update_where p f new)" using y(1) by (auto simp: set_update_where)
    with y assms(2,3) show ?thesis by (intro bexI [of _ "if p y then f y else y"]) auto
  qed
  then show ?thesis by (simp add: lasting_def)
qed

definition session_fixed :: "user_session \<Rightarrow> string \<times> uuid \<times> timestamp" where
  "session_fixed w = (ws_token_hash w, ws_user_id w, ws_expires_at w)"

definition key_fixed :: "api_key \<Rightarrow> uuid \<times> uuid \<times> string \<times> string" where
  "key_fixed k = (ak_id k, ak_user_id k, ak_prefix k, ak_hash k)"

definition operator_fixed :: "operator \<Rightarrow> uuid \<times> string" where
  "operator_fixed p = (op_id p, op_email p)"

definition verification_fixed :: "user_email_verification \<Rightarrow> uuid \<times> uuid \<times> string \<times> timestamp" where
  "verification_fixed v = (uv_id v, uv_user_id v, uv_token_hash v, uv_expires_at v)"

definition reset_fixed :: "user_password_reset \<Rightarrow> uuid \<times> uuid \<times> string \<times> timestamp" where
  "reset_fixed v = (upr_id v, upr_user_id v, upr_token_hash v, upr_expires_at v)"

definition user_fixed :: "user \<Rightarrow> uuid \<times> string" where
  "user_fixed u = (us_id u, us_email u)"

definition outlives :: "'z admin_db_scheme \<Rightarrow> 'z admin_db_scheme \<Rightarrow> bool" where
  "outlives old db \<longleftrightarrow>
     lasting session_fixed (\<lambda>w. ws_revoked_at w \<noteq> None) (web_sessions old) (web_sessions db) \<and>
     lasting key_fixed (\<lambda>k. ak_revoked_at k \<noteq> None) (api_keys old) (api_keys db) \<and>
     lasting operator_fixed (\<lambda>p. op_revoked_at p \<noteq> None) (operators old) (operators db) \<and>
     lasting verification_fixed (\<lambda>v. uv_consumed_at v \<noteq> None) (verifications old) (verifications db) \<and>
     lasting reset_fixed (\<lambda>v. upr_consumed_at v \<noteq> None) (resets old) (resets db) \<and>
     lasting user_fixed (\<lambda>u. us_email_verified_at u \<noteq> None) (users old) (users db)"

lemmas fixed_defs = session_fixed_def key_fixed_def operator_fixed_def verification_fixed_def reset_fixed_def user_fixed_def

lemma outlives_cong: "clearing_db.more db' = clearing_db.more db \<Longrightarrow> outlives old db' = outlives old db"
  by (cases db, cases db') (simp add: outlives_def)

lemma outlives_primitives [office_keeps]:
  "keeps (outlives old) (insert_user u)" "keeps (outlives old) (insert_identity i)"
  "keeps (outlives old) (add_web_session h k t now)" "keeps (outlives old) (insert_operator p)"
  "keeps (outlives old) (add_audit a b c d)" "keeps (outlives old) (grant_initial_credit t k n q)"
  "keeps (outlives old) (send_and_record send k message w now)"
  unfolding insert_user_def insert_identity_def insert_operator_def add_web_session_def add_audit_def send_and_record_def
    record_email_send_def Let_def
  by (auto intro!: keeps_rules keeps_insert_row keeps_modify keeps_grant outlives_cong simp: outlives_def)

lemma outlives_set_user [office_keeps]:
  "(\<And>u. us_id (f u) = us_id u \<and> us_email (f u) = us_email u) \<Longrightarrow>
   (\<And>u. us_email_verified_at u \<noteq> None \<Longrightarrow> us_email_verified_at (f u) \<noteq> None) \<Longrightarrow> keeps (outlives old) (modify (set_user k f))"
  by (rule keeps_modify) (simp add: outlives_def set_user_def user_fixed_def)

lemma outlives_set_operator [office_keeps]:
  "(\<And>p. op_id (f p) = op_id p \<and> op_email (f p) = op_email p) \<Longrightarrow>
   (\<And>p. op_revoked_at p \<noteq> None \<Longrightarrow> op_revoked_at (f p) \<noteq> None) \<Longrightarrow> keeps (outlives old) (modify (set_operator k f))"
  by (rule keeps_modify) (simp add: outlives_def set_operator_def operator_fixed_def)

lemma outlives_send_verification [office_keeps]: "keeps (outlives old) (send_verification_email h send url r k t u now)"
  unfolding send_verification_email_def Let_def by (intro keeps_rules office_keeps keeps_insert_row) (simp add: outlives_def)

lemma outlives_find_or_link [office_keeps]: "keeps (outlives old) (find_or_link_user u pv pu e v now)"
  unfolding find_or_link_user_def Let_def by (intro keeps_rules office_keeps) (auto simp: mark_verified_def)

lemma outlives_accounts:
  "keeps (outlives old) (signup h ph send url u r k t e p now)"
  "keeps (outlives old) (login h pv t e p now)"
  "keeps (outlives old) (request_resend_verification h send url r k t e now)"
  "keeps (outlives old) (oauth_callback h seal u t provider profile now)"
  "keeps (outlives old) (resend_verification h send url r k t u q now)"
  unfolding signup_def login_def request_resend_verification_def oauth_callback_def resend_verification_def Let_def
  by (intro keeps_rules office_keeps)+

lemma outlives_tokens:
  "keeps (outlives old) (verify_email h t now)"
  "keeps (outlives old) (revoke_session h t now)"
  "keeps (outlives old) (request_password_reset h send url r k t e now)"
  "keeps (outlives old) (reset_password h ph t p now)"
  "keeps (outlives old) (create_api_key h k random u label pepper)"
  "keeps (outlives old) (revoke_api_key u k now)"
  "keeps (outlives old) (validate_raw_key h raw pepper now)"
  unfolding verify_email_def revoke_session_def request_password_reset_def reset_password_def create_api_key_def
    revoke_api_key_def validate_raw_key_def Let_def
  by ((intro keeps_rules office_keeps keeps_modify keeps_insert_row;
      simp add: outlives_def fixed_defs revoke_all_sessions_def)+)

lemma outlives_approval: "keeps (outlives old) (approve_user tu k u p now credit send url)"
  unfolding approve_user_def notify_approval_def Let_def
  by (intro keeps_rules office_keeps keeps_modify) (auto simp: outlives_def intro: keeps_rules office_keeps split: option.splits)

lemma outlives_operators:
  "keeps (outlives old) (ensure_bootstrap_operator h k t)"
  "keeps (outlives old) (create_operator h k random p e n role)"
  "keeps (outlives old) (update_operator p k name role')"
  "keeps (outlives old) (revoke_operator p k now)"
  "keeps (outlives old) (rotate_operator_token h random p k)"
  "keeps (outlives old) (create_sdk_approval k p lang version sha status notes)"
  "keeps (outlives old) (update_sdk_approval p k status' notes)"
  "keeps (outlives old) (delete_sdk_approval p k)"
  unfolding ensure_bootstrap_operator_def create_operator_def update_operator_def revoke_operator_def
    rotate_operator_token_def generate_operator_token_def create_sdk_approval_def update_sdk_approval_def
    delete_sdk_approval_def Let_def
  by ((intro keeps_rules office_keeps keeps_modify keeps_insert_row; simp add: updated_operator_def outlives_def)+)

lemmas outlives_keep = outlives_accounts outlives_tokens outlives_approval outlives_operators

lemma outlives_self: "outlives db db"
  by (simp add: outlives_def)

lemma outlives_trans: "office_step db db' \<Longrightarrow> outlives old db \<Longrightarrow> outlives old db'"
  by (erule office_step.cases) (blast dest: outlives_cong outlives_keep [THEN keepsD])+

lemma outlives_step: "office_step db db' \<Longrightarrow> outlives db db'"
  using outlives_trans outlives_self by blast

lemma lasting_find:
  assumes "lasting fixed ended old new" "distinct (map key new)" "\<And>x y. fixed x = fixed y \<Longrightarrow> key x = key y"
    and "find (\<lambda>r. key r = k) old = Some r"
  shows "\<exists>r'. find (\<lambda>r. key r = k) new = Some r' \<and> fixed r = fixed r' \<and> (ended r \<longrightarrow> ended r')"
proof -
  from find_SomeD [OF assms(4)] have r: "r \<in> set old" "key r = k" by simp_all
  with assms(1) obtain y where y: "y \<in> set new" "fixed r = fixed y" "ended r \<longrightarrow> ended y" by (auto simp: lasting_def)
  with assms(3) r(2) have "key y = k" by metis
  with find_key_unique [OF assms(2) y(1)] y show ?thesis by auto
qed

interpretation web_sessions: monotone_rows office_empty office_step office_inv find_web_session
  "\<lambda>w w'. session_fixed w = session_fixed w' \<and> (ws_revoked_at w \<noteq> None \<longrightarrow> ws_revoked_at w' \<noteq> None)"
proof
  fix db db' :: "'z admin_db_scheme" and k r
  assume inv: "office_inv db" and step: "office_step db db'" and row: "find_web_session db k = Some r"
  have "distinct (map ws_token_hash (web_sessions db'))"
    using office.inv_step [OF inv step] by (simp add: office_inv_def row_simps)
  with lasting_find [where key = ws_token_hash] outlives_step [OF step] row
  show "\<exists>r'. find_web_session db' k = Some r' \<and> session_fixed r = session_fixed r' \<and> (ws_revoked_at r \<noteq> None \<longrightarrow> ws_revoked_at r' \<noteq> None)"
    by (force simp: outlives_def find_web_session_def session_fixed_def)
qed auto

interpretation key_rows: monotone_rows office_empty office_step office_inv
  "\<lambda>db k. find (\<lambda>r. ak_id r = k) (api_keys db)"
  "\<lambda>r r'. key_fixed r = key_fixed r' \<and> (ak_revoked_at r \<noteq> None \<longrightarrow> ak_revoked_at r' \<noteq> None)"
proof
  fix db db' :: "'z admin_db_scheme" and k r
  assume inv: "office_inv db" and step: "office_step db db'" and row: "find (\<lambda>r. ak_id r = k) (api_keys db) = Some r"
  have "distinct (map ak_id (api_keys db'))"
    using office.inv_step [OF inv step] by (simp add: office_inv_def row_simps)
  with lasting_find [where key = ak_id] outlives_step [OF step] row
  show "\<exists>r'. find (\<lambda>r. ak_id r = k) (api_keys db') = Some r' \<and> key_fixed r = key_fixed r' \<and> (ak_revoked_at r \<noteq> None \<longrightarrow> ak_revoked_at r' \<noteq> None)"
    by (force simp: outlives_def key_fixed_def)
qed auto

interpretation operator_rows: monotone_rows office_empty office_step office_inv get_operator
  "\<lambda>p p'. operator_fixed p = operator_fixed p' \<and> (op_revoked_at p \<noteq> None \<longrightarrow> op_revoked_at p' \<noteq> None)"
proof
  fix db db' :: "'z admin_db_scheme" and k p
  assume inv: "office_inv db" and step: "office_step db db'" and row: "get_operator db k = Some p"
  have "distinct (map op_id (operators db'))"
    using office.inv_step [OF inv step] by (simp add: office_inv_def row_simps)
  with lasting_find [where key = op_id] outlives_step [OF step] row
  show "\<exists>p'. get_operator db' k = Some p' \<and> operator_fixed p = operator_fixed p' \<and> (op_revoked_at p \<noteq> None \<longrightarrow> op_revoked_at p' \<noteq> None)"
    by (force simp: outlives_def operator_fixed_def get_operator_def)
qed auto

section \<open>The last owner\<close>

definition has_owner :: "'z admin_db_scheme \<Rightarrow> bool" where
  "has_owner db \<longleftrightarrow> (\<exists>p \<in> set (operators db). active_owner p)"

lemma owner_cong: "clearing_db.more db' = clearing_db.more db \<Longrightarrow> has_owner db' = has_owner db"
  by (cases db, cases db') (simp add: has_owner_def)

lemma owner_primitives [office_keeps]:
  "keeps has_owner (insert_user u)" "keeps has_owner (insert_identity i)"
  "keeps has_owner (add_web_session h k t now)" "keeps has_owner (insert_operator p)"
  "keeps has_owner (add_audit a b c d)" "keeps has_owner (grant_initial_credit t k n q)"
  "keeps has_owner (send_and_record send k message w now)" "keeps has_owner (modify (set_user k f))"
  unfolding insert_user_def insert_identity_def insert_operator_def add_web_session_def add_audit_def send_and_record_def
    record_email_send_def set_user_def Let_def
  by (auto intro!: keeps_rules keeps_insert_row keeps_modify keeps_grant owner_cong simp: has_owner_def)

lemma set_operator_row: "p \<in> set (operators db) \<Longrightarrow> (if op_id p = k then f p else p) \<in> set (operators (set_operator k f db))"
  by (auto simp: set_operator_def set_update_where)

lemma owner_token [office_keeps]: "keeps has_owner (modify (set_operator k (\<lambda>p. p\<lparr>op_token_hash := t\<rparr>)))"
proof (rule keeps_modify)
  fix db :: "'z admin_db_scheme"
  assume "has_owner db"
  then obtain p where "p \<in> set (operators db)" "active_owner p" by (auto simp: has_owner_def)
  with set_operator_row [of p db k "\<lambda>p. p\<lparr>op_token_hash := t\<rparr>"]
  show "has_owner (set_operator k (\<lambda>p. p\<lparr>op_token_hash := t\<rparr>) db)"
    by (auto simp: has_owner_def active_owner_def split: if_splits intro: bexI [rotated])
qed

lemma owner_send_verification [office_keeps]: "keeps has_owner (send_verification_email h send url r k t u now)"
  unfolding send_verification_email_def Let_def by (intro keeps_rules office_keeps keeps_insert_row) (simp add: has_owner_def)

lemma owner_find_or_link [office_keeps]: "keeps has_owner (find_or_link_user u pv pu e v now)"
  unfolding find_or_link_user_def Let_def by (intro keeps_rules office_keeps)

lemma owner_accounts:
  "keeps has_owner (signup h ph send url u r k t e p now)"
  "keeps has_owner (login h pv t e p now)"
  "keeps has_owner (request_resend_verification h send url r k t e now)"
  "keeps has_owner (oauth_callback h seal u t provider profile now)"
  "keeps has_owner (resend_verification h send url r k t u q now)"
  unfolding signup_def login_def request_resend_verification_def oauth_callback_def resend_verification_def Let_def
  by (intro keeps_rules office_keeps)+

lemma owner_tokens:
  "keeps has_owner (verify_email h t now)"
  "keeps has_owner (revoke_session h t now)"
  "keeps has_owner (request_password_reset h send url r k t e now)"
  "keeps has_owner (reset_password h ph t p now)"
  "keeps has_owner (create_api_key h k random u label pepper)"
  "keeps has_owner (revoke_api_key u k now)"
  "keeps has_owner (validate_raw_key h raw pepper now)"
  unfolding verify_email_def revoke_session_def request_password_reset_def reset_password_def create_api_key_def
    revoke_api_key_def validate_raw_key_def Let_def
  by ((intro keeps_rules office_keeps keeps_modify keeps_insert_row; simp add: has_owner_def revoke_all_sessions_def)+)

lemma owner_approval: "keeps has_owner (approve_user tu k u p now credit send url)"
  unfolding approve_user_def notify_approval_def Let_def
  by (intro keeps_rules office_keeps keeps_modify) (auto simp: has_owner_def intro: keeps_rules office_keeps split: option.splits)

lemma owner_operators:
  "keeps has_owner (ensure_bootstrap_operator h k t)"
  "keeps has_owner (create_operator h k random p e n role)"
  "keeps has_owner (rotate_operator_token h random p k)"
  "keeps has_owner (create_sdk_approval k p lang version sha status notes)"
  "keeps has_owner (update_sdk_approval p k status' notes)"
  "keeps has_owner (delete_sdk_approval p k)"
  unfolding ensure_bootstrap_operator_def create_operator_def
    rotate_operator_token_def generate_operator_token_def create_sdk_approval_def update_sdk_approval_def
    delete_sdk_approval_def Let_def
  by ((intro keeps_rules office_keeps keeps_modify keeps_insert_row; simp add: has_owner_def)+)

lemma another_owner:
  assumes "distinct (map op_id ps)" "1 < length (filter active_owner ps)"
  shows "\<exists>p \<in> set ps. active_owner p \<and> op_id p \<noteq> k"
proof (rule ccontr)
  assume "\<not> ?thesis"
  then have "set (map op_id (filter active_owner ps)) \<subseteq> {k}" by auto
  moreover have "distinct (map op_id (filter active_owner ps))" using assms(1) by (simp add: distinct_map_filter)
  ultimately have "length (map op_id (filter active_owner ps)) \<le> 1"
    by (metis card_mono card.empty card_insert_disjoint distinct_card empty_iff finite.intros One_nat_def)
  with assms(2) show False by simp
qed

lemma owner_set_operator:
  assumes "rows_ok db" "has_owner db" "get_operator db k = Some target"
    and "active_owner target \<longrightarrow> active_owner (f target) \<or> 1 < count_active_owners db" "op_id (f target) = k"
  shows "has_owner (set_operator k f db)"
proof (cases "\<exists>p \<in> set (operators db). active_owner p \<and> op_id p \<noteq> k")
  case True
  then show ?thesis by (auto simp: has_owner_def set_operator_def set_update_where intro!: rev_bexI)
next
  case False
  have d: "distinct (map op_id (operators db))" using assms(1) by (simp add: row_simps)
  from find_SomeD [OF assms(3) [unfolded get_operator_def]] have t: "target \<in> set (operators db)" "op_id target = k" by simp_all
  have "p = target" if "p \<in> set (operators db)" "op_id p = k" for p using d that t by (metis distinct_map inj_onD)
  with False assms(2) have "active_owner target" by (auto simp: has_owner_def)
  moreover have "\<not> 1 < count_active_owners db" using another_owner [OF d, of k] False by (auto simp: count_active_owners_def)
  ultimately have "active_owner (f target)" using assms(4) by simp
  with set_operator_row [OF t(1), of k f] t(2) show ?thesis by (auto simp: has_owner_def)
qed

lemma owner_update:
  assumes "update_operator p k name role db = (Inr q, db')" "rows_ok db" "has_owner db"
  shows "has_owner db'"
proof -
  from assms(1) obtain target where t: "get_operator db k = Some target"
    and guard: "\<not> (role \<noteq> None \<and> the role \<noteq> ''owner'' \<and> op_role target = ''owner'' \<and> op_revoked_at target = None \<and> count_active_owners db \<le> 1)"
    and ops: "operators db' = operators (set_operator k (updated_operator name role) db)"
    by (auto simp: update_operator_def op_iff add_audit_def split: option.splits if_splits)
  have "op_id (updated_operator name role target) = k"
    using find_SomeD [OF t [unfolded get_operator_def]] by (simp add: updated_operator_def)
  moreover have "active_owner target \<longrightarrow> active_owner (updated_operator name role target) \<or> 1 < count_active_owners db"
    using guard by (auto simp: active_owner_def updated_operator_def or_default_def split: option.splits)
  ultimately show ?thesis using owner_set_operator [OF assms(2,3) t] ops by (simp add: has_owner_def)
qed

lemma owner_revoke:
  assumes "revoke_operator p k now db = (Inr q, db')" "rows_ok db" "has_owner db"
  shows "has_owner db'"
proof (cases "db' = db")
  case False
  with assms(1) obtain target where t: "get_operator db k = Some target"
    and guard: "\<not> (op_role target = ''owner'' \<and> count_active_owners db \<le> 1)"
    and ops: "operators db' = operators (set_operator k (\<lambda>p. p\<lparr>op_revoked_at := Some now\<rparr>) db)"
    by (auto simp: revoke_operator_def op_iff add_audit_def split: option.splits if_splits)
  have "op_id (target\<lparr>op_revoked_at := Some now\<rparr>) = k" using find_SomeD [OF t [unfolded get_operator_def]] by simp
  moreover have "active_owner target \<longrightarrow> active_owner (target\<lparr>op_revoked_at := Some now\<rparr>) \<or> 1 < count_active_owners db"
    using guard by (auto simp: active_owner_def)
  ultimately show ?thesis using owner_set_operator [OF assms(2,3) t] ops by (simp add: has_owner_def)
qed (use assms(3) in simp)

lemmas owner_keep = owner_accounts owner_tokens owner_approval owner_operators

lemma owner_step: "office_step db db' \<Longrightarrow> rows_ok db \<Longrightarrow> has_owner db \<Longrightarrow> has_owner db'"
  by (erule office_step.cases) (blast dest: owner_cong owner_update owner_revoke owner_keep [THEN keepsD])+

interpretation owned: transition_system "\<lambda>db. office_inv db \<and> has_owner db" office_step "\<lambda>db. office_inv db \<and> has_owner db"
  by unfold_locales (auto intro: office.inv_step owner_step rows_step refs_step simp: office_inv_def)

end
