(* ===== verification/Office_Example.thy ===== *)
theory Office_Example
  imports Office_Laws
begin

text \<open>
  A concrete back office: the bootstrap operator, a customer who signs up, verifies, logs in, creates a key and resets
  the password, and a member operator who is created and revoked. The digest keeps a text, the password hash marks it.
\<close>

definition mark_hash :: "string \<Rightarrow> string" where
  "mark_hash p = CHR ''*'' # p"

definition mark_verify :: "string \<Rightarrow> string \<Rightarrow> bool" where
  "mark_verify p stored \<longleftrightarrow> stored = mark_hash p"

definition quiet_mail :: email_provider where
  "quiet_mail message = Inr None"

definition office_start :: admin_db where
  "office_start = \<lparr>server_now = 0, balances = [], ledger = [], topups = [], windows = [], configs = [],
     accounts = [], fundings = [], budgets = [], sessions = [], settlements = [], grants = [],
     payments = [], create_requests = [], deposits = [], audits = [],
     users = [], verifications = [], resets = [], identities = [], web_sessions = [], approvals = [], api_keys = [],
     email_sends = [], operators = [], sdk_approvals = []\<rparr>"

definition boss :: operator where
  "boss = \<lparr>op_id = ''o1'', op_email = BOOTSTRAP_OPERATOR_EMAIL, op_name = BOOTSTRAP_OPERATOR_NAME, op_token_hash = ''boot'',
     op_role = ''owner'', op_revoked_at = None\<rparr>"

definition helper :: operator where
  "helper = \<lparr>op_id = ''o2'', op_email = ''h'', op_name = ''Helper'', op_token_hash = ''loc_op_x'', op_role = ''member'',
     op_revoked_at = None\<rparr>"

definition alice :: user where
  "alice = \<lparr>us_id = ''u1'', us_email = ''a'', us_email_verified_at = None, us_password_hash = Some ''*pw''\<rparr>"

definition alice_token :: user_email_verification where
  "alice_token = \<lparr>uv_id = ''v1'', uv_user_id = ''u1'', uv_token_hash = ''t1'', uv_expires_at = 5 + EMAIL_VERIFICATION_TTL,
     uv_consumed_at = None\<rparr>"

definition alice_session :: user_session where
  "alice_session = \<lparr>ws_user_id = ''u1'', ws_token_hash = ''t2'', ws_expires_at = 7 + SESSION_TTL, ws_revoked_at = None\<rparr>"

definition alice_key :: api_key where
  "alice_key = \<lparr>ak_id = ''k1'', ak_user_id = ''u1'', ak_prefix = ''pymth_live_abcdefgh'', ak_hash = ''ppymth_live_abcdefgh'',
     ak_label = ''main'', ak_last_used_at = None, ak_revoked_at = None, ak_created_at = 0\<rparr>"

definition mail_of :: "string \<Rightarrow> string \<Rightarrow> timestamp \<Rightarrow> email_send" where
  "mail_of send_id subject now = \<lparr>es_id = send_id, es_user_id = Some ''u1'', es_to_address = ''a'', es_subject = subject,
     es_provider_message_id = None, es_status = ''sent'', es_sent_at = now\<rparr>"

definition office_booted :: admin_db where
  "office_booted = office_start\<lparr>operators := [boss]\<rparr>"

definition office_signed :: admin_db where
  "office_signed = office_booted\<lparr>users := [alice], verifications := [alice_token],
     email_sends := [mail_of ''m1'' (''Verify your '' @ BRAND @ '' account'') 5]\<rparr>"

definition office_verified :: admin_db where
  "office_verified = office_signed\<lparr>users := [alice\<lparr>us_email_verified_at := Some 6\<rparr>],
     verifications := [alice_token\<lparr>uv_consumed_at := Some 6\<rparr>]\<rparr>"

definition office_logged :: admin_db where
  "office_logged = office_verified\<lparr>web_sessions := [alice_session]\<rparr>"

definition office_keyed :: admin_db where
  "office_keyed = office_logged\<lparr>api_keys := [alice_key]\<rparr>"

definition alice_reset :: user_password_reset where
  "alice_reset = \<lparr>upr_id = ''p1'', upr_user_id = ''u1'', upr_token_hash = ''t3'', upr_expires_at = 8 + PASSWORD_RESET_TTL,
     upr_consumed_at = None\<rparr>"

definition office_forgot :: admin_db where
  "office_forgot = office_keyed\<lparr>resets := [alice_reset],
     email_sends := email_sends office_keyed @ [mail_of ''m2'' (''Reset your '' @ BRAND @ '' password'') 8]\<rparr>"

definition office_revoked :: admin_db where
  "office_revoked = office_forgot\<lparr>web_sessions := [alice_session\<lparr>ws_revoked_at := Some 9\<rparr>],
     api_keys := [alice_key\<lparr>ak_revoked_at := Some 9\<rparr>], operators := [boss, helper\<lparr>op_revoked_at := Some 9\<rparr>],
     audits := [\<lparr>oa_operator_id = ''o1'', oa_action = ''create_operator'', oa_target_user_id = None,
         oa_params = Some [(''new_operator_id'', JStr ''o2''), (''email'', JStr ''h''), (''role'', JStr ''member'')]\<rparr>,
       \<lparr>oa_operator_id = ''o1'', oa_action = ''revoke_operator'', oa_target_user_id = None,
         oa_params = Some [(''target_operator_id'', JStr ''o2'')]\<rparr>]\<rparr>"

lemmas office_states = office_start_def office_booted_def office_signed_def office_verified_def office_logged_def
  office_keyed_def office_forgot_def

lemmas office_rows = boss_def helper_def alice_def alice_token_def alice_session_def alice_key_def alice_reset_def

lemma subjects:
  "em_subject (verification_email a l) = ''Verify your '' @ BRAND @ '' account''" "em_to (verification_email a l) = a"
  "em_subject (password_reset_email a l n) = ''Reset your '' @ BRAND @ '' password''" "em_to (password_reset_email a l n) = a"
  by (simp_all add: verification_email_def password_reset_email_def make_message_def Let_def)

lemma office_start_ok: "office_empty office_start"
  by (simp add: office_empty_def office_start_def)

lemma booted: "ensure_bootstrap_operator id ''o1'' ''boot'' office_start = (Inr boss, office_booted)"
  by (simp add: ensure_bootstrap_operator_def operator_by_email_def insert_operator_def Let_def ret_iff office_states boss_def)

lemma signed: "signup id mark_hash quiet_mail ''http'' ''u1'' ''v1'' ''m1'' ''t1'' ''a'' ''pw'' 5 office_booted = (Inr alice, office_signed)"
  by (simp add: signup_def user_by_email_def insert_user_def send_verification_email_def send_and_record_def record_email_send_def
      quiet_mail_def Let_def bind_assoc ret_iff office_states office_rows mark_hash_def subjects mail_of_def)

lemma verified: "verify_email id ''t1'' 6 office_signed = (Inr (alice\<lparr>us_email_verified_at := Some 6\<rparr>), office_verified)"
  by (simp add: verify_email_def find_verification_def get_user_def set_user_def ret_iff office_states office_rows EMAIL_VERIFICATION_TTL_def)

lemma logged: "login id mark_verify ''t2'' ''a'' ''pw'' 7 office_verified = (Inr (alice\<lparr>us_email_verified_at := Some 6\<rparr>, ''t2''), office_logged)"
  by (simp add: login_def user_by_email_def add_web_session_def Let_def ret_iff office_states office_rows mark_verify_def mark_hash_def)

lemma keyed: "create_api_key id ''k1'' ''abcdefgh'' ''u1'' ''main'' ''p'' office_logged = (Inr (alice_key, ''pymth_live_abcdefgh''), office_keyed)"
  by (simp add: create_api_key_def Let_def ret_iff office_states office_rows generate_key_def key_prefix_def key_hash_def
      KEY_BRAND_def KEY_PREFIX_LEN_def KEY_RANDOM_LEN_def)

lemma forgot: "request_password_reset id quiet_mail ''http'' ''p1'' ''m2'' ''t3'' ''a'' 8 office_keyed = (Inr (), office_forgot)"
  by (simp add: request_password_reset_def user_by_email_def send_and_record_def record_email_send_def
      quiet_mail_def Let_def bind_assoc ret_iff office_states office_rows subjects mail_of_def)

lemma revocations:
  "office_step\<^sup>*\<^sup>* office_forgot office_revoked"
proof -
  let ?d1 = "office_forgot\<lparr>web_sessions := [alice_session\<lparr>ws_revoked_at := Some 9\<rparr>]\<rparr>"
  let ?d2 = "?d1\<lparr>api_keys := [alice_key\<lparr>ak_revoked_at := Some 9\<rparr>]\<rparr>"
  let ?d3 = "?d2\<lparr>operators := [boss, helper], audits := [\<lparr>oa_operator_id = ''o1'', oa_action = ''create_operator'', oa_target_user_id = None,
         oa_params = Some [(''new_operator_id'', JStr ''o2''), (''email'', JStr ''h''), (''role'', JStr ''member'')]\<rparr>]\<rparr>"
  have "revoke_session id ''t2'' 9 office_forgot = (Inr (), ?d1)"
    by (simp add: revoke_session_def find_web_session_def modify_def office_states office_rows)
  moreover have "revoke_api_key ''u1'' ''k1'' 9 ?d1 = (Inr (alice_key\<lparr>ak_revoked_at := Some 9\<rparr>), ?d2)"
    by (simp add: revoke_api_key_def ret_iff office_states office_rows)
  moreover have "create_operator id ''o2'' ''x'' boss ''h'' ''Helper'' ''member'' ?d2 = (Inr (helper, ''loc_op_x''), ?d3)"
    by (simp add: create_operator_def OPERATOR_ROLES_def operator_by_email_def generate_operator_token_def OPERATOR_TOKEN_PREFIX_def
        insert_operator_def add_audit_def Let_def ret_iff office_states office_rows BOOTSTRAP_OPERATOR_EMAIL_def)
  moreover have "revoke_operator boss ''o2'' 9 ?d3 = (Inr (helper\<lparr>op_revoked_at := Some 9\<rparr>), office_revoked)"
    by (simp add: revoke_operator_def get_operator_def set_operator_def add_audit_def ret_iff office_revoked_def office_states office_rows)
  ultimately show ?thesis
    by (meson converse_rtranclp_into_rtranclp rtranclp.rtrancl_refl os_revoke_session os_revoke_key os_create_operator os_revoke_operator)
qed

lemma office_path:
  "office_step\<^sup>*\<^sup>* office_start office_booted" "office_step\<^sup>*\<^sup>* office_start office_signed"
  "office_step\<^sup>*\<^sup>* office_start office_logged" "office_step\<^sup>*\<^sup>* office_start office_forgot"
  "office_step\<^sup>*\<^sup>* office_start office_revoked"
proof -
  show b: "office_step\<^sup>*\<^sup>* office_start office_booted" using booted os_bootstrap by blast
  then show s: "office_step\<^sup>*\<^sup>* office_start office_signed" using signed os_signup by (meson rtranclp.rtrancl_into_rtrancl)
  then show l: "office_step\<^sup>*\<^sup>* office_start office_logged"
    using verified logged os_verify os_login by (meson rtranclp.rtrancl_into_rtrancl)
  then show f: "office_step\<^sup>*\<^sup>* office_start office_forgot"
    using keyed forgot os_create_key os_request_reset by (meson rtranclp.rtrancl_into_rtrancl)
  with revocations show "office_step\<^sup>*\<^sup>* office_start office_revoked" by simp
qed

end
