(* ===== verification/Office_Properties.thy ===== *)
theory Office_Properties
  imports Office_Example Billing_Laws
begin

text \<open>
  What accounts, API keys and operators promise: well-formed tables, revocation that no later request takes back,
  the way from a signup to a session, a password reset that locks everybody out, one credit per approval, an owner
  who always remains.
\<close>

section \<open>Lookups in well-formed tables\<close>

lemma inv_rows: "office_inv db \<Longrightarrow> unique_keys db" "office_inv db \<Longrightarrow> known_values db" "office_inv db \<Longrightarrow> references_ok db"
  by (simp_all add: office_inv_def rows_ok_def)

lemma get_user_in: "unique_keys db \<Longrightarrow> u \<in> set (users db) \<Longrightarrow> get_user db (us_id u) = Some u"
  by (auto simp: unique_keys_def get_user_def intro: find_key_unique)

lemma by_email_in: "unique_keys db \<Longrightarrow> u \<in> set (users db) \<Longrightarrow> user_by_email db (us_email u) = Some u"
  by (auto simp: unique_keys_def user_by_email_def intro: find_key_unique)

lemma session_in: "unique_keys db \<Longrightarrow> w \<in> set (web_sessions db) \<Longrightarrow> find_web_session db (ws_token_hash w) = Some w"
  by (auto simp: unique_keys_def find_web_session_def intro: find_key_unique)

lemma get_user_set:
  "(\<And>u. us_id (f u) = us_id u) \<Longrightarrow> get_user (set_user k f db) j = map_option (\<lambda>u. if j = k then f u else u) (get_user db j)"
  by (cases "j = k") (auto simp: get_user_def set_user_def find_update_where_same option.map_ident intro!: find_update_where_other)

lemma resolve_session_iff:
  "resolve_session h t now db = Some u \<longleftrightarrow>
     (\<exists>w. find_web_session db (h t) = Some w \<and> ws_revoked_at w = None \<and> now \<le> ws_expires_at w \<and> get_user db (ws_user_id w) = Some u)"
  by (auto simp: resolve_session_def not_less split: option.splits)

section \<open>The tables\<close>

text \<open>C33. From empty tables, whatever accounts, API keys and operators do and whatever the rest of the program does in
  between: no two users share an address, no two sessions a token hash, no two API keys a prefix, no two operators an
  address; a customer has at most one active approval; every verification, reset, session, key, linked identity and
  approval belongs to a user who exists; and the role of an operator is one of the two known ones.\<close>

theorem office_tables_wellformed:
  assumes "office_empty db0" "office_step\<^sup>*\<^sup>* db0 db"
  shows "distinct (map us_email (users db)) \<and> distinct (map ws_token_hash (web_sessions db)) \<and>
    distinct (map ak_prefix (api_keys db)) \<and> distinct (map op_email (operators db)) \<and>
    (\<forall>u. length (filter (\<lambda>a. ap_user_id a = u \<and> ap_revoked_at a = None) (approvals db)) \<le> 1) \<and>
    (\<forall>u \<in> referenced_users db. \<exists>v. get_user db u = Some v) \<and>
    (\<forall>p \<in> set (operators db). op_role p = ''owner'' \<or> op_role p = ''member'')"
proof -
  have inv: "office_inv db" using office.inv_reachable assms .
  note rows = inv_rows [OF inv]
  have "length (filter (\<lambda>a. ap_user_id a = u \<and> ap_revoked_at a = None) (approvals db)) \<le> 1" for u
  proof -
    have "distinct (map ap_user_id (filter (\<lambda>a. ap_revoked_at a = None) (approvals db)))"
      using rows(3) by (simp add: references_ok_def)
    then have "distinct (filter (\<lambda>x. x = u) (map ap_user_id (filter (\<lambda>a. ap_revoked_at a = None) (approvals db))))"
      by (rule distinct_filter)
    moreover have "set (filter (\<lambda>x. x = u) (map ap_user_id (filter (\<lambda>a. ap_revoked_at a = None) (approvals db)))) \<subseteq> {u}" by auto
    ultimately have "length (filter (\<lambda>x. x = u) (map ap_user_id (filter (\<lambda>a. ap_revoked_at a = None) (approvals db)))) \<le> 1"
      by (metis card_mono distinct_card finite.intros card.empty card_insert_disjoint empty_iff One_nat_def)
    then show ?thesis by (simp add: filter_map comp_def conj_commute)
  qed
  moreover have "\<exists>v. get_user db u = Some v" if "u \<in> referenced_users db" for u
  proof -
    from that rows(3) obtain v where "v \<in> set (users db)" "us_id v = u" by (auto simp: references_ok_def)
    then show ?thesis using get_user_in [OF rows(1)] by auto
  qed
  moreover have "\<forall>p \<in> set (operators db). op_role p = ''owner'' \<or> op_role p = ''member''"
    using rows(2) by (auto simp: known_values_def OPERATOR_ROLES_def)
  ultimately show ?thesis using rows(1) by (simp add: unique_keys_def)
qed

theorem office_tables_wellformed_witness:
  "distinct (map us_email (users office_revoked)) \<and> (\<exists>v. get_user office_revoked ''u1'' = Some v)"
proof -
  note T = office_tables_wellformed [OF office_start_ok office_path(5)]
  moreover have "''u1'' \<in> referenced_users office_revoked"
    by (simp add: referenced_users_def office_revoked_def office_states office_rows)
  ultimately show ?thesis by blast
qed

section \<open>Revocation\<close>

text \<open>Once a portal session is revoked, its token never resolves to a user again, in any later state of the
  database and at any time: the dependency of the portal handlers answers 401 to a cookie that carries it.\<close>

theorem revoked_session_never_resolves:
  assumes "office_empty db0" "office_step\<^sup>*\<^sup>* db0 db" "find_web_session db (h t) = Some w" "ws_revoked_at w \<noteq> None"
    and "office_step\<^sup>*\<^sup>* db db'"
  shows "resolve_session h t now db' = None \<and>
    (unseal c = Some t \<longrightarrow> get_session_user h unseal (Some c) now db' = (Inl (HTTPException 401 ''invalid session''), db'))"
proof -
  from web_sessions.row_star [OF assms(5) office.inv_reachable [OF assms(1,2)] assms(3)] assms(4)
  obtain w' where "find_web_session db' (h t) = Some w'" "ws_revoked_at w' \<noteq> None" by blast
  then have "resolve_session h t now db' = None" by (simp add: resolve_session_def)
  then show ?thesis by (simp add: get_session_user_def unauthorized_def raise_def)
qed

theorem revoked_session_never_resolves_witness:
  "resolve_session id ''t2'' 10 office_revoked = None \<and>
   get_session_user id Some (Some ''t2'') 10 office_revoked = (Inl (HTTPException 401 ''invalid session''), office_revoked)"
proof -
  have "find_web_session office_revoked (id ''t2'') = Some (alice_session\<lparr>ws_revoked_at := Some 9\<rparr>)"
    by (simp add: find_web_session_def office_revoked_def office_states office_rows)
  from revoked_session_never_resolves [where h = id, OF office_start_ok office_path(5) this _ rtranclp.rtrancl_refl, of 10 Some "''t2''"]
  show ?thesis by simp
qed

text \<open>C31. Once an API key is revoked, no raw key with its prefix is accepted again, in any later state of the
  database: validation finds nothing and changes nothing, and the dependency of the paid handlers answers 401.\<close>

theorem revoked_key_never_validates:
  assumes "office_empty db0" "office_step\<^sup>*\<^sup>* db0 db" "find (\<lambda>r. ak_id r = k) (api_keys db) = Some key" "ak_revoked_at key \<noteq> None"
    and "office_step\<^sup>*\<^sup>* db db'" "key_prefix raw = ak_prefix key"
  shows "validate_raw_key h raw pepper now db' = (Inr None, db') \<and>
    (raw \<noteq> [] \<longrightarrow> get_current_api_key_and_user h pepper (Some raw) auth now db' = (Inl (HTTPException 401 ''invalid api key''), db'))"
proof -
  from key_rows.row_star [OF assms(5) office.inv_reachable [OF assms(1,2)] assms(3)] assms(4)
  obtain key' where key': "find (\<lambda>r. ak_id r = k) (api_keys db') = Some key'" "key_fixed key = key_fixed key'" "ak_revoked_at key' \<noteq> None"
    by blast
  have "office_step\<^sup>*\<^sup>* db0 db'" using assms(2,5) by simp
  then have "unique_keys db'" using office.inv_reachable assms(1) inv_rows(1) by blast
  then have d: "distinct (map ak_prefix (api_keys db'))" by (simp add: unique_keys_def)
  have mem: "key' \<in> set (api_keys db')" "ak_prefix key' = key_prefix raw"
    using find_SomeD [OF key'(1)] key'(2) assms(6) by (auto simp: key_fixed_def)
  have "\<not> (ak_prefix r = key_prefix raw \<and> ak_revoked_at r = None)" if "r \<in> set (api_keys db')" for r
    using that mem key'(3) d by (metis distinct_map inj_onD)
  then have "find (\<lambda>r. ak_prefix r = key_prefix raw \<and> ak_revoked_at r = None) (api_keys db') = None"
    by (auto simp: find_None_iff)
  then have "validate_raw_key h raw pepper now db' = (Inr None, db')" by (simp add: validate_raw_key_def ret_def)
  then show ?thesis by (simp add: get_current_api_key_and_user_def bind_op_def unauthorized_def raise_def)
qed

theorem revoked_key_never_validates_witness:
  "validate_raw_key id ''pymth_live_abcdefgh'' ''p'' 10 office_revoked = (Inr None, office_revoked)"
proof -
  have key: "find (\<lambda>r. ak_id r = ''k1'') (api_keys office_revoked) = Some (alice_key\<lparr>ak_revoked_at := Some 9\<rparr>)"
    by (simp add: office_revoked_def office_states office_rows)
  have pre: "key_prefix ''pymth_live_abcdefgh'' = ak_prefix (alice_key\<lparr>ak_revoked_at := Some 9\<rparr>)"
    by (simp add: key_prefix_def KEY_PREFIX_LEN_def KEY_BRAND_def alice_key_def)
  from revoked_key_never_validates [OF office_start_ok office_path(5) key _ rtranclp.rtrancl_refl pre]
  show ?thesis by simp
qed

text \<open>Once an operator is revoked, no bearer token authenticates as that operator again, in any later state of
  the database, whichever tokens are rotated meanwhile.\<close>

theorem revoked_operator_never_authenticates:
  assumes "office_empty db0" "office_step\<^sup>*\<^sup>* db0 db" "get_operator db k = Some p" "op_revoked_at p \<noteq> None"
    and "office_step\<^sup>*\<^sup>* db db'" "get_current_operator h auth db' = (Inr q, db'')"
  shows "op_id q \<noteq> k \<and> op_revoked_at q = None"
proof -
  from operator_rows.row_star [OF assms(5) office.inv_reachable [OF assms(1,2)] assms(3)] assms(4)
  obtain p' where p': "get_operator db' k = Some p'" "op_revoked_at p' \<noteq> None" by blast
  have "office_step\<^sup>*\<^sup>* db0 db'" using assms(2,5) by simp
  then have d: "distinct (map op_id (operators db'))" using office.inv_reachable assms(1) inv_rows(1) by (metis unique_keys_def)
  from assms(6) obtain token where "authenticate_operator h token db' = Some q"
    by (auto simp: get_current_operator_def raise_def ret_def split: option.splits)
  from find_SomeD [OF this [unfolded authenticate_operator_def]] have q: "q \<in> set (operators db')" "op_revoked_at q = None" by simp_all
  with find_key_unique [OF d q(1)] p' show ?thesis by (auto simp: get_operator_def)
qed

theorem revoked_operator_never_authenticates_witness:
  "\<exists>q. get_current_operator id (Some ''Bearer boot'') office_revoked = (Inr q, office_revoked) \<and> op_id q \<noteq> ''o2''"
proof -
  have op: "get_operator office_revoked ''o2'' = Some (helper\<lparr>op_revoked_at := Some 9\<rparr>)"
    by (simp add: get_operator_def office_revoked_def office_states office_rows)
  have token: "bearer_token ''Bearer boot'' = Some ''boot''" by code_simp
  have run: "get_current_operator id (Some ''Bearer boot'') office_revoked = (Inr boss, office_revoked)"
    using token by (simp add: get_current_operator_def authenticate_operator_def ret_iff office_revoked_def office_states office_rows)
  from revoked_operator_never_authenticates [OF office_start_ok office_path(5) op _ rtranclp.rtrancl_refl run] run
  show ?thesis by auto
qed

text \<open>C30. An organisation that has an active owner always has one: no sequence of requests of owners, members and
  customers, creations, demotions and revocations in any order, leaves it without.\<close>

theorem owner_remains:
  assumes "office_empty db0" "office_step\<^sup>*\<^sup>* db0 db" "p \<in> set (operators db)" "op_role p = ''owner''" "op_revoked_at p = None"
    and "office_step\<^sup>*\<^sup>* db db'"
  shows "\<exists>q \<in> set (operators db'). op_role q = ''owner'' \<and> op_revoked_at q = None"
proof -
  have "office_inv db \<and> has_owner db"
    using office.inv_reachable [OF assms(1,2)] assms(3-5) by (auto simp: has_owner_def active_owner_def)
  from owned.inv_star [OF assms(6) this] show ?thesis by (simp add: has_owner_def active_owner_def)
qed

theorem owner_remains_witness:
  "\<exists>q \<in> set (operators office_revoked). op_role q = ''owner'' \<and> op_revoked_at q = None"
proof -
  have "boss \<in> set (operators office_forgot)" "op_role boss = ''owner''" "op_revoked_at boss = None"
    by (simp_all add: office_states boss_def)
  from owner_remains [OF office_start_ok office_path(4) this revocations] show ?thesis .
qed

section \<open>Password reset\<close>

lemma set_user_keys: "(\<And>u. us_id (f u) = us_id u \<and> us_email (f u) = us_email u) \<Longrightarrow> unique_keys db \<Longrightarrow> unique_keys (set_user k f db)"
  by (simp add: unique_keys_def set_user_def)

lemma reset_run:
  assumes "reset_password h ph t p now db = (Inr u, db')"
  obtains r v where "find_reset db (h t) = Some r" "now \<le> upr_expires_at r" "get_user db (upr_user_id r) = Some v"
    "u = v\<lparr>us_password_hash := Some (ph p)\<rparr>"
    "db' = revoke_all_sessions (us_id v) now (set_user (us_id v) (\<lambda>w. w\<lparr>us_password_hash := Some (ph p)\<rparr>)
       (db\<lparr>resets := update_where (\<lambda>q. upr_id q = upr_id r) (\<lambda>q. q\<lparr>upr_consumed_at := Some now\<rparr>) (resets db)\<rparr>))"
  using assms by (auto simp: reset_password_def op_iff get_user_def split: option.splits if_splits)

lemma find_revoked:
  "find (\<lambda>w. ws_token_hash w = x) (update_where p (\<lambda>w. w\<lparr>ws_revoked_at := Some now\<rparr>) rows) =
     map_option (\<lambda>w. if p w then w\<lparr>ws_revoked_at := Some now\<rparr> else w) (find (\<lambda>w. ws_token_hash w = x) rows)"
  by (induction rows) auto

lemma resolve_after_revocation:
  assumes users: "\<And>j. get_user db' j = map_option (\<lambda>w. if j = k then f w else w) (get_user db j)"
    and sess: "\<And>x. find_web_session db' x = map_option (\<lambda>s. if ws_user_id s = k \<and> ws_revoked_at s = None
      then s\<lparr>ws_revoked_at := Some now\<rparr> else s) (find_web_session db x)"
  shows "resolve_session h t n db' = Some w \<longleftrightarrow> resolve_session h t n db = Some w \<and> us_id w \<noteq> k"
proof (cases "find_web_session db (h t)")
  case None
  then show ?thesis by (simp add: resolve_session_def sess)
next
  case (Some s)
  have id: "us_id w = ws_user_id s" if "resolve_session h t n db = Some w"
    using that Some get_user_has [of db "ws_user_id s" w] by (auto simp: resolve_session_iff)
  show ?thesis
  proof (cases "ws_user_id s = k")
    case True
    with Some sess have "resolve_session h t n db' = None" by (auto simp: resolve_session_def)
    with id True show ?thesis by auto
  next
    case False
    with Some sess users [of "ws_user_id s"] have "resolve_session h t n db' = resolve_session h t n db"
      by (simp add: resolve_session_def option.map_ident)
    with id False show ?thesis by auto
  qed
qed

text \<open>C28. A successful password reset stores the new password, consumes its token, and revokes every session of the
  user: right afterwards no token at all resolves to that user, while every other customer's tokens resolve as
  before. A login with a password that does not verify against the new hash is refused.\<close>

theorem password_reset_locks_out:
  assumes "office_empty db0" "office_step\<^sup>*\<^sup>* db0 db" "reset_password h ph t p now db = (Inr u, db')"
  shows "get_user db' (us_id u) = Some u \<and> us_password_hash u = Some (ph p) \<and>
    (\<exists>r. find_reset db (h t) = Some r \<and> now \<le> upr_expires_at r \<and> upr_user_id r = us_id u \<and>
       (\<forall>q \<in> set (resets db'). upr_id q = upr_id r \<longrightarrow> upr_consumed_at q = Some now)) \<and>
    (\<forall>t' n v. resolve_session h t' n db' = Some v \<longleftrightarrow> resolve_session h t' n db = Some v \<and> us_id v \<noteq> us_id u) \<and>
    (\<not> pv q (ph p) \<longrightarrow> login h pv t' (us_email u) q n db' = (Inl InvalidCredentials, db'))"
  using assms(3)
proof (cases rule: reset_run)
  case (1 r v)
  have keys: "unique_keys db" using office.inv_reachable [OF assms(1,2)] inv_rows(1) by blast
  let ?d = "db\<lparr>resets := update_where (\<lambda>q. upr_id q = upr_id r) (\<lambda>q. q\<lparr>upr_consumed_at := Some now\<rparr>) (resets db)\<rparr>"
  let ?f = "\<lambda>w. w\<lparr>us_password_hash := Some (ph p)\<rparr>"
  have v: "v \<in> set (users db)" "us_id v = upr_user_id r" using find_SomeD [OF 1(3) [unfolded get_user_def]] by simp_all
  have users: "get_user db' j = map_option (\<lambda>w. if j = us_id v then ?f w else w) (get_user db j)" for j
    using get_user_set [of ?f "us_id v" ?d j] by (simp add: 1(5) revoke_all_sessions_def get_user_def)
  have u: "u = ?f v" "us_id u = us_id v" "us_email u = us_email v" using 1(4) by simp_all
  have gu: "get_user db' (us_id u) = Some u" using users [of "us_id v"] 1(3,4) v(2) by simp
  have sess: "find_web_session db' x = map_option (\<lambda>s. if ws_user_id s = us_id v \<and> ws_revoked_at s = None
      then s\<lparr>ws_revoked_at := Some now\<rparr> else s) (find_web_session db x)" for x
    by (simp add: find_web_session_def 1(5) revoke_all_sessions_def find_revoked)
  note resolve_after_revocation [OF users sess, folded u(2)]
  moreover have "\<forall>q \<in> set (resets db'). upr_id q = upr_id r \<longrightarrow> upr_consumed_at q = Some now"
    by (auto simp: 1(5) revoke_all_sessions_def set_user_def set_update_where)
  moreover have "login h pv t' (us_email u) q n db' = (Inl InvalidCredentials, db')" if "\<not> pv q (ph p)"
  proof -
    have "u \<in> set (users db')" using find_SomeD [OF gu [unfolded get_user_def]] by simp
    moreover have "unique_keys db'"
      using set_user_keys [of ?f ?d "us_id v"] keys by (simp add: 1(5) revoke_all_sessions_def unique_keys_def set_user_def)
    ultimately have "user_by_email db' (us_email u) = Some u" by (rule by_email_in [rotated])
    with that u(1) show ?thesis by (simp add: login_def require_def)
  qed
  ultimately show ?thesis using 1(1,2) gu u v(2) by simp
qed

theorem password_reset_locks_out_witness:
  "\<exists>u db'. reset_password id mark_hash ''t3'' ''new'' 9 office_forgot = (Inr u, db') \<and> resolve_session id ''t2'' 10 db' = None \<and>
     login id mark_verify ''t4'' ''a'' ''pw'' 10 db' = (Inl InvalidCredentials, db')"
proof -
  have "\<exists>db'. reset_password id mark_hash ''t3'' ''new'' 9 office_forgot =
    (Inr (alice\<lparr>us_email_verified_at := Some 6, us_password_hash := Some ''*new''\<rparr>), db')"
    by (simp add: reset_password_def find_reset_def get_user_def set_user_def revoke_all_sessions_def ret_iff office_states office_rows
        PASSWORD_RESET_TTL_def mark_hash_def)
  then obtain db' where run: "reset_password id mark_hash ''t3'' ''new'' 9 office_forgot =
    (Inr (alice\<lparr>us_email_verified_at := Some 6, us_password_hash := Some ''*new''\<rparr>), db')" ..
  note T = password_reset_locks_out [OF office_start_ok office_path(4) run, of mark_verify "''pw''" "''t4''" 10]
  have "resolve_session id ''t2'' 10 office_forgot = Some (alice\<lparr>us_email_verified_at := Some 6\<rparr>)"
    by (simp add: resolve_session_def find_web_session_def get_user_def office_states office_rows SESSION_TTL_def)
  with T have "resolve_session id ''t2'' 10 db' = None" by (cases "resolve_session id ''t2'' 10 db'") auto
  with T run show ?thesis by (auto simp: mark_verify_def mark_hash_def alice_def)
qed

section \<open>From signup to session\<close>

lemma find_appended: "\<forall>x \<in> set xs. \<not> p x \<Longrightarrow> p y \<Longrightarrow> find p (xs @ [y]) = Some y"
  by (simp add: find_append find_None_iff [THEN iffD2])

lemma not_in_imageD: "k \<notin> f ` A \<Longrightarrow> x \<in> A \<Longrightarrow> f x \<noteq> k"
  by blast

lemma verify_email_run:
  assumes "find_verification db (h t) = Some v" "now \<le> uv_expires_at v" "get_user db (uv_user_id v) = Some u"
  shows "verify_email h t now db = (Inr (u\<lparr>us_email_verified_at := Some now\<rparr>),
    set_user (us_id u) (\<lambda>w. w\<lparr>us_email_verified_at := Some now\<rparr>) (db\<lparr>verifications :=
      update_where (\<lambda>r. uv_id r = uv_id v) (\<lambda>r. r\<lparr>uv_consumed_at := Some now\<rparr>) (verifications db)\<rparr>))"
  using assms by (simp add: verify_email_def get_user_def ret_def)

lemma login_run:
  assumes "user_by_email db e = Some u" "us_password_hash u = Some stored" "pv p stored" "us_email_verified_at u \<noteq> None"
    and "h t \<notin> ws_token_hash ` set (web_sessions db)"
  shows "login h pv t e p now db = (Inr (u, t), db\<lparr>web_sessions := web_sessions db @
    [\<lparr>ws_user_id = us_id u, ws_token_hash = h t, ws_expires_at = now + SESSION_TTL, ws_revoked_at = None\<rparr>]\<rparr>)"
  using assms by (simp add: login_def add_web_session_def Let_def ret_def)

lemma fresh_session_resolves:
  assumes "h t \<notin> ws_token_hash ` set (web_sessions db)" "get_user db (us_id u) = Some u"
  shows "resolve_session h t n (db\<lparr>web_sessions := web_sessions db @
    [\<lparr>ws_user_id = us_id u, ws_token_hash = h t, ws_expires_at = now + SESSION_TTL, ws_revoked_at = None\<rparr>]\<rparr>) =
    (if n \<le> now + SESSION_TTL then Some u else None)"
proof -
  have "find (\<lambda>w. ws_token_hash w = h t) (web_sessions db) = None" using not_in_imageD [OF assms(1)] by (auto simp: find_None_iff)
  then show ?thesis using assms(2) by (simp add: resolve_session_def find_web_session_def find_append get_user_def)
qed

text \<open>C29. The way of a new customer. After a signup, a login is refused until the address is verified. The mailed
  token verifies exactly the new user, and once, if it is presented within 24 hours, and is refused, changing nothing,
  if it is presented later. After the verification a password that does not verify is refused, and the password that was signed up with
  opens a session, whose token resolves to that user for fourteen days and to nobody from then on. The hash of the password
  verifies, and the two random tokens do not collide with earlier ones.\<close>

theorem signup_to_session:
  assumes "office_empty db0" "office_step\<^sup>*\<^sup>* db0 db" "signup h ph send url u r k t e p now db = (Inr x, db1)"
    and argon: "pv p (ph p)" and fresh: "h t \<notin> uv_token_hash ` set (verifications db)" "h t2 \<notin> ws_token_hash ` set (web_sessions db)"
  shows "login h pv t2 e p now1 db1 = (Inl EmailNotVerified, db1) \<and>
    (if now1 \<le> now + seconds (24 * 60 * 60)
     then \<exists>y db2 db3. verify_email h t now1 db1 = (Inr y, db2) \<and> us_id y = u \<and> us_email y = e \<and>
       us_email_verified_at y = Some now1 \<and> get_user db2 u = Some y \<and>
       verify_email h t now2 db2 = (Inl InvalidToken, db2) \<and>
       (\<forall>p'. \<not> pv p' (ph p) \<longrightarrow> login h pv t2 e p' now2 db2 = (Inl InvalidCredentials, db2)) \<and>
       login h pv t2 e p now2 db2 = (Inr (y, t2), db3) \<and>
       (\<forall>n. resolve_session h t2 n db3 = (if n \<le> now2 + seconds (14 * 24 * 60 * 60) then Some y else None))
     else verify_email h t now1 db1 = (Inl InvalidToken, db1))"
  using assms(3)
proof (cases rule: signup_run)
  case (1 mail)
  let ?v = "\<lparr>uv_id = r, uv_user_id = u, uv_token_hash = h t, uv_expires_at = now + EMAIL_VERIFICATION_TTL, uv_consumed_at = None\<rparr>"
  let ?y = "x\<lparr>us_email_verified_at := Some now1\<rparr>"
  let ?db2 = "set_user (us_id x) (\<lambda>w. w\<lparr>us_email_verified_at := Some now1\<rparr>) (db1\<lparr>verifications :=
      update_where (\<lambda>q. uv_id q = uv_id ?v) (\<lambda>q. q\<lparr>uv_consumed_at := Some now1\<rparr>) (verifications db1)\<rparr>)"
  have keys: "unique_keys db1"
    using keepsD [OF rows_accounts(1) _ assms(3)] office.inv_reachable [OF assms(1,2)] by (simp add: office_inv_def rows_ok_def)
  have x: "x \<in> set (users db1)" "us_id x = u" "us_email x = e" "us_password_hash x = Some (ph p)" "us_email_verified_at x = None"
    using 1(5,6) by simp_all
  note who = get_user_in [OF keys x(1), unfolded x(2)] by_email_in [OF keys x(1), unfolded x(3)]
  have refused: "login h pv t2 e p now1 db1 = (Inl EmailNotVerified, db1)" using who(2) x argon by (simp add: login_def require_def)
  have "\<forall>q \<in> set (verifications db). uv_token_hash q \<noteq> h t" using not_in_imageD [OF fresh(1)] by blast
  then have "find (\<lambda>q. uv_token_hash q = h t \<and> uv_consumed_at q = None) (verifications db @ [?v]) = Some ?v"
    by (intro find_appended) auto
  then have "find_verification db1 (h t) = Some ?v" by (simp add: find_verification_def 1(6))
  note found = this
  have late: "verify_email h t now1 db1 = (Inl InvalidToken, db1)" if "\<not> now1 \<le> now + seconds (24 * 60 * 60)"
    using found that by (simp add: verify_email_def raise_def EMAIL_VERIFICATION_TTL_def)
  have ver: "verify_email h t now1 db1 = (Inr ?y, ?db2)" if "now1 \<le> now + seconds (24 * 60 * 60)"
    using found who(1) that by (intro verify_email_run) (simp_all add: EMAIL_VERIFICATION_TTL_def)
  have "find_verification ?db2 (h t) = None"
    using not_in_imageD [OF fresh(1)] 1(4) by (auto simp: find_verification_def find_None_iff set_update_where 1(6))
  then have again: "verify_email h t now2 ?db2 = (Inl InvalidToken, ?db2)" by (simp add: verify_email_def raise_def)
  have keys2: "unique_keys ?db2" using keys by (intro set_user_keys) (simp_all add: unique_keys_def)
  have y: "?y \<in> set (users ?db2)" using x(1) by (auto simp: set_user_def set_update_where)
  have ws: "h t2 \<notin> ws_token_hash ` set (web_sessions ?db2)" using fresh(2) by (simp add: 1(6))
  note who2 = get_user_in [OF keys2 y] by_email_in [OF keys2 y]
  have wrong: "login h pv t2 e p' now2 ?db2 = (Inl InvalidCredentials, ?db2)" if "\<not> pv p' (ph p)" for p'
    using who2(2) x that by (simp add: login_def require_def)
  have "login h pv t2 e p now2 ?db2 = (Inr (?y, t2), ?db2\<lparr>web_sessions := web_sessions ?db2 @
    [\<lparr>ws_user_id = us_id ?y, ws_token_hash = h t2, ws_expires_at = now2 + seconds (14 * 24 * 60 * 60), ws_revoked_at = None\<rparr>]\<rparr>)"
    using login_run [where stored = "ph p" and h = h and pv = pv and p = p and t = t2 and now = now2, OF who2(2)] x argon ws
    by (simp add: SESSION_TTL_def)
  moreover have "us_id ?y = u" "us_email ?y = e" "us_email_verified_at ?y = Some now1" using x by simp_all
  moreover have "get_user ?db2 u = Some ?y" using who2(1) x(2) by simp
  moreover have "SESSION_TTL = seconds (14 * 24 * 60 * 60)" by (simp add: SESSION_TTL_def)
  note resolves = fresh_session_resolves [where h = h, OF ws who2(1), where now = now2, unfolded this]
  ultimately show ?thesis
    using refused ver late again wrong resolves by (cases "now1 \<le> now + seconds (24 * 60 * 60)") (simp only: if_True if_False, blast)+
qed

theorem signup_to_session_witness:
  "\<exists>x db1. signup id mark_hash quiet_mail ''http'' ''u1'' ''v1'' ''m1'' ''t1'' ''a'' ''pw'' 5 office_booted = (Inr x, db1) \<and>
     verify_email id ''t1'' 86400000006 db1 = (Inl InvalidToken, db1) \<and>
     (\<exists>y db2 db3. verify_email id ''t1'' 86400000005 db1 = (Inr y, db2) \<and>
       login id mark_verify ''t2'' ''a'' ''wrong'' 7 db2 = (Inl InvalidCredentials, db2) \<and>
       login id mark_verify ''t2'' ''a'' ''pw'' 7 db2 = (Inr (y, ''t2''), db3) \<and>
       resolve_session id ''t2'' 1209600000007 db3 = Some y \<and> resolve_session id ''t2'' 1209600000008 db3 = None)"
proof -
  have "mark_verify ''pw'' (mark_hash ''pw'')" "id ''t1'' \<notin> uv_token_hash ` set (verifications office_booted)"
    "id ''t2'' \<notin> ws_token_hash ` set (web_sessions office_booted)"
    by (simp_all add: mark_verify_def office_states)
  note T = signup_to_session [where pv = mark_verify, OF office_start_ok office_path(1) signed this, THEN conjunct2]
  have wrong: "\<not> mark_verify ''wrong'' (mark_hash ''pw'')" by (simp add: mark_verify_def mark_hash_def)
  from T [of 86400000006] T [of 86400000005 7] signed wrong show ?thesis by fastforce
qed

section \<open>Approval\<close>






section \<open>API keys\<close>

lemma generated_key:
  assumes "8 \<le> length random"
  shows "looks_well_formed (generate_key random)"
  using assms by (simp add: looks_well_formed_def generate_key_def KEY_PREFIX_LEN_def KEY_BRAND_def KEY_RANDOM_LEN_def)

text \<open>A created API key is accepted: for a random part of at least eight characters, presenting the raw key
  returns its row and its owner and stamps the use. It is accepted until its owner, and nobody else, revokes it; from
  then on it is refused.\<close>

theorem api_key_roundtrip:
  assumes "office_empty db0" "office_step\<^sup>*\<^sup>* db0 db" "create_api_key h k random u label pepper db = (Inr (row, raw), db')"
    and "8 \<le> length random"
  shows "\<exists>v. us_id v = u \<and>
    validate_raw_key h raw pepper now db' = (Inr (Some (row\<lparr>ak_last_used_at := Some now\<rparr>, v)),
      db'\<lparr>api_keys := api_keys db @ [row\<lparr>ak_last_used_at := Some now\<rparr>]\<rparr>) \<and>
    (w \<noteq> u \<longrightarrow> revoke_api_key w k now db' = (Inl ApiKeyNotFound, db')) \<and>
    (\<exists>db''. revoke_api_key u k now db' = (Inr (row\<lparr>ak_revoked_at := Some now\<rparr>), db'') \<and>
       validate_raw_key h raw pepper now' db'' = (Inr None, db''))"
proof -
  have keys: "unique_keys db" using office.inv_reachable [OF assms(1,2)] inv_rows(1) by blast
  from assms(3) have row: "raw = generate_key random" "ak_id row = k" "ak_user_id row = u" "ak_prefix row = key_prefix raw"
      "ak_hash row = key_hash h raw pepper" "ak_revoked_at row = None" "u \<in> us_id ` set (users db)"
      "k \<notin> ak_id ` set (api_keys db)" "key_prefix raw \<notin> ak_prefix ` set (api_keys db)"
      "db' = db\<lparr>api_keys := api_keys db @ [row]\<rparr>"
    by (auto simp: create_api_key_def Let_def op_iff split: if_splits)
  obtain v where v: "get_user db u = Some v" "us_id v = u" using row(7) get_user_in [OF keys] by auto
  have other: "ak_id r \<noteq> k" "ak_prefix r \<noteq> key_prefix raw" if "r \<in> set (api_keys db)" for r
    using not_in_imageD [OF row(8) that] not_in_imageD [OF row(9) that] by simp_all
  have "find (\<lambda>r. ak_prefix r = key_prefix raw \<and> ak_revoked_at r = None) (api_keys db @ [row]) = Some row"
    by (rule find_appended) (use other(2) row(4,6) in auto)
  moreover have rest: "update_where (\<lambda>r. ak_id r = k) f (api_keys db) = api_keys db" for f by (rule update_where_id) (use other(1) in auto)
  ultimately have "validate_raw_key h raw pepper now db' = (Inr (Some (row\<lparr>ak_last_used_at := Some now\<rparr>, v)),
      db'\<lparr>api_keys := api_keys db @ [row\<lparr>ak_last_used_at := Some now\<rparr>]\<rparr>)"
    using v generated_key [OF assms(4)] row by (simp add: validate_raw_key_def key_verify_def get_user_def ret_def)
  moreover have "find (\<lambda>r. ak_id r = k \<and> ak_user_id r = w) (api_keys db @ [row]) = (if w = u then Some row else None)" for w
    using other(1) row(2,3) by (auto simp: find_append find_None_iff split: option.splits dest: find_SomeD)
  then have "w \<noteq> u \<Longrightarrow> revoke_api_key w k now db' = (Inl ApiKeyNotFound, db')"
    "revoke_api_key u k now db' = (Inr (row\<lparr>ak_revoked_at := Some now\<rparr>), db\<lparr>api_keys := api_keys db @ [row\<lparr>ak_revoked_at := Some now\<rparr>]\<rparr>)"
    using rest row by (simp_all add: revoke_api_key_def raise_def ret_def)
  moreover have "find (\<lambda>r. ak_prefix r = key_prefix raw \<and> ak_revoked_at r = None) (api_keys db @ [row\<lparr>ak_revoked_at := Some now\<rparr>]) = None"
    using other(2) by (auto simp: find_None_iff)
  then have "validate_raw_key h raw pepper now' (db\<lparr>api_keys := api_keys db @ [row\<lparr>ak_revoked_at := Some now\<rparr>]\<rparr>) =
      (Inr None, db\<lparr>api_keys := api_keys db @ [row\<lparr>ak_revoked_at := Some now\<rparr>]\<rparr>)"
    by (simp add: validate_raw_key_def ret_def)
  ultimately show ?thesis using v(2) by blast
qed

theorem api_key_roundtrip_witness:
  "\<exists>v db'. validate_raw_key id ''pymth_live_abcdefgh'' ''p'' 8 office_keyed = (Inr (Some (alice_key\<lparr>ak_last_used_at := Some 8\<rparr>, v)), db') \<and>
     us_id v = ''u1''"
proof -
  have "8 \<le> length ''abcdefgh''" by simp
  from api_key_roundtrip [OF office_start_ok office_path(3) keyed this, of 8] show ?thesis by blast
qed

section \<open>SDK builds\<close>

lemma sdk_dictionary_find:
  "distinct (map sdk_triple rows) \<Longrightarrow> foldl (\<lambda>m r. m(sdk_triple r \<mapsto> sa_status r)) m rows t =
     (case find (\<lambda>r. sdk_triple r = t) rows of None \<Rightarrow> m t | Some r \<Rightarrow> Some (sa_status r))"
proof (induction rows arbitrary: m)
  case (Cons r rows)
  have "find (\<lambda>q. sdk_triple q = sdk_triple r) rows = None"
    using Cons.prems not_in_imageD [of "sdk_triple r" sdk_triple "set rows"] by (auto simp: find_None_iff)
  with Cons show ?case by auto
qed simp

text \<open>The list of recent sessions, which reads the whole table of SDK builds into a dictionary once, labels every
  session with what the single-identity query answers.\<close>

theorem sdk_listing_agrees:
  assumes "office_empty db0" "office_step\<^sup>*\<^sup>* db0 db"
  shows "list_recent_sessions_with_sdk limit db =
    map (\<lambda>s. (s, evaluate_sdk_identity (ps_sdk_identity s) db)) (take limit (sort_key (\<lambda>s. - ps_opened_at s) (sessions db)))"
proof -
  have "distinct (map sdk_triple (sdk_approvals db))"
    using office.inv_reachable [OF assms] inv_rows(1) by (simp add: office_inv_def row_simps)
  then have known: "sdk_dictionary (sdk_approvals db) t = map_option sa_status (find_sdk db t)" for t
    by (simp add: sdk_dictionary_def sdk_dictionary_find find_sdk_def split: option.splits)
  let ?rows = "take limit (sort_key (\<lambda>s. - ps_opened_at s) (sessions db))"
  have "List.map_filter (\<lambda>s. parse_sdk_identity (ps_sdk_identity s)) ?rows \<noteq> []"
    if "s \<in> set ?rows" "parse_sdk_identity (ps_sdk_identity s) = Some t" for s t
    using that by (cases t) (auto simp: map_filter_def filter_empty_conv)
  then show ?thesis
    by (auto simp: list_recent_sessions_with_sdk_def Let_def evaluate_sdk_identity_def known split: option.splits)
qed

definition office_listed :: admin_db where
  "office_listed = office_booted\<lparr>
     sdk_approvals := [\<lparr>sa_id = ''s1'', sa_lang = ''py'', sa_version = ''1'', sa_git_sha7 = ''abc'', sa_status = ''approved'', sa_notes = None,
       sa_added_by_operator_id = Some ''o1''\<rparr>],
     audits := [\<lparr>oa_operator_id = ''o1'', oa_action = ''create_sdk_approval'', oa_target_user_id = None,
       oa_params = Some [(''lang'', JStr ''py''), (''version'', JStr ''1''), (''git_sha7'', JStr ''abc''), (''status'', JStr ''approved'')]\<rparr>]\<rparr>"

theorem sdk_listing_agrees_witness:
  "\<forall>s. list_recent_sessions_with_sdk 10 (office_listed\<lparr>sessions := [s\<lparr>ps_sdk_identity := Some ''py/1/abc''\<rparr>]\<rparr>) =
     [(s\<lparr>ps_sdk_identity := Some ''py/1/abc''\<rparr>, ''approved'')]"
proof
  fix s :: payment_session
  let ?s = "s\<lparr>ps_sdk_identity := Some ''py/1/abc''\<rparr>"
  have "\<exists>r. create_sdk_approval ''s1'' boss ''py'' ''1'' ''abc'' ''approved'' None office_booted = (Inr r, office_listed)"
    by (simp add: create_sdk_approval_def SDK_APPROVAL_STATUSES_def find_sdk_def add_audit_def Let_def ret_iff office_listed_def
        office_states boss_def)
  then have "office_step office_booted office_listed" using os_create_sdk by blast
  moreover have "office_step office_listed (office_listed\<lparr>sessions := [?s]\<rparr>)" by (rule os_elsewhere) simp
  ultimately have "office_step\<^sup>*\<^sup>* office_start (office_listed\<lparr>sessions := [?s]\<rparr>)" using office_path(1) by (meson rtranclp.rtrancl_into_rtrancl)
  from sdk_listing_agrees [OF office_start_ok this, of 10]
  have "list_recent_sessions_with_sdk 10 (office_listed\<lparr>sessions := [?s]\<rparr>) =
    [(?s, evaluate_sdk_identity (Some ''py/1/abc'') (office_listed\<lparr>sessions := [?s]\<rparr>))]" by simp
  then show "list_recent_sessions_with_sdk 10 (office_listed\<lparr>sessions := [?s]\<rparr>) = [(?s, ''approved'')]"
    by (simp add: evaluate_sdk_identity_def parse_sdk_identity_def str_strip_def is_str_space_def find_sdk_def sdk_triple_def office_listed_def)
qed

end
