(* ===== verification/Base64.thy ===== *)
theory Base64
  imports Encoding
begin

text \<open>
  Python's \<open>base64\<close> module as the webhook signatures use it: \<open>b64encode\<close>, and the lenient \<open>b64decode\<close>, which skips
  every ASCII character outside the alphabet, stops at a complete padding, and raises (here \<open>None\<close>) on an incomplete
  last group and on text that is not ASCII.
\<close>

definition b64_char :: "nat \<Rightarrow> char" where
  "b64_char n =
     (if n < 26 then char_of (65 + n) else if n < 52 then char_of (71 + n) else if n < 62 then char_of (n - 4)
      else if n = 62 then CHR ''+'' else CHR ''/'')"

definition b64_val :: "char \<Rightarrow> nat option" where
  "b64_val c =
     (let n = (of_char c :: nat)
      in if 65 \<le> n \<and> n \<le> 90 then Some (n - 65) else if 97 \<le> n \<and> n \<le> 122 then Some (n - 71)
         else if 48 \<le> n \<and> n \<le> 57 then Some (n + 4) else if n = 43 then Some 62 else if n = 47 then Some 63 else None)"

fun b64encode :: "bytes \<Rightarrow> string" where
  "b64encode [] = []"
| "b64encode [a] = [b64_char (unat a div 4), b64_char (unat a mod 4 * 16), CHR ''='', CHR ''='']"
| "b64encode [a, b] =
     [b64_char (unat a div 4), b64_char (unat a mod 4 * 16 + unat b div 16), b64_char (unat b mod 16 * 4), CHR ''='']"
| "b64encode (a # b # c # rest) =
     b64_char (unat a div 4) # b64_char (unat a mod 4 * 16 + unat b div 16) #
     b64_char (unat b mod 16 * 4 + unat c div 64) # b64_char (unat c mod 64) # b64encode rest"

text \<open>
  The decoder's loop: the number of characters of the current group, the bits left over from the last one, the
  padding characters seen, and the bytes so far.
\<close>

fun b64_loop :: "nat \<Rightarrow> nat \<Rightarrow> nat \<Rightarrow> bytes \<Rightarrow> string \<Rightarrow> bytes option" where
  "b64_loop quad left pads out [] = (if quad = 0 then Some out else None)"
| "b64_loop quad left pads out (c # cs) =
     (if c = CHR ''='' then
        (if 2 \<le> quad then
           (if 4 \<le> quad + (pads + 1) then Some out else b64_loop quad left (pads + 1) out cs)
         else b64_loop quad left pads out cs)
      else case b64_val c of
        None \<Rightarrow> b64_loop quad left pads out cs
      | Some v \<Rightarrow>
          if quad = 0 then b64_loop 1 v 0 out cs
          else if quad = 1 then b64_loop 2 (v mod 16) 0 (out @ [of_nat (left * 4 + v div 16)]) cs
          else if quad = 2 then b64_loop 3 (v mod 4) 0 (out @ [of_nat (left * 16 + v div 4)]) cs
          else b64_loop 0 0 0 (out @ [of_nat (left * 64 + v)]) cs)"

definition is_ascii :: "string \<Rightarrow> bool" where
  "is_ascii s \<longleftrightarrow> list_all (\<lambda>c. (of_char c :: nat) < 128) s"

definition b64decode :: "string \<Rightarrow> bytes option" where
  "b64decode s = (if is_ascii s then b64_loop 0 0 0 [] s else None)"

lemma b64_val_char [simp]: "n < 64 \<Longrightarrow> b64_val (b64_char n) = Some n"
  by (auto simp: b64_val_def b64_char_def Let_def of_char_of)

lemma b64_char_not_pad [simp]: "n < 64 \<Longrightarrow> b64_char n \<noteq> CHR ''=''"
proof -
  assume "n < 64"
  then have "b64_val (b64_char n) = Some n" by simp
  moreover have "b64_val CHR ''='' = None" by (simp add: b64_val_def)
  ultimately show ?thesis by auto
qed

lemma sextets:
  fixes a b c :: byte
  shows "unat a div 4 < 64" "unat a mod 4 * 16 + unat b div 16 < 64" "unat b mod 16 * 4 + unat c div 64 < 64" "unat c mod 64 < 64"
    "unat a mod 4 * 16 < 64" "unat b mod 16 * 4 < 64"
  using unat_byte_lt [of a] unat_byte_lt [of b] unat_byte_lt [of c] by auto

lemma byte_parts:
  fixes b c :: byte
  shows "unat b div 16 div 16 = 0" "unat b div 16 mod 16 = unat b div 16" "unat c div 64 div 4 = 0" "unat c div 64 mod 4 = unat c div 64"
  using unat_byte_lt [of b] unat_byte_lt [of c] by (simp_all add: less_mult_imp_div_less)

lemma b64_loop_encode: "b64_loop 0 left pads out (b64encode bs) = Some (out @ bs)"
proof (induction bs arbitrary: out left pads rule: b64encode.induct)
  case (4 a b c rest)
  have "b64_loop 0 left pads out (b64encode (a # b # c # rest)) = b64_loop 0 0 0 (out @ [a, b, c]) (b64encode rest)"
    by (simp add: sextets byte_parts del: of_nat_add of_nat_mult)
  with 4 show ?case by simp
qed (simp_all add: sextets byte_parts del: of_nat_add of_nat_mult)

lemma b64_char_ascii [simp]: "(of_char (b64_char n) :: nat) < 128"
  by (auto simp: b64_char_def of_char_of)

lemma b64encode_ascii: "is_ascii (b64encode bs)"
  by (induction bs rule: b64encode.induct) (auto simp: is_ascii_def)

text \<open>Decoding what was encoded gives it back.\<close>

lemma b64_roundtrip: "b64decode (b64encode bs) = Some bs"
  by (simp add: b64decode_def b64encode_ascii b64_loop_encode)

end
