(* ===== verification/Notifications.thy ===== *)
theory Notifications
  imports Operators Base64
begin

text \<open>
  Notifications (\<open>domains/notifications\<close>): the inbound mail webhook with its signature and its event log, the
  customers' preferences, the fan-out of a trigger over the channels, the portal banners, and the outbound signed
  webhook.

  HMAC-SHA256 (\<open>hmac\<close>: key, message), the bytes of a UUID, the JSON text of a payload and the outcomes of the POSTs
  are arguments. Texts are ASCII, so \<open>encode\<close> takes each character to its byte. Queries and inserts of a session
  that works do not raise, so the branches that log such a failure are not reached; a separate session that cannot be
  opened is an argument.
\<close>

section \<open>Rows\<close>

record email_event =
  ee_id :: uuid
  ee_provider_event_id :: string
  ee_email_send_id :: "uuid option"
  ee_provider_message_id :: "string option"
  ee_event_type :: string
  ee_to_address :: "string option"
  ee_payload :: dict
  ee_received_at :: timestamp

record notification_config =
  nc_user_id :: uuid
  nc_trigger :: string
  nc_channel :: string
  nc_enabled :: bool

record portal_notification =
  pn_id :: uuid
  pn_user_id :: uuid
  pn_trigger :: string
  pn_body :: dict
  pn_fired_at :: timestamp
  pn_dismissed_at :: "timestamp option"

record notification_webhook_config =
  wc_user_id :: uuid
  wc_url :: string
  wc_last_test_at :: "timestamp option"

record notify_db = admin_db +
  email_events :: "email_event list"
  preferences :: "notification_config list"
  banners :: "portal_notification list"
  webhooks :: "notification_webhook_config list"

definition encode :: "string \<Rightarrow> bytes" where
  "encode s = map (\<lambda>c. of_nat (of_char c)) s"

section \<open>Signatures\<close>

definition WEBHOOK_TIMESTAMP_TOLERANCE :: int where
  "WEBHOOK_TIMESTAMP_TOLERANCE = 300"

definition removeprefix :: "string \<Rightarrow> string \<Rightarrow> string" where
  "removeprefix p s = (if take (length p) s = p then drop (length p) s else s)"

text \<open>\<open>str.split()\<close>, \<open>str.partition(",")\<close>.\<close>

function split_ws :: "string \<Rightarrow> string list" where
  "split_ws [] = []"
| "split_ws (c # cs) =
     (if is_str_space c then split_ws cs
      else (c # takeWhile (\<lambda>x. \<not> is_str_space x) cs) # split_ws (dropWhile (\<lambda>x. \<not> is_str_space x) cs))"
  by pat_completeness auto
termination
  by (relation "measure length") (auto simp: less_Suc_eq_le length_dropWhile_le)

definition extract_v1_signatures :: "string \<Rightarrow> string list" where
  "extract_v1_signatures header =
     List.map_filter (\<lambda>token.
       if CHR '','' \<in> set token then
         let scheme = takeWhile (\<lambda>c. c \<noteq> CHR '','') token; sig = drop 1 (dropWhile (\<lambda>c. c \<noteq> CHR '','') token)
         in if scheme = ''v1'' \<and> sig \<noteq> [] then Some sig else None
       else None) (split_ws header)"

text \<open>\<open>any(hmac.compare_digest(expected, p) for p in presented)\<close>; comparing a text that is not ASCII raises.\<close>

fun any_matches :: "string \<Rightarrow> string list \<Rightarrow> error + bool" where
  "any_matches expected [] = Inr False"
| "any_matches expected (p # ps) =
     (if \<not> is_ascii p then Inl (TypeError ''comparing strings with non-ASCII characters is not supported'')
      else if expected = p then Inr True else any_matches expected ps)"

definition signed_content :: "string \<Rightarrow> string \<Rightarrow> bytes \<Rightarrow> bytes" where
  "signed_content webhook_id timestamp body = encode (webhook_id @ ''.'' @ timestamp @ ''.'') @ body"

definition verify_key :: "string \<Rightarrow> bytes" where
  "verify_key secret =
     (case b64decode (removeprefix ''whsec_'' secret) of Some key \<Rightarrow> key | None \<Rightarrow> encode secret)"

definition verify_signature ::
  "(bytes \<Rightarrow> bytes \<Rightarrow> bytes) \<Rightarrow> string \<Rightarrow> string option \<Rightarrow> string option \<Rightarrow> string option \<Rightarrow> bytes \<Rightarrow> timestamp \<Rightarrow> error + unit" where
  "verify_signature hmac secret webhook_id webhook_timestamp webhook_signature body now =
     (if secret = [] \<or> webhook_id \<in> {None, Some []} \<or> webhook_timestamp \<in> {None, Some []} \<or> webhook_signature \<in> {None, Some []}
      then Inl (WebhookSignatureError ''missing signature headers'')
      else case int_of_text (the webhook_timestamp) of
        Inl _ \<Rightarrow> Inl (WebhookSignatureError ''non-integer webhook-timestamp'')
      | Inr ts \<Rightarrow>
          if WEBHOOK_TIMESTAMP_TOLERANCE < \<bar>now div 1000000 - ts\<bar>
          then Inl (WebhookSignatureError ''webhook-timestamp out of tolerance'')
          else
            let expected = b64encode (hmac (verify_key secret)
                  (signed_content (the webhook_id) (the webhook_timestamp) body))
            in bind_r (any_matches expected (extract_v1_signatures (the webhook_signature))) (\<lambda>ok.
               if ok then Inr () else Inl (WebhookSignatureError ''signature mismatch'')))"

section \<open>Inbound events\<close>

record resend_webhook_event =
  ev_type :: string
  ev_email_id :: "string option"
  ev_to :: "string list"
  ev_dump :: dict

definition status_for_event :: "string \<Rightarrow> string option" where
  "status_for_event event_type =
     map_of [(''email.delivered'', ''delivered''), (''email.bounced'', ''bounced''),
             (''email.complained'', ''complained''), (''email.failed'', ''failed'')] event_type"

definition correlated_send :: "resend_webhook_event \<Rightarrow> 'z notify_db_scheme \<Rightarrow> email_send option" where
  "correlated_send event db =
     (if ev_email_id event \<in> {None, Some []} then None
      else find (\<lambda>s. es_provider_message_id s = ev_email_id event) (email_sends db))"

definition ingest_event ::
  "uuid \<Rightarrow> resend_webhook_event \<Rightarrow> string \<Rightarrow> timestamp \<Rightarrow> ('z notify_db_scheme, email_event \<times> bool) op" where
  "ingest_event new_id event provider_event_id now =
     bind_op (gets (\<lambda>db. find (\<lambda>e. ee_provider_event_id e = provider_event_id) (email_events db))) (\<lambda>existing.
     case existing of
       Some row \<Rightarrow> ret (row, False)
     | None \<Rightarrow>
         bind_op (gets (correlated_send event)) (\<lambda>send_row.
         bind_op (case send_row of
                    None \<Rightarrow> ret ()
                  | Some s \<Rightarrow>
                     (case status_for_event (ev_type event) of
                        None \<Rightarrow> ret ()
                      | Some new_status \<Rightarrow> modify (\<lambda>db. db\<lparr>email_sends :=
                          update_where (\<lambda>r. es_id r = es_id s) (\<lambda>r. r\<lparr>es_status := new_status\<rparr>) (email_sends db)\<rparr>))) (\<lambda>_.
         let row = \<lparr>ee_id = new_id, ee_provider_event_id = provider_event_id, ee_email_send_id = map_option es_id send_row,
                    ee_provider_message_id = ev_email_id event, ee_event_type = ev_type event,
                    ee_to_address = (case ev_to event of [] \<Rightarrow> None | a # _ \<Rightarrow> Some a), ee_payload = ev_dump event,
                    ee_received_at = now\<rparr>
         in bind_op (insert_row (\<lambda>db. new_id \<notin> ee_id ` set (email_events db) \<and>
                        provider_event_id \<notin> ee_provider_event_id ` set (email_events db))
                      (\<lambda>db. db\<lparr>email_events := email_events db @ [row]\<rparr>)) (\<lambda>_.
            ret (row, True)))))"

section \<open>Preferences\<close>

definition ALL_TRIGGERS :: "string list" where
  "ALL_TRIGGERS = [''cap_reached'', ''period_rollover'', ''winddown_warning'', ''sdk_outdated'', ''session_failed_repeatedly'']"

definition ALL_CHANNELS :: "string list" where
  "ALL_CHANNELS = [''email'', ''in_portal'', ''webhook'']"

definition DEFAULTS :: "((string \<times> string) \<times> bool) list" where
  "DEFAULTS =
     [((''cap_reached'', ''email''), True), ((''cap_reached'', ''in_portal''), True), ((''cap_reached'', ''webhook''), False),
      ((''period_rollover'', ''email''), False), ((''period_rollover'', ''in_portal''), True),
      ((''period_rollover'', ''webhook''), False),
      ((''winddown_warning'', ''email''), True), ((''winddown_warning'', ''in_portal''), True),
      ((''winddown_warning'', ''webhook''), False),
      ((''sdk_outdated'', ''email''), True), ((''sdk_outdated'', ''in_portal''), False), ((''sdk_outdated'', ''webhook''), False),
      ((''session_failed_repeatedly'', ''email''), True), ((''session_failed_repeatedly'', ''in_portal''), False),
      ((''session_failed_repeatedly'', ''webhook''), False)]"

definition list_overrides_for_user :: "uuid \<Rightarrow> 'z notify_db_scheme \<Rightarrow> notification_config list" where
  "list_overrides_for_user user_id db = filter (\<lambda>c. nc_user_id c = user_id) (preferences db)"

definition resolved_prefs_for_user :: "uuid \<Rightarrow> 'z notify_db_scheme \<Rightarrow> (string \<times> string \<rightharpoonup> bool)" where
  "resolved_prefs_for_user user_id db =
     foldl (\<lambda>out row. out((nc_trigger row, nc_channel row) \<mapsto> nc_enabled row)) (map_of DEFAULTS)
       (list_overrides_for_user user_id db)"

definition pref :: "notification_config list \<Rightarrow> string \<Rightarrow> string \<Rightarrow> bool" where
  "pref overrides trigger channel =
     (case find (\<lambda>c. nc_trigger c = trigger \<and> nc_channel c = channel) overrides of
        Some c \<Rightarrow> nc_enabled c
      | None \<Rightarrow> (case map_of DEFAULTS (trigger, channel) of Some b \<Rightarrow> b | None \<Rightarrow> False))"

definition config_key :: "notification_config \<Rightarrow> uuid \<times> string \<times> string" where
  "config_key c = (nc_user_id c, nc_trigger c, nc_channel c)"

definition set_preference ::
  "(string \<Rightarrow> string) \<Rightarrow> uuid \<Rightarrow> string \<Rightarrow> string \<Rightarrow> bool \<Rightarrow> ('z notify_db_scheme, notification_config) op" where
  "set_preference rp user_id trigger channel enabled =
     bind_op (require (trigger \<in> set ALL_TRIGGERS) (InvalidTrigger (''unknown trigger '' @ rp trigger))) (\<lambda>_.
     bind_op (require (channel \<in> set ALL_CHANNELS) (InvalidChannel (''unknown channel '' @ rp channel))) (\<lambda>_.
     bind_op (gets (\<lambda>db. find (\<lambda>c. config_key c = (user_id, trigger, channel)) (preferences db))) (\<lambda>existing.
     case existing of
       Some c \<Rightarrow>
         bind_op (modify (\<lambda>db. db\<lparr>preferences :=
           update_where (\<lambda>r. config_key r = (user_id, trigger, channel)) (\<lambda>r. r\<lparr>nc_enabled := enabled\<rparr>) (preferences db)\<rparr>)) (\<lambda>_.
         ret (c\<lparr>nc_enabled := enabled\<rparr>))
     | None \<Rightarrow>
         let row = \<lparr>nc_user_id = user_id, nc_trigger = trigger, nc_channel = channel, nc_enabled = enabled\<rparr>
         in bind_op (modify (\<lambda>db. db\<lparr>preferences := preferences db @ [row]\<rparr>)) (\<lambda>_. ret row))))"

section \<open>Banners\<close>

definition list_active_portal_notifications :: "uuid \<Rightarrow> nat \<Rightarrow> 'z notify_db_scheme \<Rightarrow> portal_notification list" where
  "list_active_portal_notifications user_id limit db =
     take limit (sort_key (\<lambda>n. - pn_fired_at n)
       (filter (\<lambda>n. pn_user_id n = user_id \<and> pn_dismissed_at n = None) (banners db)))"

definition dismiss_portal_notification ::
  "uuid \<Rightarrow> uuid \<Rightarrow> timestamp \<Rightarrow> ('z notify_db_scheme, portal_notification) op" where
  "dismiss_portal_notification user_id notification_id now =
     bind_op (gets (\<lambda>db. find (\<lambda>n. pn_id n = notification_id) (banners db))) (\<lambda>found.
     case found of
       None \<Rightarrow> raise PortalNotificationNotFound
     | Some row \<Rightarrow>
         bind_op (require (pn_user_id row = user_id) PortalNotificationNotFound) (\<lambda>_.
         if pn_dismissed_at row = None then
           bind_op (modify (\<lambda>db. db\<lparr>banners :=
             update_where (\<lambda>n. pn_id n = notification_id) (\<lambda>n. n\<lparr>pn_dismissed_at := Some now\<rparr>) (banners db)\<rparr>)) (\<lambda>_.
           ret (row\<lparr>pn_dismissed_at := Some now\<rparr>))
         else ret row))"

section \<open>Outbound webhooks\<close>

definition derive_secret :: "(bytes \<Rightarrow> bytes \<Rightarrow> bytes) \<Rightarrow> (uuid \<Rightarrow> bytes) \<Rightarrow> string \<Rightarrow> uuid \<Rightarrow> string" where
  "derive_secret hmac uuid_bytes seed user_id =
     ''whsec_'' @ rstrip_char CHR ''='' (b64encode (hmac (encode seed) (uuid_bytes user_id)))"

definition sign_key :: "string \<Rightarrow> bytes" where
  "sign_key secret =
     (let raw = removeprefix ''whsec_'' secret
      in case b64decode (raw @ replicate ((4 - length raw mod 4) mod 4) CHR ''='') of
           Some key \<Rightarrow> key | None \<Rightarrow> encode secret)"

definition sign_body :: "(bytes \<Rightarrow> bytes \<Rightarrow> bytes) \<Rightarrow> string \<Rightarrow> string \<Rightarrow> string \<Rightarrow> bytes \<Rightarrow> string" where
  "sign_body hmac secret webhook_id timestamp body =
     ''v1,'' @ b64encode (hmac (sign_key secret) (signed_content webhook_id timestamp body))"

text \<open>
  The attempts of one delivery: \<open>post i\<close> is the status of the \<open>i\<close>-th POST, or \<open>None\<close> when it raised. The result is
  whether it was delivered, the number of POSTs, and the pauses between them in milliseconds.
\<close>

definition retryable :: "int option \<Rightarrow> bool" where
  "retryable outcome = (case outcome of None \<Rightarrow> True | Some st \<Rightarrow> 500 \<le> st \<or> st = 429)"

definition delivered :: "int option \<Rightarrow> bool" where
  "delivered outcome = (case outcome of None \<Rightarrow> False | Some st \<Rightarrow> 200 \<le> st \<and> st < 300)"

fun send_attempts :: "(nat \<Rightarrow> int option) \<Rightarrow> nat \<Rightarrow> nat \<Rightarrow> int \<Rightarrow> bool \<times> nat \<times> int list" where
  "send_attempts post i 0 backoff = (False, 0, [])"
| "send_attempts post i (Suc n) backoff =
     (if delivered (post i) then (True, 1, [])
      else if \<not> retryable (post i) then (False, 1, [])
      else if n = 0 then (False, 1, [])
      else case send_attempts post (Suc i) n (2 * backoff) of (ok, k, waits) \<Rightarrow> (ok, Suc k, backoff # waits))"

record webhook_post =
  wp_url :: string
  wp_id :: string
  wp_timestamp :: string
  wp_signature :: string
  wp_body :: bytes

definition send_webhook ::
  "(bytes \<Rightarrow> bytes \<Rightarrow> bytes) \<Rightarrow> (dict \<Rightarrow> bytes) \<Rightarrow> (webhook_post \<Rightarrow> nat \<Rightarrow> int option) \<Rightarrow> string \<Rightarrow> string \<Rightarrow> string \<Rightarrow> string \<Rightarrow> dict \<Rightarrow> nat \<Rightarrow>
   bool \<times> nat \<times> int list" where
  "send_webhook hmac dumps post webhook_id timestamp url secret payload max_retries =
     (let body = dumps payload;
          request = \<lparr>wp_url = url, wp_id = webhook_id, wp_timestamp = timestamp,
                     wp_signature = sign_body hmac secret webhook_id timestamp body, wp_body = body\<rparr>
      in send_attempts (post request) 1 max_retries 500)"

section \<open>Firing a trigger\<close>

text \<open>
  What a trigger meets outside the request: the mail provider, whether separate sessions open for the banner and for
  the record of the mail, and the delivery of a webhook for a URL, a secret and a payload.
\<close>

record notify_world =
  nw_provider :: "email_provider option"
  nw_banner_session :: bool
  nw_mail_session :: bool
  nw_seed :: "string option"
  nw_secret :: "string \<Rightarrow> uuid \<Rightarrow> string"
  nw_deliver :: "string \<Rightarrow> string \<Rightarrow> dict \<Rightarrow> bool"

text \<open>A row written by a separate session is committed at once, and the request sees it too.\<close>

definition independently :: "('d \<Rightarrow> 'd) \<Rightarrow> ('d txn, unit) op" where
  "independently g = modify (\<lambda>s. s\<lparr>working := g (working s), durable := g (durable s)\<rparr>)"

definition banner_of :: "uuid \<Rightarrow> uuid \<Rightarrow> string \<Rightarrow> dict \<Rightarrow> timestamp \<Rightarrow> portal_notification" where
  "banner_of new_id user_id trigger body now =
     \<lparr>pn_id = new_id, pn_user_id = user_id, pn_trigger = trigger, pn_body = body, pn_fired_at = now, pn_dismissed_at = None\<rparr>"

definition fire_in_portal_independent ::
  "notify_world \<Rightarrow> uuid \<Rightarrow> uuid \<Rightarrow> string \<Rightarrow> dict \<Rightarrow> timestamp \<Rightarrow> ('z notify_db_scheme txn, bool) op" where
  "fire_in_portal_independent w new_id user_id trigger body now =
     (if nw_banner_session w
      then bind_op (independently (\<lambda>db. db\<lparr>banners := banners db @ [banner_of new_id user_id trigger body now]\<rparr>)) (\<lambda>_. ret True)
      else ret False)"

definition str_json :: "json \<Rightarrow> string" where
  "str_json v = (case v of JStr s \<Rightarrow> s | JInt n \<Rightarrow> str_int n | _ \<Rightarrow> [])"

definition fire_email ::
  "notify_world \<Rightarrow> uuid \<Rightarrow> string \<Rightarrow> string \<Rightarrow> dict \<Rightarrow> uuid \<Rightarrow> timestamp \<Rightarrow> ('z notify_db_scheme txn, bool) op" where
  "fire_email w send_id to subject body user_id now =
     (case nw_provider w of
        None \<Rightarrow> ret False
      | Some send \<Rightarrow>
         (case send (notification_email to subject (map (\<lambda>(k, v). (k, str_json v)) body)) of
            Inl _ \<Rightarrow> ret False
          | Inr provider_message_id \<Rightarrow>
              bind_op (if nw_mail_session w
                       then independently (\<lambda>db. snd (record_email_send send_id to subject provider_message_id (Some user_id) now db))
                       else ret ()) (\<lambda>_.
              ret True)))"

definition fire_webhook :: "notify_world \<Rightarrow> uuid \<Rightarrow> string \<Rightarrow> dict \<Rightarrow> ('z notify_db_scheme txn, bool) op" where
  "fire_webhook w user_id trigger body =
     bind_op (read_db (\<lambda>db. find (\<lambda>c. wc_user_id c = user_id) (webhooks db))) (\<lambda>row.
     case row of
       None \<Rightarrow> ret False
     | Some c \<Rightarrow>
        (case nw_seed w of
           None \<Rightarrow> ret False
         | Some seed \<Rightarrow> ret (nw_deliver w (wc_url c) (nw_secret w seed user_id) [(''trigger'', JStr trigger), (''body'', JObj body)])))"

definition when_enabled ::
  "bool \<Rightarrow> string \<Rightarrow> ('s, bool) op \<Rightarrow> ('s, (string \<times> bool) list) op" where
  "when_enabled enabled channel fire =
     (if enabled then bind_op fire (\<lambda>ok. ret [(channel, ok)]) else ret [])"

definition notify_trigger ::
  "notify_world \<Rightarrow> uuid \<Rightarrow> uuid \<Rightarrow> string \<Rightarrow> uuid \<Rightarrow> string \<Rightarrow> dict \<Rightarrow> timestamp \<Rightarrow>
   ('z notify_db_scheme txn, (string \<times> bool) list) op" where
  "notify_trigger w banner_id send_id trigger user_id subject body now =
     bind_op (read_db (\<lambda>db. get_user db user_id)) (\<lambda>found.
     case found of
       None \<Rightarrow> ret []
     | Some user \<Rightarrow>
         bind_op (read_db (list_overrides_for_user user_id)) (\<lambda>overrides.
         bind_op (when_enabled (pref overrides trigger ''in_portal'') ''in_portal''
                    (fire_in_portal_independent w banner_id user_id trigger body now)) (\<lambda>portal.
         bind_op (when_enabled (pref overrides trigger ''email'') ''email''
                    (fire_email w send_id (us_email user) subject body user_id now)) (\<lambda>email.
         bind_op (when_enabled (pref overrides trigger ''webhook'') ''webhook''
                    (fire_webhook w user_id trigger body)) (\<lambda>webhook.
         ret (portal @ email @ webhook))))))"

definition notify_cap_reached ::
  "notify_world \<Rightarrow> uuid \<Rightarrow> uuid \<Rightarrow> uuid \<Rightarrow> string \<Rightarrow> int \<Rightarrow> timestamp \<Rightarrow> ('z notify_db_scheme txn, (string \<times> bool) list) op" where
  "notify_cap_reached w banner_id send_id user_id which_cap remaining_wei now =
     notify_trigger w banner_id send_id ''cap_reached'' user_id (BRAND @ '' spend cap reached: '' @ which_cap)
       [(''trigger'', JStr ''cap_reached''), (''which_cap'', JStr which_cap), (''remaining_wei'', JInt remaining_wei)] now"

definition notify_winddown_warning ::
  "notify_world \<Rightarrow> uuid \<Rightarrow> uuid \<Rightarrow> uuid \<Rightarrow> uuid \<Rightarrow> string \<Rightarrow> timestamp \<Rightarrow> ('z notify_db_scheme txn, (string \<times> bool) list) op" where
  "notify_winddown_warning w banner_id send_id user_id session_id reason now =
     notify_trigger w banner_id send_id ''winddown_warning'' user_id (BRAND @ '' session winding down: '' @ reason)
       [(''trigger'', JStr ''winddown_warning''), (''session_id'', JStr session_id), (''reason'', JStr reason)] now"

definition notify_sdk_outdated ::
  "notify_world \<Rightarrow> uuid \<Rightarrow> uuid \<Rightarrow> uuid \<Rightarrow> string \<Rightarrow> string \<Rightarrow> string \<Rightarrow> timestamp \<Rightarrow>
   ('z notify_db_scheme txn, (string \<times> bool) list) op" where
  "notify_sdk_outdated w banner_id send_id user_id lang semver observed_status now =
     notify_trigger w banner_id send_id ''sdk_outdated'' user_id (BRAND @ '' SDK out of date: '' @ lang @ '' '' @ semver)
       [(''trigger'', JStr ''sdk_outdated''), (''lang'', JStr lang), (''semver'', JStr semver),
        (''observed_status'', JStr observed_status)] now"

definition notify_period_rollover ::
  "notify_world \<Rightarrow> uuid \<Rightarrow> uuid \<Rightarrow> uuid \<Rightarrow> string \<Rightarrow> string \<Rightarrow> int \<Rightarrow> timestamp \<Rightarrow>
   ('z notify_db_scheme txn, (string \<times> bool) list) op" where
  "notify_period_rollover w banner_id send_id user_id period_start period_end previous_period_spend_wei now =
     notify_trigger w banner_id send_id ''period_rollover'' user_id (BRAND @ '' spend period rolled over'')
       [(''trigger'', JStr ''period_rollover''), (''period_start'', JStr period_start), (''period_end'', JStr period_end),
        (''previous_period_spend_wei'', JInt previous_period_spend_wei)] now"

definition notify_session_failed_repeatedly ::
  "notify_world \<Rightarrow> uuid \<Rightarrow> uuid \<Rightarrow> uuid \<Rightarrow> uuid \<Rightarrow> int \<Rightarrow> int \<Rightarrow> timestamp \<Rightarrow>
   ('z notify_db_scheme txn, (string \<times> bool) list) op" where
  "notify_session_failed_repeatedly w banner_id send_id user_id api_key_id failure_count window_hours now =
     notify_trigger w banner_id send_id ''session_failed_repeatedly'' user_id (BRAND @ '' session failures detected'')
       [(''trigger'', JStr ''session_failed_repeatedly''), (''api_key_id'', JStr api_key_id),
        (''failure_count'', JInt failure_count), (''window_hours'', JInt window_hours)] now"

text \<open>The variant inside the request's own session: the banner is written there, and webhooks are not sent.\<close>

definition fire_in_portal ::
  "uuid \<Rightarrow> uuid \<Rightarrow> string \<Rightarrow> dict \<Rightarrow> timestamp \<Rightarrow> ('z notify_db_scheme txn, bool) op" where
  "fire_in_portal new_id user_id trigger body now =
     bind_op (write_db (\<lambda>db. db\<lparr>banners := banners db @ [banner_of new_id user_id trigger body now]\<rparr>)) (\<lambda>_. ret True)"

definition notify ::
  "notify_world \<Rightarrow> uuid \<Rightarrow> uuid \<Rightarrow> string \<Rightarrow> uuid \<Rightarrow> string \<Rightarrow> string \<Rightarrow> dict \<Rightarrow> timestamp \<Rightarrow>
   ('z notify_db_scheme txn, (string \<times> bool) list) op" where
  "notify w banner_id send_id trigger user_id user_email subject body now =
     (if trigger \<notin> set ALL_TRIGGERS then ret []
      else
        bind_op (read_db (list_overrides_for_user user_id)) (\<lambda>overrides.
        bind_op (when_enabled (pref overrides trigger ''in_portal'') ''in_portal''
                   (fire_in_portal banner_id user_id trigger body now)) (\<lambda>portal.
        bind_op (when_enabled (pref overrides trigger ''email'') ''email''
                   (fire_email w send_id user_email subject body user_id now)) (\<lambda>email.
        ret (portal @ email)))))"

section \<open>Webhook settings\<close>

definition put_webhook_config ::
  "(string \<Rightarrow> uuid \<Rightarrow> string) \<Rightarrow> string option \<Rightarrow> uuid \<Rightarrow> string \<Rightarrow> ('z notify_db_scheme, string \<times> string) op" where
  "put_webhook_config derive seed user_id url =
     (case seed of
        None \<Rightarrow> raise (HTTPException 503 ''webhook_signing_not_configured'')
      | Some sd \<Rightarrow>
          if take 8 url \<noteq> ''https://'' \<and> take 7 url \<noteq> ''http://'' then raise (HTTPException 400 ''invalid_webhook_url'')
          else
            bind_op (gets (\<lambda>db. find (\<lambda>c. wc_user_id c = user_id) (webhooks db))) (\<lambda>row.
            bind_op (case row of
                       None \<Rightarrow> modify (\<lambda>db. db\<lparr>webhooks := webhooks db @
                         [\<lparr>wc_user_id = user_id, wc_url = url, wc_last_test_at = None\<rparr>]\<rparr>)
                     | Some c \<Rightarrow> modify (\<lambda>db. db\<lparr>webhooks :=
                         update_where (\<lambda>r. wc_user_id r = user_id) (\<lambda>r. r\<lparr>wc_url := url\<rparr>) (webhooks db)\<rparr>)) (\<lambda>_.
            ret (url, derive sd user_id))))"

definition delete_webhook_config :: "uuid \<Rightarrow> ('z notify_db_scheme, unit) op" where
  "delete_webhook_config user_id =
     modify (\<lambda>db. db\<lparr>webhooks := filter (\<lambda>c. wc_user_id c \<noteq> user_id) (webhooks db)\<rparr>)"

definition test_webhook_config ::
  "notify_world \<Rightarrow> uuid \<Rightarrow> timestamp \<Rightarrow> ('z notify_db_scheme, bool) op" where
  "test_webhook_config w user_id now =
     bind_op (gets (\<lambda>db. find (\<lambda>c. wc_user_id c = user_id) (webhooks db))) (\<lambda>row.
     case row of
       None \<Rightarrow> raise (HTTPException 404 ''webhook_not_configured'')
     | Some c \<Rightarrow>
        (case nw_seed w of
           None \<Rightarrow> raise (HTTPException 503 ''webhook_signing_not_configured'')
         | Some seed \<Rightarrow>
             let ok = nw_deliver w (wc_url c) (nw_secret w seed user_id)
                        [(''trigger'', JStr ''test_ping''), (''body'', JObj [(''hello'', JStr ''world'')])]
             in bind_op (modify (\<lambda>db. db\<lparr>webhooks :=
                  update_where (\<lambda>r. wc_user_id r = user_id) (\<lambda>r. r\<lparr>wc_last_test_at := Some now\<rparr>) (webhooks db)\<rparr>)) (\<lambda>_.
                ret ok)))"

end
