(* ===== verification/Notifications_Properties.thy ===== *)
theory Notifications_Properties
  imports Notifications Office_Laws
begin

text \<open>
  What notifications promise: the two ways to resolve a preference agree, a trigger never fails its request and its
  banner survives the request's rollback, a delivery makes a bounded number of POSTs, a signature verifies, an event
  is stored once.
\<close>

section \<open>Preferences\<close>

lemma overlay_find:
  "distinct (map (\<lambda>c. (nc_trigger c, nc_channel c)) rows) \<Longrightarrow>
   foldl (\<lambda>out row. out((nc_trigger row, nc_channel row) \<mapsto> nc_enabled row)) m rows (t, c) =
     (case find (\<lambda>r. nc_trigger r = t \<and> nc_channel r = c) rows of Some r \<Rightarrow> Some (nc_enabled r) | None \<Rightarrow> m (t, c))"
proof (induction rows arbitrary: m)
  case (Cons r rows)
  have "find (\<lambda>q. nc_trigger q = nc_trigger r \<and> nc_channel q = nc_channel r) rows = None"
    using Cons.prems by (force simp: find_None_iff image_iff)
  with Cons show ?case by (cases "(nc_trigger r, nc_channel r) = (t, c)") auto
qed simp

lemma defaults_total: "t \<in> set ALL_TRIGGERS \<Longrightarrow> c \<in> set ALL_CHANNELS \<Longrightarrow> map_of DEFAULTS (t, c) \<noteq> None"
proof -
  have "list_all (\<lambda>t. list_all (\<lambda>c. map_of DEFAULTS (t, c) \<noteq> None) ALL_CHANNELS) ALL_TRIGGERS" by code_simp
  then show "t \<in> set ALL_TRIGGERS \<Longrightarrow> c \<in> set ALL_CHANNELS \<Longrightarrow> map_of DEFAULTS (t, c) \<noteq> None" by (simp add: list_all_iff)
qed

lemma overrides_distinct:
  "distinct (map config_key (preferences db)) \<Longrightarrow> distinct (map (\<lambda>c. (nc_trigger c, nc_channel c)) (list_overrides_for_user u db))"
  by (auto simp: list_overrides_for_user_def config_key_def distinct_map inj_on_def)

lemma resolved_eq:
  "distinct (map config_key (preferences db)) \<Longrightarrow> resolved_prefs_for_user u db (t, c) =
     (case find (\<lambda>r. config_key r = (u, t, c)) (preferences db) of Some r \<Rightarrow> Some (nc_enabled r) | None \<Rightarrow> map_of DEFAULTS (t, c))"
proof -
  assume "distinct (map config_key (preferences db))"
  from overlay_find [OF overrides_distinct [OF this]]
  have "resolved_prefs_for_user u db (t, c) =
    (case find (\<lambda>r. nc_trigger r = t \<and> nc_channel r = c) (list_overrides_for_user u db) of Some r \<Rightarrow> Some (nc_enabled r) | None \<Rightarrow> map_of DEFAULTS (t, c))"
    by (simp add: resolved_prefs_for_user_def)
  moreover have "find (\<lambda>r. nc_trigger r = t \<and> nc_channel r = c) (filter (\<lambda>r. nc_user_id r = u) rows) = find (\<lambda>r. config_key r = (u, t, c)) rows" for rows
    by (induction rows) (auto simp: config_key_def)
  ultimately show ?thesis by (simp add: list_overrides_for_user_def)
qed

text \<open>C39. The preferences of a customer. For every known trigger and channel the matrix the portal shows has the value
  that the fan-out of a trigger uses; and setting a preference changes exactly that cell of exactly that customer's
  matrix.\<close>

theorem preferences_agree:
  assumes keys: "distinct (map config_key (preferences db))" and "t \<in> set ALL_TRIGGERS" "c \<in> set ALL_CHANNELS"
  shows "resolved_prefs_for_user u db (t, c) = Some (pref (list_overrides_for_user u db) t c) \<and>
    (\<exists>row db'. set_preference rp u t c b db = (Inr row, db') \<and> distinct (map config_key (preferences db')) \<and>
       resolved_prefs_for_user u db' = (resolved_prefs_for_user u db)((t, c) \<mapsto> b) \<and>
       (\<forall>v. v \<noteq> u \<longrightarrow> resolved_prefs_for_user v db' = resolved_prefs_for_user v db))"
proof -
  have "resolved_prefs_for_user u db (t, c) = Some (pref (list_overrides_for_user u db) t c)"
    using overlay_find [OF overrides_distinct [OF keys], where m = "map_of DEFAULTS"] defaults_total [OF assms(2,3)]
    by (auto simp: resolved_prefs_for_user_def pref_def split: option.splits)
  moreover have "\<exists>row db'. set_preference rp u t c b db = (Inr row, db') \<and> distinct (map config_key (preferences db')) \<and>
       (\<forall>k. find (\<lambda>r. config_key r = k) (preferences db') = (if k = (u, t, c) then Some \<lparr>nc_user_id = u, nc_trigger = t, nc_channel = c, nc_enabled = b\<rparr>
          else find (\<lambda>r. config_key r = k) (preferences db)))"
  proof (cases "find (\<lambda>r. config_key r = (u, t, c)) (preferences db)")
    case None
    then have "(u, t, c) \<notin> config_key ` set (preferences db)" by (auto simp: find_None_iff image_iff)
    with None keys assms(2,3) show ?thesis
      by (auto simp: set_preference_def Let_def ret_def config_key_def find_append split: option.splits)
  next
    case (Some r)
    have ck: "config_key (x\<lparr>nc_enabled := b\<rparr>) = config_key x" for x by (simp add: config_key_def)
    have "r\<lparr>nc_enabled := b\<rparr> = \<lparr>nc_user_id = u, nc_trigger = t, nc_channel = c, nc_enabled = b\<rparr>"
      using find_SomeD [OF Some] by (cases r) (simp add: config_key_def)
    moreover have "find (\<lambda>x. config_key x = k) (update_where (\<lambda>x. config_key x = (u, t, c)) (\<lambda>x. x\<lparr>nc_enabled := b\<rparr>) (preferences db)) =
      (if k = (u, t, c) then Some (r\<lparr>nc_enabled := b\<rparr>) else find (\<lambda>x. config_key x = k) (preferences db))" for k
      using Some ck by (auto simp: find_update_where_same intro!: find_update_where_other)
    ultimately show ?thesis using Some keys assms(2,3) ck by (simp add: set_preference_def ret_def)
  qed
  then obtain row db' where run: "set_preference rp u t c b db = (Inr row, db')" "distinct (map config_key (preferences db'))"
    and find: "\<And>k. find (\<lambda>r. config_key r = k) (preferences db') = (if k = (u, t, c) then Some \<lparr>nc_user_id = u, nc_trigger = t, nc_channel = c, nc_enabled = b\<rparr>
          else find (\<lambda>r. config_key r = k) (preferences db))" by blast
  have "resolved_prefs_for_user v db' (t', c') = (if v = u \<and> t' = t \<and> c' = c then Some b else resolved_prefs_for_user v db (t', c'))" for v t' c'
    using find [of "(v, t', c')"] by (simp add: resolved_eq [OF run(2)] resolved_eq [OF keys])
  then have "resolved_prefs_for_user u db' = (resolved_prefs_for_user u db)((t, c) \<mapsto> b)"
    "\<forall>v. v \<noteq> u \<longrightarrow> resolved_prefs_for_user v db' = resolved_prefs_for_user v db" by (auto simp: fun_eq_iff)
  ultimately show ?thesis using run by blast
qed

section \<open>Deliveries\<close>

lemma not_both: "delivered r \<Longrightarrow> retryable r \<Longrightarrow> False"
  by (auto simp: delivered_def retryable_def split: option.splits)

lemma attempts_spec:
  "send_attempts post i n backoff = (ok, k, waits) \<Longrightarrow>
   k \<le> n \<and> (n = 0 \<or> 0 < k) \<and> waits = map (\<lambda>j. backoff * 2 ^ j) [0..<k - 1] \<and>
   (\<forall>j. i \<le> j \<and> j < i + k - 1 \<longrightarrow> retryable (post j)) \<and> (ok \<longleftrightarrow> 0 < k \<and> delivered (post (i + k - 1))) \<and>
   (\<not> ok \<longrightarrow> k = n \<or> \<not> retryable (post (i + k - 1)))"
proof (induction post i n backoff arbitrary: ok k waits rule: send_attempts.induct)
  case (2 post i n backoff)
  show ?case
  proof (cases "delivered (post i) \<or> \<not> retryable (post i) \<or> n = 0")
    case True
    with "2.prems" have "k = 1" "waits = []" "ok \<longleftrightarrow> delivered (post i)" "\<not> ok \<longrightarrow> n = 0 \<or> \<not> retryable (post i)"
      by (auto split: if_splits)
    then show ?thesis by auto
  next
    case False
    then obtain k' waits' where r: "send_attempts post (Suc i) n (2 * backoff) = (ok, k', waits')" "k = Suc k'" "waits = backoff # waits'"
      using "2.prems" by (auto split: prod.splits)
    note IH = "2.IH" [OF _ _ _ r(1)]
    with False have k': "0 < k'" by simp
    then have "[0..<k - 1] = 0 # map Suc [0..<k' - 1]" using r(2) by (cases k') (simp_all add: upt_conv_Cons map_Suc_upt del: upt_Suc)
    moreover have "retryable (post j)" if "i \<le> j" "j < i + k - 1" for j
    proof (cases "j = i")
      case False
      with that r(2) IH \<open>\<not> (delivered (post i) \<or> \<not> retryable (post i) \<or> n = 0)\<close> show ?thesis by simp
    qed (use False in simp)
    moreover have "i + k - 1 = Suc i + k' - 1" using r(2) k' by simp
    ultimately show ?thesis using IH False r(2,3) k' by (auto simp: mult.assoc)
  qed
qed auto

text \<open>C40. One webhook delivery makes at most \<open>max_retries\<close> POSTs of the same signed request, pausing 500 ms, 1 s, 2 s
  and so on between them, and reports success exactly when one of those POSTs is answered 2xx and all before it failed
  in a way worth retrying.\<close>

theorem webhook_delivery_bounded:
  assumes "send_webhook hmac dumps post wid ts url secret payload max_retries = (ok, posts, waits)"
  shows "\<exists>request. wp_url request = url \<and> wp_signature request = sign_body hmac secret wid ts (wp_body request) \<and>
    posts \<le> max_retries \<and> waits = map (\<lambda>j. 500 * 2 ^ j) [0..<posts - 1] \<and>
    (ok \<longleftrightarrow> (\<exists>i. 1 \<le> i \<and> i \<le> max_retries \<and> delivered (post request i) \<and> (\<forall>j. 1 \<le> j \<and> j < i \<longrightarrow> retryable (post request j))))"
proof -
  let ?r = "\<lparr>wp_url = url, wp_id = wid, wp_timestamp = ts, wp_signature = sign_body hmac secret wid ts (dumps payload), wp_body = dumps payload\<rparr>"
  from assms have "send_attempts (post ?r) 1 max_retries 500 = (ok, posts, waits)" by (simp add: send_webhook_def Let_def)
  note S = attempts_spec [OF this]
  have ok if i: "1 \<le> i" "i \<le> max_retries" "delivered (post ?r i)" "\<And>j. 1 \<le> j \<and> j < i \<Longrightarrow> retryable (post ?r j)" for i
  proof (rule ccontr)
    assume "\<not> ok"
    with S i have p: "0 < posts" "posts = max_retries \<or> \<not> retryable (post ?r posts)" "\<not> delivered (post ?r posts)"
      "\<And>j. 1 \<le> j \<and> j < posts \<Longrightarrow> retryable (post ?r j)" by auto
    consider "i < posts" | "i = posts" | "posts < i" by linarith
    then show False using i p not_both by cases fastforce+
  qed
  moreover have "1 \<le> posts \<and> posts \<le> max_retries \<and> delivered (post ?r posts) \<and> (\<forall>j. 1 \<le> j \<and> j < posts \<longrightarrow> retryable (post ?r j))" if ok
    using S that by auto
  ultimately have "ok \<longleftrightarrow> (\<exists>i. 1 \<le> i \<and> i \<le> max_retries \<and> delivered (post ?r i) \<and> (\<forall>j. 1 \<le> j \<and> j < i \<longrightarrow> retryable (post ?r j)))"
    by blast
  with S show ?thesis by (intro exI [of _ ?r]) simp
qed

theorem webhook_delivery_bounded_witness:
  "\<exists>posts waits. send_webhook (\<lambda>_ _. []) (\<lambda>_. []) (\<lambda>_ i. if i < 3 then Some 503 else Some 200) ''w'' ''1'' ''http://x'' ''s'' [] 3 = (True, posts, waits) \<and>
     posts \<le> 3 \<and> waits = map (\<lambda>j. 500 * 2 ^ j) [0..<posts - 1]"
proof -
  have run: "send_webhook (\<lambda>_ _. []) (\<lambda>_. []) (\<lambda>_ i. if i < 3 then Some 503 else Some 200) ''w'' ''1'' ''http://x'' ''s'' [] 3 = (True, 3, [500, 1000])"
    by (simp add: send_webhook_def delivered_def retryable_def numeral_3_eq_3)
  from webhook_delivery_bounded [OF run] run show ?thesis by (intro exI [of _ 3] exI [of _ "[500, 1000]"]) auto
qed

definition bob :: user where
  "bob = \<lparr>us_id = ''u1'', us_email = ''b'', us_email_verified_at = Some 1, us_password_hash = None\<rparr>"

definition notify_start :: notify_db where
  "notify_start = \<lparr>server_now = 0, balances = [], ledger = [], topups = [], windows = [], configs = [],
     accounts = [], fundings = [], budgets = [], sessions = [], settlements = [], grants = [],
     payments = [], create_requests = [], deposits = [], audits = [],
     users = [bob], verifications = [], resets = [], identities = [], web_sessions = [], approvals = [], api_keys = [],
     email_sends = [], operators = [], sdk_approvals = [], email_events = [], preferences = [], banners = [], webhooks = []\<rparr>"

theorem preferences_agree_witness:
  "resolved_prefs_for_user ''u1'' notify_start (''cap_reached'', ''email'') = Some True \<and>
   (\<exists>row db'. set_preference id ''u1'' ''cap_reached'' ''email'' False notify_start = (Inr row, db') \<and>
     resolved_prefs_for_user ''u1'' db' (''cap_reached'', ''email'') = Some False)"
proof -
  have p: "pref [] ''cap_reached'' ''email''" by code_simp
  have k: "''cap_reached'' \<in> set ALL_TRIGGERS" "''email'' \<in> set ALL_CHANNELS" by code_simp+
  have d: "distinct (map config_key (preferences notify_start))" by (simp add: notify_start_def)
  from preferences_agree [OF d k, of "''u1''" id False] p show ?thesis
    by (auto simp: list_overrides_for_user_def notify_start_def)
qed

section \<open>Triggers\<close>

lemma independently_run [simp]:
  "bind_op (independently g) f s = f () (s\<lparr>working := g (working s), durable := g (durable s)\<rparr>)"
  by (simp add: independently_def)

definition banners_kept :: "portal_notification list \<Rightarrow> 'z notify_db_scheme txn \<Rightarrow> bool" where
  "banners_kept bs s \<longleftrightarrow> set bs \<subseteq> set (banners (durable s))"

text \<open>A step of the fan-out always returns and keeps the committed banners.\<close>

definition quiet :: "('z notify_db_scheme txn, 'a) op \<Rightarrow> bool" where
  "quiet m \<longleftrightarrow> (\<forall>s. \<exists>x s'. m s = (Inr x, s') \<and> set (banners (durable s)) \<subseteq> set (banners (durable s')))"

lemma quiet_bind: "quiet m \<Longrightarrow> (\<And>x. quiet (f x)) \<Longrightarrow> quiet (bind_op m f)"
  unfolding quiet_def
proof
  fix s
  assume m: "\<forall>s. \<exists>x s'. m s = (Inr x, s') \<and> set (banners (durable s)) \<subseteq> set (banners (durable s'))"
    and f: "\<And>x. \<forall>s. \<exists>y s'. f x s = (Inr y, s') \<and> set (banners (durable s)) \<subseteq> set (banners (durable s'))"
  from m obtain x s1 where 1: "m s = (Inr x, s1)" "set (banners (durable s)) \<subseteq> set (banners (durable s1))" by blast
  from f obtain y s2 where 2: "f x s1 = (Inr y, s2)" "set (banners (durable s1)) \<subseteq> set (banners (durable s2))" by blast
  from 1 2 show "\<exists>y s'. bind_op m f s = (Inr y, s') \<and> set (banners (durable s)) \<subseteq> set (banners (durable s'))"
    by (auto simp: bind_op_def)
qed

lemma quiet_ret [simp]: "quiet (ret x)" and quiet_read [simp]: "quiet (read_db g)"
  by (simp_all add: quiet_def ret_def read_db_def gets_def)

lemma quiet_when: "quiet m \<Longrightarrow> quiet (when_enabled b c m)"
  by (simp add: when_enabled_def quiet_bind)

lemma quiet_email: "quiet (fire_email w k to subject body u now)"
  by (auto simp: fire_email_def quiet_def ret_def record_email_send_def Let_def modify_def split: option.splits sum.splits)

lemma quiet_webhook: "quiet (fire_webhook w u t body)"
  unfolding fire_webhook_def by (intro quiet_bind quiet_read) (auto split: option.splits)

lemma quiet_portal: "quiet (fire_in_portal_independent w k u t body now)"
  by (auto simp: fire_in_portal_independent_def quiet_def ret_def)

text \<open>A trigger never breaks the request it fires in: whatever mail, the webhook and the separate sessions do, it
  returns. When the customer has the portal channel enabled and the separate session opens, the banner outlives the
  request: it is stored even when the request raises right afterwards and is rolled back.\<close>

theorem banner_survives_rollback:
  fixes db :: "'z notify_db_scheme"
  assumes "get_user db u = Some v" "pref (list_overrides_for_user u db) t ''in_portal''" "nw_banner_session w"
  shows "\<exists>db'. session_scope (bind_op (notify_trigger w k m t u subject body now) (\<lambda>_. raise e :: ('z notify_db_scheme txn, unit) op)) db = (Inl e, db') \<and>
    banner_of k u t body now \<in> set (banners db')"
proof -
  let ?s = "\<lparr>working = db, durable = db\<rparr>"
  let ?g = "\<lambda>d. d\<lparr>banners := banners d @ [banner_of k u t body now]\<rparr>"
  let ?rest = "bind_op (when_enabled (pref (list_overrides_for_user u db) t ''email'') ''email'' (fire_email w m (us_email v) subject body u now)) (\<lambda>email.
         bind_op (when_enabled (pref (list_overrides_for_user u db) t ''webhook'') ''webhook'' (fire_webhook w u t body)) (\<lambda>webhook.
         ret ([(''in_portal'', True)] @ email @ webhook)))"
  have "quiet ?rest" by (intro quiet_bind quiet_when quiet_email quiet_webhook quiet_ret)
  then obtain x s' where r: "?rest \<lparr>working = ?g db, durable = ?g db\<rparr> = (Inr x, s')"
    and sub: "set (banners (?g db)) \<subseteq> set (banners (durable s'))"
    unfolding quiet_def by (metis txn.select_convs(2))
  have "notify_trigger w k m t u subject body now ?s = ?rest \<lparr>working = ?g db, durable = ?g db\<rparr>"
    using assms by (simp add: notify_trigger_def when_enabled_def [of True] fire_in_portal_independent_def bind_assoc)
  then have "bind_op (notify_trigger w k m t u subject body now) (\<lambda>_. raise e :: ('z notify_db_scheme txn, unit) op) ?s = (Inl e, s')"
    using r by (simp add: bind_op_def [of "notify_trigger w k m t u subject body now"] raise_def)
  then have "session_scope (bind_op (notify_trigger w k m t u subject body now) (\<lambda>_. raise e :: ('z notify_db_scheme txn, unit) op)) db = (Inl e, durable s')"
    by (simp add: session_scope_def)
  with sub show ?thesis by auto
qed

definition broken_world :: notify_world where
  "broken_world = \<lparr>nw_provider = Some (\<lambda>_. Inl (EmailProviderError ''down'')), nw_banner_session = True, nw_mail_session = False,
     nw_seed = None, nw_secret = (\<lambda>s u. s), nw_deliver = (\<lambda>u s p. False)\<rparr>"

theorem banner_survives_rollback_witness:
  "\<exists>db'. session_scope (bind_op (notify_trigger broken_world ''n1'' ''m1'' ''cap_reached'' ''u1'' ''s'' [] 5)
      (\<lambda>_. raise (SpendCapExceeded 1 2) :: (notify_db txn, unit) op)) notify_start = (Inl (SpendCapExceeded 1 2), db') \<and>
    banner_of ''n1'' ''u1'' ''cap_reached'' [] 5 \<in> set (banners db')"
proof -
  have "pref [] ''cap_reached'' ''in_portal''" by code_simp
  then have "pref (list_overrides_for_user ''u1'' notify_start) ''cap_reached'' ''in_portal''"
    by (simp add: list_overrides_for_user_def notify_start_def)
  moreover have "get_user notify_start ''u1'' = Some bob" by (simp add: get_user_def notify_start_def bob_def)
  moreover have "nw_banner_session broken_world" by (simp add: broken_world_def)
  ultimately show ?thesis by (intro banner_survives_rollback)
qed

section \<open>Signatures\<close>

lemma b64_safe: "c \<in> set (b64encode bs) \<Longrightarrow> \<not> is_str_space c \<and> c \<noteq> CHR '',''"
proof (induction bs rule: b64encode.induct)
  have safe: "\<not> is_str_space (b64_char n) \<and> b64_char n \<noteq> CHR '',''" if "n < 64" for n
  proof -
    have "b64_val (b64_char n) = Some n" using that by simp
    moreover have "b64_val c = None" if "is_str_space c \<or> c = CHR '',''" for c using that by (auto simp: is_str_space_def b64_val_def Let_def)
    ultimately show ?thesis by (metis option.distinct(1))
  qed
  have pad: "\<not> is_str_space CHR ''=''" by code_simp
  show "c \<in> set (b64encode [a]) \<Longrightarrow> \<not> is_str_space c \<and> c \<noteq> CHR '',''" for a using safe sextets pad by auto
  show "c \<in> set (b64encode [a, b]) \<Longrightarrow> \<not> is_str_space c \<and> c \<noteq> CHR '',''" for a b using safe sextets pad by auto
  show "c \<in> set (b64encode (a # b # d # rest)) \<Longrightarrow> \<not> is_str_space c \<and> c \<noteq> CHR '',''"
    if "c \<in> set (b64encode rest) \<Longrightarrow> \<not> is_str_space c \<and> c \<noteq> CHR '',''" for a b d rest
    using that safe sextets by auto
qed simp

lemma split_ws_word: "s \<noteq> [] \<Longrightarrow> \<forall>c \<in> set s. \<not> is_str_space c \<Longrightarrow> split_ws s = [s]"
  by (cases s) (auto simp: takeWhile_eq_all_conv [THEN iffD2] dropWhile_eq_Nil_conv [THEN iffD2])

lemma extract_signed: "bs \<noteq> [] \<Longrightarrow> extract_v1_signatures (''v1,'' @ b64encode bs) = [b64encode bs]"
proof -
  assume "bs \<noteq> []"
  then have ne: "b64encode bs \<noteq> []" by (cases bs rule: b64encode.cases) auto
  have "\<forall>c \<in> set (''v1,''). \<not> is_str_space c" by code_simp
  with b64_safe have "split_ws (''v1,'' @ b64encode bs) = [''v1,'' @ b64encode bs]" by (intro split_ws_word) auto
  with ne show ?thesis by (simp add: extract_v1_signatures_def map_filter_simps)
qed

lemma length_b64: "length (b64encode bs) mod 4 = 0"
  by (induction bs rule: b64encode.induct) auto

lemma padded_key: "sign_key (''whsec_'' @ b64encode key) = key" "verify_key (''whsec_'' @ b64encode key) = key"
  by (simp_all add: sign_key_def verify_key_def removeprefix_def length_b64 b64_roundtrip)

text \<open>A body signed with a padded secret is accepted under that secret inside the tolerance.\<close>

theorem signature_roundtrip:
  assumes "int_of_text ts = Inr n" "\<bar>now div 1000000 - n\<bar> \<le> 300" "wid \<noteq> []" "ts \<noteq> []" "\<And>k m. hmac k m \<noteq> []"
  shows "verify_signature hmac (''whsec_'' @ b64encode key) (Some wid) (Some ts)
    (Some (sign_body hmac (''whsec_'' @ b64encode key) wid ts body)) body now = Inr ()"
  using assms extract_signed [of "hmac key (signed_content wid ts body)"] b64encode_ascii
  by (simp add: verify_signature_def WEBHOOK_TIMESTAMP_TOLERANCE_def sign_body_def padded_key [simplified] Let_def)

text \<open>
  The secret a customer is given has its padding stripped. Decoded the way the inbound webhook is verified, it is
  refused as base64 and taken literally, so that verification uses another key than the one the delivery was signed
  with.
\<close>

lemma stripped_encode:
  "length bs mod 3 = 2 \<Longrightarrow> \<exists>cs. b64encode bs = cs @ ''='' \<and> cs \<noteq> [] \<and> last cs \<noteq> CHR ''='' \<and>
     (\<forall>left pads out. b64_loop 0 left pads out cs = None) \<and> length cs mod 4 = 3"
proof (induction bs rule: b64encode.induct)
  case (4 a b c rest)
  then obtain cs where cs: "b64encode rest = cs @ ''=''" "cs \<noteq> []" "last cs \<noteq> CHR ''=''" "\<And>left pads out. b64_loop 0 left pads out cs = None"
    "length cs mod 4 = 3" by auto
  let ?h = "[b64_char (unat a div 4), b64_char (unat a mod 4 * 16 + unat b div 16), b64_char (unat b mod 16 * 4 + unat c div 64), b64_char (unat c mod 64)]"
  have "b64encode (a # b # c # rest) = (?h @ cs) @ ''=''" using cs(1) by simp
  moreover have "b64_loop 0 left pads out (?h @ cs) = None" for left pads out using cs(4) by (simp add: sextets)
  ultimately show ?case using cs by (intro exI [of _ "?h @ cs"]) auto
next
  case (3 a b)
  let ?h = "[b64_char (unat a div 4), b64_char (unat a mod 4 * 16 + unat b div 16), b64_char (unat b mod 16 * 4)]"
  show ?case by (rule exI [of _ ?h]) (simp add: sextets)
qed auto

theorem derived_secret_not_mirrored:
  assumes "length (hmac (encode seed) (uuid_bytes u)) = 32"
  shows "sign_key (derive_secret hmac uuid_bytes seed u) = hmac (encode seed) (uuid_bytes u) \<and>
    verify_key (derive_secret hmac uuid_bytes seed u) = encode (derive_secret hmac uuid_bytes seed u)"
proof -
  let ?mac = "hmac (encode seed) (uuid_bytes u)"
  obtain cs where cs: "b64encode ?mac = cs @ ''=''" "cs \<noteq> []" "last cs \<noteq> CHR ''=''" "\<And>left pads out. b64_loop 0 left pads out cs = None"
    "length cs mod 4 = 3" using stripped_encode [of ?mac] assms by auto
  have "rstrip_char CHR ''='' (cs @ ''='') = cs"
    using cs(2,3) by (cases "rev cs") (auto simp: rstrip_char_def dropWhile_eq_self_iff)
  then have d: "derive_secret hmac uuid_bytes seed u = ''whsec_'' @ cs" by (simp add: derive_secret_def cs(1))
  have "b64decode (cs @ ''='') = Some ?mac" using b64_roundtrip [of ?mac] cs(1) by simp
  moreover have "b64decode cs = None" using cs(4) by (simp add: b64decode_def)
  ultimately show ?thesis unfolding d by (simp add: sign_key_def verify_key_def removeprefix_def Let_def cs(5))
qed

section \<open>Events\<close>

text \<open>A delivered event is stored once: the same provider event again answers with the stored row and changes nothing.\<close>

theorem event_stored_once:
  assumes "ingest_event k event pid now db = (Inr (row, new), db')"
  shows "ingest_event k' event' pid now' db' = (Inr (row, False), db') \<and>
    email_events db' = email_events db @ (if new then [row] else []) \<and> (new \<longleftrightarrow> pid \<notin> ee_provider_event_id ` set (email_events db))"
proof (cases "find (\<lambda>e. ee_provider_event_id e = pid) (email_events db)")
  case None
  then have "pid \<notin> ee_provider_event_id ` set (email_events db)" by (auto simp: find_None_iff)
  moreover from None assms have "new" "ee_provider_event_id row = pid" "email_events db' = email_events db @ [row]"
    by (auto simp: ingest_event_def Let_def op_iff split: option.splits if_splits)
  ultimately show ?thesis using None by (simp add: ingest_event_def find_append ret_def)
next
  case (Some r)
  with assms find_SomeD [OF Some] show ?thesis by (auto simp: ingest_event_def ret_def)
qed

end
