(* ===== verification/Usage.thy ===== *)
theory Usage
  imports Resolution Operators "HOL-Library.Char_ord" "HOL-Library.List_Lexorder" "HOL-Library.Product_Lexorder"
begin

text \<open>
  The usage views (\<open>domains/usage/service.py\<close>, \<open>types.py\<close>): the pages of jobs, the summary of a window with its
  breakdowns, the customer's overview and the operators' attention list. All of them read the engagements; the overview
  also reads the balance. The rows store naive UTC and the views are aware UTC; both are the instant here.
  \<open>total_seconds()\<close> and a percentage are exact quotients; the code rounds them to a double. Where SQL leaves the order of
  equal keys open, rows keep their insertion order. \<open>clock.now()\<close> is \<open>now\<close>; \<open>trunc\<close> is Python's \<open>int\<close> of the float a JSON
  text denotes, \<open>show\<close> its \<open>str\<close> of a JSON value that is not a string, \<open>zero\<close> whether the float of a text is zero, and
  \<open>fromisoformat\<close> the method of that name.
\<close>

section \<open>Tables and constants\<close>

record telemetry_event =
  te_api_key_id :: "uuid option"
  te_user_id :: "uuid option"
  te_event_type :: string
  te_event_schema_version :: int
  te_correlation_id :: "uuid option"
  te_client_ts :: "timestamp option"
  te_received_ts :: timestamp
  te_source :: string
  te_payload :: dict
  te_geo_region :: "string option"
  te_account_tier :: "string option"
  te_broker_operator_id :: "string option"
  te_ingest_node_id :: "string option"

record usage_db = admin_db +
  telemetry_events :: "telemetry_event list"

definition OPEN_STATES :: "string list" where
  "OPEN_STATES = [''open'', ''draining'']"

definition DEFAULT_STALE_AFTER_SECONDS :: int where
  "DEFAULT_STALE_AFTER_SECONDS = 900"

definition DEFAULT_SESSION_ATTENTION_AFTER_SECONDS :: int where
  "DEFAULT_SESSION_ATTENTION_AFTER_SECONDS = 2 * 60 * 60"

definition ZERO_OUTPUT_MIN_DURATION_SECONDS :: int where
  "ZERO_OUTPUT_MIN_DURATION_SECONDS = 60"

definition ZERO_OUTPUT_LOOKBACK_HOURS :: int where
  "ZERO_OUTPUT_LOOKBACK_HOURS = 24"

definition SETTLEMENT_FAILURE_EVENT :: string where
  "SETTLEMENT_FAILURE_EVENT = ''server.settlement_verification_failed''"

definition DEFAULT_SUMMARY_DAYS :: int where
  "DEFAULT_SUMMARY_DAYS = 30"

definition MAX_PAGE_LIMIT :: int where
  "MAX_PAGE_LIMIT = 500"

definition days :: "int \<Rightarrow> timestamp" where
  "days n = seconds (n * 86400)"

definition hours :: "int \<Rightarrow> timestamp" where
  "hours n = seconds (n * 3600)"

definition total_seconds :: "timestamp \<Rightarrow> rat" where
  "total_seconds d = of_int d / 1000000"

section \<open>Time\<close>

definition utc :: "datetime \<Rightarrow> timestamp" where
  "utc value = (case value of Naive t \<Rightarrow> t | Aware t \<Rightarrow> t)"

definition default_window :: "timestamp \<Rightarrow> datetime option \<Rightarrow> datetime option \<Rightarrow> timestamp \<times> timestamp" where
  "default_window now since until =
     (let end_ts = (case until of Some u \<Rightarrow> utc u | None \<Rightarrow> now);
          start = (case since of Some s \<Rightarrow> utc s | None \<Rightarrow> end_ts - days DEFAULT_SUMMARY_DAYS)
      in if end_ts < start then (end_ts, start) else (start, end_ts))"

text \<open>The proleptic Gregorian date of a day counted from 1970-01-01.\<close>

definition civil_date :: "int \<Rightarrow> int \<times> int \<times> int" where
  "civil_date day =
     (let z = day + 719468;
          era = z div 146097;
          doe = z mod 146097;
          yoe = (doe - doe div 1460 + doe div 36524 - doe div 146096) div 365;
          doy = doe - (365 * yoe + yoe div 4 - yoe div 100);
          mp = (5 * doy + 2) div 153;
          d = doy - (153 * mp + 2) div 5 + 1;
          m = (if mp < 10 then mp + 3 else mp - 9)
      in (yoe + era * 400 + (if m \<le> 2 then 1 else 0), m, d))"

definition two_digits :: "int \<Rightarrow> string" where
  "two_digits n = (if n < 10 then ''0'' else []) @ str_int n"

definition day_key :: "timestamp \<Rightarrow> string" where
  "day_key value =
     (case civil_date (value div days 1) of
        (y, m, d) \<Rightarrow> str_int y @ ''-'' @ two_digits m @ ''-'' @ two_digits d)"

section \<open>One row\<close>

definition blocked_reason_for :: "payment_session \<Rightarrow> string option" where
  "blocked_reason_for row =
     (case json_get (breakdown_of row) ''settlement_block'' of
        Some (JObj block) \<Rightarrow>
          (case json_get block ''reason'' of
             Some (JStr reason) \<Rightarrow> Some reason
           | _ \<Rightarrow> None)
      | _ \<Rightarrow> None)"

definition accounting_outcome_for :: "payment_session \<Rightarrow> timestamp \<Rightarrow> int \<Rightarrow> string" where
  "accounting_outcome_for row now stale_after_seconds =
     (if ps_state row = ''closed''
      then if ps_outcome row = Some ''conservative_full_charge'' then ''conservative_full_charge''
           else ''broker_settled''
      else if blocked_reason_for row \<noteq> None then ''unresolved''
      else if of_int stale_after_seconds < total_seconds (now - ps_opened_at row) then ''unresolved'' else ''open'')"

definition work_unit_of :: "payment_session \<Rightarrow> string" where
  "work_unit_of row =
     (case ps_route_snapshot row of
        None \<Rightarrow> ''units''
      | Some snapshot \<Rightarrow> if rs_work_unit snapshot = [] then ''units'' else rs_work_unit snapshot)"

definition held :: "payment_session \<Rightarrow> wei" where
  "held row = (if ps_state row \<in> set OPEN_STATES then ps_funded_value_wei row else 0)"

definition refunded :: "payment_session \<Rightarrow> wei option" where
  "refunded row =
     (case ps_billed_value_wei row of
        None \<Rightarrow> None
      | Some billed \<Rightarrow>
          if ps_state row \<noteq> ''closed'' then None
          else let refund = ps_funded_value_wei row - billed in Some (if 0 < refund then refund else 0))"

record usage_job_view =
  uj_id :: uuid
  uj_protocol :: string
  uj_capability :: string
  uj_offering :: string
  uj_api_key_id :: uuid
  uj_api_key_label :: "string option"
  uj_sdk_identity :: "string option"
  uj_state :: string
  uj_accounting_outcome :: string
  uj_work_unit :: string
  uj_estimated_units :: int
  uj_max_total_units :: int
  uj_actual_units :: "int option"
  uj_funded_value_wei :: wei
  uj_billed_value_wei :: "wei option"
  uj_refunded_wei :: "wei option"
  uj_held_wei :: wei
  uj_opened_at :: timestamp
  uj_closed_at :: "timestamp option"
  uj_duration_seconds :: "rat option"
  uj_blocked_reason :: "string option"
  uj_reported_units :: "int option"
  uj_user_id :: "uuid option"
  uj_user_email :: "string option"

definition job_view ::
  "(string \<Rightarrow> error + int) \<Rightarrow> payment_session \<Rightarrow> timestamp \<Rightarrow> int \<Rightarrow> string option \<Rightarrow> string option \<Rightarrow> bool \<Rightarrow>
   error + usage_job_view" where
  "job_view trunc row now stale_after_seconds api_key_label user_email include_user =
     bind_r (if ps_state row \<in> set OPEN_STATES then reported_units_for trunc row else Inr None) (\<lambda>reported.
     Inr \<lparr>uj_id = ps_id row, uj_protocol = ps_protocol row, uj_capability = ps_capability row,
       uj_offering = ps_offering row, uj_api_key_id = ps_api_key_id row, uj_api_key_label = api_key_label,
       uj_sdk_identity = ps_sdk_identity row, uj_state = ps_state row,
       uj_accounting_outcome = accounting_outcome_for row now stale_after_seconds,
       uj_work_unit = work_unit_of row, uj_estimated_units = ps_estimated_units row,
       uj_max_total_units = ps_max_total_units row, uj_actual_units = ps_actual_units row,
       uj_funded_value_wei = ps_funded_value_wei row, uj_billed_value_wei = ps_billed_value_wei row,
       uj_refunded_wei = refunded row, uj_held_wei = held row, uj_opened_at = ps_opened_at row,
       uj_closed_at = ps_closed_at row,
       uj_duration_seconds = map_option (\<lambda>closed_at. total_seconds (closed_at - ps_opened_at row)) (ps_closed_at row),
       uj_blocked_reason = (if ps_state row \<in> set OPEN_STATES then blocked_reason_for row else None),
       uj_reported_units = reported,
       uj_user_id = (if include_user then Some (ps_user_id row) else None),
       uj_user_email = (if include_user then user_email else None)\<rparr>)"

section \<open>Pages of jobs\<close>

record job_filters =
  jf_capability :: "string option"
  jf_offering :: "string option"
  jf_api_key_id :: "uuid option"
  jf_user_id :: "uuid option"
  jf_state :: "string option"
  jf_since :: "datetime option"
  jf_until :: "datetime option"

definition no_filters :: job_filters where
  "no_filters = \<lparr>jf_capability = None, jf_offering = None, jf_api_key_id = None, jf_user_id = None,
     jf_state = None, jf_since = None, jf_until = None\<rparr>"

text \<open>An empty capability or offering does not filter.\<close>

definition passes_filters :: "job_filters \<Rightarrow> payment_session \<Rightarrow> bool" where
  "passes_filters filters row \<longleftrightarrow>
     (case jf_user_id filters of None \<Rightarrow> True | Some u \<Rightarrow> ps_user_id row = u) \<and>
     (case jf_capability filters of None \<Rightarrow> True | Some c \<Rightarrow> c = [] \<or> ps_capability row = c) \<and>
     (case jf_offering filters of None \<Rightarrow> True | Some off \<Rightarrow> off = [] \<or> ps_offering row = off) \<and>
     (case jf_api_key_id filters of None \<Rightarrow> True | Some k \<Rightarrow> ps_api_key_id row = k) \<and>
     (if jf_state filters = Some ''closed'' then ps_state row = ''closed''
      else if jf_state filters = Some ''open'' then ps_state row \<in> set OPEN_STATES else True) \<and>
     (case jf_since filters of None \<Rightarrow> True | Some s \<Rightarrow> utc s \<le> ps_opened_at row) \<and>
     (case jf_until filters of None \<Rightarrow> True | Some u \<Rightarrow> ps_opened_at row < utc u)"

definition apply_filters :: "('z sessions_db_scheme) \<Rightarrow> job_filters \<Rightarrow> payment_session list" where
  "apply_filters db filters = filter (passes_filters filters) (sessions db)"

definition labels_for :: "('z office_db_scheme) \<Rightarrow> uuid list \<Rightarrow> uuid \<Rightarrow> string option" where
  "labels_for db key_ids =
     map_of (map (\<lambda>k. (ak_id k, ak_label k)) (filter (\<lambda>k. ak_id k \<in> set key_ids) (api_keys db)))"

definition emails_for :: "('z office_db_scheme) \<Rightarrow> uuid list \<Rightarrow> uuid \<Rightarrow> string option" where
  "emails_for db user_ids =
     map_of (map (\<lambda>u. (us_id u, us_email u)) (filter (\<lambda>u. us_id u \<in> set user_ids) (users db)))"

record usage_job_page =
  up_items :: "usage_job_view list"
  up_total :: nat
  up_limit :: int
  up_offset :: int

fun collect_r :: "('a \<Rightarrow> error + 'b) \<Rightarrow> 'a list \<Rightarrow> error + 'b list" where
  "collect_r f [] = Inr []"
| "collect_r f (x # xs) = bind_r (f x) (\<lambda>y. bind_r (collect_r f xs) (\<lambda>ys. Inr (y # ys)))"

definition newest_first :: "payment_session list \<Rightarrow> payment_session list" where
  "newest_first rows = rev (sort_key (\<lambda>r. (ps_opened_at r, ps_id r)) rows)"

definition list_jobs ::
  "(string \<Rightarrow> error + int) \<Rightarrow> job_filters \<Rightarrow> int \<Rightarrow> int \<Rightarrow> timestamp \<Rightarrow> bool \<Rightarrow> int \<Rightarrow>
   ('z office_db_scheme, usage_job_page) op" where
  "list_jobs trunc filters limit offset now include_user stale_after_seconds =
     (let limit = max 1 (min limit MAX_PAGE_LIMIT);
          offset = max 0 offset
      in bind_op (gets (\<lambda>db. apply_filters db filters)) (\<lambda>base.
         let rows = take (nat limit) (drop (nat offset) (newest_first base))
         in bind_op (gets (\<lambda>db. labels_for db (map ps_api_key_id rows))) (\<lambda>labels.
            bind_op (gets (\<lambda>db. if include_user then emails_for db (map ps_user_id rows) else Map.empty)) (\<lambda>emails.
            bind_op (of_result (collect_r (\<lambda>r. job_view trunc r now stale_after_seconds
                (labels (ps_api_key_id r)) (emails (ps_user_id r)) include_user) rows)) (\<lambda>items.
            ret \<lparr>up_items = items, up_total = length base, up_limit = limit, up_offset = offset\<rparr>)))))"

section \<open>Breakdowns\<close>

text \<open>
  A dictionary that is filled row by row: the first row of a key sets its default, every row updates it. Keys keep
  the order in which they came.
\<close>

fun upsert :: "'k \<Rightarrow> 'a \<Rightarrow> ('a \<Rightarrow> 'a) \<Rightarrow> ('k \<times> 'a) list \<Rightarrow> ('k \<times> 'a) list" where
  "upsert k init f [] = [(k, f init)]"
| "upsert k init f ((k', a) # d) = (if k' = k then (k', f a) # d else (k', a) # upsert k init f d)"

definition tally :: "('r \<Rightarrow> 'k) \<Rightarrow> ('r \<Rightarrow> 'a) \<Rightarrow> ('r \<Rightarrow> 'a \<Rightarrow> 'a) \<Rightarrow> 'r list \<Rightarrow> ('k \<times> 'a) list" where
  "tally key init add rows = foldl (\<lambda>d r. upsert (key r) (init r) (add r) d) [] rows"

definition billed_or_zero :: "payment_session \<Rightarrow> wei" where
  "billed_or_zero row = (case ps_billed_value_wei row of None \<Rightarrow> 0 | Some b \<Rightarrow> b)"

record day_usage =
  du_day :: string
  du_jobs :: nat
  du_billed_wei :: wei

definition by_day_key :: "payment_session \<Rightarrow> string" where
  "by_day_key r = day_key (case ps_closed_at r of Some t \<Rightarrow> t | None \<Rightarrow> ps_opened_at r)"

definition by_day :: "payment_session list \<Rightarrow> day_usage list" where
  "by_day rows =
     map (\<lambda>(d, jobs, billed). \<lparr>du_day = d, du_jobs = jobs, du_billed_wei = billed\<rparr>)
       (sort_key fst (tally by_day_key (\<lambda>_. (0, 0))
          (\<lambda>r (jobs, billed). (jobs + 1, billed + billed_or_zero r)) rows))"

record usage_totals =
  ut_jobs :: nat
  ut_open_jobs :: nat
  ut_closed_jobs :: nat
  ut_billed_wei :: wei
  ut_refunded_wei :: wei
  ut_held_wei :: wei

definition usage_totals_of :: "payment_session list \<Rightarrow> usage_totals" where
  "usage_totals_of rows =
     \<lparr>ut_jobs = length rows,
      ut_open_jobs = length (filter (\<lambda>r. ps_state r \<in> set OPEN_STATES) rows),
      ut_closed_jobs = length (filter (\<lambda>r. ps_state r = ''closed'') rows),
      ut_billed_wei = sum_list (map the (filter (\<lambda>b. b \<noteq> None) (map ps_billed_value_wei rows))),
      ut_refunded_wei = sum_list (map (\<lambda>r. case refunded r of None \<Rightarrow> 0 | Some x \<Rightarrow> x) rows),
      ut_held_wei = sum_list (map held rows)\<rparr>"

record offering_usage =
  ou_capability :: string
  ou_offering :: string
  ou_protocol :: string
  ou_work_unit :: string
  ou_jobs :: nat
  ou_units :: int
  ou_billed_wei :: wei
  ou_held_wei :: wei

definition by_offering :: "payment_session list \<Rightarrow> offering_usage list" where
  "by_offering rows =
     sort_key (\<lambda>ou. (- ou_billed_wei ou, ou_capability ou, ou_offering ou))
       (map snd (tally (\<lambda>r. (ps_capability r, ps_offering r))
          (\<lambda>r. \<lparr>ou_capability = ps_capability r, ou_offering = ps_offering r, ou_protocol = ps_protocol r,
                ou_work_unit = work_unit_of r, ou_jobs = 0, ou_units = 0, ou_billed_wei = 0, ou_held_wei = 0\<rparr>)
          (\<lambda>r a. a\<lparr>ou_jobs := ou_jobs a + 1,
                 ou_units := ou_units a + (case ps_actual_units r of None \<Rightarrow> 0 | Some n \<Rightarrow> n),
                 ou_billed_wei := ou_billed_wei a + billed_or_zero r,
                 ou_held_wei := ou_held_wei a + held r\<rparr>) rows))"

record api_key_usage =
  ku_api_key_id :: uuid
  ku_label :: "string option"
  ku_jobs :: nat
  ku_billed_wei :: wei

definition by_api_key :: "(uuid \<Rightarrow> string option) \<Rightarrow> payment_session list \<Rightarrow> api_key_usage list" where
  "by_api_key labels rows =
     sort_key (\<lambda>ku. (- ku_billed_wei ku, ku_api_key_id ku))
       (map (\<lambda>(k, jobs, billed). \<lparr>ku_api_key_id = k, ku_label = labels k, ku_jobs = jobs, ku_billed_wei = billed\<rparr>)
         (tally ps_api_key_id (\<lambda>_. (0, 0)) (\<lambda>r (jobs, billed). (jobs + 1, billed + billed_or_zero r)) rows))"

record user_usage =
  uu_user_id :: uuid
  uu_email :: "string option"
  uu_jobs :: nat
  uu_billed_wei :: wei
  uu_held_wei :: wei

definition by_user :: "(uuid \<Rightarrow> string option) \<Rightarrow> payment_session list \<Rightarrow> user_usage list" where
  "by_user emails rows =
     sort_key (\<lambda>uu. (- uu_billed_wei uu, uu_user_id uu))
       (map (\<lambda>(u, jobs, billed, hold).
           \<lparr>uu_user_id = u, uu_email = emails u, uu_jobs = jobs, uu_billed_wei = billed, uu_held_wei = hold\<rparr>)
         (tally ps_user_id (\<lambda>_. (0, 0, 0))
           (\<lambda>r (jobs, billed, hold). (jobs + 1, billed + billed_or_zero r, hold + held r)) rows))"

record usage_summary =
  sm_since :: timestamp
  sm_until :: timestamp
  sm_totals :: usage_totals
  sm_by_offering :: "offering_usage list"
  sm_by_api_key :: "api_key_usage list"
  sm_by_day :: "day_usage list"
  sm_by_user :: "user_usage list option"

definition window_rows ::
  "('z sessions_db_scheme) \<Rightarrow> uuid option \<Rightarrow> timestamp \<times> timestamp \<Rightarrow> payment_session list" where
  "window_rows db user_id window =
     sort_key ps_opened_at (apply_filters db
       (no_filters\<lparr>jf_user_id := user_id, jf_since := Some (Aware (fst window)), jf_until := Some (Aware (snd window))\<rparr>))"

definition summarize ::
  "timestamp \<Rightarrow> uuid option \<Rightarrow> datetime option \<Rightarrow> datetime option \<Rightarrow> bool \<Rightarrow>
   ('z office_db_scheme, usage_summary) op" where
  "summarize now user_id since until include_users =
     (let window = default_window now since until
      in bind_op (gets (\<lambda>db. window_rows db user_id window)) (\<lambda>rows.
         bind_op (gets (\<lambda>db. labels_for db (map ps_api_key_id rows))) (\<lambda>labels.
         bind_op (if include_users
                  then bind_op (gets (\<lambda>db. emails_for db (map ps_user_id rows))) (\<lambda>emails. ret (Some (by_user emails rows)))
                  else ret None) (\<lambda>users.
         ret \<lparr>sm_since = fst window, sm_until = snd window, sm_totals = usage_totals_of rows,
              sm_by_offering = by_offering rows, sm_by_api_key = by_api_key labels rows,
              sm_by_day = by_day rows, sm_by_user = users\<rparr>))))"

section \<open>The customer's overview\<close>

record usage_period =
  pd_start :: timestamp
  pd_end :: timestamp
  pd_seconds :: int
  pd_cap_wei :: "wei option"
  pd_pct_used :: "rat option"

record usage_overview =
  ov_available_wei :: wei
  ov_held_wei :: wei
  ov_spent_period_wei :: wei
  ov_spent_30d_wei :: wei
  ov_open_jobs :: nat
  ov_period :: usage_period
  ov_by_day :: "day_usage list"

definition open_rows :: "('z sessions_db_scheme) \<Rightarrow> uuid \<Rightarrow> payment_session list" where
  "open_rows db user_id =
     filter (\<lambda>r. ps_user_id r = user_id \<and> ps_state r \<in> set OPEN_STATES) (sessions db)"

definition closed_since :: "('z sessions_db_scheme) \<Rightarrow> uuid \<Rightarrow> timestamp \<Rightarrow> payment_session list" where
  "closed_since db user_id since =
     filter (\<lambda>r. ps_user_id r = user_id \<and> ps_state r = ''closed'' \<and>
       (case ps_closed_at r of None \<Rightarrow> False | Some t \<Rightarrow> since \<le> t)) (sessions db)"

definition overview :: "uuid \<Rightarrow> timestamp \<Rightarrow> billing_settings \<Rightarrow> ('z sessions_db_scheme, usage_overview) op" where
  "overview user_id now settings =
     bind_op (get_balance user_id) (\<lambda>balance.
     bind_op (resolve_billing_config user_id settings) (\<lambda>config.
     let period_seconds = max 1 (rbc_spend_period_seconds config)
     in bind_op (of_result (window_bounds_for (Aware now) period_seconds)) (\<lambda>(start, end_ts).
        let cap = (if 0 < rbc_spend_period_cap_wei config then Some (rbc_spend_period_cap_wei config) else None)
        in bind_op (gets (\<lambda>db. open_rows db user_id)) (\<lambda>opened.
           bind_op (gets (\<lambda>db. closed_since db user_id (now - days DEFAULT_SUMMARY_DAYS))) (\<lambda>closed_rows.
           let spent_30d = sum_list (map billed_or_zero closed_rows);
               spent_period = sum_list (map billed_or_zero
                 (filter (\<lambda>r. case ps_closed_at r of None \<Rightarrow> False | Some t \<Rightarrow> start \<le> t \<and> t < end_ts) closed_rows))
           in ret \<lparr>ov_available_wei = cb_amount_wei balance,
                ov_held_wei = sum_list (map ps_funded_value_wei opened),
                ov_spent_period_wei = spent_period, ov_spent_30d_wei = spent_30d,
                ov_open_jobs = length opened,
                ov_period = \<lparr>pd_start = start, pd_end = end_ts, pd_seconds = period_seconds, pd_cap_wei = cap,
                  pd_pct_used = map_option (\<lambda>c. of_int spent_period / of_int c) cap\<rparr>,
                ov_by_day = by_day closed_rows\<rparr>)))))"

section \<open>What needs an operator\<close>

record unresolved_job =
  un_job_id :: uuid
  un_user_id :: uuid
  un_user_email :: "string option"
  un_protocol :: string
  un_capability :: string
  un_offering :: string
  un_funded_value_wei :: wei
  un_opened_at :: timestamp
  un_age_seconds :: rat
  un_blocked_reason :: "string option"
  un_reported_units :: "int option"

record settlement_failure =
  sf_at :: timestamp
  sf_user_id :: "uuid option"
  sf_user_email :: "string option"
  sf_protocol :: "string option"
  sf_session_id :: "string option"
  sf_code :: string
  sf_reason :: "string option"

record zero_output_session =
  zo_session_id :: uuid
  zo_user_id :: uuid
  zo_user_email :: "string option"
  zo_capability :: string
  zo_offering :: string
  zo_broker_session_id :: "string option"
  zo_termination_reason :: "string option"
  zo_output_state :: "string option"
  zo_output_state_since :: "datetime option"
  zo_last_failure_code :: "string option"
  zo_duration_seconds :: rat
  zo_closed_at :: timestamp

record unterminated_session =
  ux_session_id :: uuid
  ux_user_id :: uuid
  ux_user_email :: "string option"
  ux_capability :: string
  ux_offering :: string
  ux_broker_session_id :: "string option"
  ux_opened_at :: timestamp
  ux_last_funded_at :: timestamp
  ux_attention_after :: timestamp
  ux_overdue_seconds :: rat

record attention_counts =
  ac_unresolved :: nat
  ac_settlement_failures_24h :: nat
  ac_zero_output_sessions :: nat
  ac_unterminated_sessions :: nat

record usage_attention =
  at_counts :: attention_counts
  at_unresolved :: "unresolved_job list"
  at_settlement_failures :: "settlement_failure list"
  at_zero_output_sessions :: "zero_output_session list"
  at_unterminated_sessions :: "unterminated_session list"

definition stale_jobs :: "('z sessions_db_scheme) \<Rightarrow> timestamp \<Rightarrow> payment_session list" where
  "stale_jobs db cutoff =
     sort_key ps_opened_at (filter (\<lambda>r. ps_protocol r = ''paid-job/v1'' \<and> ps_state r \<in> set OPEN_STATES \<and>
       ps_opened_at r < cutoff) (sessions db))"

definition diagnostics_of :: "payment_session \<Rightarrow> dict" where
  "diagnostics_of row =
     (case json_get (breakdown_of row) ''broker_diagnostics'' of Some (JObj d) \<Rightarrow> d | _ \<Rightarrow> [])"

definition suspicious_close :: "payment_session \<Rightarrow> bool" where
  "suspicious_close row \<longleftrightarrow>
     (case ps_closed_at row of
        None \<Rightarrow> False
      | Some closed_at \<Rightarrow>
          of_int ZERO_OUTPUT_MIN_DURATION_SECONDS \<le> total_seconds (closed_at - ps_opened_at row) \<or>
          json_get (diagnostics_of row) ''termination_reason'' = Some (JStr ''output_failed''))"

definition zero_output_rows :: "('z sessions_db_scheme) \<Rightarrow> timestamp \<Rightarrow> payment_session list" where
  "zero_output_rows db since =
     filter suspicious_close
       (sort_key (\<lambda>r. - (case ps_closed_at r of None \<Rightarrow> 0 | Some t \<Rightarrow> t))
         (filter (\<lambda>r. ps_protocol r = PAID_SESSION_PROTOCOL \<and> ps_state r = ''closed'' \<and> ps_actual_units r = Some 0 \<and>
           (case ps_closed_at r of None \<Rightarrow> False | Some t \<Rightarrow> since \<le> t)) (sessions db)))"

text \<open>The latest refill of a session, if it was refilled.\<close>

definition last_refill_at :: "('z sessions_db_scheme) \<Rightarrow> uuid \<Rightarrow> timestamp option" where
  "last_refill_at db session_id =
     (case map pe_recorded_at (filter (\<lambda>p. pe_event_type p = ''refill_granted'' \<and> pe_session_id p = session_id)
             (settlements db)) of
        [] \<Rightarrow> None
      | t # ts \<Rightarrow> Some (foldl max t ts))"

definition unterminated ::
  "('z sessions_db_scheme) \<Rightarrow> timestamp \<Rightarrow> int \<Rightarrow> (payment_session \<times> timestamp \<times> timestamp) list" where
  "unterminated db now session_attention_after_seconds =
     filter (\<lambda>(_, _, attention_after). attention_after < now)
       (map (\<lambda>row.
          let last_funded_at = (case last_refill_at db (ps_id row) of Some t \<Rightarrow> t | None \<Rightarrow> ps_opened_at row)
          in (row, last_funded_at, last_funded_at + seconds session_attention_after_seconds))
        (sort_key ps_opened_at (filter (\<lambda>r. ps_protocol r = PAID_SESSION_PROTOCOL \<and> ps_state r \<in> set OPEN_STATES)
          (sessions db))))"

definition failure_rows :: "('z usage_db_scheme) \<Rightarrow> timestamp \<Rightarrow> telemetry_event list" where
  "failure_rows db since =
     sort_key (\<lambda>e. - te_received_ts e)
       (filter (\<lambda>e. te_event_type e = SETTLEMENT_FAILURE_EVENT \<and> since \<le> te_received_ts e) (telemetry_events db))"

text \<open>\<open>str(payload.get(key))\<close> of a value that counts as true.\<close>

definition falsy :: "json \<Rightarrow> bool" where
  "falsy v \<longleftrightarrow> v \<in> {JNull, JBool False, JInt 0, JStr [], JArr [], JObj []}"

definition text_of :: "(json \<Rightarrow> string) \<Rightarrow> (string \<Rightarrow> bool) \<Rightarrow> dict \<Rightarrow> string \<Rightarrow> string option" where
  "text_of show zero payload key =
     (case json_get payload key of
        None \<Rightarrow> None
      | Some (JStr s) \<Rightarrow> if s = [] then None else Some s
      | Some (JFloat f) \<Rightarrow> if zero f then None else Some (show (JFloat f))
      | Some v \<Rightarrow> if falsy v then None else Some (show v))"

definition unresolved_view ::
  "(string \<Rightarrow> error + int) \<Rightarrow> timestamp \<Rightarrow> (uuid \<Rightarrow> string option) \<Rightarrow> payment_session \<Rightarrow> error + unresolved_job" where
  "unresolved_view trunc now emails r =
     bind_r (reported_units_for trunc r) (\<lambda>reported.
     Inr \<lparr>un_job_id = ps_id r, un_user_id = ps_user_id r, un_user_email = emails (ps_user_id r),
       un_protocol = ps_protocol r, un_capability = ps_capability r, un_offering = ps_offering r,
       un_funded_value_wei = ps_funded_value_wei r, un_opened_at = ps_opened_at r,
       un_age_seconds = total_seconds (now - ps_opened_at r), un_blocked_reason = blocked_reason_for r,
       un_reported_units = reported\<rparr>)"

definition failure_view ::
  "(json \<Rightarrow> string) \<Rightarrow> (string \<Rightarrow> bool) \<Rightarrow> (uuid \<Rightarrow> string option) \<Rightarrow> telemetry_event \<Rightarrow> settlement_failure" where
  "failure_view show zero emails e =
     \<lparr>sf_at = te_received_ts e, sf_user_id = te_user_id e,
      sf_user_email = (case te_user_id e of None \<Rightarrow> None | Some u \<Rightarrow> emails u),
      sf_protocol = text_of show zero (te_payload e) ''protocol'',
      sf_session_id = text_of show zero (te_payload e) ''session_id'',
      sf_code = (case text_of show zero (te_payload e) ''code'' of
                   None \<Rightarrow> ''settlement_verification_failed'' | Some c \<Rightarrow> c),
      sf_reason = text_of show zero (te_payload e) ''reason''\<rparr>"

text \<open>A field of type \<open>str | None\<close>; anything else does not validate.\<close>

definition optional_text :: "dict \<Rightarrow> string \<Rightarrow> error + string option" where
  "optional_text d key =
     (case json_get d key of
        None \<Rightarrow> Inr None
      | Some JNull \<Rightarrow> Inr None
      | Some (JStr s) \<Rightarrow> Inr (Some s)
      | Some _ \<Rightarrow> Inl (ValueError ''Input should be a valid string''))"

definition zero_output_view ::
  "(string \<Rightarrow> datetime option) \<Rightarrow> (uuid \<Rightarrow> string option) \<Rightarrow> payment_session \<Rightarrow> timestamp \<Rightarrow> error + zero_output_session" where
  "zero_output_view fromisoformat emails row closed_at =
     (let safe = diagnostics_of row
      in bind_r (case json_get safe ''output_state_since'' of
                   Some (JStr s) \<Rightarrow>
                     (case fromisoformat s of
                        None \<Rightarrow> Inl (ValueError ''Invalid isoformat string'')
                      | Some t \<Rightarrow> Inr (Some t))
                 | _ \<Rightarrow> Inr None) (\<lambda>output_state_since.
         bind_r (optional_text safe ''termination_reason'') (\<lambda>termination_reason.
         bind_r (optional_text safe ''output_state'') (\<lambda>output_state.
         bind_r (optional_text safe ''last_failure_code'') (\<lambda>last_failure_code.
         Inr \<lparr>zo_session_id = ps_id row, zo_user_id = ps_user_id row, zo_user_email = emails (ps_user_id row),
           zo_capability = ps_capability row, zo_offering = ps_offering row,
           zo_broker_session_id = ps_broker_session_id row, zo_termination_reason = termination_reason,
           zo_output_state = output_state, zo_output_state_since = output_state_since,
           zo_last_failure_code = last_failure_code,
           zo_duration_seconds = total_seconds (closed_at - ps_opened_at row), zo_closed_at = closed_at\<rparr>)))))"

definition unterminated_view ::
  "timestamp \<Rightarrow> (uuid \<Rightarrow> string option) \<Rightarrow> payment_session \<times> timestamp \<times> timestamp \<Rightarrow> unterminated_session" where
  "unterminated_view now emails =
     (\<lambda>(row, last_funded_at, attention_after).
       \<lparr>ux_session_id = ps_id row, ux_user_id = ps_user_id row, ux_user_email = emails (ps_user_id row),
        ux_capability = ps_capability row, ux_offering = ps_offering row,
        ux_broker_session_id = ps_broker_session_id row, ux_opened_at = ps_opened_at row,
        ux_last_funded_at = last_funded_at, ux_attention_after = attention_after,
        ux_overdue_seconds = total_seconds (now - attention_after)\<rparr>)"

definition attention ::
  "(string \<Rightarrow> error + int) \<Rightarrow> (json \<Rightarrow> string) \<Rightarrow> (string \<Rightarrow> bool) \<Rightarrow> (string \<Rightarrow> datetime option) \<Rightarrow> timestamp \<Rightarrow> int \<Rightarrow>
   int \<Rightarrow> nat \<Rightarrow> ('z usage_db_scheme, usage_attention) op" where
  "attention trunc show zero fromisoformat now stale_after_seconds session_attention_after_seconds limit =
     bind_op (gets (\<lambda>db. stale_jobs db (now - seconds stale_after_seconds))) (\<lambda>stale.
     bind_op (gets (\<lambda>db. zero_output_rows db (now - hours ZERO_OUTPUT_LOOKBACK_HOURS))) (\<lambda>zero_output.
     bind_op (gets (\<lambda>db. unterminated db now session_attention_after_seconds)) (\<lambda>unterminated_candidates.
     bind_op (gets (\<lambda>db. failure_rows db (now - hours 24))) (\<lambda>all_failures.
     let stale_rows = take limit stale; failures = take limit all_failures
     in bind_op (gets (\<lambda>db. emails_for db (map ps_user_id stale_rows @ map ps_user_id zero_output @
               map (\<lambda>(row, _, _). ps_user_id row) unterminated_candidates @
               map the (filter (\<lambda>u. u \<noteq> None) (map te_user_id failures))))) (\<lambda>emails.
        bind_op (of_result (collect_r (unresolved_view trunc now emails) stale_rows)) (\<lambda>unresolved.
        bind_op (of_result (collect_r (\<lambda>row. zero_output_view fromisoformat emails row (the (ps_closed_at row)))
                  (take limit zero_output))) (\<lambda>zero_views.
        ret \<lparr>at_counts = \<lparr>ac_unresolved = length stale, ac_settlement_failures_24h = length all_failures,
               ac_zero_output_sessions = length zero_output,
               ac_unterminated_sessions = length unterminated_candidates\<rparr>,
             at_unresolved = unresolved, at_settlement_failures = map (failure_view show zero emails) failures,
             at_zero_output_sessions = zero_views,
             at_unterminated_sessions = map (unterminated_view now emails) (take limit unterminated_candidates)\<rparr>)))))))"

end
