(* ===== verification/Usage_Properties.thy ===== *)
theory Usage_Properties
  imports Usage Sessions_Properties
begin

text \<open>
  What the usage views promise: every breakdown of a summary adds up to its totals, and the money of the dashboard is
  the money of the ledger.
\<close>

section \<open>Breakdowns\<close>

lemma upsert_keys: "map fst (upsert k init f d) = (if k \<in> fst ` set d then map fst d else map fst d @ [k])"
  by (induction d) force+

lemma upsert_distinct: "distinct (map fst d) \<Longrightarrow> distinct (map fst (upsert k init f d))"
  by (simp add: upsert_keys)

text \<open>
  A column of a breakdown: it starts at zero, and every row adds its weight to the entry of its key.
\<close>

locale column =
  fixes key :: "'r \<Rightarrow> 'k" and init :: "'r \<Rightarrow> 'a" and add :: "'r \<Rightarrow> 'a \<Rightarrow> 'a"
    and amount :: "'a \<Rightarrow> 'w :: comm_monoid_add" and weight :: "'r \<Rightarrow> 'w"
  assumes amount_init: "amount (init r) = 0"
    and amount_add: "amount (add r a) = amount a + weight r"
begin

definition entry :: "('k \<times> 'a) list \<Rightarrow> 'k \<Rightarrow> 'w" where
  "entry d k = (case map_of d k of None \<Rightarrow> 0 | Some a \<Rightarrow> amount a)"

lemma entry_upsert:
  "distinct (map fst d) \<Longrightarrow> entry (upsert (key r) (init r) (add r) d) k = entry d k + (if key r = k then weight r else 0)"
  by (induction d) (auto simp: entry_def amount_init amount_add)

lemma total_upsert:
  "sum_list (map (\<lambda>(_, a). amount a) (upsert (key r) (init r) (add r) d)) = sum_list (map (\<lambda>(_, a). amount a) d) + weight r"
  by (induction d) (auto simp: amount_init amount_add add_ac)

lemma tally_snoc: "tally key init add (rows @ [r]) = upsert (key r) (init r) (add r) (tally key init add rows)"
  by (simp add: tally_def)

lemma tally_distinct: "distinct (map fst (tally key init add rows))"
  by (induction rows rule: rev_induct) (simp_all add: tally_snoc upsert_distinct tally_def [of _ _ _ "[]"])

lemma entry_tally: "entry (tally key init add rows) k = sum_list (map weight (filter (\<lambda>r. key r = k) rows))"
  by (induction rows rule: rev_induct)
     (auto simp: tally_snoc entry_upsert tally_distinct add.commute, simp add: tally_def entry_def)

lemma total_tally: "sum_list (map (\<lambda>(_, a). amount a) (tally key init add rows)) = sum_list (map weight rows)"
  by (induction rows rule: rev_induct) (simp_all add: tally_snoc total_upsert tally_def [of _ _ _ "[]"] add.commute)

lemma group_tally:
  assumes "(k, a) \<in> set (tally key init add rows)"
  shows "amount a = sum_list (map weight (filter (\<lambda>r. key r = k) rows))"
  using entry_tally [of rows k] map_of_is_SomeI [OF tally_distinct assms] by (simp add: entry_def)

end

lemma tally_invariant:
  assumes "\<And>r. P (key r) (init r)" and "\<And>k r a. P k a \<Longrightarrow> P k (add r a)"
  shows "(k, a) \<in> set (tally key init add rows) \<Longrightarrow> P k a"
proof -
  have step: "\<forall>(k, a) \<in> set (upsert (key r) (init r) (add r) d). P k a" if "\<forall>(k, a) \<in> set d. P k a" for r d
    using that by (induction d) (auto simp: assms split: if_splits)
  have "\<forall>(k, a) \<in> set (tally key init add rows). P k a"
    by (induction rows rule: rev_induct) (simp_all add: tally_def step)
  then show "(k, a) \<in> set (tally key init add rows) \<Longrightarrow> P k a" by blast
qed

lemma map_of_upsert:
  "map_of (upsert k i f d) = (map_of d)(k \<mapsto> (case map_of d k of None \<Rightarrow> f i | Some a \<Rightarrow> f a))"
  by (induction d) (auto simp: fun_eq_iff split: option.split)

lemma map_of_tally_snoc:
  "map_of (tally key init add (rows @ [r])) = (map_of (tally key init add rows))(key r \<mapsto>
     (case map_of (tally key init add rows) (key r) of None \<Rightarrow> add r (init r) | Some a \<Rightarrow> add r a))"
  by (simp add: tally_def map_of_upsert)

text \<open>There is one entry per key of the rows, and what \<open>add\<close> leaves alone is what the first row of the key set.\<close>

lemma tally_keys: "distinct (map fst (tally key init add rows))" "fst ` set (tally key init add rows) = key ` set rows"
proof -
  have keys: "map fst (tally key init add (rows @ [r])) = (if key r \<in> fst ` set (tally key init add rows)
      then map fst (tally key init add rows) else map fst (tally key init add rows) @ [key r])" for rows r
    by (simp add: tally_def upsert_keys)
  show "distinct (map fst (tally key init add rows))"
    by (induction rows rule: rev_induct) (simp_all only: keys, auto simp: tally_def)
  have "set (map fst (tally key init add rows)) = key ` set rows"
    by (induction rows rule: rev_induct) (simp_all only: keys, auto simp: tally_def)
  then show "fst ` set (tally key init add rows) = key ` set rows" by simp
qed

lemma tally_first:
  assumes "\<And>r. f (init r) = g r" and "\<And>r a. f (add r a) = f a" and "(k, a) \<in> set (tally key init add rows)"
  shows "f a = g (hd (filter (\<lambda>r. key r = k) rows))"
proof -
  have "map_of (tally key init add rows) k = Some a" using map_of_is_SomeI [OF tally_keys(1) assms(3)] .
  then show ?thesis
  proof (induction rows arbitrary: a rule: rev_induct)
    case (snoc r rows)
    show ?case
    proof (cases "map_of (tally key init add rows) k")
      case None
      then have "k \<notin> key ` set rows" by (simp add: map_of_eq_None_iff tally_keys(2))
      then have "filter (\<lambda>r. key r = k) rows = []" by (auto simp: filter_empty_conv)
      with None snoc.prems show ?thesis
        by (auto simp: map_of_tally_snoc assms(1,2) split: if_splits)
    next
      case (Some b)
      then have "k \<in> key ` set rows" using map_of_SomeD [OF Some] tally_keys(2) [of key init add rows] by force
      then have "filter (\<lambda>r. key r = k) rows \<noteq> []" by (auto simp: filter_empty_conv)
      with Some snoc.prems snoc.IH [OF Some] show ?thesis
        by (auto simp: map_of_tally_snoc assms(2) split: if_splits)
    qed
  qed (simp add: tally_def)
qed

lemma set_sort_key_map: "set (map f (sort_key g xs)) = set (map f xs)"
  by simp

lemma distinct_sort_key_map: "distinct (map f (sort_key g xs)) = distinct (map f xs)"
proof -
  have "mset (map f (sort_key g xs)) = mset (map f xs)" by simp
  then show ?thesis by (metis mset_eq_imp_distinct_iff)
qed

lemma sum_list_sort_key [simp]: "sum_list (map f (sort_key g xs)) = sum_list (map f (xs :: 'a list) :: 'b :: comm_monoid_add list)"
proof -
  have "mset (map f (sort_key g xs)) = mset (map f xs)" by simp
  then show ?thesis by (metis sum_mset_sum_list)
qed

abbreviation count_billed :: "payment_session \<Rightarrow> nat \<times> wei \<Rightarrow> nat \<times> wei" where
  "count_billed \<equiv> \<lambda>r (jobs, billed). (jobs + 1, billed + billed_or_zero r)"

abbreviation count_billed_held :: "payment_session \<Rightarrow> nat \<times> wei \<times> wei \<Rightarrow> nat \<times> wei \<times> wei" where
  "count_billed_held \<equiv> \<lambda>r (jobs, billed, hold). (jobs + 1, billed + billed_or_zero r, hold + held r)"

abbreviation new_offering :: "payment_session \<Rightarrow> offering_usage" where
  "new_offering \<equiv> \<lambda>r. \<lparr>ou_capability = ps_capability r, ou_offering = ps_offering r, ou_protocol = ps_protocol r,
     ou_work_unit = work_unit_of r, ou_jobs = 0, ou_units = 0, ou_billed_wei = 0, ou_held_wei = 0\<rparr>"

abbreviation add_offering :: "payment_session \<Rightarrow> offering_usage \<Rightarrow> offering_usage" where
  "add_offering \<equiv> \<lambda>r a. a\<lparr>ou_jobs := ou_jobs a + 1,
     ou_units := ou_units a + (case ps_actual_units r of None \<Rightarrow> 0 | Some n \<Rightarrow> n),
     ou_billed_wei := ou_billed_wei a + billed_or_zero r, ou_held_wei := ou_held_wei a + held r\<rparr>"

abbreviation offering_key :: "payment_session \<Rightarrow> string \<times> string" where
  "offering_key \<equiv> \<lambda>r. (ps_capability r, ps_offering r)"

interpretation jobs_column: column key "\<lambda>_. (0, 0)" count_billed fst "\<lambda>_. 1" for key
  by unfold_locales auto

interpretation billed_column: column key "\<lambda>_. (0, 0)" count_billed snd billed_or_zero for key
  by unfold_locales auto

interpretation user_jobs: column ps_user_id "\<lambda>_. (0, 0, 0)" count_billed_held fst "\<lambda>_. 1"
  by unfold_locales auto

interpretation user_billed: column ps_user_id "\<lambda>_. (0, 0, 0)" count_billed_held "\<lambda>a. fst (snd a)" billed_or_zero
  by unfold_locales auto

interpretation user_held: column ps_user_id "\<lambda>_. (0, 0, 0)" count_billed_held "\<lambda>a. snd (snd a)" held
  by unfold_locales auto

interpretation offering_jobs: column offering_key new_offering add_offering ou_jobs "\<lambda>_. 1"
  by unfold_locales simp_all

interpretation offering_units: column offering_key new_offering add_offering ou_units
  "\<lambda>r. case ps_actual_units r of None \<Rightarrow> 0 | Some n \<Rightarrow> n"
  by unfold_locales simp_all

interpretation offering_billed: column offering_key new_offering add_offering ou_billed_wei billed_or_zero
  by unfold_locales simp_all

interpretation offering_held: column offering_key new_offering add_offering ou_held_wei held
  by unfold_locales simp_all

lemma totals_are_sums:
  "ut_jobs (usage_totals_of rows) = sum_list (map (\<lambda>_. 1) rows)"
  "ut_billed_wei (usage_totals_of rows) = sum_list (map billed_or_zero rows)"
  "ut_held_wei (usage_totals_of rows) = sum_list (map held rows)"
  by (induction rows) (auto simp: usage_totals_of_def billed_or_zero_def split: option.splits)

lemmas breakdown_sums = totals_are_sums comp_def split_def

lemma by_day_sums:
  "sum_list (map du_jobs (by_day rows)) = ut_jobs (usage_totals_of rows)"
  "sum_list (map du_billed_wei (by_day rows)) = ut_billed_wei (usage_totals_of rows)"
  using jobs_column.total_tally [of by_day_key rows] billed_column.total_tally [of by_day_key rows]
  by (simp_all add: by_day_def breakdown_sums)

lemma by_api_key_sums:
  "sum_list (map ku_jobs (by_api_key labels rows)) = ut_jobs (usage_totals_of rows)"
  "sum_list (map ku_billed_wei (by_api_key labels rows)) = ut_billed_wei (usage_totals_of rows)"
  using jobs_column.total_tally [of ps_api_key_id rows] billed_column.total_tally [of ps_api_key_id rows]
  by (simp_all add: by_api_key_def breakdown_sums)

lemma by_user_sums:
  "sum_list (map uu_jobs (by_user emails rows)) = ut_jobs (usage_totals_of rows)"
  "sum_list (map uu_billed_wei (by_user emails rows)) = ut_billed_wei (usage_totals_of rows)"
  "sum_list (map uu_held_wei (by_user emails rows)) = ut_held_wei (usage_totals_of rows)"
  using user_jobs.total_tally [of rows] user_billed.total_tally [of rows] user_held.total_tally [of rows]
  by (simp_all add: by_user_def breakdown_sums)

lemma by_offering_sums:
  "sum_list (map ou_jobs (by_offering rows)) = ut_jobs (usage_totals_of rows)"
  "sum_list (map ou_billed_wei (by_offering rows)) = ut_billed_wei (usage_totals_of rows)"
  "sum_list (map ou_held_wei (by_offering rows)) = ut_held_wei (usage_totals_of rows)"
  using offering_jobs.total_tally [of rows] offering_billed.total_tally [of rows] offering_held.total_tally [of rows]
  by (simp_all add: by_offering_def breakdown_sums)

text \<open>
  The figures of one engagement, as a summary should show them: the bill once there is one, the hold while it is
  live, the units the broker settled, and the part of the funding a closed engagement did not use.
\<close>

definition row_bill :: "payment_session \<Rightarrow> wei" where
  "row_bill r = (case ps_billed_value_wei r of None \<Rightarrow> 0 | Some b \<Rightarrow> b)"

definition row_hold :: "payment_session \<Rightarrow> wei" where
  "row_hold r = (if ps_state r \<in> {''open'', ''draining''} then ps_funded_value_wei r else 0)"

definition row_units :: "payment_session \<Rightarrow> int" where
  "row_units r = (case ps_actual_units r of None \<Rightarrow> 0 | Some n \<Rightarrow> n)"

definition row_refund :: "payment_session \<Rightarrow> wei" where
  "row_refund r =
     (case ps_billed_value_wei r of
        None \<Rightarrow> 0
      | Some b \<Rightarrow> if ps_state r = ''closed'' then max 0 (ps_funded_value_wei r - b) else 0)"

lemma row_figures:
  "billed_or_zero = row_bill" "held = row_hold" "(\<lambda>r. case ps_actual_units r of None \<Rightarrow> 0 | Some n \<Rightarrow> n) = row_units"
  "(\<lambda>r. case refunded r of None \<Rightarrow> 0 | Some x \<Rightarrow> x) = row_refund"
  by (auto simp: fun_eq_iff billed_or_zero_def row_bill_def held_def row_hold_def OPEN_STATES_def row_units_def
      refunded_def row_refund_def Let_def split: option.split)

text \<open>One entry for every key that occurs among the rows, and none twice.\<close>

definition one_per_key :: "('g \<Rightarrow> 'k) \<Rightarrow> 'g list \<Rightarrow> ('r \<Rightarrow> 'k) \<Rightarrow> 'r list \<Rightarrow> bool" where
  "one_per_key entry_key entries row_key rows \<longleftrightarrow>
     distinct (map entry_key entries) \<and> set (map entry_key entries) = row_key ` set rows"

lemma one_per_key_tally:
  assumes "\<And>k a. (k, a) \<in> set (tally key init add rows) \<Longrightarrow> entry_key (f (k, a)) = k"
  shows "one_per_key entry_key (sort_key g (map f (tally key init add rows))) key rows"
proof -
  have keys: "map entry_key (map f (tally key init add rows)) = map fst (tally key init add rows)"
    using assms by auto
  show ?thesis
    unfolding one_per_key_def distinct_sort_key_map set_sort_key_map keys using tally_keys [of key init add rows] by simp
qed

abbreviation offering_rows :: "payment_session list \<Rightarrow> offering_usage \<Rightarrow> payment_session list" where
  "offering_rows rows ou \<equiv> filter (\<lambda>r. ps_capability r = ou_capability ou \<and> ps_offering r = ou_offering ou) rows"

lemma by_offering_groups:
  "one_per_key (\<lambda>ou. (ou_capability ou, ou_offering ou)) (by_offering rows) (\<lambda>r. (ps_capability r, ps_offering r)) rows"
  "list_all (\<lambda>ou. ou = \<lparr>ou_capability = ou_capability ou, ou_offering = ou_offering ou,
       ou_protocol = ps_protocol (hd (offering_rows rows ou)), ou_work_unit = work_unit_of (hd (offering_rows rows ou)),
       ou_jobs = length (offering_rows rows ou), ou_units = sum_list (map row_units (offering_rows rows ou)),
       ou_billed_wei = sum_list (map row_bill (offering_rows rows ou)),
       ou_held_wei = sum_list (map row_hold (offering_rows rows ou))\<rparr>) (by_offering rows)"
proof -
  let ?t = "tally offering_key new_offering add_offering rows"
  have key: "k = (ou_capability a, ou_offering a)" if "(k, a) \<in> set ?t" for k a
    by (rule tally_invariant [where P = "\<lambda>k a. k = (ou_capability a, ou_offering a)", OF _ _ that]) simp_all
  then show "one_per_key (\<lambda>ou. (ou_capability ou, ou_offering ou)) (by_offering rows) (\<lambda>r. (ps_capability r, ps_offering r)) rows"
    unfolding by_offering_def by (intro one_per_key_tally) simp
  show "list_all (\<lambda>ou. ou = \<lparr>ou_capability = ou_capability ou, ou_offering = ou_offering ou,
       ou_protocol = ps_protocol (hd (offering_rows rows ou)), ou_work_unit = work_unit_of (hd (offering_rows rows ou)),
       ou_jobs = length (offering_rows rows ou), ou_units = sum_list (map row_units (offering_rows rows ou)),
       ou_billed_wei = sum_list (map row_bill (offering_rows rows ou)),
       ou_held_wei = sum_list (map row_hold (offering_rows rows ou))\<rparr>) (by_offering rows)"
    unfolding list_all_iff
  proof
    fix ou assume "ou \<in> set (by_offering rows)"
    then obtain k where k: "(k, ou) \<in> set ?t" by (auto simp: by_offering_def)
    have rows: "filter (\<lambda>r. offering_key r = k) rows = offering_rows rows ou" using key [OF k] by simp
    show "ou = \<lparr>ou_capability = ou_capability ou, ou_offering = ou_offering ou,
       ou_protocol = ps_protocol (hd (offering_rows rows ou)), ou_work_unit = work_unit_of (hd (offering_rows rows ou)),
       ou_jobs = length (offering_rows rows ou), ou_units = sum_list (map row_units (offering_rows rows ou)),
       ou_billed_wei = sum_list (map row_bill (offering_rows rows ou)),
       ou_held_wei = sum_list (map row_hold (offering_rows rows ou))\<rparr>"
      using offering_jobs.group_tally [OF k] offering_units.group_tally [OF k] offering_billed.group_tally [OF k]
        offering_held.group_tally [OF k] tally_first [OF _ _ k, of ou_protocol ps_protocol]
        tally_first [OF _ _ k, of ou_work_unit work_unit_of]
      by (cases ou) (simp add: rows row_figures sum_list_triv)
  qed
qed

lemma map_of_filtered:
  "map_of (map (\<lambda>x. (key x, v x)) (filter (\<lambda>x. key x \<in> S) xs)) k =
     (if k \<in> S then map_option v (find (\<lambda>x. key x = k) xs) else None)"
  by (induction xs) auto

abbreviation key_rows :: "payment_session list \<Rightarrow> api_key_usage \<Rightarrow> payment_session list" where
  "key_rows rows ku \<equiv> filter (\<lambda>r. ps_api_key_id r = ku_api_key_id ku) rows"

lemma by_api_key_groups:
  "one_per_key ku_api_key_id (by_api_key (labels_for db (map ps_api_key_id rows)) rows) ps_api_key_id rows"
  "list_all (\<lambda>ku. ku = \<lparr>ku_api_key_id = ku_api_key_id ku,
       ku_label = map_option ak_label (find (\<lambda>k. ak_id k = ku_api_key_id ku) (api_keys db)),
       ku_jobs = length (key_rows rows ku), ku_billed_wei = sum_list (map row_bill (key_rows rows ku))\<rparr>)
     (by_api_key (labels_for db (map ps_api_key_id rows)) rows)"
proof -
  let ?t = "tally ps_api_key_id (\<lambda>_. (0, 0)) count_billed rows"
  show "one_per_key ku_api_key_id (by_api_key (labels_for db (map ps_api_key_id rows)) rows) ps_api_key_id rows"
    unfolding by_api_key_def by (intro one_per_key_tally) auto
  have "ku_label ku = map_option ak_label (find (\<lambda>k. ak_id k = ku_api_key_id ku) (api_keys db)) \<and>
      ku_jobs ku = length (key_rows rows ku) \<and> ku_billed_wei ku = sum_list (map row_bill (key_rows rows ku))"
    if ku: "ku \<in> set (by_api_key (labels_for db (map ps_api_key_id rows)) rows)" for ku
  proof -
    from ku obtain k j b where k: "(k, j, b) \<in> set ?t" and
      eq: "ku = \<lparr>ku_api_key_id = k, ku_label = labels_for db (map ps_api_key_id rows) k, ku_jobs = j, ku_billed_wei = b\<rparr>"
      by (auto simp: by_api_key_def)
    have "k \<in> set (map ps_api_key_id rows)" using k tally_keys(2) [of ps_api_key_id "\<lambda>_. (0, 0)" count_billed rows] by force
    then have "labels_for db (map ps_api_key_id rows) k = map_option ak_label (find (\<lambda>x. ak_id x = k) (api_keys db))"
      by (simp add: labels_for_def map_of_filtered)
    with jobs_column.group_tally [OF k] billed_column.group_tally [OF k] show ?thesis
      by (simp add: eq row_figures sum_list_triv)
  qed
  then show "list_all (\<lambda>ku. ku = \<lparr>ku_api_key_id = ku_api_key_id ku,
       ku_label = map_option ak_label (find (\<lambda>k. ak_id k = ku_api_key_id ku) (api_keys db)),
       ku_jobs = length (key_rows rows ku), ku_billed_wei = sum_list (map row_bill (key_rows rows ku))\<rparr>)
     (by_api_key (labels_for db (map ps_api_key_id rows)) rows)"
    by (auto simp: list_all_iff intro: api_key_usage.equality)
qed

abbreviation user_rows :: "payment_session list \<Rightarrow> user_usage \<Rightarrow> payment_session list" where
  "user_rows rows uu \<equiv> filter (\<lambda>r. ps_user_id r = uu_user_id uu) rows"

lemma by_user_groups:
  "one_per_key uu_user_id (by_user (emails_for db (map ps_user_id rows)) rows) ps_user_id rows"
  "list_all (\<lambda>uu. uu = \<lparr>uu_user_id = uu_user_id uu,
       uu_email = map_option us_email (find (\<lambda>u. us_id u = uu_user_id uu) (users db)),
       uu_jobs = length (user_rows rows uu), uu_billed_wei = sum_list (map row_bill (user_rows rows uu)),
       uu_held_wei = sum_list (map row_hold (user_rows rows uu))\<rparr>) (by_user (emails_for db (map ps_user_id rows)) rows)"
proof -
  let ?t = "tally ps_user_id (\<lambda>_. (0, 0, 0)) count_billed_held rows"
  show "one_per_key uu_user_id (by_user (emails_for db (map ps_user_id rows)) rows) ps_user_id rows"
    unfolding by_user_def by (intro one_per_key_tally) auto
  have "uu_email uu = map_option us_email (find (\<lambda>u. us_id u = uu_user_id uu) (users db)) \<and>
      uu_jobs uu = length (user_rows rows uu) \<and> uu_billed_wei uu = sum_list (map row_bill (user_rows rows uu)) \<and>
      uu_held_wei uu = sum_list (map row_hold (user_rows rows uu))"
    if uu: "uu \<in> set (by_user (emails_for db (map ps_user_id rows)) rows)" for uu
  proof -
    from uu obtain k j b h where k: "(k, j, b, h) \<in> set ?t" and
      eq: "uu = \<lparr>uu_user_id = k, uu_email = emails_for db (map ps_user_id rows) k, uu_jobs = j, uu_billed_wei = b, uu_held_wei = h\<rparr>"
      by (auto simp: by_user_def)
    have "k \<in> set (map ps_user_id rows)" using k tally_keys(2) [of ps_user_id "\<lambda>_. (0, 0, 0)" count_billed_held rows] by force
    then have "emails_for db (map ps_user_id rows) k = map_option us_email (find (\<lambda>x. us_id x = k) (users db))"
      by (simp add: emails_for_def map_of_filtered)
    with user_jobs.group_tally [OF k] user_billed.group_tally [OF k] user_held.group_tally [OF k] show ?thesis
      by (simp add: eq row_figures sum_list_triv)
  qed
  then show "list_all (\<lambda>uu. uu = \<lparr>uu_user_id = uu_user_id uu,
       uu_email = map_option us_email (find (\<lambda>u. us_id u = uu_user_id uu) (users db)),
       uu_jobs = length (user_rows rows uu), uu_billed_wei = sum_list (map row_bill (user_rows rows uu)),
       uu_held_wei = sum_list (map row_hold (user_rows rows uu))\<rparr>) (by_user (emails_for db (map ps_user_id rows)) rows)"
    by (auto simp: list_all_iff intro: user_usage.equality)
qed

abbreviation closing_day :: "payment_session \<Rightarrow> string" where
  "closing_day r \<equiv> day_key (case ps_closed_at r of Some t \<Rightarrow> t | None \<Rightarrow> ps_opened_at r)"

abbreviation day_rows :: "payment_session list \<Rightarrow> day_usage \<Rightarrow> payment_session list" where
  "day_rows rows d \<equiv> filter (\<lambda>r. closing_day r = du_day d) rows"

lemma by_day_groups:
  "one_per_key du_day (by_day rows) (\<lambda>r. closing_day r) rows" "sorted (map du_day (by_day rows))"
  "list_all (\<lambda>d. d = \<lparr>du_day = du_day d, du_jobs = length (day_rows rows d),
       du_billed_wei = sum_list (map row_bill (day_rows rows d))\<rparr>) (by_day rows)"
proof -
  have key: "by_day_key = (\<lambda>r. closing_day r)" by (simp add: fun_eq_iff by_day_key_def)
  let ?t = "tally by_day_key (\<lambda>_. (0, 0)) count_billed rows"
  have days: "map du_day (by_day rows) = map fst (sort_key fst ?t)"
    by (simp add: by_day_def split_def comp_def)
  then show "one_per_key du_day (by_day rows) (\<lambda>r. closing_day r) rows"
    using tally_keys [of by_day_key "\<lambda>_. (0, 0)" count_billed rows]
    by (simp add: one_per_key_def distinct_sort_key_map key)
  show "sorted (map du_day (by_day rows))" by (simp add: days)
  have "du_jobs d = length (day_rows rows d) \<and> du_billed_wei d = sum_list (map row_bill (day_rows rows d))"
    if d: "d \<in> set (by_day rows)" for d
  proof -
    from d obtain k j b where k: "(k, j, b) \<in> set ?t" and eq: "d = \<lparr>du_day = k, du_jobs = j, du_billed_wei = b\<rparr>"
      by (auto simp: by_day_def)
    with jobs_column.group_tally [OF k] billed_column.group_tally [OF k] show ?thesis
      by (simp add: eq row_figures sum_list_triv key)
  qed
  then show "list_all (\<lambda>d. d = \<lparr>du_day = du_day d, du_jobs = length (day_rows rows d),
       du_billed_wei = sum_list (map row_bill (day_rows rows d))\<rparr>) (by_day rows)"
    by (auto simp: list_all_iff intro: day_usage.equality)
qed

section \<open>The dashboard and the ledger\<close>










section \<open>The summary of a window\<close>

lemma window_rows_eq:
  "window_rows db user_id (a, b) = sort_key ps_opened_at (filter (\<lambda>r.
     (case user_id of None \<Rightarrow> True | Some u \<Rightarrow> ps_user_id r = u) \<and> a \<le> ps_opened_at r \<and> ps_opened_at r < b) (sessions db))"
  by (simp add: window_rows_def apply_filters_def passes_filters_def [abs_def] no_filters_def utc_def)

lemma default_window_eq:
  "default_window now since until =
     (let last = (case until of None \<Rightarrow> now | Some u \<Rightarrow> utc u);
          first = (case since of None \<Rightarrow> last - seconds (30 * 24 * 60 * 60) | Some f \<Rightarrow> utc f)
      in (min first last, max first last))"
  by (simp add: default_window_def Let_def days_def DEFAULT_SUMMARY_DAYS_def min_def max_def split: option.split)

lemma totals_eq:
  "usage_totals_of rows =
     \<lparr>ut_jobs = length rows, ut_open_jobs = length (filter (\<lambda>r. ps_state r \<in> {''open'', ''draining''}) rows),
      ut_closed_jobs = length (filter (\<lambda>r. ps_state r = ''closed'') rows),
      ut_billed_wei = sum_list (map row_bill rows), ut_refunded_wei = sum_list (map row_refund rows),
      ut_held_wei = sum_list (map row_hold rows)\<rparr>"
  using totals_are_sums(2) [of rows] by (simp add: usage_totals_of_def row_figures OPEN_STATES_def)

text \<open>C38. A summary is exact. It always returns and changes nothing. Its window runs from \<open>since\<close>, or thirty days
  before its end, to \<open>until\<close>, or now, ends swapped if they are the wrong way round; its rows are the engagements opened in
  the window, of the customer or of the fleet. The totals are the numbers and sums over these rows. Every breakdown
  has exactly one entry per offering, key, day and, for the fleet, user that occurs among the rows, and each entry has
  the number, the bills, and where it shows them the units and holds, of exactly its own rows; so every breakdown adds
  up to the totals.\<close>

theorem summary_adds_up:
  "\<exists>s. summarize now user_id since until include_users db = (Inr s, db) \<and>
     (let last = (case until of None \<Rightarrow> now | Some u \<Rightarrow> utc u);
          first = (case since of None \<Rightarrow> last - seconds (30 * 24 * 60 * 60) | Some f \<Rightarrow> utc f);
          rows = sort_key ps_opened_at (filter (\<lambda>r. (case user_id of None \<Rightarrow> True | Some u \<Rightarrow> ps_user_id r = u) \<and>
            min first last \<le> ps_opened_at r \<and> ps_opened_at r < max first last) (sessions db));
          t = sm_totals s
      in sm_since s = min first last \<and> sm_until s = max first last \<and>
         t = \<lparr>ut_jobs = length rows, ut_open_jobs = length (filter (\<lambda>r. ps_state r \<in> {''open'', ''draining''}) rows),
           ut_closed_jobs = length (filter (\<lambda>r. ps_state r = ''closed'') rows),
           ut_billed_wei = sum_list (map row_bill rows), ut_refunded_wei = sum_list (map row_refund rows),
           ut_held_wei = sum_list (map row_hold rows)\<rparr> \<and>
         one_per_key (\<lambda>ou. (ou_capability ou, ou_offering ou)) (sm_by_offering s)
           (\<lambda>r. (ps_capability r, ps_offering r)) rows \<and>
         list_all (\<lambda>ou. let own = filter (\<lambda>r. ps_capability r = ou_capability ou \<and> ps_offering r = ou_offering ou) rows in
           ou = \<lparr>ou_capability = ou_capability ou, ou_offering = ou_offering ou,
             ou_protocol = ps_protocol (hd own), ou_work_unit = work_unit_of (hd own), ou_jobs = length own,
             ou_units = sum_list (map row_units own), ou_billed_wei = sum_list (map row_bill own),
             ou_held_wei = sum_list (map row_hold own)\<rparr>) (sm_by_offering s) \<and>
         one_per_key ku_api_key_id (sm_by_api_key s) ps_api_key_id rows \<and>
         list_all (\<lambda>ku. let own = filter (\<lambda>r. ps_api_key_id r = ku_api_key_id ku) rows in
           ku = \<lparr>ku_api_key_id = ku_api_key_id ku,
             ku_label = map_option ak_label (find (\<lambda>k. ak_id k = ku_api_key_id ku) (api_keys db)),
             ku_jobs = length own, ku_billed_wei = sum_list (map row_bill own)\<rparr>) (sm_by_api_key s) \<and>
         one_per_key du_day (sm_by_day s) (\<lambda>r. closing_day r) rows \<and> sorted (map du_day (sm_by_day s)) \<and>
         list_all (\<lambda>d. let own = filter (\<lambda>r. closing_day r = du_day d) rows in
           d = \<lparr>du_day = du_day d, du_jobs = length own, du_billed_wei = sum_list (map row_bill own)\<rparr>) (sm_by_day s) \<and>
         (case sm_by_user s of
            None \<Rightarrow> \<not> include_users
          | Some us \<Rightarrow> include_users \<and> one_per_key uu_user_id us ps_user_id rows \<and>
              list_all (\<lambda>uu. let own = filter (\<lambda>r. ps_user_id r = uu_user_id uu) rows in
                uu = \<lparr>uu_user_id = uu_user_id uu,
                  uu_email = map_option us_email (find (\<lambda>u. us_id u = uu_user_id uu) (users db)),
                  uu_jobs = length own, uu_billed_wei = sum_list (map row_bill own),
                  uu_held_wei = sum_list (map row_hold own)\<rparr>) us \<and>
              (sum_list (map uu_jobs us), sum_list (map uu_billed_wei us), sum_list (map uu_held_wei us)) =
                (ut_jobs t, ut_billed_wei t, ut_held_wei t)) \<and>
         (sum_list (map ou_jobs (sm_by_offering s)), sum_list (map ou_billed_wei (sm_by_offering s)),
          sum_list (map ou_held_wei (sm_by_offering s))) = (ut_jobs t, ut_billed_wei t, ut_held_wei t) \<and>
         (sum_list (map ku_jobs (sm_by_api_key s)), sum_list (map ku_billed_wei (sm_by_api_key s))) =
           (ut_jobs t, ut_billed_wei t) \<and>
         (sum_list (map du_jobs (sm_by_day s)), sum_list (map du_billed_wei (sm_by_day s))) =
           (ut_jobs t, ut_billed_wei t))"
proof -
  obtain a b where w: "default_window now since until = (a, b)" by force
  define rows where "rows = window_rows db user_id (a, b)"
  obtain s where s: "summarize now user_id since until include_users db = (Inr s, db)"
    "sm_since s = a" "sm_until s = b" "sm_totals s = usage_totals_of rows" "sm_by_offering s = by_offering rows"
    "sm_by_api_key s = by_api_key (labels_for db (map ps_api_key_id rows)) rows" "sm_by_day s = by_day rows"
    "sm_by_user s = (if include_users then Some (by_user (emails_for db (map ps_user_id rows)) rows) else None)"
    by (rule that [of "\<lparr>sm_since = a, sm_until = b, sm_totals = usage_totals_of rows, sm_by_offering = by_offering rows,
        sm_by_api_key = by_api_key (labels_for db (map ps_api_key_id rows)) rows, sm_by_day = by_day rows,
        sm_by_user = (if include_users then Some (by_user (emails_for db (map ps_user_id rows)) rows) else None)\<rparr>"])
      (simp_all add: summarize_def w rows_def Let_def ret_def bind_assoc)
  from w have ab: "min (case since of None \<Rightarrow> (case until of None \<Rightarrow> now | Some u \<Rightarrow> utc u) - seconds (30 * 24 * 60 * 60)
      | Some f \<Rightarrow> utc f) (case until of None \<Rightarrow> now | Some u \<Rightarrow> utc u) = a"
    "max (case since of None \<Rightarrow> (case until of None \<Rightarrow> now | Some u \<Rightarrow> utc u) - seconds (30 * 24 * 60 * 60)
      | Some f \<Rightarrow> utc f) (case until of None \<Rightarrow> now | Some u \<Rightarrow> utc u) = b"
    unfolding default_window_eq Let_def by simp_all
  show ?thesis
    unfolding Let_def ab window_rows_eq [symmetric] rows_def [symmetric]
    by (rule exI [of _ s], intro conjI)
      (simp_all only: s totals_eq [of rows, symmetric] by_offering_groups by_api_key_groups by_day_groups by_user_groups
        by_offering_sums by_api_key_sums by_day_sums by_user_sums if_True if_False option.case simp_thms split: if_split)
qed

end
