(* ===== verification/Spec2Isabelle.thy ===== *)
theory Spec2Isabelle
  imports Wholesale_Properties Endpoint_Properties Office_Properties Notifications_Properties Usage_Properties
begin

text \<open>
  A verification development of the Livepeer open clearinghouse (LOC, \<open>src/src/livepeer_open_clearinghouse\<close>).

  \<^bold>\<open>The program.\<close> LOC sells work of the Livepeer network to customers with a prepaid balance in wei. A customer
  signs up, is approved by an operator and gets an initial credit and API keys. With a key, the customer opens a
  paid \<^emph>\<open>job\<close> (one exchange) or a paid \<^emph>\<open>session\<close> (refillable). Both are an \<^emph>\<open>engagement\<close>, a row of
  \<open>payment_session\<close>: LOC holds the worst-case price of it from the balance, has its payer daemon sign a spend
  authorization (a \<^emph>\<open>grant\<close>) for the broker that serves the route, and keeps one shared \<^emph>\<open>wholesale account\<close> per
  payee funded within the operator's limits. The broker later signs a settlement; LOC verifies it against the keys and
  prices pinned when the engagement was opened, bills the customer and releases the rest of the hold. Janitors
  recover what a client abandons, and an operator can resolve what never settles. Creating requests are idempotent
  under a client-chosen key. Notifications tell customers about it by mail, banner and webhook.

  \<^bold>\<open>How the program is modelled.\<close>
  The database is one record that each domain extends by its tables:
  \<open>billing_db\<close> (\<open>Billing\<close>), \<open>wholesale_db\<close> (\<open>Wholesale\<close>), \<open>sessions_db\<close> (\<open>Engagements\<close>), \<open>clearing_db\<close> (\<open>Payments\<close>),
  \<open>office_db\<close> (\<open>Accounts\<close>), \<open>admin_db\<close> (\<open>Operators\<close>), and from there \<open>notify_db\<close> (\<open>Notifications\<close>) and \<open>usage_db\<close> (\<open>Usage\<close>). A table is the list of its rows,
  a row a record with the columns of the SQLAlchemy class. Operations are polymorphic in the extension, so a lemma about
  billing holds of the whole database. An operation is a function from the state to a state with either an error or a
  value (\<open>op\<close> in \<open>Prelude\<close>), so that each raise and early return of the code is a branch, and what was written
  before a raise is still visible in the state. \<open>txn\<close> keeps the committed and the working database:
  \<open>commit\<close> and \<open>rollback\<close> are where the code has them, and \<open>session_scope\<close> (\<open>providers/db/engine.py\<close>) is the
  transaction around a request.
  Whole-wei decimals are integers; the one place that divides decimals, the retail price, is computed in the
  28-digit context (\<open>Decimals\<close>); percentages and durations that are only shown are exact quotients. Instants are integer microseconds.

  What is not in the repository is an argument: SHA-256, argon2 and HMAC, the cookie signer, the public-key
  recovery and the parser of signed records (record \<open>verifier\<close>), the canonical JSON text, the answers of the
  payer daemon, of the brokers, of the mail service and of the customers' webhook receivers, the clock and fresh
  UUIDs. Where a theorem needs something of them (a digest that is injective on the values at hand, a codec that
  round-trips), it is a named hypothesis, and its witness has a concrete instance. A concurrent writer is another
  request between two transactions; inside a transaction the row locks of the code make it sequential.
  Every operation is a total function; loops recurse on the list they walk or on the attempts that are left, so no fuel
  is needed anywhere.

  \<^bold>\<open>The theories.\<close>
  \<^item> \<open>Prelude\<close>: scalar types, errors, operations and their evaluation rules (\<open>op_simps\<close>, \<open>op_iff\<close>), transactions, and the
    two locales every state machine uses: \<open>transition_system\<close> (an invariant holds in every reachable state) and
    \<open>monotone_rows\<close> (a row found by its key only moves up an order). \<open>Triples\<close>: a small Hoare logic for operations.
  \<^item> \<open>Decimals\<close>, \<open>Encoding\<close>, \<open>Base64\<close>: rounding of decimal quotients, decimal strings, hexadecimal and big-endian integers,
    base 64, with their round trips (\<open>providers/wire.py\<close>, parts of the daemon clients).
  \<^item> \<open>Billing\<close>, \<open>Billing_Laws\<close>, \<open>Billing_Properties\<close>: \<open>domains/billing\<close>. Balances, the append-only ledger, spend windows, holds,
    releases, the retail price, configuration, the replenish job. A balance is the sum of its ledger and is never
    negative; a window never exceeds its cap; an engagement is held and released at most once (locale \<open>keyed_entry\<close>, three
    interpretations); the charge is the exact ceiling of the policy.
  \<^item> \<open>Routes\<close>, \<open>Daemon\<close>, \<open>Broker\<close>: what LOC accepts from the registry, the payer daemon and the brokers
    (\<open>providers/registry_daemon/client.py\<close>, \<open>providers/payment_daemon/client.py\<close>, \<open>providers/broker_settlement.py\<close>): types with
    their validators, the bound choice of a route, the comparison of a signed authorization with the request, the
    status and body checks of an exchange.
  \<^item> \<open>Settlement\<close>, \<open>Settlement_Properties\<close>: \<open>providers/settlement_verification.py\<close>. What an accepted envelope guarantees: a
    key delegated at the time of signing, the expected identity, the normative bill within the authorization.
  \<^item> \<open>Wholesale\<close>, \<open>Wholesale_Laws\<close>, \<open>Wholesale_Properties\<close>: \<open>domains/wholesale\<close>. The exposure budget equals the operator's exposure
    in every reachable state, claims stay within the limits, a funding only moves forward, a completed one is
    acknowledged with the minted value.
  \<^item> \<open>Engagements\<close>, \<open>Sessions\<close>, \<open>Cap_Status\<close>: \<open>domains/sessions\<close> and the issuing of authorizations of
    \<open>domains/payments/service.py\<close>. \<open>Payments\<close>: the ledger of create requests, payment rows and deposit snapshots.
    \<open>Jobs\<close>: \<open>domains/jobs/service.py\<close>. \<open>Resolution\<close>: \<open>resolve_stuck_work\<close> of \<open>domains/admin/service.py\<close>. \<open>Endpoints\<close>: the creating
    handlers of \<open>domains/jobs/runtime.py\<close> and \<open>domains/sessions/runtime.py\<close> and the rendering of errors (\<open>errors.py\<close>).
  \<^item> \<open>Engagements_Laws\<close>, \<open>Sessions_Laws\<close>, \<open>Jobs_Laws\<close>, \<open>Resolution_Laws\<close>, \<open>Endpoint_Laws\<close>, \<open>Request_Invariants\<close>, \<open>Job_Recovery\<close>: every
    operation keeps the accounting invariant. The chain of locales \<open>customer_invariant\<close>, \<open>request_invariant\<close>,
    \<open>clearing_invariant\<close>, \<open>recovery_invariant\<close>, \<open>request_rows\<close> states which primitive writes a property has to survive in order
    to survive every request; it is interpreted for the ledger, for the order of grants and for the
    engagement accounting.
  \<^item> \<open>Engagement_System\<close>: all requests, operator actions and janitors as one step relation, \<open>engagement_step\<close>, with its
    interpretations. \<open>Sessions_Properties\<close>, \<open>Payments_Properties\<close>, \<open>Jobs_Properties\<close>, \<open>Resolution_Properties\<close>, \<open>Endpoint_Properties\<close>:
    in every reachable database the ledger holds exactly the cap of a live and the bill of a closed engagement and the
    customers' books balance; a closed engagement and a terminal grant are final; settling, releasing and resolving
    move exactly what they say; the abstract \<open>hold_step\<close> (the type class order on \<open>hold\<close>) is refined; a repeated request gets the first answer and
    creates nothing. \<open>Session_Example\<close> and \<open>Job_Example\<close> evaluate one session and one job, to which the theorems are applied.
  \<^item> \<open>Mail\<close>: \<open>providers/email/templates.py\<close>; what is interpolated into HTML is escaped.
  \<^item> \<open>Accounts\<close>: \<open>domains/accounts\<close>, \<open>domains/api_keys\<close> and the customer dependencies of \<open>dependencies.py\<close>. \<open>Operators\<close>: the
    operations of \<open>domains/admin/service.py\<close> that change a row, with their role checks. \<open>Office_Laws\<close> (\<open>office_step\<close>),
    \<open>Office_Example\<close>, \<open>Office_Properties\<close>: well-formed tables, no way back from a revocation, the way from a signup to a
    session, one initial credit per approval, an owner who always remains.
  \<^item> \<open>Notifications\<close>, \<open>Notifications_Properties\<close>: \<open>domains/notifications\<close>. Inbound signatures and events, preferences and their
    fan-out, banners, outbound webhooks with their bounded retries.
  \<^item> \<open>Usage\<close>, \<open>Usage_Properties\<close>: \<open>domains/usage\<close>. The pages of jobs, the summary of a window, the customer's overview and the
    operators' attention list. Each breakdown adds up to its totals (locale \<open>column\<close>, eight interpretations), and since every
    engagement is sold at the wholesale price (\<open>pass_through\<close>, part of the engagement invariant), what the dashboard
    shows as available, held, billed and refunded is what the ledger has.

  \<^bold>\<open>Not modelled.\<close>
  The listings of users, audit entries and SDK builds and the discovery catalog are read-only SQL aggregates or
  formatted answers of the registry, on which no decision about money or access rests. Telemetry writes events, counters
  and logs; only the attention list reads its table, which is part of \<open>Usage\<close>. The rate
  limiter computes with binary floating point on the process clock. Settings, wiring and the scheduler are
  calls into FastAPI, APScheduler and SQLAlchemy; the settings that matter are arguments. Manifest signing calls an
  Ed25519 library. The gRPC transports and the in-memory mocks of the daemons, the Python SDK, which is a client
  generated from the OpenAPI document, and the conformance harness, which drives containers, are outside the service.
\<close>

end
